(* ===== verification/Mes_Prelude.thy ===== *)
theory Mes_Prelude
  imports Complex_Main "HOL-Library.Word"
begin

text \<open>
  Shared vocabulary of the development: faults and results, the accessors of a parsed JSON
  request body, SQL tables as lists of rows, the Drogon transaction, 32-bit range checks,
  decimal printing and string search of the C++ standard library, and the interface
  \<open>step_invariant\<close> that every state machine of the library instantiates.
\<close>

named_theorems table_simps "facts about rows updated and selected in a table"
named_theorems fault_simps "facts about results"

section \<open>Faults and results\<close>

text \<open>
  A service function of the backend either returns a value or leaves by an exception:
  an \<open>ApiException\<close> (HTTP code and message), a failed SQL statement, a type error of a
  JSON accessor, another standard exception, or undefined behaviour of C++ (signed overflow).
\<close>

datatype fault =
    ApiError int string
  | SqlError string
  | JsonError
  | StdError string
  | Undefined string

type_synonym 'a result = "fault + 'a"

abbreviation BadRequest :: "string \<Rightarrow> fault" where
  "BadRequest m \<equiv> ApiError 400 m"
abbreviation Unauthorized :: "string \<Rightarrow> fault" where
  "Unauthorized m \<equiv> ApiError 401 m"
abbreviation Forbidden :: "string \<Rightarrow> fault" where
  "Forbidden m \<equiv> ApiError 403 m"
abbreviation NotFound :: "string \<Rightarrow> fault" where
  "NotFound m \<equiv> ApiError 404 m"
abbreviation Conflict :: "string \<Rightarrow> fault" where
  "Conflict m \<equiv> ApiError 409 m"
abbreviation Internal :: "string \<Rightarrow> fault" where
  "Internal m \<equiv> ApiError 500 m"

fun is_ok :: "'a result \<Rightarrow> bool" where
  "is_ok (Inr v) = True"
| "is_ok (Inl f) = False"

lemma is_ok_iff [fault_simps]: "is_ok r \<longleftrightarrow> (\<exists>v. r = Inr v)"
  by (cases r) auto

lemma not_is_ok_iff [fault_simps]: "\<not> is_ok r \<longleftrightarrow> (\<exists>f. r = Inl f)"
  by (cases r) auto

text \<open>
  What an asynchronous operation does with its two continuations: it calls the one for success, the
  one for errors (code and message), leaves by an exception, calls neither, or runs into undefined behaviour.
\<close>

datatype 'a reply = Answer 'a | Refuse int string | Thrown | Silent | Undetermined

section \<open>Fields of a JSON request body\<close>

text \<open>
  What a key of a parsed JSON object holds for an accessor of a given C++ type: nothing, a
  value that converts to the type, or a value that does not (the accessor throws).
\<close>

datatype 'a field = Absent | Given 'a | IllTyped

fun field_value :: "'a \<Rightarrow> 'a field \<Rightarrow> 'a result" where
  "field_value d Absent = Inr d"
| "field_value d (Given v) = Inr v"
| "field_value d IllTyped = Inl JsonError"

fun contains :: "'a field \<Rightarrow> bool" where
  "contains Absent = False"
| "contains f = True"

lemma field_value_Inr [fault_simps]:
  "field_value d f = Inr v \<longleftrightarrow> (f = Absent \<and> v = d) \<or> f = Given v"
  by (cases f) auto

lemma field_value_Inl [fault_simps]:
  "field_value d f = Inl e \<longleftrightarrow> f = IllTyped \<and> e = JsonError"
  by (cases f) auto

lemma contains_iff [fault_simps]: "contains f \<longleftrightarrow> f \<noteq> Absent"
  by (cases f) auto

text \<open>JSON documents the backend builds; an object keeps the order of its keys.\<close>

datatype json =
    JNull
  | JBool bool
  | JInt int
  | JReal rat
  | JStr string
  | JArr "json list"
  | JObj "(string \<times> json) list"

text \<open>
  The typed accessors of an object: on anything but an object, and on a value of another type,
  they throw.
\<close>

fun jstr :: "string \<Rightarrow> json \<Rightarrow> string field" where
  "jstr k (JObj kvs) =
     (case map_of kvs k of None \<Rightarrow> Absent | Some (JStr s) \<Rightarrow> Given s | Some _ \<Rightarrow> IllTyped)"
| "jstr k _ = IllTyped"

fun jint :: "string \<Rightarrow> json \<Rightarrow> int field" where
  "jint k (JObj kvs) =
     (case map_of kvs k of None \<Rightarrow> Absent | Some (JInt i) \<Rightarrow> Given i | Some _ \<Rightarrow> IllTyped)"
| "jint k _ = IllTyped"

fun jreal :: "string \<Rightarrow> json \<Rightarrow> rat field" where
  "jreal k (JObj kvs) =
     (case map_of kvs k of None \<Rightarrow> Absent | Some (JInt i) \<Rightarrow> Given (of_int i)
      | Some (JReal r) \<Rightarrow> Given r | Some _ \<Rightarrow> IllTyped)"
| "jreal k _ = IllTyped"

fun jarr :: "string \<Rightarrow> json \<Rightarrow> json list field" where
  "jarr k (JObj kvs) =
     (case map_of kvs k of None \<Rightarrow> Absent | Some (JArr xs) \<Rightarrow> Given xs | Some _ \<Rightarrow> IllTyped)"
| "jarr k _ = IllTyped"

section \<open>Integers of a fixed width\<close>

definition int32_ok :: "int \<Rightarrow> bool" where
  "int32_ok i \<longleftrightarrow> - 2147483648 \<le> i \<and> i \<le> 2147483647"

definition int16_ok :: "int \<Rightarrow> bool" where
  "int16_ok i \<longleftrightarrow> - 32768 \<le> i \<and> i \<le> 32767"

definition int64_ok :: "int \<Rightarrow> bool" where
  "int64_ok i \<longleftrightarrow> - 9223372036854775808 \<le> i \<and> i \<le> 9223372036854775807"

section \<open>SQL tables\<close>

text \<open>\<open>UPDATE t SET .. WHERE p\<close> on a table held as a list of rows.\<close>

definition upd_where :: "('r \<Rightarrow> bool) \<Rightarrow> ('r \<Rightarrow> 'r) \<Rightarrow> 'r list \<Rightarrow> 'r list" where
  "upd_where p f rows = map (\<lambda>r. if p r then f r else r) rows"

text \<open>The first row a \<open>SELECT\<close> returns.\<close>

fun first_row :: "('r \<Rightarrow> bool) \<Rightarrow> 'r list \<Rightarrow> 'r option" where
  "first_row p [] = None"
| "first_row p (r # rows) = (if p r then Some r else first_row p rows)"

lemma length_upd_where [simp, table_simps]: "length (upd_where p f xs) = length xs"
  by (simp add: upd_where_def)

lemma upd_where_Nil [simp]: "upd_where p f [] = []"
  by (simp add: upd_where_def)

lemma upd_where_Cons [simp]:
  "upd_where p f (x # xs) = (if p x then f x else x) # upd_where p f xs"
  by (simp add: upd_where_def)

lemma set_upd_where [table_simps]: "set (upd_where p f xs) = (\<lambda>r. if p r then f r else r) ` set xs"
  by (simp add: upd_where_def)

lemma map_key_upd_where [simp]:
  assumes "\<And>r. k (f r) = k r"
  shows "map k (upd_where p f xs) = map k xs"
  using assms by (simp add: upd_where_def)

lemma upd_where_id:
  assumes "\<And>r. r \<in> set xs \<Longrightarrow> \<not> p r"
  shows "upd_where p f xs = xs"
  using assms by (induction xs) auto

lemma upd_where_all:
  assumes "\<forall>r\<in>set xs. P r" and "\<And>r. r \<in> set xs \<Longrightarrow> p r \<Longrightarrow> P r \<Longrightarrow> P (f r)"
  shows "\<forall>r\<in>set (upd_where p f xs). P r"
  using assms by (auto simp: set_upd_where)

lemma upd_where_other:
  assumes "\<And>r. p r \<Longrightarrow> p (f r)" and "\<not> p w"
  shows "w \<in> set (upd_where p f xs) \<longleftrightarrow> w \<in> set xs"
  using assms by (induction xs) auto

lemma upd_where_hit:
  assumes "\<And>r. p r \<Longrightarrow> Q (f r)" and "w \<in> set (upd_where p f xs)" and "p w"
  shows "Q w"
  using assms(2,3) by (induction xs) (auto simp: assms(1) split: if_splits)

lemma first_row_None [table_simps]: "first_row p xs = None \<longleftrightarrow> (\<forall>r\<in>set xs. \<not> p r)"
  by (induction xs) auto

lemma first_row_SomeD: "first_row p xs = Some r \<Longrightarrow> r \<in> set xs \<and> p r"
  by (induction xs) (auto split: if_splits)

lemma first_row_ex: "r \<in> set xs \<Longrightarrow> p r \<Longrightarrow> \<exists>r'. first_row p xs = Some r'"
  by (induction xs) auto

lemma first_row_unique:
  assumes "r \<in> set xs" and "p r" and "\<And>q. q \<in> set xs \<Longrightarrow> p q \<Longrightarrow> q = r"
  shows "first_row p xs = Some r"
  using assms by (metis first_row_SomeD first_row_ex)

lemma distinct_key_eq:
  assumes "distinct (map k xs)" and "a \<in> set xs" and "b \<in> set xs" and "k a = k b"
  shows "a = b"
  using assms by (metis distinct_map inj_onD)

lemma first_row_key:
  assumes "distinct (map k xs)" and "r \<in> set xs"
  shows "first_row (\<lambda>q. k q = k r) xs = Some r"
  using assms by (intro first_row_unique) (auto dest: distinct_key_eq)

lemma sum_list_upd_where_one:
  fixes g :: "'r \<Rightarrow> int"
  assumes "distinct (map k xs)" and "r \<in> set xs" and "p r"
    and "\<And>q. q \<in> set xs \<Longrightarrow> p q \<Longrightarrow> k q = k r"
    and "g (f r) = g r + d"
  shows "sum_list (map g (upd_where p f xs)) = sum_list (map g xs) + d"
  using assms
proof (induction xs)
  case (Cons x xs)
  show ?case
  proof (cases "x = r")
    case True
    have "\<not> p q" if "q \<in> set xs" for q
    proof
      assume "p q"
      with that Cons.prems(4) True have "k q = k x" by simp
      moreover have "k q \<in> k ` set xs" using that by (rule imageI)
      ultimately show False using Cons.prems(1) by simp
    qed
    then have "upd_where p f xs = xs" by (rule upd_where_id)
    with Cons.prems(3,5) True show ?thesis by simp
  next
    case False
    with Cons.prems(2) have "r \<in> set xs" by simp
    then have "k r \<in> k ` set xs" by (rule imageI)
    then have "k x \<noteq> k r" using Cons.prems(1) by auto
    then have "\<not> p x" using Cons.prems(4) [of x] by (meson list.set_intros(1))
    moreover have "sum_list (map g (upd_where p f xs)) = sum_list (map g xs) + d"
    proof (rule Cons.IH)
      show "distinct (map k xs)" using Cons.prems(1) by simp
      show "\<And>q. q \<in> set xs \<Longrightarrow> p q \<Longrightarrow> k q = k r" using Cons.prems(4) by (meson list.set_intros(2))
    qed (fact \<open>r \<in> set xs\<close> Cons.prems(3) Cons.prems(5))+
    ultimately show ?thesis by simp
  qed
qed simp

lemma sum_list_upd_where_same:
  fixes g :: "'r \<Rightarrow> int"
  assumes "\<And>r. r \<in> set xs \<Longrightarrow> p r \<Longrightarrow> g (f r) = g r"
  shows "sum_list (map g (upd_where p f xs)) = sum_list (map g xs)"
  using assms by (induction xs) auto

section \<open>Drogon transactions\<close>

text \<open>
  A body runs on the tables and either fails or returns. A failed SQL statement aborts the
  PostgreSQL transaction, so nothing of it stays. Any other exception only destroys the
  transaction object: what the driver's destructor then does with the statements already
  executed is the parameter \<open>abandon\<close> (tables before, tables now). On success the
  coroutine awaits the commit, whose outcome is \<open>commit_ok\<close>.
\<close>

type_synonym ('s, 'a) proc = "'s \<Rightarrow> 'a result \<times> 's"

definition transaction ::
  "('s \<Rightarrow> 's \<Rightarrow> 's) \<Rightarrow> bool \<Rightarrow> string \<Rightarrow> ('s, 'a) proc \<Rightarrow> ('s, 'a) proc" where
  "transaction abandon commit_ok msg body s =
    (case body s of
       (Inl (SqlError m), s') \<Rightarrow> (Inl (SqlError m), s)
     | (Inl e, s') \<Rightarrow> (Inl e, abandon s s')
     | (Inr v, s') \<Rightarrow> if commit_ok then (Inr v, s') else (Inl (Internal msg), s))"

text \<open>The two readings of an abandoned transaction the sources mention.\<close>

definition rolls_back :: "'s \<Rightarrow> 's \<Rightarrow> 's" where
  "rolls_back before now = before"

definition commits_on_destruction :: "'s \<Rightarrow> 's \<Rightarrow> 's" where
  "commits_on_destruction before now = now"

lemma transaction_rolls_back_cases:
  "snd (transaction rolls_back ok msg body s) = s \<or>
   (\<exists>v. body s = (Inr v, snd (transaction rolls_back ok msg body s)) \<and> ok)"
  by (cases "body s") (auto simp: transaction_def rolls_back_def split: sum.splits fault.splits)

lemma transaction_ok_iff:
  "fst (transaction abandon ok msg body s) = Inr v \<longleftrightarrow> fst (body s) = Inr v \<and> ok"
  by (cases "body s") (auto simp: transaction_def split: sum.splits fault.splits)

lemma transaction_ok_state:
  "fst (transaction abandon ok msg body s) = Inr v \<Longrightarrow>
   snd (transaction abandon ok msg body s) = snd (body s)"
  by (cases "body s") (auto simp: transaction_def split: sum.splits fault.splits)

section \<open>Runs of a state machine\<close>

text \<open>
  The contract every component with an invariant meets: each event keeps the invariant, hence
  so does every finite sequence of events.
\<close>

locale step_invariant =
  fixes step :: "'e \<Rightarrow> 's \<Rightarrow> 's" and inv :: "'s \<Rightarrow> bool"
  assumes step_keeps: "inv s \<Longrightarrow> inv (step e s)"
begin

lemma run_keeps: "inv s \<Longrightarrow> inv (fold step es s)"
  by (induction es arbitrary: s) (simp_all add: step_keeps)

lemma run_prefix: "inv s \<Longrightarrow> inv (fold step (take n es) s)"
  by (rule run_keeps)

end

text \<open>A machine that also moves every state only along a transitive relation.\<close>

locale step_monotone =
  fixes step :: "'e \<Rightarrow> 's \<Rightarrow> 's" and moves :: "'s \<Rightarrow> 's \<Rightarrow> bool"
  assumes step_moves: "moves s (step e s)"
    and moves_refl: "moves s s"
    and moves_trans: "moves a b \<Longrightarrow> moves b c \<Longrightarrow> moves a c"
begin

lemma run_moves: "moves s (fold step es s)"
  by (induction es arbitrary: s) (auto intro: moves_refl moves_trans step_moves)

end

section \<open>Strings of the C++ standard library\<close>

fun nat_digits :: "nat \<Rightarrow> string" where
  "nat_digits n = (if n < 10 then [char_of (48 + n)]
                   else nat_digits (n div 10) @ [char_of (48 + n mod 10)])"

declare nat_digits.simps [simp del]

definition to_string :: "int \<Rightarrow> string" where
  "to_string i = (if i < 0 then CHR ''-'' # nat_digits (nat (- i)) else nat_digits (nat i))"

text \<open>\<open>%0wd\<close> for a non-negative number.\<close>

definition pad_num :: "nat \<Rightarrow> int \<Rightarrow> string" where
  "pad_num w n = replicate (w - length (to_string n)) (CHR ''0'') @ to_string n"

text \<open>\<open>s.find(c)\<close>: the first index of a character.\<close>

fun find_char :: "char \<Rightarrow> string \<Rightarrow> nat option" where
  "find_char c [] = None"
| "find_char c (x # xs) = (if x = c then Some 0 else map_option Suc (find_char c xs))"

text \<open>\<open>s.rfind(c)\<close>: the last index of a character.\<close>

fun rfind_char :: "char \<Rightarrow> string \<Rightarrow> nat option" where
  "rfind_char c [] = None"
| "rfind_char c (x # xs) =
     (case rfind_char c xs of Some i \<Rightarrow> Some (Suc i) | None \<Rightarrow> if x = c then Some 0 else None)"

fun starts_with :: "string \<Rightarrow> string \<Rightarrow> bool" where
  "starts_with [] s = True"
| "starts_with (p # ps) [] = False"
| "starts_with (p # ps) (c # cs) \<longleftrightarrow> p = c \<and> starts_with ps cs"

text \<open>\<open>s.find(sub) != npos\<close>.\<close>

fun has_substring :: "string \<Rightarrow> string \<Rightarrow> bool" where
  "has_substring sub [] = (sub = [])"
| "has_substring sub (c # cs) \<longleftrightarrow> starts_with sub (c # cs) \<or> has_substring sub cs"

lemma find_char_Some [simp]: "find_char c (a @ c # b) = Some (length a)" if "c \<notin> set a"
  using that by (induction a) auto

lemma find_char_None: "find_char c s = None \<longleftrightarrow> c \<notin> set s"
  by (induction s) auto

lemma find_char_bound: "find_char c s = Some i \<Longrightarrow> i < length s \<and> s ! i = c \<and> c \<notin> set (take i s)"
  by (induction s arbitrary: i) (auto split: if_splits)

lemma starts_with_append [simp]: "starts_with p (p @ s)"
  by (induction p) auto

lemma starts_with_iff: "starts_with p s \<longleftrightarrow> (\<exists>t. s = p @ t)"
  by (induction p s rule: starts_with.induct) auto

lemma nat_digits_nonempty [simp]: "nat_digits n \<noteq> []"
  by (subst nat_digits.simps) simp

lemma nat_digits_digit: "c \<in> set (nat_digits n) \<Longrightarrow> \<exists>d<10. c = char_of (48 + d :: nat)"
proof (induction n rule: nat_digits.induct)
  case (1 n)
  show ?case
  proof (cases "n < 10")
    case True
    with 1 show ?thesis by (auto simp: nat_digits.simps [of n])
  next
    case False
    then have "c \<in> set (nat_digits (n div 10)) \<or> c = char_of (48 + n mod 10)"
      using 1(2) by (auto simp: nat_digits.simps [of n])
    then show ?thesis
    proof
      assume "c \<in> set (nat_digits (n div 10))"
      with 1(1) False show ?thesis by blast
    next
      assume "c = char_of (48 + n mod 10)"
      then show ?thesis by (intro exI [of _ "n mod 10"]) simp
    qed
  qed
qed

end
