(* ===== verification/Work_Order_SM.thy ===== *)
theory Work_Order_SM
  imports Mes_Prelude "HOL-Library.Sublist"
begin

text \<open>
  The eight-state machine of work orders (\<open>models/WorkOrderStateMachine.hh\<close>): the status
  constants, the events, the transition table and the functions that read it. The relation
  \<open>legal_move\<close> is the specification the table is checked against; \<open>wo_run\<close> is the effect of
  a sequence of requests, a refused event leaving the status as it was.
\<close>

section \<open>Statuses, events and the table\<close>

abbreviation (input) kPendingSchedule :: int where "kPendingSchedule \<equiv> 0"
abbreviation (input) kScheduled :: int where "kScheduled \<equiv> 1"
abbreviation (input) kReleased :: int where "kReleased \<equiv> 2"
abbreviation (input) kInProgress :: int where "kInProgress \<equiv> 3"
abbreviation (input) kPaused :: int where "kPaused \<equiv> 4"
abbreviation (input) kCompleted :: int where "kCompleted \<equiv> 5"
abbreviation (input) kClosed :: int where "kClosed \<equiv> 6"
abbreviation (input) kCancelled :: int where "kCancelled \<equiv> 7"

datatype wo_event = Schedule | Release | Start | Pause | Complete | Close | Cancel

definition kTable :: "(int \<times> wo_event \<times> int) list" where
  "kTable =
    [(kPendingSchedule, Schedule, kScheduled),
     (kScheduled, Release, kReleased),
     (kReleased, Start, kInProgress),
     (kInProgress, Pause, kPaused),
     (kPaused, Start, kInProgress),
     (kInProgress, Complete, kCompleted),
     (kCompleted, Close, kClosed),
     (kPendingSchedule, Cancel, kCancelled),
     (kScheduled, Cancel, kCancelled),
     (kReleased, Cancel, kCancelled)]"

text \<open>The loops of \<open>next\<close> and \<open>canTransition\<close> over the table.\<close>

fun scan_event :: "(int \<times> wo_event \<times> int) list \<Rightarrow> int \<Rightarrow> wo_event \<Rightarrow> int" where
  "scan_event [] from_st ev = -1"
| "scan_event ((f, e, t) # rest) from_st ev =
     (if f = from_st \<and> e = ev then t else scan_event rest from_st ev)"

definition next_status :: "int \<Rightarrow> wo_event \<Rightarrow> int" where
  "next_status from_st ev = scan_event kTable from_st ev"

fun scan_target :: "(int \<times> wo_event \<times> int) list \<Rightarrow> int \<Rightarrow> int \<Rightarrow> bool" where
  "scan_target [] from_st to_st = False"
| "scan_target ((f, e, t) # rest) from_st to_st =
     (if f = from_st \<and> t = to_st then True else scan_target rest from_st to_st)"

definition canTransition :: "int \<Rightarrow> int \<Rightarrow> bool" where
  "canTransition from_st to_st =
    (if from_st = to_st then True else scan_target kTable from_st to_st)"

definition isTerminal :: "int \<Rightarrow> bool" where
  "isTerminal status \<longleftrightarrow> status = kClosed \<or> status = kCancelled"

text \<open>The Chinese labels are written as ASCII glosses.\<close>

definition statusName :: "int \<Rightarrow> string" where
  "statusName status =
    (if status = kPendingSchedule then ''pending''
     else if status = kScheduled then ''scheduled''
     else if status = kReleased then ''released''
     else if status = kInProgress then ''in_progress''
     else if status = kPaused then ''paused''
     else if status = kCompleted then ''completed''
     else if status = kClosed then ''closed''
     else if status = kCancelled then ''cancelled''
     else ''unknown'')"

section \<open>The specification of the life cycle\<close>

inductive legal_move :: "int \<Rightarrow> wo_event \<Rightarrow> int \<Rightarrow> bool" where
  schedule: "legal_move kPendingSchedule Schedule kScheduled"
| release: "legal_move kScheduled Release kReleased"
| start: "s = kReleased \<or> s = kPaused \<Longrightarrow> legal_move s Start kInProgress"
| pause: "legal_move kInProgress Pause kPaused"
| complete: "legal_move kInProgress Complete kCompleted"
| close: "legal_move kCompleted Close kClosed"
| cancel: "kPendingSchedule \<le> s \<Longrightarrow> s \<le> kReleased \<Longrightarrow> legal_move s Cancel kCancelled"

inductive_simps legal_move_iff: "legal_move s e t"
inductive_cases legal_moveE [elim]: "legal_move s e t"

lemma next_status_cases:
  "next_status s e =
    (case e of
       Schedule \<Rightarrow> if s = 0 then 1 else -1
     | Release \<Rightarrow> if s = 1 then 2 else -1
     | Start \<Rightarrow> if s = 2 \<or> s = 4 then 3 else -1
     | Pause \<Rightarrow> if s = 3 then 4 else -1
     | Complete \<Rightarrow> if s = 3 then 5 else -1
     | Close \<Rightarrow> if s = 5 then 6 else -1
     | Cancel \<Rightarrow> if s = 0 \<or> s = 1 \<or> s = 2 then 7 else -1)"
  by (cases e) (auto simp: next_status_def kTable_def)

lemma next_status_legal: "0 \<le> next_status s e \<longleftrightarrow> legal_move s e (next_status s e)"
  by (cases e) (auto simp: next_status_cases legal_move_iff)

lemma legal_move_next: "legal_move s e t \<longleftrightarrow> next_status s e = t \<and> 0 \<le> t"
  by (cases e) (auto simp: next_status_cases legal_move_iff)

lemma next_status_range: "next_status s e = -1 \<or> (1 \<le> next_status s e \<and> next_status s e \<le> 7)"
  by (cases e) (auto simp: next_status_cases)

lemma legal_move_range: "legal_move s e t \<Longrightarrow> 0 \<le> s \<and> s \<le> 5 \<and> 1 \<le> t \<and> t \<le> 7"
  by auto

lemma canTransition_legal: "canTransition s t \<longleftrightarrow> s = t \<or> (\<exists>e. legal_move s e t)"
proof -
  have "scan_target xs s t \<longleftrightarrow> (\<exists>e. (s, e, t) \<in> set xs)" for xs
    by (induction xs) (auto split: if_splits)
  moreover have "(s, e, t) \<in> set kTable \<longleftrightarrow> legal_move s e t" for e
    by (cases e) (auto simp: kTable_def legal_move_iff)
  ultimately show ?thesis by (simp add: canTransition_def)
qed

lemma isTerminal_stuck: "isTerminal s \<Longrightarrow> next_status s e = -1"
  by (cases e) (auto simp: isTerminal_def next_status_cases)

lemma nonterminal_moves:
  "0 \<le> s \<Longrightarrow> s \<le> 7 \<Longrightarrow> \<not> isTerminal s \<Longrightarrow> \<exists>e. 0 \<le> next_status s e"
proof -
  assume "0 \<le> s" "s \<le> 7" "\<not> isTerminal s"
  then have "s = 0 \<or> s = 1 \<or> s = 2 \<or> s = 3 \<or> s = 4 \<or> s = 5"
    by (auto simp: isTerminal_def)
  moreover have "0 \<le> next_status 0 Schedule" "0 \<le> next_status 1 Release"
    "0 \<le> next_status 2 Start" "0 \<le> next_status 3 Pause" "0 \<le> next_status 4 Start"
    "0 \<le> next_status 5 Close"
    by (simp_all add: next_status_cases)
  ultimately show ?thesis by blast
qed

section \<open>Runs\<close>

definition wo_apply :: "wo_event \<Rightarrow> int \<Rightarrow> int" where
  "wo_apply e s = (if next_status s e < 0 then s else next_status s e)"

definition wo_run :: "wo_event list \<Rightarrow> int \<Rightarrow> int" where
  "wo_run es s = fold wo_apply es s"

lemma wo_run_snoc: "wo_run (es @ [e]) s = wo_apply e (wo_run es s)"
  by (simp add: wo_run_def)

interpretation wo_status: step_invariant wo_apply "\<lambda>s. 0 \<le> s \<and> s \<le> 7"
proof
  fix s e assume "0 \<le> (s::int) \<and> s \<le> 7"
  then show "0 \<le> wo_apply e s \<and> wo_apply e s \<le> 7"
    using next_status_range [of s e] by (auto simp: wo_apply_def)
qed

lemma wo_run_range: "0 \<le> s \<Longrightarrow> s \<le> 7 \<Longrightarrow> 0 \<le> wo_run es s \<and> wo_run es s \<le> 7"
  using wo_status.run_keeps [of s es] by (simp add: wo_run_def)

interpretation wo_started: step_invariant wo_apply "\<lambda>s. 3 \<le> s \<and> s \<le> 6"
proof
  fix s e assume "3 \<le> (s::int) \<and> s \<le> 6"
  then show "3 \<le> wo_apply e s \<and> wo_apply e s \<le> 6"
    by (cases e) (auto simp: wo_apply_def next_status_cases)
qed

lemma wo_run_terminal: "isTerminal s \<Longrightarrow> wo_run es s = s"
  by (induction es) (simp_all add: wo_run_def wo_apply_def isTerminal_stuck)

text \<open>The events a work order must have seen, in order, to be in a status.\<close>

definition wo_need :: "int \<Rightarrow> wo_event list" where
  "wo_need s =
    (if s = 1 then [Schedule]
     else if s = 2 then [Schedule, Release]
     else if s = 3 \<or> s = 4 then [Schedule, Release, Start]
     else if s = 5 then [Schedule, Release, Start, Complete]
     else if s = 6 then [Schedule, Release, Start, Complete, Close]
     else [])"

lemma wo_need_step: "wo_need (wo_apply e s) = wo_need s \<or> wo_need (wo_apply e s) = wo_need s @ [e]
  \<or> wo_need (wo_apply e s) = []"
  by (cases e) (auto simp: wo_need_def wo_apply_def next_status_cases)

lemma wo_need_subseq: "subseq (wo_need (wo_run es 0)) es"
proof (induction es rule: rev_induct)
  case Nil
  show ?case by (simp add: wo_run_def wo_need_def)
next
  case (snoc e es)
  have "subseq (wo_need (wo_run es 0) @ [e]) (es @ [e])"
    using snoc.IH by (rule list_emb_append_mono) simp
  moreover have "subseq (wo_need (wo_run es 0) @ []) (es @ [e])"
    using snoc.IH by (rule list_emb_append_mono) simp
  ultimately show ?case
    using wo_need_step [of e "wo_run es 0"] by (auto simp: wo_run_snoc)
qed

lemmas wo_machine_facts = next_status_cases legal_move_next isTerminal_stuck wo_run_terminal

section \<open>Properties\<close>

text \<open>The transition table implements the documented life cycle: an event is accepted
  exactly on the moves of the specification, with that target, every refused event gives -1, and
  the direct check \<open>canTransition\<close> accepts exactly the same moves and staying put.\<close>

theorem next_status_refines_life_cycle:
  "(legal_move s e t \<longleftrightarrow> next_status s e = t \<and> t \<noteq> -1) \<and>
   (next_status s e = -1 \<longleftrightarrow> (\<nexists>t. legal_move s e t)) \<and>
   (canTransition s t \<longleftrightarrow> s = t \<or> (\<exists>e. next_status s e = t \<and> t \<noteq> -1))"
  using next_status_range [of s] by (auto simp: legal_move_next canTransition_legal) (smt (verit))+

text \<open>A work order that has been closed has gone through schedule, release, start, complete
  and close, in this order, whatever other events were requested in between; a started work
  order can never be cancelled, and closed and cancelled orders never move again.\<close>

theorem work_order_life_cycle:
  "(wo_run es kPendingSchedule = kClosed \<longrightarrow>
      subseq [Schedule, Release, Start, Complete, Close] es) \<and>
   (wo_run es kPendingSchedule \<in> {kInProgress, kPaused, kCompleted, kClosed} \<longrightarrow>
      wo_run fs (wo_run es kPendingSchedule) \<noteq> kCancelled) \<and>
   (isTerminal (wo_run es kPendingSchedule) \<longrightarrow>
      wo_run fs (wo_run es kPendingSchedule) = wo_run es kPendingSchedule)"
proof (intro conjI impI)
  assume "wo_run es kPendingSchedule = kClosed"
  then show "subseq [Schedule, Release, Start, Complete, Close] es"
    using wo_need_subseq [of es] by (simp add: wo_need_def)
next
  assume "wo_run es kPendingSchedule \<in> {kInProgress, kPaused, kCompleted, kClosed}"
  then show "wo_run fs (wo_run es kPendingSchedule) \<noteq> kCancelled"
    using wo_started.run_keeps [of "wo_run es 0" fs] by (auto simp: wo_run_def)
next
  assume "isTerminal (wo_run es kPendingSchedule)"
  then show "wo_run fs (wo_run es kPendingSchedule) = wo_run es kPendingSchedule"
    by (rule wo_run_terminal)
qed

theorem work_order_life_cycle_witness:
  "subseq [Schedule, Release, Start, Complete, Close]
     [Schedule, Release, Start, Pause, Start, Complete, Close]"
  using work_order_life_cycle [of "[Schedule, Release, Start, Pause, Start, Complete, Close]" "[Cancel]"]
  by (simp add: wo_run_def wo_apply_def next_status_cases)

end
