(* ===== verification/Business_Rules.thy ===== *)
theory Business_Rules
  imports Mes_Prelude Complex_Main
begin

text \<open>
  The header-only business rules: reporting (\<open>utils/ReportRules.hh\<close>), quality
  (\<open>utils/QcRules.hh\<close>) and integration (\<open>utils/IntegRules.hh\<close>). C++ \<open>int\<close> sums carry their range: a
  sum that leaves 32 bits is undefined behaviour and is the value \<open>Undefined\<close>. A \<open>double\<close> is an
  exact rational; rounding is not modelled.
\<close>

section \<open>Reporting\<close>

definition validStep :: "int \<Rightarrow> bool" where
  "validStep stepSeq \<longleftrightarrow> stepSeq > 0"

definition validQty :: "int \<Rightarrow> int \<Rightarrow> int \<Rightarrow> bool" where
  "validQty goodQty defectQty scrapQty \<longleftrightarrow> goodQty \<ge> 0 \<and> defectQty \<ge> 0 \<and> scrapQty \<ge> 0"

definition totalDelta :: "int \<Rightarrow> int \<Rightarrow> int \<Rightarrow> int result" where
  "totalDelta goodQty defectQty scrapQty =
    (if int32_ok (goodQty + defectQty) \<and> int32_ok (goodQty + defectQty + scrapQty)
     then Inr (goodQty + defectQty + scrapQty)
     else Inl (Undefined ''signed overflow''))"

definition overReport :: "int \<Rightarrow> int \<Rightarrow> int \<Rightarrow> bool" where
  "overReport completedQty planQty delta \<longleftrightarrow> completedQty + delta > planQty"

definition reachesPlan :: "int \<Rightarrow> int \<Rightarrow> int \<Rightarrow> bool" where
  "reachesPlan completedQty planQty delta \<longleftrightarrow> completedQty + delta \<ge> planQty"

lemma totalDelta_Inr:
  "totalDelta g d c = Inr t \<longleftrightarrow> t = g + d + c \<and> int32_ok (g + d) \<and> int32_ok (g + d + c)"
  by (auto simp: totalDelta_def)

lemma totalDelta_pos:
  "totalDelta g d c = Inr t \<Longrightarrow> validQty g d c \<Longrightarrow> 0 \<le> t \<and> (t = 0 \<longleftrightarrow> g = 0 \<and> d = 0 \<and> c = 0)"
  by (auto simp: totalDelta_Inr validQty_def)

lemma reaches_not_over:
  "reachesPlan c p d \<Longrightarrow> \<not> overReport c p d \<Longrightarrow> c + d = p"
  by (simp add: reachesPlan_def overReport_def)

section \<open>Quality\<close>

definition firstPassRate :: "int \<Rightarrow> int \<Rightarrow> rat" where
  "firstPassRate totalCnt passCnt =
    (if totalCnt > 0 then of_int passCnt * 100 / of_int totalCnt else 0)"

definition validDisposition :: "int \<Rightarrow> bool" where
  "validDisposition disposition \<longleftrightarrow> disposition \<ge> 1 \<and> disposition \<le> 4"

lemma firstPassRate_range:
  assumes "0 \<le> passCnt" and "passCnt \<le> totalCnt"
  shows "0 \<le> firstPassRate totalCnt passCnt \<and> firstPassRate totalCnt passCnt \<le> 100"
proof (cases "totalCnt > 0")
  case True
  then have "of_int passCnt * 100 \<le> (100 :: rat) * of_int totalCnt"
    using assms by simp
  with True assms show ?thesis
    by (simp add: firstPassRate_def divide_le_eq)
qed (simp add: firstPassRate_def)

section \<open>Integration\<close>

definition parseMethodPath :: "string \<Rightarrow> string \<times> string" where
  "parseMethodPath url =
    (case find_char CHR '' '' url of
       None \<Rightarrow> (''POST'', url)
     | Some sp \<Rightarrow> (take sp url, drop (sp + 1) url))"

definition validSystemType :: "string \<Rightarrow> bool" where
  "validSystemType systemType \<longleftrightarrow> systemType = ''ERP'' \<or> systemType = ''WMS''"

definition validStatusFilter :: "int \<Rightarrow> bool" where
  "validStatusFilter status \<longleftrightarrow> status \<ge> 0 \<and> status \<le> 2"

lemma parseMethodPath_roundtrip:
  assumes "CHR '' '' \<notin> set m"
  shows "parseMethodPath (m @ '' '' @ p) = (m, p)"
  using assms by (simp add: parseMethodPath_def)

lemma parseMethodPath_bare: "CHR '' '' \<notin> set p \<Longrightarrow> parseMethodPath p = (''POST'', p)"
  by (simp add: parseMethodPath_def find_char_None [THEN iffD2])

end
