(* ===== verification/Outbox.thy ===== *)
theory Outbox
  imports Mes_Prelude
begin

text \<open>
  The transactional outbox: the policy (\<open>mq/OutboxPolicy.hh\<close>), the only statement that adds a
  row (\<open>OutboxService::kEnqueueSql\<close>), the AMQP producer (\<open>mq/MqProducer.cc\<close>) and one round of the
  dispatcher (\<open>mq/OutboxDispatcher.cc\<close>). The broker is a parameter: for each row, whether
  connecting and whether declaring and publishing succeed. The locale \<open>outbox_queue\<close> is the
  contract the producers of messages rely on.
\<close>

section \<open>Rows and policy\<close>

record outbox_row =
  ob_id :: int
  ob_exchange :: string
  ob_key :: string
  ob_payload :: json
  ob_status :: int
  ob_retry :: int
  ob_created :: int
  ob_sent :: "int option"

definition kMaxRetry :: int where
  "kMaxRetry = 5"

definition nextStatusOnFailure :: "int \<Rightarrow> int" where
  "nextStatusOnFailure retryCountBefore = (if retryCountBefore + 1 \<ge> kMaxRetry then 3 else 2)"

text \<open>The table with its id sequence, and the insertion with the column defaults.\<close>

record outbox =
  ob_rows :: "outbox_row list"
  ob_next :: int

record outbox_msg =
  m_exchange :: string
  m_key :: string
  m_payload :: json

definition kEnqueueSql :: "int \<Rightarrow> outbox_msg \<Rightarrow> outbox \<Rightarrow> outbox" where
  "kEnqueueSql now m ob =
     \<lparr>ob_rows = ob_rows ob @
        [\<lparr>ob_id = ob_next ob, ob_exchange = m_exchange m, ob_key = m_key m,
          ob_payload = m_payload m, ob_status = 0, ob_retry = 0, ob_created = now, ob_sent = None\<rparr>],
      ob_next = ob_next ob + 1\<rparr>"

section \<open>The producer\<close>

text \<open>The channel pointer is set or null; a broker answers a connection and a publication.\<close>

record broker =
  br_connects :: bool
  br_accepts :: bool
  br_depth :: int

definition ensureChannelLocked :: "broker \<Rightarrow> bool \<Rightarrow> bool \<times> bool" where
  "ensureChannelLocked b channel =
     (if channel then (True, channel) else if br_connects b then (True, True) else (False, False))"

definition publishSync :: "broker \<Rightarrow> bool \<Rightarrow> bool \<times> bool" where
  "publishSync b channel =
    (let (ok, channel') = ensureChannelLocked b channel in
     if \<not> ok then (False, channel')
     else if br_accepts b then (True, channel')
     else (False, False))"

definition queueMessageCount :: "broker \<Rightarrow> bool \<Rightarrow> int \<times> bool" where
  "queueMessageCount b channel =
    (let (ok, channel') = ensureChannelLocked b channel in
     if \<not> ok then (-1, channel')
     else if br_accepts b then (br_depth b, channel')
     else (-1, False))"

lemma publishSync_True:
  "fst (publishSync b ch) \<longleftrightarrow> (ch \<or> br_connects b) \<and> br_accepts b"
  by (auto simp: publishSync_def ensureChannelLocked_def)

section \<open>One round of the dispatcher\<close>

record dispatcher =
  d_outbox :: outbox
  d_channel :: bool
  d_running :: bool
  d_published :: "int list"
  d_dispatched_total :: nat
  d_failed_total :: nat
  d_dead_total :: nat

definition kBatchSize :: nat where
  "kBatchSize = 50"

definition eligible :: "outbox_row \<Rightarrow> bool" where
  "eligible r \<longleftrightarrow> ob_status r = 0 \<or> (ob_status r = 2 \<and> ob_retry r < kMaxRetry)"

definition select_batch :: "outbox_row list \<Rightarrow> outbox_row list" where
  "select_batch rows = take kBatchSize (sort_key ob_created (filter eligible rows))"

abbreviation upd_row :: "int \<Rightarrow> (outbox_row \<Rightarrow> outbox_row) \<Rightarrow> dispatcher \<Rightarrow> dispatcher" where
  "upd_row i f d \<equiv>
     d\<lparr>d_outbox := (d_outbox d)\<lparr>ob_rows := upd_where (\<lambda>q. ob_id q = i) f (ob_rows (d_outbox d))\<rparr>\<rparr>"

definition mark_sent :: "int \<Rightarrow> outbox_row \<Rightarrow> outbox_row" where
  "mark_sent now q = q\<lparr>ob_status := 1, ob_sent := Some now\<rparr>"

definition mark_failed :: "int \<Rightarrow> outbox_row \<Rightarrow> outbox_row" where
  "mark_failed newStatus q = q\<lparr>ob_status := newStatus, ob_retry := ob_retry q + 1\<rparr>"

text \<open>
  The body of the loop for one row. The \<open>UPDATE\<close> may fail (\<open>sql_ok\<close>): the message is then
  already at the broker. The second component says whether the loop goes on.
\<close>

definition dispatch_row ::
  "(outbox_row \<Rightarrow> broker) \<Rightarrow> (outbox_row \<Rightarrow> bool) \<Rightarrow> int \<Rightarrow> outbox_row \<Rightarrow> dispatcher
    \<Rightarrow> dispatcher \<times> bool" where
  "dispatch_row br sql_ok now row d =
    (let (ok, channel') = publishSync (br row) (d_channel d);
         d1 = d\<lparr>d_channel := channel'\<rparr> in
     if ok then
       let d2 = d1\<lparr>d_published := d_published d1 @ [ob_id row],
                   d_dispatched_total := d_dispatched_total d1 + 1\<rparr> in
       if sql_ok row then (upd_row (ob_id row) (mark_sent now) d2, True) else (d2, False)
     else
       let d2 = d1\<lparr>d_failed_total := d_failed_total d1 + 1\<rparr>;
           newStatus = nextStatusOnFailure (ob_retry row) in
       if sql_ok row then
         let d3 = upd_row (ob_id row) (mark_failed newStatus) d2 in
         (if newStatus = 3 then d3\<lparr>d_dead_total := d_dead_total d3 + 1\<rparr> else d3, True)
       else (d2, False))"

fun dispatch_rows ::
  "(outbox_row \<Rightarrow> broker) \<Rightarrow> (outbox_row \<Rightarrow> bool) \<Rightarrow> int \<Rightarrow> outbox_row list \<Rightarrow> dispatcher
    \<Rightarrow> dispatcher \<times> bool" where
  "dispatch_rows br sql_ok now [] d = (d, True)"
| "dispatch_rows br sql_ok now (row # rows) d =
     (case dispatch_row br sql_ok now row d of
        (d', True) \<Rightarrow> dispatch_rows br sql_ok now rows d'
      | (d', False) \<Rightarrow> (d', False))"

text \<open>
  \<open>tick\<close>: skipped while a round is running; nothing without the advisory lock; a failed
  statement rolls the table back, not what was published.
\<close>

record tick_env =
  te_now :: int
  te_lock :: bool
  te_broker :: "outbox_row \<Rightarrow> broker"
  te_sql_ok :: "outbox_row \<Rightarrow> bool"

definition tick :: "tick_env \<Rightarrow> dispatcher \<Rightarrow> dispatcher" where
  "tick e d =
    (if d_running d then d
     else if \<not> te_lock e then d
     else
       case dispatch_rows (te_broker e) (te_sql_ok e) (te_now e)
              (select_batch (ob_rows (d_outbox d))) d of
         (d', True) \<Rightarrow> d'
       | (d', False) \<Rightarrow> d'\<lparr>d_outbox := d_outbox d\<rparr>)"

section \<open>The invariant of the table\<close>

definition row_ok :: "outbox_row \<Rightarrow> bool" where
  "row_ok r \<longleftrightarrow>
    (ob_status r = 0 \<and> ob_retry r = 0) \<or>
    (ob_status r = 2 \<and> 1 \<le> ob_retry r \<and> ob_retry r < kMaxRetry) \<or>
    (ob_status r = 3 \<and> ob_retry r = kMaxRetry) \<or>
    (ob_status r = 1 \<and> 0 \<le> ob_retry r \<and> ob_retry r < kMaxRetry)"

definition outbox_ok :: "outbox \<Rightarrow> bool" where
  "outbox_ok ob \<longleftrightarrow>
    (\<forall>r\<in>set (ob_rows ob). row_ok r \<and> ob_id r < ob_next ob) \<and> distinct (map ob_id (ob_rows ob))"

definition pending :: "outbox \<Rightarrow> outbox_row list" where
  "pending ob = filter eligible (ob_rows ob)"

definition pending_msgs :: "outbox \<Rightarrow> outbox_msg list" where
  "pending_msgs ob =
     map (\<lambda>r. \<lparr>m_exchange = ob_exchange r, m_key = ob_key r, m_payload = ob_payload r\<rparr>) (pending ob)"

lemma outbox_ok_rows:
  "outbox_ok ob \<Longrightarrow> outbox_ok (ob\<lparr>ob_rows := upd_where p f (ob_rows ob)\<rparr>)"
  if "\<And>r. r \<in> set (ob_rows ob) \<Longrightarrow> p r \<Longrightarrow> row_ok r \<Longrightarrow> row_ok (f r)" and "\<And>r. ob_id (f r) = ob_id r"
  using that by (fastforce simp: outbox_ok_def set_upd_where)

lemma enqueue_ok: "outbox_ok ob \<Longrightarrow> outbox_ok (kEnqueueSql now m ob)"
  by (fastforce simp: outbox_ok_def kEnqueueSql_def row_ok_def)

lemma enqueue_pending: "pending_msgs (kEnqueueSql now m ob) = pending_msgs ob @ [m]"
  by (simp add: pending_msgs_def pending_def kEnqueueSql_def eligible_def)

text \<open>What a producer of messages relies on.\<close>

locale outbox_queue =
  fixes enq :: "'m \<Rightarrow> 's \<Rightarrow> 's" and msgs :: "'s \<Rightarrow> 'm list" and ok :: "'s \<Rightarrow> bool"
  assumes enq_ok: "ok s \<Longrightarrow> ok (enq m s)"
    and enq_msgs: "msgs (enq m s) = msgs s @ [m]"
begin

lemma enq_all_ok: "ok s \<Longrightarrow> ok (fold enq ms s)"
  by (induction ms arbitrary: s) (auto intro: enq_ok)

lemma enq_all_msgs: "msgs (fold enq ms s) = msgs s @ ms"
  by (induction ms arbitrary: s) (auto simp: enq_msgs)

end

interpretation outbox_table: outbox_queue "kEnqueueSql now" pending_msgs outbox_ok for now
  by unfold_locales (auto simp: enqueue_ok enqueue_pending)

section \<open>A round keeps the invariant and makes progress\<close>

lemma dispatch_row_outbox:
  "d_outbox (fst (dispatch_row br sql_ok now row d)) =
    (if \<not> sql_ok row then d_outbox d
     else (d_outbox d)\<lparr>ob_rows := upd_where (\<lambda>q. ob_id q = ob_id row)
       (if fst (publishSync (br row) (d_channel d)) then mark_sent now
        else mark_failed (nextStatusOnFailure (ob_retry row))) (ob_rows (d_outbox d))\<rparr>)"
  by (auto simp: dispatch_row_def Let_def split: prod.splits)

lemma dispatch_row_cont: "snd (dispatch_row br sql_ok now row d) = sql_ok row"
  by (auto simp: dispatch_row_def Let_def split: prod.splits)

lemma dispatch_row_published:
  "d_published (fst (dispatch_row br sql_ok now row d)) =
   d_published d @ (if fst (publishSync (br row) (d_channel d)) then [ob_id row] else [])"
  by (auto simp: dispatch_row_def Let_def split: prod.splits)

lemma dispatch_row_running [simp]:
  "d_running (fst (dispatch_row br sql_ok now row d)) = d_running d"
  by (auto simp: dispatch_row_def Let_def split: prod.splits)

lemma ob_id_mark [simp]: "ob_id (mark_sent now r) = ob_id r" "ob_id (mark_failed st r) = ob_id r"
  by (simp_all add: mark_sent_def mark_failed_def)

lemma row_ok_sent: "row_ok r \<Longrightarrow> eligible r \<Longrightarrow> row_ok (mark_sent now r)"
  by (auto simp: row_ok_def eligible_def mark_sent_def kMaxRetry_def)

lemma row_ok_failed:
  "row_ok r \<Longrightarrow> eligible r \<Longrightarrow> row_ok (mark_failed (nextStatusOnFailure (ob_retry r)) r)"
  by (auto simp: row_ok_def eligible_def mark_failed_def nextStatusOnFailure_def kMaxRetry_def)

text \<open>The rows still to be visited are rows of the table, eligible, with distinct ids.\<close>

definition batch_of :: "outbox_row list \<Rightarrow> dispatcher \<Rightarrow> bool" where
  "batch_of rows d \<longleftrightarrow>
    set rows \<subseteq> set (ob_rows (d_outbox d)) \<and> (\<forall>r\<in>set rows. eligible r) \<and> distinct (map ob_id rows)"

lemma select_batch_set: "set (select_batch rows) \<subseteq> {r \<in> set rows. eligible r}"
  by (auto simp: select_batch_def dest: in_set_takeD)

lemma select_batch_distinct:
  assumes "distinct (map ob_id rows)"
  shows "distinct (map ob_id (select_batch rows))"
proof -
  have "distinct (filter eligible rows)" "inj_on ob_id (set (filter eligible rows))"
    using assms by (auto simp: distinct_map inj_on_def)
  then have "distinct (map ob_id (sort_key ob_created (filter eligible rows)))"
    by (simp add: distinct_map)
  then show ?thesis by (simp add: select_batch_def take_map [symmetric])
qed

lemma batch_of_select: "outbox_ok (d_outbox d) \<Longrightarrow> batch_of (select_batch (ob_rows (d_outbox d))) d"
  using select_batch_set select_batch_distinct by (fastforce simp: batch_of_def outbox_ok_def)

lemma dispatch_row_ok:
  assumes "outbox_ok (d_outbox d)" and "batch_of (row # rows) d"
  shows "outbox_ok (d_outbox (fst (dispatch_row br sql_ok now row d)))
         \<and> batch_of rows (fst (dispatch_row br sql_ok now row d))"
proof
  have row: "r = row" if "r \<in> set (ob_rows (d_outbox d))" "ob_id r = ob_id row" for r
    using assms that by (auto simp: outbox_ok_def batch_of_def intro: distinct_key_eq)
  have el: "eligible row" using assms(2) by (simp add: batch_of_def)
  show "outbox_ok (d_outbox (fst (dispatch_row br sql_ok now row d)))"
    unfolding dispatch_row_outbox
    using assms(1) el by (auto intro!: outbox_ok_rows row_ok_sent row_ok_failed dest!: row)
  have "ob_id q \<noteq> ob_id row" if "q \<in> set rows" for q
    using assms(2) that by (auto simp: batch_of_def image_iff)
  then show "batch_of rows (fst (dispatch_row br sql_ok now row d))"
    using assms(2) unfolding batch_of_def dispatch_row_outbox
    by (auto simp: set_upd_where image_iff subset_iff)
qed


lemma dispatch_rows_outbox_ok:
  "outbox_ok (d_outbox d) \<Longrightarrow> batch_of rows d \<Longrightarrow>
   outbox_ok (d_outbox (fst (dispatch_rows br sql_ok now rows d)))"
proof (induction rows arbitrary: d)
  case (Cons row rows)
  then show ?case
    using dispatch_row_ok [of d row rows br sql_ok now]
    by (cases "dispatch_row br sql_ok now row d") (auto split: bool.splits)
qed simp

lemma tick_outbox_ok: "outbox_ok (d_outbox d) \<Longrightarrow> outbox_ok (d_outbox (tick e d))"
  using dispatch_rows_outbox_ok [OF _ batch_of_select, of d "te_broker e" "te_sql_ok e" "te_now e"]
  by (auto simp: tick_def split: prod.splits bool.splits)

text \<open>What one round may change: only batch rows, and only batch rows are published.\<close>

lemma dispatch_rows_published:
  "\<exists>ps. d_published (fst (dispatch_rows br sql_ok now rows d)) = d_published d @ ps
     \<and> set ps \<subseteq> ob_id ` set rows"
proof (induction rows arbitrary: d)
  case (Cons row rows)
  obtain d' b where d': "dispatch_row br sql_ok now row d = (d', b)" by fastforce
  then have "\<exists>p. d_published d' = d_published d @ p \<and> set p \<subseteq> {ob_id row}"
    using dispatch_row_published [of br sql_ok now row d] by auto
  then obtain p where p: "d_published d' = d_published d @ p" "set p \<subseteq> {ob_id row}" by blast
  obtain ps where ps: "d_published (fst (dispatch_rows br sql_ok now rows d')) = d_published d' @ ps"
    "set ps \<subseteq> ob_id ` set rows" using Cons.IH by blast
  show ?case
  proof (cases b)
    case True
    with d' p ps show ?thesis by (intro exI [of _ "p @ ps"]) auto
  next
    case False
    with d' p show ?thesis by (intro exI [of _ p]) auto
  qed
qed simp

lemma dispatch_rows_frame:
  "r \<in> set (ob_rows (d_outbox d)) \<Longrightarrow> ob_id r \<notin> ob_id ` set rows \<Longrightarrow>
   r \<in> set (ob_rows (d_outbox (fst (dispatch_rows br sql_ok now rows d))))"
proof (induction rows arbitrary: d)
  case (Cons row rows)
  obtain d' b where d': "dispatch_row br sql_ok now row d = (d', b)" by fastforce
  have "r \<in> set (ob_rows (d_outbox d'))"
    using Cons.prems dispatch_row_outbox [of br sql_ok now row d] d'
    by (auto simp: set_upd_where image_iff)
  with Cons d' show ?case by (cases b) auto
qed simp

lemma dispatch_rows_sent:
  assumes "\<forall>r\<in>set (ob_rows (d_outbox d)). ob_status r = 1 \<longrightarrow> ob_id r \<in> set (d_published d)"
  shows "\<forall>r\<in>set (ob_rows (d_outbox (fst (dispatch_rows br sql_ok now rows d)))).
    ob_status r = 1 \<longrightarrow> ob_id r \<in> set (d_published (fst (dispatch_rows br sql_ok now rows d)))"
  using assms
proof (induction rows arbitrary: d)
  case (Cons row rows)
  obtain d' b where d': "dispatch_row br sql_ok now row d = (d', b)" by fastforce
  have "\<forall>r\<in>set (ob_rows (d_outbox d')). ob_status r = 1 \<longrightarrow> ob_id r \<in> set (d_published d')"
    using Cons.prems dispatch_row_outbox [of br sql_ok now row d]
      dispatch_row_published [of br sql_ok now row d] d'
    by (auto simp: set_upd_where mark_sent_def mark_failed_def nextStatusOnFailure_def
        split: if_splits)
  with Cons.IH [of d'] d' show ?case by (cases b) auto
qed simp

definition sent_published :: "dispatcher \<Rightarrow> bool" where
  "sent_published d \<longleftrightarrow>
    (\<forall>r\<in>set (ob_rows (d_outbox d)). ob_status r = 1 \<longrightarrow> ob_id r \<in> set (d_published d))"

lemma tick_sent_published: "sent_published d \<Longrightarrow> sent_published (tick e d)"
proof -
  assume s: "sent_published d"
  let ?r = "dispatch_rows (te_broker e) (te_sql_ok e) (te_now e) (select_batch (ob_rows (d_outbox d))) d"
  obtain ps where "d_published (fst ?r) = d_published d @ ps"
    using dispatch_rows_published by blast
  then show ?thesis
    using s dispatch_rows_sent [of d "te_broker e" "te_sql_ok e" "te_now e"
        "select_batch (ob_rows (d_outbox d))"]
    by (auto simp: tick_def sent_published_def split: prod.splits bool.splits)
qed

text \<open>Events of the outbox: a round of a dispatcher or a message added by a service.\<close>

datatype ob_event = Tick tick_env | Enqueue int outbox_msg

fun ob_step :: "ob_event \<Rightarrow> dispatcher \<Rightarrow> dispatcher" where
  "ob_step (Tick e) d = tick e d"
| "ob_step (Enqueue now m) d = d\<lparr>d_outbox := kEnqueueSql now m (d_outbox d)\<rparr>"

definition ob_inv :: "dispatcher \<Rightarrow> bool" where
  "ob_inv d \<longleftrightarrow> outbox_ok (d_outbox d) \<and> sent_published d"

interpretation ob_machine: step_invariant ob_step ob_inv
proof
  fix d e assume inv: "ob_inv d"
  show "ob_inv (ob_step e d)"
  proof (cases e)
    case (Tick te)
    with inv show ?thesis by (simp add: ob_inv_def tick_outbox_ok tick_sent_published)
  next
    case (Enqueue now m)
    moreover have "sent_published (ob_step e d)"
      using inv Enqueue by (auto simp: ob_inv_def sent_published_def kEnqueueSql_def)
    ultimately show ?thesis using inv by (simp add: ob_inv_def enqueue_ok)
  qed
qed

definition dispatcher0 :: dispatcher where
  "dispatcher0 = \<lparr>d_outbox = \<lparr>ob_rows = [], ob_next = 1\<rparr>, d_channel = False, d_running = False,
     d_published = [], d_dispatched_total = 0, d_failed_total = 0, d_dead_total = 0\<rparr>"

lemma ob_inv_init: "ob_inv dispatcher0"
  by (simp add: ob_inv_def dispatcher0_def outbox_ok_def sent_published_def)

lemma ob_reachable_inv: "ob_inv (fold ob_step es dispatcher0)"
  by (rule ob_machine.run_keeps) (rule ob_inv_init)

section \<open>Progress\<close>

text \<open>The attempts a row has left.\<close>

definition budget :: "outbox_row \<Rightarrow> int" where
  "budget r = (if eligible r then kMaxRetry - ob_retry r else 0)"

definition total_budget :: "outbox \<Rightarrow> int" where
  "total_budget ob = sum_list (map budget (ob_rows ob))"

lemma budget_pos: "row_ok r \<Longrightarrow> 0 \<le> budget r \<and> budget r \<le> 5 \<and> (budget r = 0 \<longleftrightarrow> \<not> eligible r)"
  by (auto simp: row_ok_def budget_def eligible_def kMaxRetry_def)

lemma budget_sent: "budget (mark_sent now r) = 0"
  by (simp add: budget_def mark_sent_def eligible_def)

lemma budget_failed:
  "row_ok r \<Longrightarrow> eligible r \<Longrightarrow> budget (mark_failed (nextStatusOnFailure (ob_retry r)) r) = budget r - 1"
  by (auto simp: row_ok_def budget_def mark_failed_def eligible_def nextStatusOnFailure_def
      kMaxRetry_def)

lemma total_budget_bounds:
  assumes "outbox_ok ob"
  shows "0 \<le> total_budget ob \<and> total_budget ob \<le> 5 * int (length (pending ob))
    \<and> (total_budget ob = 0 \<longrightarrow> pending ob = [])"
proof -
  have "\<forall>r\<in>set rs. row_ok r \<Longrightarrow> 0 \<le> sum_list (map budget rs)
    \<and> sum_list (map budget rs) \<le> 5 * int (length (filter eligible rs))
    \<and> (sum_list (map budget rs) = 0 \<longrightarrow> filter eligible rs = [])" for rs
  proof (induction rs)
    case (Cons r rs)
    then show ?case using budget_pos [of r] by (auto simp: budget_def)
  qed simp
  with assms show ?thesis by (simp add: outbox_ok_def total_budget_def pending_def)
qed

lemma dispatch_row_budget:
  assumes ok: "outbox_ok (d_outbox d)" and b: "batch_of (row # rows) d" and "sql_ok row"
  shows "total_budget (d_outbox (fst (dispatch_row br sql_ok now row d)))
         \<le> total_budget (d_outbox d) - 1"
proof -
  let ?f = "if fst (publishSync (br row) (d_channel d)) then mark_sent now
            else mark_failed (nextStatusOnFailure (ob_retry row))"
  have row: "row \<in> set (ob_rows (d_outbox d))" "eligible row" "row_ok row"
    using ok b by (auto simp: batch_of_def outbox_ok_def)
  have "budget (?f row) \<le> budget row - 1"
    using row budget_pos [of row] by (auto simp: budget_sent budget_failed)
  moreover have "total_budget (d_outbox (fst (dispatch_row br sql_ok now row d))) =
      total_budget (d_outbox d) + (budget (?f row) - budget row)"
    unfolding total_budget_def dispatch_row_outbox
    using ok row(1) \<open>sql_ok row\<close> by (auto simp: outbox_ok_def intro!: sum_list_upd_where_one [where k = ob_id])
  ultimately show ?thesis by linarith
qed

lemma dispatch_rows_budget:
  "outbox_ok (d_outbox d) \<Longrightarrow> batch_of rows d \<Longrightarrow> \<forall>r. sql_ok r \<Longrightarrow>
   total_budget (d_outbox (fst (dispatch_rows br sql_ok now rows d)))
     \<le> total_budget (d_outbox d) - int (length rows)
   \<and> snd (dispatch_rows br sql_ok now rows d)
   \<and> d_running (fst (dispatch_rows br sql_ok now rows d)) = d_running d"
proof (induction rows arbitrary: d)
  case (Cons row rows)
  let ?p = "dispatch_row br sql_ok now row d"
  have "snd ?p" using Cons.prems by (simp add: dispatch_row_cont)
  then obtain d' where d': "?p = (d', True)" by (cases ?p) auto
  have ok: "outbox_ok (d_outbox d')" "batch_of rows d'"
    using dispatch_row_ok [OF Cons.prems(1,2), of br sql_ok now] d' by auto
  have go: "dispatch_rows br sql_ok now (row # rows) d = dispatch_rows br sql_ok now rows d'"
    by (simp add: d')
  have "sql_ok row" using Cons.prems(3) by blast
  then have "total_budget (d_outbox d') \<le> total_budget (d_outbox d) - 1"
    using dispatch_row_budget [OF Cons.prems(1,2), of sql_ok br now] d' by simp
  moreover have "d_running d' = d_running d"
    using dispatch_row_running [of br sql_ok now row d] d' by simp
  ultimately show ?case
    unfolding go using Cons.IH [OF ok Cons.prems(3)] by simp
qed simp

text \<open>A round that gets the lock and whose statements succeed.\<close>

definition good_env :: "tick_env \<Rightarrow> bool" where
  "good_env e \<longleftrightarrow> te_lock e \<and> (\<forall>r. te_sql_ok e r)"

lemma tick_progress:
  assumes "outbox_ok (d_outbox d)" and "\<not> d_running d" and "good_env e"
  shows "total_budget (d_outbox (tick e d)) \<le>
      total_budget (d_outbox d) - int (min kBatchSize (length (pending (d_outbox d))))
    \<and> \<not> d_running (tick e d)"
  using dispatch_rows_budget [OF assms(1) batch_of_select [OF assms(1)], of "te_sql_ok e"
      "te_broker e" "te_now e"] assms(2,3)
  by (auto simp: tick_def good_env_def select_batch_def pending_def min.commute
      split: prod.splits bool.splits)

lemma ticks_drain:
  assumes "outbox_ok (d_outbox d)" and "\<not> d_running d" and "\<forall>e\<in>set es. good_env e"
    and "total_budget (d_outbox d) \<le> int (length es)"
  shows "pending (d_outbox (fold tick es d)) = []"
  using assms
proof (induction es arbitrary: d)
  case Nil
  then show ?case using total_budget_bounds [of "d_outbox d"] by auto
next
  case (Cons e es)
  have "total_budget (d_outbox (tick e d)) \<le> int (length es)"
  proof (cases "pending (d_outbox d) = []")
    case True
    then have "total_budget (d_outbox d) = 0"
      using total_budget_bounds [OF Cons.prems(1)] by simp
    with Cons.prems tick_progress [of d e] show ?thesis by auto
  next
    case False
    then have "1 \<le> min kBatchSize (length (pending (d_outbox d)))"
      by (simp add: kBatchSize_def Suc_le_eq)
    with Cons.prems tick_progress [of d e] show ?thesis by auto
  qed
  with Cons tick_progress [of d e] tick_outbox_ok [of d e] show ?case by auto
qed

section \<open>Properties\<close>


definition demo_msg :: outbox_msg where
  "demo_msg = \<lparr>m_exchange = ''iot.exchange'', m_key = ''cmd.stop_collection'', m_payload = JNull\<rparr>"

text \<open>A round against a broker that refuses everything.\<close>

definition down_env :: tick_env where
  "down_env = \<lparr>te_now = 10, te_lock = True,
     te_broker = (\<lambda>r. \<lparr>br_connects = False, br_accepts = False, br_depth = 0\<rparr>), te_sql_ok = (\<lambda>r. True)\<rparr>"

definition demo_dispatcher :: dispatcher where
  "demo_dispatcher = fold ob_step [Enqueue 1 demo_msg, Tick down_env] dispatcher0"

lemma demo_dispatcher_row: "map ob_retry (ob_rows (d_outbox demo_dispatcher)) = [1]"
  by code_simp


text \<open>C5: every message is eventually delivered or dead: from any consistent table, after five
  rounds per pending message (rounds that hold the lock and whose statements succeed), whatever
  the broker does, no row is pending any more.\<close>

theorem outbox_drains:
  assumes "ob_inv d" and "\<not> d_running d" and "\<forall>e\<in>set es. good_env e"
    and "5 * length (pending (d_outbox d)) \<le> length es"
  shows "\<forall>r\<in>set (ob_rows (d_outbox (fold tick es d))). ob_status r = 1 \<or> ob_status r = 3"
proof -
  have ok: "outbox_ok (d_outbox d)" using assms(1) by (simp add: ob_inv_def)
  then have "pending (d_outbox (fold tick es d)) = []"
    using assms(2-4) total_budget_bounds [OF ok] by (intro ticks_drain) auto
  moreover have "outbox_ok (d_outbox (fold tick es d))"
    using ok by (induction es arbitrary: d) (auto simp: tick_outbox_ok)
  ultimately show ?thesis
    by (auto simp: pending_def filter_empty_conv outbox_ok_def row_ok_def eligible_def kMaxRetry_def)
qed

lemma demo_dispatcher_inv: "ob_inv demo_dispatcher"
  unfolding demo_dispatcher_def by (rule ob_reachable_inv)

definition drained :: dispatcher where
  "drained = fold tick (replicate 5 down_env) demo_dispatcher"

lemma drained_rows: "ob_rows (d_outbox drained) \<noteq> []"
  by code_simp

theorem outbox_drains_witness:
  "\<exists>r. r \<in> set (ob_rows (d_outbox drained)) \<and> (ob_status r = 1 \<or> ob_status r = 3)"
proof -
  have n: "\<not> d_running demo_dispatcher" "length (pending (d_outbox demo_dispatcher)) = 1" by code_simp+
  have "\<forall>r\<in>set (ob_rows (d_outbox drained)). ob_status r = 1 \<or> ob_status r = 3"
    unfolding drained_def using n
    by (intro outbox_drains demo_dispatcher_inv) (auto simp: good_env_def down_env_def)
  with drained_rows show ?thesis by (cases "ob_rows (d_outbox drained)") auto
qed

text \<open>A row that was sent or is dead is never touched or published again: a round leaves it
  in the table as it is, and the messages the round publishes are those of rows that were pending
  when it started.\<close>

theorem tick_only_pending:
  assumes "outbox_ok (d_outbox d)"
  shows "(\<forall>r\<in>set (ob_rows (d_outbox d)). \<not> eligible r \<longrightarrow> r \<in> set (ob_rows (d_outbox (tick e d)))) \<and>
    (\<exists>ps. d_published (tick e d) = d_published d @ ps \<and> set ps \<subseteq> ob_id ` set (pending (d_outbox d)))"
proof -
  let ?b = "select_batch (ob_rows (d_outbox d))"
  let ?r = "dispatch_rows (te_broker e) (te_sql_ok e) (te_now e) ?b d"
  have sub: "set ?b \<subseteq> set (pending (d_outbox d))"
    using select_batch_set by (auto simp: pending_def)
  have "ob_id r \<notin> ob_id ` set ?b" if "r \<in> set (ob_rows (d_outbox d))" "\<not> eligible r" for r
    using that assms sub by (auto simp: outbox_ok_def pending_def dest: distinct_key_eq)
  then have keep: "r \<in> set (ob_rows (d_outbox (fst ?r)))"
    if "r \<in> set (ob_rows (d_outbox d))" "\<not> eligible r" for r
    using that by (auto intro: dispatch_rows_frame)
  obtain ps where "d_published (fst ?r) = d_published d @ ps" "set ps \<subseteq> ob_id ` set ?b"
    using dispatch_rows_published by blast
  with sub have "\<exists>ps. d_published (fst ?r) = d_published d @ ps
      \<and> set ps \<subseteq> ob_id ` set (pending (d_outbox d))" by blast
  with keep show ?thesis
    by (auto simp: tick_def split: prod.splits bool.splits)
qed

theorem tick_only_pending_witness:
  "\<exists>ps. d_published (tick down_env demo_dispatcher) = d_published demo_dispatcher @ ps \<and>
     set ps \<subseteq> ob_id ` set (pending (d_outbox demo_dispatcher))"
  using tick_only_pending [of demo_dispatcher down_env] demo_dispatcher_inv by (simp add: ob_inv_def)

end
