(* ===== verification/Decimals.thy ===== *)
theory Decimals
  imports Mes_Prelude "HOL-Library.List_Lexorder" "HOL-Library.Char_ord"
begin

text \<open>
  Decimal texts, as \<open>std::to_string\<close> and the conversions \<open>%0wd\<close> write them: texts of a fixed width and their
  order, the number that a text stands for, and mixed radixes.
\<close>

section \<open>Numbers of a fixed width\<close>

fun fixed_digits :: "nat \<Rightarrow> nat \<Rightarrow> string" where
  "fixed_digits 0 n = []"
| "fixed_digits (Suc k) n = fixed_digits k (n div 10) @ [char_of (48 + n mod 10)]"

lemma length_fixed [simp]: "length (fixed_digits k n) = k"
  by (induction k arbitrary: n) simp_all

lemma fixed_nat_digits: "n < 10 ^ k \<Longrightarrow> 0 < k \<Longrightarrow> fixed_digits k n = replicate (k - length (nat_digits n)) (CHR ''0'') @ nat_digits n"
proof (induction k arbitrary: n)
  case (Suc k)
  show ?case
  proof (cases "n < 10")
    case True
    have "fixed_digits j 0 = replicate j (CHR ''0'')" for j
    proof (induction j)
      case (Suc j)
      have "(char_of (48 :: nat) :: char) = CHR ''0''" by code_simp
      then show ?case using Suc replicate_append_same [of j "CHR ''0''"] by simp
    qed simp
    then show ?thesis using True by (simp add: nat_digits.simps [of n])
  next
    case False
    then have "k \<noteq> 0" using Suc.prems(1) by (cases k) auto
    moreover have "n div 10 < 10 ^ k" using Suc.prems(1) by (simp add: less_mult_imp_div_less mult.commute)
    ultimately show ?thesis using Suc.IH [of "n div 10"] False by (simp add: nat_digits.simps [of n])
  qed
qed simp

lemma pad_num_fixed: "0 \<le> i \<Longrightarrow> i < 10 ^ w \<Longrightarrow> 0 < w \<Longrightarrow> pad_num w i = fixed_digits w (nat i)"
  using fixed_nat_digits [of "nat i" w] by (simp add: pad_num_def to_string_def nat_less_iff)

lemma append_less: "length u = length v \<Longrightarrow> (u @ x < v @ y) \<longleftrightarrow> (u < v \<or> u = v \<and> x < (y :: string))"
  by (induction u v rule: list_induct2) auto

lemma fixed_inject: "m < 10 ^ k \<Longrightarrow> n < 10 ^ k \<Longrightarrow> fixed_digits k m < fixed_digits k n \<longleftrightarrow> m < n"
proof (induction k arbitrary: m n)
  case (Suc k)
  have b: "m div 10 < 10 ^ k" "n div 10 < 10 ^ k" using Suc.prems by (simp_all add: less_mult_imp_div_less mult.commute)
  have "char_of (48 + a) < (char_of (48 + b) :: char) \<longleftrightarrow> a < b" if "a < 10" "b < 10" for a b :: nat
    using that by (simp add: less_char_def)
  from this [of "m mod 10" "n mod 10"]
  have digit: "char_of (48 + m mod 10) < (char_of (48 + n mod 10) :: char) \<longleftrightarrow> m mod 10 < n mod 10" by simp
  have eq: "fixed_digits k (m div 10) = fixed_digits k (n div 10) \<longleftrightarrow> m div 10 = n div 10"
    using Suc.IH [OF b] Suc.IH [OF b(2,1)] by (metis less_irrefl nat_neq_iff)
  have "10 * a + c < 10 * b + d \<longleftrightarrow> a < b \<or> a = b \<and> c < d" if "c < 10" "d < 10" for a b c d :: nat
    using that by arith
  from this [of "m mod 10" "n mod 10" "m div 10" "n div 10"]
  have "m < n \<longleftrightarrow> m div 10 < n div 10 \<or> m div 10 = n div 10 \<and> m mod 10 < n mod 10" by simp
  then show ?case using Suc.IH [OF b] eq by (simp add: append_less digit)
qed simp

lemma nat_digits_fixed: "10 ^ k \<le> n \<Longrightarrow> n < 10 ^ Suc k \<Longrightarrow> nat_digits n = fixed_digits (Suc k) n"
proof (induction k arbitrary: n)
  case 0
  then show ?case by (subst nat_digits.simps) simp
next
  case (Suc k)
  have "(1 :: nat) \<le> 10 ^ k" by simp
  then have "10 \<le> n" using Suc.prems(1) unfolding power_Suc by linarith
  moreover have "10 ^ k \<le> n div 10" using div_le_mono [OF Suc.prems(1), of 10] by simp
  moreover have "n div 10 < 10 ^ Suc k" using Suc.prems(2) by (intro less_mult_imp_div_less) (simp add: mult.commute)
  ultimately show ?case using Suc.IH [of "n div 10"] by (subst nat_digits.simps) simp
qed

lemma to_string_fixed: "1000 \<le> y \<Longrightarrow> y \<le> 9999 \<Longrightarrow> to_string y = fixed_digits 4 (nat y)"
proof -
  assume "1000 \<le> y" "y \<le> 9999"
  then have "10 ^ 3 \<le> nat y" "nat y < 10 ^ Suc 3" by simp_all
  from nat_digits_fixed [OF this] have "nat_digits (nat y) = fixed_digits (Suc 3) (nat y)" .
  moreover have "Suc 3 = 4" by simp
  ultimately show ?thesis using \<open>1000 \<le> y\<close> by (simp only: to_string_def) simp
qed

lemma radix_less:
  fixes a b c d k :: int
  assumes "0 \<le> c" "c < k" "0 \<le> d" "d < k"
  shows "k * a + c < k * b + d \<longleftrightarrow> a < b \<or> a = b \<and> c < d"
proof (cases a b rule: linorder_cases)
  case less
  then have "k * (a + 1) \<le> k * b" using assms by (intro mult_left_mono) simp_all
  then show ?thesis using less assms by (simp add: distrib_left)
next
  case greater
  then have "k * (b + 1) \<le> k * a" using assms by (intro mult_left_mono) simp_all
  then show ?thesis using greater assms by (simp add: distrib_left)
qed simp

lemma radix_eq:
  fixes a b c d k :: int
  assumes "0 \<le> c" "c < k" "0 \<le> d" "d < k"
  shows "k * a + c = k * b + d \<longleftrightarrow> a = b \<and> c = d"
proof -
  have eq: "x = y \<longleftrightarrow> \<not> x < y \<and> \<not> y < x" for x y :: int by auto
  show ?thesis
    unfolding eq [of "k * a + c"] radix_less [OF assms] radix_less [OF assms(3,4,1,2)] by (cases a b rule: linorder_cases) auto
qed

section \<open>The number of a text\<close>

definition text_value :: "string \<Rightarrow> nat" where
  "text_value s = foldl (\<lambda>a c. 10 * a + (of_char c - 48)) 0 s"

lemma text_value_snoc: "text_value (s @ [c]) = 10 * text_value s + (of_char c - 48)"
  by (simp add: text_value_def)

lemma text_value_zeros: "text_value (replicate k (CHR ''0'') @ s) = text_value s"
  by (induction k) (simp_all add: text_value_def)

lemma text_value_digits: "text_value (nat_digits n) = n"
proof (induction n rule: nat_digits.induct)
  case (1 n)
  have digit: "of_char (char_of (48 + d) :: char) - 48 = d" if "d < 10" for d :: nat
    using that by simp
  show ?case
  proof (cases "n < 10")
    case True
    then show ?thesis using digit [of n] by (simp add: nat_digits.simps [of n] text_value_def)
  next
    case False
    then have "text_value (nat_digits n) = 10 * (n div 10) + n mod 10"
      using 1 digit [of "n mod 10"] by (simp add: nat_digits.simps [of n] text_value_snoc)
    then show ?thesis by simp
  qed
qed

lemma pad_num_inject: "0 \<le> i \<Longrightarrow> 0 \<le> j \<Longrightarrow> pad_num w i = pad_num w j \<Longrightarrow> i = j"
proof -
  assume "0 \<le> i" "0 \<le> j" and eq: "pad_num w i = pad_num w j"
  have "text_value (pad_num w k) = nat k" if "0 \<le> k" for k
    using that by (simp add: pad_num_def to_string_def text_value_zeros text_value_digits)
  then have "nat i = nat j" using eq \<open>0 \<le> i\<close> \<open>0 \<le> j\<close> by metis
  then show ?thesis using \<open>0 \<le> i\<close> \<open>0 \<le> j\<close> by simp
qed

lemma nat_digits_length: "n < 10 ^ Suc k \<Longrightarrow> length (nat_digits n) \<le> Suc k"
proof (induction k arbitrary: n)
  case 0
  then show ?case by (simp add: nat_digits.simps [of n])
next
  case (Suc k)
  then have "n div 10 < 10 ^ Suc k" by (intro less_mult_imp_div_less) (simp add: mult.commute)
  from Suc.IH [OF this] show ?case by (simp add: nat_digits.simps [of n])
qed

text \<open>The digits of an integer, without the detour over the natural numbers, for the evaluation.\<close>

function int_text :: "int \<Rightarrow> string" where
  "int_text i = (if i < 10 then [char_of (48 + nat i)] else int_text (i div 10) @ [char_of (48 + nat (i mod 10))])"
  by auto

termination by (relation "measure nat") auto

declare int_text.simps [simp del]

lemma nat_digits_int [code_unfold]: "nat_digits (nat i) = int_text i"
proof (induction i rule: int_text.induct)
  case (1 i)
  show ?case
  proof (cases "i < 10")
    case True
    then show ?thesis by (simp add: nat_digits.simps [of "nat i"] int_text.simps [of i])
  next
    case False
    then show ?thesis
      using 1 by (simp add: nat_digits.simps [of "nat i"] int_text.simps [of i] nat_div_distrib nat_mod_distrib nat_less_iff)
  qed
qed

end
