(* ===== verification/Clock.thy ===== *)
theory Clock
  imports Decimals
begin

text \<open>
  The time stamps (\<open>utils/TimeUtils.hh\<close> of the backend, \<open>nowUtcIso\<close> of \<open>collector/DevicePoller.cc\<close>): \<open>gmtime\<close> of the C
  library on the seconds since 1970, and the texts made of its fields. The calendar is stated a second time by the
  day that follows a date; the texts of four centuries' eras are shown to follow it and to sort like the instants.
\<close>

section \<open>The calendar\<close>

type_synonym date = "int \<times> int \<times> int"

definition leap_year :: "int \<Rightarrow> bool" where
  "leap_year y \<longleftrightarrow> y mod 4 = 0 \<and> (y mod 100 \<noteq> 0 \<or> y mod 400 = 0)"

definition month_length :: "int \<Rightarrow> int \<Rightarrow> int" where
  "month_length y m = (if m = 2 then (if leap_year y then 29 else 28) else if m \<in> {4, 6, 9, 11} then 30 else 31)"

fun valid_date :: "date \<Rightarrow> bool" where
  "valid_date (y, m, d) \<longleftrightarrow> 1 \<le> m \<and> m \<le> 12 \<and> 1 \<le> d \<and> d \<le> month_length y m"

fun next_day :: "date \<Rightarrow> date" where
  "next_day (y, m, d) =
     (if d < month_length y m then (y, m, d + 1) else if m < 12 then (y, m + 1, 1) else (y + 1, 1, 1))"

text \<open>
  The date of a day number, counted in years that begin in March: eras of 400 years, centuries, groups of four
  years, years.
\<close>

definition date_in_month :: "int \<Rightarrow> int \<Rightarrow> int \<Rightarrow> date" where
  "date_in_month y doy mp =
    (if mp < 10 then (y, mp + 3, doy - (153 * mp + 2) div 5 + 1) else (y + 1, mp - 9, doy - (153 * mp + 2) div 5 + 1))"

definition date_in_years :: "int \<Rightarrow> int \<Rightarrow> int \<Rightarrow> date" where
  "date_in_years y s a = date_in_month (y + a) (s - 365 * a) ((5 * (s - 365 * a) + 2) div 153)"

definition date_in_century :: "int \<Rightarrow> int \<Rightarrow> date" where
  "date_in_century y r = date_in_years (y + 4 * (r div 1461)) (r mod 1461) (min 3 (r mod 1461 div 365))"

definition date_in_era :: "int \<Rightarrow> int \<Rightarrow> int \<Rightarrow> date" where
  "date_in_era era doe c = date_in_century (400 * era + 100 * c) (doe - 36524 * c)"

definition civil_of_days :: "int \<Rightarrow> date" where
  "civil_of_days n =
    date_in_era ((n + 719468) div 146097) ((n + 719468) mod 146097) (min 3 ((n + 719468) mod 146097 div 36524))"

text \<open>The day number of a date.\<close>

fun days_of_civil :: "date \<Rightarrow> int" where
  "days_of_civil (y0, m, d) =
     (let y = (if m \<le> 2 then y0 - 1 else y0); mp = (if m > 2 then m - 3 else m + 9) in
      365 * y + y div 4 - y div 100 + y div 400 + (153 * mp + 2) div 5 + d - 1 - 719468)"

lemma month_cases:
  fixes m :: int
  assumes "1 \<le> m" and "m \<le> 12"
  obtains "m = 1" | "m = 2" | "m = 3" | "m = 4" | "m = 5" | "m = 6" | "m = 7" | "m = 8" | "m = 9" | "m = 10" | "m = 11" | "m = 12"
  using assms by atomize_elim presburger

lemma year_step:
  fixes y :: int
  shows "(y + 1) div 4 - (y + 1) div 100 + (y + 1) div 400 = y div 4 - y div 100 + y div 400 + (if leap_year (y + 1) then 1 else 0)"
proof -
  have step: "(y + 1) div k = y div k + (if (y + 1) mod k = 0 then 1 else 0)" if "0 < k" for k :: int
  proof (cases "y mod k + 1 = k")
    case True
    have "y + 1 = k * (y div k) + (y mod k + 1)" by simp
    then have "y + 1 = k * (y div k + 1) + 0" unfolding True by (simp add: algebra_simps)
    then show ?thesis using that int_div_pos_eq [of "y + 1" k "y div k + 1" 0] int_mod_pos_eq [of "y + 1" k "y div k + 1" 0] by simp
  next
    case False
    have b: "0 \<le> y mod k + 1" "y mod k + 1 < k" using False that pos_mod_bound [OF that, of y] pos_mod_sign [OF that, of y] by linarith+
    have "y + 1 = k * (y div k) + (y mod k + 1)" by simp
    then show ?thesis
      using b pos_mod_sign [OF that, of y] int_div_pos_eq [of "y + 1" k "y div k" "y mod k + 1"]
        int_mod_pos_eq [of "y + 1" k "y div k" "y mod k + 1"] by simp
  qed
  have aux: "(a + (if p then 1 else 0)) - (b + (if q then 1 else 0)) + (c + (if r then 1 else 0)) =
      a - b + c + (if p \<and> (\<not> q \<or> r) then 1 else 0)" if "r \<longrightarrow> q" "q \<longrightarrow> p" for a b c :: int and p q r
    using that by (cases p; cases q; cases r) simp_all
  have "(y + 1) mod 400 = 0 \<longrightarrow> (y + 1) mod 100 = 0" "(y + 1) mod 100 = 0 \<longrightarrow> (y + 1) mod 4 = 0"
  proof -
    have "100 dvd (400 :: int)" "4 dvd (100 :: int)" by simp_all
    then show "(y + 1) mod 400 = 0 \<longrightarrow> (y + 1) mod 100 = 0" "(y + 1) mod 100 = 0 \<longrightarrow> (y + 1) mod 4 = 0"
      unfolding mod_eq_0_iff_dvd using dvd_trans by blast+
  qed
  then show ?thesis
    unfolding leap_year_def step [of 4, OF zero_less_numeral] step [of 100, OF zero_less_numeral] step [of 400, OF zero_less_numeral]
    by (rule aux)
qed

definition leap_days :: "int \<Rightarrow> int" where
  "leap_days y = y div 4 - y div 100 + y div 400"

lemma leap_days_step: "leap_days y = leap_days (y - 1) + (if leap_year y then 1 else 0)"
  using year_step [of "y - 1"] by (simp add: leap_days_def)

lemma days_leap_days:
  "days_of_civil (y, m, d) =
    (if m \<le> 2 then 365 * (y - 1) + leap_days (y - 1) + (153 * (m + 9) + 2) div 5 else 365 * y + leap_days y + (153 * (m - 3) + 2) div 5)
    + d - 719469"
  by (simp add: leap_days_def Let_def)

lemma days_next: "valid_date x \<Longrightarrow> days_of_civil (next_day x) = days_of_civil x + 1"
proof (cases x)
  case (fields y m d)
  assume "valid_date x"
  then have m: "1 \<le> m" "m \<le> 12" and d: "1 \<le> d" "d \<le> month_length y m" by (simp_all add: fields)
  show ?thesis
  proof (cases "d < month_length y m")
    case True
    then show ?thesis by (simp add: fields days_leap_days del: days_of_civil.simps)
  next
    case False
    with d have "d = month_length y m" by simp
    with m show ?thesis
      by (cases rule: month_cases) (use leap_days_step [of y] in \<open>simp_all add: fields days_leap_days month_length_def del: days_of_civil.simps\<close>)
  qed
qed

lemma next_valid: "valid_date x \<Longrightarrow> valid_date (next_day x)"
proof (cases x)
  case (fields y m d)
  assume "valid_date x"
  then have m: "1 \<le> m" "m \<le> 12" and d: "1 \<le> d" "d \<le> month_length y m" by (simp_all add: fields)
  from m show ?thesis
    by (cases rule: month_cases) (use d in \<open>auto simp: fields month_length_def split: if_splits\<close>)
qed

text \<open>The date of a day number is a date, and its day number is that one.\<close>

lemma day_of_year:
  fixes n :: int
  assumes "0 \<le> n" and "n \<le> 365"
  defines "mp \<equiv> (5 * n + 2) div 153"
  defines "m \<equiv> (if mp < 10 then mp + 3 else mp - 9)" and "d \<equiv> n - (153 * mp + 2) div 5 + 1"
  shows "1 \<le> m \<and> m \<le> 12 \<and> 1 \<le> d \<and> (m \<noteq> 2 \<longrightarrow> d \<le> month_length y m) \<and> (m = 2 \<longrightarrow> d \<le> 28 \<or> n = 365 \<and> d = 29)
    \<and> (m \<le> 2 \<longrightarrow> (153 * (m + 9) + 2) div 5 + d - 1 = n) \<and> (\<not> m \<le> 2 \<longrightarrow> (153 * (m - 3) + 2) div 5 + d - 1 = n)"
proof -
  have b: "153 * mp \<le> 5 * n + 2" "5 * n + 2 < 153 * mp + 153" unfolding mp_def by (auto simp: div_mult2_eq)
  with assms(1,2) have "0 \<le> mp" "mp \<le> 11" by linarith+
  then consider "mp = 0" | "mp = 1" | "mp = 2" | "mp = 3" | "mp = 4" | "mp = 5" | "mp = 6" | "mp = 7" | "mp = 8" | "mp = 9" | "mp = 10" | "mp = 11"
    by atomize_elim presburger
  moreover have "n \<le> 364 \<or> n = 365" using assms(2) by linarith
  ultimately show ?thesis
    using b assms(1,2) by cases (simp_all add: m_def d_def month_length_def)
qed

lemma civil_of_days_date: "valid_date (civil_of_days n) \<and> days_of_civil (civil_of_days n) = n"
proof -
  define era where "era = (n + 719468) div 146097"
  define doe where "doe = (n + 719468) mod 146097"
  define c where "c = min 3 (doe div 36524)"
  define r where "r = doe - 36524 * c"
  define q where "q = r div 1461"
  define s where "s = r mod 1461"
  define a where "a = min 3 (s div 365)"
  define doy where "doy = s - 365 * a"
  define y where "y = 400 * era + 100 * c + 4 * q + a"
  have doe: "n + 719468 = 146097 * era + doe" "0 \<le> doe" "doe < 146097" unfolding era_def doe_def by simp_all
  have c: "0 \<le> c" "c \<le> 3" unfolding c_def using doe by (simp_all add: pos_imp_zdiv_nonneg_iff)
  have r: "0 \<le> r" "r \<le> 36524" "c < 3 \<Longrightarrow> r < 36524"
  proof -
    have e: "doe = 36524 * (doe div 36524) + doe mod 36524" "0 \<le> doe mod 36524" "doe mod 36524 < 36524" by simp_all
    have k: "doe div 36524 \<le> 4" using doe e by linarith
    show "0 \<le> r" "r \<le> 36524" "c < 3 \<Longrightarrow> r < 36524"
      using e k doe unfolding r_def c_def by (auto simp: min_def split: if_splits)
  qed
  have q: "r = 1461 * q + s" "0 \<le> s" "s < 1461" unfolding q_def s_def by simp_all
  then have q2: "0 \<le> q" "q \<le> 24" using r by linarith+
  have s_last: "c < 3 \<Longrightarrow> q = 24 \<Longrightarrow> s \<le> 1459" using q(1) r(3) by linarith
  have a: "0 \<le> a" "a \<le> 3" unfolding a_def using q by (simp_all add: pos_imp_zdiv_nonneg_iff)
  have doy: "0 \<le> doy" "doy \<le> 365" "doy = 365 \<Longrightarrow> a = 3 \<and> s = 1460"
  proof -
    have e: "s = 365 * (s div 365) + s mod 365" "0 \<le> s mod 365" "s mod 365 < 365" by simp_all
    have k: "s div 365 \<le> 4" using q e by linarith
    show "0 \<le> doy" "doy \<le> 365" "doy = 365 \<Longrightarrow> a = 3 \<and> s = 1460"
      using e k q unfolding doy_def a_def by (auto simp: min_def split: if_splits)
  qed
  have yoe: "4 * q + a \<le> 99" "0 \<le> 4 * q + a" using q2 a by linarith+
  have div: "y div 4 = 100 * era + 25 * c + q" "y div 100 = 4 * era + c" "y div 400 = era"
    unfolding y_def using yoe a q2 c by (auto intro!: int_div_pos_eq [where r = a] int_div_pos_eq [where r = "4 * q + a"]
        int_div_pos_eq [where r = "100 * c + 4 * q + a"])
  have leap: "doy = 365 \<Longrightarrow> leap_year (y + 1)"
  proof -
    assume "doy = 365"
    then have t: "a = 3" "s = 1460" using doy by auto
    have y1: "y + 1 = 4 * (100 * era + 25 * c + q + 1)" by (simp add: y_def t)
    show "leap_year (y + 1)"
    proof (cases "q = 24")
      case True
      then have "c = 3" using s_last t c by (cases "c < 3") auto
      then have "y + 1 = 400 * (era + 1)" using True t by (simp add: y_def)
      then show ?thesis by (simp add: leap_year_def)
    next
      case False
      then have "0 < 4 * q + 4" "4 * q + 4 < 100" using q2 by linarith+
      moreover have "y + 1 = 100 * (4 * era + c) + (4 * q + 4)" using t by (simp add: y_def)
      ultimately have "(y + 1) mod 100 \<noteq> 0"
        using int_mod_pos_eq [of "y + 1" 100 "4 * era + c" "4 * q + 4"] by linarith
      then show ?thesis unfolding leap_year_def y1 by simp
    qed
  qed
  have total: "365 * y + (100 * era + 25 * c + q) - (4 * era + c) + era + doy = n + 719468"
  proof -
    have "365 * y = 146000 * era + 36500 * c + 1460 * q + 365 * a" by (simp add: y_def algebra_simps)
    moreover have "doe - 36524 * c = 1461 * q + s" using q(1) by (simp add: r_def)
    ultimately show ?thesis using doe(1) by (simp add: doy_def)
  qed
  define mp where "mp = (5 * doy + 2) div 153"
  define m where "m = (if mp < 10 then mp + 3 else mp - 9)"
  define d where "d = doy - (153 * mp + 2) div 5 + 1"
  have civ: "civil_of_days n = ((if m \<le> 2 then y + 1 else y), m, d)"
  proof -
    have "civil_of_days n = date_in_month y doy mp"
      unfolding civil_of_days_def date_in_era_def era_def [symmetric] doe_def [symmetric]
      unfolding c_def [symmetric] r_def [symmetric] date_in_century_def q_def [symmetric] s_def [symmetric]
      unfolding a_def [symmetric] date_in_years_def doy_def [symmetric] mp_def [symmetric]
      by (simp only: y_def)
    moreover have "0 \<le> mp" using doy(1) by (simp add: mp_def pos_imp_zdiv_nonneg_iff)
    moreover have "mp \<le> 11"
    proof -
      have "153 * mp \<le> 5 * doy + 2" unfolding mp_def using pos_mod_sign [of 153 "5 * doy + 2"] mult_div_mod_eq [of 153 "5 * doy + 2"] by linarith
      then show ?thesis using doy(2) by linarith
    qed
    ultimately show ?thesis by (auto simp: date_in_month_def m_def d_def)
  qed
  have dy: "1 \<le> m \<and> m \<le> 12 \<and> 1 \<le> d \<and> (m \<noteq> 2 \<longrightarrow> d \<le> month_length k m) \<and> (m = 2 \<longrightarrow> d \<le> 28 \<or> doy = 365 \<and> d = 29)
    \<and> (m \<le> 2 \<longrightarrow> (153 * (m + 9) + 2) div 5 + d - 1 = doy) \<and> (\<not> m \<le> 2 \<longrightarrow> (153 * (m - 3) + 2) div 5 + d - 1 = doy)" for k
    using day_of_year [OF doy(1,2), of k] unfolding mp_def [symmetric] unfolding m_def [symmetric] d_def [symmetric] .
  have "valid_date (civil_of_days n)"
  proof (cases "m = 2")
    case True
    then show ?thesis using dy [of y] leap by (auto simp: civ month_length_def)
  next
    case False
    then show ?thesis using dy [of "if m \<le> 2 then y + 1 else y"] by (simp add: civ)
  qed
  moreover have "days_of_civil (civil_of_days n) = n"
    using dy [of y] total div by (cases "m \<le> 2") (simp_all add: civ Let_def)
  ultimately show ?thesis ..
qed

text \<open>Two dates with one day number are one date.\<close>

definition month_start :: "bool \<Rightarrow> int \<Rightarrow> int" where
  "month_start leap m = (if m \<le> 2 then 31 * (m - 1) else (if leap then 60 else 59) + (153 * (m - 3) + 2) div 5)"

lemma days_in_year:
  assumes "1 \<le> m" and "m \<le> 12"
  shows "days_of_civil (y, m, d) = days_of_civil (y, 1, 1) + month_start (leap_year y) m + d - 1"
  using assms by (cases rule: month_cases) (use leap_days_step [of y] in \<open>simp_all add: days_leap_days month_start_def del: days_of_civil.simps\<close>)

lemma month_start_mono:
  assumes "1 \<le> m" and "m < k" and "k \<le> 13"
  shows "month_start (leap_year y) m + month_length y m \<le> month_start (leap_year y) k"
proof -
  have step: "month_start (leap_year y) j + month_length y j \<le> month_start (leap_year y) (j + 1)" if "1 \<le> j" "j \<le> 12" for j
    using that by (cases rule: month_cases) (simp_all add: month_start_def month_length_def)
  have len: "0 \<le> month_length y j" for j by (simp add: month_length_def)
  have "k \<le> 13 \<longrightarrow> month_start (leap_year y) m + month_length y m \<le> month_start (leap_year y) k" if "m + 1 \<le> k" for k
    using that
  proof (induction k rule: int_ge_induct)
    case base
    then show ?case using step [of m] assms by simp
  next
    case (step j)
    then show ?case using \<open>\<And>j. 1 \<le> j \<Longrightarrow> j \<le> 12 \<Longrightarrow> _ \<le> month_start (leap_year y) (j + 1)\<close> [of j] len [of j] assms(1) by auto
  qed
  then show ?thesis using assms by auto
qed

lemma year_range:
  assumes "valid_date (y, m, d)"
  shows "days_of_civil (y, 1, 1) \<le> days_of_civil (y, m, d)" and "days_of_civil (y, m, d) < days_of_civil (y + 1, 1, 1)"
proof -
  have m: "1 \<le> m" "m \<le> 12" "1 \<le> d" "d \<le> month_length y m" using assms by simp_all
  have "month_start (leap_year y) 1 = 0" "month_start (leap_year y) 13 = (if leap_year y then 366 else 365)"
    by (simp_all add: month_start_def)
  moreover have "0 \<le> month_start (leap_year y) m" using m by (simp add: month_start_def pos_imp_zdiv_nonneg_iff)
  moreover have "days_of_civil (y + 1, 1, 1) = days_of_civil (y, 1, 1) + (if leap_year y then 366 else 365)"
    using leap_days_step [of y] by (simp add: days_leap_days del: days_of_civil.simps)
  ultimately show "days_of_civil (y, 1, 1) \<le> days_of_civil (y, m, d)" "days_of_civil (y, m, d) < days_of_civil (y + 1, 1, 1)"
    using days_in_year [OF m(1,2), of y d] month_start_mono [of m 13 y] m by auto
qed

lemma year_mono: "y \<le> z \<Longrightarrow> days_of_civil (y, 1, 1) \<le> days_of_civil (z, 1, 1)"
proof (induction z rule: int_ge_induct)
  case (step j)
  then show ?case using year_range(1) [of j 1 1] year_range(2) [of j 1 1] by (simp add: month_length_def del: days_of_civil.simps)
qed simp

lemma days_inject:
  assumes "valid_date x" and "valid_date x'" and "days_of_civil x = days_of_civil x'"
  shows "x = x'"
proof -
  have less: "\<not> y < z" if "valid_date (y, m, d)" "valid_date (z, n, e)" "days_of_civil (y, m, d) = days_of_civil (z, n, e)" for y m d z n e
    using year_range(2) [OF that(1)] year_range(1) [OF that(2)] year_mono [of "y + 1" z] that(3) by linarith
  have month: "\<not> m < n" if "valid_date (y, m, d)" "valid_date (y, n, e)" "days_of_civil (y, m, d) = days_of_civil (y, n, e)" for y m d n e
  proof
    assume "m < n"
    then have "month_start (leap_year y) m + month_length y m \<le> month_start (leap_year y) n"
      using that(1,2) by (intro month_start_mono) simp_all
    then show False using that days_in_year [of m y d] days_in_year [of n y e] by (simp del: days_of_civil.simps)
  qed
  obtain y m d z n e where f: "x = (y, m, d)" "x' = (z, n, e)" by (metis prod_cases3)
  then have y: "y = z" using less assms by (metis linorder_neqE_linordered_idom)
  then have "m = n" using month assms f by (metis linorder_neqE_linordered_idom)
  with y show ?thesis using assms days_in_year [of m y d] days_in_year [of m y e] by (simp add: f del: days_of_civil.simps)
qed

lemma civil_successor: "civil_of_days (n + 1) = next_day (civil_of_days n)"
  by (rule days_inject) (simp_all add: civil_of_days_date next_valid days_next del: valid_date.simps next_day.simps days_of_civil.simps)

section \<open>Texts\<close>

text \<open>\<open>struct tm\<close>, with the year and the month as they are printed; no leap seconds.\<close>

record tm =
  tm_date :: date
  tm_hour :: int
  tm_min :: int
  tm_sec :: int

definition gmtime :: "int \<Rightarrow> tm" where
  "gmtime t = \<lparr>tm_date = civil_of_days (t div 86400), tm_hour = t mod 86400 div 3600, tm_min = t mod 3600 div 60, tm_sec = t mod 60\<rparr>"

text \<open>\<open>%Y-%m-%d\<close> and \<open>%H:%M:%S\<close>.\<close>

fun date_text :: "date \<Rightarrow> string" where
  "date_text (y, m, d) = to_string y @ ''-'' @ pad_num 2 m @ ''-'' @ pad_num 2 d"

definition time_text :: "tm \<Rightarrow> string" where
  "time_text v = pad_num 2 (tm_hour v) @ '':'' @ pad_num 2 (tm_min v) @ '':'' @ pad_num 2 (tm_sec v)"

text \<open>The backend's stamp of a number of seconds, the collector's of a number of milliseconds.\<close>

definition stamp_text :: "tm \<Rightarrow> string \<Rightarrow> string" where
  "stamp_text v rest = date_text (tm_date v) @ ''T'' @ time_text v @ rest"

definition nowUtcIso :: "int \<Rightarrow> string" where
  "nowUtcIso t = stamp_text (gmtime t) ''Z''"

definition nowUtcIso_ms :: "int \<Rightarrow> string" where
  "nowUtcIso_ms ms = stamp_text (gmtime (ms div 1000)) (''.'' @ pad_num 3 (ms mod 1000) @ ''Z'')"

definition nowEpochSeconds :: "int \<Rightarrow> int" where
  "nowEpochSeconds ns = ns div 1000000000"

section \<open>The order of the texts\<close>

text \<open>A time of day.\<close>

lemma gmtime_ranges:
  "0 \<le> tm_hour (gmtime t)" "tm_hour (gmtime t) < 24" "0 \<le> tm_min (gmtime t)" "tm_min (gmtime t) < 60"
  "0 \<le> tm_sec (gmtime t)" "tm_sec (gmtime t) < 60"
proof -
  have "t mod 86400 < 86400" "t mod 3600 < 3600" by simp_all
  then show "tm_hour (gmtime t) < 24" "tm_min (gmtime t) < 60" by (simp_all add: gmtime_def)
qed (simp_all add: gmtime_def pos_imp_zdiv_nonneg_iff)

lemma gmtime_seconds: "t mod 86400 = 3600 * tm_hour (gmtime t) + 60 * tm_min (gmtime t) + tm_sec (gmtime t)"
proof -
  have "t mod 3600 = t mod 86400 mod 3600" "t mod 60 = t mod 3600 mod 60" by (simp_all add: mod_mod_cancel)
  then show ?thesis by (simp add: gmtime_def)
qed

lemma fixed_int:
  fixes i j :: int
  assumes "0 \<le> i" "i < 10 ^ k" "0 \<le> j" "j < 10 ^ k"
  shows "fixed_digits k (nat i) < fixed_digits k (nat j) \<longleftrightarrow> i < j" and "fixed_digits k (nat i) = fixed_digits k (nat j) \<longleftrightarrow> i = j"
proof -
  have less: "fixed_digits k (nat a) < fixed_digits k (nat b) \<longleftrightarrow> a < b" if "0 \<le> a" "a < 10 ^ k" "0 \<le> b" "b < 10 ^ k" for a b :: int
  proof -
    have "nat a < 10 ^ k" "nat b < 10 ^ k" using that by (simp_all add: nat_less_iff)
    then show ?thesis using fixed_inject [of "nat a" k "nat b"] that by auto
  qed
  show "fixed_digits k (nat i) < fixed_digits k (nat j) \<longleftrightarrow> i < j" using less assms .
  show "fixed_digits k (nat i) = fixed_digits k (nat j) \<longleftrightarrow> i = j"
    using less [OF assms] less [OF assms(3,4,1,2)] by (metis less_irrefl linorder_less_linear)
qed

lemma time_text_order:
  "time_text (gmtime s) < time_text (gmtime t) \<longleftrightarrow> s mod 86400 < t mod 86400" and time_text_length: "length (time_text (gmtime s)) = 8"
proof -
  have f: "pad_num 2 (tm_hour (gmtime t)) = fixed_digits 2 (nat (tm_hour (gmtime t)))" "pad_num 2 (tm_min (gmtime t)) = fixed_digits 2 (nat (tm_min (gmtime t)))"
    "pad_num 2 (tm_sec (gmtime t)) = fixed_digits 2 (nat (tm_sec (gmtime t)))" for t
    using gmtime_ranges [of t] by (simp_all add: pad_num_fixed)
  have o: "fixed_digits 2 (nat i) < fixed_digits 2 (nat j) \<longleftrightarrow> i < j" "fixed_digits 2 (nat i) = fixed_digits 2 (nat j) \<longleftrightarrow> i = j"
    if "0 \<le> i" "i < 60" "0 \<le> j" "j < 60" for i j
    using that by (intro fixed_int; simp)+
  note r = gmtime_ranges [of s] gmtime_ranges [of t]
  have h: "tm_hour (gmtime s) < 60" "tm_hour (gmtime t) < 60" using r by linarith+
  show "time_text (gmtime s) < time_text (gmtime t) \<longleftrightarrow> s mod 86400 < t mod 86400"
  proof -
    have num: "s mod 86400 < t mod 86400 \<longleftrightarrow> tm_hour (gmtime s) < tm_hour (gmtime t) \<or> tm_hour (gmtime s) = tm_hour (gmtime t) \<and>
        (tm_min (gmtime s) < tm_min (gmtime t) \<or> tm_min (gmtime s) = tm_min (gmtime t) \<and> tm_sec (gmtime s) < tm_sec (gmtime t))"
    proof -
      have sec: "u mod 86400 = 60 * (60 * tm_hour (gmtime u) + tm_min (gmtime u)) + tm_sec (gmtime u)" for u
        using gmtime_seconds [of u] by simp
      show ?thesis
        unfolding sec [of s] sec [of t] radix_less [OF r(5,6,11,12)] radix_less [OF r(3,4,9,10)] radix_eq [OF r(3,4,9,10)] by blast
    qed
    have app: "(fixed_digits k m @ x < fixed_digits k n @ y) \<longleftrightarrow> (fixed_digits k m < fixed_digits k n \<or> fixed_digits k m = fixed_digits k n \<and> x < y)" for k m n x y
      by (rule append_less) simp
    have lit: "((c :: char) # x < c # y) \<longleftrightarrow> x < y" for c x y by simp
    show ?thesis
      unfolding num unfolding time_text_def f
      by (simp only: app append_Cons append_Nil lit o [OF r(1) h(1) r(7) h(2)] o [OF r(3,4,9,10)] o [OF r(5,6,11,12)])
  qed
  show "length (time_text (gmtime s)) = 8" unfolding time_text_def f by simp
qed

text \<open>The date of the following day is the larger text, up to the last day of 9999.\<close>

lemma date_text_step:
  assumes "valid_date x" and "1000 \<le> fst x" and "fst (next_day x) \<le> 9999"
  shows "date_text x < date_text (next_day x)" and "length (date_text x) = 10"
proof -
  obtain y m d where x: "x = (y, m, d)" by (cases x)
  have m: "1 \<le> m" "m \<le> 12" "1 \<le> d" "d \<le> 31"
    using assms(1) by (auto simp: x month_length_def split: if_splits)
  have y: "1000 \<le> y" "y \<le> 9999" using assms(2,3) by (auto simp: x split: if_splits)
  have p: "pad_num 2 i = fixed_digits 2 (nat i)" if "0 \<le> i" "i < 100" for i using that by (simp add: pad_num_fixed)
  have o: "fixed_digits 2 (nat i) < fixed_digits 2 (nat j) \<longleftrightarrow> i < j" if "0 \<le> i" "i < 100" "0 \<le> j" "j < 100" for i j
    using that by (intro fixed_int(1)) simp_all
  have app: "(fixed_digits k m @ x < fixed_digits k n @ y) \<longleftrightarrow> (fixed_digits k m < fixed_digits k n \<or> fixed_digits k m = fixed_digits k n \<and> x < y)" for k m n x y
    by (rule append_less) simp
  have t: "date_text (z, n, e) = fixed_digits 4 (nat z) @ ''-'' @ fixed_digits 2 (nat n) @ ''-'' @ fixed_digits 2 (nat e)"
    if "1000 \<le> z" "z \<le> 9999" "1 \<le> n" "n < 100" "1 \<le> e" "e < 100" for z n e
    using that by (simp add: to_string_fixed p)
  show "length (date_text x) = 10" using t [of y m d] y m by (simp add: x)
  show "date_text x < date_text (next_day x)"
  proof (cases "d < month_length y m")
    case True
    then have e: "d + 1 < 100" using m by linarith
    show ?thesis using True e y m t [of y m d] t [of y m "d + 1"] o [of d "d + 1"] by (simp add: x app)
  next
    case False
    show ?thesis
    proof (cases "m < 12")
      case True
      then show ?thesis using False y m t [of y m d] t [of y "m + 1" 1] o [of m "m + 1"] by (simp add: x app)
    next
      case m12: False
      then have "y + 1 \<le> 9999" using assms(3) False by (simp add: x)
      then show ?thesis
        using False m12 y m t [of y m d] t [of "y + 1" 1 1] fixed_int(1) [of y 4 "y + 1"] by (simp add: x app)
    qed
  qed
qed

definition kLastDay :: int where
  "kLastDay = 2932896"

lemma last_day: "civil_of_days 0 = (1970, 1, 1)" "civil_of_days kLastDay = (9999, 12, 31)"
  by code_simp+

lemma year_next: "fst x \<le> fst (next_day x)"
  by (cases x) simp

lemma civil_year_mono: "m \<le> n \<Longrightarrow> fst (civil_of_days m) \<le> fst (civil_of_days n)"
proof (induction n rule: int_ge_induct)
  case (step j)
  then show ?case using year_next [of "civil_of_days j"] unfolding civil_successor by linarith
qed simp

lemma civil_years: "0 \<le> n \<Longrightarrow> n \<le> kLastDay \<Longrightarrow> 1970 \<le> fst (civil_of_days n) \<and> fst (civil_of_days n) \<le> 9999"
  using civil_year_mono [of 0 n] civil_year_mono [of n kLastDay] last_day by simp

lemma date_text_order: "0 \<le> m \<Longrightarrow> m < n \<Longrightarrow> n \<le> kLastDay \<Longrightarrow> date_text (civil_of_days m) < date_text (civil_of_days n)"
proof -
  assume m: "0 \<le> m" and n: "m < n" "n \<le> kLastDay"
  have step: "date_text (civil_of_days j) < date_text (civil_of_days (j + 1))" if "0 \<le> j" "j < kLastDay" for j
    using date_text_step(1) [of "civil_of_days j"] civil_of_days_date [of j] civil_years [of j] civil_years [of "j + 1"] that
    unfolding civil_successor by simp
  have "n \<le> kLastDay \<longrightarrow> date_text (civil_of_days m) < date_text (civil_of_days n)" if "m + 1 \<le> n" for n
    using that
  proof (induction n rule: int_ge_induct)
    case base
    then show ?case using step [of m] m by simp
  next
    case (step j)
    then show ?case using \<open>\<And>j. 0 \<le> j \<Longrightarrow> j < kLastDay \<Longrightarrow> _\<close> [of j] m by auto
  qed
  then show ?thesis using n by simp
qed

lemma date_text_length: "0 \<le> n \<Longrightarrow> n \<le> kLastDay \<Longrightarrow> length (date_text (civil_of_days n)) = 10"
proof (cases "civil_of_days n")
  case (fields y m d)
  assume "0 \<le> n" "n \<le> kLastDay"
  then have y: "1000 \<le> y" "y \<le> 9999" using civil_years [of n] by (simp_all add: fields)
  have "valid_date (y, m, d)" using civil_of_days_date [of n] by (simp add: fields)
  then have "1 \<le> m" "m < 100" "1 \<le> d" "d < 100" by (auto simp: month_length_def split: if_splits)
  then show ?thesis using y by (simp add: fields to_string_fixed pad_num_fixed)
qed

text \<open>Time stamps are faithful and sort like the instants they stand for, from 1970 to the end of 9999: the stamp is
  20 characters long, its date is the calendar's (the first day is 1970-01-01 and every midnight moves to the
  following day), its time of day counts the seconds of the day, and of two stamps the smaller text is the
  earlier second.\<close>

theorem stamps_sort_by_time:
  assumes "0 \<le> s" and "0 \<le> t" and "s < 86400 * (kLastDay + 1)" and "t < 86400 * (kLastDay + 1)"
  shows "(nowUtcIso s < nowUtcIso t \<longleftrightarrow> s < t) \<and> length (nowUtcIso s) = 20
    \<and> nowUtcIso 0 = ''1970-01-01T00:00:00Z''
    \<and> tm_date (gmtime (86400 * (t div 86400 + 1))) = next_day (tm_date (gmtime t))
    \<and> t mod 86400 = 3600 * tm_hour (gmtime t) + 60 * tm_min (gmtime t) + tm_sec (gmtime t)"
proof -
  have days: "0 \<le> u div 86400" "u div 86400 \<le> kLastDay" if "0 \<le> u" "u < 86400 * (kLastDay + 1)" for u
  proof -
    show "0 \<le> u div 86400" using that by (simp add: pos_imp_zdiv_nonneg_iff)
    have "86400 * (u div 86400) \<le> u" using pos_mod_sign [of 86400 u] mult_div_mod_eq [of 86400 u] by linarith
    then have "86400 * (u div 86400) < 86400 * (kLastDay + 1)" using that(2) by (rule le_less_trans)
    then show "u div 86400 \<le> kLastDay" by simp
  qed
  note ds = days [OF assms(1,3)] days [OF assms(2,4)]
  note ls = date_text_length [OF ds(1,2)] date_text_length [OF ds(3,4)]
  let ?D = "\<lambda>u. date_text (civil_of_days (u div 86400))"
  have iso: "nowUtcIso u = ?D u @ ''T'' @ time_text (gmtime u) @ ''Z''" for u by (simp add: nowUtcIso_def stamp_text_def gmtime_def)
  have tail: "(''T'' @ time_text (gmtime s) @ ''Z'' < ''T'' @ time_text (gmtime t) @ ''Z'') \<longleftrightarrow> s mod 86400 < t mod 86400"
    using append_less [of "time_text (gmtime s)" "time_text (gmtime t)" "''Z''" "''Z''"] by (simp add: time_text_length time_text_order)
  have secs: "s < t \<longleftrightarrow> s div 86400 < t div 86400 \<or> s div 86400 = t div 86400 \<and> s mod 86400 < t mod 86400"
    using radix_less [of "s mod 86400" 86400 "t mod 86400" "s div 86400" "t div 86400"] by simp
  have eq: "?D s = ?D t \<longleftrightarrow> s div 86400 = t div 86400"
    using date_text_order [OF ds(1) _ ds(4)] date_text_order [OF ds(3) _ ds(2)] by (metis less_irrefl linorder_less_linear)
  have "?D s < ?D t \<longleftrightarrow> s div 86400 < t div 86400"
    using date_text_order [OF ds(1) _ ds(4)] date_text_order [OF ds(3) _ ds(2)]
    by (metis less_irrefl linorder_less_linear order_less_asym)
  then have "nowUtcIso s < nowUtcIso t \<longleftrightarrow> s < t"
    unfolding iso secs using append_less [of "?D s" "?D t"] ls tail eq by simp
  moreover have "length (nowUtcIso s) = 20" using ls by (simp add: iso time_text_length)
  moreover have "nowUtcIso 0 = ''1970-01-01T00:00:00Z''" by code_simp
  moreover have "tm_date (gmtime (86400 * (t div 86400 + 1))) = next_day (tm_date (gmtime t))"
  proof -
    have "86400 * (t div 86400 + 1) div 86400 = t div 86400 + 1" by (rule nonzero_mult_div_cancel_left) simp
    then show ?thesis unfolding gmtime_def by (simp only: tm.simps civil_successor)
  qed
  ultimately show ?thesis using gmtime_seconds [of t] by blast
qed

theorem stamps_sort_by_time_witness: "nowUtcIso 1709251199 < nowUtcIso 1709251200"
  using stamps_sort_by_time [of 1709251199 1709251200] by (simp add: kLastDay_def)

lemma stamp_of_a_leap_day: "nowUtcIso 1709251199 = ''2024-02-29T23:59:59Z''" "nowUtcIso_ms 1709251199007 = ''2024-02-29T23:59:59.007Z''"
  by code_simp+

end
