(* ===== verification/Work_Orders.thy ===== *)
theory Work_Orders
  imports Work_Order_SM Business_Rules Outbox Clock
begin

text \<open>
  The work-order service (\<open>services/WorkOrderService.cc\<close>): the tables it reads and writes, the
  data-scope condition, and its operations \<open>list\<close>, \<open>detail\<close>, \<open>create\<close>, \<open>update\<close>, \<open>transit\<close>
  and \<open>report\<close>, each SQL statement as a function on the tables with the constraints of the
  schema that can make it fail (foreign keys, unique keys, integer ranges). The time in seconds, which
  is \<open>NOW()\<close> and the system clock, and the outcome of the commit are in the environment of a call.
\<close>

section \<open>Tables\<close>

record work_order =
  wo_id :: int
  wo_no :: string
  wo_product :: int
  wo_process :: int
  wo_line :: "int option"
  wo_plan :: int
  wo_completed :: int
  wo_good :: int
  wo_defect :: int
  wo_scrap :: int
  wo_status :: int
  wo_priority :: int
  wo_source :: int
  wo_remark :: string
  wo_plan_start :: "int option"
  wo_plan_end :: "int option"
  wo_start :: "int option"
  wo_end :: "int option"
  wo_creator :: int
  wo_created :: int
  wo_updated :: int

record op_row =
  op_id :: int
  op_wo :: int
  op_step :: "int option"
  op_workstation :: "int option"
  op_seq :: int
  op_name :: string
  op_plan :: int
  op_completed :: int
  op_good :: int
  op_defect :: int
  op_scrap :: int
  op_operator :: "int option"
  op_status :: int
  op_start :: "int option"
  op_end :: "int option"

record product_row =
  pr_id :: int
  pr_name :: string
  pr_process :: "int option"
  pr_deleted :: bool

record step_row =
  st_id :: int
  st_process :: int
  st_seq :: int
  st_name :: string
  st_quality :: bool

record inspection_ref =
  qi_wo :: "int option"
  qi_op :: "int option"
  qi_result :: int

record dept_row =
  dp_id :: int
  dp_parent :: "int option"

record wo_db =
  orders :: "work_order list"
  ops :: "op_row list"
  products :: "product_row list"
  lines :: "(int \<times> string) list"
  steps :: "step_row list"
  inspections :: "inspection_ref list"
  configs :: "(string \<times> string option) list"
  user_depts :: "(int \<times> int option) list"
  depts :: "dept_row list"
  next_wo :: int
  next_op :: int
  wo_no_seq :: int
  wo_outbox :: outbox

record wo_env =
  e_now :: int
  e_commit :: bool

record user_ctx =
  c_user :: int
  c_dept :: int
  c_scope :: int
  c_custom :: "int list"

section \<open>Helpers\<close>

definition genWorkOrderNo :: "wo_env \<Rightarrow> int \<Rightarrow> string" where
  "genWorkOrderNo e sq =
    (case tm_date (gmtime (e_now e)) of
       (y, m, d) \<Rightarrow> take 31 (''WO'' @ pad_num 4 y @ pad_num 2 m @ pad_num 2 d @ pad_num 5 sq))"

definition actionToEvent :: "string \<Rightarrow> wo_event result" where
  "actionToEvent action =
    (if action = ''schedule'' then Inr Schedule
     else if action = ''release'' then Inr Release
     else if action = ''start'' then Inr Start
     else if action = ''pause'' then Inr Pause
     else if action = ''complete'' then Inr Complete
     else if action = ''close'' then Inr Close
     else if action = ''cancel'' then Inr Cancel
     else Inl (BadRequest (''unknown action: '' @ action)))"

section \<open>Data scope\<close>

text \<open>
  The condition on \<open>wo.created_by\<close> that \<open>buildScopeSql\<close> writes, as its syntax tree: the SQL text
  has exactly these shapes. \<open>DeptTree\<close> reads the common table expression \<open>dept_tree\<close>, which
  exists only in a statement that starts with the prefix \<open>cte\<close>.
\<close>

datatype scope_cond = AllRows | NoRows | CreatedBy int | DeptIs int | InDeptTree | DeptIn "int list"

record scope_sql =
  cte :: "int option"
  condition :: scope_cond

definition buildScopeSql :: "user_ctx \<Rightarrow> scope_sql" where
  "buildScopeSql c =
    (if c_scope c = 4 then \<lparr>cte = None, condition = AllRows\<rparr>
     else if c_scope c = 1 then \<lparr>cte = None, condition = CreatedBy (c_user c)\<rparr>
     else if c_scope c = 2 then \<lparr>cte = None, condition = DeptIs (c_dept c)\<rparr>
     else if c_scope c = 3 then \<lparr>cte = Some (c_dept c), condition = InDeptTree\<rparr>
     else if c_scope c = 5 then
       (if c_custom c = [] then \<lparr>cte = None, condition = NoRows\<rparr>
        else \<lparr>cte = None, condition = DeptIn (c_custom c)\<rparr>)
     else \<lparr>cte = None, condition = NoRows\<rparr>)"

text \<open>
  The recursive query over \<open>sys_departments\<close>, level by level. Each level of an acyclic tree holds
  new departments, so one more level than there are departments is never reached; on a cycle
  the statement does not end (None).
\<close>

fun dept_levels :: "nat \<Rightarrow> dept_row list \<Rightarrow> int list \<Rightarrow> int list option" where
  "dept_levels n ds [] = Some []"
| "dept_levels 0 ds (x # xs) = None"
| "dept_levels (Suc n) ds (x # xs) =
     map_option ((@) (x # xs))
       (dept_levels n ds (concat (map (\<lambda>p. map dp_id (filter (\<lambda>d. dp_parent d = Some p) ds)) (x # xs))))"

definition dept_tree :: "dept_row list \<Rightarrow> int \<Rightarrow> int list option" where
  "dept_tree ds rootId = dept_levels (length ds + 1) ds (map dp_id (filter (\<lambda>d. dp_id d = rootId) ds))"

definition creator_dept_in :: "wo_db \<Rightarrow> int list \<Rightarrow> int \<Rightarrow> bool" where
  "creator_dept_in db ids u \<longleftrightarrow> (\<exists>(i, d)\<in>set (user_depts db). i = u \<and> (\<exists>k\<in>set ids. d = Some k))"

definition eval_scope :: "wo_db \<Rightarrow> int option \<Rightarrow> scope_cond \<Rightarrow> (work_order \<Rightarrow> bool) result" where
  "eval_scope db c cond =
    (case cond of
       AllRows \<Rightarrow> Inr (\<lambda>w. True)
     | NoRows \<Rightarrow> Inr (\<lambda>w. False)
     | CreatedBy u \<Rightarrow> Inr (\<lambda>w. wo_creator w = u)
     | DeptIs d \<Rightarrow> Inr (\<lambda>w. creator_dept_in db [d] (wo_creator w))
     | DeptIn ids \<Rightarrow> Inr (\<lambda>w. creator_dept_in db ids (wo_creator w))
     | InDeptTree \<Rightarrow>
         (case c of
            None \<Rightarrow> Inl (SqlError ''relation dept_tree does not exist'')
          | Some rootId \<Rightarrow>
              (case dept_tree (depts db) rootId of
                 None \<Rightarrow> Inl (Undefined ''recursive query does not end'')
               | Some ids \<Rightarrow> Inr (\<lambda>w. creator_dept_in db ids (wo_creator w)))))"

section \<open>Rows as JSON\<close>

definition opt_json :: "int option \<Rightarrow> json" where
  "opt_json t = (case t of None \<Rightarrow> JStr [] | Some i \<Rightarrow> JStr (to_string i))"

definition woToJson :: "wo_db \<Rightarrow> work_order \<Rightarrow> json" where
  "woToJson db w = JObj
    [(''id'', JInt (wo_id w)), (''work_order_no'', JStr (wo_no w)), (''product_id'', JInt (wo_product w)),
     (''product_name'', JStr (case first_row (\<lambda>p. pr_id p = wo_product w) (products db) of
        None \<Rightarrow> [] | Some p \<Rightarrow> pr_name p)),
     (''line_id'', JInt (case wo_line w of None \<Rightarrow> 0 | Some l \<Rightarrow> l)),
     (''line_name'', JStr (case wo_line w of None \<Rightarrow> []
        | Some l \<Rightarrow> (case map_of (lines db) l of None \<Rightarrow> [] | Some n \<Rightarrow> n))),
     (''plan_qty'', JInt (wo_plan w)), (''completed_qty'', JInt (wo_completed w)),
     (''good_qty'', JInt (wo_good w)), (''defect_qty'', JInt (wo_defect w)),
     (''scrap_qty'', JInt (wo_scrap w)), (''status'', JInt (wo_status w)),
     (''status_name'', JStr (statusName (wo_status w))), (''priority'', JInt (wo_priority w)),
     (''source'', JInt (wo_source w)), (''remark'', JStr (wo_remark w)),
     (''plan_start_at'', opt_json (wo_plan_start w)), (''plan_end_at'', opt_json (wo_plan_end w)),
     (''actual_start_at'', opt_json (wo_start w)), (''actual_end_at'', opt_json (wo_end w)),
     (''created_by'', JInt (wo_creator w)), (''created_at'', JStr (to_string (wo_created w)))]"

definition opToJson :: "op_row \<Rightarrow> json" where
  "opToJson p = JObj
    [(''id'', JInt (op_id p)), (''step_seq'', JInt (op_seq p)), (''step_name'', JStr (op_name p)),
     (''plan_qty'', JInt (op_plan p)), (''completed_qty'', JInt (op_completed p)),
     (''good_qty'', JInt (op_good p)), (''defect_qty'', JInt (op_defect p)),
     (''scrap_qty'', JInt (op_scrap p)),
     (''operator_id'', JInt (case op_operator p of None \<Rightarrow> 0 | Some u \<Rightarrow> u)),
     (''status'', JInt (op_status p)),
     (''workstation_id'', JInt (case op_workstation p of None \<Rightarrow> 0 | Some k \<Rightarrow> k))]"

section \<open>list and detail\<close>

record wo_page =
  pg_list :: "json list"
  pg_total :: int
  pg_page :: int
  pg_size :: int

definition list_orders :: "int \<Rightarrow> int \<Rightarrow> int \<Rightarrow> int \<Rightarrow> user_ctx \<Rightarrow> wo_db \<Rightarrow> wo_page result" where
  "list_orders page0 size0 status lineId c db =
    (let page = (if page0 < 1 then 1 else page0);
         size = (if size0 < 1 \<or> size0 > 200 then 20 else size0);
         sc = buildScopeSql c in
     case eval_scope db (cte sc) (condition sc) of
       Inl f \<Rightarrow> Inl f
     | Inr inside \<Rightarrow>
         let hits = filter (\<lambda>w. inside w \<and> (status \<ge> 0 \<longrightarrow> wo_status w = status)
                                \<and> (lineId > 0 \<longrightarrow> wo_line w = Some lineId)) (orders db) in
         if \<not> int32_ok ((page - 1) * size) then Inl (Undefined ''signed overflow'')
         else Inr \<lparr>pg_list = map (woToJson db) (take (nat size) (drop (nat ((page - 1) * size))
                       (sort_key (\<lambda>w. - wo_created w) hits))),
                   pg_total = int (length hits), pg_page = page, pg_size = size\<rparr>)"

text \<open>The statement of \<open>detail\<close> has the condition but not the prefix.\<close>

definition detail :: "int \<Rightarrow> user_ctx \<Rightarrow> wo_db \<Rightarrow> (json \<times> json list) result" where
  "detail i c db =
    (let sc = buildScopeSql c in
     case eval_scope db None (condition sc) of
       Inl f \<Rightarrow> Inl f
     | Inr inside \<Rightarrow>
         (case first_row (\<lambda>w. wo_id w = i \<and> inside w) (orders db) of
            None \<Rightarrow> Inl (NotFound ''no such work order or no access'')
          | Some w \<Rightarrow> Inr (woToJson db w,
              map opToJson (sort_key op_seq (filter (\<lambda>p. op_wo p = i) (ops db))))))"

section \<open>create\<close>

record create_body =
  cb_product :: "int field"
  cb_plan :: "int field"
  cb_process :: "int field"
  cb_line :: "int field"
  cb_priority :: "int field"
  cb_remark :: "string field"

definition resolve_process :: "int \<Rightarrow> int \<Rightarrow> wo_db \<Rightarrow> int result" where
  "resolve_process productId processId db =
    (if processId = 0 then
       (case first_row (\<lambda>p. pr_id p = productId \<and> \<not> pr_deleted p) (products db) of
          None \<Rightarrow> Inl (NotFound ''no such product'')
        | Some p \<Rightarrow> (case pr_process p of
              None \<Rightarrow> Inl (BadRequest ''product has no process route'')
            | Some q \<Rightarrow> Inr q))
     else Inr processId)"

definition process_steps :: "int \<Rightarrow> wo_db \<Rightarrow> step_row list" where
  "process_steps processId db = sort_key st_seq (filter (\<lambda>s. st_process s = processId) (steps db))"

definition new_order ::
  "wo_env \<Rightarrow> user_ctx \<Rightarrow> string \<Rightarrow> int \<Rightarrow> int \<Rightarrow> int \<Rightarrow> int \<Rightarrow> int \<Rightarrow> string \<Rightarrow> wo_db \<Rightarrow> work_order" where
  "new_order e c no productId processId lineId planQty priority remark db =
    \<lparr>wo_id = next_wo db, wo_no = no, wo_product = productId, wo_process = processId,
     wo_line = (if lineId = 0 then None else Some lineId), wo_plan = planQty, wo_completed = 0,
     wo_good = 0, wo_defect = 0, wo_scrap = 0, wo_status = 0, wo_priority = priority,
     wo_source = 2, wo_remark = remark,
     wo_plan_start = None, wo_plan_end = None, wo_start = None, wo_end = None, wo_creator = c_user c,
     wo_created = e_now e, wo_updated = e_now e\<rparr>"

definition insert_order :: "work_order \<Rightarrow> wo_db \<Rightarrow> (wo_db, int) proc" where
  "insert_order w db0 db =
    (if (\<exists>p\<in>set (products db). pr_id p = wo_product w)
        \<and> (case wo_line w of None \<Rightarrow> True | Some l \<Rightarrow> l \<in> fst ` set (lines db))
        \<and> int16_ok (wo_priority w) \<and> wo_no w \<notin> wo_no ` set (orders db)
     then (Inr (wo_id w), db\<lparr>orders := orders db @ [w], next_wo := next_wo db + 1\<rparr>)
     else (Inl (SqlError ''insert prod_work_orders''), db))"

fun insert_ops :: "int \<Rightarrow> int \<Rightarrow> step_row list \<Rightarrow> wo_db \<Rightarrow> wo_db" where
  "insert_ops woId planQty [] db = db"
| "insert_ops woId planQty (s # ss) db =
     insert_ops woId planQty ss
       (db\<lparr>ops := ops db @ [\<lparr>op_id = next_op db, op_wo = woId, op_step = Some (st_id s),
             op_workstation = None,
             op_seq = st_seq s, op_name = st_name s, op_plan = planQty, op_completed = 0,
             op_good = 0, op_defect = 0, op_scrap = 0, op_operator = None, op_status = 0,
             op_start = None, op_end = None\<rparr>],
           next_op := next_op db + 1\<rparr>)"

definition create_body_trans ::
  "wo_env \<Rightarrow> user_ctx \<Rightarrow> create_body \<Rightarrow> int \<Rightarrow> int \<Rightarrow> (wo_db, int \<times> string) proc" where
  "create_body_trans e c b productId planQty db =
    (case field_value 0 (cb_process b) of
       Inl f \<Rightarrow> (Inl f, db)
     | Inr p0 \<Rightarrow>
     (case resolve_process productId p0 db of
       Inl f \<Rightarrow> (Inl f, db)
     | Inr processId \<Rightarrow>
         let ss = process_steps processId db in
         if ss = [] then (Inl (BadRequest ''process route has no steps''), db)
         else
           let sq = wo_no_seq db;
               db1 = db\<lparr>wo_no_seq := sq + 1\<rparr>;
               no = genWorkOrderNo e sq in
           case (field_value 0 (cb_line b), field_value 5 (cb_priority b), field_value [] (cb_remark b)) of
             (Inr lineId, Inr priority, Inr remark) \<Rightarrow>
               (case insert_order (new_order e c no productId processId lineId planQty priority remark db1)
                       db db1 of
                  (Inl f, db2) \<Rightarrow> (Inl f, db2)
                | (Inr woId, db2) \<Rightarrow> (Inr (woId, no), insert_ops woId planQty ss db2))
           | _ \<Rightarrow> (Inl JsonError, db1)))"

text \<open>What the sequences have given out is not taken back with the transaction.\<close>

definition keep_sequences :: "wo_db \<Rightarrow> wo_db \<Rightarrow> wo_db" where
  "keep_sequences used db = db\<lparr>wo_no_seq := wo_no_seq used, next_wo := next_wo used, next_op := next_op used\<rparr>"

definition create :: "(wo_db \<Rightarrow> wo_db \<Rightarrow> wo_db) \<Rightarrow> wo_env \<Rightarrow> user_ctx \<Rightarrow> create_body \<Rightarrow> (wo_db, int \<times> string) proc" where
  "create abandon e c b db =
    (case field_value 0 (cb_product b) of
       Inl f \<Rightarrow> (Inl f, db)
     | Inr productId \<Rightarrow>
     (case field_value 0 (cb_plan b) of
       Inl f \<Rightarrow> (Inl f, db)
     | Inr planQty \<Rightarrow>
         if productId \<le> 0 \<or> planQty \<le> 0
         then (Inl (BadRequest ''product_id and plan_qty are required and positive''), db)
         else
           (case transaction abandon (e_commit e) ''work order commit failed'' (create_body_trans e c b productId planQty) db of
              (r, t) \<Rightarrow> (r, keep_sequences (snd (create_body_trans e c b productId planQty db)) t))))"

section \<open>update\<close>

record update_body =
  ub_plan :: "int field"
  ub_priority :: "int field"
  ub_line :: "int field"

definition update_row :: "wo_env \<Rightarrow> update_body \<Rightarrow> work_order \<Rightarrow> work_order" where
  "update_row e b q =
    q\<lparr>wo_plan := (case ub_plan b of Given p \<Rightarrow> p | _ \<Rightarrow> wo_plan q),
      wo_priority := (case ub_priority b of Given p \<Rightarrow> p | _ \<Rightarrow> wo_priority q),
      wo_line := (case ub_line b of Given l \<Rightarrow> Some l | _ \<Rightarrow> wo_line q),
      wo_updated := e_now e\<rparr>"

definition update_trans :: "wo_env \<Rightarrow> int \<Rightarrow> update_body \<Rightarrow> (wo_db, int) proc" where
  "update_trans e i b db =
    (case first_row (\<lambda>w. wo_id w = i) (orders db) of
       None \<Rightarrow> (Inl (NotFound ''no such work order''), db)
     | Some w \<Rightarrow>
         if wo_status w > kScheduled then (Inl (Conflict ''a released work order cannot be changed''), db)
         else if ub_plan b = IllTyped \<or> ub_priority b = IllTyped \<or> ub_line b = IllTyped
           then (Inl JsonError, db)
         else if \<not> contains (ub_plan b) \<and> \<not> contains (ub_priority b) \<and> \<not> contains (ub_line b)
           then (Inl (BadRequest ''nothing to update''), db)
         else if (case ub_priority b of Given p \<Rightarrow> \<not> int16_ok p | _ \<Rightarrow> False)
              \<or> (case ub_line b of Given l \<Rightarrow> l \<notin> fst ` set (lines db) | _ \<Rightarrow> False)
           then (Inl (SqlError ''update prod_work_orders''), db)
         else
           let db1 = db\<lparr>orders := upd_where (\<lambda>q. wo_id q = i) (update_row e b) (orders db)\<rparr> in
           case ub_plan b of
             Given p \<Rightarrow> (Inr i, db1\<lparr>ops := upd_where (\<lambda>q. op_wo q = i \<and> op_status q = 0)
                               (\<lambda>q. q\<lparr>op_plan := p\<rparr>) (ops db1)\<rparr>)
           | _ \<Rightarrow> (Inr i, db1))"

definition update :: "(wo_db \<Rightarrow> wo_db \<Rightarrow> wo_db) \<Rightarrow> wo_env \<Rightarrow> int \<Rightarrow> update_body \<Rightarrow> (wo_db, int) proc" where
  "update abandon e i b = transaction abandon (e_commit e) ''work order commit failed'' (update_trans e i b)"

section \<open>transit\<close>

definition transit_row :: "wo_env \<Rightarrow> wo_event \<Rightarrow> int \<Rightarrow> int \<Rightarrow> work_order \<Rightarrow> work_order" where
  "transit_row e ev completed to_st q =
    q\<lparr>wo_status := to_st,
      wo_start := (if ev = Start \<and> completed = 0 then Some (e_now e) else wo_start q),
      wo_end := (if ev = Complete \<or> ev = Close
                 then (case wo_end q of None \<Rightarrow> Some (e_now e) | Some t \<Rightarrow> Some t) else wo_end q),
      wo_updated := e_now e\<rparr>"

definition transit_trans :: "wo_env \<Rightarrow> int \<Rightarrow> wo_event \<Rightarrow> (wo_db, int) proc" where
  "transit_trans e i ev db =
    (case first_row (\<lambda>w. wo_id w = i) (orders db) of
       None \<Rightarrow> (Inl (NotFound ''no such work order''), db)
     | Some w \<Rightarrow>
         let to_st = next_status (wo_status w) ev in
         if to_st < 0 then (Inl (Conflict ''illegal transition''), db)
         else (Inr to_st, db\<lparr>orders := upd_where (\<lambda>q. wo_id q = i)
                               (transit_row e ev (wo_completed w) to_st) (orders db)\<rparr>))"

definition transit :: "(wo_db \<Rightarrow> wo_db \<Rightarrow> wo_db) \<Rightarrow> wo_env \<Rightarrow> int \<Rightarrow> string \<Rightarrow> (wo_db, int) proc" where
  "transit abandon e i action db =
    (case actionToEvent action of
       Inl f \<Rightarrow> (Inl f, db)
     | Inr ev \<Rightarrow> transaction abandon (e_commit e) ''work order commit failed'' (transit_trans e i ev) db)"

section \<open>report\<close>

record report_body =
  rb_step :: "int field"
  rb_good :: "int field"
  rb_defect :: "int field"
  rb_scrap :: "int field"

record quantities =
  q_step :: int
  q_good :: int
  q_defect :: int
  q_scrap :: int
  q_delta :: int

definition check_report :: "report_body \<Rightarrow> quantities result" where
  "check_report b =
    (case (field_value 0 (rb_step b), field_value 0 (rb_good b),
           field_value 0 (rb_defect b), field_value 0 (rb_scrap b)) of
       (Inr stp, Inr g, Inr d, Inr s) \<Rightarrow>
         if \<not> validStep stp then Inl (BadRequest ''step_seq is required and positive'')
         else if \<not> validQty g d s then Inl (BadRequest ''quantities must not be negative'')
         else (case totalDelta g d s of
                 Inl f \<Rightarrow> Inl f
               | Inr delta \<Rightarrow>
                   if delta \<le> 0 then Inl (BadRequest ''reported quantity must be positive'')
                   else Inr \<lparr>q_step = stp, q_good = g, q_defect = d, q_scrap = s, q_delta = delta\<rparr>)
     | _ \<Rightarrow> Inl JsonError)"

definition gate_enabled :: "wo_db \<Rightarrow> bool" where
  "gate_enabled db \<longleftrightarrow>
    (case map_of (configs db) ''quality_gate_enabled'' of
       Some (Some v) \<Rightarrow> v = ''true'' | _ \<Rightarrow> True)"

definition inspected :: "wo_db \<Rightarrow> int \<Rightarrow> int \<Rightarrow> bool" where
  "inspected db i opid \<longleftrightarrow>
    (\<exists>q\<in>set (inspections db). qi_wo q = Some i \<and> (qi_op q = Some opid \<or> qi_op q = None)
       \<and> (qi_result q = 1 \<or> qi_result q = 3))"

text \<open>The quality gate refuses when the first joined row needs an inspection and has none.\<close>

definition gate_refuses :: "wo_db \<Rightarrow> int \<Rightarrow> int \<Rightarrow> bool" where
  "gate_refuses db i stp =
    (case [(p, s). p \<leftarrow> filter (\<lambda>p. op_wo p = i \<and> op_seq p = stp) (ops db),
                   s \<leftarrow> filter (\<lambda>s. op_step p = Some (st_id s)) (steps db)] of
       [] \<Rightarrow> False
     | (p, s) # _ \<Rightarrow> st_quality s \<and> gate_enabled db \<and> \<not> inspected db i (op_id p))"

definition op_hit :: "int \<Rightarrow> quantities \<Rightarrow> op_row \<Rightarrow> bool" where
  "op_hit i q p \<longleftrightarrow> op_wo p = i \<and> op_seq p = q_step q \<and> op_completed p + q_delta q \<le> op_plan p"

definition bump_op :: "wo_env \<Rightarrow> int \<Rightarrow> quantities \<Rightarrow> op_row \<Rightarrow> op_row" where
  "bump_op e user q p =
    p\<lparr>op_completed := op_completed p + q_delta q, op_good := op_good p + q_good q,
      op_defect := op_defect p + q_defect q, op_scrap := op_scrap p + q_scrap q,
      op_operator := Some user,
      op_status := (if op_completed p + q_delta q \<ge> op_plan p then 2 else 1),
      op_start := (case op_start p of None \<Rightarrow> Some (e_now e) | Some t \<Rightarrow> Some t),
      op_end := (if op_completed p + q_delta q \<ge> op_plan p then Some (e_now e) else op_end p)\<rparr>"

definition bump_wo :: "wo_env \<Rightarrow> quantities \<Rightarrow> work_order \<Rightarrow> work_order" where
  "bump_wo e q w =
    w\<lparr>wo_completed := wo_completed w + q_delta q, wo_good := wo_good w + q_good q,
      wo_defect := wo_defect w + q_defect q, wo_scrap := wo_scrap w + q_scrap q,
      wo_status := (if wo_completed w + q_delta q \<ge> wo_plan w then kCompleted else wo_status w),
      wo_end := (if wo_completed w + q_delta q \<ge> wo_plan w then Some (e_now e) else wo_end w),
      wo_updated := e_now e\<rparr>"

text \<open>The columns are \<open>int4\<close>: a sum out of range fails the statement.\<close>

definition op_fits :: "op_row \<Rightarrow> bool" where
  "op_fits p \<longleftrightarrow> int32_ok (op_completed p) \<and> int32_ok (op_good p) \<and> int32_ok (op_defect p) \<and> int32_ok (op_scrap p)"

definition wo_fits :: "work_order \<Rightarrow> bool" where
  "wo_fits w \<longleftrightarrow> int32_ok (wo_completed w) \<and> int32_ok (wo_good w) \<and> int32_ok (wo_defect w) \<and> int32_ok (wo_scrap w)"

text \<open>
  The single statement: the common table expression updates the operation, the main \<open>UPDATE\<close>
  the order in progress if an operation was hit. It returns the updated order, if any.
\<close>

definition report_sql :: "wo_env \<Rightarrow> int \<Rightarrow> int \<Rightarrow> quantities \<Rightarrow> (wo_db, work_order option) proc" where
  "report_sql e user i q db =
    (let hit_any = (\<exists>p\<in>set (ops db). op_hit i q p);
         wo_hit = (\<lambda>w. wo_id w = i \<and> wo_status w = kInProgress \<and> hit_any) in
     if (\<exists>p\<in>set (ops db). op_wo p = i \<and> op_seq p = q_step q \<and> \<not> int32_ok (op_completed p + q_delta q))
        \<or> (\<exists>p\<in>set (ops db). op_hit i q p \<and> \<not> op_fits (bump_op e user q p))
        \<or> (\<exists>w\<in>set (orders db). wo_hit w \<and> \<not> wo_fits (bump_wo e q w))
     then (Inl (SqlError ''integer out of range''), db)
     else (Inr (map_option (bump_wo e q) (first_row wo_hit (orders db))),
           db\<lparr>ops := upd_where (op_hit i q) (bump_op e user q) (ops db),
              orders := upd_where wo_hit (bump_wo e q) (orders db)\<rparr>))"

definition report_diagnose :: "int \<Rightarrow> quantities \<Rightarrow> wo_db \<Rightarrow> fault" where
  "report_diagnose i q db =
    (case first_row (\<lambda>w. wo_id w = i) (orders db) of
       None \<Rightarrow> NotFound ''no such work order''
     | Some w \<Rightarrow>
         if wo_status w \<noteq> kInProgress then Conflict ''only a work order in progress can be reported''
         else (case first_row (\<lambda>p. op_wo p = i \<and> op_seq p = q_step q) (ops db) of
                 None \<Rightarrow> NotFound ''no such operation''
               | Some p \<Rightarrow> Conflict (''over-report: '' @ to_string (op_completed p) @ ''/'' @ to_string (op_plan p))))"

definition stop_message :: "wo_env \<Rightarrow> int \<Rightarrow> work_order \<Rightarrow> outbox_msg" where
  "stop_message e i w =
    \<lparr>m_exchange = ''iot.exchange'', m_key = ''cmd.stop_collection'',
     m_payload = JObj [(''version'', JStr ''1.0''), (''type'', JStr ''stop_collection''),
       (''work_order_id'', JInt i), (''work_order_no'', JStr (wo_no w)),
       (''product_id'', JInt (wo_product w)), (''timestamp'', JStr (nowUtcIso (e_now e)))]\<rparr>"

definition report_trans :: "wo_env \<Rightarrow> int \<Rightarrow> int \<Rightarrow> quantities \<Rightarrow> (wo_db, bool) proc" where
  "report_trans e user i q db =
    (if gate_refuses db i (q_step q) then (Inl (Conflict ''operation needs an inspection first''), db)
     else
       case report_sql e user i q db of
         (Inl f, db1) \<Rightarrow> (Inl f, db1)
       | (Inr None, db1) \<Rightarrow> (Inl (report_diagnose i q db1), db1)
       | (Inr (Some w), db1) \<Rightarrow>
           let finished = (wo_completed w \<ge> wo_plan w) in
           (Inr finished,
            if finished then db1\<lparr>wo_outbox := kEnqueueSql (e_now e) (stop_message e i w) (wo_outbox db1)\<rparr>
            else db1))"

definition report ::
  "(wo_db \<Rightarrow> wo_db \<Rightarrow> wo_db) \<Rightarrow> wo_env \<Rightarrow> user_ctx \<Rightarrow> int \<Rightarrow> report_body \<Rightarrow> (wo_db, quantities \<times> bool) proc" where
  "report abandon e c i b db =
    (case check_report b of
       Inl f \<Rightarrow> (Inl f, db)
     | Inr q \<Rightarrow>
         (case transaction abandon (e_commit e) ''report commit failed'' (report_trans e (c_user c) i q) db of
            (Inl f, db1) \<Rightarrow> (Inl f, db1)
          | (Inr finished, db1) \<Rightarrow> (Inr (q, finished), db1)))"

end
