(* ===== verification/Work_Order_Inv.thy ===== *)
theory Work_Order_Inv
  imports Work_Orders
begin

text \<open>
  The invariant of the work-order tables and its preservation by every operation of the
  service, with the properties that rest on it. \<open>wo_call\<close> is a request, \<open>wo_step\<close> its effect.
\<close>

section \<open>Invariant\<close>

definition op_ok :: "op_row \<Rightarrow> bool" where
  "op_ok p \<longleftrightarrow>
    0 \<le> op_good p \<and> 0 \<le> op_defect p \<and> 0 \<le> op_scrap p \<and>
    op_completed p = op_good p + op_defect p + op_scrap p \<and>
    ((op_status p = 0 \<and> op_completed p = 0) \<or>
     (op_status p = 1 \<and> 0 < op_completed p \<and> op_completed p < op_plan p) \<or>
     (op_status p = 2 \<and> 0 < op_completed p \<and> op_completed p = op_plan p))"

definition order_ok :: "work_order \<Rightarrow> bool" where
  "order_ok w \<longleftrightarrow>
    0 \<le> wo_status w \<and> wo_status w \<le> 7 \<and>
    (wo_status w \<in> {0, 1, 2, 7} \<longrightarrow> wo_completed w = 0) \<and>
    (wo_status w \<in> {3, 4} \<longrightarrow> wo_completed w < wo_plan w \<or> wo_completed w = 0)"

text \<open>The sum of a quantity over the operations of an order.\<close>

definition tot :: "(op_row \<Rightarrow> int) \<Rightarrow> int \<Rightarrow> op_row list \<Rightarrow> int" where
  "tot f i ps = sum_list (map (\<lambda>p. if op_wo p = i then f p else 0) ps)"

definition conserved :: "op_row list \<Rightarrow> work_order \<Rightarrow> bool" where
  "conserved ps w \<longleftrightarrow>
    wo_completed w = tot op_completed (wo_id w) ps \<and> wo_good w = tot op_good (wo_id w) ps \<and>
    wo_defect w = tot op_defect (wo_id w) ps \<and> wo_scrap w = tot op_scrap (wo_id w) ps"

definition wo_inv :: "wo_db \<Rightarrow> bool" where
  "wo_inv db \<longleftrightarrow>
    distinct (map wo_id (orders db)) \<and>
    (\<forall>w\<in>set (orders db). wo_id w < next_wo db \<and> order_ok w \<and> conserved (ops db) w) \<and>
    distinct (map (\<lambda>p. (op_wo p, op_seq p)) (ops db)) \<and>
    (\<forall>p\<in>set (ops db). op_ok p \<and> (\<exists>w\<in>set (orders db). wo_id w = op_wo p \<and> op_plan p = wo_plan w)) \<and>
    distinct (map (\<lambda>s. (st_process s, st_seq s)) (steps db)) \<and>
    outbox_ok (wo_outbox db)"

lemma tot_append: "tot f i (xs @ ys) = tot f i xs + tot f i ys"
  by (simp add: tot_def)

lemma tot_zero: "(\<And>p. p \<in> set ps \<Longrightarrow> op_wo p = i \<Longrightarrow> f p = 0) \<Longrightarrow> tot f i ps = 0"
  by (induction ps) (auto simp: tot_def)

lemma tot_nonneg: "(\<And>p. p \<in> set ps \<Longrightarrow> 0 \<le> f p) \<Longrightarrow> 0 \<le> tot f i ps"
  by (induction ps) (auto simp: tot_def)

lemma tot_le: "p \<in> set ps \<Longrightarrow> op_wo p = i \<Longrightarrow> (\<And>q. q \<in> set ps \<Longrightarrow> 0 \<le> f q) \<Longrightarrow> f p \<le> tot f i ps"
proof (induction ps)
  case (Cons q ps)
  have "0 \<le> tot f i ps" using Cons.prems(3) by (intro tot_nonneg) auto
  moreover have "p = q \<or> f p \<le> tot f i ps" using Cons by auto
  moreover have "0 \<le> f q" using Cons.prems(3) by simp
  ultimately show ?case using Cons.prems(2) by (auto simp: tot_def)
qed simp

lemma tot_upd_same:
  assumes "\<And>p. p \<in> set ps \<Longrightarrow> c p \<Longrightarrow> op_wo p = i \<Longrightarrow> f (g p) = f p" and "\<And>p. op_wo (g p) = op_wo p"
  shows "tot f i (upd_where c g ps) = tot f i ps"
  unfolding tot_def using assms by (intro sum_list_upd_where_same) auto

lemma op_ok_nonneg: "op_ok p \<Longrightarrow> 0 \<le> op_completed p"
  by (auto simp: op_ok_def)

lemma wo_inv_idle_ops:
  assumes "wo_inv db" and "w \<in> set (orders db)" and "wo_completed w = 0"
    and "p \<in> set (ops db)" and "op_wo p = wo_id w"
  shows "op_completed p = 0 \<and> op_status p = 0"
proof -
  have "op_completed p \<le> tot op_completed (wo_id w) (ops db)"
    using assms by (intro tot_le) (auto simp: wo_inv_def dest: op_ok_nonneg)
  also have "\<dots> = 0" using assms by (auto simp: wo_inv_def conserved_def)
  finally show ?thesis using assms(1,4) by (auto simp: wo_inv_def op_ok_def)
qed

section \<open>create\<close>

lemma insert_ops_frame [simp]:
  "orders (insert_ops i n ss db) = orders db" "wo_outbox (insert_ops i n ss db) = wo_outbox db"
  "steps (insert_ops i n ss db) = steps db" "next_wo (insert_ops i n ss db) = next_wo db"
  by (induction ss arbitrary: db) simp_all

lemma insert_ops_rows:
  "\<exists>ns. ops (insert_ops i n ss db) = ops db @ ns \<and> map op_seq ns = map st_seq ss \<and>
     (\<forall>p\<in>set ns. op_wo p = i \<and> op_plan p = n \<and> op_completed p = 0 \<and> op_good p = 0
        \<and> op_defect p = 0 \<and> op_scrap p = 0 \<and> op_status p = 0)"
proof (induction ss arbitrary: db)
  case (Cons s ss)
  let ?p = "\<lparr>op_id = next_op db, op_wo = i, op_step = Some (st_id s), op_workstation = None,
     op_seq = st_seq s, op_name = st_name s, op_plan = n, op_completed = 0, op_good = 0,
     op_defect = 0, op_scrap = 0, op_operator = None, op_status = 0, op_start = None, op_end = None\<rparr>"
  from Cons [of "db\<lparr>ops := ops db @ [?p], next_op := next_op db + 1\<rparr>"] obtain ns
    where "ops (insert_ops i n (s # ss) db) = ops db @ ?p # ns" "map op_seq ns = map st_seq ss"
      "\<forall>p\<in>set ns. op_wo p = i \<and> op_plan p = n \<and> op_completed p = 0 \<and> op_good p = 0
        \<and> op_defect p = 0 \<and> op_scrap p = 0 \<and> op_status p = 0"
    by auto
  then show ?case by (intro exI [of _ "?p # ns"]) auto
qed simp

lemma process_steps_distinct:
  assumes "distinct (map (\<lambda>s. (st_process s, st_seq s)) (steps db))"
  shows "distinct (map st_seq (process_steps q db))"
proof -
  have "inj_on st_seq (set (filter (\<lambda>s. st_process s = q) (steps db)))"
    using assms by (auto simp: distinct_map inj_on_def)
  moreover have "distinct (filter (\<lambda>s. st_process s = q) (steps db))"
    using assms by (simp add: distinct_map)
  ultimately show ?thesis by (simp add: process_steps_def distinct_map)
qed

lemma new_order_simps [simp]:
  "wo_id (new_order e c no pid q l n prio rm db) = next_wo db"
  "wo_plan (new_order e c no pid q l n prio rm db) = n"
  "wo_completed (new_order e c no pid q l n prio rm db) = 0"
  "wo_good (new_order e c no pid q l n prio rm db) = 0"
  "wo_defect (new_order e c no pid q l n prio rm db) = 0"
  "wo_scrap (new_order e c no pid q l n prio rm db) = 0"
  "wo_status (new_order e c no pid q l n prio rm db) = 0"
  by (simp_all add: new_order_def)

lemma create_trans_cases:
  assumes "create_body_trans e c b productId planQty db = (Inr v, db')"
  obtains no q l prio rm where "fst v = next_wo db"
    and "db' = insert_ops (next_wo db) planQty (process_steps q db)
       (db\<lparr>wo_no_seq := wo_no_seq db + 1,
           orders := orders db @ [new_order e c no productId q l planQty prio rm (db\<lparr>wo_no_seq := wo_no_seq db + 1\<rparr>)],
           next_wo := next_wo db + 1\<rparr>)"
proof -
  let ?db1 = "db\<lparr>wo_no_seq := wo_no_seq db + 1\<rparr>"
  from assms obtain q l prio rm db2 where
    ins: "insert_order (new_order e c (genWorkOrderNo e (wo_no_seq db)) productId q l planQty prio rm ?db1)
       db ?db1 = (Inr (fst v), db2)"
    and db': "db' = insert_ops (fst v) planQty (process_steps q db) db2"
    by (auto simp: create_body_trans_def Let_def split: sum.splits if_splits prod.splits)
  from ins have "fst v = next_wo db" and
    "db2 = ?db1\<lparr>orders := orders db @ [new_order e c (genWorkOrderNo e (wo_no_seq db)) productId q l planQty prio rm ?db1],
        next_wo := next_wo db + 1\<rparr>"
    by (auto simp: insert_order_def split: if_splits)
  with db' show thesis by (intro that) simp_all
qed

lemma create_trans_inv:
  assumes inv: "wo_inv db" and r: "create_body_trans e c b productId planQty db = (Inr v, db')"
    and "0 < planQty"
  shows "wo_inv db'"
proof -
  obtain w q where w: "wo_id w = next_wo db" "wo_plan w = planQty" "wo_completed w = 0"
    "wo_good w = 0" "wo_defect w = 0" "wo_scrap w = 0" "wo_status w = 0"
    and db': "db' = insert_ops (next_wo db) planQty (process_steps q db)
          (db\<lparr>wo_no_seq := wo_no_seq db + 1, orders := orders db @ [w], next_wo := next_wo db + 1\<rparr>)"
    using create_trans_cases [OF r] proof cases
    case (1 no q l prio rm)
    show ?thesis by (rule that [OF _ _ _ _ _ _ _ 1(2)]) simp_all
  qed
  obtain ns where ns: "ops db' = ops db @ ns" "map op_seq ns = map st_seq (process_steps q db)"
    "\<forall>p\<in>set ns. op_wo p = next_wo db \<and> op_plan p = planQty \<and> op_completed p = 0 \<and> op_good p = 0
        \<and> op_defect p = 0 \<and> op_scrap p = 0 \<and> op_status p = 0"
    using insert_ops_rows [of "next_wo db" planQty "process_steps q db"
        "db\<lparr>wo_no_seq := wo_no_seq db + 1, orders := orders db @ [w], next_wo := next_wo db + 1\<rparr>"] db'
    by auto
  have fr: "orders db' = orders db @ [w]" "next_wo db' = next_wo db + 1"
    "steps db' = steps db" "wo_outbox db' = wo_outbox db"
    by (simp_all add: db')
  have old: "op_wo p < next_wo db" if "p \<in> set (ops db)" for p
    using inv that unfolding wo_inv_def by metis
  have "distinct (map op_seq ns)"
    using ns(2) inv process_steps_distinct [of db q] by (simp add: wo_inv_def)
  then have "distinct (map (\<lambda>p. (op_wo p, op_seq p)) ns)"
    by (auto simp: distinct_map inj_on_def)
  moreover have "(\<lambda>p. (op_wo p, op_seq p)) ` set (ops db) \<inter> (\<lambda>p. (op_wo p, op_seq p)) ` set ns = {}"
    using old ns(3) by fastforce
  ultimately have d: "distinct (map (\<lambda>p. (op_wo p, op_seq p)) (ops db'))"
    using inv ns(1) by (auto simp: wo_inv_def)
  have new: "tot f i ns = 0" if "f \<in> {op_completed, op_good, op_defect, op_scrap}" for f i
    using ns(3) that by (intro tot_zero) auto
  have none: "tot f (next_wo db) (ops db) = 0" for f
    using old by (intro tot_zero) force
  have c: "conserved (ops db') x" if "x \<in> set (orders db')" for x
    using that inv w fr none by (auto simp: conserved_def ns(1) tot_append new wo_inv_def)
  have ok: "op_ok p \<and> (\<exists>x\<in>set (orders db'). wo_id x = op_wo p \<and> op_plan p = wo_plan x)"
    if "p \<in> set (ops db')" for p
    using that inv ns(1,3) w fr(1) by (auto simp: wo_inv_def op_ok_def)
  have "order_ok w" using w by (simp add: order_ok_def)
  then show ?thesis
    unfolding wo_inv_def using d c ok inv w(1) fr by (auto simp: wo_inv_def)
qed

section \<open>update\<close>

lemma update_row_simps [simp]:
  "wo_id (update_row e b q) = wo_id q" "wo_completed (update_row e b q) = wo_completed q"
  "wo_good (update_row e b q) = wo_good q" "wo_defect (update_row e b q) = wo_defect q"
  "wo_scrap (update_row e b q) = wo_scrap q" "wo_status (update_row e b q) = wo_status q"
  "wo_plan (update_row e b q) = (case ub_plan b of Given p \<Rightarrow> p | _ \<Rightarrow> wo_plan q)"
  by (simp_all add: update_row_def)

lemma update_trans_cases:
  assumes "update_trans e i b db = (Inr v, db')"
  obtains w where "first_row (\<lambda>w. wo_id w = i) (orders db) = Some w"
    and "wo_status w \<le> kScheduled"
    and "orders db' = upd_where (\<lambda>q. wo_id q = i) (update_row e b) (orders db)"
    and "ops db' = (case ub_plan b of
       Given p \<Rightarrow> upd_where (\<lambda>q. op_wo q = i \<and> op_status q = 0) (\<lambda>q. q\<lparr>op_plan := p\<rparr>) (ops db)
     | _ \<Rightarrow> ops db)"
    and "wo_outbox db' = wo_outbox db" "steps db' = steps db" "next_wo db' = next_wo db"
  using assms
  by (auto simp: update_trans_def Let_def split: option.splits if_splits field.splits)

lemma conserved_frame:
  assumes "conserved ps w" and "wo_id w' = wo_id w" "wo_completed w' = wo_completed w"
    "wo_good w' = wo_good w" "wo_defect w' = wo_defect w" "wo_scrap w' = wo_scrap w"
    and "\<And>f. f \<in> {op_completed, op_good, op_defect, op_scrap} \<Longrightarrow> tot f (wo_id w) ps' = tot f (wo_id w) ps"
  shows "conserved ps' w'"
  using assms by (simp add: conserved_def)

lemma update_trans_inv:
  assumes inv: "wo_inv db" and r: "update_trans e i b db = (Inr v, db')"
  shows "wo_inv db'"
  using r
proof (cases rule: update_trans_cases)
  case (1 w)
  have w: "w \<in> set (orders db)" "wo_id w = i"
    using first_row_SomeD [OF 1(1)] by auto
  have idle: "op_completed p = 0 \<and> op_status p = 0" if "p \<in> set (ops db)" "op_wo p = i" for p
    using wo_inv_idle_ops [OF inv w(1), of p] that w 1(2) inv
    by (auto simp: wo_inv_def order_ok_def)
  have uniq: "q = w" if "q \<in> set (orders db)" "wo_id q = i" for q
    using inv w that by (auto simp: wo_inv_def intro: distinct_key_eq)
  have t: "tot f j (ops db') = tot f j (ops db)"
    if "f \<in> {op_completed, op_good, op_defect, op_scrap}" for f j
    using 1(4) that by (auto intro!: tot_upd_same split: field.splits)
  have w0: "wo_completed w = 0 \<and> order_ok w" using inv w 1(2) by (auto simp: wo_inv_def order_ok_def)
  let ?x = "\<lambda>x. if wo_id x = i then update_row e b x else x"
  have o: "wo_id (?x q) < next_wo db' \<and> order_ok (?x q) \<and> conserved (ops db') (?x q)"
    if "q \<in> set (orders db)" for q
  proof -
    have "wo_id q < next_wo db" "order_ok q" "conserved (ops db) q"
      using inv that by (auto simp: wo_inv_def)
    have "conserved (ops db') (?x q)"
      using \<open>conserved (ops db) q\<close> by (rule conserved_frame) (simp_all add: t)
    moreover have "order_ok (?x q)"
      using \<open>order_ok q\<close> uniq [OF that] w0 1(2) by (auto simp: order_ok_def)
    ultimately show ?thesis using \<open>wo_id q < next_wo db\<close> 1(7) by simp
  qed
  have k: "map wo_id (orders db') = map wo_id (orders db)"
    by (simp add: 1(3))
  have k2: "map (\<lambda>p. (op_wo p, op_seq p)) (ops db') = map (\<lambda>p. (op_wo p, op_seq p)) (ops db)"
    using 1(4) by (auto split: field.splits)
  have os: "set (orders db') = ?x ` set (orders db)" by (simp add: 1(3) set_upd_where)
  have p: "op_ok p \<and> (\<exists>x\<in>set (orders db'). wo_id x = op_wo p \<and> op_plan p = wo_plan x)"
    if p: "p \<in> set (ops db')" for p
  proof -
    from p 1(4) obtain p0 where p0: "p0 \<in> set (ops db)"
      and pp: "p = (case ub_plan b of Given n \<Rightarrow>
         if op_wo p0 = i \<and> op_status p0 = 0 then p0\<lparr>op_plan := n\<rparr> else p0 | _ \<Rightarrow> p0)"
      by (auto simp: set_upd_where split: field.splits)
    obtain x where x: "x \<in> set (orders db)" "wo_id x = op_wo p0" "op_plan p0 = wo_plan x" and "op_ok p0"
      using inv p0 unfolding wo_inv_def by metis
    have "?x x \<in> set (orders db')" using x(1) os by blast
    moreover have "wo_id (?x x) = op_wo p \<and> op_plan p = wo_plan (?x x)"
      using pp x idle [OF p0] by (auto split: field.splits)
    moreover have "op_ok p" using pp idle [OF p0] \<open>op_ok p0\<close>
      by (auto simp: op_ok_def split: field.splits)
    ultimately show ?thesis by blast
  qed
  have "\<forall>q\<in>set (orders db'). wo_id q < next_wo db' \<and> order_ok q \<and> conserved (ops db') q"
    unfolding os using o by blast
  then show ?thesis
    unfolding wo_inv_def k k2 using inv p 1(5,6) by (simp add: wo_inv_def)
qed

section \<open>transit\<close>

lemma transit_trans_cases:
  assumes "transit_trans e i ev db = (Inr v, db')"
  obtains w where "first_row (\<lambda>w. wo_id w = i) (orders db) = Some w"
    and "legal_move (wo_status w) ev (next_status (wo_status w) ev)"
    and "v = next_status (wo_status w) ev"
    and "db' = db\<lparr>orders := upd_where (\<lambda>q. wo_id q = i)
        (transit_row e ev (wo_completed w) (next_status (wo_status w) ev)) (orders db)\<rparr>"
  using assms
  by (auto simp: transit_trans_def Let_def next_status_legal [symmetric] split: option.splits if_splits)

lemma transit_row_simps [simp]:
  "wo_id (transit_row e ev n t q) = wo_id q" "wo_plan (transit_row e ev n t q) = wo_plan q"
  "wo_completed (transit_row e ev n t q) = wo_completed q" "wo_good (transit_row e ev n t q) = wo_good q"
  "wo_defect (transit_row e ev n t q) = wo_defect q" "wo_scrap (transit_row e ev n t q) = wo_scrap q"
  "wo_status (transit_row e ev n t q) = t"
  by (simp_all add: transit_row_def)

lemma order_ok_move:
  assumes "order_ok w" and "legal_move (wo_status w) ev t"
    and "wo_completed w' = wo_completed w" "wo_plan w' = wo_plan w" "wo_status w' = t"
  shows "order_ok w'"
  using assms(2,1,3-5) by cases (auto simp: order_ok_def)

lemma transit_trans_inv:
  assumes inv: "wo_inv db" and r: "transit_trans e i ev db = (Inr v, db')"
  shows "wo_inv db'"
  using r
proof (cases rule: transit_trans_cases)
  case (1 w)
  have w: "w \<in> set (orders db)" "wo_id w = i"
    using first_row_SomeD [OF 1(1)] by auto
  have uniq: "q = w" if "q \<in> set (orders db)" "wo_id q = i" for q
    using inv w that by (auto simp: wo_inv_def intro: distinct_key_eq)
  let ?g = "\<lambda>q. if wo_id q = i then transit_row e ev (wo_completed w) (next_status (wo_status w) ev) q else q"
  have o: "order_ok (?g q) \<and> conserved (ops db) (?g q) \<and> wo_id (?g q) = wo_id q \<and> wo_plan (?g q) = wo_plan q"
    if "q \<in> set (orders db)" for q
    using that inv uniq 1(2) by (auto simp: wo_inv_def conserved_def intro: order_ok_move)
  have k: "map wo_id (orders db') = map wo_id (orders db)"
    by (simp add: 1(4))
  have "set (orders db') = ?g ` set (orders db)" by (simp add: 1(4) set_upd_where)
  then show ?thesis
    unfolding wo_inv_def k using inv o 1(4) by (fastforce simp: wo_inv_def)
qed


section \<open>report\<close>

definition quantities_ok :: "quantities \<Rightarrow> bool" where
  "quantities_ok q \<longleftrightarrow> 0 < q_step q \<and> 0 \<le> q_good q \<and> 0 \<le> q_defect q \<and> 0 \<le> q_scrap q \<and> 0 < q_delta q
     \<and> q_delta q = q_good q + q_defect q + q_scrap q"

lemma check_report_ok: "check_report b = Inr q \<Longrightarrow> quantities_ok q"
  by (auto simp: check_report_def quantities_ok_def validStep_def validQty_def totalDelta_Inr
      split: sum.splits if_splits)

lemma bump_wo_simps [simp]:
  "wo_id (bump_wo e q w) = wo_id w" "wo_plan (bump_wo e q w) = wo_plan w"
  "wo_completed (bump_wo e q w) = wo_completed w + q_delta q"
  "wo_good (bump_wo e q w) = wo_good w + q_good q" "wo_no (bump_wo e q w) = wo_no w"
  "wo_defect (bump_wo e q w) = wo_defect w + q_defect q" "wo_product (bump_wo e q w) = wo_product w"
  "wo_scrap (bump_wo e q w) = wo_scrap w + q_scrap q"
  "wo_status (bump_wo e q w) = (if wo_completed w + q_delta q \<ge> wo_plan w then kCompleted else wo_status w)"
  by (simp_all add: bump_wo_def)

lemma bump_op_simps [simp]:
  "op_wo (bump_op e u q p) = op_wo p" "op_seq (bump_op e u q p) = op_seq p" "op_plan (bump_op e u q p) = op_plan p"
  "op_completed (bump_op e u q p) = op_completed p + q_delta q"
  "op_good (bump_op e u q p) = op_good p + q_good q"
  "op_defect (bump_op e u q p) = op_defect p + q_defect q"
  "op_scrap (bump_op e u q p) = op_scrap p + q_scrap q"
  by (simp_all add: bump_op_def)

lemma op_ok_bump: "op_ok p \<Longrightarrow> op_hit i q p \<Longrightarrow> quantities_ok q \<Longrightarrow> op_ok (bump_op e u q p)"
  by (auto simp: op_ok_def op_hit_def quantities_ok_def bump_op_def)

text \<open>The tables after the statement hits order \<open>w\<close> through operation \<open>p\<close>.\<close>

definition reported :: "wo_env \<Rightarrow> int \<Rightarrow> quantities \<Rightarrow> work_order \<Rightarrow> op_row \<Rightarrow> wo_db \<Rightarrow> wo_db" where
  "reported e u q w p db =
    db\<lparr>ops := upd_where (\<lambda>r. r = p) (bump_op e u q) (ops db),
       orders := upd_where (\<lambda>r. r = w) (bump_wo e q) (orders db)\<rparr>"

lemma upd_where_cong: "(\<And>r. r \<in> set xs \<Longrightarrow> c r = d r) \<Longrightarrow> upd_where c f xs = upd_where d f xs"
  by (induction xs) auto

lemma inv_order_unique:
  "wo_inv db \<Longrightarrow> w \<in> set (orders db) \<Longrightarrow> r \<in> set (orders db) \<Longrightarrow> wo_id r = wo_id w \<Longrightarrow> r = w"
  by (auto simp: wo_inv_def intro: distinct_key_eq)

lemma inv_op_unique:
  "wo_inv db \<Longrightarrow> p \<in> set (ops db) \<Longrightarrow> r \<in> set (ops db) \<Longrightarrow> op_wo r = op_wo p \<Longrightarrow> op_seq r = op_seq p
   \<Longrightarrow> r = p"
  using distinct_key_eq [of "\<lambda>p. (op_wo p, op_seq p)" "ops db" r p] by (simp add: wo_inv_def)

lemma report_sql_Some:
  assumes inv: "wo_inv db" and r: "report_sql e u i q db = (Inr (Some w'), db')"
  obtains w p where "w \<in> set (orders db)" "wo_id w = i" "wo_status w = kInProgress"
    and "p \<in> set (ops db)" "op_hit i q p" "w' = bump_wo e q w" "db' = reported e u q w p db"
proof -
  let ?hit = "\<exists>p\<in>set (ops db). op_hit i q p"
  from r obtain w where w: "first_row (\<lambda>w. wo_id w = i \<and> wo_status w = kInProgress \<and> ?hit) (orders db) = Some w"
    and w': "w' = bump_wo e q w"
    and db': "db' = db\<lparr>ops := upd_where (op_hit i q) (bump_op e u q) (ops db),
       orders := upd_where (\<lambda>w. wo_id w = i \<and> wo_status w = kInProgress \<and> ?hit) (bump_wo e q) (orders db)\<rparr>"
    by (auto simp: report_sql_def Let_def split: if_splits)
  note w1 = first_row_SomeD [OF w]
  then obtain p where p: "p \<in> set (ops db)" "op_hit i q p" by blast
  have "upd_where (op_hit i q) (bump_op e u q) (ops db) = upd_where (\<lambda>r. r = p) (bump_op e u q) (ops db)"
  proof (rule upd_where_cong)
    fix r assume "r \<in> set (ops db)"
    then have "op_hit i q r \<Longrightarrow> r = p"
      using p inv_op_unique [OF inv p(1), of r] by (simp add: op_hit_def)
    then show "op_hit i q r = (r = p)" using p by blast
  qed
  moreover have "upd_where (\<lambda>w. wo_id w = i \<and> wo_status w = kInProgress \<and> ?hit) (bump_wo e q) (orders db)
      = upd_where (\<lambda>r. r = w) (bump_wo e q) (orders db)"
  proof (rule upd_where_cong)
    fix r assume "r \<in> set (orders db)"
    then show "(wo_id r = i \<and> wo_status r = kInProgress \<and> ?hit) = (r = w)"
      using w1 inv_order_unique [OF inv, of w r] by metis
  qed
  ultimately show thesis using w1 p w' db' by (intro that) (auto simp: reported_def)
qed

lemma tot_reported:
  assumes inv: "wo_inv db" and p: "p \<in> set (ops db)" and d: "f (bump_op e u q p) = f p + n"
  shows "tot f j (upd_where (\<lambda>r. r = p) (bump_op e u q) (ops db))
    = tot f j (ops db) + (if op_wo p = j then n else 0)"
proof -
  have "tot f j (upd_where (\<lambda>r. r = p) (bump_op e u q) (ops db)) =
      sum_list (map (\<lambda>p. if op_wo p = j then f p else 0) (ops db)) + (if op_wo p = j then n else 0)"
    unfolding tot_def
  proof (rule sum_list_upd_where_one [where k = "\<lambda>p. (op_wo p, op_seq p)"])
    show "distinct (map (\<lambda>p. (op_wo p, op_seq p)) (ops db))" using inv by (simp add: wo_inv_def)
  qed (use p d in auto)
  then show ?thesis by (simp add: tot_def)
qed

lemma reported_inv:
  assumes inv: "wo_inv db" and w: "w \<in> set (orders db)" "wo_id w = i" "wo_status w = kInProgress"
    and p: "p \<in> set (ops db)" "op_hit i q p" and q: "quantities_ok q"
  shows "wo_inv (reported e u q w p db)"
proof -
  let ?db = "reported e u q w p db"
  let ?x = "\<lambda>x. if x = w then bump_wo e q x else x"
  let ?o = "\<lambda>x. if x = p then bump_op e u q x else x"
  have os: "set (orders ?db) = ?x ` set (orders db)" and ps: "set (ops ?db) = ?o ` set (ops db)"
    by (simp_all add: reported_def set_upd_where)
  have k: "map wo_id (orders ?db) = map wo_id (orders db)"
    and k2: "map (\<lambda>p. (op_wo p, op_seq p)) (ops ?db) = map (\<lambda>p. (op_wo p, op_seq p)) (ops db)"
    by (simp_all add: reported_def)
  have pw: "op_wo p = i" using p(2) by (simp add: op_hit_def)
  have c: "wo_id (?x x) < next_wo db \<and> order_ok (?x x) \<and> conserved (ops ?db) (?x x)"
    if x: "x \<in> set (orders db)" for x
  proof -
    have "wo_id x < next_wo db" "order_ok x" "conserved (ops db) x"
      using inv x by (auto simp: wo_inv_def)
    moreover have "x = w \<longleftrightarrow> wo_id x = i"
      using inv_order_unique [OF inv w(1) x] w(2) by auto
    ultimately show ?thesis
      using w(3) pw p(1) inv
      by (auto simp: conserved_def reported_def tot_reported order_ok_def)
  qed
  have d: "op_ok (?o r) \<and> (\<exists>x\<in>set (orders ?db). wo_id x = op_wo (?o r) \<and> op_plan (?o r) = wo_plan x)"
    if r: "r \<in> set (ops db)" for r
  proof -
    have "op_ok r" using inv r by (simp add: wo_inv_def)
    then have "op_ok (?o r)" using p(2) q by (cases "r = p") (simp_all add: op_ok_bump)
    moreover obtain x where x: "x \<in> set (orders db)" "wo_id x = op_wo r" "op_plan r = wo_plan x"
      using inv r unfolding wo_inv_def by metis
    have "?x x \<in> set (orders ?db)" using x(1) os by blast
    moreover have "wo_id (?x x) = op_wo (?o r) \<and> op_plan (?o r) = wo_plan (?x x)" using x by auto
    ultimately show ?thesis by blast
  qed
  have "\<forall>x\<in>set (orders ?db). wo_id x < next_wo db \<and> order_ok x \<and> conserved (ops ?db) x"
    unfolding os using c by blast
  moreover have "\<forall>r\<in>set (ops ?db). op_ok r \<and> (\<exists>x\<in>set (orders ?db). wo_id x = op_wo r \<and> op_plan r = wo_plan x)"
    unfolding ps using d by blast
  moreover have "next_wo ?db = next_wo db" "steps ?db = steps db" "wo_outbox ?db = wo_outbox db"
    by (simp_all add: reported_def)
  ultimately show ?thesis
    unfolding wo_inv_def k k2 using inv by (simp add: wo_inv_def)
qed

lemma report_trans_cases:
  assumes inv: "wo_inv db" and r: "report_trans e u i q db = (Inr fin, db')"
  obtains w p where "w \<in> set (orders db)" "wo_id w = i" "wo_status w = kInProgress"
    and "p \<in> set (ops db)" "op_hit i q p"
    and "fin \<longleftrightarrow> wo_plan w \<le> wo_completed w + q_delta q"
    and "db' = (if fin then (reported e u q w p db)\<lparr>wo_outbox := kEnqueueSql (e_now e)
                  (stop_message e i (bump_wo e q w)) (wo_outbox db)\<rparr>
               else reported e u q w p db)"
proof -
  from r obtain w' db1 where sql: "report_sql e u i q db = (Inr (Some w'), db1)"
    and fin: "fin = (wo_plan w' \<le> wo_completed w')"
    and db': "db' = (if fin then db1\<lparr>wo_outbox := kEnqueueSql (e_now e) (stop_message e i w') (wo_outbox db1)\<rparr>
                     else db1)"
    by (auto simp: report_trans_def Let_def split: if_splits prod.splits sum.splits option.splits)
  from report_sql_Some [OF inv sql] show thesis
  proof cases
    case (1 w p)
    then show thesis using fin db' by (intro that [of w p]) (auto simp: reported_def)
  qed
qed

lemma wo_inv_outbox: "wo_inv db \<Longrightarrow> wo_inv (db\<lparr>wo_outbox := kEnqueueSql n m (wo_outbox db)\<rparr>)"
  by (auto simp: wo_inv_def outbox_table.enq_ok)

lemma report_trans_inv:
  assumes inv: "wo_inv db" and q: "quantities_ok q" and r: "report_trans e u i q db = (Inr fin, db')"
  shows "wo_inv db'"
  using inv r
proof (cases rule: report_trans_cases)
  case (1 w p)
  then have rep: "wo_inv (reported e u q w p db)" using inv q by (intro reported_inv)
  have "wo_outbox (reported e u q w p db) = wo_outbox db" by (simp add: reported_def)
  with 1(7) rep wo_inv_outbox [OF rep] show ?thesis by auto
qed

section \<open>Requests and their effect\<close>

datatype wo_call =
    Create wo_env user_ctx create_body
  | Update wo_env int update_body
  | Transit wo_env int string
  | Report wo_env user_ctx int report_body

fun wo_step :: "(wo_db \<Rightarrow> wo_db \<Rightarrow> wo_db) \<Rightarrow> wo_call \<Rightarrow> wo_db \<Rightarrow> wo_db" where
  "wo_step ab (Create e c b) db = snd (create ab e c b db)"
| "wo_step ab (Update e i b) db = snd (update ab e i b db)"
| "wo_step ab (Transit e i a) db = snd (transit ab e i a db)"
| "wo_step ab (Report e c i b) db = snd (report ab e c i b db)"

lemma transaction_keeps:
  assumes "P s" and "\<And>v s'. body s = (Inr v, s') \<Longrightarrow> P s'"
  shows "P (snd (transaction rolls_back ok msg body s))"
  using transaction_rolls_back_cases [of ok msg body s] assms by auto

lemma report_snd: "snd (report ab e c i b db) =
  (case check_report b of Inl f \<Rightarrow> db
   | Inr q \<Rightarrow> snd (transaction ab (e_commit e) ''report commit failed'' (report_trans e (c_user c) i q) db))"
  by (auto simp: report_def split: sum.splits prod.splits)

text \<open>
  A creation changes nothing, or only its sequences have moved on, or it has done all.
\<close>

lemma insert_ops_sequences: "next_op db \<le> next_op (insert_ops i n ss db)" "wo_no_seq (insert_ops i n ss db) = wo_no_seq db"
proof (induction ss arbitrary: db)
  case (Cons s ss)
  { case 1 show ?case using Cons(1) [of "db\<lparr>ops := ops db @ [\<lparr>op_id = next_op db, op_wo = i, op_step = Some (st_id s), op_workstation = None,
      op_seq = st_seq s, op_name = st_name s, op_plan = n, op_completed = 0, op_good = 0, op_defect = 0, op_scrap = 0,
      op_operator = None, op_status = 0, op_start = None, op_end = None\<rparr>], next_op := next_op db + 1\<rparr>"] by simp }
  { case 2 show ?case using Cons(2) by simp }
qed simp_all

lemma create_body_sequences:
  "next_wo db \<le> next_wo (snd (create_body_trans e c b p n db)) \<and> wo_no_seq db \<le> wo_no_seq (snd (create_body_trans e c b p n db))"
  by (auto simp: create_body_trans_def Let_def insert_order_def insert_ops_sequences split: sum.split prod.split)

lemma keep_sequences_same [simp]: "keep_sequences db db = db"
  by (simp add: keep_sequences_def)

lemma create_outcome:
  obtains (same) "snd (create rolls_back e c b db) = db"
  | (failed) p n where "0 < n" and "snd (create rolls_back e c b db) = keep_sequences (snd (create_body_trans e c b p n db)) db"
  | (created) p n v where "0 < n" and "create_body_trans e c b p n db = (Inr v, snd (create rolls_back e c b db))"
proof (cases "\<exists>p n. field_value 0 (cb_product b) = Inr p \<and> field_value 0 (cb_plan b) = Inr n \<and> \<not> (p \<le> 0 \<or> n \<le> 0)")
  case False
  then have "snd (create rolls_back e c b db) = db" by (auto simp: create_def split: sum.split)
  then show thesis by (rule same)
next
  case True
  then obtain p n where pn: "field_value 0 (cb_product b) = Inr p" "field_value 0 (cb_plan b) = Inr n" "\<not> (p \<le> 0 \<or> n \<le> 0)" by blast
  let ?body = "create_body_trans e c b p n"
  let ?t = "snd (transaction rolls_back (e_commit e) ''work order commit failed'' ?body db)"
  have c: "snd (create rolls_back e c b db) = keep_sequences (snd (?body db)) ?t"
    using pn by (auto simp: create_def split: prod.split)
  consider "?t = db" | v where "?body db = (Inr v, ?t)"
    using transaction_rolls_back_cases [of "e_commit e" "''work order commit failed''" ?body db] by blast
  then show thesis
  proof cases
    case 1
    then show thesis using c pn by (intro failed) simp_all
  next
    case 2
    then have "snd (create rolls_back e c b db) = ?t" using c by (metis keep_sequences_same snd_conv)
    then show thesis using 2 pn by (intro created) simp_all
  qed
qed

lemma keep_sequences_inv: "wo_inv db \<Longrightarrow> next_wo db \<le> next_wo used \<Longrightarrow> wo_inv (keep_sequences used db)"
  by (fastforce simp: wo_inv_def keep_sequences_def)

interpretation wo_machine: step_invariant "wo_step rolls_back" wo_inv
proof
  fix db call assume inv: "wo_inv db"
  show "wo_inv (wo_step rolls_back call db)"
  proof (cases call)
    case (Create e c b)
    have "wo_inv (snd (create rolls_back e c b db))"
      using create_outcome [of e c b db] by cases
        (auto simp: inv intro: create_trans_inv [OF inv] keep_sequences_inv [OF inv] create_body_sequences [THEN conjunct1])
    then show ?thesis by (simp add: Create)
  next
    case (Update e i b)
    have "wo_inv (snd (transaction rolls_back ok msg (update_trans e i b) db))" for ok msg
      using inv by (rule transaction_keeps) (rule update_trans_inv [OF inv])
    then show ?thesis by (simp add: Update update_def)
  next
    case (Transit e i a)
    have "wo_inv (snd (transaction rolls_back ok msg (transit_trans e i ev) db))" for ok msg ev
      using inv by (rule transaction_keeps) (rule transit_trans_inv [OF inv])
    then have "wo_inv (snd (transit rolls_back e i a db))"
      using inv by (simp add: transit_def split: sum.split)
    then show ?thesis by (simp add: Transit)
  next
    case (Report e c i b)
    have "wo_inv (snd (transaction rolls_back ok msg (report_trans e u i q) db))"
      if "check_report b = Inr q" for ok msg u q
      using inv by (rule transaction_keeps) (rule report_trans_inv [OF inv check_report_ok [OF that]])
    then have "wo_inv (snd (report rolls_back e c i b db))"
      using inv by (simp add: report_snd split: sum.split)
    then show ?thesis by (simp add: Report)
  qed
qed

lemmas wo_effects = create_trans_cases update_trans_cases transit_trans_cases report_trans_cases

end
