(* ===== verification/Work_Order_Props.thy ===== *)
theory Work_Order_Props
  imports Work_Order_Inv
begin

text \<open>
  The properties of the work-order service: conservation of quantities, refinement of the state
  machine by whole requests, the branches of \<open>report\<close>, the stop message, the data scope, and the
  behaviours that modelling showed to differ from what the comments say.
\<close>

section \<open>A small factory for the witnesses\<close>

definition demo_env :: wo_env where
  "demo_env = \<lparr>e_now = 100, e_commit = True\<rparr>"

definition demo_ctx :: user_ctx where
  "demo_ctx = \<lparr>c_user = 9, c_dept = 3, c_scope = 3, c_custom = []\<rparr>"

definition demo_db :: wo_db where
  "demo_db =
    \<lparr>orders = [], ops = [],
     products = [\<lparr>pr_id = 1, pr_name = ''gear'', pr_process = Some 7, pr_deleted = False\<rparr>],
     lines = [(2, ''L2'')],
     steps = [\<lparr>st_id = 11, st_process = 7, st_seq = 1, st_name = ''cut'', st_quality = False\<rparr>,
              \<lparr>st_id = 12, st_process = 7, st_seq = 2, st_name = ''mill'', st_quality = False\<rparr>],
     inspections = [], configs = [], user_depts = [(9, Some 3)],
     depts = [\<lparr>dp_id = 3, dp_parent = None\<rparr>], next_wo = 1, next_op = 1, wo_no_seq = 1,
     wo_outbox = \<lparr>ob_rows = [], ob_next = 1\<rparr>\<rparr>"

definition demo_report :: "int \<Rightarrow> int \<Rightarrow> report_body" where
  "demo_report stp n = \<lparr>rb_step = Given stp, rb_good = Given n, rb_defect = Absent, rb_scrap = Absent\<rparr>"

definition demo_calls :: "wo_call list" where
  "demo_calls =
    [Create demo_env demo_ctx \<lparr>cb_product = Given 1, cb_plan = Given 10, cb_process = Absent,
       cb_line = Absent, cb_priority = Absent, cb_remark = Absent\<rparr>,
     Transit demo_env 1 ''schedule'', Transit demo_env 1 ''release'', Transit demo_env 1 ''start'']"

definition demo_running :: wo_db where
  "demo_running = fold (wo_step rolls_back) demo_calls demo_db"

definition demo_scheduled :: wo_db where
  "demo_scheduled = fold (wo_step rolls_back) (take 2 demo_calls) demo_db"

text \<open>Their tables, so that an evaluation need not run the requests again.\<close>

definition demo_tables :: "int \<Rightarrow> int option \<Rightarrow> wo_db" where
  "demo_tables st started = demo_db
    \<lparr>orders := [\<lparr>wo_id = 1, wo_no = ''WO1970010100001'', wo_product = 1, wo_process = 7, wo_line = None, wo_plan = 10,
       wo_completed = 0, wo_good = 0, wo_defect = 0, wo_scrap = 0, wo_status = st, wo_priority = 5, wo_source = 2,
       wo_remark = [], wo_plan_start = None, wo_plan_end = None, wo_start = started, wo_end = None, wo_creator = 9,
       wo_created = 100, wo_updated = 100\<rparr>],
     ops := map (\<lambda>(k, stp, nm). \<lparr>op_id = k, op_wo = 1, op_step = Some stp, op_workstation = None, op_seq = k,
       op_name = nm, op_plan = 10, op_completed = 0, op_good = 0, op_defect = 0, op_scrap = 0, op_operator = None,
       op_status = 0, op_start = None, op_end = None\<rparr>) [(1, 11, ''cut''), (2, 12, ''mill'')],
     next_wo := 2, next_op := 3, wo_no_seq := 2\<rparr>"

lemma demo_scheduled_eval [code]: "demo_scheduled = demo_tables 1 None"
  by code_simp

lemma demo_running_eval [code]: "demo_running = demo_tables 3 (Some 100)"
  by code_simp

lemma demo_inv: "wo_inv demo_db"
  by (simp add: wo_inv_def demo_db_def outbox_ok_def)

lemma demo_running_inv: "wo_inv demo_running"
  unfolding demo_running_def by (rule wo_machine.run_keeps) (rule demo_inv)

section \<open>Moves of the orders over a request\<close>

definition order_moves :: "wo_db \<Rightarrow> wo_db \<Rightarrow> bool" where
  "order_moves db db' \<longleftrightarrow>
    (wo_inv db \<longrightarrow> wo_inv db' \<and>
      (\<forall>w\<in>set (orders db). \<exists>w'\<in>set (orders db'). wo_id w' = wo_id w \<and>
         (\<exists>es. wo_status w' = wo_run es (wo_status w))))"

lemma wo_run_Nil: "wo_run [] s = s"
  by (simp add: wo_run_def)

lemma wo_run_append: "wo_run (es @ fs) s = wo_run fs (wo_run es s)"
  by (simp add: wo_run_def)

lemma wo_run_move: "legal_move s ev t \<Longrightarrow> wo_run [ev] s = t"
  by (simp add: wo_run_def wo_apply_def legal_move_next)

lemma order_moves_refl: "order_moves db db"
  unfolding order_moves_def by (metis wo_run_Nil)

lemma order_moves_trans: "order_moves a b \<Longrightarrow> order_moves b c \<Longrightarrow> order_moves a c"
  unfolding order_moves_def by (metis wo_run_append)

lemma moves_upd:
  assumes "\<And>q. q \<in> set (orders db) \<Longrightarrow> c q \<Longrightarrow> wo_id (f q) = wo_id q
      \<and> (\<exists>es. wo_status (f q) = wo_run es (wo_status q))"
    and "orders db' = upd_where c f (orders db)" and "w \<in> set (orders db)"
  shows "\<exists>w'\<in>set (orders db'). wo_id w' = wo_id w \<and> (\<exists>es. wo_status w' = wo_run es (wo_status w))"
proof (cases "c w")
  case True
  then have "f w \<in> set (orders db')" using assms(2,3) by (auto simp: set_upd_where)
  with assms(1) [OF assms(3) True] show ?thesis by blast
next
  case False
  then have "w \<in> set (orders db')" using assms(2,3) by (auto simp: set_upd_where)
  then show ?thesis by (metis wo_run_Nil)
qed

lemma keep_sequences_moves: "next_wo db \<le> next_wo used \<Longrightarrow> order_moves db (keep_sequences used db)"
proof -
  assume "next_wo db \<le> next_wo used"
  moreover have "orders (keep_sequences used db) = orders db" by (simp add: keep_sequences_def)
  ultimately show ?thesis unfolding order_moves_def using keep_sequences_inv by (metis wo_run_Nil)
qed

lemma create_moves:
  assumes "create_body_trans e c b p n db = (Inr v, db')" and "0 < n"
  shows "order_moves db db'"
  unfolding order_moves_def
proof (intro impI conjI ballI)
  assume inv: "wo_inv db"
  show "wo_inv db'" by (rule create_trans_inv [OF inv assms])
  fix w assume "w \<in> set (orders db)"
  with assms(1) have "w \<in> set (orders db')" by (cases rule: create_trans_cases) simp
  then show "\<exists>w'\<in>set (orders db'). wo_id w' = wo_id w \<and> (\<exists>es. wo_status w' = wo_run es (wo_status w))"
    by (metis wo_run_Nil)
qed

lemma update_moves: "update_trans e i b db = (Inr v, db') \<Longrightarrow> order_moves db db'"
proof -
  assume r: "update_trans e i b db = (Inr v, db')"
  then have o: "orders db' = upd_where (\<lambda>q. wo_id q = i) (update_row e b) (orders db)"
    by (cases rule: update_trans_cases)
  have "\<exists>es. wo_status q = wo_run es (wo_status q)" for q by (metis wo_run_Nil)
  then show ?thesis
    unfolding order_moves_def using update_trans_inv [OF _ r] moves_upd [OF _ o]
    by (metis update_row_simps(1,6))
qed

lemma transit_moves: "transit_trans e i ev db = (Inr v, db') \<Longrightarrow> order_moves db db'"
proof -
  assume r: "transit_trans e i ev db = (Inr v, db')"
  then obtain w where w: "first_row (\<lambda>w. wo_id w = i) (orders db) = Some w"
    and lm: "legal_move (wo_status w) ev (next_status (wo_status w) ev)"
    and db': "db' = db\<lparr>orders := upd_where (\<lambda>q. wo_id q = i)
        (transit_row e ev (wo_completed w) (next_status (wo_status w) ev)) (orders db)\<rparr>"
    by (rule transit_trans_cases)
  have "wo_status q = wo_status w" if "wo_inv db" "q \<in> set (orders db)" "wo_id q = i" for q
    using that first_row_SomeD [OF w] inv_order_unique [OF that(1), of w q] by simp
  then have key: "\<exists>es. next_status (wo_status w) ev = wo_run es (wo_status q)"
    if "wo_inv db" "q \<in> set (orders db)" "wo_id q = i" for q
    using that wo_run_move [OF lm] by metis
  have "\<exists>w'\<in>set (orders db'). wo_id w' = wo_id x \<and> (\<exists>es. wo_status w' = wo_run es (wo_status x))"
    if inv: "wo_inv db" and x: "x \<in> set (orders db)" for x
    by (rule moves_upd [where c = "\<lambda>q. wo_id q = i", OF _ _ x]) (use key [OF inv] in \<open>auto simp: db'\<close>)
  then show ?thesis
    unfolding order_moves_def using transit_trans_inv [OF _ r] by blast
qed

lemma report_moves:
  "report_trans e u i q db = (Inr fin, db') \<Longrightarrow> quantities_ok q \<Longrightarrow> order_moves db db'"
proof -
  assume r: "report_trans e u i q db = (Inr fin, db')" and q: "quantities_ok q"
  have "\<exists>w'\<in>set (orders db'). wo_id w' = wo_id x \<and> (\<exists>es. wo_status w' = wo_run es (wo_status x))"
    if inv: "wo_inv db" and x: "x \<in> set (orders db)" for x
    using inv r
  proof (cases rule: report_trans_cases)
    case (1 w p)
    have "orders db' = upd_where (\<lambda>r. r = w) (bump_wo e q) (orders db)"
      using 1(7) by (auto simp: reported_def)
    moreover have "wo_run [Complete] 3 = 5" by (simp add: wo_run_def wo_apply_def next_status_cases)
    ultimately show ?thesis
      using x 1(3) by (intro moves_upd [where f = "bump_wo e q" and c = "\<lambda>r. r = w"])
        (auto intro: exI [of _ "[Complete]"] exI [of _ "[]"] simp: wo_run_Nil)
  qed
  then show ?thesis unfolding order_moves_def using report_trans_inv [OF _ q r] by blast
qed

lemma transaction_moves:
  assumes "\<And>v s'. body s = (Inr v, s') \<Longrightarrow> order_moves s s'"
  shows "order_moves s (snd (transaction rolls_back ok msg body s))"
  using transaction_keeps [of "order_moves s" s body ok msg] assms order_moves_refl by blast

interpretation wo_moves: step_monotone "wo_step rolls_back" order_moves
proof
  fix db call
  have "order_moves db (snd (create rolls_back e c b db))" for e c b
    using create_outcome [of e c b db]
  proof cases
    case (failed p n)
    then show ?thesis by (simp add: keep_sequences_moves create_body_sequences)
  qed (auto simp: order_moves_refl intro: create_moves)
  moreover have "order_moves db (snd (transit rolls_back e i a db))" for e i a
    by (auto simp: transit_def order_moves_refl intro!: transaction_moves [OF transit_moves] split: sum.split)
  moreover have "order_moves db (snd (report rolls_back e c i b db))" for e c i b
    by (auto simp: report_snd order_moves_refl intro!: transaction_moves split: sum.split
        dest: report_moves check_report_ok)
  moreover have "order_moves db (snd (update rolls_back e i b db))" for e i b
    unfolding update_def by (rule transaction_moves [OF update_moves])
  ultimately show "order_moves db (wo_step rolls_back call db)" by (cases call) simp_all
qed (fact order_moves_refl order_moves_trans)+

section \<open>Data scope\<close>

text \<open>The specification: a department is below another along the parent links.\<close>

inductive dept_below :: "dept_row list \<Rightarrow> int \<Rightarrow> int \<Rightarrow> bool" for ds r where
  self: "d \<in> set ds \<Longrightarrow> dp_id d = r \<Longrightarrow> dept_below ds r r"
| child: "dept_below ds r p \<Longrightarrow> d \<in> set ds \<Longrightarrow> dp_parent d = Some p \<Longrightarrow> dept_below ds r (dp_id d)"

definition visible :: "wo_db \<Rightarrow> user_ctx \<Rightarrow> work_order \<Rightarrow> bool" where
  "visible db c w \<longleftrightarrow>
    c_scope c = 4 \<or>
    (c_scope c = 1 \<and> wo_creator w = c_user c) \<or>
    (c_scope c = 2 \<and> creator_dept_in db [c_dept c] (wo_creator w)) \<or>
    (c_scope c = 3 \<and> (\<exists>(u, d)\<in>set (user_depts db). u = wo_creator w \<and>
        (\<exists>k. d = Some k \<and> dept_below (depts db) (c_dept c) k))) \<or>
    (c_scope c = 5 \<and> creator_dept_in db (c_custom c) (wo_creator w))"

definition children :: "dept_row list \<Rightarrow> int list \<Rightarrow> int list" where
  "children ds xs = concat (map (\<lambda>p. map dp_id (filter (\<lambda>d. dp_parent d = Some p) ds)) xs)"

lemma set_children: "set (children ds xs) = {dp_id d |d p. d \<in> set ds \<and> p \<in> set xs \<and> dp_parent d = Some p}"
  by (auto simp: children_def)

lemma dept_levels_Suc:
  "dept_levels (Suc n) ds (x # xs) = map_option ((@) (x # xs)) (dept_levels n ds (children ds (x # xs)))"
  by (simp add: children_def)

lemma dept_levels_sound:
  "dept_levels n ds fr = Some ids \<Longrightarrow> \<forall>x\<in>set fr. P x \<Longrightarrow>
   (\<And>p d. P p \<Longrightarrow> d \<in> set ds \<Longrightarrow> dp_parent d = Some p \<Longrightarrow> P (dp_id d)) \<Longrightarrow> \<forall>k\<in>set ids. P k"
proof (induction n ds fr arbitrary: ids rule: dept_levels.induct)
  case (3 n ds x xs)
  from 3(2) obtain rest where rest: "dept_levels n ds (children ds (x # xs)) = Some rest"
    and ids: "ids = (x # xs) @ rest" by (auto simp: dept_levels_Suc simp del: dept_levels.simps)
  have "\<forall>y\<in>set (children ds (x # xs)). P y"
    using 3(3,4) by (auto simp: set_children)
  then have "\<forall>k\<in>set rest. P k" using 3(1,4) rest by (simp add: children_def)
  with ids 3(3) show ?case by auto
qed auto

lemma dept_levels_closed:
  "dept_levels n ds fr = Some ids \<Longrightarrow> set fr \<subseteq> set ids \<and> set (children ds ids) \<subseteq> set ids"
proof (induction n ds fr arbitrary: ids rule: dept_levels.induct)
  case (3 n ds x xs)
  from 3(2) obtain rest where rest: "dept_levels n ds (children ds (x # xs)) = Some rest"
    and ids: "ids = (x # xs) @ rest" by (auto simp: dept_levels_Suc simp del: dept_levels.simps)
  have "set (children ds (x # xs)) \<subseteq> set rest" "set (children ds rest) \<subseteq> set rest"
    using 3(1) [unfolded children_def [symmetric], OF rest] by auto
  moreover have "set (children ds ids) = set (children ds (x # xs)) \<union> set (children ds rest)"
    unfolding ids set_children by auto
  ultimately show ?case using ids by auto
qed (auto simp: children_def)

lemma dept_tree_exact:
  assumes "dept_tree ds r = Some ids"
  shows "k \<in> set ids \<longleftrightarrow> dept_below ds r k"
proof
  assume "k \<in> set ids"
  moreover have "\<forall>k\<in>set ids. dept_below ds r k"
    using assms unfolding dept_tree_def
    by (rule dept_levels_sound) (auto intro: dept_below.intros)
  ultimately show "dept_below ds r k" by blast
next
  have closed: "set (map dp_id (filter (\<lambda>d. dp_id d = r) ds)) \<subseteq> set ids" "set (children ds ids) \<subseteq> set ids"
    using dept_levels_closed assms unfolding dept_tree_def by blast+
  assume "dept_below ds r k"
  then show "k \<in> set ids"
  proof induction
    case (self d)
    then show ?case using closed(1) by force
  next
    case (child p d)
    then have "dp_id d \<in> set (children ds ids)" by (auto simp: set_children)
    then show ?case using closed(2) by blast
  qed
qed

text \<open>On departments with a depth (a forest) the recursive query ends.\<close>

lemma dept_levels_total:
  assumes "\<And>d p. d \<in> set ds \<Longrightarrow> dp_parent d = Some p \<Longrightarrow> depth (dp_id d) = Suc (depth p)"
    and "\<And>d. d \<in> set ds \<Longrightarrow> depth (dp_id d) \<le> m"
    and "\<forall>x\<in>set fr. x \<in> dp_id ` set ds \<and> m < depth x + n"
  shows "\<exists>ids. dept_levels n ds fr = Some ids"
  using assms(3)
proof (induction n arbitrary: fr)
  case 0
  then have "fr = []" using assms(2) by (cases fr) fastforce+
  then show ?case by simp
next
  case (Suc n)
  show ?case
  proof (cases fr)
    case (Cons x xs)
    have "\<forall>y\<in>set (children ds (x # xs)). y \<in> dp_id ` set ds \<and> m < depth y + n"
      using Suc.prems Cons assms(1) by (fastforce simp: set_children)
    from Suc.IH [OF this] show ?thesis by (auto simp: Cons dept_levels_Suc simp del: dept_levels.simps)
  qed simp
qed

lemma creator_dept_tree:
  assumes "dept_tree ds r = Some ids"
  shows "creator_dept_in db ids u \<longleftrightarrow>
    (\<exists>(i, d)\<in>set (user_depts db). i = u \<and> (\<exists>k. d = Some k \<and> dept_below ds r k))"
  unfolding creator_dept_in_def using dept_tree_exact [OF assms] by (auto split: prod.splits) blast+

lemma eval_scope_visible:
  assumes "eval_scope db (cte (buildScopeSql c)) (condition (buildScopeSql c)) = Inr f"
  shows "f w \<longleftrightarrow> visible db c w"
  using assms
proof (cases "c_scope c = 3")
  case True
  then obtain ids where "dept_tree (depts db) (c_dept c) = Some ids"
    and "f = (\<lambda>w. creator_dept_in db ids (wo_creator w))"
    using assms by (auto simp: eval_scope_def buildScopeSql_def split: option.splits)
  with True show ?thesis by (simp add: visible_def creator_dept_tree)
next
  case False
  with assms show ?thesis
    by (auto simp: eval_scope_def buildScopeSql_def visible_def creator_dept_in_def split: if_splits)
qed


section \<open>Properties\<close>

definition fresh_db :: "wo_db \<Rightarrow> bool" where
  "fresh_db db \<longleftrightarrow> orders db = [] \<and> ops db = [] \<and>
     distinct (map (\<lambda>s. (st_process s, st_seq s)) (steps db)) \<and> ob_rows (wo_outbox db) = []"

lemma fresh_inv: "fresh_db db \<Longrightarrow> wo_inv db"
  by (simp add: fresh_db_def wo_inv_def outbox_ok_def)

lemma tot_split:
  "(\<And>p. p \<in> set ps \<Longrightarrow> op_ok p) \<Longrightarrow>
   tot op_completed i ps = tot op_good i ps + tot op_defect i ps + tot op_scrap i ps"
proof (induction ps)
  case (Cons p ps)
  then have "op_completed p = op_good p + op_defect p + op_scrap p" by (simp add: op_ok_def)
  with Cons show ?case by (auto simp: tot_def)
qed (simp add: tot_def)


lemma demo_fresh: "fresh_db demo_db"
  by (simp add: fresh_db_def demo_db_def)

definition demo_after_report :: wo_db where
  "demo_after_report = fold (wo_step rolls_back) (demo_calls @ [Report demo_env demo_ctx 1 (demo_report 1 4)]) demo_db"

lemma demo_after_report_eval [code]:
  "demo_after_report = wo_step rolls_back (Report demo_env demo_ctx 1 (demo_report 1 4)) demo_running"
  by (simp add: demo_after_report_def demo_running_def)

lemma demo_after_report_op: "\<exists>p\<in>set (ops demo_after_report). op_completed p = 4"
  by code_simp



lemma demo_running_orders: "map (\<lambda>w. (wo_id w, wo_status w, wo_plan w, wo_completed w)) (orders demo_running) = [(1, 3, 10, 0)]"
  by code_simp

lemma demo_running_head: "\<exists>w. w \<in> set (orders demo_running) \<and> wo_id w = 1 \<and> wo_status w = 3"
  using demo_running_orders by auto


text \<open>C3: what a successful report has checked and done: the body is valid, the quality gate lets
  it pass, the order is in progress and the operation has room for the quantity; exactly that
  operation and that order are increased, and the order is finished exactly when its total
  reaches the plan, in which case (and only then) one stop-collection message for this order is
  appended to the pending messages of the outbox.\<close>

theorem report_success:
  assumes "wo_inv db" and "report rolls_back e c i b db = (Inr (q, fin), db')"
  shows "check_report b = Inr q \<and> \<not> gate_refuses db i (q_step q) \<and>
    (\<exists>w p. w \<in> set (orders db) \<and> wo_id w = i \<and> wo_status w = kInProgress \<and>
       p \<in> set (ops db) \<and> op_hit i q p \<and>
       (fin \<longleftrightarrow> wo_plan w \<le> wo_completed w + q_delta q) \<and>
       orders db' = upd_where (\<lambda>r. r = w) (bump_wo e q) (orders db) \<and>
       ops db' = upd_where (\<lambda>r. r = p) (bump_op e (c_user c) q) (ops db) \<and>
       pending_msgs (wo_outbox db') =
         pending_msgs (wo_outbox db) @ (if fin then [stop_message e i (bump_wo e q w)] else []))"
proof -
  from assms(2) have q: "check_report b = Inr q"
    and t: "report_trans e (c_user c) i q db = (Inr fin, db')"
    using transaction_rolls_back_cases [of "e_commit e" "''report commit failed''" "report_trans e (c_user c) i q" db]
    by (auto simp: report_def transaction_def split: sum.splits prod.splits fault.splits if_splits)
  have "\<not> gate_refuses db i (q_step q)" using t by (auto simp: report_trans_def split: if_splits)
  with q t assms(1) show ?thesis
    by (auto elim!: report_trans_cases [OF assms(1)] simp: reported_def outbox_table.enq_msgs)
       (metis (no_types, lifting))+
qed

definition demo_q :: "int \<Rightarrow> int \<Rightarrow> quantities" where
  "demo_q stp n = \<lparr>q_step = stp, q_good = n, q_defect = 0, q_scrap = 0, q_delta = n\<rparr>"

lemma demo_report_10:
  "fst (report rolls_back demo_env demo_ctx 1 (demo_report 1 10) demo_running) = Inr (demo_q 1 10, True)"
  by code_simp

theorem report_success_witness:
  "\<exists>w p. w \<in> set (orders demo_running) \<and> p \<in> set (ops demo_running) \<and> op_hit 1 (demo_q 1 10) p \<and>
     wo_plan w \<le> wo_completed w + 10"
proof -
  have "report rolls_back demo_env demo_ctx 1 (demo_report 1 10) demo_running =
      (Inr (demo_q 1 10, True), snd (report rolls_back demo_env demo_ctx 1 (demo_report 1 10) demo_running))"
    using demo_report_10 by (metis prod.collapse)
  from report_success [OF demo_running_inv this] show ?thesis by (auto simp: demo_q_def)
qed

text \<open>No \<open>int4\<close> sum of the statement leaves its range.\<close>

definition no_overflow :: "wo_env \<Rightarrow> int \<Rightarrow> quantities \<Rightarrow> wo_db \<Rightarrow> bool" where
  "no_overflow e u q db \<longleftrightarrow>
    (\<forall>p\<in>set (ops db). int32_ok (op_completed p + q_delta q) \<and> op_fits (bump_op e u q p)) \<and>
    (\<forall>w\<in>set (orders db). wo_fits (bump_wo e q w))"

lemma report_refused:
  "check_report b = Inr q \<Longrightarrow> report_trans e (c_user c) i q db = (Inl (ApiError k m), s') \<Longrightarrow>
   report rolls_back e c i b db = (Inl (ApiError k m), db)"
  by (simp add: report_def transaction_def rolls_back_def)

lemma report_sql_miss:
  assumes "no_overflow e u q db"
    and "\<And>w p. w \<in> set (orders db) \<Longrightarrow> wo_id w = i \<Longrightarrow> wo_status w = kInProgress \<Longrightarrow> p \<in> set (ops db)
      \<Longrightarrow> \<not> op_hit i q p"
  shows "report_sql e u i q db = (Inr None, db\<lparr>ops := upd_where (op_hit i q) (bump_op e u q) (ops db)\<rparr>)"
proof -
  let ?wh = "\<lambda>w. wo_id w = i \<and> wo_status w = kInProgress \<and> (\<exists>p\<in>set (ops db). op_hit i q p)"
  have "upd_where ?wh (bump_wo e q) (orders db) = orders db" and "first_row ?wh (orders db) = None"
    using assms(2) by (auto intro!: upd_where_id simp: first_row_None)
  with assms(1) show ?thesis by (auto simp: report_sql_def no_overflow_def Let_def)
qed

lemma report_trans_miss:
  assumes "no_overflow e u q db" and "\<not> gate_refuses db i (q_step q)"
    and "\<And>w p. w \<in> set (orders db) \<Longrightarrow> wo_id w = i \<Longrightarrow> wo_status w = kInProgress \<Longrightarrow> p \<in> set (ops db)
      \<Longrightarrow> \<not> op_hit i q p"
  shows "report_trans e u i q db =
    (let db1 = db\<lparr>ops := upd_where (op_hit i q) (bump_op e u q) (ops db)\<rparr>
     in (Inl (report_diagnose i q db1), db1))"
  using assms(2) report_sql_miss [OF assms(1,3)] by (simp add: report_trans_def Let_def)

lemma gate_refusal:
  assumes "check_report b = Inr q" and "gate_refuses db i (q_step q)"
  shows "\<exists>m. report rolls_back e c i b db = (Inl (Conflict m), db)"
proof -
  have "\<exists>m. report_trans e (c_user c) i q db = (Inl (Conflict m), db)"
    using assms(2) by (simp add: report_trans_def)
  then show ?thesis using report_refused [OF assms(1)] by blast
qed

lemma unknown_order_refusal:
  assumes "check_report b = Inr q" and "no_overflow e (c_user c) q db" and "\<not> gate_refuses db i (q_step q)"
    and "\<forall>w\<in>set (orders db). wo_id w \<noteq> i"
  shows "\<exists>m. report rolls_back e c i b db = (Inl (NotFound m), db)"
proof -
  have "\<exists>m s. report_trans e (c_user c) i q db = (Inl (NotFound m), s)"
    using report_trans_miss [OF assms(2,3)] assms(4)
    by (auto simp: Let_def report_diagnose_def first_row_None [THEN iffD2])
  then show ?thesis using report_refused [OF assms(1)] by blast
qed

lemma order_found:
  "wo_inv db \<Longrightarrow> w \<in> set (orders db) \<Longrightarrow> wo_id w = i \<Longrightarrow> first_row (\<lambda>r. wo_id r = i) (orders db) = Some w"
  using first_row_key [of wo_id "orders db" w] by (simp add: wo_inv_def)

lemma idle_order_refusal:
  assumes "wo_inv db" and "check_report b = Inr q" and "no_overflow e (c_user c) q db" and "\<not> gate_refuses db i (q_step q)"
    and w: "w \<in> set (orders db)" "wo_id w = i" and st: "wo_status w \<noteq> kInProgress"
  shows "\<exists>m. report rolls_back e c i b db = (Inl (Conflict m), db)"
proof -
  have "\<exists>m s. report_trans e (c_user c) i q db = (Inl (Conflict m), s)"
    using report_trans_miss [OF assms(3,4)] st inv_order_unique [OF assms(1) w(1)] w(2) order_found [OF assms(1) w]
    by (auto simp: Let_def report_diagnose_def)
  then show ?thesis using report_refused [OF assms(2)] by blast
qed

lemma unknown_operation_refusal:
  assumes "wo_inv db" and "check_report b = Inr q" and "no_overflow e (c_user c) q db" and "\<not> gate_refuses db i (q_step q)"
    and w: "w \<in> set (orders db)" "wo_id w = i" and st: "wo_status w = kInProgress"
    and n: "\<forall>p\<in>set (ops db). op_wo p = i \<longrightarrow> op_seq p \<noteq> q_step q"
  shows "\<exists>m. report rolls_back e c i b db = (Inl (NotFound m), db)"
proof -
  have "upd_where (op_hit i q) (bump_op e (c_user c) q) (ops db) = ops db"
    using n by (intro upd_where_id) (auto simp: op_hit_def)
  then have "\<exists>m s. report_trans e (c_user c) i q db = (Inl (NotFound m), s)"
    using report_trans_miss [OF assms(3,4)] n st order_found [OF assms(1) w]
    by (auto simp: Let_def report_diagnose_def op_hit_def first_row_None [THEN iffD2])
  then show ?thesis using report_refused [OF assms(2)] by blast
qed

lemma over_report_refusal:
  assumes "wo_inv db" and "check_report b = Inr q" and "no_overflow e (c_user c) q db" and "\<not> gate_refuses db i (q_step q)"
    and w: "w \<in> set (orders db)" "wo_id w = i" and st: "wo_status w = kInProgress"
    and p: "p \<in> set (ops db)" and n: "op_wo p = i \<and> op_seq p = q_step q \<and> overReport (op_completed p) (op_plan p) (q_delta q)"
  shows "\<exists>m. report rolls_back e c i b db = (Inl (Conflict m), db)"
proof -
  have miss: "\<not> op_hit i q r" if "r \<in> set (ops db)" for r
    using n inv_op_unique [OF assms(1) p that] by (auto simp: op_hit_def overReport_def)
  have "upd_where (op_hit i q) (bump_op e (c_user c) q) (ops db) = ops db"
    using miss by (rule upd_where_id)
  then have t: "report_trans e (c_user c) i q db = (Inl (report_diagnose i q db), db)"
    using report_trans_miss [OF assms(3,4)] miss by (simp add: Let_def)
  obtain r where "first_row (\<lambda>p. op_wo p = i \<and> op_seq p = q_step q) (ops db) = Some r"
    using first_row_ex [OF p, of "\<lambda>p. op_wo p = i \<and> op_seq p = q_step q"] n by blast
  then have "\<exists>m. report_diagnose i q db = Conflict m"
    by (simp add: report_diagnose_def order_found [OF assms(1) w] st)
  with t report_refused [OF assms(2)] show ?thesis by metis
qed

text \<open>What the quality gate is for: the operation has a step that needs an inspection, the gate is on, and
  no passed or conditionally passed inspection of the order or the operation has been recorded.\<close>

definition needs_inspection :: "wo_db \<Rightarrow> int \<Rightarrow> int \<Rightarrow> bool" where
  "needs_inspection db i stp \<longleftrightarrow>
    (\<exists>p\<in>set (ops db). \<exists>s\<in>set (steps db). op_wo p = i \<and> op_seq p = stp \<and> op_step p = Some (st_id s) \<and> st_quality s
       \<and> map_of (configs db) ''quality_gate_enabled'' \<in> {None, Some None, Some (Some ''true'')}
       \<and> (\<forall>q\<in>set (inspections db). qi_wo q = Some i \<and> qi_op q \<in> {None, Some (op_id p)} \<longrightarrow> qi_result q \<notin> {1, 3}))"

lemma gate_refuses_needs:
  assumes "wo_inv db" and "distinct (map st_id (steps db))"
  shows "gate_refuses db i stp \<longleftrightarrow> needs_inspection db i stp"
proof -
  define rows where "rows = [(p, s). p \<leftarrow> filter (\<lambda>p. op_wo p = i \<and> op_seq p = stp) (ops db), s \<leftarrow> filter (\<lambda>s. op_step p = Some (st_id s)) (steps db)]"
  have m: "(p, s) \<in> set rows \<longleftrightarrow> p \<in> set (ops db) \<and> s \<in> set (steps db) \<and> op_wo p = i \<and> op_seq p = stp \<and> op_step p = Some (st_id s)" for p s
    by (auto simp: rows_def)
  have r: "gate_refuses db i stp = (case rows of [] \<Rightarrow> False | (p, s) # _ \<Rightarrow> st_quality s \<and> gate_enabled db \<and> \<not> inspected db i (op_id p))"
    by (simp only: gate_refuses_def rows_def)
  have one: "x = y" if "x \<in> set rows" "y \<in> set rows" for x y
  proof -
    obtain p s r u where xy: "x = (p, s)" "y = (r, u)" by (metis prod.exhaust)
    have "r = p" using that m xy inv_op_unique [OF assms(1), of p r] by (metis (no_types, lifting))
    moreover have "u = s" using that m xy \<open>r = p\<close> distinct_key_eq [OF assms(2), of u s] by (metis (no_types, lifting) option.inject)
    ultimately show ?thesis using xy by simp
  qed
  have gate: "gate_enabled db \<longleftrightarrow> map_of (configs db) ''quality_gate_enabled'' \<in> {None, Some None, Some (Some ''true'')}"
    by (auto simp: gate_enabled_def split: option.splits)
  have ins: "\<not> inspected db i o' \<longleftrightarrow>
      (\<forall>q\<in>set (inspections db). qi_wo q = Some i \<and> qi_op q \<in> {None, Some o'} \<longrightarrow> qi_result q \<notin> {1, 3})" for o'
    by (auto simp: inspected_def)
  have "gate_refuses db i stp \<longleftrightarrow> (\<exists>(p, s)\<in>set rows. st_quality s \<and> gate_enabled db \<and> \<not> inspected db i (op_id p))"
  proof (cases rows)
    case Nil
    then show ?thesis by (simp add: r)
  next
    case (Cons x xs)
    have "\<forall>y\<in>set rows. y = x" using one Cons by (metis list.set_intros(1))
    then show ?thesis unfolding r using Cons by (cases x) auto
  qed
  also have "\<dots> \<longleftrightarrow> needs_inspection db i stp"
    unfolding needs_inspection_def Bex_def gate [symmetric] ins [symmetric] using m by blast
  finally show ?thesis .
qed


lemma demo_check: "check_report (demo_report 1 11) = Inr (demo_q 1 11)"
  by code_simp

lemma demo_no_overflow: "no_overflow demo_env 9 (demo_q 1 11) demo_running"
  by code_simp

lemma demo_gate: "\<not> gate_refuses demo_running 1 1"
  by code_simp

lemma demo_first_op:
  "\<exists>p\<in>set (ops demo_running). op_wo p = 1 \<and> op_seq p = 1 \<and> overReport (op_completed p) (op_plan p) 11"
  by code_simp


text \<open>An order's total adds the reports of every operation, so with two operations it can pass
  the plan quantity and the order can be completed while one operation has reported nothing: on an
  order for 10 with two steps, 10 on step 1 completes it with step 2 untouched, and 8 on each
  step gives a total of 16.\<close>

theorem order_total_adds_operations:
  "map (\<lambda>w. (wo_status w, wo_plan w, wo_completed w))
     (orders (fold (wo_step rolls_back) [Report demo_env demo_ctx 1 (demo_report 1 10)] demo_running)) = [(5, 10, 10)] \<and>
   map (\<lambda>p. (op_seq p, op_status p, op_completed p))
     (ops (fold (wo_step rolls_back) [Report demo_env demo_ctx 1 (demo_report 1 10)] demo_running)) = [(1, 2, 10), (2, 0, 0)] \<and>
   map (\<lambda>w. (wo_status w, wo_plan w, wo_completed w))
     (orders (fold (wo_step rolls_back) [Report demo_env demo_ctx 1 (demo_report 1 8),
        Report demo_env demo_ctx 1 (demo_report 2 8)] demo_running)) = [(5, 10, 16)]"
  by code_simp

text \<open>The code relies on the rollback of an abandoned transaction: if the driver commits it
  when the object is destroyed, then a report on an order that is not in progress is refused with
  409 and still increases the operation, so the sums no longer agree.\<close>

theorem abandoned_report_leaks:
  assumes "wo_inv db" and "check_report b = Inr q" and "no_overflow e (c_user c) q db"
    and "\<not> gate_refuses db i (q_step q)"
    and "w \<in> set (orders db)" and "wo_id w = i" and "wo_status w \<noteq> kInProgress"
    and "p \<in> set (ops db)" and "op_hit i q p"
  shows "\<exists>m db'. report commits_on_destruction e c i b db = (Inl (Conflict m), db') \<and>
    bump_op e (c_user c) q p \<in> set (ops db') \<and> orders db' = orders db \<and> \<not> wo_inv db'"
proof -
  let ?db = "db\<lparr>ops := upd_where (op_hit i q) (bump_op e (c_user c) q) (ops db)\<rparr>"
  have f: "first_row (\<lambda>r. wo_id r = i) (orders db) = Some w"
    using first_row_key [of wo_id "orders db" w] assms(1,5,6) by (simp add: wo_inv_def)
  have "report_trans e (c_user c) i q db = (Inl (report_diagnose i q ?db), ?db)"
    using report_trans_miss [OF assms(3,4)] inv_order_unique [OF assms(1,5)] assms(6,7)
    by (metis (no_types, lifting))
  then obtain m where rep: "report commits_on_destruction e c i b db = (Inl (Conflict m), ?db)"
    using f assms(2,7) by (simp add: report_def transaction_def commits_on_destruction_def report_diagnose_def)
  have "upd_where (op_hit i q) (bump_op e (c_user c) q) (ops db)
      = upd_where (\<lambda>r. r = p) (bump_op e (c_user c) q) (ops db)"
  proof (rule upd_where_cong)
    fix r assume "r \<in> set (ops db)"
    then have "op_hit i q r \<Longrightarrow> r = p"
      using assms(8,9) inv_op_unique [OF assms(1,8), of r] by (simp add: op_hit_def)
    then show "op_hit i q r = (r = p)" using assms(9) by blast
  qed
  moreover have "op_wo p = i" using assms(9) by (simp add: op_hit_def)
  ultimately have "tot op_completed i (ops ?db) = tot op_completed i (ops db) + q_delta q"
    using tot_reported [OF assms(1,8), of op_completed e "c_user c" q "q_delta q" i] by simp
  moreover have "wo_completed w = tot op_completed i (ops db)"
    using assms(1,5,6) by (auto simp: wo_inv_def conserved_def)
  moreover have "0 < q_delta q" using check_report_ok [OF assms(2)] by (simp add: quantities_ok_def)
  ultimately have "\<not> wo_inv ?db"
    using assms(5,6) by (auto simp: wo_inv_def conserved_def)
  moreover have "bump_op e (c_user c) q p \<in> set (ops ?db)"
    using assms(8,9) by (auto simp: set_upd_where)
  ultimately show ?thesis using rep by simp
qed

lemma demo_scheduled_facts:
  "no_overflow demo_env 9 (demo_q 1 5) demo_scheduled" "\<not> gate_refuses demo_scheduled 1 1"
  "\<exists>w\<in>set (orders demo_scheduled). wo_id w = 1 \<and> wo_status w = 1"
  "\<exists>p\<in>set (ops demo_scheduled). op_hit 1 (demo_q 1 5) p"
  "check_report (demo_report 1 5) = Inr (demo_q 1 5)"
  by code_simp+

theorem abandoned_report_leaks_witness:
  "\<exists>m db'. report commits_on_destruction demo_env demo_ctx 1 (demo_report 1 5) demo_scheduled
       = (Inl (Conflict m), db') \<and> \<not> wo_inv db'"
proof -
  have inv: "wo_inv demo_scheduled"
    unfolding demo_scheduled_def by (rule wo_machine.run_keeps) (rule demo_inv)
  obtain w where w: "w \<in> set (orders demo_scheduled)" "wo_id w = 1" "wo_status w \<noteq> 3"
    using demo_scheduled_facts(3) by auto
  obtain p where p: "p \<in> set (ops demo_scheduled)" "op_hit 1 (demo_q 1 5) p"
    using demo_scheduled_facts(4) by auto
  have c: "no_overflow demo_env (c_user demo_ctx) (demo_q 1 5) demo_scheduled"
    using demo_scheduled_facts(1) by (simp add: demo_ctx_def)
  have g: "\<not> gate_refuses demo_scheduled 1 (q_step (demo_q 1 5))"
    using demo_scheduled_facts(2) by (simp add: demo_q_def)
  from abandoned_report_leaks [OF inv demo_scheduled_facts(5) c g w p] show ?thesis by blast
qed


lemma demo_list:
  "is_ok (list_orders 1 20 (-1) 0 demo_ctx demo_running)"
  by code_simp


text \<open>The detail of a work order fails for every caller of data scope 3 (department and below)
  with a database error, whatever the order, while the list works for the same caller as soon as
  the department tree has no cycle: the statement of \<open>detail\<close> lacks the \<open>WITH\<close> prefix.\<close>

theorem detail_scope3_always_fails:
  assumes "c_scope c = 3"
  shows "(\<exists>m. detail i c db = Inl (SqlError m)) \<and>
    (dept_tree (depts db) (c_dept c) \<noteq> None \<longrightarrow> (\<exists>pg. list_orders 1 20 (-1) 0 c db = Inr pg))"
  using assms
  by (auto simp: detail_def list_orders_def buildScopeSql_def eval_scope_def Let_def int32_ok_def)

theorem detail_scope3_always_fails_witness:
  "(\<exists>m. detail 1 demo_ctx demo_running = Inl (SqlError m))"
proof -
  have "c_scope demo_ctx = 3" by (simp add: demo_ctx_def)
  from detail_scope3_always_fails [OF this, of 1 demo_running] show ?thesis by blast
qed

end
