(* ===== verification/Circuit_Breaker.thy ===== *)
theory Circuit_Breaker
  imports Mes_Prelude
begin

text \<open>
  The circuit breaker of the outgoing calls (\<open>utils/CircuitBreaker.hh\<close>): its state and the four
  operations, each under the object's mutex, hence one atomic step. Time is the steady clock in
  milliseconds. The locale \<open>breaker_contract\<close> is what its client relies on.
\<close>

datatype bstate = CLOSED | OPEN | HALF_OPEN

record breaker =
  b_state :: bstate
  b_count :: int
  b_threshold :: int
  b_window :: int
  b_opened :: int

definition new_breaker :: "int \<Rightarrow> int \<Rightarrow> breaker" where
  "new_breaker failThreshold openSeconds =
    \<lparr>b_state = CLOSED, b_count = 0, b_threshold = failThreshold, b_window = openSeconds * 1000,
     b_opened = 0\<rparr>"

definition allowRequest :: "int \<Rightarrow> breaker \<Rightarrow> bool \<times> breaker" where
  "allowRequest now b =
    (case b_state b of
       CLOSED \<Rightarrow> (True, b)
     | OPEN \<Rightarrow> if now - b_opened b \<ge> b_window b then (True, b\<lparr>b_state := HALF_OPEN\<rparr>) else (False, b)
     | HALF_OPEN \<Rightarrow> (True, b))"

definition recordSuccess :: "breaker \<Rightarrow> breaker" where
  "recordSuccess b =
    (let b1 = b\<lparr>b_count := 0\<rparr> in if b_state b1 = HALF_OPEN then b1\<lparr>b_state := CLOSED\<rparr> else b1)"

definition recordFailure :: "int \<Rightarrow> breaker \<Rightarrow> breaker" where
  "recordFailure now b =
    (if b_state b = HALF_OPEN then b\<lparr>b_state := OPEN, b_opened := now\<rparr>
     else
       let b1 = b\<lparr>b_count := b_count b + 1\<rparr> in
       if b_count b1 \<ge> b_threshold b1 then b1\<lparr>b_state := OPEN, b_opened := now\<rparr> else b1)"

definition stateName :: "breaker \<Rightarrow> string" where
  "stateName b = (case b_state b of CLOSED \<Rightarrow> ''CLOSED'' | OPEN \<Rightarrow> ''OPEN'' | HALF_OPEN \<Rightarrow> ''HALF_OPEN'')"

section \<open>Events\<close>

datatype b_event = Allow int | Success | Failure int

fun b_step :: "b_event \<Rightarrow> breaker \<Rightarrow> breaker" where
  "b_step (Allow t) b = snd (allowRequest t b)"
| "b_step Success b = recordSuccess b"
| "b_step (Failure t) b = recordFailure t b"

lemmas breaker_defs = allowRequest_def recordSuccess_def recordFailure_def Let_def

definition breaker_ok :: "breaker \<Rightarrow> bool" where
  "breaker_ok b \<longleftrightarrow> 0 < b_threshold b \<and> 0 \<le> b_count b \<and> (b_state b = CLOSED \<longrightarrow> b_count b < b_threshold b)"

lemma breaker_const [simp]:
  "b_threshold (b_step e b) = b_threshold b" "b_window (b_step e b) = b_window b"
  by (cases e; simp add: breaker_defs split: bstate.split)+

text \<open>What the client of a breaker relies on: its operations keep the breaker consistent, a
  refused request changes nothing, and a success after an admitted request leaves it closed.\<close>

locale breaker_contract =
  fixes allow :: "int \<Rightarrow> 'b \<Rightarrow> bool \<times> 'b" and succ :: "'b \<Rightarrow> 'b" and fail :: "int \<Rightarrow> 'b \<Rightarrow> 'b"
    and ok :: "'b \<Rightarrow> bool" and closed :: "'b \<Rightarrow> bool"
  assumes allow_ok: "ok b \<Longrightarrow> ok (snd (allow t b))"
    and succ_ok: "ok b \<Longrightarrow> ok (succ b)"
    and fail_ok: "ok b \<Longrightarrow> ok (fail t b)"
    and refused: "\<not> fst (allow t b) \<Longrightarrow> snd (allow t b) = b"
    and admitted_succ: "fst (allow t b) \<Longrightarrow> closed (succ (snd (allow t b)))"
    and closed_allows: "closed b \<Longrightarrow> fst (allow t b)"
begin

text \<open>A whole call: admitted, some failed attempts, possibly a success.\<close>

lemma call_ok: "ok b \<Longrightarrow> ok (fold fail ts (snd (allow t b)))"
proof -
  assume "ok b"
  then have "ok (snd (allow t b))" by (rule allow_ok)
  then show ?thesis by (induction ts arbitrary: b rule: rev_induct) (auto intro: fail_ok)
qed

lemma success_reopens: "fst (allow t b) \<Longrightarrow> fst (allow u (succ (snd (allow t b))))"
  by (rule closed_allows [OF admitted_succ])

end

lemma breaker_ok_step: "breaker_ok b \<Longrightarrow> breaker_ok (b_step e b)"
  by (cases e) (auto simp: breaker_ok_def breaker_defs split: bstate.splits)

interpretation breaker_machine: step_invariant b_step breaker_ok
  by unfold_locales (rule breaker_ok_step)

interpretation breaker: breaker_contract allowRequest recordSuccess recordFailure breaker_ok
  "\<lambda>b. b_state b = CLOSED"
proof
  fix b t
  show "breaker_ok b \<Longrightarrow> breaker_ok (snd (allowRequest t b))" using breaker_ok_step [of b "Allow t"] by simp
  show "breaker_ok b \<Longrightarrow> breaker_ok (recordSuccess b)" using breaker_ok_step [of b Success] by simp
  show "breaker_ok b \<Longrightarrow> breaker_ok (recordFailure t b)" using breaker_ok_step [of b "Failure t"] by simp
  show "\<not> fst (allowRequest t b) \<Longrightarrow> snd (allowRequest t b) = b"
    by (auto simp: allowRequest_def split: bstate.splits if_splits)
  show "fst (allowRequest t b) \<Longrightarrow> b_state (recordSuccess (snd (allowRequest t b))) = CLOSED"
    by (auto simp: breaker_defs split: bstate.splits if_splits)
  show "b_state b = CLOSED \<Longrightarrow> fst (allowRequest t b)" by (simp add: allowRequest_def)
qed

text \<open>The number of failures since the last success, requests admitted in between not counting.\<close>

definition streak_step :: "b_event \<Rightarrow> int \<Rightarrow> int" where
  "streak_step e n = (case e of Allow t \<Rightarrow> n | Success \<Rightarrow> 0 | Failure t \<Rightarrow> n + 1)"

definition streak :: "b_event list \<Rightarrow> int" where
  "streak es = fold streak_step es 0"

lemma streak_snoc: "streak (es @ [e]) = streak_step e (streak es)"
  by (simp add: streak_def)

lemma closed_counts_streak:
  "0 < th \<Longrightarrow> (\<And>n. n \<le> length es \<Longrightarrow> streak (take n es) < th) \<Longrightarrow>
   b_state (fold b_step es (new_breaker th w)) = CLOSED \<and> b_count (fold b_step es (new_breaker th w)) = streak es
   \<and> b_threshold (fold b_step es (new_breaker th w)) = th"
proof (induction es rule: rev_induct)
  case (snoc e es)
  have "streak (take n es) < th" if "n \<le> length es" for n
    using snoc.prems(2) [of n] that by simp
  with snoc have IH: "b_state (fold b_step es (new_breaker th w)) = CLOSED"
    "b_count (fold b_step es (new_breaker th w)) = streak es"
    "b_threshold (fold b_step es (new_breaker th w)) = th" by auto
  have "streak (es @ [e]) < th" using snoc.prems(2) [of "length (es @ [e])"] by simp
  with IH show ?case
    by (cases e) (auto simp: breaker_defs streak_snoc streak_step_def)
qed (simp add: new_breaker_def streak_def)

lemma failures_open:
  "breaker_ok b \<Longrightarrow> length ts = n \<Longrightarrow> ts \<noteq> [] \<Longrightarrow> b_threshold b \<le> b_count b + int n \<or> b_state b \<noteq> CLOSED \<Longrightarrow>
   (b_state b = OPEN \<longrightarrow> b_threshold b \<le> b_count b + int n) \<Longrightarrow>
   b_state (fold recordFailure ts b) = OPEN"
proof (induction ts arbitrary: b n)
  case (Cons t ts)
  let ?b = "recordFailure t b"
  have ok: "breaker_ok ?b" using Cons.prems(1) by (rule breaker.fail_ok)
  show ?case
  proof (cases "ts = []")
    case True
    with Cons.prems show ?thesis
      by (cases "b_state b") (auto simp: breaker_defs breaker_ok_def)
  next
    case False
    have thr: "b_threshold ?b = b_threshold b" using breaker_const(1) [of "Failure t" b] by simp
    have open_stays: "b_state (fold recordFailure us c) = OPEN" if "b_state c = OPEN" for us c
      using that by (induction us arbitrary: c) (auto simp: breaker_defs)
    show ?thesis
    proof (cases "b_state ?b = OPEN")
      case True
      then show ?thesis using open_stays by simp
    next
      case n: False
      then have cl: "b_state b = CLOSED" "b_count ?b = b_count b + 1" "b_state ?b = CLOSED"
        using Cons.prems by (auto simp: breaker_defs split: if_splits) (metis bstate.exhaust)+
      have "b_state (fold recordFailure ts ?b) = OPEN"
        using Cons.prems False cl thr ok by (intro Cons.IH [of ?b "length ts"]) auto
      then show ?thesis by simp
    qed
  qed
qed simp

section \<open>Properties\<close>

text \<open>As long as there were never as many failures in a row (since the last success) as the
  threshold, the breaker is closed, admits every request and counts exactly the failures in a row;
  a success anywhere resets the count.\<close>

theorem breaker_closed_below_threshold:
  assumes "0 < th" and "\<And>n. n \<le> length es \<Longrightarrow> streak (take n es) < th"
  shows "b_state (fold b_step es (new_breaker th w)) = CLOSED \<and>
    b_count (fold b_step es (new_breaker th w)) = streak es \<and>
    fst (allowRequest t (fold b_step es (new_breaker th w)))"
  using closed_counts_streak [of th es w] assms breaker.closed_allows by auto

theorem breaker_closed_below_threshold_witness:
  "b_state (fold b_step [Failure 1, Success, Failure 2] (new_breaker 2 30)) = CLOSED"
proof -
  have "streak (take n [Failure 1, Success, Failure 2]) < 2" if "n \<le> length [Failure 1, Success, Failure 2]" for n
  proof -
    from that have "n = 0 \<or> n = 1 \<or> n = 2 \<or> n = 3" by auto
    then show ?thesis by (auto simp: streak_def streak_step_def numeral_2_eq_2 numeral_3_eq_3)
  qed
  from breaker_closed_below_threshold [OF _ this, of 30 0] show ?thesis by simp
qed

text \<open>C10: as many consecutive failures as the threshold open a closed breaker; while it is open
  and the window has not passed every request is refused and nothing changes; once the window has
  passed the request is admitted in the half-open state, where a failure opens the breaker again
  at once and a success closes it.\<close>

theorem breaker_open_cycle:
  assumes "breaker_ok b" and "b_state b = CLOSED" and "int (length ts) = b_threshold b"
  shows "b_state (fold recordFailure ts b) = OPEN \<and>
    (\<forall>c t. b_state c = OPEN \<and> t - b_opened c < b_window c \<longrightarrow> allowRequest t c = (False, c)) \<and>
    (\<forall>c t u. b_state c = OPEN \<and> b_window c \<le> t - b_opened c \<longrightarrow>
       (\<exists>h. allowRequest t c = (True, h) \<and> b_state h = HALF_OPEN \<and>
          b_state (recordFailure u h) = OPEN \<and> b_opened (recordFailure u h) = u \<and>
          b_state (recordSuccess h) = CLOSED \<and> b_count (recordSuccess h) = 0))"
proof -
  have "ts \<noteq> []" using assms by (auto simp: breaker_ok_def)
  then have "b_state (fold recordFailure ts b) = OPEN"
    using assms by (intro failures_open [of b ts "length ts"]) (auto simp: breaker_ok_def)
  then show ?thesis by (auto simp: breaker_defs)
qed

theorem breaker_open_cycle_witness:
  "b_state (fold recordFailure [1, 2, 3, 4, 5] (new_breaker 5 30)) = OPEN"
  using breaker_open_cycle [of "new_breaker 5 30" "[1, 2, 3, 4, 5]"]
  by (simp add: new_breaker_def breaker_ok_def)

end
