(* ===== verification/Integration.thy ===== *)
theory Integration
  imports Work_Order_Inv Circuit_Breaker
begin

text \<open>
  The ERP/WMS integration (\<open>services/IntegrationService.cc\<close>): the outgoing call with its circuit
  breaker and retries, the synchronisation of ERP orders, their conversion to work orders, the
  completion saga with its compensations, the warehouse calls, the log list and the replay of a
  failed log. The network is a parameter: the reply to the n-th request sent; statements that may
  fail are answered by \<open>ge_sql\<close>, keyed by a tag. A reply's body is \<open>JNull\<close> when it is not JSON.
\<close>

section \<open>State\<close>

record api_config =
  ac_system :: string
  ac_base :: string
  ac_token :: string
  ac_timeout :: int
  ac_retry :: int
  ac_enabled :: bool

record sync_log =
  sl_id :: int
  sl_system :: string
  sl_direction :: int
  sl_type :: string
  sl_business :: int
  sl_url :: string
  sl_request :: "json option"
  sl_response :: "json option"
  sl_http :: int
  sl_duration :: int
  sl_status :: int
  sl_retry :: int
  sl_error :: string

record inventory_row =
  iv_id :: int
  iv_material :: string
  iv_quantity :: rat
  iv_status :: string
  iv_sync :: int
  iv_wo :: int

record erp_order =
  eo_id :: int
  eo_no :: string
  eo_type :: int
  eo_product :: string
  eo_name :: string
  eo_quantity :: int
  eo_unit :: string
  eo_start :: string
  eo_end :: string
  eo_priority :: int
  eo_customer :: string
  eo_status :: int
  eo_raw :: json
  eo_wo :: "int option"

datatype reply = Reply int json int | Broken string int

record sent_request =
  sr_system :: string
  sr_method :: string
  sr_path :: string
  sr_payload :: json
  sr_token :: string

record integ =
  ig_wo :: wo_db
  ig_codes :: "(int \<times> string) list"
  ig_configs :: "api_config list"
  ig_logs :: "sync_log list"
  ig_next_log :: int
  ig_inventory :: "inventory_row list"
  ig_next_inv :: int
  ig_erp :: "erp_order list"
  ig_next_erp :: int
  ig_breakers :: "string \<Rightarrow> breaker option"
  ig_clock :: int
  ig_sent :: "sent_request list"

record integ_env =
  ge_wo :: wo_env
  ge_sql :: "string \<Rightarrow> bool"
  ge_net :: "nat \<Rightarrow> reply"

section \<open>Outgoing calls\<close>

text \<open>\<open>urlEncode\<close>: unreserved characters stay, the others become a percent sign and two digits.\<close>

definition hex_digit :: "nat \<Rightarrow> char" where
  "hex_digit n = ''0123456789ABCDEF'' ! n"

definition unreserved :: "char \<Rightarrow> bool" where
  "unreserved c \<longleftrightarrow>
    (let n = (of_char c :: nat) in
     (48 \<le> n \<and> n \<le> 57) \<or> (65 \<le> n \<and> n \<le> 90) \<or> (97 \<le> n \<and> n \<le> 122)) \<or>
    c \<in> {CHR ''-'', CHR ''_'', CHR ''.'', CHR ''~''}"

fun urlEncode :: "string \<Rightarrow> string" where
  "urlEncode [] = []"
| "urlEncode (c # cs) =
     (if unreserved c then c # urlEncode cs
      else CHR ''%'' # hex_digit (of_char c div 16) # hex_digit (of_char c mod 16) # urlEncode cs)"

record ext_result =
  xr_ok :: bool
  xr_circuit :: bool
  xr_http :: int
  xr_duration :: int
  xr_body :: json
  xr_err :: string

definition ext0 :: ext_result where
  "ext0 = \<lparr>xr_ok = False, xr_circuit = False, xr_http = 0, xr_duration = 0, xr_body = JNull, xr_err = []\<rparr>"

definition breakerOf :: "string \<Rightarrow> integ \<Rightarrow> breaker" where
  "breakerOf sys s = (case ig_breakers s sys of Some b \<Rightarrow> b | None \<Rightarrow> new_breaker 5 30)"

definition set_breaker :: "string \<Rightarrow> breaker \<Rightarrow> integ \<Rightarrow> integ" where
  "set_breaker sys b s = s\<lparr>ig_breakers := (ig_breakers s)(sys := Some b)\<rparr>"

definition breakerStates :: "integ \<Rightarrow> (string \<times> string) list" where
  "breakerStates s = [(''ERP'', stateName (breakerOf ''ERP'' s)), (''WMS'', stateName (breakerOf ''WMS'' s))]"

definition loadConfig :: "string \<Rightarrow> integ \<Rightarrow> api_config option" where
  "loadConfig sys s = first_row (\<lambda>c. ac_system c = sys \<and> ac_enabled c) (ig_configs s)"

definition requireConfig :: "api_config option \<Rightarrow> string \<Rightarrow> api_config result" where
  "requireConfig cfg sys =
    (case cfg of None \<Rightarrow> Inl (Conflict (sys @ '' is not configured or disabled'')) | Some c \<Rightarrow> Inr c)"

definition is_2xx :: "int \<Rightarrow> bool" where
  "is_2xx st \<longleftrightarrow> 200 \<le> st \<and> st < 300"

text \<open>
  One attempt: the request is sent and the reply read into the result, which keeps the fields of
  earlier attempts that this one does not set.
\<close>

definition attempt ::
  "(nat \<Rightarrow> reply) \<Rightarrow> sent_request \<Rightarrow> ext_result \<Rightarrow> integ \<Rightarrow> ext_result \<times> integ" where
  "attempt net rq res s =
    (case net (length (ig_sent s)) of
       Reply st body dur \<Rightarrow>
         (let s1 = s\<lparr>ig_sent := ig_sent s @ [rq], ig_clock := ig_clock s + dur\<rparr>;
              r1 = res\<lparr>xr_http := st, xr_body := body, xr_duration := dur\<rparr> in
          if is_2xx st then (r1\<lparr>xr_ok := True\<rparr>, s1) else (r1\<lparr>xr_err := ''HTTP '' @ to_string st\<rparr>, s1))
     | Broken msg dur \<Rightarrow>
         (res\<lparr>xr_duration := dur, xr_err := msg\<rparr>,
          s\<lparr>ig_sent := ig_sent s @ [rq], ig_clock := ig_clock s + dur\<rparr>))"

text \<open>The loop: a success is recorded and ends it; a failure is recorded and, if attempts are
  left, followed by a pause of 200 ms.\<close>

fun attempts_loop ::
  "nat \<Rightarrow> (nat \<Rightarrow> reply) \<Rightarrow> sent_request \<Rightarrow> ext_result \<Rightarrow> integ \<Rightarrow> ext_result \<times> integ" where
  "attempts_loop 0 net rq res s = (res, s)"
| "attempts_loop (Suc k) net rq res s =
     (let (r1, s1) = attempt net rq res s;
          b = breakerOf (sr_system rq) s1 in
      if xr_ok r1 then (r1, set_breaker (sr_system rq) (recordSuccess b) s1)
      else
        let s2 = set_breaker (sr_system rq) (recordFailure (ig_clock s1) b) s1 in
        attempts_loop k net rq r1 (if 0 < k then s2\<lparr>ig_clock := ig_clock s2 + 200\<rparr> else s2))"

definition callExternal ::
  "(nat \<Rightarrow> reply) \<Rightarrow> api_config \<Rightarrow> string \<Rightarrow> string \<Rightarrow> string \<Rightarrow> json \<Rightarrow> integ \<Rightarrow> ext_result \<times> integ" where
  "callExternal net cfg sys mth path payload s =
    (let (ok, b) = allowRequest (ig_clock s) (breakerOf sys s);
         s0 = set_breaker sys b s in
     if \<not> ok then (ext0\<lparr>xr_circuit := True, xr_err := sys @ '' circuit open''\<rparr>, s0)
     else attempts_loop (nat (max 1 (ac_retry cfg))) net
            \<lparr>sr_system = sys, sr_method = (if mth = ''GET'' then ''GET'' else ''POST''), sr_path = path,
             sr_payload = payload, sr_token = ac_token cfg\<rparr> ext0 s0)"

definition writeLog ::
  "string \<Rightarrow> int \<Rightarrow> string \<Rightarrow> int \<Rightarrow> string \<Rightarrow> json option \<Rightarrow> json option \<Rightarrow> int \<Rightarrow> int \<Rightarrow> bool \<Rightarrow> int \<Rightarrow> string
    \<Rightarrow> integ_env \<Rightarrow> (integ, int) proc" where
  "writeLog sys dir typ bid url req resp http dur ok retry err e s =
    (if \<not> ge_sql e ''log'' then (Inl (SqlError ''insert integ_sync_logs''), s)
     else (Inr (ig_next_log s),
           s\<lparr>ig_logs := ig_logs s @ [\<lparr>sl_id = ig_next_log s, sl_system = sys, sl_direction = dir,
                sl_type = typ, sl_business = bid, sl_url = url, sl_request = req, sl_response = resp,
                sl_http = http, sl_duration = dur, sl_status = (if ok then 1 else 0),
                sl_retry = retry, sl_error = err\<rparr>],
             ig_next_log := ig_next_log s + 1\<rparr>))"

definition body_text :: "json \<Rightarrow> json option" where
  "body_text b = (if b = JNull then None else Some b)"

text \<open>Always an exception: of the log statement, else 502.\<close>

definition failExternal ::
  "string \<Rightarrow> int \<Rightarrow> string \<Rightarrow> int \<Rightarrow> string \<Rightarrow> json option \<Rightarrow> ext_result \<Rightarrow> integ_env \<Rightarrow> integ \<Rightarrow> fault \<times> integ" where
  "failExternal sys dir typ bid url req r e s =
    (case writeLog sys dir typ bid url req (body_text (xr_body r)) (xr_http r) (xr_duration r) False 0
            (xr_err r) e s of
       (Inl f, s1) \<Rightarrow> (f, s1)
     | (Inr _, s1) \<Rightarrow> (ApiError 502 (sys @ '' call failed: '' @ xr_err r), s1))"

section \<open>ERP orders\<close>

text \<open>One element of the reply: skipped without an order number, else inserted or updated. The
  flag says whether the row was inserted.\<close>

definition upsert_order ::
  "int \<Rightarrow> string \<Rightarrow> string \<Rightarrow> integ_env \<Rightarrow> json \<Rightarrow> (integ, bool option) proc" where
  "upsert_order orderType startDate endDate e j s =
    (case field_value [] (jstr ''order_no'' j) of
       Inl f \<Rightarrow> (Inl f, s)
     | Inr no \<Rightarrow>
         if no = [] then (Inr None, s)
         else
           (case (field_value orderType (jint ''order_type'' j), field_value [] (jstr ''product_code'' j),
                  field_value [] (jstr ''product_name'' j), field_value 0 (jint ''quantity'' j),
                  field_value ''PCS'' (jstr ''unit'' j), field_value startDate (jstr ''plan_start_date'' j),
                  field_value endDate (jstr ''plan_end_date'' j), field_value 5 (jint ''priority'' j),
                  field_value [] (jstr ''customer_name'' j)) of
              (Inr ty, Inr pc, Inr pn, Inr qty, Inr un, Inr sd, Inr ed, Inr prio, Inr cust) \<Rightarrow>
                if \<not> ge_sql e no then (Inl (SqlError ''upsert integ_erp_orders''), s)
                else if no \<in> eo_no ` set (ig_erp s) then
                  (Inr (Some False),
                   s\<lparr>ig_erp := upd_where (\<lambda>r. eo_no r = no) (\<lambda>r. r\<lparr>eo_quantity := qty, eo_raw := j\<rparr>) (ig_erp s)\<rparr>)
                else
                  (Inr (Some True),
                   s\<lparr>ig_erp := ig_erp s @ [\<lparr>eo_id = ig_next_erp s, eo_no = no, eo_type = ty, eo_product = pc,
                        eo_name = pn, eo_quantity = qty, eo_unit = un, eo_start = sd, eo_end = ed,
                        eo_priority = prio, eo_customer = cust, eo_status = 0, eo_raw = j, eo_wo = None\<rparr>],
                     ig_next_erp := ig_next_erp s + 1\<rparr>)
            | _ \<Rightarrow> (Inl JsonError, s)))"

record sync_counts =
  sc_total :: int
  sc_new :: int
  sc_updated :: int

fun upsert_orders ::
  "int \<Rightarrow> string \<Rightarrow> string \<Rightarrow> integ_env \<Rightarrow> json list \<Rightarrow> sync_counts \<Rightarrow> (integ, sync_counts) proc" where
  "upsert_orders ty sd ed e [] c s = (Inr c, s)"
| "upsert_orders ty sd ed e (j # js) c s =
     (case upsert_order ty sd ed e j s of
        (Inl f, s1) \<Rightarrow> (Inl f, s1)
      | (Inr None, s1) \<Rightarrow> upsert_orders ty sd ed e js c s1
      | (Inr (Some True), s1) \<Rightarrow>
          upsert_orders ty sd ed e js (c\<lparr>sc_total := sc_total c + 1, sc_new := sc_new c + 1\<rparr>) s1
      | (Inr (Some False), s1) \<Rightarrow>
          upsert_orders ty sd ed e js (c\<lparr>sc_total := sc_total c + 1, sc_updated := sc_updated c + 1\<rparr>) s1)"

definition syncErpOrders :: "integ_env \<Rightarrow> json \<Rightarrow> (integ, sync_counts \<times> int) proc" where
  "syncErpOrders e body s =
    (case requireConfig (loadConfig ''ERP'' s) ''ERP'' of
       Inl f \<Rightarrow> (Inl f, s)
     | Inr cfg \<Rightarrow>
     (case (field_value [] (jstr ''start_date'' body), field_value [] (jstr ''end_date'' body)) of
       (Inr sd, Inr ed) \<Rightarrow>
         if sd = [] \<or> ed = [] then (Inl (BadRequest ''start_date and end_date are required''), s)
         else
         (case field_value 1 (jint ''order_type'' body) of
            Inl f \<Rightarrow> (Inl f, s)
          | Inr ty \<Rightarrow>
              let path = ''/erp/orders?start_date='' @ urlEncode sd @ ''&end_date='' @ urlEncode ed
                         @ ''&order_type='' @ to_string ty;
                  (r, s1) = callExternal (ge_net e) cfg ''ERP'' ''GET'' path JNull s in
              if \<not> xr_ok r then
                (let (f, s2) = failExternal ''ERP'' 1 ''sync_orders'' 0 (''GET '' @ path) None r e s1 in (Inl f, s2))
              else
                (case field_value [] (jarr ''orders'' (xr_body r)) of
                   Inl f \<Rightarrow> (Inl f, s1)
                 | Inr js \<Rightarrow>
                     (case upsert_orders ty sd ed e js \<lparr>sc_total = 0, sc_new = 0, sc_updated = 0\<rparr> s1 of
                        (Inl f, s2) \<Rightarrow> (Inl f, s2)
                      | (Inr c, s2) \<Rightarrow>
                          (case writeLog ''ERP'' 1 ''sync_orders'' 0 (''GET '' @ path) None (Some (xr_body r))
                                  (xr_http r) (xr_duration r) True 0 [] e s2 of
                             (Inl f, s3) \<Rightarrow> (Inl f, s3)
                           | (Inr l, s3) \<Rightarrow> (Inr (c, l), s3)))))
     | _ \<Rightarrow> (Inl JsonError, s)))"

text \<open>The conversion: not one transaction, so the order stays pending when its last statement fails.\<close>

definition convertErpOrder ::
  "(wo_db \<Rightarrow> wo_db \<Rightarrow> wo_db) \<Rightarrow> integ_env \<Rightarrow> int \<Rightarrow> user_ctx \<Rightarrow> (integ, string \<times> int \<times> string) proc" where
  "convertErpOrder abandon e oid c s =
    (case first_row (\<lambda>r. eo_id r = oid) (ig_erp s) of
       None \<Rightarrow> (Inl (NotFound ''no such ERP order''), s)
     | Some r \<Rightarrow>
         if eo_status r \<noteq> 0 then (Inl (Conflict ''only a pending ERP order can be converted''), s)
         else
         (case first_row (\<lambda>p. map_of (ig_codes s) (pr_id p) = Some (eo_product r) \<and> \<not> pr_deleted p)
                 (products (ig_wo s)) of
            None \<Rightarrow> (Inl (BadRequest (''product '' @ eo_product r @ '' does not exist'')), s)
          | Some p \<Rightarrow>
              (case pr_process p of
                 None \<Rightarrow> (Inl (BadRequest (''product '' @ eo_product r @ '' has no process route'')), s)
               | Some q \<Rightarrow>
                   (case create abandon (ge_wo e) c
                           \<lparr>cb_product = Given (pr_id p), cb_plan = Given (eo_quantity r), cb_process = Given q,
                            cb_line = Absent, cb_priority = Given (eo_priority r),
                            cb_remark = Given (''ERP order '' @ eo_no r)\<rparr> (ig_wo s) of
                      (Inl f, w1) \<Rightarrow> (Inl f, s\<lparr>ig_wo := w1\<rparr>)
                    | (Inr (woId, no), w1) \<Rightarrow>
                        let s1 = s\<lparr>ig_wo := w1\<rparr> in
                        if \<not> ge_sql e ''convert'' then (Inl (SqlError ''update integ_erp_orders''), s1)
                        else (Inr (eo_no r, woId, no),
                              s1\<lparr>ig_erp := upd_where (\<lambda>x. eo_id x = oid)
                                   (\<lambda>x. x\<lparr>eo_status := 1, eo_wo := Some woId\<rparr>) (ig_erp s1)\<rparr>)))))"

section \<open>The completion saga\<close>

definition complete_row :: "wo_env \<Rightarrow> work_order \<Rightarrow> work_order" where
  "complete_row e q = q\<lparr>wo_status := kCompleted,
     wo_end := (case wo_end q of None \<Rightarrow> Some (e_now e) | Some t \<Rightarrow> Some t), wo_updated := e_now e\<rparr>"

text \<open>T1: the local transaction.\<close>

definition saga_t1 :: "wo_env \<Rightarrow> int \<Rightarrow> work_order \<Rightarrow> (wo_db, unit) proc" where
  "saga_t1 e i w db =
    (if \<exists>q\<in>set (orders db). wo_id q = i \<and> wo_status q = kInProgress then
       (Inr (), db\<lparr>orders := upd_where (\<lambda>q. wo_id q = i \<and> wo_status q = kInProgress) (complete_row e) (orders db),
                   wo_outbox := kEnqueueSql (e_now e) (stop_message e i w) (wo_outbox db)\<rparr>)
     else (Inl (Conflict ''the work order changed, saga stopped''), db))"

definition rollbackT1 :: "integ_env \<Rightarrow> int \<Rightarrow> integ \<Rightarrow> integ" where
  "rollbackT1 e i s =
    (if ge_sql e ''rollback'' then
       s\<lparr>ig_wo := (ig_wo s)\<lparr>orders := upd_where (\<lambda>q. wo_id q = i)
           (\<lambda>q. q\<lparr>wo_status := kInProgress, wo_updated := e_now (ge_wo e)\<rparr>) (orders (ig_wo s))\<rparr>\<rparr>
     else s)"

definition insert_inventory :: "string \<Rightarrow> rat \<Rightarrow> string \<Rightarrow> int \<Rightarrow> int \<Rightarrow> integ_env \<Rightarrow> (integ, int) proc" where
  "insert_inventory material qty st sync wo e s =
    (if \<not> ge_sql e ''inventory'' then (Inl (SqlError ''insert integ_wms_inventory''), s)
     else (Inr (ig_next_inv s),
           s\<lparr>ig_inventory := ig_inventory s @ [\<lparr>iv_id = ig_next_inv s, iv_material = material,
                iv_quantity = qty, iv_status = st, iv_sync = sync, iv_wo = wo\<rparr>],
             ig_next_inv := ig_next_inv s + 1\<rparr>))"

record saga_info =
  si_wo :: int
  si_no :: string
  si_qty :: int
  si_code :: string

definition erp_path :: "saga_info \<Rightarrow> string" where
  "erp_path i = ''/erp/work-orders/'' @ si_no i @ ''/completion-report''"

definition erp_payload :: "saga_info \<Rightarrow> json" where
  "erp_payload i = JObj [(''work_order_no'', JStr (si_no i)), (''completed_qty'', JInt (si_qty i))]"

definition wms_payload :: "saga_info \<Rightarrow> json" where
  "wms_payload i = JObj [(''work_order_no'', JStr (si_no i)), (''product_code'', JStr (si_code i)),
     (''quantity'', JInt (si_qty i)), (''sync_type'', JInt 2)]"

text \<open>T4: the stock-in row and the two success logs.\<close>

definition saga_t4 :: "integ_env \<Rightarrow> saga_info \<Rightarrow> ext_result \<Rightarrow> ext_result \<Rightarrow> (integ, int) proc" where
  "saga_t4 e i t2 t3 s =
    (case insert_inventory (si_code i) (of_int (si_qty i)) ''INBOUND'' 2 (si_wo i) e s of
       (Inl f, s1) \<Rightarrow> (Inl f, s1)
     | (Inr _, s1) \<Rightarrow>
     (case writeLog ''ERP'' 2 ''completion_report'' (si_wo i) (''POST '' @ erp_path i) (Some (erp_payload i))
             (Some (xr_body t2)) (xr_http t2) (xr_duration t2) True 0 [] e s1 of
       (Inl f, s2) \<Rightarrow> (Inl f, s2)
     | (Inr l, s2) \<Rightarrow>
     (case writeLog ''WMS'' 2 ''stock_in'' (si_wo i) ''POST /wms/stock-in'' (Some (wms_payload i))
             (Some (xr_body t3)) (xr_http t3) (xr_duration t3) True 0 [] e s2 of
       (Inl f, s3) \<Rightarrow> (Inl f, s3)
     | (Inr _, s3) \<Rightarrow> (Inr l, s3))))"

text \<open>T3: the stock-in call, with the compensations of T2 and T1 in reverse order.\<close>

definition saga_t3 :: "integ_env \<Rightarrow> api_config \<Rightarrow> saga_info \<Rightarrow> ext_result \<Rightarrow> (integ, int) proc" where
  "saga_t3 e erpCfg i t2 s =
    (case requireConfig (loadConfig ''WMS'' s) ''WMS'' of
       Inl f \<Rightarrow> (Inl f, s)
     | Inr wmsCfg \<Rightarrow>
         let (t3, s1) = callExternal (ge_net e) wmsCfg ''WMS'' ''POST'' ''/wms/stock-in'' (wms_payload i) s in
         if \<not> xr_ok t3 then
           let (cancel, s2) = callExternal (ge_net e) erpCfg ''ERP'' ''POST''
                 (''/erp/work-orders/'' @ si_no i @ ''/report-cancel'')
                 (JObj [(''work_order_no'', JStr (si_no i))]) s1;
               s3 = rollbackT1 e (si_wo i) s2;
               (f, s4) = failExternal ''WMS'' 2 ''stock_in'' (si_wo i) ''POST /wms/stock-in''
                 (Some (wms_payload i)) t3 e s3 in (Inl f, s4)
         else saga_t4 e i t2 t3 s1)"

definition saga_t2 :: "integ_env \<Rightarrow> saga_info \<Rightarrow> (integ, int) proc" where
  "saga_t2 e i s =
    (case requireConfig (loadConfig ''ERP'' s) ''ERP'' of
       Inl f \<Rightarrow> (Inl f, s)
     | Inr erpCfg \<Rightarrow>
         let (t2, s1) = callExternal (ge_net e) erpCfg ''ERP'' ''POST'' (erp_path i) (erp_payload i) s in
         if \<not> xr_ok t2 then
           let s2 = rollbackT1 e (si_wo i) s1;
               (f, s3) = failExternal ''ERP'' 2 ''completion_report'' (si_wo i) (''POST '' @ erp_path i)
                 (Some (erp_payload i)) t2 e s2 in (Inl f, s3)
         else saga_t3 e erpCfg i t2 s1)"

text \<open>The outcome of T1's commit is awaited but not looked at.\<close>

definition saga_info_of :: "integ \<Rightarrow> work_order \<Rightarrow> saga_info" where
  "saga_info_of s w =
    \<lparr>si_wo = wo_id w, si_no = wo_no w, si_qty = wo_completed w,
     si_code = (if wo_product w \<in> pr_id ` set (products (ig_wo s))
                then (case map_of (ig_codes s) (wo_product w) of None \<Rightarrow> [] | Some c \<Rightarrow> c) else [])\<rparr>"

definition reportCompletionSaga ::
  "(wo_db \<Rightarrow> wo_db \<Rightarrow> wo_db) \<Rightarrow> integ_env \<Rightarrow> int \<Rightarrow> (integ, int) proc" where
  "reportCompletionSaga abandon e i s =
    (case first_row (\<lambda>w. wo_id w = i) (orders (ig_wo s)) of
       None \<Rightarrow> (Inl (NotFound ''no such work order''), s)
     | Some w \<Rightarrow>
         if wo_status w \<noteq> kInProgress then (Inl (Conflict ''only a work order in progress''), s)
         else
           (case saga_t1 (ge_wo e) i w (ig_wo s) of
              (Inl f, db1) \<Rightarrow> (Inl f, s\<lparr>ig_wo := abandon (ig_wo s) db1\<rparr>)
            | (Inr _, db1) \<Rightarrow>
                saga_t2 e (saga_info_of s w)
                  (s\<lparr>ig_wo := (if e_commit (ge_wo e) then db1 else ig_wo s)\<rparr>)))"

section \<open>Warehouse calls and logs\<close>

definition wmsCall :: "integ_env \<Rightarrow> json \<Rightarrow> string \<Rightarrow> int \<Rightarrow> (integ, int \<times> int) proc" where
  "wmsCall e body action syncType s =
    (case (field_value [] (jstr ''material_code'' body), field_value 0 (jreal ''quantity'' body)) of
       (Inr material, Inr qty) \<Rightarrow>
         if material = [] \<or> qty \<le> 0 then (Inl (BadRequest ''material_code and quantity are required''), s)
         else
         (case field_value 0 (jint ''work_order_id'' body) of
            Inl f \<Rightarrow> (Inl f, s)
          | Inr wo \<Rightarrow>
          (case requireConfig (loadConfig ''WMS'' s) ''WMS'' of
            Inl f \<Rightarrow> (Inl f, s)
          | Inr cfg \<Rightarrow>
              let path = ''/wms/'' @ action;
                  payload = JObj [(''material_code'', JStr material), (''quantity'', JReal qty),
                    (''work_order_id'', JInt wo), (''sync_type'', JInt syncType)];
                  (r, s1) = callExternal (ge_net e) cfg ''WMS'' ''POST'' path payload s in
              if \<not> xr_ok r then
                (let (f, s2) = failExternal ''WMS'' 2 action wo (''POST '' @ path) (Some payload) r e s1 in (Inl f, s2))
              else
                (case insert_inventory material qty (if syncType = 1 then ''ISSUED'' else ''INBOUND'') syncType wo e s1 of
                   (Inl f, s2) \<Rightarrow> (Inl f, s2)
                 | (Inr ivId, s2) \<Rightarrow>
                     (case writeLog ''WMS'' 2 action wo (''POST '' @ path) (Some payload) (Some (xr_body r))
                             (xr_http r) (xr_duration r) True 0 [] e s2 of
                        (Inl f, s3) \<Rightarrow> (Inl f, s3)
                      | (Inr l, s3) \<Rightarrow> (Inr (l, ivId), s3)))))
     | _ \<Rightarrow> (Inl JsonError, s))"

definition wmsPickRequest :: "integ_env \<Rightarrow> json \<Rightarrow> (integ, int \<times> int) proc" where
  "wmsPickRequest e body = wmsCall e body ''pick-request'' 1"

definition wmsStockIn :: "integ_env \<Rightarrow> json \<Rightarrow> (integ, int \<times> int) proc" where
  "wmsStockIn e body = wmsCall e body ''stock-in'' 2"

definition listLogs :: "int \<Rightarrow> int \<Rightarrow> string \<Rightarrow> int \<Rightarrow> integ \<Rightarrow> int \<times> sync_log list" where
  "listLogs page0 size0 sys st s =
    (let page = (if page0 < 1 then 1 else page0);
         sz = (if size0 < 1 \<or> size0 > 200 then 20 else size0);
         hits = filter (\<lambda>l. (validSystemType sys \<longrightarrow> sl_system l = sys) \<and>
                            (validStatusFilter st \<longrightarrow> sl_status l = st)) (ig_logs s) in
     (int (length hits),
      take (nat sz) (drop (nat ((page - 1) * sz)) (sort_key (\<lambda>l. - sl_id l) hits))))"

definition retryLog :: "integ_env \<Rightarrow> int \<Rightarrow> (integ, int) proc" where
  "retryLog e i s =
    (case first_row (\<lambda>l. sl_id l = i) (ig_logs s) of
       None \<Rightarrow> (Inl (NotFound ''no such log''), s)
     | Some l \<Rightarrow>
         if sl_status l = 1 then (Inl (Conflict ''the log already succeeded''), s)
         else
         (case requireConfig (loadConfig (sl_system l) s) (sl_system l) of
            Inl f \<Rightarrow> (Inl f, s)
          | Inr cfg \<Rightarrow>
              let (mth, path) = parseMethodPath (sl_url l);
                  payload = (case sl_request l of None \<Rightarrow> JNull | Some j \<Rightarrow> j) in
              if \<not> ge_sql e ''mark'' then (Inl (SqlError ''update integ_sync_logs''), s)
              else
              let s1 = s\<lparr>ig_logs := upd_where (\<lambda>r. sl_id r = i) (\<lambda>r. r\<lparr>sl_status := 2\<rparr>) (ig_logs s)\<rparr>;
                  (r, s2) = callExternal (ge_net e) cfg (sl_system l) mth path payload s1 in
              if \<not> ge_sql e ''result'' then (Inl (SqlError ''update integ_sync_logs''), s2)
              else
              let s3 = s2\<lparr>ig_logs := upd_where (\<lambda>x. sl_id x = i)
                     (\<lambda>x. x\<lparr>sl_status := (if xr_ok r then 1 else 0), sl_http := xr_http r,
                            sl_duration := xr_duration r, sl_response := body_text (xr_body r),
                            sl_error := xr_err r, sl_retry := sl_retry x + 1\<rparr>) (ig_logs s2)\<rparr> in
              if \<not> xr_ok r then (Inl (ApiError 502 (sl_system l @ '' retry failed: '' @ xr_err r)), s3)
              else (Inr (xr_http r), s3)))"

end
