(* ===== verification/Integration_Props.thy ===== *)
theory Integration_Props
  imports Integration
begin

text \<open>
  Properties of the integration: the bounds of an outgoing call and the laws of its breaker, the
  outcomes of the completion saga with its compensations and their gaps, and the replay of a log.
\<close>

section \<open>What an outgoing call leaves alone\<close>

definition same_tables :: "integ \<Rightarrow> integ \<Rightarrow> bool" where
  "same_tables s t \<longleftrightarrow>
    ig_wo t = ig_wo s \<and> ig_codes t = ig_codes s \<and> ig_configs t = ig_configs s \<and> ig_logs t = ig_logs s \<and>
    ig_next_log t = ig_next_log s \<and> ig_inventory t = ig_inventory s \<and> ig_next_inv t = ig_next_inv s \<and>
    ig_erp t = ig_erp s \<and> ig_next_erp t = ig_next_erp s"

lemma same_tables_refl [simp]: "same_tables s s"
  by (simp add: same_tables_def)

lemma same_tables_trans: "same_tables a b \<Longrightarrow> same_tables b c \<Longrightarrow> same_tables a c"
  by (simp add: same_tables_def)

lemma set_breaker_frame [simp]:
  "same_tables s (set_breaker sys b s)" "ig_sent (set_breaker sys b s) = ig_sent s"
  "ig_clock (set_breaker sys b s) = ig_clock s"
  "ig_breakers (set_breaker sys b s) = (ig_breakers s)(sys := Some b)"
  by (simp_all add: set_breaker_def same_tables_def)

lemma breakerOf_set [simp]: "breakerOf sys (set_breaker sys b s) = b"
  by (simp add: breakerOf_def)

lemma attempt_frame:
  assumes "attempt net rq res s = (r1, s1)"
  shows "ig_sent s1 = ig_sent s @ [rq] \<and> same_tables s s1 \<and> ig_breakers s1 = ig_breakers s \<and>
    xr_circuit r1 = xr_circuit res \<and> (\<not> xr_ok res \<longrightarrow> xr_ok r1 \<longrightarrow> is_2xx (xr_http r1))"
  using assms by (auto simp: attempt_def Let_def same_tables_def split: reply.splits if_splits)

lemma attempts_loop_frame:
  "attempts_loop k net rq res s = (r, t) \<Longrightarrow> \<not> xr_ok res \<Longrightarrow>
   same_tables s t \<and> xr_circuit r = xr_circuit res \<and> (xr_ok r \<longrightarrow> is_2xx (xr_http r)) \<and>
   (\<exists>n\<le>k. ig_sent t = ig_sent s @ replicate n rq \<and> (\<not> xr_ok r \<longrightarrow> n = k) \<and> (xr_ok r \<longrightarrow> 0 < n))"
proof (induction k arbitrary: res s)
  case (Suc k)
  obtain r1 s1 where a: "attempt net rq res s = (r1, s1)" by fastforce
  note fr = attempt_frame [OF a]
  show ?case
  proof (cases "xr_ok r1")
    case True
    then have "r = r1" "t = set_breaker (sr_system rq) (recordSuccess (breakerOf (sr_system rq) s1)) s1"
      using Suc.prems(1) a by (simp_all add: Let_def)
    with True fr Suc.prems(2) show ?thesis
      by (auto intro: same_tables_trans exI [of _ 1])
  next
    case False
    let ?s2 = "set_breaker (sr_system rq) (recordFailure (ig_clock s1) (breakerOf (sr_system rq) s1)) s1"
    let ?s3 = "if 0 < k then ?s2\<lparr>ig_clock := ig_clock ?s2 + 200\<rparr> else ?s2"
    have "attempts_loop k net rq r1 ?s3 = (r, t)"
      using Suc.prems(1) a False by (simp add: Let_def)
    from Suc.IH [OF this False] obtain n where n: "n \<le> k" "ig_sent t = ig_sent ?s3 @ replicate n rq"
      "\<not> xr_ok r \<longrightarrow> n = k" "same_tables ?s3 t" "xr_circuit r = xr_circuit r1" "xr_ok r \<longrightarrow> is_2xx (xr_http r)"
      by blast
    have "same_tables s ?s3" using fr by (auto simp: same_tables_def set_breaker_def)
    then have st: "same_tables s t" using n(4) by (rule same_tables_trans)
    have sent: "ig_sent ?s3 = ig_sent s @ [rq]" using fr by simp
    show ?thesis
      using n st sent fr by (intro conjI exI [of _ "Suc n"]) (auto simp: replicate_app_Cons_same)
  qed
qed auto

definition request_of :: "api_config \<Rightarrow> string \<Rightarrow> string \<Rightarrow> string \<Rightarrow> json \<Rightarrow> sent_request" where
  "request_of cfg sys mth path payload =
    \<lparr>sr_system = sys, sr_method = (if mth = ''GET'' then ''GET'' else ''POST''), sr_path = path,
     sr_payload = payload, sr_token = ac_token cfg\<rparr>"

lemma callExternal_frame:
  assumes "callExternal net cfg sys mth path payload s = (r, t)"
  shows "same_tables s t \<and> (xr_ok r \<longrightarrow> is_2xx (xr_http r)) \<and>
    (\<exists>n. ig_sent t = ig_sent s @ replicate n (request_of cfg sys mth path payload) \<and>
       n \<le> nat (max 1 (ac_retry cfg)) \<and> (xr_circuit r \<longleftrightarrow> n = 0) \<and>
       (xr_circuit r \<longleftrightarrow> \<not> fst (allowRequest (ig_clock s) (breakerOf sys s))) \<and>
       (xr_circuit r \<longrightarrow> \<not> xr_ok r) \<and>
       (\<not> xr_ok r \<longrightarrow> \<not> xr_circuit r \<longrightarrow> n = nat (max 1 (ac_retry cfg))))"
proof -
  obtain ok b where ab: "allowRequest (ig_clock s) (breakerOf sys s) = (ok, b)" by fastforce
  let ?rq = "request_of cfg sys mth path payload"
  show ?thesis
  proof (cases ok)
    case False
    with assms ab show ?thesis
      by (auto simp: callExternal_def ext0_def intro: exI [of _ 0])
  next
    case True
    have "attempts_loop (nat (max 1 (ac_retry cfg))) net ?rq ext0 (set_breaker sys b s) = (r, t)"
      using assms ab True by (simp add: callExternal_def request_of_def)
    from attempts_loop_frame [OF this] obtain n where
      st: "same_tables (set_breaker sys b s) t" and c: "\<not> xr_circuit r" and k: "xr_ok r \<longrightarrow> is_2xx (xr_http r)"
      and n: "n \<le> nat (max 1 (ac_retry cfg))" "ig_sent t = ig_sent s @ replicate n ?rq"
      "\<not> xr_ok r \<longrightarrow> n = nat (max 1 (ac_retry cfg))" "xr_ok r \<longrightarrow> 0 < n"
      by (auto simp: ext0_def)
    have "0 < n" using n(3,4) by (cases "xr_ok r") auto
    with st c k n ab True show ?thesis
      using same_tables_trans [OF set_breaker_frame(1) st] by (intro conjI exI [of _ n]) auto
  qed
qed

lemma writeLog_frame:
  assumes "writeLog sys dir typ bid url req resp http dur ok retry err e s = (r, t)"
  shows "ig_wo t = ig_wo s \<and> ig_inventory t = ig_inventory s \<and> ig_sent t = ig_sent s \<and> ig_configs t = ig_configs s
    \<and> (\<forall>l. r = Inr l \<longrightarrow> ig_logs t = ig_logs s @ [\<lparr>sl_id = l, sl_system = sys, sl_direction = dir,
          sl_type = typ, sl_business = bid, sl_url = url, sl_request = req, sl_response = resp,
          sl_http = http, sl_duration = dur, sl_status = (if ok then 1 else 0),
          sl_retry = retry, sl_error = err\<rparr>])
    \<and> (\<forall>f. r = Inl f \<longrightarrow> (\<exists>m. f = SqlError m) \<and> \<not> ge_sql e ''log'')"
  using assms by (auto simp: writeLog_def split: if_splits)

lemma failExternal_frame:
  assumes "failExternal sys dir typ bid url req x e s = (f, t)"
  shows "ig_wo t = ig_wo s \<and> ig_inventory t = ig_inventory s \<and> ig_sent t = ig_sent s
    \<and> (ge_sql e ''log'' \<longrightarrow> (\<exists>m. f = ApiError 502 m))"
proof -
  obtain r u where w: "writeLog sys dir typ bid url req (body_text (xr_body x)) (xr_http x) (xr_duration x)
     False 0 (xr_err x) e s = (r, u)" by fastforce
  with writeLog_frame [OF w] assms show ?thesis
    by (auto simp: failExternal_def split: sum.splits)
qed

section \<open>The branches of the saga\<close>

text \<open>The order goes back to in progress, the rest of the tables is as after T1.\<close>

definition compensated :: "int \<Rightarrow> wo_db \<Rightarrow> wo_db \<Rightarrow> bool" where
  "compensated i db db' \<longleftrightarrow>
    ops db' = ops db \<and> wo_outbox db' = wo_outbox db \<and>
    map wo_id (orders db') = map wo_id (orders db) \<and>
    (\<forall>w\<in>set (orders db'). wo_id w = i \<longrightarrow> wo_status w = kInProgress) \<and>
    (\<forall>w. wo_id w \<noteq> i \<longrightarrow> (w \<in> set (orders db') \<longleftrightarrow> w \<in> set (orders db)))"

lemma rollbackT1_compensated:
  assumes "ge_sql e ''rollback''"
  shows "compensated i (ig_wo s) (ig_wo (rollbackT1 e i s)) \<and> ig_inventory (rollbackT1 e i s) = ig_inventory s
    \<and> ig_sent (rollbackT1 e i s) = ig_sent s"
proof -
  let ?f = "\<lambda>q. q\<lparr>wo_status := kInProgress, wo_updated := e_now (ge_wo e)\<rparr>"
  have os: "orders (ig_wo (rollbackT1 e i s)) = upd_where (\<lambda>q. wo_id q = i) ?f (orders (ig_wo s))"
    using assms by (simp add: rollbackT1_def)
  have "w \<in> set (upd_where (\<lambda>q. wo_id q = i) ?f xs) \<longleftrightarrow> w \<in> set xs" if "wo_id w \<noteq> i" for w xs
    by (rule upd_where_other) (use that in simp_all)
  moreover have "wo_status w = kInProgress" if "w \<in> set (upd_where (\<lambda>q. wo_id q = i) ?f xs)" "wo_id w = i" for w xs
    by (rule upd_where_hit [OF _ that(1), where Q = "\<lambda>w. wo_status w = kInProgress"]) (use that in simp_all)
  ultimately show ?thesis
    unfolding compensated_def os using assms by (simp add: rollbackT1_def) blast
qed

text \<open>What the calls and statements after T1 did when the saga succeeded.\<close>

lemma saga_t4_cases:
  assumes "saga_t4 e i t2 t3 s = (r, t)"
  shows "ig_wo t = ig_wo s \<and> (\<forall>l. r = Inr l \<longrightarrow>
      (\<exists>v. ig_inventory t = ig_inventory s @ [v] \<and> iv_quantity v = of_int (si_qty i) \<and> iv_wo v = si_wo i
         \<and> iv_status v = ''INBOUND'') \<and>
      (\<exists>a b. ig_logs t = ig_logs s @ [a, b] \<and> sl_status a = 1 \<and> sl_status b = 1 \<and> sl_id a = l))
    \<and> (\<forall>f. r = Inl f \<longrightarrow> (\<exists>m. f = SqlError m))"
proof (cases "ge_sql e ''inventory'' \<and> ge_sql e ''log''")
  case True
  with assms show ?thesis by (auto simp: saga_t4_def insert_inventory_def writeLog_def)
next
  case False
  then show ?thesis
  proof (cases "ge_sql e ''inventory''")
    case True
    with False assms show ?thesis by (auto simp: saga_t4_def insert_inventory_def writeLog_def)
  next
    case False
    with assms show ?thesis by (auto simp: saga_t4_def insert_inventory_def)
  qed
qed

lemma saga_t3_cases:
  assumes "saga_t3 e cfg i t2 s = (r, t)"
  shows "(loadConfig ''WMS'' s = None \<and> t = s \<and> (\<exists>m. r = Inl (Conflict m))) \<or>
    (loadConfig ''WMS'' s \<noteq> None \<and> (\<exists>f s1. r = Inl f \<and> ig_wo s1 = ig_wo s \<and>
       ig_inventory t = ig_inventory s \<and> ig_wo t = ig_wo (rollbackT1 e (si_wo i) s1) \<and>
       (ge_sql e ''log'' \<longrightarrow> (\<exists>m. f = ApiError 502 m)))) \<or>
    (loadConfig ''WMS'' s \<noteq> None \<and> (\<exists>t3 s1. same_tables s s1 \<and> saga_t4 e i t2 t3 s1 = (r, t)))"
proof (cases "loadConfig ''WMS'' s")
  case None
  with assms show ?thesis by (auto simp: saga_t3_def requireConfig_def)
next
  case (Some wms)
  obtain t3 s1 where c3: "callExternal (ge_net e) wms ''WMS'' ''POST'' ''/wms/stock-in'' (wms_payload i) s = (t3, s1)"
    by fastforce
  note f3 = callExternal_frame [OF c3]
  show ?thesis
  proof (cases "xr_ok t3")
    case True
    with assms Some c3 f3 show ?thesis by (auto simp: saga_t3_def requireConfig_def)
  next
    case False
    obtain ca s2 where c2: "callExternal (ge_net e) cfg ''ERP'' ''POST''
        (''/erp/work-orders/'' @ si_no i @ ''/report-cancel'') (JObj [(''work_order_no'', JStr (si_no i))]) s1 = (ca, s2)"
      by fastforce
    obtain f s4 where fe: "failExternal ''WMS'' 2 ''stock_in'' (si_wo i) ''POST /wms/stock-in''
        (Some (wms_payload i)) t3 e (rollbackT1 e (si_wo i) s2) = (f, s4)" by fastforce
    have rt: "r = Inl f" "t = s4"
      using assms Some c3 c2 fe False by (simp_all add: saga_t3_def requireConfig_def Let_def)
    have eq: "ig_wo s2 = ig_wo s" "ig_inventory s2 = ig_inventory s"
      using f3 callExternal_frame [OF c2] by (auto simp: same_tables_def)
    have "ig_inventory (rollbackT1 e (si_wo i) s2) = ig_inventory s2"
      by (simp add: rollbackT1_def)
    with rt eq failExternal_frame [OF fe] Some show ?thesis by auto
  qed
qed

lemma saga_t2_cases:
  assumes "saga_t2 e i s = (r, t)"
  shows "(loadConfig ''ERP'' s = None \<and> t = s \<and> (\<exists>m. r = Inl (Conflict m))) \<or>
    (loadConfig ''ERP'' s \<noteq> None \<and> (\<exists>f s1. r = Inl f \<and> ig_wo s1 = ig_wo s \<and>
       ig_inventory t = ig_inventory s \<and> ig_wo t = ig_wo (rollbackT1 e (si_wo i) s1) \<and>
       (ge_sql e ''log'' \<longrightarrow> (\<exists>m. f = ApiError 502 m)))) \<or>
    (\<exists>cfg t2 s1 n. loadConfig ''ERP'' s = Some cfg \<and> same_tables s s1 \<and> 0 < n \<and> xr_ok t2 \<and>
       ig_sent s1 = ig_sent s @ replicate n (request_of cfg ''ERP'' ''POST'' (erp_path i) (erp_payload i)) \<and>
       saga_t3 e cfg i t2 s1 = (r, t))"
proof (cases "loadConfig ''ERP'' s")
  case None
  with assms show ?thesis by (auto simp: saga_t2_def requireConfig_def)
next
  case (Some cfg)
  obtain t2 s1 where c2: "callExternal (ge_net e) cfg ''ERP'' ''POST'' (erp_path i) (erp_payload i) s = (t2, s1)"
    by fastforce
  note f2 = callExternal_frame [OF c2]
  show ?thesis
  proof (cases "xr_ok t2")
    case True
    obtain n where "ig_sent s1 = ig_sent s @ replicate n (request_of cfg ''ERP'' ''POST'' (erp_path i) (erp_payload i))"
      "0 < n" "same_tables s s1"
      using f2 True by auto
    moreover have "saga_t3 e cfg i t2 s1 = (r, t)"
      using True assms Some c2 by (simp add: saga_t2_def requireConfig_def)
    ultimately show ?thesis
      using True Some
      by (intro disjI2 exI [of _ cfg] exI [of _ t2] exI [of _ s1] exI [of _ n]) simp
  next
    case False
    obtain f s3 where fe: "failExternal ''ERP'' 2 ''completion_report'' (si_wo i) (''POST '' @ erp_path i)
        (Some (erp_payload i)) t2 e (rollbackT1 e (si_wo i) s1) = (f, s3)" by fastforce
    have rt: "r = Inl f" "t = s3"
      using assms Some c2 fe False by (simp_all add: saga_t2_def requireConfig_def Let_def)
    have eq: "ig_wo s1 = ig_wo s" "ig_inventory s1 = ig_inventory s"
      using f2 by (auto simp: same_tables_def)
    have "ig_inventory (rollbackT1 e (si_wo i) s1) = ig_inventory s1"
      by (simp add: rollbackT1_def)
    with rt eq failExternal_frame [OF fe] Some show ?thesis by auto
  qed
qed

lemmas saga_cases = saga_t2_cases saga_t3_cases saga_t4_cases


section \<open>From the start of the saga\<close>

definition after_t1 :: "wo_env \<Rightarrow> int \<Rightarrow> work_order \<Rightarrow> wo_db \<Rightarrow> wo_db" where
  "after_t1 e i w db =
    db\<lparr>orders := upd_where (\<lambda>q. wo_id q = i \<and> wo_status q = kInProgress) (complete_row e) (orders db),
       wo_outbox := kEnqueueSql (e_now e) (stop_message e i w) (wo_outbox db)\<rparr>"

lemma saga_start:
  assumes "wo_inv (ig_wo s)" and "w \<in> set (orders (ig_wo s))" and "wo_id w = i" and "wo_status w = kInProgress"
  shows "reportCompletionSaga ab e i s = saga_t2 e (saga_info_of s w)
    (s\<lparr>ig_wo := (if e_commit (ge_wo e) then after_t1 (ge_wo e) i w (ig_wo s) else ig_wo s)\<rparr>)"
proof -
  have "first_row (\<lambda>r. wo_id r = i) (orders (ig_wo s)) = Some w"
    using first_row_key [of wo_id "orders (ig_wo s)" w] assms by (simp add: wo_inv_def)
  moreover have "saga_t1 (ge_wo e) i w (ig_wo s) = (Inr (), after_t1 (ge_wo e) i w (ig_wo s))"
    using assms(2-4) by (auto simp: saga_t1_def after_t1_def)
  ultimately show ?thesis using assms(4) by (simp add: reportCompletionSaga_def)
qed

lemma saga_info_simps [simp]:
  "si_wo (saga_info_of s w) = wo_id w" "si_qty (saga_info_of s w) = wo_completed w"
  "si_no (saga_info_of s w) = wo_no w"
  by (simp_all add: saga_info_of_def)

lemma loadConfig_frame [simp]: "loadConfig sys (s\<lparr>ig_wo := db\<rparr>) = loadConfig sys s"
  by (simp add: loadConfig_def)

lemma same_tables_config: "same_tables a b \<Longrightarrow> loadConfig sys b = loadConfig sys a"
  by (simp add: same_tables_def loadConfig_def)

lemma compensated_cong: "ig_wo a = ig_wo b \<Longrightarrow> ig_wo (rollbackT1 e i a) = ig_wo (rollbackT1 e i b)"
  by (simp add: rollbackT1_def)

lemma rollback_wo:
  "ge_sql e ''rollback'' \<Longrightarrow> ig_wo s1 = db \<Longrightarrow> compensated i db (ig_wo (rollbackT1 e i s1))"
  using rollbackT1_compensated by blast

text \<open>A small installation for the witnesses: one order in progress, both systems configured.\<close>

definition demo_order :: work_order where
  "demo_order = \<lparr>wo_id = 1, wo_no = ''WO1'', wo_product = 5, wo_process = 7, wo_line = None, wo_plan = 10,
     wo_completed = 0, wo_good = 0, wo_defect = 0, wo_scrap = 0, wo_status = 3, wo_priority = 5,
     wo_source = 2, wo_remark = [], wo_plan_start = None, wo_plan_end = None, wo_start = Some 1,
     wo_end = None, wo_creator = 9, wo_created = 1, wo_updated = 1\<rparr>"

definition demo_wo_db :: wo_db where
  "demo_wo_db = \<lparr>orders = [demo_order], ops = [], products = [], lines = [], steps = [], inspections = [],
     configs = [], user_depts = [], depts = [], next_wo = 2, next_op = 1, wo_no_seq = 2,
     wo_outbox = \<lparr>ob_rows = [], ob_next = 1\<rparr>\<rparr>"

definition demo_api :: "string \<Rightarrow> api_config" where
  "demo_api sys = \<lparr>ac_system = sys, ac_base = ''http://x'', ac_token = [], ac_timeout = 1000, ac_retry = 2,
     ac_enabled = True\<rparr>"

definition demo_integ :: "string list \<Rightarrow> integ" where
  "demo_integ syss = \<lparr>ig_wo = demo_wo_db, ig_codes = [], ig_configs = map demo_api syss, ig_logs = [],
     ig_next_log = 1, ig_inventory = [], ig_next_inv = 1, ig_erp = [], ig_next_erp = 1,
     ig_breakers = (\<lambda>_. None), ig_clock = 0, ig_sent = []\<rparr>"

definition demo_ienv :: "bool \<Rightarrow> (nat \<Rightarrow> reply) \<Rightarrow> integ_env" where
  "demo_ienv commit net = \<lparr>ge_wo = \<lparr>e_now = 50, e_commit = commit\<rparr>,
     ge_sql = (\<lambda>t. True), ge_net = net\<rparr>"

text \<open>A network that answers every request, and one where the second request is refused.\<close>

definition net_up :: "nat \<Rightarrow> reply" where
  "net_up n = Reply 200 (JObj []) 5"

definition net_wms_down :: "nat \<Rightarrow> reply" where
  "net_wms_down n = (if n = 0 then Reply 200 (JObj []) 5 else Broken ''timeout'' 9)"

lemma demo_integ_inv: "wo_inv (ig_wo (demo_integ syss))"
  by (simp add: demo_integ_def demo_wo_db_def demo_order_def wo_inv_def order_ok_def conserved_def tot_def
      outbox_ok_def)

lemma demo_integ_order: "demo_order \<in> set (orders (ig_wo (demo_integ syss)))"
  "wo_id demo_order = 1" "wo_status demo_order = 3"
  by (simp_all add: demo_integ_def demo_wo_db_def demo_order_def)

section \<open>Properties\<close>

text \<open>An outgoing call sends the same request at most max(1, retry_count) times and nothing at
  all exactly when the breaker refuses; it is successful only on a 2xx answer, gives up only after
  all its attempts, and changes no table.\<close>

theorem call_external_bounds:
  assumes "callExternal net cfg sys mth path payload s = (r, t)"
  shows "\<exists>n. ig_sent t = ig_sent s @ replicate n (request_of cfg sys mth path payload) \<and>
    int n \<le> max 1 (ac_retry cfg) \<and>
    (n = 0 \<longleftrightarrow> \<not> fst (allowRequest (ig_clock s) (breakerOf sys s))) \<and>
    (xr_circuit r \<longleftrightarrow> n = 0) \<and>
    (xr_ok r \<longrightarrow> 0 < n \<and> is_2xx (xr_http r)) \<and>
    (\<not> xr_ok r \<and> 0 < n \<longrightarrow> int n = max 1 (ac_retry cfg)) \<and> same_tables s t"
proof -
  obtain n where n: "ig_sent t = ig_sent s @ replicate n (request_of cfg sys mth path payload)"
    "n \<le> nat (max 1 (ac_retry cfg))" "xr_circuit r \<longleftrightarrow> n = 0"
    "xr_circuit r \<longleftrightarrow> \<not> fst (allowRequest (ig_clock s) (breakerOf sys s))"
    "xr_circuit r \<longrightarrow> \<not> xr_ok r"
    "\<not> xr_ok r \<longrightarrow> \<not> xr_circuit r \<longrightarrow> n = nat (max 1 (ac_retry cfg))"
    and st: "same_tables s t" "xr_ok r \<longrightarrow> is_2xx (xr_http r)"
    using callExternal_frame [OF assms] by (elim conjE exE) (rule that)
  have "int n \<le> max 1 (ac_retry cfg)" using n(2) by linarith
  moreover have "\<not> xr_ok r \<and> 0 < n \<longrightarrow> int n = max 1 (ac_retry cfg)" using n(3,6) by linarith
  ultimately show ?thesis using n(1,3,4,5) st by blast
qed

theorem call_external_bounds_witness:
  "\<exists>n. ig_sent (snd (callExternal net_up (demo_api ''ERP'') ''ERP'' ''GET'' ''/x'' JNull (demo_integ [])))
     = replicate n (request_of (demo_api ''ERP'') ''ERP'' ''GET'' ''/x'' JNull) \<and> int n \<le> 2"
proof -
  have "ig_sent (demo_integ []) = []" "ac_retry (demo_api ''ERP'') = 2"
    by (simp_all add: demo_integ_def demo_api_def)
  then show ?thesis
    using call_external_bounds [OF prod.collapse [symmetric], of net_up "demo_api ''ERP''" "''ERP''" "''GET''" "''/x''"
        JNull "demo_integ []"] by auto
qed


lemma demo_saga_load:
  "loadConfig ''ERP'' (demo_integ [''ERP'', ''WMS'']) \<noteq> None"
  "loadConfig ''WMS'' (demo_integ [''ERP'', ''WMS'']) \<noteq> None"
  by (simp_all add: loadConfig_def demo_integ_def demo_api_def)


text \<open>Gaps of the compensation. When ERP is not configured the saga answers 409 after the order
  has been completed and its stop message queued, and nothing is undone; when only WMS is not
  configured and ERP accepted the report, it answers 409 with the order completed and the report
  standing at ERP.\<close>

theorem saga_missing_config_not_compensated:
  assumes "wo_inv (ig_wo s)" and "w \<in> set (orders (ig_wo s))" and "wo_id w = i" and "wo_status w = kInProgress"
    and "e_commit (ge_wo e)" and "reportCompletionSaga ab e i s = (r, t)"
  shows "(loadConfig ''ERP'' s = None \<longrightarrow>
      (\<exists>m. r = Inl (Conflict m)) \<and> ig_wo t = after_t1 (ge_wo e) i w (ig_wo s) \<and> ig_sent t = ig_sent s) \<and>
    (loadConfig ''WMS'' s = None \<and> (\<exists>m. r = Inl (Conflict m)) \<and> ge_sql e ''log'' \<and> loadConfig ''ERP'' s \<noteq> None \<longrightarrow>
      ig_wo t = after_t1 (ge_wo e) i w (ig_wo s) \<and>
      (\<exists>cfg n. 0 < n \<and> ig_sent t = ig_sent s @
         replicate n (request_of cfg ''ERP'' ''POST'' (erp_path (saga_info_of s w)) (erp_payload (saga_info_of s w)))))"
proof -
  let ?s1 = "s\<lparr>ig_wo := after_t1 (ge_wo e) i w (ig_wo s)\<rparr>"
  have t2: "saga_t2 e (saga_info_of s w) ?s1 = (r, t)"
    using saga_start [OF assms(1-4), of ab e] assms(5,6) by simp
  have A: "(\<exists>m. r = Inl (Conflict m)) \<and> ig_wo t = after_t1 (ge_wo e) i w (ig_wo s) \<and> ig_sent t = ig_sent s"
    if "loadConfig ''ERP'' s = None"
    using saga_t2_cases [OF t2] that by auto
  have B: "ig_wo t = after_t1 (ge_wo e) i w (ig_wo s) \<and>
      (\<exists>cfg n. 0 < n \<and> ig_sent t = ig_sent s @
         replicate n (request_of cfg ''ERP'' ''POST'' (erp_path (saga_info_of s w)) (erp_payload (saga_info_of s w))))"
    if c: "loadConfig ''WMS'' s = None" "\<exists>m. r = Inl (Conflict m)" "ge_sql e ''log''" "loadConfig ''ERP'' s \<noteq> None"
  proof -
    from saga_t2_cases [OF t2] c obtain cfg t2 s2 n where s2: "same_tables ?s1 s2" "0 < n"
      "ig_sent s2 = ig_sent s @ replicate n (request_of cfg ''ERP'' ''POST'' (erp_path (saga_info_of s w)) (erp_payload (saga_info_of s w)))"
      "saga_t3 e cfg (saga_info_of s w) t2 s2 = (r, t)" by auto
    have "loadConfig ''WMS'' s2 = None" using same_tables_config [OF s2(1)] c(1) by simp
    with saga_t3_cases [OF s2(4)] have "t = s2" by auto
    with s2 show ?thesis by (auto simp: same_tables_def)
  qed
  show ?thesis using A B by blast
qed

theorem saga_missing_config_not_compensated_witness:
  "map wo_status (orders (ig_wo (snd (reportCompletionSaga rolls_back (demo_ienv True net_up) 1 (demo_integ [''WMS'']))))) = [5]"
proof -
  have c: "e_commit (ge_wo (demo_ienv True net_up))" "loadConfig ''ERP'' (demo_integ [''WMS'']) = None"
    by (simp_all add: demo_ienv_def loadConfig_def demo_integ_def demo_api_def)
  have "ig_wo (snd (reportCompletionSaga rolls_back (demo_ienv True net_up) 1 (demo_integ [''WMS'']))) =
      after_t1 (ge_wo (demo_ienv True net_up)) 1 demo_order (ig_wo (demo_integ [''WMS'']))"
    using saga_missing_config_not_compensated [OF demo_integ_inv demo_integ_order c(1) prod.collapse [symmetric], where ab = rolls_back] c(2)
    by blast
  then show ?thesis
    by (simp add: after_t1_def demo_integ_def demo_wo_db_def demo_order_def complete_row_def)
qed

text \<open>The saga does not look at the outcome of its first commit: when that commit fails and both
  calls succeed, it reports success and books the stock-in while the order is still in progress.\<close>

theorem saga_ignores_failed_commit:
  assumes "wo_inv (ig_wo s)" and "w \<in> set (orders (ig_wo s))" and "wo_id w = i" and "wo_status w = kInProgress"
    and "\<not> e_commit (ge_wo e)" and "reportCompletionSaga ab e i s = (Inr l, t)"
  shows "ig_wo t = ig_wo s \<and> (\<exists>v. ig_inventory t = ig_inventory s @ [v] \<and> iv_wo v = i)"
proof -
  have "saga_t2 e (saga_info_of s w) s = (Inr l, t)"
    using saga_start [OF assms(1-4), of ab e] assms(5,6) by simp
  from saga_t2_cases [OF this] obtain cfg t2 s1 where s1: "same_tables s s1"
    "saga_t3 e cfg (saga_info_of s w) t2 s1 = (Inr l, t)" by auto
  from saga_t3_cases [OF s1(2)] obtain t3 s2 where s2: "same_tables s1 s2"
    "saga_t4 e (saga_info_of s w) t2 t3 s2 = (Inr l, t)" by auto
  have "same_tables s s2" using s1(1) s2(1) by (rule same_tables_trans)
  with saga_t4_cases [OF s2(2)] assms(3) show ?thesis by (auto simp: same_tables_def)
qed

lemma demo_saga_uncommitted:
  "is_ok (fst (reportCompletionSaga rolls_back (demo_ienv False net_up) 1 (demo_integ [''ERP'', ''WMS''])))"
  by code_simp

theorem saga_ignores_failed_commit_witness:
  "ig_wo (snd (reportCompletionSaga rolls_back (demo_ienv False net_up) 1 (demo_integ [''ERP'', ''WMS'']))) = demo_wo_db"
proof -
  obtain l where "fst (reportCompletionSaga rolls_back (demo_ienv False net_up) 1 (demo_integ [''ERP'', ''WMS''])) = Inr l"
    using demo_saga_uncommitted by (auto simp: is_ok_iff)
  then have e: "reportCompletionSaga rolls_back (demo_ienv False net_up) 1 (demo_integ [''ERP'', ''WMS'']) =
    (Inr l, snd (reportCompletionSaga rolls_back (demo_ienv False net_up) 1 (demo_integ [''ERP'', ''WMS''])))"
    by (metis prod.collapse)
  have c: "\<not> e_commit (ge_wo (demo_ienv False net_up))" by (simp add: demo_ienv_def)
  from saga_ignores_failed_commit [OF demo_integ_inv demo_integ_order c e] show ?thesis
    by (simp add: demo_integ_def)
qed

text \<open>A retried log replays the request it records: for a log that failed, whose URL was
  written as a method and a path, exactly that request goes out to the same system (unless the
  breaker refuses), the row's retry count grows by one and its status is 1 exactly when the
  retry reports success.\<close>

theorem retry_replays_request:
  assumes "first_row (\<lambda>l. sl_id l = i) (ig_logs s) = Some l" and "sl_url l = m @ '' '' @ p"
    and "CHR '' '' \<notin> set m" and "sl_status l \<noteq> 1" and "loadConfig (sl_system l) s = Some cfg"
    and "\<forall>tag. ge_sql e tag" and "retryLog e i s = (r, t)"
  shows "(\<exists>n. ig_sent t = ig_sent s @ replicate n (request_of cfg (sl_system l) m p
        (case sl_request l of None \<Rightarrow> JNull | Some j \<Rightarrow> j))) \<and>
    (\<forall>x\<in>set (ig_logs t). sl_id x = i \<longrightarrow> (sl_status x = 1 \<longleftrightarrow> is_ok r)) \<and>
    length (ig_logs t) = length (ig_logs s)"
proof -
  let ?pl = "case sl_request l of None \<Rightarrow> JNull | Some j \<Rightarrow> j"
  let ?s1 = "s\<lparr>ig_logs := upd_where (\<lambda>r. sl_id r = i) (\<lambda>r. r\<lparr>sl_status := 2\<rparr>) (ig_logs s)\<rparr>"
  obtain x u where c: "callExternal (ge_net e) cfg (sl_system l) m p ?pl ?s1 = (x, u)" by fastforce
  let ?f = "\<lambda>q. q\<lparr>sl_status := (if xr_ok x then 1 else 0), sl_http := xr_http x,
     sl_duration := xr_duration x, sl_response := body_text (xr_body x),
     sl_error := xr_err x, sl_retry := sl_retry q + 1\<rparr>"
  have pm: "parseMethodPath (sl_url l) = (m, p)"
    using parseMethodPath_roundtrip [OF assms(3), of p] by (simp add: assms(2))
  have rt: "retryLog e i s =
      (let s3 = u\<lparr>ig_logs := upd_where (\<lambda>q. sl_id q = i) ?f (ig_logs u)\<rparr> in
       if \<not> xr_ok x then (Inl (ApiError 502 (sl_system l @ '' retry failed: '' @ xr_err x)), s3)
       else (Inr (xr_http x), s3))"
    using assms(1,4,5,6) c by (simp add: retryLog_def pm requireConfig_def Let_def)
  then have t: "ig_logs t = upd_where (\<lambda>q. sl_id q = i) ?f (ig_logs u)" "ig_sent t = ig_sent u"
    and ok: "is_ok r \<longleftrightarrow> xr_ok x"
    using assms(7) by (auto simp: Let_def split: if_splits)
  note fr = callExternal_frame [OF c]
  have "sl_status q = (if xr_ok x then 1 else 0)" if "q \<in> set (ig_logs t)" "sl_id q = i" for q
    by (rule upd_where_hit [OF _ that(1) [unfolded t(1)], where Q = "\<lambda>q. sl_status q = (if xr_ok x then 1 else 0)"])
       (use that in simp_all)
  moreover have "length (ig_logs t) = length (ig_logs s)"
    using fr by (simp add: t(1) same_tables_def)
  moreover have "\<exists>n. ig_sent t = ig_sent s @ replicate n (request_of cfg (sl_system l) m p ?pl)"
    using fr t(2) by auto
  ultimately show ?thesis using ok by auto
qed

definition demo_log :: sync_log where
  "demo_log = \<lparr>sl_id = 1, sl_system = ''WMS'', sl_direction = 2, sl_type = ''stock_in'', sl_business = 1,
     sl_url = ''POST /wms/stock-in'', sl_request = None, sl_response = None, sl_http = 0, sl_duration = 0,
     sl_status = 0, sl_retry = 0, sl_error = []\<rparr>"

theorem retry_replays_request_witness:
  "length (ig_logs (snd (retryLog (demo_ienv True net_up) 1 ((demo_integ [''WMS''])\<lparr>ig_logs := [demo_log]\<rparr>)))) = 1"
proof -
  let ?s = "(demo_integ [''WMS''])\<lparr>ig_logs := [demo_log]\<rparr>"
  have f: "first_row (\<lambda>l. sl_id l = 1) (ig_logs ?s) = Some demo_log" by (simp add: demo_log_def)
  have u: "sl_url demo_log = ''POST'' @ '' '' @ ''/wms/stock-in''" "CHR '' '' \<notin> set ''POST''" "sl_status demo_log \<noteq> 1"
    by (simp_all add: demo_log_def)
  have c: "loadConfig (sl_system demo_log) ?s = Some (demo_api ''WMS'')" "\<forall>tag. ge_sql (demo_ienv True net_up) tag"
    by (simp_all add: loadConfig_def demo_integ_def demo_api_def demo_log_def demo_ienv_def)
  from retry_replays_request [OF f u c prod.collapse [symmetric]] show ?thesis by simp
qed

end
