(* ===== verification/Path_Patterns.thy ===== *)
theory Path_Patterns
  imports Mes_Prelude
begin

text \<open>
  Path patterns of the route table (\<open>toRegex\<close> of \<open>middlewares/perm_routes.cc\<close>): the translation
  of a pattern to a regular expression, what the expression matches, segment by segment, and the
  patterns on which the translation does not end.
\<close>

section \<open>Patterns\<close>

datatype ritem = Lit char | Seg

fun re_match :: "ritem list \<Rightarrow> string \<Rightarrow> bool" where
  "re_match [] s = (s = [])"
| "re_match (Lit a # ps) [] = False"
| "re_match (Lit a # ps) (c # cs) \<longleftrightarrow> a = c \<and> re_match ps cs"
| "re_match (Seg # ps) [] = False"
| "re_match (Seg # ps) (c # cs) \<longleftrightarrow> c \<noteq> CHR ''/'' \<and> (re_match ps cs \<or> re_match (Seg # ps) cs)"

text \<open>\<open>s.find(c, i)\<close>.\<close>

definition find_from :: "char \<Rightarrow> string \<Rightarrow> nat \<Rightarrow> nat option" where
  "find_from c s i = map_option (\<lambda>k. i + k) (find_char c (drop i s))"

text \<open>
  The loop over the pattern by index. An opening brace without a closing one makes \<open>find\<close> return
  \<open>npos\<close>, whose successor is 0: the loop starts again. The first argument bounds the rounds; None
  is a loop that has not ended within them.
\<close>

fun toRegex_loop :: "nat \<Rightarrow> string \<Rightarrow> nat \<Rightarrow> ritem list \<Rightarrow> ritem list option" where
  "toRegex_loop 0 p i out = (if i \<ge> length p then Some out else None)"
| "toRegex_loop (Suc n) p i out =
     (if i \<ge> length p then Some out
      else if p ! i = CHR ''{'' then
        toRegex_loop n p (case find_from (CHR ''}'') p i of None \<Rightarrow> 0 | Some k \<Rightarrow> k + 1) (out @ [Seg])
      else toRegex_loop n p (i + 1) (out @ [Lit (p ! i)]))"

definition toRegex :: "string \<Rightarrow> ritem list option" where
  "toRegex p = toRegex_loop (length p) p 0 []"

section \<open>Patterns as lists of segments\<close>

datatype pseg = PLit string | PWild string

fun render_seg :: "pseg \<Rightarrow> string" where
  "render_seg (PLit l) = CHR ''/'' # l"
| "render_seg (PWild n) = CHR ''/'' # CHR ''{'' # n @ [CHR ''}'']"

fun wf_seg :: "pseg \<Rightarrow> bool" where
  "wf_seg (PLit l) \<longleftrightarrow> CHR ''{'' \<notin> set l"
| "wf_seg (PWild n) \<longleftrightarrow> CHR ''}'' \<notin> set n"

fun seg_items :: "pseg \<Rightarrow> ritem list" where
  "seg_items (PLit l) = map Lit (CHR ''/'' # l)"
| "seg_items (PWild n) = [Lit (CHR ''/''), Seg]"

text \<open>What one segment of a path has to be.\<close>

fun seg_ok :: "pseg \<Rightarrow> string \<Rightarrow> bool" where
  "seg_ok (PLit l) s = (s = l)"
| "seg_ok (PWild n) s = (s \<noteq> [] \<and> CHR ''/'' \<notin> set s)"

abbreviation render :: "pseg list \<Rightarrow> string" where
  "render ps \<equiv> concat (map render_seg ps)"

abbreviation items :: "pseg list \<Rightarrow> ritem list" where
  "items ps \<equiv> concat (map seg_items ps)"

lemma loop_lits:
  "CHR ''{'' \<notin> set l \<Longrightarrow>
   toRegex_loop (length l + n) (pre @ l @ rest) (length pre) out =
   toRegex_loop n (pre @ l @ rest) (length pre + length l) (out @ map Lit l)"
proof (induction l arbitrary: pre out)
  case (Cons c l)
  then have "c \<noteq> CHR ''{''" by auto
  with Cons show ?case using Cons.IH [of "pre @ [c]" "out @ [Lit c]"] by (simp add: nth_append)
qed simp

lemma loop_wild:
  assumes "CHR ''}'' \<notin> set n"
  shows "toRegex_loop (Suc k) (pre @ CHR ''{'' # n @ CHR ''}'' # rest) (length pre) out =
    toRegex_loop k (pre @ CHR ''{'' # n @ CHR ''}'' # rest) (length pre + length n + 2) (out @ [Seg])"
  using assms by (simp add: find_from_def nth_append)

lemma loop_seg:
  assumes "wf_seg p" and "length (render_seg p) \<le> k"
  shows "\<exists>k' \<ge> k - length (render_seg p).
    toRegex_loop k (pre @ render_seg p @ rest) (length pre) out =
    toRegex_loop k' (pre @ render_seg p @ rest) (length (pre @ render_seg p)) (out @ seg_items p)"
proof (cases p)
  case (PLit l)
  from assms have c: "CHR ''{'' \<notin> set (CHR ''/'' # l)" using PLit by simp
  have "length (CHR ''/'' # l) \<le> k" using assms(2) PLit by simp
  then obtain j where k: "k = length (CHR ''/'' # l) + j" using le_Suc_ex by blast
  have "toRegex_loop k (pre @ (CHR ''/'' # l) @ rest) (length pre) out =
      toRegex_loop j (pre @ (CHR ''/'' # l) @ rest) (length pre + length (CHR ''/'' # l)) (out @ map Lit (CHR ''/'' # l))"
    unfolding k using c by (rule loop_lits)
  then have "toRegex_loop k (pre @ render_seg p @ rest) (length pre) out =
      toRegex_loop j (pre @ render_seg p @ rest) (length (pre @ render_seg p)) (out @ seg_items p)"
    unfolding PLit render_seg.simps seg_items.simps length_append .
  moreover have "k - length (render_seg p) \<le> j" unfolding k PLit by simp
  ultimately show ?thesis by blast
next
  case (PWild n)
  then have n: "CHR ''}'' \<notin> set n" using assms by simp
  have "length n + 3 \<le> k" using assms(2) PWild by simp
  then obtain j where k: "k = Suc (Suc (j + length n + 1))" by (metis add.commute add_Suc_right le_Suc_ex numeral_3_eq_3 One_nat_def add_0_right)
  have c: "CHR ''{'' \<notin> set ''/''" by simp
  have r: "render_seg p = CHR ''/'' # CHR ''{'' # n @ [CHR ''}'']" by (simp add: PWild)
  have "toRegex_loop k (pre @ ''/'' @ CHR ''{'' # n @ CHR ''}'' # rest) (length pre) out =
      toRegex_loop (Suc (j + length n + 1)) (pre @ ''/'' @ CHR ''{'' # n @ CHR ''}'' # rest)
        (length pre + 1) (out @ [Lit (CHR ''/'')])"
    using loop_lits [OF c, of "Suc (j + length n + 1)" pre "CHR ''{'' # n @ CHR ''}'' # rest" out]
    by (simp only: k list.size list.map One_nat_def add_Suc add_0)
  also have "\<dots> = toRegex_loop (j + length n + 1) (pre @ ''/'' @ CHR ''{'' # n @ CHR ''}'' # rest)
        (length pre + 1 + length n + 2) (out @ [Lit (CHR ''/'')] @ [Seg])"
    using loop_wild [OF n, of "j + length n + 1" "pre @ ''/''" rest "out @ [Lit (CHR ''/'')]"]
    by (simp only: append_assoc length_append list.size One_nat_def add_0)
  finally have "toRegex_loop k (pre @ render_seg p @ rest) (length pre) out =
      toRegex_loop (j + length n + 1) (pre @ render_seg p @ rest) (length (pre @ render_seg p)) (out @ seg_items p)"
    by (simp add: PWild del: toRegex_loop.simps)
  moreover have "k - length (render_seg p) \<le> j + length n + 1" unfolding k r by simp
  ultimately show ?thesis by blast
qed

lemma loop_render:
  "list_all wf_seg ps \<Longrightarrow> length (render ps) \<le> k \<Longrightarrow>
   toRegex_loop k (pre @ render ps) (length pre) out = Some (out @ items ps)"
proof (induction ps arbitrary: k pre out)
  case Nil
  then show ?case by (cases k) simp_all
next
  case (Cons p ps)
  have w: "wf_seg p" "length (render_seg p) \<le> k" using Cons.prems by simp_all
  from loop_seg [OF w, of pre "render ps" out] obtain k' where
    k': "k - length (render_seg p) \<le> k'" and e: "toRegex_loop k (pre @ render_seg p @ render ps) (length pre) out =
      toRegex_loop k' (pre @ render_seg p @ render ps) (length (pre @ render_seg p)) (out @ seg_items p)"
    by blast
  have "length (render ps) \<le> k'" using k' Cons.prems(2) by simp
  with Cons.IH [of k' "pre @ render_seg p" "out @ seg_items p"] Cons.prems(1)
  show ?case by (simp add: e)
qed

lemma match_lits: "re_match (map Lit l @ q) s \<longleftrightarrow> (\<exists>t. s = l @ t \<and> re_match q t)"
proof (induction l arbitrary: s)
  case (Cons c l)
  then show ?case by (cases s) auto
qed simp

lemma match_seg:
  "re_match (Seg # q) s \<longleftrightarrow> (\<exists>a t. s = a @ t \<and> a \<noteq> [] \<and> CHR ''/'' \<notin> set a \<and> re_match q t)"
proof (induction s)
  case (Cons c s)
  have "(\<exists>a t. c # s = a @ t \<and> a \<noteq> [] \<and> CHR ''/'' \<notin> set a \<and> re_match q t) \<longleftrightarrow>
      c \<noteq> CHR ''/'' \<and> (re_match q s \<or> (\<exists>a t. s = a @ t \<and> a \<noteq> [] \<and> CHR ''/'' \<notin> set a \<and> re_match q t))"
    (is "?l \<longleftrightarrow> ?r")
  proof
    assume ?l
    then obtain a t where a: "c # s = (c # a) @ t" "c \<noteq> CHR ''/''" "CHR ''/'' \<notin> set a" "re_match q t"
      by (metis append_eq_Cons_conv list.set_intros(1,2))
    then show ?r by (cases "a = []") (auto 0 3)
  next
    assume r: ?r
    then have c: "CHR ''/'' \<notin> set [c]" by auto
    from r show ?l
    proof (elim conjE disjE exE)
      assume "re_match q s"
      with c show ?l by (intro exI [of _ "[c]"] exI [of _ s]) simp
    next
      fix a t
      assume "s = a @ t" "CHR ''/'' \<notin> set a" "re_match q t"
      with c show ?l by (intro exI [of _ "c # a"] exI [of _ t]) simp
    qed
  qed
  with Cons show ?case by simp
qed simp

lemma match_items:
  "re_match (items ps) path \<longleftrightarrow>
   (\<exists>ss. path = concat (map ((#) (CHR ''/'')) ss) \<and> list_all2 seg_ok ps ss)"
proof (induction ps arbitrary: path)
  case (Cons p ps)
  have h: "re_match (seg_items p @ q) path \<longleftrightarrow>
      (\<exists>a t. path = CHR ''/'' # a @ t \<and> seg_ok p a \<and> re_match q t)" for q
  proof (cases p)
    case (PLit l)
    then show ?thesis using match_lits [of "CHR ''/'' # l" q path] by simp
  next
    case (PWild n)
    then show ?thesis using match_lits [of "''/''" "Seg # q" path] by (auto simp: match_seg)
  qed
  have "re_match (items (p # ps)) path \<longleftrightarrow>
      (\<exists>a t. path = CHR ''/'' # a @ t \<and> seg_ok p a \<and> re_match (items ps) t)"
    using h [of "items ps"] by simp
  also have "\<dots> \<longleftrightarrow> (\<exists>ss. path = concat (map ((#) (CHR ''/'')) ss) \<and> list_all2 seg_ok (p # ps) ss)"
    unfolding Cons.IH list_all2_Cons1
  proof (intro iffI; elim exE conjE)
    fix a t ss
    assume "path = CHR ''/'' # a @ t" "seg_ok p a" "t = concat (map ((#) (CHR ''/'')) ss)" "list_all2 seg_ok ps ss"
    then show "\<exists>ss. path = concat (map ((#) (CHR ''/'')) ss) \<and> (\<exists>z zs. ss = z # zs \<and> seg_ok p z \<and> list_all2 seg_ok ps zs)"
      by (intro exI [of _ "a # ss"]) simp
  next
    fix ss z zs
    assume "path = concat (map ((#) (CHR ''/'')) ss)" "ss = z # zs" "seg_ok p z" "list_all2 seg_ok ps zs"
    then show "\<exists>a t. path = CHR ''/'' # a @ t \<and> seg_ok p a \<and>
        (\<exists>ss. t = concat (map ((#) (CHR ''/'')) ss) \<and> list_all2 seg_ok ps ss)"
      by (intro exI [of _ z] exI [of _ "concat (map ((#) (CHR ''/'')) zs)"]) auto
  qed
  finally show ?case .
qed simp

lemma loop_unclosed:
  assumes "CHR ''}'' \<notin> set b" and "i \<le> length a"
  shows "toRegex_loop n (a @ CHR ''{'' # b) i out = None"
  using assms(2)
proof (induction n arbitrary: i out)
  case (Suc n)
  let ?p = "a @ CHR ''{'' # b"
  have k: "k + 1 \<le> length a" if "find_from (CHR ''}'') ?p i = Some k" for k
  proof -
    from that obtain j where j: "find_char (CHR ''}'') (drop i ?p) = Some j" "k = i + j"
      by (auto simp: find_from_def)
    have "?p ! k = CHR ''}''" "k < length ?p"
      using find_char_bound [OF j(1)] Suc.prems unfolding j(2) by (simp_all add: nth_drop del: drop_append) linarith
    show ?thesis
    proof (rule ccontr)
      assume "\<not> k + 1 \<le> length a"
      then consider "k = length a" | m where "k = length a + Suc m" "m < length b"
        using \<open>k < length ?p\<close> less_iff_Suc_add [of "length a" k] by fastforce
      then show False
      proof cases
        case 2
        then have "b ! m = CHR ''}''" using \<open>?p ! k = CHR ''}''\<close> by (simp add: nth_append)
        with 2 assms(1) show False by (metis nth_mem)
      qed (use \<open>?p ! k = CHR ''}''\<close> in simp)
    qed
  qed
  show ?case
  proof (cases "?p ! i = CHR ''{''")
    case True
    show ?thesis
      using Suc.prems True by (cases "find_from (CHR ''}'') ?p i") (auto intro: Suc.IH k [simplified] simp del: nth_append)
  next
    case False
    then have "i \<noteq> length a" by auto
    with Suc.prems False show ?thesis by (auto intro: Suc.IH)
  qed
qed simp

section \<open>Properties\<close>

text \<open>A pattern of well-formed segments becomes a regular expression that matches exactly the paths
  with the same number of segments, equal to the literal ones and any non-empty text without a
  slash for each name in braces; a pattern with an unclosed brace never finishes translating.\<close>

theorem toRegex_segments:
  assumes "list_all wf_seg ps" and "CHR ''}'' \<notin> set b"
  shows "(\<exists>r. toRegex (render ps) = Some r \<and>
    (\<forall>path. re_match r path \<longleftrightarrow>
       (\<exists>ss. path = concat (map ((#) (CHR ''/'')) ss) \<and> list_all2 seg_ok ps ss))) \<and>
    (\<forall>n. toRegex_loop n (a @ CHR ''{'' # b) 0 out = None)"
proof -
  have "toRegex (render ps) = Some (items ps)"
    using loop_render [OF assms(1) le_refl, of "[]" "[]"] by (simp add: toRegex_def)
  then have "\<exists>r. toRegex (render ps) = Some r \<and>
    (\<forall>path. re_match r path \<longleftrightarrow>
       (\<exists>ss. path = concat (map ((#) (CHR ''/'')) ss) \<and> list_all2 seg_ok ps ss))"
    using match_items by blast
  with loop_unclosed [OF assms(2)] show ?thesis by blast
qed

theorem toRegex_segments_witness:
  "(\<exists>r. toRegex ''/users/{id}'' = Some r \<and> re_match r ''/users/42'' \<and> \<not> re_match r ''/users/4/2'') \<and>
   toRegex ''/users/{id'' = None"
proof -
  have e: "''/users/{id}'' = render [PLit ''users'', PWild ''id'']" by simp
  have len: "length ''/users/{id'' = 10" by simp
  have w: "list_all wf_seg [PLit ''users'', PWild ''id'']" by simp
  have u: "CHR ''}'' \<notin> set ''id''" by simp
  from toRegex_segments [OF w u, THEN conjunct1] obtain r where r: "toRegex ''/users/{id}'' = Some r"
    "re_match r path \<longleftrightarrow> (\<exists>ss. path = concat (map ((#) (CHR ''/'')) ss) \<and>
       list_all2 seg_ok [PLit ''users'', PWild ''id''] ss)" for path
    unfolding e by blast
  have "re_match r ''/users/42''"
    unfolding r(2) by (intro exI [of _ "[''users'', ''42'']"]) simp
  moreover have "\<not> re_match r ''/users/4/2''"
    unfolding r(2) by (auto simp: list_all2_Cons1 Cons_eq_append_conv)
  moreover have "toRegex ''/users/{id'' = None"
    using toRegex_segments [OF w u, of "''/users/''" "[]"]
    by (simp only: toRegex_def len) (simp del: toRegex_loop.simps)
  ultimately show ?thesis using r(1) by blast
qed

end
