(* ===== verification/Perm_Routes.thy ===== *)
theory Perm_Routes
  imports Path_Patterns
begin

text \<open>
  The fail-closed route table (\<open>middlewares/perm_routes.cc\<close>): the translation of a path pattern to
  a regular expression, the two tables and the look-ups. The regular expressions \<open>toRegex\<close> builds
  are an anchored sequence of literal characters and of \<open>[^/]+\<close>; \<open>re_match\<close> is
  \<open>std::regex_match\<close> on them.
\<close>

section \<open>Tables\<close>

type_synonym route = "ritem list \<times> string \<times> string"

definition add_route :: "string \<Rightarrow> string \<Rightarrow> string \<Rightarrow> route list \<Rightarrow> route list" where
  "add_route path mth perm rs =
    (case toRegex path of None \<Rightarrow> rs | Some r \<Rightarrow> rs @ [(r, mth, perm)])"

definition addPublic :: "string \<Rightarrow> string \<Rightarrow> (ritem list \<times> string) list \<Rightarrow> (ritem list \<times> string) list" where
  "addPublic path mth rs =
    (case toRegex path of None \<Rightarrow> rs | Some r \<Rightarrow> rs @ [(r, mth)])"

definition public_paths :: "(string \<times> string) list" where
  "public_paths =
    [(''/healthz'', ''GET''),
     (''/metrics'', ''GET''),
     (''/api/v1/auth/login'', ''POST''),
     (''/api/v1/auth/captcha'', ''GET''),
     (''/ws'', ''GET''),
     (''/ws/dashboard'', ''GET'')]"

definition route_table :: "(string \<times> string \<times> string) list" where
  "route_table =
    [(''/api/v1/auth/refresh'', ''POST'', ''auth:bearer''),
     (''/api/v1/auth/logout'', ''POST'', ''auth:bearer''),
     (''/api/v1/auth/profile'', ''GET'', ''auth:bearer''),
     (''/api/v1/auth/password'', ''PUT'', ''auth:bearer''),
     (''/api/v1/system/users'', ''GET'', ''system:user:list''),
     (''/api/v1/system/users/{id}'', ''GET'', ''system:user:query''),
     (''/api/v1/system/users'', ''POST'', ''system:user:add''),
     (''/api/v1/system/users/{id}'', ''PUT'', ''system:user:update''),
     (''/api/v1/system/users/{id}'', ''DELETE'', ''system:user:delete''),
     (''/api/v1/system/users/{id}/reset-password'', ''PUT'', ''system:user:reset''),
     (''/api/v1/system/users/{id}/status'', ''PUT'', ''system:user:update''),
     (''/api/v1/system/users/{id}/roles'', ''PUT'', ''system:user:assign''),
     (''/api/v1/system/roles'', ''GET'', ''system:role:list''),
     (''/api/v1/system/roles/{id}'', ''GET'', ''system:role:query''),
     (''/api/v1/system/roles'', ''POST'', ''system:role:add''),
     (''/api/v1/system/roles/{id}'', ''PUT'', ''system:role:update''),
     (''/api/v1/system/roles/{id}'', ''DELETE'', ''system:role:delete''),
     (''/api/v1/system/roles/{id}/permissions'', ''PUT'', ''system:role:assign''),
     (''/api/v1/system/roles/{id}/data-scope'', ''PUT'', ''system:role:update''),
     (''/api/v1/system/permissions/tree'', ''GET'', ''system:permission:list''),
     (''/api/v1/system/departments/tree'', ''GET'', ''system:dept:list''),
     (''/api/v1/system/departments'', ''POST'', ''system:dept:add''),
     (''/api/v1/system/departments/{id}'', ''PUT'', ''system:dept:update''),
     (''/api/v1/system/departments/{id}'', ''DELETE'', ''system:dept:delete''),
     (''/api/v1/system/audit-logs'', ''GET'', ''system:audit:list''),
     (''/api/v1/system/audit-logs/{id}'', ''GET'', ''system:audit:list''),
     (''/api/v1/system/configs'', ''GET'', ''system:config:list''),
     (''/api/v1/system/configs/{key}'', ''PUT'', ''system:config:update''),
     (''/api/v1/production/work-orders'', ''GET'', ''prod:wo:list''),
     (''/api/v1/production/work-orders/{id}'', ''GET'', ''prod:wo:query''),
     (''/api/v1/production/work-orders'', ''POST'', ''prod:wo:add''),
     (''/api/v1/production/work-orders/{id}'', ''PUT'', ''prod:wo:update''),
     (''/api/v1/production/work-orders/{id}/schedule'', ''PUT'', ''prod:wo:schedule''),
     (''/api/v1/production/work-orders/{id}/release'', ''PUT'', ''prod:wo:release''),
     (''/api/v1/production/work-orders/{id}/start'', ''PUT'', ''prod:wo:start''),
     (''/api/v1/production/work-orders/{id}/pause'', ''PUT'', ''prod:wo:pause''),
     (''/api/v1/production/work-orders/{id}/complete'', ''PUT'', ''prod:wo:complete''),
     (''/api/v1/production/work-orders/{id}/close'', ''PUT'', ''prod:wo:close''),
     (''/api/v1/production/work-orders/{id}/cancel'', ''PUT'', ''prod:wo:cancel''),
     (''/api/v1/production/work-orders/{id}/report'', ''POST'', ''prod:wo:report''),
     (''/api/v1/production/lines'', ''GET'', ''prod:line:list''),
     (''/api/v1/production/lines'', ''POST'', ''prod:line:add''),
     (''/api/v1/production/lines/{id}'', ''PUT'', ''prod:line:edit''),
     (''/api/v1/production/lines/{id}'', ''DELETE'', ''prod:line:del''),
     (''/api/v1/production/lines/{id}/stations'', ''GET'', ''prod:station:list''),
     (''/api/v1/production/processes'', ''GET'', ''prod:process:list''),
     (''/api/v1/production/processes'', ''POST'', ''prod:process:add''),
     (''/api/v1/production/processes/{id}'', ''PUT'', ''prod:process:edit''),
     (''/api/v1/production/processes/{id}'', ''DELETE'', ''prod:process:del''),
     (''/api/v1/production/products'', ''GET'', ''prod:product:list''),
     (''/api/v1/production/products'', ''POST'', ''prod:product:add''),
     (''/api/v1/production/products/{id}'', ''PUT'', ''prod:product:edit''),
     (''/api/v1/production/products/{id}'', ''DELETE'', ''prod:product:del''),
     (''/api/v1/production/plans'', ''GET'', ''prod:plan:list''),
     (''/api/v1/production/plans'', ''POST'', ''prod:plan:add''),
     (''/api/v1/iot/devices'', ''GET'', ''iot:device:list''),
     (''/api/v1/iot/devices/{id}'', ''GET'', ''iot:device:query''),
     (''/api/v1/iot/devices'', ''POST'', ''iot:device:add''),
     (''/api/v1/iot/devices/{id}'', ''PUT'', ''iot:device:update''),
     (''/api/v1/iot/devices/{id}'', ''DELETE'', ''iot:device:delete''),
     (''/api/v1/iot/devices/{id}/status'', ''GET'', ''iot:device:query''),
     (''/api/v1/iot/devices/{id}/sensors'', ''GET'', ''iot:sensor:list''),
     (''/api/v1/iot/devices/{id}/sensors'', ''POST'', ''iot:sensor:add''),
     (''/api/v1/iot/sensors/{id}'', ''PUT'', ''iot:sensor:update''),
     (''/api/v1/iot/sensors/{id}'', ''DELETE'', ''iot:sensor:delete''),
     (''/api/v1/iot/devices/{id}/realtime-data'', ''GET'', ''iot:data:query''),
     (''/api/v1/iot/sensors/{id}/history'', ''GET'', ''iot:data:query''),
     (''/api/v1/iot/alerts'', ''GET'', ''iot:alert:list''),
     (''/api/v1/iot/alerts/{id}/acknowledge'', ''PUT'', ''iot:alert:handle''),
     (''/api/v1/iot/alerts/{id}/resolve'', ''PUT'', ''iot:alert:resolve''),
     (''/api/v1/iot/alerts/{id}/dismiss'', ''PUT'', ''iot:alert:dismiss''),
     (''/api/v1/iot/devices/{id}/command'', ''POST'', ''iot:device:command''),
     (''/api/v1/iot/tasks'', ''GET'', ''iot:task:list''),
     (''/api/v1/iot/tasks'', ''POST'', ''iot:task:add''),
     (''/api/v1/iot/tasks/{id}'', ''PUT'', ''iot:task:update''),
     (''/api/v1/iot/tasks/{id}'', ''DELETE'', ''iot:task:delete''),
     (''/api/v1/iot/tasks/{id}/toggle'', ''PUT'', ''iot:task:update''),
     (''/api/v1/quality/standards'', ''GET'', ''qc:standard:list''),
     (''/api/v1/quality/inspections'', ''POST'', ''qc:inspection:add''),
     (''/api/v1/quality/inspections'', ''GET'', ''qc:inspection:list''),
     (''/api/v1/quality/inspections/{id}'', ''GET'', ''qc:inspection:query''),
     (''/api/v1/quality/defects'', ''GET'', ''qc:defect:list''),
     (''/api/v1/quality/defects/{id}/disposition'', ''PUT'', ''qc:defect:handle''),
     (''/api/v1/quality/statistics'', ''GET'', ''qc:stat:view''),
     (''/api/v1/integration/erp/sync-orders'', ''POST'', ''integ:erp:sync''),
     (''/api/v1/integration/erp/{id}/convert'', ''POST'', ''integ:erp:convert''),
     (''/api/v1/integration/erp/report'', ''POST'', ''integ:erp:report''),
     (''/api/v1/integration/wms/pick-request'', ''POST'', ''integ:wms:pick''),
     (''/api/v1/integration/wms/stock-in'', ''POST'', ''integ:wms:inbound''),
     (''/api/v1/integration/logs'', ''GET'', ''integ:log:list''),
     (''/api/v1/integration/logs/{id}/retry'', ''POST'', ''integ:log:retry'')]"

text \<open>\<open>init\<close> fills both tables.\<close>

definition g_routes :: "route list" where
  "g_routes = fold (\<lambda>(p, m, perm). add_route p m perm) route_table []"

definition g_public :: "(ritem list \<times> string) list" where
  "g_public = fold (\<lambda>(p, m). addPublic p m) public_paths []"

fun scan_routes :: "route list \<Rightarrow> string \<Rightarrow> string \<Rightarrow> string" where
  "scan_routes [] path mth = []"
| "scan_routes ((r, m, perm) # rs) path mth =
     (if m = mth \<and> re_match r path then perm else scan_routes rs path mth)"

definition getPermission :: "string \<Rightarrow> string \<Rightarrow> string" where
  "getPermission path mth = scan_routes g_routes path mth"

definition isPublicPath :: "string \<Rightarrow> string \<Rightarrow> bool" where
  "isPublicPath path mth \<longleftrightarrow> (\<exists>(r, m)\<in>set g_public. m = mth \<and> re_match r path)"

section \<open>Two patterns with a common path\<close>

fun compat :: "ritem list \<Rightarrow> ritem list \<Rightarrow> bool" where
  "compat [] q = (q = [])"
| "compat (a # p) [] = False"
| "compat (Lit a # p) (Lit b # q) \<longleftrightarrow> a = b \<and> compat p q"
| "compat (Seg # p) (Lit b # q) \<longleftrightarrow> b \<noteq> CHR ''/'' \<and> (compat p q \<or> compat (Seg # p) q)"
| "compat (Lit a # p) (Seg # q) \<longleftrightarrow> a \<noteq> CHR ''/'' \<and> (compat p q \<or> compat p (Seg # q))"
| "compat (Seg # p) (Seg # q) \<longleftrightarrow> compat p q \<or> compat (Seg # p) q \<or> compat p (Seg # q)"

lemma match_compat: "re_match p s \<Longrightarrow> re_match q s \<Longrightarrow> compat p q"
proof (induction s arbitrary: p q)
  case Nil
  then show ?case by (cases p rule: re_match.cases [of "(_, [])"]; cases q rule: re_match.cases [of "(_, [])"]) auto
next
  case (Cons c cs)
  obtain a p' where p: "p = a # p'" using Cons.prems(1) by (cases p) auto
  obtain b q' where q: "q = b # q'" using Cons.prems(2) by (cases q) auto
  show ?case
    using Cons.prems Cons.IH Cons.IH [of "Seg # p'" "Seg # q'"] unfolding p q by (cases a; cases b) auto
qed

text \<open>The whole table: no two entries of the same method have a common path.\<close>

fun separate :: "route list \<Rightarrow> bool" where
  "separate [] = True"
| "separate ((r, m, perm) # rs) \<longleftrightarrow> (\<forall>(r', m', perm')\<in>set rs. m = m' \<longrightarrow> \<not> compat r r') \<and> separate rs"

lemma scan_separate:
  "separate rs \<Longrightarrow> (r, m, perm) \<in> set rs \<Longrightarrow> re_match r path \<Longrightarrow> scan_routes rs path m = perm"
  by (induction rs rule: separate.induct) (auto dest: match_compat split: prod.splits)

lemma scan_routes_none:
  "\<forall>(r, m, perm)\<in>set rs. m = mth \<longrightarrow> \<not> re_match r path \<Longrightarrow> scan_routes rs path mth = []"
  by (induction rs) auto

lemma routes_separate: "separate g_routes"
  by code_simp

lemma routes_complete: "length g_routes = length route_table \<and> length g_public = length public_paths"
  by code_simp

lemma routes_named: "list_all (\<lambda>(r, m, perm). perm \<noteq> []) g_routes"
  by code_simp

lemma public_apart: "list_all (\<lambda>(q, n). list_all (\<lambda>(r, m, perm). m \<noteq> n \<or> \<not> compat r q) g_routes) g_public"
  by code_simp

lemma scan_routes_hit:
  "scan_routes rs path mth \<noteq> [] \<Longrightarrow> \<exists>r. (r, mth, scan_routes rs path mth) \<in> set rs \<and> re_match r path"
  by (induction rs path mth rule: scan_routes.induct) (auto split: if_splits)

section \<open>Properties\<close>

text \<open>The route table decides: an entry of the method whose pattern matches gives the permission of
  the path whatever its place in the table, no entry means no permission, an entry always
  names one, and a public path has no entry.\<close>

theorem route_table_decides:
  "(\<forall>r perm. (r, mth, perm) \<in> set g_routes \<and> re_match r path \<longrightarrow> getPermission path mth = perm \<and> perm \<noteq> []) \<and>
   (getPermission path mth \<noteq> [] \<longrightarrow> (\<exists>r. (r, mth, getPermission path mth) \<in> set g_routes \<and> re_match r path)) \<and>
   (isPublicPath path mth \<longrightarrow> getPermission path mth = [])"
proof (intro conjI allI impI)
  fix r perm
  assume a: "(r, mth, perm) \<in> set g_routes \<and> re_match r path"
  then show "getPermission path mth = perm"
    unfolding getPermission_def by (intro scan_separate [OF routes_separate]) auto
  show "perm \<noteq> []" using a routes_named by (auto simp: list_all_iff)
next
  assume "getPermission path mth \<noteq> []"
  then show "\<exists>r. (r, mth, getPermission path mth) \<in> set g_routes \<and> re_match r path"
    unfolding getPermission_def by (rule scan_routes_hit)
next
  assume "isPublicPath path mth"
  then obtain q where q: "(q, mth) \<in> set g_public" "re_match q path" by (auto simp: isPublicPath_def)
  show "getPermission path mth = []"
    unfolding getPermission_def
    using q public_apart by (intro scan_routes_none) (fastforce simp: list_all_iff dest: match_compat)
qed

theorem route_table_decides_witness:
  "getPermission ''/api/v1/system/users/7'' ''DELETE'' = ''system:user:delete''"
proof -
  have "\<exists>(r, m, perm)\<in>set g_routes. m = ''DELETE'' \<and> perm = ''system:user:delete'' \<and> re_match r ''/api/v1/system/users/7''"
    by code_simp
  then show ?thesis using route_table_decides [of "''DELETE''" "''/api/v1/system/users/7''"] by blast
qed

end
