(* ===== verification/Rbac.thy ===== *)
theory Rbac
  imports Mes_Prelude
begin

text \<open>
  Roles and permissions (\<open>services/RbacService.cc\<close>, \<open>utils/DataScopeFilter.hh\<close>): the merge of
  the data scopes of several roles, the permission set of a user with its Redis cache and the
  single-flight load behind it, and the cached merged scope. A callback is modelled by its
  outcome: which of the two continuations is called, or none.
\<close>

section \<open>Data scope\<close>

text \<open>The condition of \<open>buildDeptCondition\<close> as its syntax tree.\<close>

datatype dept_cond =
    CreatedByUser int
  | DeptEq string int
  | DeptInTree string int
  | Everything
  | DeptInRoleScope string int
  | Nothing

definition buildDeptCondition :: "int \<Rightarrow> int \<Rightarrow> int \<Rightarrow> string \<Rightarrow> dept_cond" where
  "buildDeptCondition dataScope userId deptId deptColumn =
    (if dataScope = 1 then CreatedByUser userId
     else if dataScope = 2 then DeptEq deptColumn deptId
     else if dataScope = 3 then DeptInTree deptColumn deptId
     else if dataScope = 4 then Everything
     else if dataScope = 5 then DeptInRoleScope deptColumn userId
     else Nothing)"

text \<open>The loop over the scopes: None is the early return of 4.\<close>

fun widest_loop :: "int list \<Rightarrow> int \<Rightarrow> int option" where
  "widest_loop [] widest = Some widest"
| "widest_loop (s # ss) widest =
     (if s = 4 then None
      else widest_loop ss (if s \<noteq> 5 \<and> s > widest then s else widest))"

definition mergeDataScope :: "int list \<Rightarrow> int" where
  "mergeDataScope scopes =
    (case widest_loop scopes 0 of
       None \<Rightarrow> 4
     | Some widest \<Rightarrow> if widest > 0 then widest else if scopes = [] then 1 else 5)"

lemma widest_loop_None: "widest_loop ss w = None \<longleftrightarrow> 4 \<in> set ss"
  by (induction ss arbitrary: w) auto

lemma widest_loop_Some:
  "widest_loop ss w = Some v \<Longrightarrow>
    w \<le> v \<and> (\<forall>s\<in>set ss. s \<noteq> 5 \<longrightarrow> s \<le> v) \<and> (v = w \<or> (v \<in> set ss \<and> v \<noteq> 5))"
  by (induction ss arbitrary: w) (force split: if_splits)+

section \<open>State\<close>

record role_row =
  ro_id :: int
  ro_code :: string
  ro_name :: string
  ro_desc :: "string option"
  ro_scope :: int
  ro_sort :: int
  ro_status :: int
  ro_deleted :: bool

record perm_row =
  pm_id :: int
  pm_parent :: "int option"
  pm_code :: string
  pm_name :: string
  pm_type :: int
  pm_sort :: int
  pm_status :: int

record scope_result =
  sc_roles :: "string list"
  sc_scope :: int
  sc_custom :: "int list"

record rbac =
  rb_roles :: "role_row list"
  rb_perms :: "perm_row list"
  rb_role_perms :: "(int \<times> int) list"
  rb_user_roles :: "(int \<times> int) list"
  rb_role_depts :: "(int \<times> int) list"
  rb_redis :: "int \<Rightarrow> (string list \<times> int) option"
  rb_scope_cache :: "int \<Rightarrow> (scope_result \<times> int) option"
  rb_now :: int

record rbac_env =
  re_redis :: bool
  re_db :: bool
  re_db2 :: bool

definition kPermCacheTtlSec :: int where "kPermCacheTtlSec = 600"
definition kScopeCacheTtlSec :: int where "kScopeCacheTtlSec = 60"
definition kEmptyPermSentinel :: string where "kEmptyPermSentinel = ''__none__''"

definition active_role :: "role_row \<Rightarrow> bool" where
  "active_role r \<longleftrightarrow> ro_status r = 1 \<and> \<not> ro_deleted r"

text \<open>The join of the permission query, duplicates removed.\<close>

definition db_perms :: "rbac \<Rightarrow> int \<Rightarrow> string list" where
  "db_perms s uid = remdups
    [pm_code p. p \<leftarrow> rb_perms s, (rid, pid) \<leftarrow> rb_role_perms s, r \<leftarrow> rb_roles s, (u, rid2) \<leftarrow> rb_user_roles s,
       pid = pm_id p \<and> ro_id r = rid \<and> rid2 = ro_id r \<and> u = uid \<and> active_role r \<and> pm_status p = 1
       \<and> \<not> starts_with ''menu:'' (pm_code p)]"

text \<open>What \<open>SMEMBERS\<close> answers: nothing for a missing or expired key.\<close>

definition smembers :: "rbac \<Rightarrow> int \<Rightarrow> string list" where
  "smembers s uid =
    (case rb_redis s uid of None \<Rightarrow> [] | Some (xs, t) \<Rightarrow> if rb_now s < t then xs else [])"

datatype perm_outcome = PermOk "string list" | PermErr | NoCallback

text \<open>The query, the refill of the cache with its sentinel for an empty set.\<close>

definition doLoadFromDb :: "rbac_env \<Rightarrow> int \<Rightarrow> rbac \<Rightarrow> perm_outcome \<times> rbac" where
  "doLoadFromDb e uid s =
    (if \<not> re_db e then (PermErr, s)
     else
       let perms = db_perms s uid;
           stored = (if perms = [] then [kEmptyPermSentinel] else perms) in
       (PermOk perms,
        if re_redis e then s\<lparr>rb_redis := (rb_redis s)(uid := Some (stored, rb_now s + kPermCacheTtlSec))\<rparr>
        else s))"

text \<open>The error branch of Redis loads from the database with an empty success continuation.\<close>

definition getUserPermissions :: "rbac_env \<Rightarrow> int \<Rightarrow> rbac \<Rightarrow> perm_outcome \<times> rbac" where
  "getUserPermissions e uid s =
    (if re_redis e then
       let arr = smembers s uid in
       if arr = [] then doLoadFromDb e uid s
       else (PermOk (removeAll kEmptyPermSentinel (remdups arr)), s)
     else
       case doLoadFromDb e uid s of
         (PermOk _, s1) \<Rightarrow> (NoCallback, s1)
       | (r, s1) \<Rightarrow> (r, s1))"

definition invalidateUserPerm :: "rbac_env \<Rightarrow> int \<Rightarrow> rbac \<Rightarrow> rbac" where
  "invalidateUserPerm e uid s =
    s\<lparr>rb_scope_cache := (rb_scope_cache s)(uid := None),
      rb_redis := (if re_redis e then (rb_redis s)(uid := None) else rb_redis s)\<rparr>"

definition user_roles :: "rbac \<Rightarrow> int \<Rightarrow> role_row list" where
  "user_roles s uid =
    [r. r \<leftarrow> rb_roles s, (u, rid) \<leftarrow> rb_user_roles s, rid = ro_id r \<and> u = uid \<and> active_role r]"

definition custom_depts :: "rbac \<Rightarrow> int \<Rightarrow> int list" where
  "custom_depts s uid = remdups
    [d. (rid, d) \<leftarrow> rb_role_depts s, r \<leftarrow> rb_roles s, (u, rid2) \<leftarrow> rb_user_roles s,
       rid = ro_id r \<and> rid2 = ro_id r \<and> u = uid \<and> ro_scope r = 5 \<and> ro_status r = 1]"

text \<open>The two queries behind a miss; the result is cached for a minute.\<close>

definition load_scope :: "rbac_env \<Rightarrow> int \<Rightarrow> rbac \<Rightarrow> scope_result option \<times> rbac" where
  "load_scope e uid s =
    (if \<not> re_db e then (None, s)
     else
       let rs = user_roles s uid;
           sc = mergeDataScope (map ro_scope rs);
           hasCustom = (\<exists>r\<in>set rs. ro_scope r = 5) in
       if sc = 5 \<and> hasCustom then
         if \<not> re_db2 e then (None, s)
         else
           let res = \<lparr>sc_roles = map ro_code rs, sc_scope = sc, sc_custom = custom_depts s uid\<rparr> in
           (Some res, s\<lparr>rb_scope_cache := (rb_scope_cache s)(uid := Some (res, rb_now s + kScopeCacheTtlSec))\<rparr>)
       else
         let res = \<lparr>sc_roles = map ro_code rs, sc_scope = sc, sc_custom = []\<rparr> in
         (Some res, s\<lparr>rb_scope_cache := (rb_scope_cache s)(uid := Some (res, rb_now s + kScopeCacheTtlSec))\<rparr>))"

definition loadMergedScope :: "rbac_env \<Rightarrow> int \<Rightarrow> rbac \<Rightarrow> scope_result option \<times> rbac" where
  "loadMergedScope e uid s =
    (case rb_scope_cache s uid of
       Some (sc, t) \<Rightarrow>
         if rb_now s \<le> t then (Some sc, s)
         else load_scope e uid (s\<lparr>rb_scope_cache := (rb_scope_cache s)(uid := None)\<rparr>)
     | None \<Rightarrow> load_scope e uid s)"

section \<open>The single flight\<close>

text \<open>
  Waiters (numbered callbacks) per user, the queries under way, and the callbacks made. A user with
  no entry in the map and a user with an empty list of waiters are the same here: the code never
  leaves an empty list behind.
\<close>

record flight =
  fl_wait :: "int \<Rightarrow> nat list"
  fl_queries :: "int \<Rightarrow> nat"
  fl_called :: "(nat \<times> perm_outcome) list"

definition loadFromDb :: "int \<Rightarrow> nat \<Rightarrow> flight \<Rightarrow> flight" where
  "loadFromDb uid w f =
    (let slot = fl_wait f uid;
         leader = (slot = []) in
     f\<lparr>fl_wait := (fl_wait f)(uid := slot @ [w]),
       fl_queries := (if leader then (fl_queries f)(uid := fl_queries f uid + 1) else fl_queries f)\<rparr>)"

definition forwardResult :: "int \<Rightarrow> perm_outcome \<Rightarrow> flight \<Rightarrow> flight" where
  "forwardResult uid res f =
    (let waiters = fl_wait f uid in
     f\<lparr>fl_wait := (fl_wait f)(uid := []),
       fl_called := fl_called f @ map (\<lambda>w. (w, res)) waiters\<rparr>)"

text \<open>A callback arrives with a number of its own; a query under way is answered.\<close>

inductive flight_step :: "flight \<Rightarrow> flight \<Rightarrow> bool" where
  request: "(\<And>u. w \<notin> set (fl_wait f u)) \<Longrightarrow> w \<notin> fst ` set (fl_called f) \<Longrightarrow> flight_step f (loadFromDb uid w f)"
| reply: "fl_queries f uid = Suc n \<Longrightarrow>
    flight_step f (forwardResult uid res (f\<lparr>fl_queries := (fl_queries f)(uid := n)\<rparr>))"

inductive_cases flight_stepE [elim]: "flight_step f g"

definition flight0 :: flight where
  "flight0 = \<lparr>fl_wait = (\<lambda>_. []), fl_queries = (\<lambda>_. 0), fl_called = []\<rparr>"

inductive flight_reach :: "flight \<Rightarrow> bool" where
  start: "flight_reach flight0"
| step: "flight_reach f \<Longrightarrow> flight_step f g \<Longrightarrow> flight_reach g"

definition flight_inv :: "flight \<Rightarrow> bool" where
  "flight_inv f \<longleftrightarrow>
    (\<forall>u. fl_queries f u = (if fl_wait f u = [] then 0 else 1)) \<and>
    (\<forall>u. distinct (fl_wait f u)) \<and>
    (\<forall>u v. u \<noteq> v \<longrightarrow> set (fl_wait f u) \<inter> set (fl_wait f v) = {}) \<and>
    distinct (map fst (fl_called f)) \<and>
    (\<forall>u. set (fl_wait f u) \<inter> fst ` set (fl_called f) = {})"

lemma flight_inv_request:
  assumes "flight_inv f" and "\<And>u. w \<notin> set (fl_wait f u)" and "w \<notin> fst ` set (fl_called f)"
  shows "flight_inv (loadFromDb uid w f)"
  using assms by (auto simp: flight_inv_def loadFromDb_def Let_def)

lemma flight_inv_reply:
  assumes "flight_inv f" and "fl_queries f uid = Suc n"
  shows "flight_inv (forwardResult uid res (f\<lparr>fl_queries := (fl_queries f)(uid := n)\<rparr>))"
proof -
  have n: "n = 0" and d: "distinct (fl_wait f uid)"
    using assms by (auto simp: flight_inv_def split: if_splits)
  have m: "map fst (map (\<lambda>w. (w, res)) (fl_wait f uid)) = fl_wait f uid"
    by (simp add: comp_def)
  have i: "fst ` set (map (\<lambda>w. (w, res)) (fl_wait f uid)) = set (fl_wait f uid)"
    by (simp add: image_image)
  have c: "set (fl_wait f u) \<inter> fst ` set (fl_called f) = {}" for u
    using assms(1) by (simp add: flight_inv_def)
  have x: "u \<noteq> uid \<Longrightarrow> set (fl_wait f u) \<inter> set (fl_wait f uid) = {}" for u
    using assms(1) by (simp add: flight_inv_def)
  have "distinct (map fst (fl_called f) @ fl_wait f uid)"
    using assms(1) c [of uid] d by (simp add: flight_inv_def Int_commute)
  then show ?thesis
    using assms(1) n c x d
    unfolding flight_inv_def forwardResult_def Let_def
    by (simp add: m i image_Un Int_Un_distrib comp_def image_image)
qed

lemma flight_reach_inv: "flight_reach f \<Longrightarrow> flight_inv f"
proof (induction rule: flight_reach.induct)
  case start
  show ?case by (simp add: flight_inv_def flight0_def)
next
  case (step f g)
  from step(2,3) show ?case by (auto intro: flight_inv_request flight_inv_reply)
qed

section \<open>Coherence of the permission cache\<close>

definition perms_coherent :: "rbac \<Rightarrow> bool" where
  "perms_coherent s \<longleftrightarrow>
    (\<forall>uid xs t. rb_redis s uid = Some (xs, t) \<longrightarrow>
       xs \<noteq> [] \<and> set xs - {kEmptyPermSentinel} = set (db_perms s uid)) \<and>
    (\<forall>uid. kEmptyPermSentinel \<notin> set (db_perms s uid))"

lemma db_perms_redis [simp]: "db_perms (s\<lparr>rb_redis := m\<rparr>) = db_perms s"
  by (rule ext) (simp add: db_perms_def)

lemma perms_coherent_invalidate: "perms_coherent s \<Longrightarrow> perms_coherent (invalidateUserPerm e uid s)"
  by (auto simp: perms_coherent_def invalidateUserPerm_def db_perms_def)

text \<open>What a hit of a coherent cache gives, and what the success continuation gets.\<close>

lemma smembers_coherent:
  assumes "perms_coherent s" and "smembers s uid \<noteq> []"
  shows "set (removeAll kEmptyPermSentinel (remdups (smembers s uid))) = set (db_perms s uid)"
  using assms by (auto simp: smembers_def perms_coherent_def split: option.splits prod.splits if_splits)

lemma doLoadFromDb_granted: "doLoadFromDb e uid s = (PermOk xs, t) \<Longrightarrow> xs = db_perms s uid"
  by (simp add: doLoadFromDb_def Let_def split: if_splits)

lemma permissions_granted:
  assumes "perms_coherent s" and "getUserPermissions e uid s = (PermOk xs, t)"
  shows "set xs = set (db_perms s uid)"
proof (cases "re_redis e \<and> smembers s uid \<noteq> []")
  case True
  with assms(2) have "xs = removeAll kEmptyPermSentinel (remdups (smembers s uid))"
    by (auto simp: getUserPermissions_def)
  with True smembers_coherent [OF assms(1)] show ?thesis by simp
next
  case False
  with assms(2) have "doLoadFromDb e uid s = (PermOk xs, t)"
    by (auto simp: getUserPermissions_def split: if_splits prod.splits perm_outcome.splits)
  then show ?thesis using doLoadFromDb_granted by blast
qed

lemma permissions_outcome_coherent:
  assumes "perms_coherent s" and "re_redis e" "re_db e"
  shows "perms_coherent (snd (getUserPermissions e uid s))"
proof -
  have "perms_coherent (s\<lparr>rb_redis := (rb_redis s)(uid := Some (stored, n))\<rparr>)"
    if "stored = (if db_perms s uid = [] then [kEmptyPermSentinel] else db_perms s uid)" for stored n
    using that assms(1) by (auto simp: perms_coherent_def)
  with assms show ?thesis by (simp add: getUserPermissions_def doLoadFromDb_def Let_def)
qed

section \<open>Properties\<close>

text \<open>The merged data scope of several roles: all (4) if some role has it; else the widest of the
  roles that are not custom; else custom (5) if there is a role at all; else own data only (1).\<close>

theorem mergeDataScope_spec:
  assumes "set scopes \<subseteq> {1, 2, 3, 4, 5}"
  shows "mergeDataScope scopes =
    (if 4 \<in> set scopes then 4
     else if set scopes - {5} \<noteq> {} then Max (set scopes - {5})
     else if scopes = [] then 1 else 5)"
proof (cases "4 \<in> set scopes")
  case True
  then show ?thesis by (simp add: mergeDataScope_def widest_loop_None [THEN iffD2])
next
  case False
  then obtain v where v: "widest_loop scopes 0 = Some v"
    by (cases "widest_loop scopes 0") (auto simp: widest_loop_None)
  note vs = widest_loop_Some [OF v]
  show ?thesis
  proof (cases "set scopes - {5} = {}")
    case True
    with vs v False have "v = 0" by auto
    with True v False show ?thesis by (auto simp: mergeDataScope_def)
  next
    case ne: False
    then obtain s where s: "s \<in> set scopes" "s \<noteq> 5" by auto
    then have "1 \<le> v" using vs assms by force
    moreover have "Max (set scopes - {5}) = v"
      using vs \<open>1 \<le> v\<close> by (intro Max_eqI) auto
    ultimately show ?thesis using v ne False by (auto simp: mergeDataScope_def)
  qed
qed

theorem mergeDataScope_spec_witness: "mergeDataScope [1, 5, 3] = 3"
  by (subst mergeDataScope_spec) (auto intro: Max_eqI)


definition demo_rbac :: rbac where
  "demo_rbac = \<lparr>rb_roles = [\<lparr>ro_id = 1, ro_code = ''OP'', ro_name = ''operator'', ro_desc = None,
       ro_scope = 1, ro_sort = 0, ro_status = 1, ro_deleted = False\<rparr>],
     rb_perms = [\<lparr>pm_id = 4, pm_parent = None, pm_code = ''prod:wo:report'', pm_name = ''report'', pm_type = 3,
       pm_sort = 0, pm_status = 1\<rparr>], rb_role_perms = [(1, 4)],
     rb_user_roles = [(9, 1)], rb_role_depts = [], rb_redis = (\<lambda>_. None), rb_scope_cache = (\<lambda>_. None),
     rb_now = 0\<rparr>"

lemma demo_rbac_coherent: "perms_coherent demo_rbac"
  by (auto simp: perms_coherent_def demo_rbac_def db_perms_def kEmptyPermSentinel_def)


text \<open>C13: the single flight: in every reachable state at most one query per user is under way, one
  exactly when callbacks wait for that user; no callback is made twice, and none that was made is
  still waiting; and the answer to the query calls every waiting callback with that result.\<close>

theorem single_flight:
  assumes "flight_reach f"
  shows "fl_queries f u = (if fl_wait f u = [] then 0 else 1) \<and>
    distinct (map fst (fl_called f) @ fl_wait f u) \<and>
    (\<forall>res. fl_wait (forwardResult u res f) u = [] \<and>
       (\<forall>w. w \<in> set (fl_wait f u) \<longrightarrow> (w, res) \<in> set (fl_called (forwardResult u res f))))"
proof -
  have inv: "flight_inv f" using assms by (rule flight_reach_inv)
  then have "distinct (map fst (fl_called f) @ fl_wait f u)"
    by (simp add: flight_inv_def Int_commute)
  moreover have "fl_queries f u = (if fl_wait f u = [] then 0 else 1)"
    using inv unfolding flight_inv_def by blast
  ultimately show ?thesis by (simp add: forwardResult_def Let_def)
qed

theorem single_flight_witness:
  "fl_queries (loadFromDb 7 1 (loadFromDb 7 0 flight0)) 7 = 1"
proof -
  have "flight_reach (loadFromDb 7 1 (loadFromDb 7 0 flight0))"
    by (rule flight_reach.step [OF flight_reach.step [OF flight_reach.start flight_step.request]
          flight_step.request]) (simp_all add: flight0_def loadFromDb_def Let_def)
  from single_flight [OF this, of 7] show ?thesis
    by (simp add: flight0_def loadFromDb_def Let_def)
qed

end
