(* ===== verification/Captcha.thy ===== *)
theory Captcha
  imports Mes_Prelude
begin

text \<open>
  The captcha (\<open>utils/Captcha.hh\<close>): the generation of a code from random numbers, the
  case-insensitive FNV-1a hash on 64-bit words, the constant-time comparison, the check and the
  base64 encoder. The picture is in \<open>Captcha_Svg\<close>.
\<close>

unbundle bit_operations_syntax

section \<open>Generation\<close>

text \<open>The literal and the NUL that ends it: the only characters the index can read.\<close>

definition captcha_alphabet :: string where
  "captcha_alphabet = ''ABCDEFGHJKMNPQRSTUVWXYZ23456789'' @ [CHR 0x00]"

text \<open>\<open>draws\<close> are the values of the distribution, each in 0..31.\<close>

definition generateCode :: "nat list \<Rightarrow> string" where
  "generateCode draws = map (\<lambda>d. captcha_alphabet ! (d mod 32)) draws"

section \<open>Hash and check\<close>

definition byte64 :: "char \<Rightarrow> 64 word" where
  "byte64 c = of_nat (of_char c)"

definition fnv_step :: "char \<Rightarrow> 64 word \<Rightarrow> 64 word" where
  "fnv_step c h = (h XOR byte64 c) * 1099511628211"

definition fnv1a :: "string \<Rightarrow> 64 word" where
  "fnv1a s = fold fnv_step s 1469598103934665603"

definition upper :: "char \<Rightarrow> char" where
  "upper c = (let n = (of_char c :: nat) in if 97 \<le> n \<and> n \<le> 122 then char_of (n - 97 + 65) else c)"

definition hex_lower :: "nat \<Rightarrow> char" where
  "hex_lower n = ''0123456789abcdef'' ! n"

text \<open>\<open>%016llx\<close>.\<close>

fun hex_digits :: "nat \<Rightarrow> nat \<Rightarrow> string" where
  "hex_digits 0 n = []"
| "hex_digits (Suc k) n = hex_digits k (n div 16) @ [hex_lower (n mod 16)]"

definition hashCode :: "string \<Rightarrow> string" where
  "hashCode code = hex_digits 16 (unat (fnv1a (map upper code)))"

text \<open>The accumulated difference of the bytes.\<close>

definition byte_of :: "char \<Rightarrow> 8 word" where
  "byte_of c = of_nat (of_char c)"

fun diff_loop :: "string \<Rightarrow> string \<Rightarrow> 8 word \<Rightarrow> 8 word" where
  "diff_loop (a # as) (b # bs) diff = diff_loop as bs (diff OR (byte_of a XOR byte_of b))"
| "diff_loop as bs diff = diff"

definition constTimeEq :: "string \<Rightarrow> string \<Rightarrow> bool" where
  "constTimeEq a b = (if length a \<noteq> length b then False else diff_loop a b 0 = 0)"

definition verifyCode :: "string \<Rightarrow> string \<Rightarrow> bool" where
  "verifyCode input storedHash =
    (if storedHash = [] then False else constTimeEq (hashCode input) storedHash)"

section \<open>Base64\<close>

definition b64_table :: string where
  "b64_table = ''ABCDEFGHIJKLMNOPQRSTUVWXYZabcdefghijklmnopqrstuvwxyz0123456789+/''"

definition b64 :: "nat \<Rightarrow> nat \<Rightarrow> char" where
  "b64 v shift = b64_table ! ((v div 2 ^ shift) mod 64)"

fun base64Encode :: "string \<Rightarrow> string" where
  "base64Encode (a # b # c # rest) =
     (let v = of_char a * 65536 + of_char b * 256 + (of_char c :: nat) in
      b64 v 18 # b64 v 12 # b64 v 6 # b64 v 0 # base64Encode rest)"
| "base64Encode [a] = (let v = (of_char a :: nat) * 65536 in [b64 v 18, b64 v 12, CHR ''='', CHR ''=''])"
| "base64Encode [a, b] =
     (let v = of_char a * 65536 + (of_char b :: nat) * 256 in [b64 v 18, b64 v 12, b64 v 6, CHR ''=''])"
| "base64Encode [] = []"

text \<open>A decoder as the specification: the index of a digit, and four digits back to three bytes.\<close>

definition b64_value :: "char \<Rightarrow> nat" where
  "b64_value c = (case find_char c b64_table of Some i \<Rightarrow> i | None \<Rightarrow> 0)"

fun base64Decode :: "string \<Rightarrow> string" where
  "base64Decode (p # q # r # s # rest) =
     (let v = ((b64_value p * 64 + b64_value q) * 64 + b64_value r) * 64 + b64_value s;
          a = char_of (v div 65536); b = char_of (v div 256 mod 256); c = char_of (v mod 256) in
      if r = CHR ''='' then [a] else if s = CHR ''='' then [a, b] else a # b # c # base64Decode rest)"
| "base64Decode _ = []"

lemma b64_table_facts: "length b64_table = 64" "distinct b64_table" "CHR ''='' \<notin> set b64_table"
  by (simp_all add: b64_table_def)

lemma find_char_nth: "distinct s \<Longrightarrow> i < length s \<Longrightarrow> find_char (s ! i) s = Some i"
proof (induction s arbitrary: i)
  case (Cons x s)
  then show ?case by (cases i) auto
qed simp

lemma b64_value_b64 [simp]: "b64_value (b64 v k) = (v div 2 ^ k) mod 64"
  using find_char_nth [OF b64_table_facts(2), of "(v div 2 ^ k) mod 64"] b64_table_facts(1)
  by (simp add: b64_value_def b64_def)

lemma b64_not_pad [simp]: "b64 v k \<noteq> CHR ''=''"
proof -
  have "(v div 2 ^ k) mod 64 < length b64_table" using b64_table_facts(1) by simp
  then have "b64 v k \<in> set b64_table" unfolding b64_def by (rule nth_mem)
  then show ?thesis using b64_table_facts(3) by metis
qed

lemma b64_value_pad [simp]: "b64_value (CHR ''='') = 0"
  by (simp add: b64_value_def b64_table_def)

lemma of_char_bound: "(of_char c :: nat) < 256"
  by simp

lemma digits_join:
  fixes v :: nat
  assumes "v < 16777216"
  shows "((v div 262144 mod 64 * 64 + v div 4096 mod 64) * 64 + v div 64 mod 64) * 64 + v mod 64 = v"
proof -
  have "v div 262144 mod 64 = v div 262144" using assms by (simp add: less_mult_imp_div_less)
  moreover have "v div 262144 * 64 + v div 4096 mod 64 = v div 4096"
    using div_mult_mod_eq [of "v div 4096" 64] by (simp add: div_mult2_eq [symmetric])
  moreover have "v div 4096 * 64 + v div 64 mod 64 = v div 64"
    using div_mult_mod_eq [of "v div 64" 64] by (simp add: div_mult2_eq [symmetric])
  moreover have "v div 64 * 64 + v mod 64 = v" by simp
  ultimately show ?thesis by simp
qed

lemma low_zero: "(a * 256 :: nat) mod 64 = 0" "(a * 65536 :: nat) div 64 mod 64 = 0" "(a * 65536 :: nat) mod 64 = 0"
  "(a * 65536 + b * 256 :: nat) mod 64 = 0"
proof -
  have "a * 65536 = a * 1024 * (64::nat)" by simp
  then have "a * 65536 div 64 = (a * 1024 :: nat)" by (simp only: nonzero_mult_div_cancel_right)
  moreover have "a * 1024 = a * 16 * (64::nat)" by simp
  ultimately show "(a * 65536 :: nat) div 64 mod 64 = 0" by (simp only: mod_mult_self2_is_0)
  have "a * 256 = a * 4 * (64::nat)" by simp
  then show "(a * 256 :: nat) mod 64 = 0" by (simp only: mod_mult_self2_is_0)
  have "a * 65536 = a * 1024 * (64::nat)" by simp
  then show "(a * 65536 :: nat) mod 64 = 0" by (simp only: mod_mult_self2_is_0)
  have "a * 65536 + b * 256 = (a * 1024 + b * 4) * (64::nat)" by simp
  then show "(a * 65536 + b * 256 :: nat) mod 64 = 0" by (simp only: mod_mult_self2_is_0)
qed

lemma byte_split:
  fixes q c :: nat
  assumes "c < 256"
  shows "(q * 256 + c) div 256 = q" "(q * 256 + c) mod 256 = c"
  using assms by simp_all

lemma bytes_split:
  fixes a b c :: nat
  assumes "a < 256" and "b < 256" and "c < 256"
  shows "(a * 65536 + b * 256 + c) div 65536 = a" "(a * 65536 + b * 256 + c) div 256 mod 256 = b"
    "(a * 65536 + b * 256 + c) mod 256 = c"
proof -
  have e: "a * 65536 + b * 256 + c = (a * 256 + b) * 256 + c" by simp
  have d: "(a * 65536 + b * 256 + c) div 256 = a * 256 + b"
    unfolding e using assms(3) by (rule byte_split)
  then show "(a * 65536 + b * 256 + c) div 256 mod 256 = b"
    using byte_split(2) [OF assms(2), of a] by simp
  have "(a * 65536 + b * 256 + c) div 65536 = (a * 65536 + b * 256 + c) div 256 div 256"
    by (simp add: div_mult2_eq [symmetric])
  then show "(a * 65536 + b * 256 + c) div 65536 = a"
    unfolding d using byte_split(1) [OF assms(2), of a] by simp
  show "(a * 65536 + b * 256 + c) mod 256 = c"
    unfolding e using assms(3) by (rule byte_split)
qed

text \<open>Three bytes from the number of four digits.\<close>

definition unpack :: "nat \<Rightarrow> string" where
  "unpack v = [char_of (v div 65536), char_of (v div 256 mod 256), char_of (v mod 256)]"

lemma unpack_pack: "unpack (of_char a * 65536 + of_char b * 256 + of_char c) = [a, b, c]"
  using bytes_split [OF of_char_bound of_char_bound of_char_bound, of a b c] unfolding unpack_def
  by (simp only:) simp

lemma pack_bound: "of_char a * 65536 + of_char b * 256 + (of_char c :: nat) < 16777216"
  using of_char_bound [of a] of_char_bound [of b] of_char_bound [of c] by linarith

lemma decode4:
  assumes "base64Decode rest = t" and "v < 16777216"
  shows "base64Decode (b64 v 18 # b64 v 12 # b64 v 6 # b64 v 0 # rest) = unpack v @ t"
    "v mod 64 = 0 \<Longrightarrow> base64Decode [b64 v 18, b64 v 12, b64 v 6, CHR ''=''] = take 2 (unpack v)"
    "v mod 64 = 0 \<Longrightarrow> v div 64 mod 64 = 0 \<Longrightarrow> base64Decode [b64 v 18, b64 v 12, CHR ''='', CHR ''=''] = take 1 (unpack v)"
proof -
  have p: "v div 2 ^ 18 = v div 262144" "v div 2 ^ 12 = v div 4096" "v div 2 ^ 6 = v div 64" "v div 2 ^ 0 = v"
    by simp_all
  note j = digits_join [OF assms(2)]
  have r: "((x * 64 + y) * 64 + z) * 64 + w = v \<Longrightarrow>
      [char_of ((((x * 64 + y) * 64 + z) * 64 + w) div 65536), char_of ((((x * 64 + y) * 64 + z) * 64 + w) div 256 mod 256),
       char_of ((((x * 64 + y) * 64 + z) * 64 + w) mod 256)] = unpack v" for x y z w :: nat
    by (simp only: unpack_def)
  show "base64Decode (b64 v 18 # b64 v 12 # b64 v 6 # b64 v 0 # rest) = unpack v @ t"
    unfolding base64Decode.simps Let_def b64_value_b64 p j using assms(1)
    by (simp only: b64_not_pad if_False unpack_def append.simps)
  show "base64Decode [b64 v 18, b64 v 12, b64 v 6, CHR ''=''] = take 2 (unpack v)" if z: "v mod 64 = 0"
    unfolding base64Decode.simps Let_def b64_value_b64 b64_value_pad p
    using j unfolding z by (simp only: b64_not_pad if_False if_True refl unpack_def) simp
  show "base64Decode [b64 v 18, b64 v 12, CHR ''='', CHR ''=''] = take 1 (unpack v)"
    if z: "v mod 64 = 0" "v div 64 mod 64 = 0"
    unfolding base64Decode.simps Let_def b64_value_b64 b64_value_pad p
    using j unfolding z by (simp only: if_True refl unpack_def) simp
qed

lemma unpack_two: "unpack (of_char a * 65536 + of_char b * 256) = [a, b, CHR 0x00]"
  using unpack_pack [of a b "CHR 0x00"] by simp

lemma unpack_one: "unpack (of_char a * 65536) = [a, CHR 0x00, CHR 0x00]"
  using unpack_pack [of a "CHR 0x00" "CHR 0x00"] by simp

lemma base64_roundtrip: "base64Decode (base64Encode s) = s"
proof (induction s rule: base64Encode.induct)
  case (1 a b c rest)
  show ?case
    using decode4(1) [OF 1 pack_bound [of a b c]] unfolding unpack_pack base64Encode.simps Let_def
    by (simp only: append.simps)
next
  case (2 a)
  have "(of_char a :: nat) * 65536 < 16777216" using of_char_bound [of a] by linarith
  from decode4(3) [OF refl this low_zero(3) low_zero(2)]
  have "base64Decode [b64 (of_char a * 65536) 18, b64 (of_char a * 65536) 12, CHR ''='', CHR ''=''] = [a]"
    by (simp only: unpack_one take_Suc_Cons One_nat_def take_0)
  then show ?case by (simp only: base64Encode.simps Let_def)
next
  case (3 a b)
  let ?v = "(of_char a :: nat) * 65536 + of_char b * 256"
  have "?v < 16777216"
    using of_char_bound [of a] of_char_bound [of b] by linarith
  from decode4(2) [OF refl this low_zero(4)]
  have "base64Decode [b64 ?v 18, b64 ?v 12, b64 ?v 6, CHR ''=''] = [a, b]"
    by (simp only: unpack_two numeral_2_eq_2 take_Suc_Cons take_0)
  then show ?case by (simp only: base64Encode.simps Let_def)
qed simp

section \<open>The comparison\<close>

lemma byte_of_inj: "byte_of a = byte_of b \<longleftrightarrow> a = b"
proof
  assume "byte_of a = byte_of b"
  then have "unat (byte_of a) = unat (byte_of b)" by simp
  then have "(of_char a :: nat) = of_char b"
    by (simp add: byte_of_def unat_of_nat take_bit_eq_mod)
  then show "a = b" by simp
qed simp

lemma xor_zero_iff: "(a :: 8 word) XOR b = 0 \<longleftrightarrow> a = b"
proof
  assume z: "a XOR b = 0"
  have "a = a XOR (b XOR b)" by simp
  also have "\<dots> = (a XOR b) XOR b" by (simp only: xor.assoc)
  finally show "a = b" by (simp add: z)
qed simp

lemma diff_loop_zero:
  "length a = length b \<Longrightarrow> diff_loop a b d = 0 \<longleftrightarrow> d = 0 \<and> a = b"
proof (induction a b d rule: diff_loop.induct)
  case (1 a as b bs diff)
  have "diff OR (byte_of a XOR byte_of b) = 0 \<longleftrightarrow> diff = 0 \<and> byte_of a = byte_of b"
    by (simp add: xor_zero_iff or_eq_0_iff)
  with 1 show ?case by (auto simp: byte_of_inj)
qed auto

lemma constTimeEq_eq: "constTimeEq a b \<longleftrightarrow> a = b"
  using diff_loop_zero [of a b 0] by (auto simp: constTimeEq_def)

lemma hex_digits_length: "length (hex_digits k n) = k"
  by (induction k arbitrary: n) simp_all

lemma hashCode_nonempty: "hashCode c \<noteq> []"
proof -
  have "length (hashCode c) = 16" by (simp add: hashCode_def hex_digits_length)
  then show ?thesis by auto
qed

section \<open>Properties\<close>

text \<open>A code is accepted against its own stored hash, in any mixture of upper and lower case; the
  comparison accepts exactly when the hashes are equal, and never against an empty stored hash.\<close>

theorem captcha_check:
  "(map upper input = map upper code \<longrightarrow> verifyCode input (hashCode code)) \<and>
   (verifyCode input stored \<longleftrightarrow> stored \<noteq> [] \<and> stored = hashCode input)"
proof -
  have v: "verifyCode x st \<longleftrightarrow> st \<noteq> [] \<and> st = hashCode x" for x st
    by (auto simp: verifyCode_def constTimeEq_eq)
  moreover have "map upper input = map upper code \<longrightarrow> hashCode code = hashCode input"
    by (simp add: hashCode_def)
  ultimately show ?thesis using hashCode_nonempty by metis
qed

theorem captcha_check_witness: "verifyCode ''aB3k'' (hashCode ''Ab3K'')"
proof -
  have "map upper ''aB3k'' = map upper ''Ab3K''" by code_simp
  then show ?thesis using captcha_check [of "''aB3k''" "''Ab3K''"] by blast
qed

text \<open>The base64 text of the picture decodes to the picture, for every length.\<close>

theorem base64_decodes: "base64Decode (base64Encode s) = s"
  by (rule base64_roundtrip)

text \<open>The alphabet of the captcha has 31 letters and the index 32 values: the value 31 reads the
  NUL that ends the literal, so such a code contains a NUL character, which nobody can type.\<close>

theorem captcha_can_contain_nul:
  "generateCode [d1, d2, d3, 31] ! 3 = CHR 0x00 \<and> length (filter (\<lambda>c. c \<noteq> CHR 0x00) captcha_alphabet) = 31"
  by (simp add: generateCode_def captcha_alphabet_def)

end
