(* ===== verification/Request_Data.thy ===== *)
theory Request_Data
  imports Mes_Prelude
begin

text \<open>
  What the services share when they read requests: the conversions of JSON numbers and of decimal
  strings, the SQL operator \<open>ILIKE\<close> on ASCII text, and the paging of lists
  (\<open>clampPage\<close> in the services, \<open>LIMIT\<close> and \<open>OFFSET\<close>).
\<close>

section \<open>Reading numbers\<close>

text \<open>\<open>std::stoll\<close>: leading white space, a sign, at least one digit, then anything; None is the exception.\<close>

definition digit_of :: "char \<Rightarrow> nat option" where
  "digit_of c = (let n = (of_char c :: nat) in if 48 \<le> n \<and> n \<le> 57 then Some (n - 48) else None)"

fun read_digits :: "string \<Rightarrow> nat \<Rightarrow> nat" where
  "read_digits [] acc = acc"
| "read_digits (c # cs) acc =
     (case digit_of c of None \<Rightarrow> acc | Some d \<Rightarrow> read_digits cs (acc * 10 + d))"

definition is_space :: "char \<Rightarrow> bool" where
  "is_space c = (let n = (of_char c :: nat) in n = 32 \<or> (9 \<le> n \<and> n \<le> 13))"

fun stoll_unsigned :: "string \<Rightarrow> nat option" where
  "stoll_unsigned [] = None"
| "stoll_unsigned (c # cs) =
     (case digit_of c of None \<Rightarrow> None | Some d \<Rightarrow> Some (read_digits cs d))"

definition stoll_raw :: "string \<Rightarrow> int option" where
  "stoll_raw s =
    (case dropWhile is_space s of
       [] \<Rightarrow> None
     | c # cs \<Rightarrow>
         if c = CHR ''-'' then map_option (\<lambda>n. - int n) (stoll_unsigned cs)
         else if c = CHR ''+'' then map_option int (stoll_unsigned cs)
         else map_option int (stoll_unsigned (c # cs)))"

definition stoll :: "string \<Rightarrow> int option" where
  "stoll s = (case stoll_raw s of Some i \<Rightarrow> if int64_ok i then Some i else None | None \<Rightarrow> None)"

lemma digit_of_digit [simp]: "d < 10 \<Longrightarrow> digit_of (char_of (48 + d :: nat)) = Some d"
  by (simp add: digit_of_def Let_def)

lemma read_digits_nat_digits: "read_digits (nat_digits n @ s) acc = read_digits s (acc * 10 ^ length (nat_digits n) + n)"
proof (induction n arbitrary: s acc rule: nat_digits.induct)
  case (1 n)
  show ?case
  proof (cases "n < 10")
    case True
    then show ?thesis by (simp add: nat_digits.simps [of n])
  next
    case False
    then show ?thesis
      using 1 [OF False] by (simp add: nat_digits.simps [of n] algebra_simps)
  qed
qed

lemma stoll_unsigned_nat_digits: "stoll_unsigned (nat_digits n) = Some n"
proof -
  obtain c cs where e: "nat_digits n = c # cs" using nat_digits_nonempty by (cases "nat_digits n") auto
  then obtain d where d: "d < 10" "c = char_of (48 + d :: nat)"
    using nat_digits_digit [of c n] by auto
  have "read_digits (nat_digits n) 0 = n" using read_digits_nat_digits [of n "[]" 0] by simp
  with e d show ?thesis by simp
qed

lemma nat_digits_head: "nat_digits n = c # cs \<Longrightarrow> \<not> is_space c \<and> c \<noteq> CHR ''-'' \<and> c \<noteq> CHR ''+''"
proof -
  assume "nat_digits n = c # cs"
  then obtain d where d: "d < 10" "c = char_of (48 + d :: nat)"
    using nat_digits_digit [of c n] by auto
  have "(of_char c :: nat) = 48 + d" using d by simp
  moreover have "(of_char (CHR ''-'') :: nat) = 45" "(of_char (CHR ''+'') :: nat) = 43" by simp_all
  ultimately show ?thesis by (auto simp: is_space_def Let_def)
qed

lemma stoll_to_string [simp]: "int64_ok i \<Longrightarrow> stoll (to_string i) = Some i"
proof -
  assume i: "int64_ok i"
  have "stoll_raw (to_string i) = Some i"
  proof (cases "i < 0")
    case True
    then show ?thesis by (simp add: to_string_def stoll_raw_def is_space_def stoll_unsigned_nat_digits)
  next
    case False
    obtain c cs where e: "nat_digits (nat i) = c # cs" by (cases "nat_digits (nat i)") auto
    from stoll_unsigned_nat_digits [of "nat i"] False nat_digits_head [OF e] show ?thesis
      by (simp add: to_string_def stoll_raw_def e)
  qed
  with i show ?thesis by (simp add: stoll_def)
qed

section \<open>Numbers of a JSON document\<close>

text \<open>\<open>get<int64_t>\<close> converts any number; a real is cut towards zero.\<close>

definition cut :: "rat \<Rightarrow> int" where
  "cut r = (if r < 0 then - \<lfloor>- r\<rfloor> else \<lfloor>r\<rfloor>)"

fun int_item :: "json \<Rightarrow> int option" where
  "int_item (JInt i) = Some i"
| "int_item (JReal r) = Some (cut r)"
| "int_item _ = None"

text \<open>\<open>static_cast<int>\<close> of a 64-bit integer.\<close>

definition to_int32 :: "int \<Rightarrow> int" where
  "to_int32 i = sint (of_int i :: 32 word)"

lemma to_int32_id: "int32_ok i \<Longrightarrow> to_int32 i = i"
  unfolding to_int32_def int32_ok_def
  by (simp add: sint_sbintrunc' signed_take_bit_int_eq_self)

lemma to_int32_ok: "int32_ok (to_int32 i)"
  using sint_ge [of "of_int i :: 32 word"] sint_lt [of "of_int i :: 32 word"]
  by (simp add: to_int32_def int32_ok_def)

text \<open>\<open>get<int>\<close> also takes a boolean.\<close>

fun int32_item :: "json \<Rightarrow> int option" where
  "int32_item (JInt i) = Some (to_int32 i)"
| "int32_item (JReal r) = Some (to_int32 (cut r))"
| "int32_item (JBool b) = Some (if b then 1 else 0)"
| "int32_item _ = None"

definition field_of :: "(json \<Rightarrow> 'a option) \<Rightarrow> string \<Rightarrow> json \<Rightarrow> 'a field" where
  "field_of get k j =
    (case j of
       JObj kvs \<Rightarrow>
         (case map_of kvs k of
            None \<Rightarrow> Absent
          | Some v \<Rightarrow> (case get v of Some x \<Rightarrow> Given x | None \<Rightarrow> IllTyped))
     | _ \<Rightarrow> IllTyped)"

abbreviation jlong :: "string \<Rightarrow> json \<Rightarrow> int field" where
  "jlong \<equiv> field_of int_item"

abbreviation jint32 :: "string \<Rightarrow> json \<Rightarrow> int field" where
  "jint32 \<equiv> field_of int32_item"

text \<open>\<open>j[k]\<close> of an object, if it is there.\<close>

fun member :: "string \<Rightarrow> json \<Rightarrow> json option" where
  "member k (JObj kvs) = map_of kvs k"
| "member k _ = None"

text \<open>\<open>get<std::vector<T>>\<close>: every element has to convert.\<close>

fun all_items :: "('a \<Rightarrow> 'b option) \<Rightarrow> 'a list \<Rightarrow> 'b list option" where
  "all_items f [] = Some []"
| "all_items f (x # xs) =
     (case f x of None \<Rightarrow> None
      | Some y \<Rightarrow> (case all_items f xs of None \<Rightarrow> None | Some ys \<Rightarrow> Some (y # ys)))"

lemma all_items_map [simp]: "(\<And>x. f (g x) = Some x) \<Longrightarrow> all_items f (map g xs) = Some xs"
  by (induction xs) simp_all

lemma all_items_length: "all_items f xs = Some ys \<Longrightarrow> length ys = length xs"
  by (induction xs arbitrary: ys) (auto split: option.splits)

section \<open>ILIKE\<close>

definition tolower :: "char \<Rightarrow> char" where
  "tolower c = (let n = (of_char c :: nat) in if 65 \<le> n \<and> n \<le> 90 then char_of (n + 32) else c)"

text \<open>
  A pattern: \<open>%\<close> is any text, \<open>_\<close> any character, a backslash takes the next character literally.
\<close>

fun sql_like :: "string \<Rightarrow> string \<Rightarrow> bool" where
  "sql_like [] s = (s = [])"
| "sql_like (p # ps) [] = (p = CHR ''%'' \<and> sql_like ps [])"
| "sql_like (p # ps) (c # cs) =
     (if p = CHR ''%'' then sql_like ps (c # cs) \<or> sql_like (p # ps) cs
      else if p = CHR ''_'' then sql_like ps cs
      else if p = CHR 0x5C then (case ps of [] \<Rightarrow> False | q # qs \<Rightarrow> q = c \<and> sql_like qs cs)
      else p = c \<and> sql_like ps cs)"

definition ilike :: "string \<Rightarrow> string \<Rightarrow> bool" where
  "ilike s pat = sql_like (map tolower pat) (map tolower s)"

definition contains_keyword :: "string \<Rightarrow> string \<Rightarrow> bool" where
  "contains_keyword kw s = ilike s (''%'' @ kw @ ''%'')"

section \<open>Tables\<close>

text \<open>Foreign keys and joins: a column that may be NULL, and the text a left join adds.\<close>

definition zero_null :: "int \<Rightarrow> int option" where
  "zero_null i = (if i = 0 then None else Some i)"

definition known_in :: "int list \<Rightarrow> int option \<Rightarrow> bool" where
  "known_in ids i = (case i of None \<Rightarrow> True | Some k \<Rightarrow> k \<in> set ids)"

definition lookup_text :: "(int \<times> string) list \<Rightarrow> int option \<Rightarrow> string" where
  "lookup_text tab i = (case i of None \<Rightarrow> [] | Some k \<Rightarrow> (case map_of tab k of None \<Rightarrow> [] | Some t \<Rightarrow> t))"

definition or_else :: "'a option \<Rightarrow> 'a \<Rightarrow> 'a" where
  "or_else x d = (case x of None \<Rightarrow> d | Some v \<Rightarrow> v)"

text \<open>Counts and groups.\<close>

definition count_if :: "('a \<Rightarrow> bool) \<Rightarrow> 'a list \<Rightarrow> int" where
  "count_if p xs = int (length (filter p xs))"

text \<open>
  \<open>GROUP BY\<close>: the groups in the order of their keys' first rows. SQL leaves the order of groups with equal
  counts open.
\<close>

definition groups :: "('a \<Rightarrow> 'k) \<Rightarrow> 'a list \<Rightarrow> ('k \<times> 'a list) list" where
  "groups k rows = map (\<lambda>x. (x, filter (\<lambda>r. k r = x) rows)) (remdups (map k rows))"

lemma sum_groups:
  fixes f :: "'a \<Rightarrow> int"
  shows "sum_list (map (\<lambda>(x, rs). sum_list (map f rs)) (groups k rows)) = sum_list (map f rows)"
proof -
  have "sum_list (map f rows) = (\<Sum>x\<in>set (map k rows). sum_list (map f (filter (\<lambda>r. k r = x) rows)))"
  proof (induction rows)
    case (Cons r rows)
    let ?g = "\<lambda>x. sum_list (map f (filter (\<lambda>r. k r = x) rows))"
    have z: "?g x = 0" if "x \<notin> set (map k rows)" for x
    proof -
      have "filter (\<lambda>r. k r = x) rows = []" using that by (auto simp: filter_empty_conv)
      then show ?thesis by simp
    qed
    have "(\<Sum>x\<in>set (map k (r # rows)). ?g x) = (\<Sum>x\<in>set (map k rows). ?g x)"
      by (rule sum.mono_neutral_right) (auto intro: z)
    moreover have "(\<Sum>x\<in>set (map k (r # rows)). (if k r = x then f r else 0)) = f r"
      by (subst sum.delta') simp_all
    moreover have "sum_list (map f (filter (\<lambda>q. k q = x) (r # rows))) = (if k r = x then f r else 0) + ?g x" for x
      by simp
    ultimately show ?case using Cons by (simp add: sum.distrib del: filter.simps set_map)
  qed simp
  also have "\<dots> = sum_list (map (\<lambda>x. sum_list (map f (filter (\<lambda>r. k r = x) rows))) (remdups (map k rows)))"
    by (simp only: sum_list_distinct_conv_sum_set [OF distinct_remdups] set_remdups)
  finally show ?thesis by (simp add: groups_def comp_def)
qed

lemma count_if_sum: "count_if p rows = sum_list (map (\<lambda>r. if p r then 1 else 0) rows)"
  by (induction rows) (simp_all add: count_if_def)

lemma length_sum: "int (length rows) = sum_list (map (\<lambda>r. 1) rows)"
  by (induction rows) simp_all

section \<open>Paging\<close>

definition clampPage :: "int \<Rightarrow> int \<Rightarrow> int \<times> int" where
  "clampPage page psize = (if page < 1 then 1 else page, if psize < 1 \<or> psize > 200 then 20 else psize)"

text \<open>The product of two \<open>int\<close>: None is the signed overflow.\<close>

definition page_offset :: "int \<Rightarrow> int \<Rightarrow> int option" where
  "page_offset page psize = (if int32_ok ((page - 1) * psize) then Some ((page - 1) * psize) else None)"

definition page_rows :: "int \<Rightarrow> int \<Rightarrow> 'a list \<Rightarrow> 'a list option" where
  "page_rows page psize rows =
    map_option (\<lambda>off. take (nat psize) (drop (nat off) rows)) (page_offset page psize)"

record 'a page_result =
  pg_list :: "'a list"
  pg_total :: int
  pg_page :: int
  pg_size :: int

text \<open>A list request: the page, then the count; each query may fail.\<close>

definition list_page :: "bool \<Rightarrow> bool \<Rightarrow> int \<Rightarrow> int \<Rightarrow> 'a list \<Rightarrow> 'a page_result reply" where
  "list_page list_ok count_ok page psize rows =
    (case clampPage page psize of
       (p, n) \<Rightarrow>
         (case page_rows p n rows of
            None \<Rightarrow> Undetermined
          | Some xs \<Rightarrow>
              if \<not> list_ok \<or> \<not> count_ok then Refuse 500 ''database error''
              else Answer \<lparr>pg_list = xs, pg_total = int (length rows), pg_page = p, pg_size = n\<rparr>))"

lemma clampPage_range:
  "clampPage page psize = (p, n) \<Longrightarrow> 1 \<le> p \<and> 1 \<le> n \<and> n \<le> 200 \<and> (1 \<le> page \<longrightarrow> p = page) \<and> (1 \<le> psize \<and> psize \<le> 200 \<longrightarrow> n = psize)"
  by (auto simp: clampPage_def)

lemma page_offset_defined:
  assumes "1 \<le> page" and "1 \<le> n" "n \<le> 200"
  shows "page \<le> 10737419 \<Longrightarrow> page_offset page n = Some ((page - 1) * n)"
    and "n = 200 \<Longrightarrow> 10737419 < page \<Longrightarrow> page_offset page n = None"
proof -
  have nn: "0 \<le> (page - 1) * n" using assms by simp
  show "page_offset page n = Some ((page - 1) * n)" if "page \<le> 10737419"
  proof -
    have "(page - 1) * n \<le> 10737418 * 200" using that assms by (intro mult_mono) simp_all
    with nn show ?thesis by (simp add: page_offset_def int32_ok_def)
  qed
  show "page_offset page n = None" if "n = 200" "10737419 < page"
    using that by (simp add: page_offset_def int32_ok_def)
qed

lemma pages_concat:
  assumes "0 < n"
  shows "concat (map (\<lambda>k. take n (drop (k * n) rows)) [0..<m]) = take (m * n) rows"
proof (induction m)
  case (Suc m)
  have "take (m * n + n) rows = take (m * n) rows @ take n (drop (m * n) rows)" by (rule take_add)
  with Suc show ?case by (simp add: add.commute)
qed simp

section \<open>Properties\<close>

text \<open>Paging: with a page size from 1 to 200 the pages 1, 2, .. put together are the rows, none missing
  and none twice, each page reports the number of all rows, and the offset is computed without
  overflow up to page 10737419; with 200 rows a page the next one overflows the C++ \<open>int\<close>.\<close>

theorem paging_covers:
  assumes "1 \<le> n" and "n \<le> 200" and "length rows \<le> m * nat n" and "m \<le> 10737419"
  shows "concat (map (\<lambda>k. case list_page True True (int k + 1) n rows of Answer r \<Rightarrow> pg_list r | _ \<Rightarrow> []) [0..<m]) = rows \<and>
    (\<forall>k. k < 10737419 \<longrightarrow> (\<exists>r. list_page True True (int k + 1) n rows = Answer r \<and> pg_total r = int (length rows))) \<and>
    (\<forall>p. 10737419 < p \<longrightarrow> list_page True True p 200 rows = Undetermined)"
proof (intro conjI allI impI)
  have one: "list_page True True (int k + 1) n rows =
      Answer \<lparr>pg_list = take (nat n) (drop (k * nat n) rows), pg_total = int (length rows), pg_page = int k + 1, pg_size = n\<rparr>"
    if "k < 10737419" for k
  proof -
    have c: "clampPage (int k + 1) n = (int k + 1, n)" using assms(1,2) by (simp add: clampPage_def)
    have "page_offset (int k + 1) n = Some (int k * n)"
      using page_offset_defined(1) [of "int k + 1" n] assms(1,2) that by simp
    moreover have "nat (int k * n) = k * nat n" using assms(1) by (simp add: nat_mult_distrib)
    ultimately show ?thesis by (simp add: list_page_def c page_rows_def)
  qed
  have e: "map (\<lambda>k. case list_page True True (int k + 1) n rows of Answer r \<Rightarrow> pg_list r | _ \<Rightarrow> []) [0..<m] =
      map (\<lambda>k. take (nat n) (drop (k * nat n) rows)) [0..<m]"
    using one assms(4) by (intro map_cong) auto
  show "concat (map (\<lambda>k. case list_page True True (int k + 1) n rows of Answer r \<Rightarrow> pg_list r | _ \<Rightarrow> []) [0..<m]) = rows"
    unfolding e using pages_concat [of "nat n" rows m] assms(1,3) by simp
  show "\<exists>r. list_page True True (int k + 1) n rows = Answer r \<and> pg_total r = int (length rows)" if "k < 10737419" for k
    using one [OF that] by simp
  show "list_page True True p 200 rows = Undetermined" if "10737419 < p" for p
    using page_offset_defined(2) [of p 200] that by (simp add: list_page_def clampPage_def page_rows_def)
qed

theorem paging_covers_witness:
  "concat (map (\<lambda>k. case list_page True True (int k + 1) 2 [10, 20, 30 :: int] of Answer r \<Rightarrow> pg_list r | _ \<Rightarrow> []) [0..<2])
    = [10, 20, 30]"
  using paging_covers [of 2 "[10, 20, 30 :: int]" 2] by simp

end
