(* ===== verification/Jwt_Tokens.thy ===== *)
theory Jwt_Tokens
  imports Request_Data
begin

text \<open>
  Tokens (\<open>utils/JwtUtils.cc\<close>) and digests in hexadecimal (\<open>utils/CryptoUtils.hh\<close>): the claims an
  access and a refresh token carry and how they are read back. The library jwt-cpp is a parameter:
  a function that signs a JSON payload and one that checks signature and expiry and returns the
  payload. The secret is inside these two functions.
\<close>

section \<open>Claims\<close>

record token_payload =
  tp_user :: int
  tp_username :: string
  tp_dept :: int
  tp_roles :: "string list"
  tp_scope :: int
  tp_custom :: "int list"
  tp_session :: string
  tp_jti :: string
  tp_iat :: int
  tp_exp :: int

text \<open>The library and the two lifetimes of the configuration.\<close>

record jwt_env =
  je_sign :: "json \<Rightarrow> string"
  je_verify :: "int \<Rightarrow> string \<Rightarrow> json option"
  je_access :: int
  je_refresh :: int

text \<open>The lifetimes \<open>init\<close> keeps: a value that is not positive leaves the default.\<close>

definition init_ttl :: "int \<Rightarrow> int \<Rightarrow> int" where
  "init_ttl configured def = (if configured > 0 then configured else def)"

definition access_claims :: "int \<Rightarrow> int \<Rightarrow> token_payload \<Rightarrow> json" where
  "access_claims ttl now p = JObj
    [(''sub'', JStr (to_string (tp_user p))),
     (''username'', JStr (tp_username p)),
     (''dept_id'', JStr (to_string (tp_dept p))),
     (''roles'', JArr (map JStr (tp_roles p))),
     (''data_scope'', JInt (tp_scope p)),
     (''custom_dept_ids'', JArr (map JInt (tp_custom p))),
     (''session_id'', JStr (tp_session p)),
     (''typ'', JStr ''access''),
     (''iat'', JInt now),
     (''jti'', JStr (tp_jti p)),
     (''exp'', JInt (now + ttl))]"

definition signAccessToken :: "jwt_env \<Rightarrow> int \<Rightarrow> token_payload \<Rightarrow> string" where
  "signAccessToken J now p = je_sign J (access_claims (je_access J) now p)"

definition refresh_claims :: "int \<Rightarrow> int \<Rightarrow> int \<Rightarrow> string \<Rightarrow> json" where
  "refresh_claims ttl now uid session = JObj
    [(''sub'', JStr (to_string uid)),
     (''session_id'', JStr session),
     (''typ'', JStr ''refresh''),
     (''iat'', JInt now),
     (''exp'', JInt (now + ttl))]"

definition signRefreshToken :: "jwt_env \<Rightarrow> int \<Rightarrow> int \<Rightarrow> string \<Rightarrow> string" where
  "signRefreshToken J now uid session = je_sign J (refresh_claims (je_refresh J) now uid session)"

text \<open>A claim that has to be there with its type: None is the exception \<open>catch (...)\<close> ends in.\<close>

fun given :: "'a field \<Rightarrow> 'a option" where
  "given (Given v) = Some v"
| "given _ = None"

fun str_item :: "json \<Rightarrow> string option" where
  "str_item (JStr s) = Some s"
| "str_item _ = None"

definition read_payload :: "json \<Rightarrow> token_payload option" where
  "read_payload j =
    Option.bind (Option.bind (given (jstr ''sub'' j)) stoll) (\<lambda>uid.
    Option.bind (given (jstr ''username'' j)) (\<lambda>username.
    Option.bind (Option.bind (given (jstr ''dept_id'' j)) stoll) (\<lambda>dept.
    Option.bind (Option.bind (given (jarr ''roles'' j)) (all_items str_item)) (\<lambda>roles.
    Option.bind (given (jint ''data_scope'' j)) (\<lambda>dscope.
    Option.bind (Option.bind (given (jarr ''custom_dept_ids'' j)) (all_items int_item)) (\<lambda>custom.
    Option.bind (given (jstr ''session_id'' j)) (\<lambda>session.
    Option.bind (given (jstr ''jti'' j)) (\<lambda>jti.
    Option.bind (given (jint ''iat'' j)) (\<lambda>iat.
    Option.bind (given (jint ''exp'' j)) (\<lambda>expiry.
      Some \<lparr>tp_user = uid, tp_username = username, tp_dept = dept, tp_roles = roles,
            tp_scope = to_int32 dscope, tp_custom = custom, tp_session = session, tp_jti = jti,
            tp_iat = iat, tp_exp = expiry\<rparr>))))))))))"

definition verifyAccessToken :: "jwt_env \<Rightarrow> int \<Rightarrow> string \<Rightarrow> token_payload option" where
  "verifyAccessToken J now tok =
    (case je_verify J now tok of
       None \<Rightarrow> None
     | Some j \<Rightarrow> if jstr ''typ'' j = Given ''access'' then read_payload j else None)"

definition verifyRefreshToken :: "jwt_env \<Rightarrow> int \<Rightarrow> string \<Rightarrow> (int \<times> string) option" where
  "verifyRefreshToken J now tok =
    (case je_verify J now tok of
       None \<Rightarrow> None
     | Some j \<Rightarrow>
         if jstr ''typ'' j = Given ''refresh'' then
           Option.bind (Option.bind (given (jstr ''sub'' j)) stoll) (\<lambda>uid.
           Option.bind (given (jstr ''session_id'' j)) (\<lambda>session. Some (uid, session)))
         else None)"

definition payload_ok :: "token_payload \<Rightarrow> bool" where
  "payload_ok p \<longleftrightarrow> int64_ok (tp_user p) \<and> int64_ok (tp_dept p) \<and> int32_ok (tp_scope p)"

text \<open>What jwt-cpp documents: a token it signed verifies until its expiry and gives the payload back.\<close>

definition jwt_reads :: "jwt_env \<Rightarrow> json \<Rightarrow> bool" where
  "jwt_reads J j \<longleftrightarrow> (\<exists>e. jint ''exp'' j = Given e \<and>
     (\<forall>now. je_verify J now (je_sign J j) = (if now \<le> e then Some j else None)))"

lemma jwt_readsD:
  "jwt_reads J j \<Longrightarrow> jint ''exp'' j = Given e \<Longrightarrow> je_verify J now (je_sign J j) = (if now \<le> e then Some j else None)"
  by (auto simp: jwt_reads_def)

lemma claims_exp [simp]:
  "jint ''exp'' (access_claims ttl t p) = Given (t + ttl)"
  "jint ''exp'' (refresh_claims ttl t uid sid) = Given (t + ttl)"
  by (simp_all add: access_claims_def refresh_claims_def)

lemma claims_typ [simp]:
  "jstr ''typ'' (access_claims ttl t p) = Given ''access''"
  "jstr ''typ'' (refresh_claims ttl t uid sid) = Given ''refresh''"
  by (simp_all add: access_claims_def refresh_claims_def)

lemma verify_access_signed:
  assumes "jwt_reads J (access_claims (je_access J) t p)" and "payload_ok p"
  shows "verifyAccessToken J now (signAccessToken J t p) =
    (if now \<le> t + je_access J then Some (p\<lparr>tp_iat := t, tp_exp := t + je_access J\<rparr>) else None)"
proof -
  have "read_payload (access_claims (je_access J) t p) = Some (p\<lparr>tp_iat := t, tp_exp := t + je_access J\<rparr>)"
    using assms(2) by (simp add: payload_ok_def read_payload_def access_claims_def to_int32_id)
  then show ?thesis
    using jwt_readsD [OF assms(1) claims_exp(1)] by (simp add: verifyAccessToken_def signAccessToken_def)
qed

lemma verify_refresh_signed:
  assumes "jwt_reads J (refresh_claims (je_refresh J) t uid sid)" and "int64_ok uid"
  shows "verifyRefreshToken J now (signRefreshToken J t uid sid) =
    (if now \<le> t + je_refresh J then Some (uid, sid) else None)"
proof -
  have "jstr ''sub'' (refresh_claims (je_refresh J) t uid sid) = Given (to_string uid)"
    "jstr ''session_id'' (refresh_claims (je_refresh J) t uid sid) = Given sid"
    by (simp_all add: refresh_claims_def)
  then show ?thesis
    using jwt_readsD [OF assms(1) claims_exp(2)] assms(2)
    by (simp add: verifyRefreshToken_def signRefreshToken_def)
qed

lemma typ_confusion:
  "jwt_reads J (refresh_claims (je_refresh J) t uid sid) \<Longrightarrow>
    verifyAccessToken J now (signRefreshToken J t uid sid) = None"
  "jwt_reads J (access_claims (je_access J) t p) \<Longrightarrow>
    verifyRefreshToken J now (signAccessToken J t p) = None"
  by (simp_all add: verifyAccessToken_def signRefreshToken_def verifyRefreshToken_def signAccessToken_def
      jwt_readsD [OF _ claims_exp(1)] jwt_readsD [OF _ claims_exp(2)])

section \<open>Digests\<close>

text \<open>The two hexadecimal digits of each byte of a SHA-256 digest, which is a parameter.\<close>

definition hex_char :: "nat \<Rightarrow> char" where
  "hex_char n = ''0123456789abcdef'' ! n"

fun hex_bytes :: "char list \<Rightarrow> string" where
  "hex_bytes [] = []"
| "hex_bytes (c # cs) = hex_char (of_char c div 16) # hex_char (of_char c mod 16) # hex_bytes cs"

definition sha256Hex :: "(string \<Rightarrow> char list) \<Rightarrow> string \<Rightarrow> string" where
  "sha256Hex sha s = hex_bytes (sha s)"

lemma hex_char_plain: "n < 16 \<Longrightarrow> hex_char n \<in> set ''0123456789abcdef''"
  unfolding hex_char_def by (rule nth_mem) simp

lemma hex_bytes_plain: "CHR ''|'' \<notin> set (hex_bytes cs)"
proof (induction cs)
  case (Cons c cs)
  have n: "(of_char c :: nat) < 256" by simp
  then have "(of_char c :: nat) div 16 < 16" "(of_char c :: nat) mod 16 < 16" by linarith simp
  from this [THEN hex_char_plain] Cons show ?case by auto
qed simp

lemma sha256Hex_plain: "CHR ''|'' \<notin> set (sha256Hex sha s)"
  by (simp add: sha256Hex_def hex_bytes_plain)

section \<open>Properties\<close>

text \<open>C14: an access token reads back exactly the payload it was signed with, issue and expiry times
  filled in, until it expires; a refresh token reads back user and session; and neither kind is
  accepted in place of the other.\<close>

theorem token_roundtrip:
  assumes "jwt_reads J (access_claims (je_access J) t p)"
    and "jwt_reads J (refresh_claims (je_refresh J) t (tp_user p) sid)" and "payload_ok p"
  shows "verifyAccessToken J now (signAccessToken J t p) =
      (if now \<le> t + je_access J then Some (p\<lparr>tp_iat := t, tp_exp := t + je_access J\<rparr>) else None) \<and>
    verifyRefreshToken J now (signRefreshToken J t (tp_user p) sid) =
      (if now \<le> t + je_refresh J then Some (tp_user p, sid) else None) \<and>
    verifyAccessToken J now (signRefreshToken J t (tp_user p) sid) = None \<and>
    verifyRefreshToken J now (signAccessToken J t p) = None"
  using verify_access_signed [OF assms(1,3)] verify_refresh_signed [OF assms(2)]
    typ_confusion(1) [OF assms(2)] typ_confusion(2) [OF assms(1)] assms(3)
  by (simp add: payload_ok_def)

text \<open>
  A library for examples: it signs by the type of the token and knows one payload of each type.
\<close>

definition known_jwt :: "json \<Rightarrow> json \<Rightarrow> jwt_env" where
  "known_jwt a r = \<lparr>je_sign = (\<lambda>j. if jstr ''typ'' j = Given ''access'' then ''A'' else ''R''),
     je_verify = (\<lambda>now tok.
       let j = (if tok = ''A'' then a else if tok = ''R'' then r else JNull) in
       case jint ''exp'' j of Given e \<Rightarrow> if now \<le> e then Some j else None | _ \<Rightarrow> None),
     je_access = 7200, je_refresh = 604800\<rparr>"

lemma known_jwt_reads:
  "jwt_reads (known_jwt (access_claims 7200 t p) r) (access_claims 7200 t p)"
  "jwt_reads (known_jwt a (refresh_claims 604800 t uid sid)) (refresh_claims 604800 t uid sid)"
  by (simp_all add: jwt_reads_def known_jwt_def)

lemma known_jwt_ttl [simp]: "je_access (known_jwt a r) = 7200" "je_refresh (known_jwt a r) = 604800"
  by (simp_all add: known_jwt_def)

definition demo_payload :: token_payload where
  "demo_payload = \<lparr>tp_user = 7, tp_username = ''ann'', tp_dept = 2, tp_roles = [''OP''], tp_scope = 3,
     tp_custom = [], tp_session = ''S'', tp_jti = ''J'', tp_iat = 0, tp_exp = 0\<rparr>"

lemma demo_payload_ok: "payload_ok demo_payload"
  by (simp add: payload_ok_def demo_payload_def int64_ok_def int32_ok_def)

definition demo_jwt :: jwt_env where
  "demo_jwt = known_jwt (access_claims 7200 10 demo_payload) (refresh_claims 604800 10 7 ''S'')"

theorem token_roundtrip_witness:
  "verifyAccessToken demo_jwt 50 (signAccessToken demo_jwt 10 demo_payload) =
    Some (demo_payload\<lparr>tp_iat := 10, tp_exp := 7210\<rparr>)"
proof -
  have t: "je_access demo_jwt = 7200" "je_refresh demo_jwt = 604800" by (simp_all add: demo_jwt_def)
  have "jwt_reads demo_jwt (access_claims (je_access demo_jwt) 10 demo_payload)"
    "jwt_reads demo_jwt (refresh_claims (je_refresh demo_jwt) 10 (tp_user demo_payload) ''S'')"
    unfolding t by (simp_all add: demo_jwt_def known_jwt_reads demo_payload_def)
  from token_roundtrip [OF this demo_payload_ok, of 50] show ?thesis
    unfolding t by simp
qed

end
