(* ===== verification/Auth.thy ===== *)
theory Auth
  imports Rbac Captcha Jwt_Tokens
begin

text \<open>
  Authentication (\<open>services/AuthService.cc\<close>): login with its captcha, verification cache, failure
  counter and lock, the issue of a pair of tokens, refresh with rotation, logout, profile, change
  of password and the captcha. Users live in a table; captchas and the black list of sessions in
  Redis with expiry times. bcrypt and SHA-256 are parameters, and which of the database and Redis
  commands of a request are answered is in its environment. Times are seconds; the clock of the
  permission caches is the clock of all of them. Messages are ASCII glosses.
\<close>

section \<open>State\<close>

record user_row =
  us_id :: int
  us_name :: string
  us_hash :: string
  us_real :: string
  us_empno :: "string option"
  us_email :: "string option"
  us_phone :: "string option"
  us_gender :: int
  us_status :: int
  us_deleted :: bool
  us_fail :: int
  us_dept :: "int option"
  us_last_login :: "int option"
  us_last_ip :: "string option"

record department =
  de_id :: int
  de_parent :: "int option"
  de_code :: string
  de_name :: string
  de_sort :: int
  de_leader :: "int option"
  de_phone :: string
  de_status :: int
  de_deleted :: bool

record auth =
  a_users :: "user_row list"
  a_depts :: "department list"
  a_rbac :: rbac
  a_verify :: "(string \<times> int) list"
  a_captcha :: "string \<Rightarrow> (string \<times> int) option"
  a_black :: "string \<Rightarrow> int option"

text \<open>
  The database answers selects and updates, Redis answers reads and writes, what the driver gives
  for a missing key read as a string (None: it throws), the permission service, the values the
  random number generator gives, the salt of a new hash and the client.
\<close>

record auth_env =
  ae_db :: bool
  ae_dbw :: bool
  ae_redis :: bool
  ae_redisw :: bool
  ae_nil :: "string option"
  ae_rbac :: rbac_env
  ae_draws :: "nat list"
  ae_ip :: string

record crypto =
  cy_validate :: "string \<Rightarrow> string \<Rightarrow> bool option"
  cy_generate :: "string \<Rightarrow> int \<Rightarrow> string"
  cy_sha :: "string \<Rightarrow> char list"

definition clock :: "auth \<Rightarrow> int" where
  "clock s = rb_now (a_rbac s)"

definition hashPassword :: "crypto \<Rightarrow> string \<Rightarrow> string" where
  "hashPassword C plain = cy_generate C plain 10"

definition verifyPassword :: "crypto \<Rightarrow> string \<Rightarrow> string \<Rightarrow> bool" where
  "verifyPassword C plain hash = (case cy_validate C plain hash of Some b \<Rightarrow> b | None \<Rightarrow> False)"

section \<open>The verification cache\<close>

definition kVerifyCacheMax :: nat where "kVerifyCacheMax = 10000"
definition kVerifyCacheTtlSec :: int where "kVerifyCacheTtlSec = 60"

definition verifyCacheGet :: "string \<Rightarrow> auth \<Rightarrow> bool \<times> auth" where
  "verifyCacheGet k s =
    (case map_of (a_verify s) k of
       None \<Rightarrow> (False, s)
     | Some t \<Rightarrow>
         if clock s > t then (False, s\<lparr>a_verify := filter (\<lambda>kt. fst kt \<noteq> k) (a_verify s)\<rparr>)
         else (True, s))"

definition verifyCachePut :: "string \<Rightarrow> auth \<Rightarrow> auth" where
  "verifyCachePut k s =
    (let m = (if length (a_verify s) \<ge> kVerifyCacheMax then [] else a_verify s) in
     s\<lparr>a_verify := (k, clock s + kVerifyCacheTtlSec) # filter (\<lambda>kt. fst kt \<noteq> k) m\<rparr>)"

definition cache_key :: "crypto \<Rightarrow> string \<Rightarrow> string \<Rightarrow> string \<Rightarrow> string \<Rightarrow> string" where
  "cache_key C username ip password hash =
    username @ ''|'' @ ip @ ''|'' @ sha256Hex (cy_sha C) password @ ''|'' @ hash"

section \<open>Tokens\<close>

definition random_alphabet :: string where
  "random_alphabet = ''ABCDEFGHJKLMNPQRSTUVWXYZ23456789''"

definition randomCode :: "nat list \<Rightarrow> string" where
  "randomCode draws = map (\<lambda>d. random_alphabet ! (d mod 32)) draws"

definition session_of :: "auth_env \<Rightarrow> string" where
  "session_of e = randomCode (take 32 (ae_draws e))"

definition jti_of :: "auth_env \<Rightarrow> string" where
  "jti_of e = randomCode (take 32 (drop 32 (ae_draws e)))"

record login_data =
  ld_access :: string
  ld_refresh :: string
  ld_expires :: int
  ld_token_type :: string
  ld_user :: int
  ld_username :: string
  ld_dept_name :: string
  ld_roles :: "string list"
  ld_perms :: "string list"

definition new_payload :: "auth_env \<Rightarrow> int \<Rightarrow> string \<Rightarrow> int \<Rightarrow> scope_result \<Rightarrow> token_payload" where
  "new_payload e uid username dept sc =
    \<lparr>tp_user = uid, tp_username = username, tp_dept = dept, tp_roles = sc_roles sc, tp_scope = sc_scope sc,
     tp_custom = sc_custom sc, tp_session = session_of e, tp_jti = jti_of e, tp_iat = 0, tp_exp = 0\<rparr>"

definition issueTokens ::
  "jwt_env \<Rightarrow> auth_env \<Rightarrow> int \<Rightarrow> string \<Rightarrow> int \<Rightarrow> string \<Rightarrow> scope_result \<Rightarrow> auth \<Rightarrow> login_data reply \<times> auth" where
  "issueTokens J e uid username dept dept_name sc s =
    (let p = new_payload e uid username dept sc;
         d = \<lparr>ld_access = signAccessToken J (clock s) p,
              ld_refresh = signRefreshToken J (clock s) uid (tp_session p),
              ld_expires = 7200, ld_token_type = ''Bearer'', ld_user = uid, ld_username = username,
              ld_dept_name = dept_name, ld_roles = sc_roles sc, ld_perms = []\<rparr> in
     case getUserPermissions (ae_rbac e) uid (a_rbac s) of
       (PermOk perms, rb) \<Rightarrow> (Answer (d\<lparr>ld_perms := perms\<rparr>), s\<lparr>a_rbac := rb\<rparr>)
     | (PermErr, rb) \<Rightarrow> (Answer d, s\<lparr>a_rbac := rb\<rparr>)
     | (NoCallback, rb) \<Rightarrow> (Silent, s\<lparr>a_rbac := rb\<rparr>))"

definition dept_name_of :: "auth \<Rightarrow> user_row \<Rightarrow> string" where
  "dept_name_of s r =
    (case us_dept r of
       None \<Rightarrow> []
     | Some d \<Rightarrow> (case first_row (\<lambda>q. de_id q = d) (a_depts s) of None \<Rightarrow> [] | Some q \<Rightarrow> de_name q))"

definition dept_or_zero :: "user_row \<Rightarrow> int" where
  "dept_or_zero r = (case us_dept r of None \<Rightarrow> 0 | Some d \<Rightarrow> d)"

text \<open>The two merges: the scope, then the tokens with the permissions.\<close>

definition scoped_tokens :: "jwt_env \<Rightarrow> auth_env \<Rightarrow> user_row \<Rightarrow> int \<Rightarrow> auth \<Rightarrow> login_data reply \<times> auth" where
  "scoped_tokens J e r uid s =
    (case loadMergedScope (ae_rbac e) uid (a_rbac s) of
       (None, rb) \<Rightarrow> (Refuse 500 ''scope query failed'', s\<lparr>a_rbac := rb\<rparr>)
     | (Some sc, rb) \<Rightarrow>
         issueTokens J e uid (us_name r) (dept_or_zero r) (dept_name_of s r) sc (s\<lparr>a_rbac := rb\<rparr>))"

section \<open>Login\<close>

definition count_failure :: "user_row \<Rightarrow> user_row" where
  "count_failure r =
    r\<lparr>us_fail := us_fail r + 1, us_status := (if us_fail r + 1 \<ge> 5 then 2 else us_status r)\<rparr>"

definition stale_login :: "int \<Rightarrow> user_row \<Rightarrow> bool" where
  "stale_login now r = (case us_last_login r of None \<Rightarrow> True | Some t \<Rightarrow> t < now - 60)"

definition count_success :: "int \<Rightarrow> string \<Rightarrow> user_row \<Rightarrow> user_row" where
  "count_success now ip r =
    r\<lparr>us_fail := 0,
      us_last_login := (if stale_login now r then Some now else us_last_login r),
      us_last_ip := (if stale_login now r then Some ip else us_last_ip r)\<rparr>"

definition update_users :: "bool \<Rightarrow> int \<Rightarrow> (user_row \<Rightarrow> user_row) \<Rightarrow> auth \<Rightarrow> auth" where
  "update_users done uid f s =
    (if done then s\<lparr>a_users := upd_where (\<lambda>r. us_id r = uid) f (a_users s)\<rparr> else s)"

definition handleVerified :: "jwt_env \<Rightarrow> auth_env \<Rightarrow> user_row \<Rightarrow> bool \<Rightarrow> auth \<Rightarrow> login_data reply \<times> auth" where
  "handleVerified J e r verified s =
    (if \<not> verified then
       (Refuse 401 ''wrong user name or password'', update_users (ae_dbw e) (us_id r) count_failure s)
     else
       scoped_tokens J e r (us_id r)
         (update_users (ae_dbw e) (us_id r) (count_success (clock s) (ae_ip e)) s))"

definition check_password :: "crypto \<Rightarrow> auth_env \<Rightarrow> string \<Rightarrow> string \<Rightarrow> user_row \<Rightarrow> auth \<Rightarrow> bool \<times> auth" where
  "check_password C e username password r s =
    (let k = cache_key C username (ae_ip e) password (us_hash r) in
     case verifyCacheGet k s of
       (True, s1) \<Rightarrow> (True, s1)
     | (False, s1) \<Rightarrow>
         if verifyPassword C password (us_hash r) then (True, verifyCachePut k s1) else (False, s1))"

definition login_account ::
  "jwt_env \<Rightarrow> crypto \<Rightarrow> auth_env \<Rightarrow> string \<Rightarrow> string \<Rightarrow> auth \<Rightarrow> login_data reply \<times> auth" where
  "login_account J C e username password s =
    (if \<not> ae_db e then (Refuse 500 ''database error'', s)
     else
       case first_row (\<lambda>r. us_name r = username) (a_users s) of
         None \<Rightarrow> (Refuse 401 ''wrong user name or password'', s)
       | Some r \<Rightarrow>
           if us_deleted r then (Refuse 401 ''wrong user name or password'', s)
           else if us_status r = 0 then (Refuse 403 ''account disabled'', s)
           else if us_status r = 2 then (Refuse 403 ''account locked'', s)
           else case check_password C e username password r s of
             (verified, s1) \<Rightarrow> handleVerified J e r verified s1)"

definition drop_captcha :: "bool \<Rightarrow> string \<Rightarrow> auth \<Rightarrow> auth" where
  "drop_captcha done cid s = (if done then s\<lparr>a_captcha := (a_captcha s)(cid := None)\<rparr> else s)"

text \<open>A live key of Redis.\<close>

definition live :: "int \<Rightarrow> (string \<times> int) option \<Rightarrow> string option" where
  "live now entry = (case entry of None \<Rightarrow> None | Some (v, t) \<Rightarrow> if now < t then Some v else None)"

definition login_captcha ::
  "jwt_env \<Rightarrow> crypto \<Rightarrow> auth_env \<Rightarrow> string \<Rightarrow> string \<Rightarrow> string \<Rightarrow> string \<Rightarrow> auth \<Rightarrow> login_data reply \<times> auth" where
  "login_captcha J C e username password cid code s =
    (if \<not> ae_redis e then (Refuse 500 ''authentication service unavailable'', s)
     else
       case (case live (clock s) (a_captcha s cid) of Some h \<Rightarrow> Some h | None \<Rightarrow> ae_nil e) of
         None \<Rightarrow> (Thrown, s)
       | Some storedHash \<Rightarrow>
           let s1 = drop_captcha (ae_redisw e) cid s in
           if storedHash = [] \<or> \<not> verifyCode code storedHash then (Refuse 400 ''wrong captcha'', s1)
           else login_account J C e username password s1)"

definition login :: "jwt_env \<Rightarrow> crypto \<Rightarrow> auth_env \<Rightarrow> json \<Rightarrow> auth \<Rightarrow> login_data reply \<times> auth" where
  "login J C e body s =
    (case (field_value [] (jstr ''username'' body), field_value [] (jstr ''password'' body)) of
       (Inr username, Inr password) \<Rightarrow>
         if username = [] \<or> password = [] then (Refuse 400 ''user name or password empty'', s)
         else
           (case (field_value [] (jstr ''captcha_id'' body), field_value [] (jstr ''captcha_code'' body)) of
              (Inr cid, Inr code) \<Rightarrow>
                if cid \<noteq> [] then login_captcha J C e username password cid code s
                else login_account J C e username password s
            | _ \<Rightarrow> (Thrown, s))
     | _ \<Rightarrow> (Thrown, s))"

section \<open>Refresh and logout\<close>

definition blacklisted :: "auth \<Rightarrow> string \<Rightarrow> bool" where
  "blacklisted s sid = (case a_black s sid of None \<Rightarrow> False | Some t \<Rightarrow> clock s < t)"

definition blacklist :: "bool \<Rightarrow> string \<Rightarrow> int \<Rightarrow> auth \<Rightarrow> auth" where
  "blacklist done sid ttl s = (if done then s\<lparr>a_black := (a_black s)(sid \<mapsto> clock s + ttl)\<rparr> else s)"

text \<open>The old session goes to the black list once the new tokens are there, whatever Redis answers.\<close>

definition refresh :: "jwt_env \<Rightarrow> auth_env \<Rightarrow> json \<Rightarrow> auth \<Rightarrow> login_data reply \<times> auth" where
  "refresh J e body s =
    (case field_value [] (jstr ''refresh_token'' body) of
       Inl _ \<Rightarrow> (Thrown, s)
     | Inr tok \<Rightarrow>
         (case verifyRefreshToken J (clock s) tok of
            None \<Rightarrow> (Refuse 401 ''refresh_token invalid or expired'', s)
          | Some (uid, sid) \<Rightarrow>
              if \<not> ae_redis e then (Refuse 500 ''authentication service unavailable'', s)
              else if blacklisted s sid then (Refuse 401 ''session logged out'', s)
              else if \<not> ae_db e then (Refuse 500 ''database error'', s)
              else
                (case first_row (\<lambda>r. us_id r = uid \<and> us_status r = 1 \<and> \<not> us_deleted r) (a_users s) of
                   None \<Rightarrow> (Refuse 401 ''user missing or disabled'', s)
                 | Some r \<Rightarrow>
                     (case scoped_tokens J e r uid s of
                        (Answer d, s1) \<Rightarrow> (Answer d, blacklist (ae_redisw e) sid 604800 s1)
                      | (other, s1) \<Rightarrow> (other, s1)))))"

definition logout :: "auth_env \<Rightarrow> string \<Rightarrow> int \<Rightarrow> auth \<Rightarrow> json reply \<times> auth" where
  "logout e sid ttl s =
    (if ae_redisw e then (Answer (JObj [(''logout'', JBool True)]), blacklist True sid ttl s)
     else (Refuse 500 ''redis error'', s))"

section \<open>Profile, password and captcha\<close>

record profile_data =
  pf_id :: int
  pf_username :: string
  pf_real :: string
  pf_empno :: string
  pf_dept :: string
  pf_perms :: "string list option"

definition profile :: "auth_env \<Rightarrow> int \<Rightarrow> auth \<Rightarrow> profile_data reply \<times> auth" where
  "profile e uid s =
    (if \<not> ae_db e then (Refuse 500 ''database error'', s)
     else
       case first_row (\<lambda>r. us_id r = uid) (a_users s) of
         None \<Rightarrow> (Refuse 404 ''user not found'', s)
       | Some r \<Rightarrow>
           let d = \<lparr>pf_id = us_id r, pf_username = us_name r, pf_real = us_real r,
                    pf_empno = (case us_empno r of None \<Rightarrow> [] | Some n \<Rightarrow> n),
                    pf_dept = dept_name_of s r, pf_perms = None\<rparr> in
           case getUserPermissions (ae_rbac e) uid (a_rbac s) of
             (PermOk perms, rb) \<Rightarrow> (Answer (d\<lparr>pf_perms := Some perms\<rparr>), s\<lparr>a_rbac := rb\<rparr>)
           | (PermErr, rb) \<Rightarrow> (Answer d, s\<lparr>a_rbac := rb\<rparr>)
           | (NoCallback, rb) \<Rightarrow> (Silent, s\<lparr>a_rbac := rb\<rparr>))"

definition changePassword :: "crypto \<Rightarrow> auth_env \<Rightarrow> int \<Rightarrow> json \<Rightarrow> auth \<Rightarrow> json reply \<times> auth" where
  "changePassword C e uid body s =
    (case (field_value [] (jstr ''old_password'' body), field_value [] (jstr ''new_password'' body)) of
       (Inr oldPwd, Inr newPwd) \<Rightarrow>
         if length newPwd < 8 then (Refuse 400 ''new password too short'', s)
         else if \<not> ae_db e then (Refuse 500 ''database error'', s)
         else
           (case first_row (\<lambda>r. us_id r = uid) (a_users s) of
              None \<Rightarrow> (Refuse 404 ''user not found'', s)
            | Some r \<Rightarrow>
                if \<not> verifyPassword C oldPwd (us_hash r) then (Refuse 400 ''old password wrong'', s)
                else if ae_dbw e then
                  (Answer (JObj [(''changed'', JBool True)]),
                   update_users True uid (\<lambda>q. q\<lparr>us_hash := hashPassword C newPwd\<rparr>) s)
                else (Refuse 500 ''database error'', s))
     | _ \<Rightarrow> (Thrown, s))"

text \<open>The picture is not modelled; the reply carries the identifier.\<close>

definition captcha :: "auth_env \<Rightarrow> auth \<Rightarrow> string reply \<times> auth" where
  "captcha e s =
    (let cid = randomCode (take 32 (ae_draws e));
         code = generateCode (take 4 (drop 32 (ae_draws e))) in
     if ae_redisw e then (Answer cid, s\<lparr>a_captcha := (a_captcha s)(cid \<mapsto> (hashCode code, clock s + 300))\<rparr>)
     else (Refuse 500 ''redis error'', s))"

section \<open>Runs\<close>

datatype auth_event =
    Login auth_env json
  | Refresh auth_env json
  | Logout auth_env string
  | Profile auth_env int
  | ChangePassword auth_env int json
  | NewCaptcha auth_env
  | Pass nat

fun auth_step :: "jwt_env \<Rightarrow> crypto \<Rightarrow> auth_event \<Rightarrow> auth \<Rightarrow> auth" where
  "auth_step J C (Login e body) s = snd (login J C e body s)"
| "auth_step J C (Refresh e body) s = snd (refresh J e body s)"
| "auth_step J C (Logout e sid) s = snd (logout e sid (7 * 24 * 3600) s)"
| "auth_step J C (Profile e uid) s = snd (profile e uid s)"
| "auth_step J C (ChangePassword e uid body) s = snd (changePassword C e uid body s)"
| "auth_step J C (NewCaptcha e) s = snd (captcha e s)"
| "auth_step J C (Pass n) s = s\<lparr>a_rbac := (a_rbac s)\<lparr>rb_now := clock s + int n\<rparr>\<rparr>"

end
