(* ===== verification/Auth_Props.thy ===== *)
theory Auth_Props
  imports Auth
begin

text \<open>
  What authentication guarantees: a login that succeeds checked a password of the account or one
  with the same digest, wrong passwords lock the account, rotated and logged-out sessions stay
  revoked in every later run, and a changed password replaces the old one.
\<close>

section \<open>What each step keeps\<close>

lemma getUserPermissions_now: "rb_now (snd (getUserPermissions e uid s)) = rb_now s"
  by (simp add: getUserPermissions_def doLoadFromDb_def Let_def)

lemma loadMergedScope_now: "rb_now (snd (loadMergedScope e uid s)) = rb_now s"
  by (simp add: loadMergedScope_def load_scope_def Let_def split: option.split)

definition same_but_rbac :: "auth \<Rightarrow> auth \<Rightarrow> bool" where
  "same_but_rbac s t \<longleftrightarrow> a_users t = a_users s \<and> a_verify t = a_verify s \<and> a_captcha t = a_captcha s
    \<and> a_black t = a_black s \<and> clock t = clock s"

lemma same_but_rbac_refl [simp]: "same_but_rbac s s"
  by (simp add: same_but_rbac_def)

lemma issueTokens_same: "same_but_rbac s (snd (issueTokens J e uid n d dn sc s))"
  using getUserPermissions_now [of "ae_rbac e" uid "a_rbac s"]
  by (auto simp: issueTokens_def Let_def same_but_rbac_def clock_def split: prod.split perm_outcome.split)

lemma scoped_tokens_same: "same_but_rbac s (snd (scoped_tokens J e r uid s))"
proof (cases "loadMergedScope (ae_rbac e) uid (a_rbac s)")
  case (Pair x rb)
  have n: "rb_now rb = clock s"
    using loadMergedScope_now [of "ae_rbac e" uid "a_rbac s"] by (simp add: Pair clock_def)
  show ?thesis
    using issueTokens_same [of "s\<lparr>a_rbac := rb\<rparr>"] n
    by (cases x) (simp_all add: scoped_tokens_def Pair same_but_rbac_def clock_def)
qed

lemma verifyCacheGet_frame:
  "verifyCacheGet k s = (b, t) \<Longrightarrow> a_users t = a_users s \<and> a_captcha t = a_captcha s \<and> a_black t = a_black s
    \<and> clock t = clock s \<and> set (a_verify t) \<subseteq> set (a_verify s) \<and> (b \<longrightarrow> t = s \<and> k \<in> fst ` set (a_verify s))"
  by (auto simp: verifyCacheGet_def clock_def split: option.splits if_splits
      dest: map_of_SomeD intro: rev_image_eqI)

lemma verifyCachePut_frame:
  "a_users (verifyCachePut k s) = a_users s \<and> a_captcha (verifyCachePut k s) = a_captcha s
    \<and> a_black (verifyCachePut k s) = a_black s \<and> clock (verifyCachePut k s) = clock s
    \<and> fst ` set (a_verify (verifyCachePut k s)) \<subseteq> insert k (fst ` set (a_verify s))"
  by (auto simp: verifyCachePut_def Let_def clock_def)

section \<open>Keys of the verification cache\<close>

lemma last_bar: "a @ CHR ''|'' # x = b @ CHR ''|'' # y \<Longrightarrow> CHR ''|'' \<notin> set x \<Longrightarrow> CHR ''|'' \<notin> set y \<Longrightarrow> a = b \<and> x = y"
  by (induction a arbitrary: b) (auto simp: Cons_eq_append_conv append_eq_Cons_conv)

lemma cache_key_inj:
  assumes "cache_key C u i p h = cache_key C u' i' p' h'"
    and "CHR ''|'' \<notin> set h" "CHR ''|'' \<notin> set h'"
  shows "h = h' \<and> sha256Hex (cy_sha C) p = sha256Hex (cy_sha C) p'"
proof -
  let ?s = "sha256Hex (cy_sha C)"
  have "((u @ ''|'' @ i) @ ''|'' @ ?s p) @ CHR ''|'' # h = ((u' @ ''|'' @ i') @ ''|'' @ ?s p') @ CHR ''|'' # h'"
    using assms(1) by (simp add: cache_key_def)
  from last_bar [OF this assms(2,3)]
  have "(u @ ''|'' @ i) @ CHR ''|'' # ?s p = (u' @ ''|'' @ i') @ CHR ''|'' # ?s p'" "h = h'" by simp_all
  with last_bar [OF this(1) sha256Hex_plain sha256Hex_plain] show ?thesis by simp
qed

text \<open>Every key was put there by a password bcrypt accepted; stored hashes have no bar.\<close>

definition key_sound :: "crypto \<Rightarrow> string \<Rightarrow> bool" where
  "key_sound C k \<longleftrightarrow>
    (\<exists>u i q h. k = cache_key C u i q h \<and> verifyPassword C q h \<and> CHR ''|'' \<notin> set h)"

definition auth_inv :: "crypto \<Rightarrow> auth \<Rightarrow> bool" where
  "auth_inv C s \<longleftrightarrow>
    (\<forall>p. CHR ''|'' \<notin> set (hashPassword C p)) \<and>
    (\<forall>r\<in>set (a_users s). CHR ''|'' \<notin> set (us_hash r)) \<and>
    (\<forall>k\<in>fst ` set (a_verify s). key_sound C k)"

lemma auth_inv_users:
  assumes "auth_inv C s" and "\<And>r. us_hash (f r) = us_hash r"
  shows "auth_inv C (update_users b uid f s)"
proof -
  have "\<forall>r\<in>set (upd_where (\<lambda>r. us_id r = uid) f (a_users s)). CHR ''|'' \<notin> set (us_hash r)"
    using assms by (intro upd_where_all) (auto simp: auth_inv_def)
  with assms(1) show ?thesis by (simp add: auth_inv_def update_users_def)
qed

lemma auth_inv_same: "auth_inv C s \<Longrightarrow> same_but_rbac s t \<Longrightarrow> auth_inv C t"
  by (simp add: auth_inv_def same_but_rbac_def)

lemma auth_inv_frame: "auth_inv C s \<Longrightarrow> a_users t = a_users s \<Longrightarrow> a_verify t = a_verify s \<Longrightarrow> auth_inv C t"
  by (simp add: auth_inv_def)

lemma verifyCachePut_inv: "auth_inv C s \<Longrightarrow> key_sound C k \<Longrightarrow> auth_inv C (verifyCachePut k s)"
  by (fastforce simp: auth_inv_def verifyCachePut_def Let_def split: if_splits)

lemma handleVerified_inv: "auth_inv C s \<Longrightarrow> auth_inv C (snd (handleVerified J e r b s))"
  unfolding handleVerified_def
  by (auto simp: count_failure_def count_success_def intro!: auth_inv_users auth_inv_same [OF _ scoped_tokens_same])

lemma check_password_inv:
  assumes "auth_inv C s" and "check_password C e u p r s = (b, t)" and "r \<in> set (a_users s)"
  shows "auth_inv C t" and "a_users t = a_users s" and "clock t = clock s" and "a_black t = a_black s"
    and "a_captcha t = a_captcha s"
    and "b \<Longrightarrow> \<exists>q. sha256Hex (cy_sha C) q = sha256Hex (cy_sha C) p \<and> verifyPassword C q (us_hash r)"
    and "verifyPassword C p (us_hash r) \<Longrightarrow> b"
proof -
  let ?k = "cache_key C u (ae_ip e) p (us_hash r)"
  obtain h s1 where g: "verifyCacheGet ?k s = (h, s1)" by (cases "verifyCacheGet ?k s")
  note f = verifyCacheGet_frame [OF g] and pf = verifyCachePut_frame [of ?k s1]
  have plain: "CHR ''|'' \<notin> set (us_hash r)" using assms(1,3) by (simp add: auth_inv_def)
  have i1: "auth_inv C s1" using assms(1) f by (auto simp: auth_inv_def)
  have ks: "key_sound C ?k" if "verifyPassword C p (us_hash r)"
    unfolding key_sound_def using that plain by blast
  have i2: "auth_inv C (verifyCachePut ?k s1)" if "verifyPassword C p (us_hash r)"
    using i1 ks [OF that] by (rule verifyCachePut_inv)
  have u: "(b, t) = (if h then (True, s1) else if verifyPassword C p (us_hash r) then (True, verifyCachePut ?k s1) else (False, s1))"
    using assms(2) by (auto simp: check_password_def Let_def g split: bool.splits if_splits)
  show "auth_inv C t" using u i1 i2 by (simp split: if_splits)
  show "a_users t = a_users s" "clock t = clock s" "a_black t = a_black s" "a_captcha t = a_captcha s"
    using u f pf by (simp_all split: if_splits)
  show "\<exists>q. sha256Hex (cy_sha C) q = sha256Hex (cy_sha C) p \<and> verifyPassword C q (us_hash r)" if b
  proof (cases h)
    case True
    then have "key_sound C ?k" using f assms(1) by (auto simp: auth_inv_def)
    then obtain u' i' q h' where k: "?k = cache_key C u' i' q h'" "verifyPassword C q h'" "CHR ''|'' \<notin> set h'"
      unfolding key_sound_def by blast
    from cache_key_inj [OF k(1) plain k(3)] k(2) show ?thesis by metis
  next
    case False
    then show ?thesis using u that by (auto split: if_splits)
  qed
  show "verifyPassword C p (us_hash r) \<Longrightarrow> b" using u by (simp split: if_splits)
qed

lemma login_account_inv: "auth_inv C s \<Longrightarrow> auth_inv C (snd (login_account J C e u p s))"
proof -
  assume i: "auth_inv C s"
  have "auth_inv C (snd (handleVerified J e r b t))"
    if "first_row (\<lambda>r. us_name r = u) (a_users s) = Some r" "check_password C e u p r s = (b, t)" for r b t
    using check_password_inv(1) [OF i that(2)] first_row_SomeD [OF that(1)] handleVerified_inv by blast
  with i show ?thesis by (auto simp: login_account_def split: option.split prod.split)
qed

lemma login_inv: "auth_inv C s \<Longrightarrow> auth_inv C (snd (login J C e body s))"
proof -
  assume i: "auth_inv C s"
  have "auth_inv C (drop_captcha b cid s)" for b cid
    using i by (rule auth_inv_frame) (simp_all add: drop_captcha_def)
  then have "auth_inv C (snd (login_captcha J C e u p cid code s))" for u p cid code
    using i login_account_inv by (simp add: login_captcha_def Let_def split: option.split)
  then show ?thesis using i login_account_inv by (simp add: login_def split: sum.split)
qed

lemma refresh_state:
  "refresh J e body s = (rep, t) \<Longrightarrow>
   a_users t = a_users s \<and> a_verify t = a_verify s \<and> clock t = clock s \<and>
   (a_black t = a_black s \<or> (\<exists>sid. a_black t = (a_black s)(sid \<mapsto> clock s + 604800)))"
proof -
  have st: "same_but_rbac s s1" if "scoped_tokens J e r uid s = (x, s1)" for r uid x s1
    using scoped_tokens_same [of s J e r uid] that by simp
  assume "refresh J e body s = (rep, t)"
  then show ?thesis
    by (auto simp: refresh_def blacklist_def same_but_rbac_def clock_def dest!: st
        split: sum.splits option.splits prod.splits if_splits reply.splits)
qed

lemma changePassword_inv: "auth_inv C s \<Longrightarrow> auth_inv C (snd (changePassword C e uid body s))"
proof -
  assume i: "auth_inv C s"
  have "auth_inv C (update_users True uid (\<lambda>q. q\<lparr>us_hash := hashPassword C p\<rparr>) s)" for p
  proof -
    have "\<forall>r\<in>set (upd_where (\<lambda>r. us_id r = uid) (\<lambda>q. q\<lparr>us_hash := hashPassword C p\<rparr>) (a_users s)).
        CHR ''|'' \<notin> set (us_hash r)"
      using i by (intro upd_where_all) (auto simp: auth_inv_def)
    with i show ?thesis by (simp add: auth_inv_def update_users_def)
  qed
  then show ?thesis using i by (auto simp: changePassword_def split: sum.split option.split)
qed

lemma profile_same: "same_but_rbac s (snd (profile e uid s))"
  using getUserPermissions_now [of "ae_rbac e" uid "a_rbac s"]
  by (auto simp: profile_def Let_def same_but_rbac_def clock_def split: option.split prod.split perm_outcome.split)

lemma auth_step_inv: "auth_inv C s \<Longrightarrow> auth_inv C (auth_step J C ev s)"
proof (cases ev)
  case (Refresh e body)
  assume "auth_inv C s"
  then show ?thesis
    using refresh_state [of J e body s "fst (refresh J e body s)" "snd (refresh J e body s)"]
    by (simp add: Refresh auth_inv_def)
next
  case (Profile e uid)
  then show "auth_inv C s \<Longrightarrow> ?thesis" using profile_same auth_inv_same by simp
qed (auto simp: login_inv changePassword_inv logout_def blacklist_def captcha_def Let_def intro: auth_inv_frame)

interpretation auth_machine: step_invariant "auth_step J C" "auth_inv C" for J C
  by unfold_locales (rule auth_step_inv)

section \<open>Revoked sessions\<close>

text \<open>A session stays on the black list until a time at most seven days ahead.\<close>

definition revoked :: "string \<Rightarrow> int \<Rightarrow> auth \<Rightarrow> bool" where
  "revoked sid until s \<longleftrightarrow> until \<le> clock s + 604800 \<and> (\<exists>t. a_black s sid = Some t \<and> until \<le> t)"

lemma revoked_frame: "revoked sid u s \<Longrightarrow> clock t = clock s \<Longrightarrow> a_black t = a_black s \<Longrightarrow> revoked sid u t"
  by (simp add: revoked_def)

lemma revoked_more:
  "revoked sid u s \<Longrightarrow> clock t = clock s \<Longrightarrow> a_black t = (a_black s)(x \<mapsto> clock s + 604800) \<Longrightarrow> revoked sid u t"
  by (auto simp: revoked_def)

lemma handleVerified_frame:
  "clock (snd (handleVerified J e r b s)) = clock s \<and> a_black (snd (handleVerified J e r b s)) = a_black s"
  using scoped_tokens_same [of _ J e r "us_id r"]
  by (simp add: handleVerified_def same_but_rbac_def update_users_def clock_def)

lemma check_password_frame:
  "check_password C e u p r s = (b, t) \<Longrightarrow> clock t = clock s \<and> a_black t = a_black s"
  using verifyCachePut_frame
  by (auto simp: check_password_def Let_def split: prod.splits bool.splits if_splits dest!: verifyCacheGet_frame)

lemma login_account_frame:
  "clock (snd (login_account J C e u p s)) = clock s \<and> a_black (snd (login_account J C e u p s)) = a_black s"
  using handleVerified_frame check_password_frame
  by (auto simp: login_account_def split: option.split prod.split) 

lemma login_frame:
  "clock (snd (login J C e body s)) = clock s \<and> a_black (snd (login J C e body s)) = a_black s"
  using login_account_frame
  by (auto simp: login_def login_captcha_def drop_captcha_def clock_def Let_def split: sum.split option.split)

lemma revoked_step: "revoked sid u s \<Longrightarrow> revoked sid u (auth_step J C ev s)"
proof (cases ev)
  case (Refresh e body)
  assume r: "revoked sid u s"
  show ?thesis
    using refresh_state [of J e body s "fst (refresh J e body s)" "snd (refresh J e body s)"]
      revoked_frame [OF r] revoked_more [OF r] unfolding Refresh by auto
next
  case (Login e body)
  assume r: "revoked sid u s"
  show ?thesis using revoked_frame [OF r] login_frame unfolding Login by simp
next
  case (Profile e uid)
  assume r: "revoked sid u s"
  show ?thesis using revoked_frame [OF r] profile_same unfolding Profile by (simp add: same_but_rbac_def)
next
  case (ChangePassword e uid body)
  assume r: "revoked sid u s"
  have "clock (snd (changePassword C e uid body s)) = clock s \<and> a_black (snd (changePassword C e uid body s)) = a_black s"
    by (simp add: changePassword_def update_users_def clock_def split: sum.split option.split)
  then show ?thesis using revoked_frame [OF r] unfolding ChangePassword by simp
next
  case (Logout e x)
  assume r: "revoked sid u s"
  show ?thesis
    using revoked_more [OF r] r unfolding Logout
    by (auto simp: logout_def blacklist_def clock_def)
next
  case (NewCaptcha e)
  assume r: "revoked sid u s"
  show ?thesis using revoked_frame [OF r] r unfolding NewCaptcha by (simp add: captcha_def Let_def clock_def)
next
  case (Pass n)
  assume "revoked sid u s"
  then show ?thesis unfolding Pass by (auto simp: revoked_def clock_def)
qed

interpretation session_machine: step_invariant "auth_step J C" "revoked sid u" for J C sid u
  by unfold_locales (rule revoked_step)

lemma revoked_blacklisted: "revoked sid u s \<Longrightarrow> clock s < u \<Longrightarrow> blacklisted s sid"
  by (auto simp: revoked_def blacklisted_def)

section \<open>Successful logins\<close>

lemma issueTokens_Answer:
  "issueTokens J e uid n d dn sc s = (Answer ld, t) \<Longrightarrow> ld_user ld = uid \<and> ld_username ld = n
    \<and> ld_access ld = signAccessToken J (clock s) (new_payload e uid n d sc)
    \<and> ld_refresh ld = signRefreshToken J (clock s) uid (session_of e)"
  by (auto simp: issueTokens_def Let_def new_payload_def split: prod.splits perm_outcome.splits)

lemma scoped_tokens_Answer:
  "scoped_tokens J e r uid s = (Answer ld, t) \<Longrightarrow> ld_user ld = uid \<and> ld_username ld = us_name r"
  by (auto simp: scoped_tokens_def split: prod.splits option.splits dest!: issueTokens_Answer)

lemma login_account_Answer:
  assumes "login_account J C e u p s = (Answer ld, t)"
  obtains r s1 where "first_row (\<lambda>r. us_name r = u) (a_users s) = Some r" "\<not> us_deleted r" "us_status r \<noteq> 0"
    "us_status r \<noteq> 2" "check_password C e u p r s = (True, s1)" "ld_user ld = us_id r" "ld_username ld = us_name r"
proof -
  from assms obtain r b s1 where r: "first_row (\<lambda>r. us_name r = u) (a_users s) = Some r" "\<not> us_deleted r"
    "us_status r \<noteq> 0" "us_status r \<noteq> 2" "check_password C e u p r s = (b, s1)"
    "handleVerified J e r b s1 = (Answer ld, t)"
    by (auto simp: login_account_def split: if_splits option.splits prod.splits)
  moreover from r(6) have "b" by (cases b) (simp_all add: handleVerified_def)
  moreover have "ld_user ld = us_id r \<and> ld_username ld = us_name r"
    using r(6) \<open>b\<close> scoped_tokens_Answer by (auto simp: handleVerified_def)
  ultimately show ?thesis using that by simp
qed

lemma login_Answer:
  assumes "login J C e body s = (Answer ld, t)"
  obtains u p s0 where "field_value [] (jstr ''username'' body) = Inr u" "field_value [] (jstr ''password'' body) = Inr p"
    "u \<noteq> []" "p \<noteq> []" "login_account J C e u p s0 = (Answer ld, t)"
    "a_users s0 = a_users s" "a_verify s0 = a_verify s" "clock s0 = clock s"
    "\<And>cid. jstr ''captcha_id'' body = Given cid \<Longrightarrow> cid \<noteq> [] \<Longrightarrow>
       \<exists>code h. field_value [] (jstr ''captcha_code'' body) = Inr code \<and> verifyCode code h
         \<and> (live (clock s) (a_captcha s cid) = Some h \<or> ae_nil e = Some h)"
proof -
  from assms obtain u p cid code where f: "field_value [] (jstr ''username'' body) = Inr u"
    "field_value [] (jstr ''password'' body) = Inr p" "u \<noteq> []" "p \<noteq> []"
    "field_value [] (jstr ''captcha_id'' body) = Inr cid" "field_value [] (jstr ''captcha_code'' body) = Inr code"
    "(if cid \<noteq> [] then login_captcha J C e u p cid code s else login_account J C e u p s) = (Answer ld, t)"
    by (auto simp: login_def split: sum.splits if_splits)
  show ?thesis
  proof (cases "cid = []")
    case True
    have "jstr ''captcha_id'' body \<noteq> Given x" if "x \<noteq> []" for x
      using f(5) True that by (cases "jstr ''captcha_id'' body") auto
    with True f show ?thesis by (intro that [of u p s]) auto
  next
    case False
    then obtain h where h: "(case live (clock s) (a_captcha s cid) of Some h \<Rightarrow> Some h | None \<Rightarrow> ae_nil e) = Some h"
      "verifyCode code h" "login_account J C e u p (drop_captcha (ae_redisw e) cid s) = (Answer ld, t)"
      using f(7) by (auto simp: login_captcha_def Let_def split: if_splits option.splits)
    have c: "live (clock s) (a_captcha s cid) = Some h \<or> ae_nil e = Some h"
      using h(1) by (auto split: option.splits)
    show ?thesis
    proof (rule that [OF f(1-4) h(3)])
      fix x
      assume "jstr ''captcha_id'' body = Given x"
      then have "x = cid" using f(5) by simp
      then show "\<exists>code h. field_value [] (jstr ''captcha_code'' body) = Inr code \<and> verifyCode code h
         \<and> (live (clock s) (a_captcha s x) = Some h \<or> ae_nil e = Some h)"
        using f(6) h(2) c by blast
    qed (simp_all add: drop_captcha_def clock_def)
  qed
qed

section \<open>Failed logins\<close>

lemma first_row_upd:
  assumes "\<And>r. us_name (f r) = us_name r"
  shows "first_row (\<lambda>r. us_name r = u) (upd_where (\<lambda>r. us_id r = x) f xs) =
    map_option (\<lambda>r. if us_id r = x then f r else r) (first_row (\<lambda>r. us_name r = u) xs)"
  by (induction xs) (simp_all add: assms)

lemma users_updated: "a_users (update_users True x f s) = upd_where (\<lambda>r. us_id r = x) f (a_users s)"
  by (simp add: update_users_def)

text \<open>The body of a login without a captcha.\<close>

definition plain_login :: "string \<Rightarrow> string \<Rightarrow> json \<Rightarrow> bool" where
  "plain_login u p body \<longleftrightarrow> jstr ''username'' body = Given u \<and> jstr ''password'' body = Given p
    \<and> jstr ''captcha_id'' body = Absent \<and> jstr ''captcha_code'' body = Absent \<and> u \<noteq> [] \<and> p \<noteq> []"

lemma plain_login_login: "plain_login u p body \<Longrightarrow> login J C e body s = login_account J C e u p s"
  by (simp add: plain_login_def login_def)

text \<open>The row of the account after \<open>k\<close> failures on top of \<open>f\<close>.\<close>

definition failing :: "string \<Rightarrow> string \<Rightarrow> int \<Rightarrow> nat \<Rightarrow> auth \<Rightarrow> bool" where
  "failing u h f k s \<longleftrightarrow> (\<exists>r. first_row (\<lambda>r. us_name r = u) (a_users s) = Some r \<and> \<not> us_deleted r \<and> us_hash r = h
    \<and> ((us_status r = 2 \<and> 0 < k)
       \<or> (us_status r \<noteq> 0 \<and> us_status r \<noteq> 2 \<and> us_fail r = f + int k \<and> (k = 0 \<or> us_fail r < 5))))"

lemma failed_attempt:
  assumes "auth_inv C s" and "failing u h f k s" and "ae_db e" "ae_dbw e"
    and "\<And>q. sha256Hex (cy_sha C) q = sha256Hex (cy_sha C) p \<Longrightarrow> \<not> verifyPassword C q h"
  shows "failing u h f (Suc k) (snd (login_account J C e u p s))"
proof -
  from assms(2) obtain r where r: "first_row (\<lambda>r. us_name r = u) (a_users s) = Some r" "\<not> us_deleted r" "us_hash r = h"
    "(us_status r = 2 \<and> 0 < k) \<or> (us_status r \<noteq> 0 \<and> us_status r \<noteq> 2 \<and> us_fail r = f + int k \<and> (k = 0 \<or> us_fail r < 5))"
    unfolding failing_def by blast
  show ?thesis
  proof (cases "us_status r = 2")
    case True
    then have "snd (login_account J C e u p s) = s" using r(1,2) assms(3) by (simp add: login_account_def)
    with r True show ?thesis unfolding failing_def by simp
  next
    case False
    obtain b s1 where c: "check_password C e u p r s = (b, s1)" by (cases "check_password C e u p r s")
    note ci = check_password_inv [OF assms(1) c first_row_SomeD [OF r(1), THEN conjunct1]]
    have b: "\<not> b" using ci(6) assms(5) r(3) by blast
    have "snd (login_account J C e u p s) = update_users True (us_id r) count_failure s1"
      using r False assms(3,4) c b by (simp add: login_account_def handleVerified_def)
    moreover have "first_row (\<lambda>r. us_name r = u) (a_users (update_users True (us_id r) count_failure s1)) = Some (count_failure r)"
      using r(1) ci(2) by (simp add: update_users_def first_row_upd count_failure_def)
    ultimately show ?thesis
      using r False by (auto simp: failing_def count_failure_def)
  qed
qed

lemma failed_attempts:
  assumes "auth_inv C s" and "failing u h f 0 s" and "ae_db e" "ae_dbw e"
    and "\<And>q. sha256Hex (cy_sha C) q = sha256Hex (cy_sha C) p \<Longrightarrow> \<not> verifyPassword C q h"
  shows "auth_inv C (((\<lambda>s. snd (login_account J C e u p s)) ^^ n) s) \<and>
    failing u h f n (((\<lambda>s. snd (login_account J C e u p s)) ^^ n) s)"
proof (induction n)
  case (Suc n)
  then show ?case using failed_attempt [OF _ _ assms(3-5)] login_account_inv by simp
qed (simp add: assms)

section \<open>Answers that never come\<close>

lemma load_scope_total: "re_db e \<Longrightarrow> re_db2 e \<Longrightarrow> \<exists>sc rb. load_scope e uid s = (Some sc, rb)"
  by (simp add: load_scope_def Let_def)

lemma loadMergedScope_total: "re_db e \<Longrightarrow> re_db2 e \<Longrightarrow> \<exists>sc rb. loadMergedScope e uid s = (Some sc, rb)"
  using load_scope_total [of e uid] by (simp add: loadMergedScope_def split: option.split)

lemma scoped_tokens_silent:
  assumes "re_db (ae_rbac e)" "re_db2 (ae_rbac e)" "\<not> re_redis (ae_rbac e)"
  shows "fst (scoped_tokens J e r uid s) = Silent"
proof -
  obtain sc rb where l: "loadMergedScope (ae_rbac e) uid (a_rbac s) = (Some sc, rb)"
    using loadMergedScope_total [OF assms(1,2)] by blast
  have "fst (getUserPermissions (ae_rbac e) uid x) = NoCallback" for x
    using assms by (simp add: getUserPermissions_def doLoadFromDb_def Let_def)
  then have "fst (issueTokens J e uid a b c d t) = Silent" for a b c d t
    by (auto simp: issueTokens_def Let_def split: prod.splits perm_outcome.splits) (metis fst_conv perm_outcome.distinct(3) perm_outcome.distinct(5))+
  with l show ?thesis by (simp add: scoped_tokens_def)
qed

section \<open>Properties\<close>

text \<open>C15: after any run of the authentication operations, a login that succeeds names an account that
  is neither deleted, disabled nor locked, and bcrypt accepted for its stored hash a password
  with the same SHA-256 as the one given (the verification cache included); a captcha that was
  named was solved.\<close>

theorem login_sound:
  assumes "auth_inv C s0" and "s = fold (auth_step J C) evs s0" and "login J C e body s = (Answer ld, t)"
  shows "\<exists>r\<in>set (a_users s). jstr ''username'' body = Given (us_name r) \<and> ld_user ld = us_id r
    \<and> \<not> us_deleted r \<and> us_status r \<noteq> 0 \<and> us_status r \<noteq> 2
    \<and> (\<exists>p q. jstr ''password'' body = Given p \<and> sha256Hex (cy_sha C) q = sha256Hex (cy_sha C) p
          \<and> verifyPassword C q (us_hash r))
    \<and> (\<forall>cid. jstr ''captcha_id'' body = Given cid \<and> cid \<noteq> [] \<longrightarrow>
          (\<exists>code h. field_value [] (jstr ''captcha_code'' body) = Inr code \<and> verifyCode code h
             \<and> (live (clock s) (a_captcha s cid) = Some h \<or> ae_nil e = Some h)))"
proof -
  have i: "auth_inv C s" unfolding assms(2) by (rule auth_machine.run_keeps) (rule assms(1))
  from assms(3) show ?thesis
  proof (rule login_Answer)
    fix u p s1
    assume l: "field_value [] (jstr ''username'' body) = Inr u" "field_value [] (jstr ''password'' body) = Inr p"
      "u \<noteq> []" "p \<noteq> []" "login_account J C e u p s1 = (Answer ld, t)" "a_users s1 = a_users s" "a_verify s1 = a_verify s"
      and cap: "\<And>cid. jstr ''captcha_id'' body = Given cid \<Longrightarrow> cid \<noteq> [] \<Longrightarrow>
       \<exists>code h. field_value [] (jstr ''captcha_code'' body) = Inr code \<and> verifyCode code h
         \<and> (live (clock s) (a_captcha s cid) = Some h \<or> ae_nil e = Some h)"
    have n: "jstr ''username'' body = Given u" "jstr ''password'' body = Given p"
      using l(1-4) by (auto simp: field_value_Inr)
    have i1: "auth_inv C s1" using i l(6,7) by (rule auth_inv_frame)
    from l(5) obtain r s2 where r: "first_row (\<lambda>r. us_name r = u) (a_users s1) = Some r" "\<not> us_deleted r"
      "us_status r \<noteq> 0" "us_status r \<noteq> 2" "check_password C e u p r s1 = (True, s2)" "ld_user ld = us_id r"
      by (rule login_account_Answer)
    have m: "r \<in> set (a_users s1)" "us_name r = u" using first_row_SomeD [OF r(1)] by simp_all
    have q: "\<exists>q. sha256Hex (cy_sha C) q = sha256Hex (cy_sha C) p \<and> verifyPassword C q (us_hash r)"
      using check_password_inv(6) [OF i1 r(5) m(1)] by simp
    show ?thesis
    proof (rule bexI [of _ r], intro conjI)
      show "\<forall>cid. jstr ''captcha_id'' body = Given cid \<and> cid \<noteq> [] \<longrightarrow>
          (\<exists>code h. field_value [] (jstr ''captcha_code'' body) = Inr code \<and> verifyCode code h
             \<and> (live (clock s) (a_captcha s cid) = Some h \<or> ae_nil e = Some h))"
      proof (intro allI impI, elim conjE)
        fix cid
        assume "jstr ''captcha_id'' body = Given cid" "cid \<noteq> []"
        from cap [OF this] show "\<exists>code h. field_value [] (jstr ''captcha_code'' body) = Inr code \<and> verifyCode code h
             \<and> (live (clock s) (a_captcha s cid) = Some h \<or> ae_nil e = Some h)"
          by (elim exE conjE) (intro exI conjI)
      qed
      show "\<exists>p q. jstr ''password'' body = Given p \<and> sha256Hex (cy_sha C) q = sha256Hex (cy_sha C) p
          \<and> verifyPassword C q (us_hash r)"
        using q n(2) by blast
    qed (use m r(2-4,6) n(1) l(6) in simp_all)
  qed
qed


text \<open>C17: rotation: once a refresh has succeeded and the old session was written to the black list, the
  old refresh token is refused in every later state of any run, until it has expired and after.\<close>

theorem refresh_rotation:
  assumes "jwt_reads J (refresh_claims (je_refresh J) t0 uid sid)" and "int64_ok uid"
    and "je_refresh J \<le> 604800" and "t0 < clock s"
    and "jstr ''refresh_token'' body = Given (signRefreshToken J t0 uid sid)"
    and "refresh J e body s = (Answer d, s1)" and "ae_redisw e"
  shows "\<exists>m. fst (refresh J e' body (fold (auth_step J C) evs s1)) \<in> {Refuse 401 m, Refuse 500 m}"
proof -
  let ?t = "fold (auth_step J C) evs s1"
  note v = verify_refresh_signed [OF assms(1,2)]
  from assms(6) v assms(5) obtain s2 r where r: "scoped_tokens J e r uid s = (Answer d, s2)"
    "s1 = blacklist True sid 604800 s2"
    using assms(7) by (auto simp: refresh_def split: if_splits option.splits prod.splits reply.splits)
  have "clock s2 = clock s" using scoped_tokens_same [of s J e r uid] r(1) by (simp add: same_but_rbac_def)
  then have "revoked sid (clock s + 604800) s1"
    unfolding r(2) by (simp add: revoked_def blacklist_def clock_def)
  then have rv: "revoked sid (clock s + 604800) ?t" by (rule session_machine.run_keeps)
  show ?thesis
  proof (cases "clock ?t \<le> t0 + je_refresh J")
    case True
    then have "blacklisted ?t sid" using assms(3,4) by (intro revoked_blacklisted [OF rv]) linarith
    then show ?thesis using v True assms(5) by (cases "ae_redis e'") (simp_all add: refresh_def)
  next
    case False
    then show ?thesis using v assms(5) by (simp add: refresh_def)
  qed
qed

text \<open>A changed password replaces the old one: a later login of the account succeeds only with a
  password of the same SHA-256 as the new one, which has at least eight characters.\<close>

theorem change_password_effect:
  assumes "auth_inv C s" and "changePassword C e uid body s = (Answer x, s1)"
    and "\<And>a b. verifyPassword C a (hashPassword C b) \<Longrightarrow> a = b"
    and "login J C e2 body2 s1 = (Answer ld, s2)" and "ld_user ld = uid"
  shows "\<exists>new p. jstr ''new_password'' body = Given new \<and> 8 \<le> length new \<and>
    jstr ''password'' body2 = Given p \<and> sha256Hex (cy_sha C) p = sha256Hex (cy_sha C) new"
proof -
  from assms(2) obtain new where new: "field_value [] (jstr ''new_password'' body) = Inr new" "8 \<le> length new"
    "s1 = update_users True uid (\<lambda>q. q\<lparr>us_hash := hashPassword C new\<rparr>) s"
    by (auto simp: changePassword_def split: sum.splits option.splits if_splits)
  have jn: "jstr ''new_password'' body = Given new" using new(1,2) by (auto simp: field_value_Inr)
  have i1: "auth_inv C s1" using changePassword_inv [OF assms(1), of e uid body] assms(2) by simp
  from assms(4) show ?thesis
  proof (rule login_Answer)
    fix u p t
    assume l: "field_value [] (jstr ''password'' body2) = Inr p" "p \<noteq> []" "login_account J C e2 u p t = (Answer ld, s2)"
      "a_users t = a_users s1" "a_verify t = a_verify s1"
    have i: "auth_inv C t" using i1 l(4,5) by (rule auth_inv_frame)
    from l(3) obtain r s3 where r: "first_row (\<lambda>r. us_name r = u) (a_users t) = Some r"
      "check_password C e2 u p r t = (True, s3)" "ld_user ld = us_id r"
      by (rule login_account_Answer)
    have m: "r \<in> set (a_users t)" using first_row_SomeD [OF r(1)] by simp
    from check_password_inv(6) [OF i r(2) m] obtain q where
      q: "sha256Hex (cy_sha C) q = sha256Hex (cy_sha C) p" "verifyPassword C q (us_hash r)" by blast
    have "us_hash r = hashPassword C new"
    proof -
      from m obtain r0 where "r = (if us_id r0 = uid then r0\<lparr>us_hash := hashPassword C new\<rparr> else r0)"
        unfolding l(4) new(3) users_updated set_upd_where by (elim imageE) (rule that)
      then show ?thesis using r(3) assms(5) by (cases "us_id r0 = uid") simp_all
    qed
    with q assms(3) have "sha256Hex (cy_sha C) p = sha256Hex (cy_sha C) new" by metis
    moreover have "jstr ''password'' body2 = Given p" using l(1,2) by (auto simp: field_value_Inr)
    ultimately show ?thesis using jn new(2) by blast
  qed
qed

text \<open>With Redis down and the database up, a login with the right password and without a captcha
  calls neither continuation: the request is never answered.\<close>

theorem login_unanswered_without_redis:
  assumes "auth_inv C s" and "plain_login u p body" and "ae_db e"
    and "first_row (\<lambda>r. us_name r = u) (a_users s) = Some r" and "\<not> us_deleted r" "us_status r = 1"
    and "verifyPassword C p (us_hash r)"
    and "re_db (ae_rbac e)" "re_db2 (ae_rbac e)" "\<not> re_redis (ae_rbac e)"
  shows "fst (login J C e body s) = Silent"
proof -
  obtain b s1 where c: "check_password C e u p r s = (b, s1)" by (cases "check_password C e u p r s")
  have b: "b" using check_password_inv(7) [OF assms(1) c] first_row_SomeD [OF assms(4)] assms(7) by blast
  show ?thesis
    using assms(3-6) c b scoped_tokens_silent [OF assms(8-10)]
    by (simp add: plain_login_login [OF assms(2)] login_account_def handleVerified_def)
qed

section \<open>A concrete account\<close>

definition demo_crypto :: crypto where
  "demo_crypto = \<lparr>cy_validate = (\<lambda>p h. Some (hex_bytes p = h)), cy_generate = (\<lambda>p n. hex_bytes p), cy_sha = (\<lambda>s. s)\<rparr>"

definition demo_auth_env :: auth_env where
  "demo_auth_env = \<lparr>ae_db = True, ae_dbw = True, ae_redis = True, ae_redisw = True, ae_nil = None,
     ae_rbac = \<lparr>re_redis = True, re_db = True, re_db2 = True\<rparr>, ae_draws = replicate 64 0, ae_ip = ''10.0.0.1''\<rparr>"

definition demo_user :: user_row where
  "demo_user = \<lparr>us_id = 9, us_name = ''ann'', us_hash = hex_bytes ''secret-1'', us_real = ''Ann'', us_empno = None,
     us_email = None, us_phone = None, us_gender = 0, us_status = 1, us_deleted = False, us_fail = 0, us_dept = Some 2, us_last_login = None, us_last_ip = None\<rparr>"

definition demo_auth :: auth where
  "demo_auth = \<lparr>a_users = [demo_user], a_depts = [\<lparr>de_id = 2, de_parent = None, de_code = ''L'', de_name = ''line'', de_sort = 0,
       de_leader = None, de_phone = [], de_status = 1, de_deleted = False\<rparr>], a_rbac = demo_rbac\<lparr>rb_now := 100\<rparr>, a_verify = [],
     a_captcha = (\<lambda>_. None), a_black = (\<lambda>_. None)\<rparr>"

definition demo_login :: "string \<Rightarrow> json" where
  "demo_login p = JObj [(''username'', JStr ''ann''), (''password'', JStr p)]"

definition demo_refresh :: json where
  "demo_refresh = JObj [(''refresh_token'', JStr ''R'')]"

definition demo_tokens :: jwt_env where
  "demo_tokens = known_jwt JNull (refresh_claims 604800 10 9 ''S'')"

lemma hex_char_inj: "a < 16 \<Longrightarrow> b < 16 \<Longrightarrow> hex_char a = hex_char b \<Longrightarrow> a = b"
  unfolding hex_char_def by (subst (asm) nth_eq_iff_index_eq) simp_all

lemma hex_bytes_inj: "hex_bytes a = hex_bytes b \<Longrightarrow> a = b"
proof (induction a arbitrary: b)
  case Nil
  then show ?case by (cases b) auto
next
  case (Cons x a)
  then obtain y b' where b: "b = y # b'" by (cases b) auto
  have lt: "(of_char c :: nat) div 16 < 16" "(of_char c :: nat) mod 16 < 16" for c :: char
    using of_char_bound [of c] by linarith simp
  have "(of_char x :: nat) div 16 = of_char y div 16" "(of_char x :: nat) mod 16 = of_char y mod 16"
    using Cons.prems unfolding b by (auto dest: hex_char_inj [OF lt(1) lt(1)] hex_char_inj [OF lt(2) lt(2)])
  then have "(of_char x :: nat) = of_char y" by (metis div_mult_mod_eq)
  then show ?case using Cons unfolding b by simp
qed

lemma demo_verify: "verifyPassword demo_crypto p h \<longleftrightarrow> hex_bytes p = h"
  by (simp add: verifyPassword_def demo_crypto_def)

lemma demo_hash: "hashPassword demo_crypto p = hex_bytes p"
  by (simp add: hashPassword_def demo_crypto_def)

lemma demo_auth_inv: "auth_inv demo_crypto demo_auth"
  by (simp add: auth_inv_def demo_auth_def demo_user_def demo_hash hex_bytes_plain del: hex_bytes.simps)

lemma demo_auth_coherent: "perms_coherent (a_rbac demo_auth)"
  using demo_rbac_coherent by (simp add: demo_auth_def perms_coherent_def demo_rbac_def db_perms_def)

lemma demo_plain: "p \<noteq> [] \<Longrightarrow> plain_login ''ann'' p (demo_login p)"
  by (simp add: plain_login_def demo_login_def)

lemma demo_first: "first_row (\<lambda>r. us_name r = ''ann'') (a_users demo_auth) = Some demo_user"
  by (simp add: demo_auth_def demo_user_def)

lemma demo_sha: "sha256Hex (cy_sha demo_crypto) p = sha256Hex (cy_sha demo_crypto) q \<Longrightarrow> p = q"
  by (simp add: sha256Hex_def demo_crypto_def hex_bytes_inj)

definition is_answer :: "'a reply \<Rightarrow> bool" where
  "is_answer r = (case r of Answer _ \<Rightarrow> True | _ \<Rightarrow> False)"

lemma is_answerE: "is_answer (fst p) \<Longrightarrow> (\<And>x t. p = (Answer x, t) \<Longrightarrow> thesis) \<Longrightarrow> thesis"
  by (cases p; cases "fst p") (auto simp: is_answer_def)

lemma demo_login_answers: "is_answer (fst (login demo_tokens demo_crypto demo_auth_env (demo_login ''secret-1'') demo_auth))"
  by code_simp

theorem login_sound_witness: "us_name demo_user = ''ann'' \<and> (\<exists>r\<in>set (a_users demo_auth). us_status r \<noteq> 2)"
proof -
  obtain ld t where "login demo_tokens demo_crypto demo_auth_env (demo_login ''secret-1'') demo_auth = (Answer ld, t)"
    using demo_login_answers by (rule is_answerE)
  from login_sound [OF demo_auth_inv _ this, where evs = "[]"] show ?thesis
    by (auto simp: demo_user_def)
qed


lemma demo_refresh_answers: "is_answer (fst (refresh demo_tokens demo_auth_env demo_refresh demo_auth))"
  by code_simp

theorem refresh_rotation_witness:
  "\<exists>m. fst (refresh demo_tokens demo_auth_env demo_refresh (auth_step demo_tokens demo_crypto (Pass 60)
     (snd (refresh demo_tokens demo_auth_env demo_refresh demo_auth)))) \<in> {Refuse 401 m, Refuse 500 m}"
proof -
  obtain d s1 where r: "refresh demo_tokens demo_auth_env demo_refresh demo_auth = (Answer d, s1)"
    using demo_refresh_answers by (rule is_answerE)
  have t: "je_refresh demo_tokens = 604800" by (simp add: demo_tokens_def)
  have j: "jwt_reads demo_tokens (refresh_claims (je_refresh demo_tokens) 10 9 ''S'')"
    unfolding t unfolding demo_tokens_def by (rule known_jwt_reads)
  have k: "jstr ''refresh_token'' demo_refresh = Given (signRefreshToken demo_tokens 10 9 ''S'')"
    by (simp add: demo_refresh_def signRefreshToken_def demo_tokens_def known_jwt_def)
  from refresh_rotation [OF j _ _ _ k r, of demo_auth_env demo_crypto "[Pass 60]"] show ?thesis
    using r t by (simp add: int64_ok_def demo_auth_def clock_def demo_auth_env_def)
qed

definition demo_change :: json where
  "demo_change = JObj [(''old_password'', JStr ''secret-1''), (''new_password'', JStr ''secret-2'')]"

lemma demo_change_answers:
  "is_answer (fst (changePassword demo_crypto demo_auth_env 9 demo_change demo_auth))"
  "is_answer (fst (login demo_tokens demo_crypto demo_auth_env (demo_login ''secret-2'')
     (snd (changePassword demo_crypto demo_auth_env 9 demo_change demo_auth))))"
  by code_simp+

theorem change_password_effect_witness: "\<exists>new. jstr ''new_password'' demo_change = Given new \<and> 8 \<le> length new"
proof -
  obtain x s1 where c: "changePassword demo_crypto demo_auth_env 9 demo_change demo_auth = (Answer x, s1)"
    using demo_change_answers(1) by (rule is_answerE)
  obtain ld s2 where l: "login demo_tokens demo_crypto demo_auth_env (demo_login ''secret-2'') s1 = (Answer ld, s2)"
    using demo_change_answers(2) unfolding c snd_conv by (rule is_answerE)
  have u: "ld_user ld = 9"
  proof -
    have "a_users s1 = [demo_user\<lparr>us_hash := hashPassword demo_crypto ''secret-2''\<rparr>]"
      using c by (auto simp: changePassword_def demo_change_def demo_auth_env_def demo_auth_def demo_user_def
          demo_verify update_users_def)
    with l show ?thesis by (auto elim!: login_Answer login_account_Answer simp: demo_user_def split: if_splits)
  qed
  show ?thesis
    using change_password_effect [OF demo_auth_inv c _ l u] by (auto simp: demo_verify demo_hash hex_bytes_inj)
qed

theorem login_unanswered_without_redis_witness:
  "fst (login demo_tokens demo_crypto (demo_auth_env\<lparr>ae_rbac := \<lparr>re_redis = False, re_db = True, re_db2 = True\<rparr>\<rparr>)
     (demo_login ''secret-1'') demo_auth) = Silent"
  by (rule login_unanswered_without_redis [OF demo_auth_inv demo_plain _ demo_first])
    (simp_all add: demo_auth_env_def demo_user_def demo_verify)

end
