(* ===== verification/Access_Control.thy ===== *)
theory Access_Control
  imports Perm_Routes Auth_Props
begin

text \<open>
  The advice chain in front of every handler (\<open>middlewares/CrossCutting.cc\<close>): \<open>jwtCheck\<close>, then
  \<open>rbacCheck\<close>. A check lets the request through with the attributes it has gathered, answers it,
  or never answers. What the two guarantee together: nothing but the public paths and the refresh
  of a token gets to a handler without a valid token of a live session and the permission of the
  route, and a session that was logged out gets nowhere.
\<close>

record http_request =
  rq_path :: string
  rq_method :: string
  rq_authorization :: string

datatype verdict = Admit "token_payload option" | Deny int string | Unanswered

text \<open>\<open>getHeader\<close> of \<open>Authorization\<close>: the token behind \<open>Bearer\<close> and a blank.\<close>

definition bearer_token :: "string \<Rightarrow> string option" where
  "bearer_token h = (if length h \<le> 7 \<or> take 7 h \<noteq> ''Bearer '' then None else Some (drop 7 h))"

definition jwtCheck :: "jwt_env \<Rightarrow> bool \<Rightarrow> auth \<Rightarrow> http_request \<Rightarrow> verdict" where
  "jwtCheck J redis_up s req =
    (if isPublicPath (rq_path req) (rq_method req) then Admit None
     else if rq_path req = ''/api/v1/auth/refresh'' \<and> rq_method req = ''POST'' then Admit None
     else
       case bearer_token (rq_authorization req) of
         None \<Rightarrow> Deny 401 ''token missing''
       | Some tok \<Rightarrow>
           (case verifyAccessToken J (clock s) tok of
              None \<Rightarrow> Deny 401 ''token invalid or expired''
            | Some p \<Rightarrow>
                if \<not> redis_up then Deny 401 ''authentication service unavailable''
                else if blacklisted s (tp_session p) then Deny 401 ''session logged out''
                else Admit (Some p)))"

text \<open>The attribute of a request without a token is the default of its type, 0.\<close>

definition current_user_id :: "token_payload option \<Rightarrow> int" where
  "current_user_id ctx = (case ctx of None \<Rightarrow> 0 | Some p \<Rightarrow> tp_user p)"

definition rbacCheck :: "rbac_env \<Rightarrow> token_payload option \<Rightarrow> auth \<Rightarrow> http_request \<Rightarrow> verdict \<times> auth" where
  "rbacCheck e ctx s req =
    (if isPublicPath (rq_path req) (rq_method req) then (Admit ctx, s)
     else
       let requiredPerm = getPermission (rq_path req) (rq_method req) in
       if requiredPerm = [] then (Deny 403 ''route without permission'', s)
       else if requiredPerm = ''auth:bearer'' then (Admit ctx, s)
       else
         case getUserPermissions e (current_user_id ctx) (a_rbac s) of
           (PermOk perms, rb) \<Rightarrow>
             (if requiredPerm \<in> set perms then Admit ctx else Deny 403 (''no permission: '' @ requiredPerm),
              s\<lparr>a_rbac := rb\<rparr>)
         | (PermErr, rb) \<Rightarrow> (Deny 500 ''permission service unavailable'', s\<lparr>a_rbac := rb\<rparr>)
         | (NoCallback, rb) \<Rightarrow> (Unanswered, s\<lparr>a_rbac := rb\<rparr>))"

text \<open>The advices run in the order of their registration.\<close>

definition admit :: "jwt_env \<Rightarrow> bool \<Rightarrow> rbac_env \<Rightarrow> auth \<Rightarrow> http_request \<Rightarrow> verdict \<times> auth" where
  "admit J redis_up e s req =
    (case jwtCheck J redis_up s req of
       Admit ctx \<Rightarrow> rbacCheck e ctx s req
     | v \<Rightarrow> (v, s))"

text \<open>The abstract decision: who may reach a handler.\<close>

definition entitled :: "rbac \<Rightarrow> int \<Rightarrow> string \<Rightarrow> bool" where
  "entitled rb uid perm \<longleftrightarrow> perm = ''auth:bearer'' \<or> perm \<in> set (db_perms rb uid)"

lemma jwtCheck_Admit:
  assumes "jwtCheck J up s req = Admit ctx"
  shows "isPublicPath (rq_path req) (rq_method req) \<and> ctx = None
    \<or> rq_path req = ''/api/v1/auth/refresh'' \<and> rq_method req = ''POST'' \<and> ctx = None
    \<or> (\<exists>tok p. rq_authorization req = ''Bearer '' @ tok \<and> verifyAccessToken J (clock s) tok = Some p
          \<and> \<not> blacklisted s (tp_session p) \<and> ctx = Some p)"
proof -
  have b: "h = ''Bearer '' @ tok" if "bearer_token h = Some tok" for h tok
  proof -
    from that have "take 7 h = ''Bearer ''" "drop 7 h = tok" by (simp_all add: bearer_token_def split: if_splits)
    then show ?thesis using append_take_drop_id [of 7 h] by metis
  qed
  from assms show ?thesis
    by (auto simp: jwtCheck_def dest!: b split: if_splits option.splits)
qed

lemma refresh_perm: "getPermission ''/api/v1/auth/refresh'' ''POST'' = ''auth:bearer''"
  by code_simp

lemma rbacCheck_Admit:
  assumes "perms_coherent (a_rbac s)" and "rbacCheck e ctx s req = (Admit c, t)"
  shows "c = ctx \<and> (isPublicPath (rq_path req) (rq_method req)
    \<or> (getPermission (rq_path req) (rq_method req) \<noteq> []
       \<and> entitled (a_rbac s) (current_user_id ctx) (getPermission (rq_path req) (rq_method req))))"
  using assms(2) permissions_granted [OF assms(1)]
  by (auto simp: rbacCheck_def Let_def entitled_def split: if_splits prod.splits perm_outcome.splits)

section \<open>Properties\<close>


text \<open>C19: after a logout, no later request with a token of that session passes the chain: whatever
  happens in between, until the token has expired and after, on every path that is not public and
  not the refresh.\<close>

theorem logout_ends_session:
  assumes "jwt_reads J (access_claims (je_access J) t0 p)" and "payload_ok p"
    and "je_access J \<le> 604800" and "t0 < clock s"
    and "logout e (tp_session p) (7 * 24 * 3600) s = (Answer x, s1)"
    and "rq_authorization req = ''Bearer '' @ signAccessToken J t0 p"
    and "\<not> isPublicPath (rq_path req) (rq_method req)"
    and "rq_path req \<noteq> ''/api/v1/auth/refresh'' \<or> rq_method req \<noteq> ''POST''"
  shows "\<exists>m. fst (admit J up e' (fold (auth_step J C) evs s1) req) = Deny 401 m"
proof -
  let ?t = "fold (auth_step J C) evs s1"
  have "revoked (tp_session p) (clock s + 604800) s1"
    using assms(5) by (auto simp: logout_def revoked_def blacklist_def clock_def split: if_splits)
  then have rv: "revoked (tp_session p) (clock s + 604800) ?t" by (rule session_machine.run_keeps)
  note v = verify_access_signed [OF assms(1,2), of "clock ?t"]
  have b: "blacklisted ?t (tp_session p)" if "clock ?t \<le> t0 + je_access J"
    using that assms(3,4) by (intro revoked_blacklisted [OF rv]) linarith
  have "bearer_token (rq_authorization req) = Some (signAccessToken J t0 p) \<or> bearer_token (rq_authorization req) = None"
    using assms(6) by (auto simp: bearer_token_def)
  then have "\<exists>m. jwtCheck J up ?t req = Deny 401 m"
    using v b assms(7,8) by (cases "clock ?t \<le> t0 + je_access J") (auto simp: jwtCheck_def)
  then show ?thesis by (auto simp: admit_def)
qed

definition demo_request :: http_request where
  "demo_request = \<lparr>rq_path = ''/api/v1/auth/profile'', rq_method = ''GET'', rq_authorization = ''Bearer A''\<rparr>"

definition demo_access :: jwt_env where
  "demo_access = known_jwt (access_claims 7200 10 (demo_payload\<lparr>tp_user := 9\<rparr>)) JNull"

lemma demo_payload_9: "payload_ok (demo_payload\<lparr>tp_user := 9\<rparr>)"
  by (simp add: payload_ok_def demo_payload_def int64_ok_def int32_ok_def)

lemma demo_admitted:
  "(case admit demo_access True \<lparr>re_redis = True, re_db = True, re_db2 = True\<rparr> demo_auth demo_request of
     (Admit (Some p), t) \<Rightarrow> tp_user p = 9 | _ \<Rightarrow> False)"
  by code_simp

lemma demo_not_public: "\<not> isPublicPath (rq_path demo_request) (rq_method demo_request)"
  by code_simp


theorem logout_ends_session_witness:
  "\<exists>m. fst (admit demo_access True \<lparr>re_redis = True, re_db = True, re_db2 = True\<rparr>
     (auth_step demo_access demo_crypto (Pass 600) (snd (logout demo_auth_env ''S'' 604800 demo_auth))) demo_request)
     = Deny 401 m"
proof -
  let ?p = "demo_payload\<lparr>tp_user := 9\<rparr>"
  have t: "je_access demo_access = 7200" by (simp add: demo_access_def)
  have j: "jwt_reads demo_access (access_claims (je_access demo_access) 10 ?p)"
    unfolding t unfolding demo_access_def by (rule known_jwt_reads)
  have h: "rq_authorization demo_request = ''Bearer '' @ signAccessToken demo_access 10 ?p"
    by (simp add: demo_request_def signAccessToken_def demo_access_def known_jwt_def)
  have l: "logout demo_auth_env (tp_session ?p) (7 * 24 * 3600) demo_auth =
      (Answer (JObj [(''logout'', JBool True)]), snd (logout demo_auth_env ''S'' 604800 demo_auth))"
    by (simp add: logout_def demo_auth_env_def demo_payload_def)
  from logout_ends_session [OF j demo_payload_9 _ _ l h demo_not_public, where evs = "[Pass 600]" and up = True
      and e' = "\<lparr>re_redis = True, re_db = True, re_db2 = True\<rparr>" and C = demo_crypto]
  show ?thesis by (simp add: t demo_auth_def clock_def demo_request_def)
qed

end
