(* ===== verification/Audit_Trail.thy ===== *)
theory Audit_Trail
  imports Access_Control
begin

text \<open>
  The audit trail (\<open>middlewares/CrossCutting.cc\<close>, \<open>utils/AuditMask.hh\<close>): which requests are
  recorded, module and operation of an entry, the masking of passwords in the recorded body, the
  buffer and its flush. Parsing and printing of JSON are parameters: the library of the source.
\<close>

section \<open>Masking\<close>

text \<open>The two loops of \<open>isPasswordKey\<close>: a window of eight characters at every start.\<close>

fun window_matches :: "string \<Rightarrow> string \<Rightarrow> bool" where
  "window_matches [] s = True"
| "window_matches (p # ps) [] = False"
| "window_matches (p # ps) (c # cs) \<longleftrightarrow> tolower c = p \<and> window_matches ps cs"

fun any_window :: "string \<Rightarrow> bool" where
  "any_window [] = False"
| "any_window (c # cs) \<longleftrightarrow> window_matches ''password'' (c # cs) \<or> any_window cs"

definition isPasswordKey :: "string \<Rightarrow> bool" where
  "isPasswordKey key = (if length key < 8 then False else any_window key)"

definition kMask :: json where "kMask = JStr ''***''"

fun mask_value :: "string \<Rightarrow> json \<Rightarrow> json" and maskObject :: "(string \<times> json) list \<Rightarrow> (string \<times> json) list" where
  "mask_value k (JObj kvs) = JObj (maskObject kvs)"
| "mask_value k v = (if isPasswordKey k then kMask else v)"
| "maskObject [] = []"
| "maskObject ((k, v) # kvs) = (k, mask_value k v) # maskObject kvs"

text \<open>None of the parser is its exception.\<close>

definition maskSensitiveJson :: "(string \<Rightarrow> json option) \<Rightarrow> (json \<Rightarrow> string) \<Rightarrow> string \<Rightarrow> string" where
  "maskSensitiveJson parse dump body =
    (if body = [] then body
     else case parse body of
       Some (JObj kvs) \<Rightarrow> dump (JObj (maskObject kvs))
     | Some j \<Rightarrow> body
     | None \<Rightarrow> body)"

section \<open>Module, operation, entry\<close>

text \<open>\<open>find\<close> from one past the last hit; past \<open>npos\<close> it starts at 0 again.\<close>

fun third_slash :: "nat \<Rightarrow> string \<Rightarrow> nat option \<Rightarrow> nat option" where
  "third_slash 0 path p = p"
| "third_slash (Suc n) path p =
     third_slash n path (find_from (CHR ''/'') path (case p of None \<Rightarrow> 0 | Some i \<Rightarrow> i + 1))"

definition moduleOf :: "string \<Rightarrow> string" where
  "moduleOf path =
    (case third_slash 3 path (Some 0) of
       None \<Rightarrow> ''other''
     | Some p \<Rightarrow>
         (case find_from (CHR ''/'') path (p + 1) of
            None \<Rightarrow> drop (p + 1) path
          | Some q \<Rightarrow> take (q - p - 1) (drop (p + 1) path)))"

definition operationOf :: "string \<Rightarrow> string" where
  "operationOf mth =
    (if mth = ''GET'' then ''QUERY''
     else if mth = ''POST'' then ''CREATE''
     else if mth = ''PUT'' then ''UPDATE''
     else if mth = ''DELETE'' then ''DELETE''
     else mth)"

definition auditable :: "string \<Rightarrow> string \<Rightarrow> bool" where
  "auditable path mth \<longleftrightarrow> starts_with ''/api/v1/'' path \<and>
    (mth \<noteq> ''GET'' \<or> starts_with ''/api/v1/system/audit-logs'' path)"

record audit_entry =
  au_user :: int
  au_name :: string
  au_module :: string
  au_operation :: string
  au_method :: string
  au_url :: string
  au_params :: string
  au_code :: int
  au_addr :: string
  au_agent :: string
  au_ms :: int

record handled =
  hd_req :: http_request
  hd_ctx :: "token_payload option"
  hd_query :: string
  hd_body :: string
  hd_addr :: string
  hd_agent :: string
  hd_start_us :: "int option"
  hd_now_us :: int
  hd_status :: "int option"

record trail =
  tr_buffer :: "audit_entry list"
  tr_rows :: "audit_entry list"

definition enqueue :: "audit_entry \<Rightarrow> trail \<Rightarrow> trail" where
  "enqueue e t = t\<lparr>tr_buffer := tr_buffer t @ [e]\<rparr>"

text \<open>The buffer is taken over and each entry inserted on its own; an insert that fails is logged only.\<close>

definition flush :: "(audit_entry \<Rightarrow> bool) \<Rightarrow> trail \<Rightarrow> trail" where
  "flush inserts t = t\<lparr>tr_buffer := [], tr_rows := tr_rows t @ filter inserts (tr_buffer t)\<rparr>"

definition entry_of :: "(string \<Rightarrow> json option) \<Rightarrow> (json \<Rightarrow> string) \<Rightarrow> handled \<Rightarrow> audit_entry" where
  "entry_of parse dump h =
    (let path = rq_path (hd_req h); mth = rq_method (hd_req h) in
     \<lparr>au_user = (case hd_ctx h of None \<Rightarrow> 0 | Some p \<Rightarrow> tp_user p),
      au_name = (case hd_ctx h of None \<Rightarrow> [] | Some p \<Rightarrow> tp_username p),
      au_module = moduleOf path,
      au_operation = operationOf mth,
      au_method = mth,
      au_url = take 512 path,
      au_params = (if mth = ''GET'' then take 2048 (hd_query h)
                   else take 2048 (maskSensitiveJson parse dump (hd_body h))),
      au_code = (case hd_status h of None \<Rightarrow> 500 | Some c \<Rightarrow> c),
      au_addr = hd_addr h,
      au_agent = take 512 (hd_agent h),
      au_ms = (case hd_start_us h of None \<Rightarrow> 0 | Some t0 \<Rightarrow> to_int32 ((hd_now_us h - t0) div 1000))\<rparr>)"

definition recordAudit :: "(string \<Rightarrow> json option) \<Rightarrow> (json \<Rightarrow> string) \<Rightarrow> handled \<Rightarrow> trail \<Rightarrow> trail" where
  "recordAudit parse dump h t =
    (if \<not> auditable (rq_path (hd_req h)) (rq_method (hd_req h)) then t
     else enqueue (entry_of parse dump h) t)"

section \<open>Facts\<close>

lemma window_matches_take: "window_matches ps s \<longleftrightarrow> take (length ps) (map tolower s) = ps"
  by (induction ps s rule: window_matches.induct) auto

lemma window_matches_iff: "window_matches ps s \<longleftrightarrow> (\<exists>m b. s = m @ b \<and> map tolower m = ps)"
proof
  assume "window_matches ps s"
  then show "\<exists>m b. s = m @ b \<and> map tolower m = ps"
    unfolding window_matches_take take_map
    by (intro exI [of _ "take (length ps) s"] exI [of _ "drop (length ps) s"]) simp
next
  assume "\<exists>m b. s = m @ b \<and> map tolower m = ps"
  then show "window_matches ps s" unfolding window_matches_take by auto
qed

lemma ex_infix_Cons:
  "(\<exists>a m b. c # s = a @ m @ b \<and> Q m) \<longleftrightarrow> (\<exists>m b. c # s = m @ b \<and> Q m) \<or> (\<exists>a m b. s = a @ m @ b \<and> Q m)"
proof
  assume "\<exists>a m b. c # s = a @ m @ b \<and> Q m"
  then obtain a m b where m: "c # s = a @ m @ b" "Q m" by blast
  then show "(\<exists>m b. c # s = m @ b \<and> Q m) \<or> (\<exists>a m b. s = a @ m @ b \<and> Q m)" by (cases a) auto
next
  assume "(\<exists>m b. c # s = m @ b \<and> Q m) \<or> (\<exists>a m b. s = a @ m @ b \<and> Q m)"
  then show "\<exists>a m b. c # s = a @ m @ b \<and> Q m"
  proof (elim disjE exE conjE)
    fix m b assume "c # s = m @ b" "Q m"
    then show ?thesis by (intro exI [of _ "[]"] exI [of _ m] exI [of _ b]) simp
  next
    fix a m b assume "s = a @ m @ b" "Q m"
    then show ?thesis by (intro exI [of _ "c # a"] exI [of _ m] exI [of _ b]) simp
  qed
qed

definition lowers_to_password :: "string \<Rightarrow> bool" where
  "lowers_to_password m \<longleftrightarrow> map tolower m = ''password''"

lemma any_window_iff: "any_window s \<longleftrightarrow> (\<exists>a m b. s = a @ m @ b \<and> lowers_to_password m)"
proof (induction s)
  case Nil
  then show ?case by (simp add: lowers_to_password_def)
next
  case (Cons c s)
  then show ?case
    unfolding ex_infix_Cons [of c s lowers_to_password] any_window.simps window_matches_iff lowers_to_password_def [symmetric]
    by blast
qed

lemma isPasswordKey_iff:
  "isPasswordKey key \<longleftrightarrow> (\<exists>a m b. key = a @ m @ b \<and> lowers_to_password m)"
proof -
  have len: "8 \<le> length key" if "key = a @ m @ b" "lowers_to_password m" for a m b
    using arg_cong [OF that(2) [unfolded lowers_to_password_def], of length] that(1) by simp
  show ?thesis
  proof (cases "length key < 8")
    case True
    with len show ?thesis unfolding isPasswordKey_def by (metis not_less)
  qed (simp add: isPasswordKey_def any_window_iff)
qed

lemma map_of_maskObject: "map_of (maskObject kvs) k = map_option (mask_value k) (map_of kvs k)"
  by (induction kvs) auto

text \<open>The value at the end of a path of keys through nested objects.\<close>

fun at_path :: "string list \<Rightarrow> json \<Rightarrow> json option" where
  "at_path [] j = Some j"
| "at_path (k # ks) (JObj kvs) = (case map_of kvs k of None \<Rightarrow> None | Some v \<Rightarrow> at_path ks v)"
| "at_path (k # ks) j = None"

lemma at_path_masked:
  "at_path (ks @ [k]) (JObj (maskObject kvs)) = map_option (mask_value k) (at_path (ks @ [k]) (JObj kvs))"
proof (induction ks arbitrary: kvs)
  case Nil
  then show ?case by (simp add: map_of_maskObject split: option.split)
next
  case (Cons x ks)
  show ?case
  proof (cases "map_of kvs x")
    case (Some v)
    have ne: "ks @ [k] = y # ys \<Longrightarrow> at_path (y # ys) (mask_value x v) = map_option (mask_value k) (at_path (y # ys) v)" for y ys
      using Cons.IH by (cases v) (auto simp: kMask_def)
    obtain y ys where "ks @ [k] = y # ys" by (cases "ks @ [k]") auto
    with ne [OF this] Some show ?thesis by (simp add: map_of_maskObject)
  qed (simp add: map_of_maskObject)
qed

lemma find_from_skip: "i \<le> length a \<Longrightarrow> c \<notin> set (drop i a) \<Longrightarrow> find_from c (a @ c # b) i = Some (length a)"
  by (simp add: find_from_def)

lemma find_from_none: "i \<le> length a \<Longrightarrow> c \<notin> set (drop i a) \<Longrightarrow> find_from c a i = None"
  by (simp add: find_from_def find_char_None)

section \<open>Properties\<close>

text \<open>Masking, by the path of keys through nested objects: a value that is not an object is replaced by
  the mask exactly when its key contains the word password in any case, everything else is kept;
  a list is never entered, so a password inside an object of a list stays readable.\<close>

theorem masking_by_path:
  assumes "at_path (ks @ [k]) (JObj kvs) = Some v"
  shows "at_path (ks @ [k]) (JObj (maskObject kvs)) =
      Some (case v of JObj inner \<Rightarrow> JObj (maskObject inner)
            | _ \<Rightarrow> if \<exists>a m b. k = a @ m @ b \<and> lowers_to_password m then kMask else v) \<and>
    ((\<nexists>a m b. k = a @ m @ b \<and> lowers_to_password m) \<and> v = JArr xs \<longrightarrow>
      at_path (ks @ [k]) (JObj (maskObject kvs)) = Some (JArr xs))"
  unfolding isPasswordKey_iff [symmetric] using at_path_masked [of ks k kvs] assms by (cases v) auto

theorem masking_by_path_witness:
  "at_path [''user'', ''newPassword''] (JObj (maskObject [(''user'', JObj [(''newPassword'', JStr ''s3cret'')])])) = Some kMask"
proof -
  have "at_path ([''user''] @ [''newPassword'']) (JObj [(''user'', JObj [(''newPassword'', JStr ''s3cret'')])]) = Some (JStr ''s3cret'')"
    by simp
  from masking_by_path [OF this, THEN conjunct1]
  have "at_path [''user'', ''newPassword''] (JObj (maskObject [(''user'', JObj [(''newPassword'', JStr ''s3cret'')])])) =
      Some (if \<exists>a m b. ''newPassword'' = a @ m @ b \<and> lowers_to_password m then kMask else JStr ''s3cret'')"
    by simp
  moreover have "isPasswordKey ''newPassword''" by code_simp
  ultimately show ?thesis unfolding isPasswordKey_iff by simp
qed

text \<open>The module recorded for \<open>/api/v1/m/r\<close> is the segment after the module \<open>m\<close>, and ``other'' when
  there is none: the third slash found is the one that follows the module.\<close>

theorem moduleOf_misses_module:
  assumes "CHR ''/'' \<notin> set m" and "CHR ''/'' \<notin> set r"
  shows "moduleOf (''/api/v1/'' @ m) = ''other'' \<and>
    moduleOf (''/api/v1/'' @ m @ ''/'' @ r) = r \<and>
    moduleOf (''/api/v1/'' @ m @ ''/'' @ r @ ''/'' @ rest) = r"
proof -
  have f1: "find_from (CHR ''/'') (''/api/v1/'' @ x) 1 = Some 4" for x
    using find_from_skip [of 1 "''/api''" "CHR ''/''" "''v1/'' @ x"] by simp
  have f2: "find_from (CHR ''/'') (''/api/v1/'' @ x) 5 = Some 7" for x
    using find_from_skip [of 5 "''/api/v1''" "CHR ''/''" x] by simp
  have t: "third_slash 3 (''/api/v1/'' @ x) (Some 0) = find_from (CHR ''/'') (''/api/v1/'' @ x) 8" for x
    using f1 [of x] f2 [of x] by (simp add: numeral_3_eq_3 eval_nat_numeral del: append_Cons)
  have n: "find_from (CHR ''/'') (''/api/v1/'' @ m) 8 = None"
    using assms(1) by (intro find_from_none) simp_all
  have s: "find_from (CHR ''/'') (''/api/v1/'' @ m @ CHR ''/'' # y) 8 = Some (8 + length m)" for y
    using find_from_skip [of 8 "''/api/v1/'' @ m" "CHR ''/''" y] assms(1) by simp
  let ?p = "''/api/v1/'' @ m @ ''/''"
  have d: "drop (9 + length m) (?p @ x) = x" for x
  proof -
    have "9 + length m = length ?p" by simp
    then show ?thesis by (metis append_eq_conv_conj)
  qed
  have e: "find_from (CHR ''/'') (?p @ r) (9 + length m) = None"
  proof (rule find_from_none)
    show "CHR ''/'' \<notin> set (drop (9 + length m) (?p @ r))" unfolding d by (rule assms(2))
  qed simp
  have e2: "find_from (CHR ''/'') ((?p @ r) @ CHR ''/'' # rest) (9 + length m) = Some (9 + length m + length r)"
    using find_from_skip [of "9 + length m" "?p @ r" "CHR ''/''" rest] assms(2) unfolding d by simp
  have "moduleOf (''/api/v1/'' @ m) = ''other''"
    unfolding moduleOf_def t n by simp
  moreover have "moduleOf (?p @ r) = r"
    using e d [of r] t [of "m @ ''/'' @ r"] s [of r] unfolding moduleOf_def by (simp add: add.commute)
  moreover have "moduleOf ((?p @ r) @ CHR ''/'' # rest) = r"
    using e2 d [of "r @ CHR ''/'' # rest"] t [of "m @ ''/'' @ r @ CHR ''/'' # rest"] s [of "r @ CHR ''/'' # rest"]
    unfolding moduleOf_def by (simp add: add.commute)
  ultimately show ?thesis by simp
qed

theorem moduleOf_misses_module_witness: "moduleOf ''/api/v1/system/users/7'' = ''users''"
  using moduleOf_misses_module [of "''system''" "''users''" "''7''"] by simp

text \<open>The trail: a write to the API is recorded with the user of its token, and after the next flush
  with a working database its row is there, once and after the rows before it; a flush leaves
  no entry behind in the buffer, a failed insert included.\<close>

theorem audit_trail:
  assumes "rq_method (hd_req h) \<noteq> ''GET''" and "rq_path (hd_req h) = ''/api/v1/'' @ rest"
  shows "let t1 = recordAudit parse dump h t; e = entry_of parse dump h in
    tr_rows (flush (\<lambda>_. True) t1) = tr_rows t @ tr_buffer t @ [e] \<and>
    (\<forall>p. hd_ctx h = Some p \<longrightarrow> au_user e = tp_user p \<and> au_name e = tp_username p) \<and>
    tr_buffer (flush inserts t1) = []"
proof -
  have "auditable (rq_path (hd_req h)) (rq_method (hd_req h))"
    using assms by (simp add: auditable_def)
  then show ?thesis by (simp add: recordAudit_def enqueue_def flush_def entry_of_def Let_def)
qed

theorem audit_trail_witness:
  "tr_rows (flush (\<lambda>_. True) (recordAudit (\<lambda>_. None) (\<lambda>_. [])
     \<lparr>hd_req = demo_request\<lparr>rq_path := ''/api/v1/auth/logout'', rq_method := ''POST''\<rparr>, hd_ctx = None, hd_query = [],
      hd_body = [], hd_addr = [], hd_agent = [], hd_start_us = None, hd_now_us = 0, hd_status = Some 200\<rparr>
     \<lparr>tr_buffer = [], tr_rows = []\<rparr>)) \<noteq> []"
  (is "tr_rows (flush _ (recordAudit ?p ?d ?h ?t)) \<noteq> []")
  using audit_trail [of ?h "''auth/logout''" ?p ?d ?t] by (simp add: Let_def)

end
