(* ===== verification/Org_Trees.thy ===== *)
theory Org_Trees
  imports Auth
begin

text \<open>
  The trees of departments and of permissions (\<open>deptTree\<close> and \<open>permissionTree\<close> of
  \<open>services/SystemService.cc\<close>): nodes in a map by identifier, and one pass over the rows in sort
  order that appends a copy of each node to its parent or to the tree.
\<close>

section \<open>The pass\<close>

datatype 'a node = Node (node_id: int) (node_data: 'a) (children: "'a node list")

record 'a tree_row =
  tr_id :: int
  tr_parent :: int
  tr_data :: 'a

definition fresh_node :: "'a tree_row \<Rightarrow> 'a node" where
  "fresh_node r = Node (tr_id r) (tr_data r) []"

fun push_child :: "'a node \<Rightarrow> 'a node \<Rightarrow> 'a node" where
  "push_child (Node i d cs) c = Node i d (cs @ [c])"

definition all_nodes :: "'a tree_row list \<Rightarrow> int \<rightharpoonup> 'a node" where
  "all_nodes rows = map_of (map (\<lambda>r. (tr_id r, fresh_node r)) rows)"

fun attach :: "(int \<times> int) list \<Rightarrow> (int \<rightharpoonup> 'a node) \<Rightarrow> 'a node list \<Rightarrow> (int \<rightharpoonup> 'a node) \<times> 'a node list" where
  "attach [] nodes tree = (nodes, tree)"
| "attach ((child, parent) # es) nodes tree =
     (case nodes child of
        None \<Rightarrow> attach es nodes tree
      | Some n \<Rightarrow>
          (case nodes parent of
             None \<Rightarrow> attach es nodes (tree @ [n])
           | Some pn \<Rightarrow>
               if parent = 0 then attach es nodes (tree @ [n])
               else attach es (nodes(parent \<mapsto> push_child pn n)) tree))"

definition build_tree :: "'a tree_row list \<Rightarrow> 'a node list" where
  "build_tree rows = snd (attach (map (\<lambda>r. (tr_id r, tr_parent r)) rows) (all_nodes rows) [])"

text \<open>Departments and permissions in sort order; a missing parent is 0.\<close>

definition zero_if_null :: "int option \<Rightarrow> int" where
  "zero_if_null x = (case x of None \<Rightarrow> 0 | Some i \<Rightarrow> i)"

definition dept_rows :: "department list \<Rightarrow> department tree_row list" where
  "dept_rows ds = map (\<lambda>d. \<lparr>tr_id = de_id d, tr_parent = zero_if_null (de_parent d), tr_data = d\<rparr>)
    (sort_key de_sort (sort_key de_id (filter (\<lambda>d. \<not> de_deleted d) ds)))"

definition deptTree :: "bool \<Rightarrow> auth \<Rightarrow> department node list reply" where
  "deptTree db s = (if db then Answer (build_tree (dept_rows (a_depts s))) else Refuse 500 ''database error'')"

definition perm_rows :: "perm_row list \<Rightarrow> perm_row tree_row list" where
  "perm_rows ps = map (\<lambda>p. \<lparr>tr_id = pm_id p, tr_parent = zero_if_null (pm_parent p), tr_data = p\<rparr>)
    (sort_key pm_sort (sort_key pm_id ps))"

definition permissionTree :: "bool \<Rightarrow> auth \<Rightarrow> perm_row node list reply" where
  "permissionTree db s =
    (if db then Answer (build_tree (perm_rows (rb_perms (a_rbac s)))) else Refuse 500 ''database error'')"

section \<open>What the pass builds\<close>

text \<open>
  The node of row \<open>k\<close> as it is when its own turn comes: with the children that come before it,
  each as it was at its turn.
\<close>

function snapshot :: "'a tree_row list \<Rightarrow> nat \<Rightarrow> 'a node" where
  "snapshot rows k = Node (tr_id (rows ! k)) (tr_data (rows ! k))
     (map (snapshot rows) (filter (\<lambda>j. tr_parent (rows ! j) = tr_id (rows ! k)) [0..<k]))"
  by pat_completeness auto
termination
  by (relation "measure snd") auto

declare snapshot.simps [simp del]

text \<open>The node of row \<open>i\<close> after the first \<open>m\<close> rows had their turn.\<close>

definition at_turn :: "'a tree_row list \<Rightarrow> nat \<Rightarrow> nat \<Rightarrow> 'a node" where
  "at_turn rows m i = Node (tr_id (rows ! i)) (tr_data (rows ! i))
     (map (snapshot rows) (filter (\<lambda>j. tr_parent (rows ! j) = tr_id (rows ! i)) [0..<m]))"

definition is_root :: "'a tree_row list \<Rightarrow> nat \<Rightarrow> bool" where
  "is_root rows k \<longleftrightarrow> tr_parent (rows ! k) = 0 \<or> tr_parent (rows ! k) \<notin> tr_id ` set rows"

lemma at_turn_self: "at_turn rows k k = snapshot rows k"
  by (simp add: at_turn_def snapshot.simps [of rows k])

lemma at_turn_Suc_other:
  "tr_parent (rows ! m) \<noteq> tr_id (rows ! i) \<Longrightarrow> at_turn rows (Suc m) i = at_turn rows m i"
  by (simp add: at_turn_def)

lemma at_turn_Suc_parent:
  "tr_parent (rows ! m) = tr_id (rows ! i) \<Longrightarrow> at_turn rows (Suc m) i = push_child (at_turn rows m i) (snapshot rows m)"
  by (simp add: at_turn_def)

definition pass_inv :: "'a tree_row list \<Rightarrow> nat \<Rightarrow> (int \<rightharpoonup> 'a node) \<Rightarrow> 'a node list \<Rightarrow> bool" where
  "pass_inv rows m nodes tree \<longleftrightarrow>
    (\<forall>i<length rows. nodes (tr_id (rows ! i)) = Some (at_turn rows m i)) \<and>
    dom nodes = tr_id ` set rows \<and>
    tree = map (snapshot rows) (filter (is_root rows) [0..<m])"

lemma pass_inv_start: "distinct (map tr_id rows) \<Longrightarrow> pass_inv rows 0 (all_nodes rows) []"
proof -
  assume d: "distinct (map tr_id rows)"
  have "map_of (map (\<lambda>r. (tr_id r, fresh_node r)) rows) (tr_id (rows ! i)) = Some (fresh_node (rows ! i))"
    if "i < length rows" for i
    using d that by (intro map_of_is_SomeI) (simp_all add: comp_def)
  then show ?thesis
    by (simp add: pass_inv_def all_nodes_def at_turn_def fresh_node_def dom_map_of_conv_image_fst image_image)
qed

lemma attach_Cons:
  assumes "nodes c = Some n"
  shows "attach ((c, p) # es) nodes tree =
    (if nodes p = None \<or> p = 0 then attach es nodes (tree @ [n])
     else attach es (nodes(p \<mapsto> push_child (the (nodes p)) n)) tree)"
  using assms by (auto split: option.split)

lemma pass_inv_root:
  assumes "pass_inv rows m nodes tree" and "m < length rows" and "nodes (tr_parent (rows ! m)) = None"
  shows "pass_inv rows (Suc m) nodes (tree @ [snapshot rows m])"
proof -
  have "tr_parent (rows ! m) \<notin> tr_id ` set rows" using assms(1,3) by (auto simp: pass_inv_def)
  then have r: "is_root rows m" by (simp add: is_root_def)
  have "at_turn rows (Suc m) j = at_turn rows m j" if "j < length rows" for j
    using assms(1,3) that by (intro at_turn_Suc_other) (auto simp: pass_inv_def)
  with assms(1) r show ?thesis by (simp add: pass_inv_def)
qed

lemma pass_inv_child:
  assumes d: "distinct (map tr_id rows)" and i: "pass_inv rows m nodes tree" and m: "m < length rows"
    and p: "nodes (tr_parent (rows ! m)) = Some pn" "tr_parent (rows ! m) \<noteq> 0"
  shows "pass_inv rows (Suc m) (nodes(tr_parent (rows ! m) \<mapsto> push_child pn (snapshot rows m))) tree"
proof -
  let ?p = "tr_parent (rows ! m)"
  have mem: "?p \<in> tr_id ` set rows" using i p(1) by (auto simp: pass_inv_def)
  then have r: "\<not> is_root rows m" using p(2) by (simp add: is_root_def)
  have "(nodes(?p \<mapsto> push_child pn (snapshot rows m))) (tr_id (rows ! j)) = Some (at_turn rows (Suc m) j)"
    if j: "j < length rows" for j
  proof (cases "?p = tr_id (rows ! j)")
    case True
    then have "pn = at_turn rows m j" using i j p(1) by (simp add: pass_inv_def)
    with True show ?thesis using at_turn_Suc_parent [OF True] by simp
  next
    case False
    then show ?thesis using at_turn_Suc_other [OF False] i j by (simp add: pass_inv_def)
  qed
  moreover have "dom (nodes(?p \<mapsto> push_child pn (snapshot rows m))) = tr_id ` set rows"
    using i mem by (auto simp: pass_inv_def)
  ultimately show ?thesis using i r by (simp add: pass_inv_def)
qed

lemma attach_pass:
  assumes d: "distinct (map tr_id rows)" and z: "0 \<notin> tr_id ` set rows"
  shows "pass_inv rows m nodes tree \<Longrightarrow> m + length rest = length rows \<Longrightarrow> drop m rows = rest \<Longrightarrow>
    snd (attach (map (\<lambda>r. (tr_id r, tr_parent r)) rest) nodes tree) =
    map (snapshot rows) (filter (is_root rows) [0..<length rows])"
proof (induction rest arbitrary: m nodes tree)
  case Nil
  then show ?case by (simp add: pass_inv_def)
next
  case (Cons r rest)
  then have m: "m < length rows" by simp
  have r: "r = rows ! m" "drop (Suc m) rows = rest" using Cons.prems(3) m by (simp_all add: Cons_nth_drop_Suc [symmetric])
  have n: "nodes (tr_id r) = Some (snapshot rows m)"
    using Cons.prems(1) m by (simp add: pass_inv_def at_turn_self r)
  show ?case
  proof (cases "nodes (tr_parent r)")
    case None
    from pass_inv_root [OF Cons.prems(1) m] None
    have "pass_inv rows (Suc m) nodes (tree @ [snapshot rows m])" by (simp add: r)
    from Cons.IH [OF this] Cons.prems(2) r(2) None show ?thesis
      by (simp add: n)
  next
    case (Some pn)
    have z': "tr_parent r \<noteq> 0" using Some z Cons.prems(1) by (metis domI pass_inv_def)
    from pass_inv_child [OF d Cons.prems(1) m] Some z'
    have "pass_inv rows (Suc m) (nodes(tr_parent r \<mapsto> push_child pn (snapshot rows m))) tree" by (simp add: r)
    note ih = Cons.IH [OF this _ r(2)]
    from Cons.prems(2) Some z' show ?thesis by (simp add: n ih del: fun_upd_apply)
  qed
qed

lemma build_tree_snapshots:
  assumes "distinct (map tr_id rows)" and "0 \<notin> tr_id ` set rows"
  shows "build_tree rows = map (snapshot rows) (filter (is_root rows) [0..<length rows])"
  unfolding build_tree_def by (rule attach_pass [OF assms pass_inv_start [OF assms(1)]]) simp_all

section \<open>Properties\<close>

text \<open>The tree is a list of snapshots of the roots: a node carries a child only if the child's row
  comes before its own. So when parents come before their children, as the usual sort order has
  them, every root is shown without any children and no other node is shown at all.\<close>

theorem tree_misses_later_children:
  assumes "distinct (map tr_id rows)" and "0 \<notin> tr_id ` set rows"
  shows "build_tree rows = map (snapshot rows) (filter (is_root rows) [0..<length rows]) \<and>
    ((\<forall>j k. k < length rows \<and> j < k \<longrightarrow> tr_parent (rows ! j) \<noteq> tr_id (rows ! k)) \<longrightarrow>
      build_tree rows = map (\<lambda>k. fresh_node (rows ! k)) (filter (is_root rows) [0..<length rows]))"
proof -
  have "snapshot rows k = fresh_node (rows ! k)"
    if "k < length rows" "\<And>j. j < k \<Longrightarrow> tr_parent (rows ! j) \<noteq> tr_id (rows ! k)" for k
    using that by (subst snapshot.simps) (auto simp: fresh_node_def filter_empty_conv)
  then show ?thesis unfolding build_tree_snapshots [OF assms] by auto
qed

definition demo_depts :: "department tree_row list" where
  "demo_depts = dept_rows
    [\<lparr>de_id = 1, de_parent = None, de_code = ''A'', de_name = ''plant'', de_sort = 0, de_leader = None, de_phone = [],
      de_status = 1, de_deleted = False\<rparr>,
     \<lparr>de_id = 2, de_parent = Some 1, de_code = ''B'', de_name = ''line'', de_sort = 0, de_leader = None, de_phone = [],
      de_status = 1, de_deleted = False\<rparr>]"

theorem tree_misses_later_children_witness: "map children (build_tree demo_depts) = [[]]"
proof -
  have d: "distinct (map tr_id demo_depts)" "0 \<notin> tr_id ` set demo_depts" by code_simp+
  have l: "length demo_depts = 2" by code_simp
  have p: "tr_parent (demo_depts ! 0) \<noteq> tr_id (demo_depts ! 1)" "filter (is_root demo_depts) [0..<2] = [0]" by code_simp+
  have "\<forall>j k. k < length demo_depts \<and> j < k \<longrightarrow> tr_parent (demo_depts ! j) \<noteq> tr_id (demo_depts ! k)"
    using p(1) by (auto simp: l less_Suc_eq numeral_2_eq_2)
  with tree_misses_later_children [OF d] have "build_tree demo_depts = [fresh_node (demo_depts ! 0)]"
    by (metis (no_types, lifting) l p(2) list.simps(8,9))
  then show ?thesis by (simp add: fresh_node_def)
qed

end
