(* ===== verification/Org_Admin.thy ===== *)
theory Org_Admin
  imports Org_Trees Audit_Trail
begin

text \<open>
  Administration (\<open>services/SystemService.cc\<close>, and the handler of \<open>UserController.cc\<close> that guards a
  password reset): users, roles, assignments, data scopes, departments, audit queries and
  configuration. A transaction is a list of statements; the first that fails aborts it. What the
  driver then does with the commit callback is in the environment, as are the identifiers the
  sequences give, the answers of the database and the salt of a new hash.
\<close>

section \<open>State and environment\<close>

record config_row =
  cf_key :: string
  cf_value :: "string option"
  cf_type :: string
  cf_desc :: "string option"
  cf_category :: "string option"
  cf_system :: bool

record log_row =
  lg_id :: int
  lg_at :: int
  lg_entry :: audit_entry

record org =
  og_auth :: auth
  og_logs :: "log_row list"
  og_configs :: "config_row list"

text \<open>
  The first and the second query are answered; the commit succeeds; the driver calls the commit
  callback of an aborted transaction with false (or not at all); the next identifier.
\<close>

record org_env =
  oe_db :: bool
  oe_db2 :: bool
  oe_commit :: bool
  oe_abort_reply :: bool
  oe_id :: int
  oe_rbac :: rbac_env

definition kDefaultPassword :: string where "kDefaultPassword = ''Mes@123456''"

definition parseInt64 :: "json option \<Rightarrow> int \<Rightarrow> int" where
  "parseInt64 v def =
    (case v of
       Some (JStr s) \<Rightarrow> if s = [] then def else (case stoll s of Some i \<Rightarrow> i | None \<Rightarrow> def)
     | Some j \<Rightarrow> (case int_item j of Some i \<Rightarrow> i | None \<Rightarrow> def)
     | None \<Rightarrow> def)"

section \<open>Transactions\<close>

type_synonym stmt = "auth \<Rightarrow> auth option"

fun run_stmts :: "stmt list \<Rightarrow> auth \<Rightarrow> auth option" where
  "run_stmts [] s = Some s"
| "run_stmts (f # fs) s = (case f s of None \<Rightarrow> None | Some t \<Rightarrow> run_stmts fs t)"

datatype trans_end = Committed auth | CommitFailed | Aborted

definition run_trans :: "org_env \<Rightarrow> stmt list \<Rightarrow> auth \<Rightarrow> trans_end" where
  "run_trans e fs s =
    (case run_stmts fs s of
       None \<Rightarrow> Aborted
     | Some t \<Rightarrow> if oe_commit e then Committed t else CommitFailed)"

definition aborted_reply :: "org_env \<Rightarrow> 'a reply" where
  "aborted_reply e = (if oe_abort_reply e then Refuse 500 ''commit failed'' else Silent)"

section \<open>Invalidation\<close>

definition invalidate_user :: "org_env \<Rightarrow> int \<Rightarrow> auth \<Rightarrow> auth" where
  "invalidate_user e uid s = s\<lparr>a_rbac := invalidateUserPerm (oe_rbac e) uid (a_rbac s)\<rparr>"

definition role_users :: "auth \<Rightarrow> int \<Rightarrow> int list" where
  "role_users s rid = map fst (filter (\<lambda>ur. snd ur = rid) (rb_user_roles (a_rbac s)))"

definition invalidateRoleUsers :: "org_env \<Rightarrow> int \<Rightarrow> auth \<Rightarrow> auth" where
  "invalidateRoleUsers e rid s =
    (if oe_db2 e then fold (invalidate_user e) (role_users s rid) s else s)"

section \<open>Users\<close>

record user_view =
  uv_row :: user_row
  uv_dept :: string
  uv_roles :: "string list"

definition view_user :: "auth \<Rightarrow> user_row \<Rightarrow> user_view" where
  "view_user s r =
    \<lparr>uv_row = r, uv_dept = dept_name_of s r,
     uv_roles = [ro_code q. (u, rid) \<leftarrow> rb_user_roles (a_rbac s), q \<leftarrow> rb_roles (a_rbac s), u = us_id r \<and> ro_id q = rid]\<rparr>"

definition user_matches :: "string \<Rightarrow> int \<Rightarrow> user_row \<Rightarrow> bool" where
  "user_matches keyword status r \<longleftrightarrow> \<not> us_deleted r
    \<and> (keyword = [] \<or> contains_keyword keyword (us_name r) \<or> contains_keyword keyword (us_real r)
        \<or> (\<exists>n. us_empno r = Some n \<and> contains_keyword keyword n))
    \<and> (status < 0 \<or> us_status r = status)"

definition listUsers :: "org_env \<Rightarrow> int \<Rightarrow> int \<Rightarrow> string \<Rightarrow> int \<Rightarrow> auth \<Rightarrow> user_view page_result reply" where
  "listUsers e page psize keyword status s =
    list_page (oe_db e) (oe_db2 e) page psize
      (map (view_user s) (sort_key us_id (filter (user_matches keyword status) (a_users s))))"

text \<open>None as the second component: the roles could not be read.\<close>

definition getUser :: "org_env \<Rightarrow> int \<Rightarrow> auth \<Rightarrow> (user_view \<times> int list option) option reply" where
  "getUser e uid s =
    (if \<not> oe_db e then Refuse 500 ''database error''
     else
       case first_row (\<lambda>r. us_id r = uid \<and> \<not> us_deleted r) (a_users s) of
         None \<Rightarrow> Answer None
       | Some r \<Rightarrow>
           Answer (Some (view_user s r,
             if oe_db2 e then Some (map snd (filter (\<lambda>ur. fst ur = uid) (rb_user_roles (a_rbac s)))) else None)))"

definition dept_known :: "auth \<Rightarrow> int option \<Rightarrow> bool" where
  "dept_known s d = (case d of None \<Rightarrow> True | Some i \<Rightarrow> i \<in> de_id ` set (a_depts s))"

definition null_if_zero :: "int \<Rightarrow> int option" where
  "null_if_zero i = (if i = 0 then None else Some i)"

definition null_if_empty :: "string \<Rightarrow> string option" where
  "null_if_empty s = (if s = [] then None else Some s)"

definition delete_user_roles :: "int \<Rightarrow> stmt" where
  "delete_user_roles uid s =
    Some (s\<lparr>a_rbac := (a_rbac s)\<lparr>rb_user_roles := filter (\<lambda>ur. fst ur \<noteq> uid) (rb_user_roles (a_rbac s))\<rparr>\<rparr>)"

text \<open>\<open>ON CONFLICT DO NOTHING\<close>, with the two foreign keys.\<close>

definition insert_user_role :: "int \<Rightarrow> int \<Rightarrow> stmt" where
  "insert_user_role uid rid s =
    (if (uid, rid) \<in> set (rb_user_roles (a_rbac s)) then Some s
     else if uid \<in> us_id ` set (a_users s) \<and> rid \<in> ro_id ` set (rb_roles (a_rbac s)) then
       Some (s\<lparr>a_rbac := (a_rbac s)\<lparr>rb_user_roles := rb_user_roles (a_rbac s) @ [(uid, rid)]\<rparr>\<rparr>)
     else None)"

definition assignRoles :: "org_env \<Rightarrow> int \<Rightarrow> int list \<Rightarrow> auth \<Rightarrow> json reply \<times> auth" where
  "assignRoles e uid rids s =
    (if \<not> oe_db e then (Refuse 500 ''database error'', s)
     else
       case run_trans e (delete_user_roles uid # map (insert_user_role uid) rids) s of
         Committed t \<Rightarrow>
           (Answer (JObj [(''user_id'', JInt uid), (''assigned'', JInt (int (length rids)))]), invalidate_user e uid t)
       | CommitFailed \<Rightarrow> (Refuse 500 ''commit failed'', s)
       | Aborted \<Rightarrow> (aborted_reply e, s))"

definition created_user :: "crypto \<Rightarrow> int \<Rightarrow> int option \<Rightarrow> string \<Rightarrow> string \<Rightarrow> string \<Rightarrow> string \<Rightarrow> string \<Rightarrow> string \<Rightarrow> int \<Rightarrow> user_row" where
  "created_user C i dept username realName password empno email phone gender =
    \<lparr>us_id = i, us_name = username, us_hash = hashPassword C password, us_real = realName,
     us_empno = null_if_empty empno, us_email = null_if_empty email, us_phone = null_if_empty phone,
     us_gender = gender, us_status = 1, us_deleted = False, us_fail = 0, us_dept = dept,
     us_last_login = None, us_last_ip = None\<rparr>"

text \<open>The row breaks a unique key: of the user name, or of the employee number.\<close>

definition user_clash :: "auth \<Rightarrow> user_row \<Rightarrow> bool" where
  "user_clash s r \<longleftrightarrow> (\<exists>q\<in>set (a_users s). us_name q = us_name r \<or> (us_empno r \<noteq> None \<and> us_empno q = us_empno r) \<or> us_id q = us_id r)"

text \<open>Roles given with a new user: an array with something in it.\<close>

definition role_list :: "json \<Rightarrow> json list option" where
  "role_list body = (case member ''role_ids'' body of Some (JArr (x # xs)) \<Rightarrow> Some (x # xs) | _ \<Rightarrow> None)"

definition createUser :: "crypto \<Rightarrow> org_env \<Rightarrow> json \<Rightarrow> auth \<Rightarrow> json reply \<times> auth" where
  "createUser C e body s =
    (case (field_value [] (jstr ''username'' body), field_value [] (jstr ''real_name'' body)) of
       (Inr username, Inr realName) \<Rightarrow>
         if username = [] \<or> realName = [] then (Refuse 400 ''username and real_name required'', s)
         else
           (case (field_value kDefaultPassword (jstr ''password'' body), field_value 0 (jlong ''dept_id'' body),
                  field_value [] (jstr ''employee_no'' body), field_value [] (jstr ''email'' body),
                  field_value [] (jstr ''phone'' body), field_value 0 (jint32 ''gender'' body)) of
              (Inr password, Inr dept, Inr empno, Inr email, Inr phone, Inr gender) \<Rightarrow>
                let r = created_user C (oe_id e) (null_if_zero dept) username realName password empno email phone gender in
                if \<not> oe_db e then (Refuse 500 ''database error'', s)
                else if user_clash s r then (Refuse 409 ''user name or employee number exists'', s)
                else if \<not> int16_ok gender \<or> \<not> dept_known s (us_dept r) then (Refuse 500 ''database error'', s)
                else
                  let s1 = s\<lparr>a_users := a_users s @ [r]\<rparr>;
                      done = Answer (JObj [(''id'', JInt (oe_id e)), (''created'', JBool True)]) in
                  (case role_list body of
                     None \<Rightarrow> (done, s1)
                   | Some js \<Rightarrow>
                       (case all_items int_item js of
                          None \<Rightarrow> (Thrown, s1)
                        | Some rids \<Rightarrow>
                            (case assignRoles (e\<lparr>oe_db := oe_db2 e\<rparr>) (oe_id e) rids s1 of
                               (Answer _, s2) \<Rightarrow> (done, s2)
                             | (other, s2) \<Rightarrow> (other, s2))))
            | _ \<Rightarrow> (Thrown, s))
     | _ \<Rightarrow> (Thrown, s))"

text \<open>One \<open>UPDATE\<close> of a live user.\<close>

definition set_user :: "int \<Rightarrow> (user_row \<Rightarrow> user_row) \<Rightarrow> auth \<Rightarrow> auth" where
  "set_user uid f s = s\<lparr>a_users := upd_where (\<lambda>r. us_id r = uid \<and> \<not> us_deleted r) f (a_users s)\<rparr>"

definition live_user :: "auth \<Rightarrow> int \<Rightarrow> bool" where
  "live_user s uid \<longleftrightarrow> (\<exists>r\<in>set (a_users s). us_id r = uid \<and> \<not> us_deleted r)"

definition user_column :: "string \<Rightarrow> string \<Rightarrow> user_row \<Rightarrow> user_row" where
  "user_column col v r =
    (if col = ''real_name'' then r\<lparr>us_real := v\<rparr>
     else if col = ''employee_no'' then r\<lparr>us_empno := Some v\<rparr>
     else if col = ''email'' then r\<lparr>us_email := Some v\<rparr>
     else r\<lparr>us_phone := Some v\<rparr>)"

text \<open>
  The statement for one column; Inl is the exception of a value that is no string, which leaves
  the loop.
\<close>

definition user_stmt :: "int \<Rightarrow> json \<Rightarrow> string \<Rightarrow> unit + stmt" where
  "user_stmt uid body col =
    (if col = ''dept_id'' then
       let d = null_if_zero (parseInt64 (member col body) 0) in
       Inr (\<lambda>s. if dept_known s d \<or> \<not> live_user s uid then Some (set_user uid (\<lambda>r. r\<lparr>us_dept := d\<rparr>) s) else None)
     else if col = ''gender'' then
       let g = to_int32 (parseInt64 (member col body) 0) in
       Inr (\<lambda>s. if int16_ok g then Some (set_user uid (\<lambda>r. r\<lparr>us_gender := g\<rparr>) s) else None)
     else
       case jstr col body of
         Given v \<Rightarrow>
           Inr (\<lambda>s. if col = ''employee_no'' \<and> live_user s uid
                      \<and> (\<exists>q\<in>set (a_users s). us_empno q = Some v \<and> us_id q \<noteq> uid) then None
                    else Some (set_user uid (user_column col v) s))
       | _ \<Rightarrow> Inl ())"

fun queue_stmts :: "('c \<Rightarrow> unit + stmt) \<Rightarrow> 'c list \<Rightarrow> stmt list \<times> bool" where
  "queue_stmts f [] = ([], True)"
| "queue_stmts f (c # cs) =
     (case f c of
        Inl _ \<Rightarrow> ([], False)
      | Inr st \<Rightarrow> (case queue_stmts f cs of (sts, ok) \<Rightarrow> (st # sts, ok)))"

definition user_cols :: "json \<Rightarrow> string list" where
  "user_cols body = filter (\<lambda>c. member c body \<noteq> None)
    [''real_name'', ''employee_no'', ''email'', ''phone'', ''gender'', ''dept_id'']"

text \<open>
  The transaction object dies at the end of the function or when the exception passes, and its
  commit is queued behind the statements in both cases.
\<close>

definition finish_update :: "org_env \<Rightarrow> int \<Rightarrow> stmt list \<times> bool \<Rightarrow> auth \<Rightarrow> json reply \<times> auth" where
  "finish_update e rid queued s =
    (case (if oe_db e then run_trans e (fst queued) s else Aborted) of
       Committed t \<Rightarrow>
         (if snd queued then Answer (JObj [(''id'', JInt rid), (''updated'', JBool True)]) else Thrown, t)
     | CommitFailed \<Rightarrow> (if snd queued then Refuse 500 ''commit failed'' else Thrown, s)
     | Aborted \<Rightarrow> (if snd queued then aborted_reply e else Thrown, s))"

definition updateUser :: "org_env \<Rightarrow> int \<Rightarrow> json \<Rightarrow> auth \<Rightarrow> json reply \<times> auth" where
  "updateUser e uid body s =
    (if user_cols body = [] then (Refuse 400 ''nothing to update'', s)
     else finish_update e uid (queue_stmts (user_stmt uid body) (user_cols body)) s)"

definition deleteUser :: "org_env \<Rightarrow> int \<Rightarrow> auth \<Rightarrow> json reply \<times> auth" where
  "deleteUser e uid s =
    (if \<not> oe_db e then (Refuse 500 ''database error'', s)
     else if uid \<notin> us_id ` set (a_users s) then (Answer JNull, s)
     else (Answer (JObj [(''id'', JInt uid), (''deleted'', JBool True)]),
           invalidate_user e uid (update_users True uid (\<lambda>r. r\<lparr>us_deleted := True\<rparr>) s)))"

definition unlocked :: "string \<Rightarrow> user_row \<Rightarrow> user_row" where
  "unlocked hash r = r\<lparr>us_hash := hash, us_fail := 0, us_status := (if us_status r = 2 then 1 else us_status r)\<rparr>"

definition resetPassword :: "crypto \<Rightarrow> org_env \<Rightarrow> int \<Rightarrow> json \<Rightarrow> auth \<Rightarrow> json reply \<times> auth" where
  "resetPassword C e uid body s =
    (case (case body of JObj _ \<Rightarrow> field_value kDefaultPassword (jstr ''new_password'' body) | _ \<Rightarrow> Inl JsonError) of
       Inl _ \<Rightarrow> (Thrown, s)
     | Inr newPwd \<Rightarrow>
         if length newPwd < 8 then (Refuse 400 ''password too short'', s)
         else if \<not> oe_db e then (Refuse 500 ''database error'', s)
         else if \<not> live_user s uid then (Answer JNull, s)
         else (Answer (JObj [(''id'', JInt uid), (''reset'', JBool True)]),
               set_user uid (unlocked (hashPassword C newPwd)) s))"

text \<open>
  The handler tests \<open>body ? body : object()\<close>: the conversion of a JSON document to \<open>bool\<close> throws on
  anything but a boolean.
\<close>

definition resetPassword_handler :: "crypto \<Rightarrow> org_env \<Rightarrow> int \<Rightarrow> json \<Rightarrow> auth \<Rightarrow> json reply \<times> auth" where
  "resetPassword_handler C e uid body s =
    (case body of
       JBool b \<Rightarrow> resetPassword C e uid (if b then body else JObj []) s
     | _ \<Rightarrow> (Thrown, s))"

definition setUserStatus :: "org_env \<Rightarrow> int \<Rightarrow> int \<Rightarrow> auth \<Rightarrow> json reply \<times> auth" where
  "setUserStatus e uid status s =
    (if status \<noteq> 0 \<and> status \<noteq> 1 then (Refuse 400 ''status 0 or 1'', s)
     else if \<not> oe_db e then (Refuse 500 ''database error'', s)
     else if \<not> live_user s uid then (Answer JNull, s)
     else (Answer (JObj [(''id'', JInt uid), (''updated'', JBool True)]),
           set_user uid (\<lambda>r. r\<lparr>us_status := status, us_fail := (if status = 1 then 0 else us_fail r)\<rparr>) s))"

end
