(* ===== verification/Org_Roles.thy ===== *)
theory Org_Roles
  imports Org_Admin "HOL-Library.List_Lexorder" "HOL-Library.Char_ord"
begin

text \<open>
  Roles, their permissions and data scopes, departments, the audit query and the configuration
  (the rest of \<open>services/SystemService.cc\<close>).
\<close>

section \<open>Roles\<close>

definition with_rbac :: "(rbac \<Rightarrow> rbac) \<Rightarrow> auth \<Rightarrow> auth" where
  "with_rbac f s = s\<lparr>a_rbac := f (a_rbac s)\<rparr>"

definition live_roles :: "auth \<Rightarrow> role_row list" where
  "live_roles s = filter (\<lambda>r. \<not> ro_deleted r) (rb_roles (a_rbac s))"

definition listRoles :: "org_env \<Rightarrow> auth \<Rightarrow> role_row list reply" where
  "listRoles e s =
    (if oe_db e then Answer (sort_key ro_sort (sort_key ro_id (live_roles s))) else Refuse 500 ''database error'')"

definition getRole :: "org_env \<Rightarrow> int \<Rightarrow> auth \<Rightarrow> (role_row \<times> int list option) option reply" where
  "getRole e rid s =
    (if \<not> oe_db e then Refuse 500 ''database error''
     else
       case first_row (\<lambda>r. ro_id r = rid) (live_roles s) of
         None \<Rightarrow> Answer None
       | Some r \<Rightarrow>
           Answer (Some (r, if oe_db2 e then Some (map snd (filter (\<lambda>rp. fst rp = rid) (rb_role_perms (a_rbac s)))) else None)))"

definition createRole :: "org_env \<Rightarrow> json \<Rightarrow> auth \<Rightarrow> json reply \<times> auth" where
  "createRole e body s =
    (case (field_value [] (jstr ''role_code'' body), field_value [] (jstr ''role_name'' body)) of
       (Inr code, Inr name) \<Rightarrow>
         if code = [] \<or> name = [] then (Refuse 400 ''role_code and role_name required'', s)
         else
           (case (field_value [] (jstr ''description'' body), field_value 1 (jint32 ''data_scope'' body),
                  field_value 0 (jint32 ''sort_order'' body)) of
              (Inr desc, Inr dscope, Inr sorder) \<Rightarrow>
                if \<not> oe_db e then (Refuse 500 ''database error'', s)
                else if code \<in> ro_code ` set (rb_roles (a_rbac s)) then (Refuse 409 ''role code exists'', s)
                else if \<not> int16_ok dscope \<or> oe_id e \<in> ro_id ` set (rb_roles (a_rbac s)) then (Refuse 500 ''database error'', s)
                else
                  (Answer (JObj [(''id'', JInt (oe_id e)), (''created'', JBool True)]),
                   with_rbac (\<lambda>b. b\<lparr>rb_roles := rb_roles b @
                     [\<lparr>ro_id = oe_id e, ro_code = code, ro_name = name, ro_desc = Some desc, ro_scope = dscope,
                       ro_sort = sorder, ro_status = 1, ro_deleted = False\<rparr>]\<rparr>) s)
            | _ \<Rightarrow> (Thrown, s))
     | _ \<Rightarrow> (Thrown, s))"

definition set_role :: "int \<Rightarrow> (role_row \<Rightarrow> role_row) \<Rightarrow> auth \<Rightarrow> auth" where
  "set_role rid f = with_rbac (\<lambda>b. b\<lparr>rb_roles := upd_where (\<lambda>r. ro_id r = rid \<and> \<not> ro_deleted r) f (rb_roles b)\<rparr>)"

definition role_stmt :: "int \<Rightarrow> json \<Rightarrow> string \<Rightarrow> unit + stmt" where
  "role_stmt rid body col =
    (if col = ''sort_order'' then
       (case jint32 col body of Given v \<Rightarrow> Inr (\<lambda>s. Some (set_role rid (\<lambda>r. r\<lparr>ro_sort := v\<rparr>) s)) | _ \<Rightarrow> Inl ())
     else if col = ''status'' then
       (case jint32 col body of
          Given v \<Rightarrow> Inr (\<lambda>s. if int16_ok v then Some (set_role rid (\<lambda>r. r\<lparr>ro_status := v\<rparr>) s) else None)
        | _ \<Rightarrow> Inl ())
     else
       (case jstr col body of
          Given v \<Rightarrow>
            Inr (\<lambda>s. Some (set_role rid (\<lambda>r. if col = ''role_name'' then r\<lparr>ro_name := v\<rparr> else r\<lparr>ro_desc := Some v\<rparr>) s))
        | _ \<Rightarrow> Inl ()))"

definition role_cols :: "json \<Rightarrow> string list" where
  "role_cols body = filter (\<lambda>c. member c body \<noteq> None) [''role_name'', ''description'', ''sort_order'', ''status'']"

text \<open>
  The two halves of an update: the statements and the invalidation are issued while the function
  runs, the commit follows when the transaction object dies. The invalidation is not waited for
  and needs the loop to end without an exception.
\<close>

definition updateRole_invalidate :: "org_env \<Rightarrow> int \<Rightarrow> json \<Rightarrow> auth \<Rightarrow> auth" where
  "updateRole_invalidate e rid body s =
    (if role_cols body \<noteq> [] \<and> snd (queue_stmts (role_stmt rid body) (role_cols body))
     then invalidateRoleUsers e rid s else s)"

definition updateRole_commit :: "org_env \<Rightarrow> int \<Rightarrow> json \<Rightarrow> auth \<Rightarrow> json reply \<times> auth" where
  "updateRole_commit e rid body s =
    (if role_cols body = [] then (Refuse 400 ''nothing to update'', s)
     else finish_update e rid (queue_stmts (role_stmt rid body) (role_cols body)) s)"

definition updateRole :: "org_env \<Rightarrow> int \<Rightarrow> json \<Rightarrow> auth \<Rightarrow> json reply \<times> auth" where
  "updateRole e rid body s = updateRole_commit e rid body (updateRole_invalidate e rid body s)"

definition deleteRole :: "org_env \<Rightarrow> int \<Rightarrow> auth \<Rightarrow> json reply \<times> auth" where
  "deleteRole e rid s =
    (if \<not> oe_db e then (Refuse 500 ''database error'', s)
     else if rid \<notin> ro_id ` set (rb_roles (a_rbac s)) then (Answer JNull, s)
     else (Answer (JObj [(''id'', JInt rid), (''deleted'', JBool True)]),
           invalidateRoleUsers e rid
             (with_rbac (\<lambda>b. b\<lparr>rb_roles := upd_where (\<lambda>r. ro_id r = rid) (\<lambda>r. r\<lparr>ro_deleted := True\<rparr>) (rb_roles b)\<rparr>) s)))"

definition delete_role_perms :: "int \<Rightarrow> stmt" where
  "delete_role_perms rid s =
    Some (with_rbac (\<lambda>b. b\<lparr>rb_role_perms := filter (\<lambda>rp. fst rp \<noteq> rid) (rb_role_perms b)\<rparr>) s)"

definition insert_role_perm :: "int \<Rightarrow> int \<Rightarrow> stmt" where
  "insert_role_perm rid pid s =
    (if (rid, pid) \<in> set (rb_role_perms (a_rbac s)) then Some s
     else if rid \<in> ro_id ` set (rb_roles (a_rbac s)) \<and> pid \<in> pm_id ` set (rb_perms (a_rbac s)) then
       Some (with_rbac (\<lambda>b. b\<lparr>rb_role_perms := rb_role_perms b @ [(rid, pid)]\<rparr>) s)
     else None)"

definition assignPermissions :: "org_env \<Rightarrow> int \<Rightarrow> int list \<Rightarrow> auth \<Rightarrow> json reply \<times> auth" where
  "assignPermissions e rid pids s =
    (if \<not> oe_db e then (Refuse 500 ''database error'', s)
     else
       case run_trans e (delete_role_perms rid # map (insert_role_perm rid) pids) s of
         Committed t \<Rightarrow>
           (Answer (JObj [(''role_id'', JInt rid), (''assigned'', JInt (int (length pids)))]), invalidateRoleUsers e rid t)
       | CommitFailed \<Rightarrow> (Refuse 500 ''commit failed'', s)
       | Aborted \<Rightarrow> (aborted_reply e, s))"

definition delete_role_depts :: "int \<Rightarrow> stmt" where
  "delete_role_depts rid s =
    Some (with_rbac (\<lambda>b. b\<lparr>rb_role_depts := filter (\<lambda>rd. fst rd \<noteq> rid) (rb_role_depts b)\<rparr>) s)"

text \<open>No \<open>ON CONFLICT\<close> here: a department given twice breaks the unique key.\<close>

definition insert_role_dept :: "int \<Rightarrow> int \<Rightarrow> stmt" where
  "insert_role_dept rid did s =
    (if (rid, did) \<in> set (rb_role_depts (a_rbac s)) then None
     else if rid \<in> ro_id ` set (rb_roles (a_rbac s)) \<and> did \<in> de_id ` set (a_depts s) then
       Some (with_rbac (\<lambda>b. b\<lparr>rb_role_depts := rb_role_depts b @ [(rid, did)]\<rparr>) s)
     else None)"

definition set_scope :: "int \<Rightarrow> int \<Rightarrow> stmt" where
  "set_scope rid dscope s =
    Some (with_rbac (\<lambda>b. b\<lparr>rb_roles := upd_where (\<lambda>r. ro_id r = rid) (\<lambda>r. r\<lparr>ro_scope := dscope\<rparr>) (rb_roles b)\<rparr>) s)"

definition updateDataScope :: "org_env \<Rightarrow> int \<Rightarrow> int \<Rightarrow> int list \<Rightarrow> auth \<Rightarrow> json reply \<times> auth" where
  "updateDataScope e rid dscope dids s =
    (if dscope < 1 \<or> dscope > 5 then (Refuse 400 ''data_scope 1 to 5'', s)
     else if dscope = 5 \<and> dids = [] then (Refuse 400 ''departments required'', s)
     else if \<not> oe_db e then (Refuse 500 ''database error'', s)
     else
       case run_trans e
              (set_scope rid dscope # delete_role_depts rid #
               (if dscope = 5 then map (insert_role_dept rid) dids else [])) s of
         Committed t \<Rightarrow>
           (Answer (JObj [(''role_id'', JInt rid), (''data_scope'', JInt dscope)]), invalidateRoleUsers e rid t)
       | CommitFailed \<Rightarrow> (Refuse 500 ''commit failed'', s)
       | Aborted \<Rightarrow> (aborted_reply e, s))"

section \<open>Departments\<close>

definition createDept :: "org_env \<Rightarrow> json \<Rightarrow> auth \<Rightarrow> json reply \<times> auth" where
  "createDept e body s =
    (case (field_value [] (jstr ''dept_code'' body), field_value [] (jstr ''dept_name'' body)) of
       (Inr code, Inr name) \<Rightarrow>
         if code = [] \<or> name = [] then (Refuse 400 ''dept_code and dept_name required'', s)
         else
           (case (field_value 0 (jlong ''parent_id'' body), field_value 0 (jint32 ''sort_order'' body),
                  field_value 0 (jlong ''leader_id'' body), field_value [] (jstr ''phone'' body)) of
              (Inr parent, Inr sorder, Inr leader, Inr phone) \<Rightarrow>
                if \<not> oe_db e then (Refuse 500 ''database error'', s)
                else if code \<in> de_code ` set (a_depts s) then (Refuse 409 ''department code exists'', s)
                else if \<not> dept_known s (null_if_zero parent) \<or> oe_id e \<in> de_id ` set (a_depts s) then
                  (Refuse 500 ''database error'', s)
                else
                  (Answer (JObj [(''id'', JInt (oe_id e)), (''created'', JBool True)]),
                   s\<lparr>a_depts := a_depts s @
                     [\<lparr>de_id = oe_id e, de_parent = null_if_zero parent, de_code = code, de_name = name, de_sort = sorder,
                       de_leader = null_if_zero leader, de_phone = phone, de_status = 1, de_deleted = False\<rparr>]\<rparr>)
            | _ \<Rightarrow> (Thrown, s))
     | _ \<Rightarrow> (Thrown, s))"

definition set_dept :: "int \<Rightarrow> (department \<Rightarrow> department) \<Rightarrow> auth \<Rightarrow> auth" where
  "set_dept i f s = s\<lparr>a_depts := upd_where (\<lambda>d. de_id d = i \<and> \<not> de_deleted d) f (a_depts s)\<rparr>"

definition dept_stmt :: "int \<Rightarrow> json \<Rightarrow> string \<Rightarrow> unit + stmt" where
  "dept_stmt i body col =
    (if col = ''sort_order'' then
       (case jint32 col body of Given v \<Rightarrow> Inr (\<lambda>s. Some (set_dept i (\<lambda>d. d\<lparr>de_sort := v\<rparr>) s)) | _ \<Rightarrow> Inl ())
     else if col = ''status'' then
       (case jint32 col body of
          Given v \<Rightarrow> Inr (\<lambda>s. if int16_ok v then Some (set_dept i (\<lambda>d. d\<lparr>de_status := v\<rparr>) s) else None)
        | _ \<Rightarrow> Inl ())
     else if col = ''leader_id'' then
       (case jlong col body of Given v \<Rightarrow> Inr (\<lambda>s. Some (set_dept i (\<lambda>d. d\<lparr>de_leader := Some v\<rparr>) s)) | _ \<Rightarrow> Inl ())
     else
       (case jstr col body of
          Given v \<Rightarrow>
            Inr (\<lambda>s. Some (set_dept i (\<lambda>d. if col = ''dept_name'' then d\<lparr>de_name := v\<rparr> else d\<lparr>de_phone := v\<rparr>) s))
        | _ \<Rightarrow> Inl ()))"

definition dept_cols :: "json \<Rightarrow> string list" where
  "dept_cols body = filter (\<lambda>c. member c body \<noteq> None)
    [''dept_name'', ''sort_order'', ''leader_id'', ''phone'', ''status'']"

definition updateDept :: "org_env \<Rightarrow> int \<Rightarrow> json \<Rightarrow> auth \<Rightarrow> json reply \<times> auth" where
  "updateDept e i body s =
    (if dept_cols body = [] then (Refuse 400 ''nothing to update'', s)
     else finish_update e i (queue_stmts (dept_stmt i body) (dept_cols body)) s)"

definition dept_refs :: "auth \<Rightarrow> int \<Rightarrow> nat" where
  "dept_refs s i =
    length (filter (\<lambda>d. de_parent d = Some i \<and> \<not> de_deleted d) (a_depts s)) +
    length (filter (\<lambda>r. us_dept r = Some i \<and> \<not> us_deleted r) (a_users s))"

text \<open>An error of the second statement calls no continuation.\<close>

definition deleteDept :: "org_env \<Rightarrow> int \<Rightarrow> auth \<Rightarrow> json reply \<times> auth" where
  "deleteDept e i s =
    (if \<not> oe_db e then (Refuse 500 ''database error'', s)
     else if dept_refs s i > 0 then (Answer (JObj [(''conflict'', JBool True)]), s)
     else if \<not> oe_db2 e then (Silent, s)
     else if i \<notin> de_id ` set (a_depts s) then (Answer JNull, s)
     else (Answer (JObj [(''id'', JInt i), (''deleted'', JBool True)]),
           s\<lparr>a_depts := upd_where (\<lambda>d. de_id d = i) (\<lambda>d. d\<lparr>de_deleted := True\<rparr>) (a_depts s)\<rparr>))"

section \<open>Audit query and configuration\<close>

record log_filter =
  lf_user :: int
  lf_module :: string
  lf_operation :: string
  lf_code :: int
  lf_ip :: string
  lf_start :: string
  lf_end :: string

text \<open>\<open>ts\<close> reads a timestamp; a text that is none fails the query.\<close>

definition log_matches :: "(string \<Rightarrow> int option) \<Rightarrow> log_filter \<Rightarrow> log_row \<Rightarrow> bool" where
  "log_matches ts f r \<longleftrightarrow>
    (lf_user f \<le> 0 \<or> au_user (lg_entry r) = lf_user f) \<and>
    (lf_module f = [] \<or> au_module (lg_entry r) = lf_module f) \<and>
    (lf_operation f = [] \<or> contains_keyword (lf_operation f) (au_operation (lg_entry r))) \<and>
    (lf_code f < 0 \<or> au_code (lg_entry r) = lf_code f) \<and>
    (lf_ip f = [] \<or> contains_keyword (lf_ip f) (au_addr (lg_entry r))) \<and>
    (case ts (lf_start f) of None \<Rightarrow> True | Some t \<Rightarrow> t \<le> lg_at r) \<and>
    (case ts (lf_end f) of None \<Rightarrow> True | Some t \<Rightarrow> lg_at r \<le> t)"

definition times_read :: "(string \<Rightarrow> int option) \<Rightarrow> log_filter \<Rightarrow> bool" where
  "times_read ts f \<longleftrightarrow> (lf_start f = [] \<or> ts (lf_start f) \<noteq> None) \<and> (lf_end f = [] \<or> ts (lf_end f) \<noteq> None)"

text \<open>A failed count is replaced by the length of the page.\<close>

definition listAuditLogs ::
  "(string \<Rightarrow> int option) \<Rightarrow> org_env \<Rightarrow> int \<Rightarrow> int \<Rightarrow> log_filter \<Rightarrow> org \<Rightarrow> log_row page_result reply" where
  "listAuditLogs ts e page psize f g =
    (let rows = rev (sort_key lg_at (filter (log_matches ts f) (og_logs g))) in
     case list_page (oe_db e \<and> times_read ts f) True page psize rows of
       Answer r \<Rightarrow> Answer (if oe_db2 e then r else r\<lparr>pg_total := int (length (pg_list r))\<rparr>)
     | other \<Rightarrow> other)"

definition getAuditLog :: "org_env \<Rightarrow> int \<Rightarrow> org \<Rightarrow> log_row option reply" where
  "getAuditLog e i g =
    (if oe_db e then Answer (first_row (\<lambda>r. lg_id r = i) (og_logs g)) else Refuse 500 ''database error'')"

text \<open>Ordered by category, the missing one last, then by key (byte order).\<close>

definition config_order :: "config_row list \<Rightarrow> config_row list" where
  "config_order cs = sort_key (\<lambda>c. cf_category c = None)
    (sort_key (\<lambda>c. case cf_category c of None \<Rightarrow> [] | Some x \<Rightarrow> x) (sort_key cf_key cs))"

definition listConfigs :: "org_env \<Rightarrow> org \<Rightarrow> config_row list reply" where
  "listConfigs e g =
    (if oe_db e then Answer (config_order (og_configs g)) else Refuse 500 ''database error'')"

definition updateConfig :: "org_env \<Rightarrow> string \<Rightarrow> string \<Rightarrow> org \<Rightarrow> json reply \<times> org" where
  "updateConfig e key v g =
    (if \<not> oe_db e then (Refuse 500 ''database error'', g)
     else if key \<notin> cf_key ` set (og_configs g) then (Answer JNull, g)
     else (Answer (JObj [(''config_key'', JStr key), (''updated'', JBool True)]),
           g\<lparr>og_configs := upd_where (\<lambda>c. cf_key c = key) (\<lambda>c. c\<lparr>cf_value := Some v\<rparr>) (og_configs g)\<rparr>))"

end
