(* ===== verification/Org_Props.thy ===== *)
theory Org_Props
  imports Org_Roles
begin

text \<open>
  What administration guarantees and where it does not: the well-formedness of the tables in every
  run, assignments that are all or nothing, and the gaps between an administrative change and its
  effect (a role updated while its permissions are read, a removed user with a live token, an
  update that fails half way, a reset that cannot be asked for).
\<close>

section \<open>Well-formed tables\<close>

definition org_wf :: "auth \<Rightarrow> bool" where
  "org_wf s \<longleftrightarrow>
    distinct (map us_id (a_users s)) \<and> distinct (map us_name (a_users s)) \<and>
    (\<forall>r\<in>set (a_users s). dept_known s (us_dept r)) \<and>
    distinct (map de_id (a_depts s)) \<and> distinct (map de_code (a_depts s)) \<and>
    (\<forall>d\<in>set (a_depts s). dept_known s (de_parent d)) \<and>
    distinct (map ro_id (rb_roles (a_rbac s))) \<and> distinct (map ro_code (rb_roles (a_rbac s))) \<and>
    (\<forall>(u, r)\<in>set (rb_user_roles (a_rbac s)). u \<in> us_id ` set (a_users s) \<and> r \<in> ro_id ` set (rb_roles (a_rbac s))) \<and>
    (\<forall>(r, p)\<in>set (rb_role_perms (a_rbac s)). r \<in> ro_id ` set (rb_roles (a_rbac s)) \<and> p \<in> pm_id ` set (rb_perms (a_rbac s))) \<and>
    (\<forall>(r, d)\<in>set (rb_role_depts (a_rbac s)). r \<in> ro_id ` set (rb_roles (a_rbac s)) \<and> d \<in> de_id ` set (a_depts s))"

lemma image_key_upd_where:
  assumes "\<And>r. k (f r) = k r"
  shows "k ` set (upd_where p f xs) = k ` set xs"
  using map_key_upd_where [of k f p xs] assms by (metis set_map)

lemma dept_known_iff: "dept_known s d \<longleftrightarrow> (\<forall>i. d = Some i \<longrightarrow> i \<in> de_id ` set (a_depts s))"
  by (simp add: dept_known_def split: option.split)

text \<open>Changes that keep the keys.\<close>

lemma org_wf_users:
  assumes "org_wf s" and "\<And>r. us_id (f r) = us_id r" "\<And>r. us_name (f r) = us_name r"
    and "\<And>r. dept_known s (us_dept r) \<Longrightarrow> dept_known s (us_dept (f r))"
  shows "org_wf (s\<lparr>a_users := upd_where p f (a_users s)\<rparr>)"
proof -
  have "\<forall>r\<in>set (upd_where p f (a_users s)). dept_known s (us_dept r)"
    using assms(1,4) by (intro upd_where_all) (simp_all add: org_wf_def)
  then show ?thesis
    using assms(1) by (simp add: org_wf_def assms(2,3) image_key_upd_where dept_known_iff)
qed

lemma org_wf_depts:
  assumes "org_wf s" and "\<And>d. de_id (f d) = de_id d" "\<And>d. de_code (f d) = de_code d" "\<And>d. de_parent (f d) = de_parent d"
  shows "org_wf (s\<lparr>a_depts := upd_where p f (a_depts s)\<rparr>)"
proof -
  have k: "dept_known (s\<lparr>a_depts := upd_where p f (a_depts s)\<rparr>) x \<longleftrightarrow> dept_known s x" for x
    by (simp add: dept_known_iff assms(2) image_key_upd_where)
  have "\<forall>d\<in>set (upd_where p f (a_depts s)). dept_known s (de_parent d)"
    using assms(1,4) by (intro upd_where_all) (simp_all add: org_wf_def)
  then show ?thesis
    using assms(1) unfolding org_wf_def k by (simp add: assms(2,3) image_key_upd_where)
qed

lemma org_wf_roles:
  assumes "org_wf s" and "\<And>r. ro_id (f r) = ro_id r" "\<And>r. ro_code (f r) = ro_code r"
  shows "org_wf (with_rbac (\<lambda>b. b\<lparr>rb_roles := upd_where p f (rb_roles b)\<rparr>) s)"
  using assms(1) by (simp add: org_wf_def with_rbac_def dept_known_iff assms(2,3) image_key_upd_where)

lemma org_wf_caches:
  "org_wf s \<Longrightarrow> org_wf (invalidate_user e uid s)"
  by (simp add: org_wf_def invalidate_user_def invalidateUserPerm_def dept_known_iff)

lemma org_wf_role_caches: "org_wf s \<Longrightarrow> org_wf (invalidateRoleUsers e rid s)"
proof -
  have "org_wf s \<Longrightarrow> org_wf (fold (invalidate_user e) us s)" for us
    by (induction us arbitrary: s) (simp_all add: org_wf_caches)
  then show "org_wf s \<Longrightarrow> ?thesis" by (simp add: invalidateRoleUsers_def)
qed

text \<open>Statements that keep well-formedness, and their transactions.\<close>

definition keeps_wf :: "stmt \<Rightarrow> bool" where
  "keeps_wf f \<longleftrightarrow> (\<forall>s t. org_wf s \<longrightarrow> f s = Some t \<longrightarrow> org_wf t)"

lemma run_stmts_wf: "\<forall>f\<in>set fs. keeps_wf f \<Longrightarrow> org_wf s \<Longrightarrow> run_stmts fs s = Some t \<Longrightarrow> org_wf t"
proof (induction fs arbitrary: s)
  case (Cons f fs)
  then obtain u where u: "f s = Some u" "run_stmts fs u = Some t" by (auto split: option.splits)
  then have "org_wf u" using Cons.prems(1,2) unfolding keeps_wf_def by (meson list.set_intros(1))
  with Cons.IH [of u] Cons.prems(1) u(2) show ?case by (meson list.set_intros(2))
qed simp

lemma run_trans_wf: "\<forall>f\<in>set fs. keeps_wf f \<Longrightarrow> org_wf s \<Longrightarrow> run_trans e fs s = Committed t \<Longrightarrow> org_wf t"
  by (auto simp: run_trans_def dest: run_stmts_wf split: option.splits if_splits)

lemma stmt_wf [simp]:
  "keeps_wf (delete_user_roles u)" "keeps_wf (insert_user_role u r)" "keeps_wf (delete_role_perms r)"
  "keeps_wf (insert_role_perm r p)" "keeps_wf (delete_role_depts r)" "keeps_wf (insert_role_dept r d)"
  "keeps_wf (set_scope r x)"
proof -
  show "keeps_wf (delete_user_roles u)" "keeps_wf (delete_role_perms r)" "keeps_wf (delete_role_depts r)"
    by (auto simp: keeps_wf_def delete_user_roles_def delete_role_perms_def delete_role_depts_def with_rbac_def
        org_wf_def dept_known_iff)
  show "keeps_wf (insert_user_role u r)" "keeps_wf (insert_role_perm r p)" "keeps_wf (insert_role_dept r d)"
    by (auto simp: keeps_wf_def insert_user_role_def insert_role_perm_def insert_role_dept_def with_rbac_def
        org_wf_def dept_known_iff split: if_splits)
  show "keeps_wf (set_scope r x)"
    by (auto simp: keeps_wf_def set_scope_def intro!: org_wf_roles)
qed

lemma set_user_wf:
  "org_wf s \<Longrightarrow> (\<And>r. us_id (f r) = us_id r) \<Longrightarrow> (\<And>r. us_name (f r) = us_name r) \<Longrightarrow> (\<And>r. us_dept (f r) = us_dept r) \<Longrightarrow>
   org_wf (set_user uid f s)"
  unfolding set_user_def by (rule org_wf_users) simp_all

lemma set_user_dead: "\<not> live_user s uid \<Longrightarrow> set_user uid f s = s"
  by (cases s) (auto simp: set_user_def live_user_def intro!: upd_where_id)

lemma set_user_dept_wf:
  assumes "org_wf s" and "dept_known s d \<or> \<not> live_user s uid"
  shows "org_wf (set_user uid (\<lambda>r. r\<lparr>us_dept := d\<rparr>) s)"
proof (cases "live_user s uid")
  case True
  with assms show ?thesis unfolding set_user_def by (intro org_wf_users) simp_all
qed (use assms in \<open>simp add: set_user_dead\<close>)

lemma user_column_keys [simp]:
  "us_id (user_column col v r) = us_id r" "us_name (user_column col v r) = us_name r"
  "us_dept (user_column col v r) = us_dept r" "us_status (user_column col v r) = us_status r"
  by (simp_all add: user_column_def)

lemma user_stmt_wf: "user_stmt uid body col = Inr st \<Longrightarrow> keeps_wf st"
proof (cases "col = ''dept_id''")
  case True
  then show "user_stmt uid body col = Inr st \<Longrightarrow> ?thesis"
    by (auto simp: user_stmt_def keeps_wf_def Let_def dest: set_user_dept_wf split: if_splits)
next
  case False
  then show "user_stmt uid body col = Inr st \<Longrightarrow> ?thesis"
    by (auto simp: user_stmt_def keeps_wf_def Let_def intro!: set_user_wf split: if_splits field.splits)
qed

lemma role_stmt_wf: "role_stmt rid body col = Inr st \<Longrightarrow> keeps_wf st"
  by (auto simp: role_stmt_def keeps_wf_def set_role_def intro!: org_wf_roles split: if_splits field.splits)

lemma dept_stmt_wf: "dept_stmt i body col = Inr st \<Longrightarrow> keeps_wf st"
  by (auto simp: dept_stmt_def keeps_wf_def set_dept_def intro!: org_wf_depts split: if_splits field.splits)

lemma queue_stmts_all: "(\<And>c st. f c = Inr st \<Longrightarrow> P st) \<Longrightarrow> st \<in> set (fst (queue_stmts f cs)) \<Longrightarrow> P st"
  by (induction cs) (auto split: sum.splits prod.splits)

lemma finish_update_wf:
  assumes "org_wf s" and "\<And>c st. f c = Inr st \<Longrightarrow> keeps_wf st"
  shows "org_wf (snd (finish_update e i (queue_stmts f cs) s))"
proof -
  have "\<forall>st\<in>set (fst (queue_stmts f cs)). keeps_wf st"
    using queue_stmts_all [of f keeps_wf] assms(2) by blast
  then show ?thesis
    using run_trans_wf [OF _ assms(1)] assms(1) by (simp add: finish_update_def split: trans_end.split)
qed

lemma assignRoles_wf: "org_wf s \<Longrightarrow> org_wf (snd (assignRoles e uid rids s))"
  using run_trans_wf [of "delete_user_roles uid # map (insert_user_role uid) rids" s e]
  by (auto simp: assignRoles_def org_wf_caches split: trans_end.split)

lemma createUser_wf: "org_wf s \<Longrightarrow> org_wf (snd (createUser C e body s))"
proof -
  assume wf: "org_wf s"
  have add: "org_wf (s\<lparr>a_users := a_users s @ [r]\<rparr>)" if "\<not> user_clash s r" "dept_known s (us_dept r)" for r
  proof -
    have "us_id r \<notin> us_id ` set (a_users s)" "us_name r \<notin> us_name ` set (a_users s)"
      using that(1) by (auto simp: user_clash_def)
    with wf that(2) show ?thesis by (auto simp: org_wf_def dept_known_iff)
  qed
  have roles: "org_wf (snd (case assignRoles e' i rids t of (Answer x, s2) \<Rightarrow> (fin, s2) | (other, s2) \<Rightarrow> (other, s2)))"
    if "org_wf t" for e' i rids t fin
    using assignRoles_wf [OF that, of e' i rids]
    by (cases "assignRoles e' i rids t"; cases "fst (assignRoles e' i rids t)") simp_all
  show ?thesis
    unfolding createUser_def Let_def
    by (auto simp: wf intro!: add roles split: sum.split option.split)
qed

section \<open>Runs of administration and authentication\<close>

datatype admin_event =
    CreateUser org_env json
  | UpdateUser org_env int json
  | DeleteUser org_env int
  | ResetPassword org_env int json
  | SetUserStatus org_env int int
  | AssignRoles org_env int "int list"
  | CreateRole org_env json
  | UpdateRole org_env int json
  | DeleteRole org_env int
  | AssignPermissions org_env int "int list"
  | UpdateDataScope org_env int int "int list"
  | CreateDept org_env json
  | UpdateDept org_env int json
  | DeleteDept org_env int
  | Session auth_event

fun admin_step :: "jwt_env \<Rightarrow> crypto \<Rightarrow> admin_event \<Rightarrow> auth \<Rightarrow> auth" where
  "admin_step J C (CreateUser e body) s = snd (createUser C e body s)"
| "admin_step J C (UpdateUser e i body) s = snd (updateUser e i body s)"
| "admin_step J C (DeleteUser e i) s = snd (deleteUser e i s)"
| "admin_step J C (ResetPassword e i body) s = snd (resetPassword_handler C e i body s)"
| "admin_step J C (SetUserStatus e i st) s = snd (setUserStatus e i st s)"
| "admin_step J C (AssignRoles e i rids) s = snd (assignRoles e i rids s)"
| "admin_step J C (CreateRole e body) s = snd (createRole e body s)"
| "admin_step J C (UpdateRole e i body) s = snd (updateRole e i body s)"
| "admin_step J C (DeleteRole e i) s = snd (deleteRole e i s)"
| "admin_step J C (AssignPermissions e i pids) s = snd (assignPermissions e i pids s)"
| "admin_step J C (UpdateDataScope e i sc dids) s = snd (updateDataScope e i sc dids s)"
| "admin_step J C (CreateDept e body) s = snd (createDept e body s)"
| "admin_step J C (UpdateDept e i body) s = snd (updateDept e i body s)"
| "admin_step J C (DeleteDept e i) s = snd (deleteDept e i s)"
| "admin_step J C (Session ev) s = auth_step J C ev s"

lemma update_users_wf:
  "org_wf s \<Longrightarrow> (\<And>r. us_id (f r) = us_id r) \<Longrightarrow> (\<And>r. us_name (f r) = us_name r) \<Longrightarrow> (\<And>r. us_dept (f r) = us_dept r) \<Longrightarrow>
   org_wf (update_users b uid f s)"
  unfolding update_users_def by (cases b) (simp_all add: org_wf_users)

lemma deleteUser_wf: "org_wf s \<Longrightarrow> org_wf (snd (deleteUser e uid s))"
  by (auto simp: deleteUser_def intro!: org_wf_caches update_users_wf)

lemma resetPassword_wf: "org_wf s \<Longrightarrow> org_wf (snd (resetPassword_handler C e uid body s))"
  by (auto simp: resetPassword_handler_def resetPassword_def unlocked_def intro!: set_user_wf
      split: json.split sum.split)

lemma setUserStatus_wf: "org_wf s \<Longrightarrow> org_wf (snd (setUserStatus e uid st s))"
  by (auto simp: setUserStatus_def intro!: set_user_wf)

lemma updateUser_wf: "org_wf s \<Longrightarrow> org_wf (snd (updateUser e uid body s))"
  by (auto simp: updateUser_def intro!: finish_update_wf user_stmt_wf)

lemma createRole_wf: "org_wf s \<Longrightarrow> org_wf (snd (createRole e body s))"
proof -
  assume wf: "org_wf s"
  have "org_wf (with_rbac (\<lambda>b. b\<lparr>rb_roles := rb_roles b @ [r]\<rparr>) s)"
    if "ro_code r \<notin> ro_code ` set (rb_roles (a_rbac s))" "ro_id r \<notin> ro_id ` set (rb_roles (a_rbac s))" for r
    using wf that by (auto simp: org_wf_def with_rbac_def dept_known_iff)
  with wf show ?thesis by (auto simp: createRole_def split: sum.split)
qed

lemma updateRole_wf: "org_wf s \<Longrightarrow> org_wf (snd (updateRole e rid body s))"
  by (auto simp: updateRole_def updateRole_commit_def updateRole_invalidate_def
      intro!: finish_update_wf role_stmt_wf org_wf_role_caches)

lemma deleteRole_wf: "org_wf s \<Longrightarrow> org_wf (snd (deleteRole e rid s))"
  by (auto simp: deleteRole_def intro!: org_wf_role_caches org_wf_roles)

lemma assignPermissions_wf: "org_wf s \<Longrightarrow> org_wf (snd (assignPermissions e rid pids s))"
  using run_trans_wf [of "delete_role_perms rid # map (insert_role_perm rid) pids" s e]
  by (auto simp: assignPermissions_def intro!: org_wf_role_caches split: trans_end.split)

lemma updateDataScope_wf: "org_wf s \<Longrightarrow> org_wf (snd (updateDataScope e rid dscope dids s))"
proof -
  assume wf: "org_wf s"
  let ?fs = "set_scope rid dscope # delete_role_depts rid # (if dscope = 5 then map (insert_role_dept rid) dids else [])"
  have "\<forall>f\<in>set ?fs. keeps_wf f" by auto
  from run_trans_wf [OF this wf] have "org_wf t" if "run_trans e ?fs s = Committed t" for t using that .
  with wf show ?thesis
    unfolding updateDataScope_def by (cases "run_trans e ?fs s") (simp_all add: org_wf_role_caches)
qed

lemma createDept_wf: "org_wf s \<Longrightarrow> org_wf (snd (createDept e body s))"
proof -
  assume wf: "org_wf s"
  have "org_wf (s\<lparr>a_depts := a_depts s @ [d]\<rparr>)"
    if "de_code d \<notin> de_code ` set (a_depts s)" "de_id d \<notin> de_id ` set (a_depts s)" "dept_known s (de_parent d)" for d
    using wf that by (auto simp: org_wf_def dept_known_iff)
  with wf show ?thesis by (auto simp: createDept_def split: sum.split)
qed

lemma updateDept_wf: "org_wf s \<Longrightarrow> org_wf (snd (updateDept e i body s))"
  by (auto simp: updateDept_def intro!: finish_update_wf dept_stmt_wf)

lemma deleteDept_wf: "org_wf s \<Longrightarrow> org_wf (snd (deleteDept e i s))"
  by (auto simp: deleteDept_def intro!: org_wf_depts)

text \<open>Authentication changes user rows and caches only.\<close>

definition tables_kept :: "auth \<Rightarrow> auth \<Rightarrow> bool" where
  "tables_kept s t \<longleftrightarrow> a_users t = a_users s \<and> a_depts t = a_depts s \<and> rb_roles (a_rbac t) = rb_roles (a_rbac s)
    \<and> rb_perms (a_rbac t) = rb_perms (a_rbac s) \<and> rb_role_perms (a_rbac t) = rb_role_perms (a_rbac s)
    \<and> rb_user_roles (a_rbac t) = rb_user_roles (a_rbac s) \<and> rb_role_depts (a_rbac t) = rb_role_depts (a_rbac s)"

lemma org_wf_kept: "org_wf s \<Longrightarrow> tables_kept s t \<Longrightarrow> org_wf t"
  by (simp add: org_wf_def tables_kept_def dept_known_iff)

lemma tables_kept_trans: "tables_kept a b \<Longrightarrow> tables_kept b c \<Longrightarrow> tables_kept a c"
  by (simp add: tables_kept_def)

definition rbac_tables_kept :: "rbac \<Rightarrow> rbac \<Rightarrow> bool" where
  "rbac_tables_kept b c \<longleftrightarrow> rb_roles c = rb_roles b \<and> rb_perms c = rb_perms b \<and> rb_role_perms c = rb_role_perms b
    \<and> rb_user_roles c = rb_user_roles b \<and> rb_role_depts c = rb_role_depts b"

lemma getUserPermissions_tables: "rbac_tables_kept b (snd (getUserPermissions e uid b))"
  by (simp add: rbac_tables_kept_def getUserPermissions_def doLoadFromDb_def Let_def)

lemma loadMergedScope_tables: "rbac_tables_kept b (snd (loadMergedScope e uid b))"
  by (simp add: rbac_tables_kept_def loadMergedScope_def load_scope_def Let_def split: option.split)

lemma tables_kept_rbac: "rbac_tables_kept (a_rbac s) rb \<Longrightarrow> tables_kept s (s\<lparr>a_rbac := rb\<rparr>)"
  by (simp add: tables_kept_def rbac_tables_kept_def)

lemma issueTokens_tables: "tables_kept s (snd (issueTokens J e uid n d dn sc s))"
  using tables_kept_rbac [OF getUserPermissions_tables, of s "ae_rbac e" uid]
  by (auto simp: issueTokens_def Let_def split: prod.split perm_outcome.split)

lemma scoped_tokens_tables: "tables_kept s (snd (scoped_tokens J e r uid s))"
proof (cases "loadMergedScope (ae_rbac e) uid (a_rbac s)")
  case (Pair x rb)
  then have "tables_kept s (s\<lparr>a_rbac := rb\<rparr>)"
    using tables_kept_rbac [OF loadMergedScope_tables, of s "ae_rbac e" uid] by simp
  with issueTokens_tables [of "s\<lparr>a_rbac := rb\<rparr>"] show ?thesis
    by (cases x) (auto simp: scoped_tokens_def Pair intro: tables_kept_trans)
qed

lemma check_password_tables: "check_password C e u p r s = (b, t) \<Longrightarrow> tables_kept s t"
  by (auto simp: check_password_def Let_def verifyCacheGet_def verifyCachePut_def tables_kept_def
      split: option.splits if_splits)

lemma handleVerified_wf: "org_wf s \<Longrightarrow> org_wf (snd (handleVerified J e r b s))"
  by (auto simp: handleVerified_def count_failure_def count_success_def
      intro!: update_users_wf org_wf_kept [OF _ scoped_tokens_tables])

lemma login_account_wf: "org_wf s \<Longrightarrow> org_wf (snd (login_account J C e u p s))"
  by (auto simp: login_account_def split: option.split prod.split
      dest!: check_password_tables intro!: handleVerified_wf intro: org_wf_kept)

lemma login_wf: "org_wf s \<Longrightarrow> org_wf (snd (login J C e body s))"
proof -
  assume wf: "org_wf s"
  have "org_wf (drop_captcha b cid s)" for b cid
    using wf by (rule org_wf_kept) (simp add: drop_captcha_def tables_kept_def)
  then have "org_wf (snd (login_captcha J C e u p cid code s))" for u p cid code
    using wf login_account_wf by (simp add: login_captcha_def Let_def split: option.split)
  then show ?thesis using wf login_account_wf by (simp add: login_def split: sum.split)
qed

lemma refresh_tables: "tables_kept s (snd (refresh J e body s))"
proof -
  have k: "tables_kept s s" "\<And>b sid n t. tables_kept s t \<Longrightarrow> tables_kept s (blacklist b sid n t)"
    by (simp_all add: tables_kept_def blacklist_def)
  have "tables_kept s t" if "scoped_tokens J e r uid s = (x, t)" for r uid x t
    using scoped_tokens_tables [of s J e r uid] that by simp
  then show ?thesis
    by (auto simp: refresh_def k split: sum.split option.split prod.split reply.split)
qed

lemma auth_step_wf: "org_wf s \<Longrightarrow> org_wf (auth_step J C ev s)"
proof (cases ev)
  case (Profile e uid)
  have "tables_kept s (snd (profile e uid s))"
    using tables_kept_rbac [OF getUserPermissions_tables, of s "ae_rbac e" uid]
    by (auto simp: profile_def Let_def tables_kept_def split: option.split prod.split perm_outcome.split)
  then show "org_wf s \<Longrightarrow> ?thesis" by (simp add: Profile org_wf_kept)
next
  case (ChangePassword e uid body)
  then show "org_wf s \<Longrightarrow> ?thesis"
    by (auto simp: changePassword_def split: sum.split option.split intro!: update_users_wf)
next
  case (Pass n)
  then show "org_wf s \<Longrightarrow> ?thesis" by (auto intro: org_wf_kept simp: tables_kept_def)
qed (auto simp: login_wf logout_def blacklist_def captcha_def Let_def tables_kept_def
    intro: org_wf_kept [OF _ refresh_tables] org_wf_kept)

lemma admin_step_wf: "org_wf s \<Longrightarrow> org_wf (admin_step J C ev s)"
  by (cases ev) (simp_all add: createUser_wf updateUser_wf deleteUser_wf resetPassword_wf setUserStatus_wf assignRoles_wf
      createRole_wf updateRole_wf deleteRole_wf assignPermissions_wf updateDataScope_wf createDept_wf updateDept_wf
      deleteDept_wf auth_step_wf)

interpretation admin_machine: step_invariant "admin_step J C" org_wf for J C
  by unfold_locales (rule admin_step_wf)

section \<open>Assignments\<close>

lemma run_stmts_inserts:
  assumes "run_stmts (map (insert_user_role uid) rids) s = Some t"
  shows "set (rb_user_roles (a_rbac t)) = set (rb_user_roles (a_rbac s)) \<union> Pair uid ` set rids
    \<and> a_users t = a_users s \<and> rb_roles (a_rbac t) = rb_roles (a_rbac s)"
  using assms
proof (induction rids arbitrary: s)
  case (Cons r rids)
  then obtain u where u: "insert_user_role uid r s = Some u" "run_stmts (map (insert_user_role uid) rids) u = Some t"
    by (auto split: option.splits)
  from u(1) have "set (rb_user_roles (a_rbac u)) = insert (uid, r) (set (rb_user_roles (a_rbac s)))
      \<and> a_users u = a_users s \<and> rb_roles (a_rbac u) = rb_roles (a_rbac s)"
    by (auto simp: insert_user_role_def split: if_splits)
  with Cons.IH [OF u(2)] show ?case by auto
qed simp

lemma run_stmts_unknown:
  assumes "r \<in> set rids" and "r \<notin> ro_id ` set (rb_roles (a_rbac s))"
    and "(uid, r) \<notin> set (rb_user_roles (a_rbac s))"
  shows "run_stmts (map (insert_user_role uid) rids) s = None"
  using assms
proof (induction rids arbitrary: s)
  case (Cons x rids)
  show ?case
  proof (cases "insert_user_role uid x s")
    case (Some u)
    then have "x \<noteq> r" using Cons.prems(2,3) by (auto simp: insert_user_role_def split: if_splits)
    moreover have "rb_roles (a_rbac u) = rb_roles (a_rbac s)"
      "set (rb_user_roles (a_rbac u)) \<subseteq> insert (uid, x) (set (rb_user_roles (a_rbac s)))"
      using Some by (auto simp: insert_user_role_def split: if_splits)
    ultimately have "run_stmts (map (insert_user_role uid) rids) u = None"
      using Cons.prems by (intro Cons.IH) auto
    with Some show ?thesis by simp
  qed simp
qed simp

text \<open>Statements that leave the caches and the clock.\<close>

definition keeps_caches :: "stmt \<Rightarrow> bool" where
  "keeps_caches f \<longleftrightarrow> (\<forall>s t. f s = Some t \<longrightarrow>
     rb_redis (a_rbac t) = rb_redis (a_rbac s) \<and> rb_now (a_rbac t) = rb_now (a_rbac s))"

lemma run_stmts_caches:
  "\<forall>f\<in>set fs. keeps_caches f \<Longrightarrow> run_stmts fs s = Some t \<Longrightarrow>
   rb_redis (a_rbac t) = rb_redis (a_rbac s) \<and> rb_now (a_rbac t) = rb_now (a_rbac s)"
proof (induction fs arbitrary: s)
  case (Cons f fs)
  then obtain u where u: "f s = Some u" "run_stmts fs u = Some t" by (auto split: option.splits)
  with Cons.IH [of u] Cons.prems(1) show ?case by (simp add: keeps_caches_def)
qed simp

lemma role_stmt_caches: "role_stmt rid body col = Inr st \<Longrightarrow> keeps_caches st"
  by (auto simp: role_stmt_def keeps_caches_def set_role_def with_rbac_def split: if_splits field.splits)

lemma updateRole_commit_caches:
  "rb_redis (a_rbac (snd (updateRole_commit e rid body s))) = rb_redis (a_rbac s) \<and>
   rb_now (a_rbac (snd (updateRole_commit e rid body s))) = rb_now (a_rbac s)"
proof -
  let ?q = "queue_stmts (role_stmt rid body) (role_cols body)"
  have q: "\<forall>st\<in>set (fst ?q). keeps_caches st"
    using queue_stmts_all [of "role_stmt rid body" keeps_caches] role_stmt_caches by blast
  show ?thesis
  proof (cases "run_stmts (fst ?q) s")
    case None
    then show ?thesis by (simp add: updateRole_commit_def finish_update_def run_trans_def)
  next
    case (Some t)
    with run_stmts_caches [OF q Some] show ?thesis
      by (simp add: updateRole_commit_def finish_update_def run_trans_def)
  qed
qed

section \<open>Properties\<close>


text \<open>The assignment of roles is all or nothing: when it answers, the user has exactly the roles given
  and the cached permissions of the user are gone; with a role that does not exist it never
  answers with success; and without success nothing has changed.\<close>

theorem assign_roles_atomic:
  assumes "org_wf s" and "assignRoles e uid rids s = (rep, t)" and "re_redis (oe_rbac e)"
  shows "(\<forall>x. rep = Answer x \<longrightarrow>
      {r. (uid, r) \<in> set (rb_user_roles (a_rbac t))} = set rids \<and>
      {ur \<in> set (rb_user_roles (a_rbac t)). fst ur \<noteq> uid} = {ur \<in> set (rb_user_roles (a_rbac s)). fst ur \<noteq> uid} \<and>
      rb_redis (a_rbac t) uid = None) \<and>
    (\<forall>r\<in>set rids. r \<notin> ro_id ` set (rb_roles (a_rbac s)) \<longrightarrow> \<not> is_answer rep) \<and>
    (\<not> is_answer rep \<longrightarrow> t = s)"
proof -
  let ?d = "s\<lparr>a_rbac := (a_rbac s)\<lparr>rb_user_roles := filter (\<lambda>ur. fst ur \<noteq> uid) (rb_user_roles (a_rbac s))\<rparr>\<rparr>"
  let ?fs = "delete_user_roles uid # map (insert_user_role uid) rids"
  have run: "run_stmts ?fs s = run_stmts (map (insert_user_role uid) rids) ?d"
    by (simp add: delete_user_roles_def)
  have ok: "set (rb_user_roles (a_rbac u)) = {ur \<in> set (rb_user_roles (a_rbac s)). fst ur \<noteq> uid} \<union> Pair uid ` set rids"
    if "run_stmts ?fs s = Some u" for u
    using run_stmts_inserts [of uid rids ?d u] that unfolding run by simp
  have bad: "run_stmts ?fs s = None" if "r \<in> set rids" "r \<notin> ro_id ` set (rb_roles (a_rbac s))" for r
    unfolding run using run_stmts_unknown [OF that(1), of ?d uid] that(2) by simp
  have inv: "rb_redis (a_rbac (invalidate_user e uid u)) uid = None"
    "rb_user_roles (a_rbac (invalidate_user e uid u)) = rb_user_roles (a_rbac u)" for u
    using assms(3) by (simp_all add: invalidate_user_def invalidateUserPerm_def)
  show ?thesis
  proof (cases "oe_db e \<and> oe_commit e \<and> run_stmts ?fs s \<noteq> None")
    case True
    then obtain u where u: "run_stmts ?fs s = Some u" by auto
    then have t: "is_answer rep" "t = invalidate_user e uid u"
      using assms(2) True by (auto simp: assignRoles_def run_trans_def is_answer_def)
    have "\<not> (\<exists>r\<in>set rids. r \<notin> ro_id ` set (rb_roles (a_rbac s)))" using bad u by auto
    with t inv [of u] ok [OF u] show ?thesis by auto
  next
    case False
    then have "\<not> is_answer rep \<and> t = s"
      using assms(2)
      by (auto simp: assignRoles_def run_trans_def is_answer_def aborted_reply_def split: if_splits option.splits)
    then show ?thesis by (auto simp: is_answer_def)
  qed
qed

text \<open>An update that meets a value of the wrong type after a good one fails with an exception, and
  still commits the columns queued before: the name is changed although the request failed.\<close>

theorem update_user_partial_commit:
  assumes "jstr ''real_name'' body = Given v" and "jstr ''employee_no'' body = IllTyped" and "body = JObj kvs"
    and "oe_db e" and "oe_commit e" and "org_wf s" and "r \<in> set (a_users s)" and "\<not> us_deleted r"
  shows "fst (updateUser e (us_id r) body s) = Thrown \<and>
    r\<lparr>us_real := v\<rparr> \<in> set (a_users (snd (updateUser e (us_id r) body s)))"
proof -
  have m: "member ''real_name'' body \<noteq> None" "member ''employee_no'' body \<noteq> None"
    using assms(1,2,3) by (auto split: option.splits)
  obtain cols where cols: "user_cols body = ''real_name'' # ''employee_no'' # cols"
    using m by (simp add: user_cols_def)
  then have cols_ne: "user_cols body \<noteq> []" by simp
  let ?st = "\<lambda>s. Some (set_user (us_id r) (user_column ''real_name'' v) s)"
  have q: "queue_stmts (user_stmt (us_id r) body) (user_cols body) = ([?st], False)"
    unfolding cols using assms(1,2) by (simp add: user_stmt_def)
  have "user_column ''real_name'' v r \<in> (\<lambda>q. if us_id q = us_id r \<and> \<not> us_deleted q then user_column ''real_name'' v q else q) ` set (a_users s)"
    using assms(7,8) by (intro image_eqI [of _ _ r]) simp_all
  then show ?thesis
    using assms(4,5) cols_ne
    by (simp add: updateUser_def q finish_update_def run_trans_def set_user_def set_upd_where user_column_def)
qed

text \<open>The password reset of the HTTP interface fails with an exception for every JSON body that is an
  object, with or without a new password, and changes nothing; only the body \<open>false\<close> resets, to
  the default password.\<close>

theorem reset_password_unreachable:
  assumes "live_user s uid" and "oe_db e"
  shows "resetPassword_handler C e uid (JObj kvs) s = (Thrown, s) \<and>
    resetPassword_handler C e uid JNull s = (Thrown, s) \<and>
    resetPassword_handler C e uid (JBool False) s =
      (Answer (JObj [(''id'', JInt uid), (''reset'', JBool True)]),
       set_user uid (unlocked (hashPassword C kDefaultPassword)) s)"
  using assms by (simp add: resetPassword_handler_def resetPassword_def kDefaultPassword_def)

text \<open>A role changed while its permissions are read: the cache is invalidated before the commit, so a
  reader in between fills it again from the old tables and the user keeps the permissions of a
  role that has been switched off.\<close>

theorem role_update_race:
  assumes "perms_coherent (a_rbac s)" and "db_perms (a_rbac s) uid \<noteq> []"
    and "s1 = updateRole_invalidate e rid body s" and "re_redis er" "re_db er"
    and "getUserPermissions er uid (a_rbac s1) = (rep, rb)"
    and "updateRole_commit e rid body (s1\<lparr>a_rbac := rb\<rparr>) = (answer, s2)"
    and "rb_redis rb uid = Some (xs, until)" and "rb_now rb < until"
  shows "\<exists>ys. fst (getUserPermissions er uid (a_rbac s2)) = PermOk ys \<and> set ys = set (db_perms (a_rbac s) uid)"
proof -
  have inv: "perms_coherent (a_rbac (invalidate_user e u t)) \<and> db_perms (a_rbac (invalidate_user e u t)) w = db_perms (a_rbac t) w"
    if "perms_coherent (a_rbac t)" for u t w
    using perms_coherent_invalidate [OF that, of "oe_rbac e" u]
    by (simp add: invalidate_user_def invalidateUserPerm_def db_perms_def)
  have "perms_coherent (a_rbac (fold (invalidate_user e) us t)) \<and> db_perms (a_rbac (fold (invalidate_user e) us t)) w = db_perms (a_rbac t) w"
    if "perms_coherent (a_rbac t)" for us t w
    using that
  proof (induction us arbitrary: t)
    case (Cons u us)
    from Cons.IH [of "invalidate_user e u t"] inv [OF Cons.prems, of u w] show ?case by simp
  qed simp
  then have s1: "perms_coherent (a_rbac s1)" "db_perms (a_rbac s1) uid = db_perms (a_rbac s) uid"
    using assms(1) unfolding assms(3) by (simp_all add: updateRole_invalidate_def invalidateRoleUsers_def)
  have rb: "perms_coherent rb" "db_perms rb uid = db_perms (a_rbac s) uid"
  proof -
    show "perms_coherent rb"
      using permissions_outcome_coherent [OF s1(1) assms(4,5), of uid] assms(6) by simp
    have "db_perms rb uid = db_perms (a_rbac s1) uid"
      using getUserPermissions_tables [of "a_rbac s1" er uid] assms(6)
      by (simp add: rbac_tables_kept_def db_perms_def)
    then show "db_perms rb uid = db_perms (a_rbac s) uid" using s1(2) by simp
  qed
  have c: "rb_redis (a_rbac s2) = rb_redis rb \<and> rb_now (a_rbac s2) = rb_now rb"
    using updateRole_commit_caches [of e rid body "s1\<lparr>a_rbac := rb\<rparr>"] assms(7) by simp
  have hit: "smembers (a_rbac s2) uid = smembers rb uid" and full: "smembers rb uid \<noteq> []"
    using c rb(1) assms(8,9) by (auto simp: smembers_def perms_coherent_def)
  then have "fst (getUserPermissions er uid (a_rbac s2)) =
      PermOk (removeAll kEmptyPermSentinel (remdups (smembers rb uid)))"
    using assms(4) by (simp add: getUserPermissions_def Let_def)
  with smembers_coherent [OF rb(1) full] rb(2) show ?thesis by auto
qed

section \<open>A concrete plant\<close>

definition demo_org_env :: org_env where
  "demo_org_env = \<lparr>oe_db = True, oe_db2 = True, oe_commit = True, oe_abort_reply = True, oe_id = 50,
     oe_rbac = \<lparr>re_redis = True, re_db = True, re_db2 = True\<rparr>\<rparr>"

lemma demo_auth_wf: "org_wf demo_auth"
  by (simp add: org_wf_def demo_auth_def demo_user_def demo_rbac_def dept_known_def)

definition demo_update :: json where
  "demo_update = JObj [(''real_name'', JStr ''Eve''), (''employee_no'', JInt 7)]"


theorem assign_roles_atomic_witness: "\<not> is_answer (fst (assignRoles demo_org_env 9 [1, 77] demo_auth))"
  using assign_roles_atomic [OF demo_auth_wf prod.collapse [symmetric], of demo_org_env 9 "[1, 77]"]
  by (simp add: demo_org_env_def demo_auth_def demo_rbac_def)

theorem update_user_partial_commit_witness:
  "fst (updateUser demo_org_env 9 demo_update demo_auth) = Thrown \<and>
   map us_real (a_users (snd (updateUser demo_org_env 9 demo_update demo_auth))) = [''Eve'']"
proof -
  have "fst (updateUser demo_org_env (us_id demo_user) demo_update demo_auth) = Thrown \<and>
      demo_user\<lparr>us_real := ''Eve''\<rparr> \<in> set (a_users (snd (updateUser demo_org_env (us_id demo_user) demo_update demo_auth)))"
    by (rule update_user_partial_commit [OF _ _ demo_update_def _ _ demo_auth_wf])
      (simp_all add: demo_update_def demo_org_env_def demo_auth_def demo_user_def)
  moreover have "map us_real (a_users (snd (updateUser demo_org_env 9 demo_update demo_auth))) = [''Eve'']"
    by code_simp
  ultimately show ?thesis by (simp add: demo_user_def)
qed

theorem reset_password_unreachable_witness:
  "fst (resetPassword_handler demo_crypto demo_org_env 9 (JObj [(''new_password'', JStr ''secret-9'')]) demo_auth) = Thrown"
  using reset_password_unreachable [of demo_auth 9 demo_org_env demo_crypto]
  by (simp add: live_user_def demo_auth_def demo_user_def demo_org_env_def)

definition demo_switch_off :: json where
  "demo_switch_off = JObj [(''status'', JInt 0)]"

definition demo_reader :: rbac_env where
  "demo_reader = \<lparr>re_redis = True, re_db = True, re_db2 = True\<rparr>"

definition demo_read :: "perm_outcome \<times> rbac" where
  "demo_read = getUserPermissions demo_reader 9 (a_rbac (updateRole_invalidate demo_org_env 1 demo_switch_off demo_auth))"

theorem role_update_race_witness:
  "(\<exists>ys. fst (getUserPermissions demo_reader 9
      (a_rbac (snd (updateRole_commit demo_org_env 1 demo_switch_off
        ((updateRole_invalidate demo_org_env 1 demo_switch_off demo_auth)\<lparr>a_rbac := snd demo_read\<rparr>))))) = PermOk ys
      \<and> ''prod:wo:report'' \<in> set ys) \<and>
   db_perms (a_rbac (snd (updateRole demo_org_env 1 demo_switch_off demo_auth))) 9 = []"
proof -
  have db: "db_perms (a_rbac demo_auth) 9 = [''prod:wo:report'']" by code_simp
  have rd: "rb_redis (snd demo_read) 9 = Some ([''prod:wo:report''], 700)" "rb_now (snd demo_read) = 100"
    by code_simp+
  have off: "db_perms (a_rbac (snd (updateRole demo_org_env 1 demo_switch_off demo_auth))) 9 = []" by code_simp
  have g: "getUserPermissions demo_reader 9 (a_rbac (updateRole_invalidate demo_org_env 1 demo_switch_off demo_auth))
      = (fst demo_read, snd demo_read)"
    by (simp add: demo_read_def)
  from role_update_race [OF demo_auth_coherent _ refl _ _ g prod.collapse [symmetric] rd(1)] off rd(2) show ?thesis
    by (auto simp: db demo_reader_def)
qed

end
