(* ===== verification/Session_Props.thy ===== *)
theory Session_Props
  imports Access_Control Org_Props
begin

text \<open>
  Administration against live sessions: what removing a user does to the tokens it holds.
\<close>

lemma jwtCheck_cong:
  assumes "clock t = clock s" and "a_black t = a_black s"
  shows "jwtCheck J up t req = jwtCheck J up s req"
proof -
  have b: "blacklisted t = blacklisted s" by (rule ext) (simp add: blacklisted_def assms split: option.split)
  show ?thesis unfolding jwtCheck_def b assms(1) by (rule refl)
qed

lemma permissions_answered:
  assumes "re_redis e" "re_db e"
  shows "\<exists>xs rb. getUserPermissions e uid b = (PermOk xs, rb)"
  using assms by (simp add: getUserPermissions_def doLoadFromDb_def Let_def)

lemma deleteUser_Answer:
  assumes "deleteUser e uid s = (Answer x, t)" and "uid \<in> us_id ` set (a_users s)"
  shows "t = invalidate_user e uid (update_users True uid (\<lambda>r. r\<lparr>us_deleted := True\<rparr>) s)"
  using assms by (simp add: deleteUser_def split: if_splits)

text \<open>A removed user is out, and is not: after \<open>deleteUser\<close> no login and no refresh of the user
  succeeds, but every request its access token was admitted with is admitted as before, with the
  same permissions, although the cached permissions were dropped: neither the token check nor the
  permission query looks at the user.\<close>

theorem removed_user_keeps_access:
  assumes "perms_coherent (a_rbac s)" and "deleteUser e uid s = (Answer x, t)"
    and "first_row (\<lambda>r. us_name r = name) (a_users s) = Some row" and "us_id row = uid"
    and "plain_login name p body" and "re_redis er" and "re_db er"
    and "admit J up er s req = (Admit (Some pl), s')"
  shows "\<not> is_answer (fst (login J C ae body t)) \<and>
    (\<forall>tok sid ae b. verifyRefreshToken J (clock t) tok = Some (uid, sid) \<longrightarrow> jstr ''refresh_token'' b = Given tok \<longrightarrow>
       \<not> is_answer (fst (refresh J ae b t))) \<and>
    fst (admit J up er t req) = Admit (Some pl)"
proof -
  have known: "uid \<in> us_id ` set (a_users s)" using first_row_SomeD [OF assms(3)] assms(4) by auto
  note t = deleteUser_Answer [OF assms(2) known]
  have users: "a_users t = upd_where (\<lambda>r. us_id r = uid) (\<lambda>r. r\<lparr>us_deleted := True\<rparr>) (a_users s)"
    by (simp add: t invalidate_user_def update_users_def)
  have "first_row (\<lambda>r. us_name r = name) (a_users t) = Some (row\<lparr>us_deleted := True\<rparr>)"
    using assms(3,4) by (simp add: users first_row_upd)
  then have 1: "\<not> is_answer (fst (login J C ae body t))"
    by (simp add: plain_login_login [OF assms(5)] login_account_def is_answer_def)
  have "us_id q = uid \<longrightarrow> us_deleted q" if "q \<in> set (a_users t)" for q
    using that unfolding users set_upd_where by (rule imageE) simp
  then have "first_row (\<lambda>r. us_id r = uid \<and> us_status r = 1 \<and> \<not> us_deleted r) (a_users t) = None"
    unfolding first_row_None by blast
  then have 2: "\<not> is_answer (fst (refresh J ae b t))"
    if "verifyRefreshToken J (clock t) tok = Some (uid, sid)" "jstr ''refresh_token'' b = Given tok" for tok sid ae b
    using that by (simp add: refresh_def is_answer_def)
  have co: "perms_coherent (a_rbac t)"
    using perms_coherent_invalidate [OF assms(1), of "oe_rbac e" uid]
    by (simp add: t invalidate_user_def update_users_def)
  have db: "db_perms (a_rbac t) u = db_perms (a_rbac s) u" for u
    by (simp add: t invalidate_user_def update_users_def invalidateUserPerm_def db_perms_def)
  have j: "jwtCheck J up t req = jwtCheck J up s req"
    by (rule jwtCheck_cong)
      (simp_all add: t invalidate_user_def update_users_def invalidateUserPerm_def clock_def)
  obtain xs rb where s: "getUserPermissions er (current_user_id (Some pl)) (a_rbac s) = (PermOk xs, rb)"
    using permissions_answered [OF assms(6,7)] by blast
  obtain ys rc where t': "getUserPermissions er (current_user_id (Some pl)) (a_rbac t) = (PermOk ys, rc)"
    using permissions_answered [OF assms(6,7)] by blast
  have "set ys = set xs"
    using permissions_granted [OF assms(1) s] permissions_granted [OF co t'] by (simp add: db)
  then have "fst (rbacCheck er (Some pl) t req) = fst (rbacCheck er (Some pl) s req)"
    using s t' by (simp add: rbacCheck_def Let_def)
  moreover have "jwtCheck J up s req = Admit (Some pl) \<and> fst (rbacCheck er (Some pl) s req) = Admit (Some pl)"
    using assms(8) rbacCheck_Admit [OF assms(1)] by (fastforce simp: admit_def split: verdict.splits)
  ultimately have 3: "fst (admit J up er t req) = Admit (Some pl)" by (simp add: admit_def j)
  show ?thesis using 1 2 3 by blast
qed

theorem removed_user_keeps_access_witness:
  "\<exists>pl. fst (admit demo_access True demo_reader (snd (deleteUser demo_org_env 9 demo_auth)) demo_request) = Admit (Some pl)"
proof -
  obtain pl s' where a: "admit demo_access True demo_reader demo_auth demo_request = (Admit (Some pl), s')"
    using demo_admitted unfolding demo_reader_def by (auto split: prod.splits verdict.splits option.splits)
  have d: "deleteUser demo_org_env 9 demo_auth =
      (Answer (JObj [(''id'', JInt 9), (''deleted'', JBool True)]), snd (deleteUser demo_org_env 9 demo_auth))"
    by (simp add: deleteUser_def demo_org_env_def demo_auth_def demo_user_def)
  from removed_user_keeps_access [OF demo_auth_coherent d demo_first _ demo_plain _ _ a, of "''secret-1''"] show ?thesis
    by (auto simp: demo_user_def demo_reader_def)
qed

end
