(* ===== verification/Quality.thy ===== *)
theory Quality
  imports Request_Data Business_Rules Work_Orders "HOL-Library.List_Lexorder" "HOL-Library.Char_ord"
begin

text \<open>
  Quality (\<open>services/QcService.cc\<close>): inspection standards, inspections with their defects, the
  disposition of defects, statistics. The identifiers of the sequences, the answers of the
  database, the clock, and the conversions PostgreSQL makes from text are in the environment.
\<close>

section \<open>State and environment\<close>

record qc_item =
  qi_standard :: int
  qi_code :: string
  qi_sort :: int

record standard =
  st_id :: int
  st_code :: string
  st_name :: string
  st_product :: "int option"
  st_type :: int
  st_sample :: int
  st_aql :: "string option"
  st_status :: int

record inspection =
  in_id :: int
  in_no :: string
  in_standard :: "int option"
  in_order :: "int option"
  in_operation :: "int option"
  in_product :: "int option"
  in_inspector :: int
  in_type :: int
  in_sample :: int
  in_pass :: int
  in_defect :: int
  in_result :: int
  in_remark :: string
  in_at :: int

record defect =
  df_id :: int
  df_inspection :: int
  df_order :: "int option"
  df_code :: string
  df_name :: string
  df_category :: "string option"
  df_quantity :: int
  df_severity :: int
  df_disposition :: int
  df_by :: "int option"
  df_disposed_at :: "int option"
  df_root :: "string option"
  df_action :: "string option"
  df_station :: "int option"
  df_operator :: "int option"
  df_at :: int

text \<open>Other tables, as far as quality reads them: identifiers and the text a join adds.\<close>

record quality =
  q_standards :: "standard list"
  q_items :: "qc_item list"
  q_inspections :: "inspection list"
  q_defects :: "defect list"
  q_products :: "(int \<times> string) list"
  q_orders :: "(int \<times> string) list"
  q_operations :: "int list"
  q_users :: "(int \<times> string) list"

text \<open>
  \<open>qe_int\<close> is PostgreSQL's conversion of text to an integer (None: an error), \<open>qe_text\<close> its \<open>->>\<close> of a
  JSON value that is no string, \<open>qe_time\<close> its conversion of text to a timestamp, \<open>qe_day\<close> the day of a
  timestamp as text.
\<close>

record qc_env =
  qe_db :: bool
  qe_db2 :: bool
  qe_db3 :: bool
  qe_id :: int
  qe_ids :: "nat \<Rightarrow> int"
  qe_now :: int
  qe_year :: int
  qe_month :: int
  qe_mday :: int
  qe_hour :: int
  qe_min :: int
  qe_sec :: int
  qe_rng :: nat
  qe_int :: "string \<Rightarrow> int option"
  qe_text :: "json \<Rightarrow> string"
  qe_time :: "string \<Rightarrow> int option"
  qe_day :: "int \<Rightarrow> string"

definition genInspectionNo :: "qc_env \<Rightarrow> string" where
  "genInspectionNo e = ''QC-'' @ pad_num 4 (qe_year e) @ pad_num 2 (qe_month e) @ pad_num 2 (qe_mday e) @ ''-''
    @ pad_num 2 (qe_hour e) @ pad_num 2 (qe_min e) @ pad_num 2 (qe_sec e) @ ''-'' @ pad_num 3 (int (qe_rng e mod 1000))"

section \<open>Standards\<close>

record standard_view =
  sv_row :: standard
  sv_product :: string
  sv_items :: "qc_item list"

definition standard_matches :: "string \<Rightarrow> int \<Rightarrow> standard \<Rightarrow> bool" where
  "standard_matches keyword productId r \<longleftrightarrow> st_status r = 1
    \<and> (keyword = [] \<or> contains_keyword keyword (st_code r) \<or> contains_keyword keyword (st_name r))
    \<and> (productId \<le> 0 \<or> st_product r = Some productId)"

definition view_standard :: "quality \<Rightarrow> standard \<Rightarrow> standard_view" where
  "view_standard s r =
    \<lparr>sv_row = r, sv_product = lookup_text (q_products s) (st_product r),
     sv_items = sort_key qi_sort (filter (\<lambda>i. qi_standard i = st_id r) (q_items s))\<rparr>"

definition listStandards :: "qc_env \<Rightarrow> int \<Rightarrow> int \<Rightarrow> string \<Rightarrow> int \<Rightarrow> quality \<Rightarrow> standard_view page_result reply" where
  "listStandards e page psize keyword productId s =
    list_page (qe_db e) (qe_db2 e) page psize
      (map (view_standard s) (sort_key st_id (filter (standard_matches keyword productId) (q_standards s))))"

section \<open>Inspections\<close>

text \<open>\<open>d->>'k'\<close>: NULL for a missing key and for null.\<close>

definition arrow_text :: "qc_env \<Rightarrow> string \<Rightarrow> json \<Rightarrow> string option" where
  "arrow_text e k d =
    (case member k d of
       None \<Rightarrow> None
     | Some JNull \<Rightarrow> None
     | Some (JStr t) \<Rightarrow> Some t
     | Some v \<Rightarrow> Some (qe_text e v))"

text \<open>\<open>(d->>'k')::int\<close> with its range; Inl is the error of the statement.\<close>

definition arrow_int :: "qc_env \<Rightarrow> (int \<Rightarrow> bool) \<Rightarrow> string \<Rightarrow> json \<Rightarrow> unit + int option" where
  "arrow_int e fits k d =
    (case arrow_text e k d of
       None \<Rightarrow> Inr None
     | Some t \<Rightarrow> (case qe_int e t of None \<Rightarrow> Inl () | Some i \<Rightarrow> if fits i then Inr (Some i) else Inl ()))"

definition defect_row :: "qc_env \<Rightarrow> int \<Rightarrow> int option \<Rightarrow> nat \<Rightarrow> json \<Rightarrow> defect option" where
  "defect_row e insp wo n d =
    (case (arrow_text e ''defect_code'' d, arrow_text e ''defect_name'' d, arrow_int e int32_ok ''quantity'' d,
           arrow_int e int16_ok ''severity'' d, arrow_int e int64_ok ''station_id'' d,
           arrow_int e int64_ok ''operator_id'' d) of
       (Some code, Some name, Inr q, Inr sev, Inr station, Inr oper) \<Rightarrow>
         (let cat = arrow_text e ''defect_category'' d in
          if length code \<le> 64 \<and> length name \<le> 128 \<and> (case cat of None \<Rightarrow> True | Some c \<Rightarrow> length c \<le> 64) then
            Some \<lparr>df_id = qe_ids e n, df_inspection = insp, df_order = wo, df_code = code, df_name = name,
              df_category = cat, df_quantity = or_else q 1, df_severity = or_else sev 2, df_disposition = 0,
              df_by = None, df_disposed_at = None, df_root = arrow_text e ''root_cause'' d, df_action = None,
              df_station = Option.bind station zero_null, df_operator = Option.bind oper zero_null, df_at = qe_now e\<rparr>
          else None)
     | _ \<Rightarrow> None)"

fun defect_rows :: "qc_env \<Rightarrow> int \<Rightarrow> int option \<Rightarrow> nat \<Rightarrow> json list \<Rightarrow> defect list option" where
  "defect_rows e insp wo n [] = Some []"
| "defect_rows e insp wo n (d # ds) =
     (case defect_row e insp wo n d of
        None \<Rightarrow> None
      | Some r \<Rightarrow> (case defect_rows e insp wo (Suc n) ds of None \<Rightarrow> None | Some rs \<Rightarrow> Some (r # rs)))"

text \<open>The single statement: the inspection and its defects, or nothing.\<close>

definition insert_inspection :: "qc_env \<Rightarrow> inspection \<Rightarrow> json list \<Rightarrow> quality \<Rightarrow> quality option" where
  "insert_inspection e r ds s =
    (if in_no r \<in> in_no ` set (q_inspections s) \<or> in_id r \<in> in_id ` set (q_inspections s) then None
     else if \<not> known_in (map st_id (q_standards s)) (in_standard r) \<or> \<not> known_in (map fst (q_orders s)) (in_order r)
        \<or> \<not> known_in (q_operations s) (in_operation r) \<or> \<not> known_in (map fst (q_products s)) (in_product r) then None
     else
       (case defect_rows e (in_id r) (in_order r) 0 ds of
          None \<Rightarrow> None
        | Some rows \<Rightarrow>
            if distinct (map df_id (q_defects s @ rows)) then
              Some (s\<lparr>q_inspections := q_inspections s @ [r], q_defects := q_defects s @ rows\<rparr>)
            else None))"

text \<open>The check of the given defects; Inl is the exception of an element that is no object or a value that is no string.\<close>

fun check_defects :: "json list \<Rightarrow> unit + bool" where
  "check_defects [] = Inr True"
| "check_defects (d # ds) =
     (case field_value [] (jstr ''defect_code'' d) of
        Inl _ \<Rightarrow> Inl ()
      | Inr [] \<Rightarrow> Inr False
      | Inr _ \<Rightarrow>
          (case field_value [] (jstr ''defect_name'' d) of
             Inl _ \<Rightarrow> Inl ()
           | Inr [] \<Rightarrow> Inr False
           | Inr _ \<Rightarrow> check_defects ds))"

definition given_defects :: "json \<Rightarrow> json list" where
  "given_defects body = (case member ''defects'' body of Some (JArr ds) \<Rightarrow> ds | _ \<Rightarrow> [])"

definition inferred_result :: "int \<Rightarrow> int \<Rightarrow> int \<Rightarrow> int" where
  "inferred_result given sampleQty defectQty =
    (if given = -1 then (if defectQty > 0 then 2 else if sampleQty > 0 then 1 else 0) else given)"

definition store_inspection :: "qc_env \<Rightarrow> json \<Rightarrow> int \<Rightarrow> int \<Rightarrow> int \<Rightarrow> int \<Rightarrow> int \<Rightarrow> int \<Rightarrow> quality \<Rightarrow> json reply \<times> quality" where
  "store_inspection e body inspectorId itype sampleQty passQty defectQty res s =
    (case (field_value 0 (jlong ''standard_id'' body), field_value 0 (jlong ''work_order_id'' body),
           field_value 0 (jlong ''operation_id'' body), field_value 0 (jlong ''product_id'' body),
           field_value [] (jstr ''remark'' body)) of
       (Inr std, Inr wo, Inr oper, Inr product, Inr rmk) \<Rightarrow>
         (let r = \<lparr>in_id = qe_id e, in_no = genInspectionNo e, in_standard = zero_null std, in_order = zero_null wo,
                   in_operation = zero_null oper, in_product = zero_null product, in_inspector = inspectorId,
                   in_type = itype, in_sample = sampleQty, in_pass = passQty, in_defect = defectQty,
                   in_result = res, in_remark = rmk, in_at = qe_now e\<rparr> in
          case (if qe_db e then insert_inspection e r (given_defects body) s else None) of
            None \<Rightarrow> (Refuse 500 ''database error'', s)
          | Some t \<Rightarrow> (Answer (JObj [(''id'', JInt (qe_id e)), (''inspection_no'', JStr (genInspectionNo e))]), t))
     | _ \<Rightarrow> (Thrown, s))"

definition createInspection :: "qc_env \<Rightarrow> json \<Rightarrow> int \<Rightarrow> quality \<Rightarrow> json reply \<times> quality" where
  "createInspection e body inspectorId s =
    (case field_value 0 (jint32 ''inspection_type'' body) of
       Inl _ \<Rightarrow> (Thrown, s)
     | Inr itype \<Rightarrow>
         if itype < 1 \<or> itype > 4 then (Refuse 400 ''inspection_type required'', s)
         else
           (case (field_value 1 (jint32 ''sample_qty'' body), field_value 0 (jint32 ''pass_qty'' body),
                  field_value 0 (jint32 ''defect_qty'' body)) of
              (Inr sampleQty, Inr passQty, Inr defectQty) \<Rightarrow>
                if sampleQty < 0 \<or> passQty < 0 \<or> defectQty < 0 then (Refuse 400 ''negative quantity'', s)
                else
                  (case field_value (-1) (jint32 ''result'' body) of
                     Inl _ \<Rightarrow> (Thrown, s)
                   | Inr given \<Rightarrow>
                       let res = inferred_result given sampleQty defectQty in
                       if res < 0 \<or> res > 3 then (Refuse 400 ''result 0 to 3'', s)
                       else
                         (case check_defects (given_defects body) of
                            Inl _ \<Rightarrow> (Thrown, s)
                          | Inr False \<Rightarrow> (Refuse 400 ''defect_code and defect_name required'', s)
                          | Inr True \<Rightarrow> store_inspection e body inspectorId itype sampleQty passQty defectQty res s))
            | _ \<Rightarrow> (Thrown, s)))"

record inspection_view =
  iv_row :: inspection
  iv_order_no :: string
  iv_inspector :: string

definition inspection_matches :: "int \<Rightarrow> int \<Rightarrow> inspection \<Rightarrow> bool" where
  "inspection_matches workOrderId res r \<longleftrightarrow>
    (workOrderId \<le> 0 \<or> in_order r = Some workOrderId) \<and> (res < 0 \<or> in_result r = res)"

definition listInspections :: "qc_env \<Rightarrow> int \<Rightarrow> int \<Rightarrow> int \<Rightarrow> int \<Rightarrow> quality \<Rightarrow> inspection_view page_result reply" where
  "listInspections e page psize workOrderId res s =
    list_page (qe_db e) (qe_db2 e) page psize
      (map (\<lambda>r. \<lparr>iv_row = r, iv_order_no = lookup_text (q_orders s) (in_order r),
               iv_inspector = lookup_text (q_users s) (Some (in_inspector r))\<rparr>)
        (rev (sort_key in_id (filter (inspection_matches workOrderId res) (q_inspections s)))))"

definition getInspection :: "qc_env \<Rightarrow> int \<Rightarrow> quality \<Rightarrow> (inspection \<times> defect list) option reply" where
  "getInspection e i s =
    (if \<not> qe_db e then Refuse 500 ''database error''
     else Answer (map_option (\<lambda>r. (r, filter (\<lambda>d. df_inspection d = i) (q_defects s)))
            (first_row (\<lambda>r. in_id r = i) (q_inspections s))))"

section \<open>Defects\<close>

definition defect_matches :: "int \<Rightarrow> int \<Rightarrow> string \<Rightarrow> defect \<Rightarrow> bool" where
  "defect_matches workOrderId disposition category d \<longleftrightarrow>
    (workOrderId \<le> 0 \<or> df_order d = Some workOrderId) \<and> (disposition < 0 \<or> df_disposition d = disposition)
    \<and> (category = [] \<or> df_category d = Some category)"

definition listDefects :: "qc_env \<Rightarrow> int \<Rightarrow> int \<Rightarrow> int \<Rightarrow> int \<Rightarrow> string \<Rightarrow> quality \<Rightarrow> defect page_result reply" where
  "listDefects e page psize workOrderId disposition category s =
    list_page (qe_db e) (qe_db2 e) page psize
      (rev (sort_key df_id (filter (defect_matches workOrderId disposition category) (q_defects s))))"

definition keep_if_empty :: "string \<Rightarrow> string option \<Rightarrow> string option" where
  "keep_if_empty new old = (if new = [] then old else Some new)"

definition disposed :: "int \<Rightarrow> int \<Rightarrow> int \<Rightarrow> string \<Rightarrow> string \<Rightarrow> defect \<Rightarrow> defect" where
  "disposed disposition userId now cause action d =
    d\<lparr>df_disposition := disposition, df_by := Some userId, df_disposed_at := Some now,
      df_root := keep_if_empty cause (df_root d), df_action := keep_if_empty action (df_action d)\<rparr>"

definition handleDefect :: "qc_env \<Rightarrow> int \<Rightarrow> json \<Rightarrow> int \<Rightarrow> quality \<Rightarrow> json reply \<times> quality" where
  "handleDefect e i body userId s =
    (case field_value 0 (jint32 ''disposition'' body) of
       Inl _ \<Rightarrow> (Thrown, s)
     | Inr disposition \<Rightarrow>
         if \<not> validDisposition disposition then (Refuse 400 ''disposition 1 to 4'', s)
         else
           (case (field_value [] (jstr ''root_cause'' body), field_value [] (jstr ''corrective_action'' body)) of
              (Inr cause, Inr action) \<Rightarrow>
                if \<not> qe_db e then (Refuse 500 ''database error'', s)
                else if \<not> (\<exists>d\<in>set (q_defects s). df_id d = i \<and> df_disposition d = 0) then (Answer JNull, s)
                else
                  (Answer (JObj [(''id'', JInt i), (''disposition'', JInt disposition), (''disposition_by'', JInt userId)]),
                   s\<lparr>q_defects := upd_where (\<lambda>d. df_id d = i \<and> df_disposition d = 0)
                      (disposed disposition userId (qe_now e) cause action) (q_defects s)\<rparr>)
            | _ \<Rightarrow> (Thrown, s)))"

section \<open>Statistics\<close>

text \<open>
  The window: from the start, or thirty days ago, to a day after the end, or after now (seconds).
  None: a text that is no timestamp.
\<close>

definition window :: "qc_env \<Rightarrow> string \<Rightarrow> string \<Rightarrow> (int \<times> int) option" where
  "window e startDate endDate =
    (case (if startDate = [] then Some (qe_now e - 30 * 86400) else qe_time e startDate,
           if endDate = [] then Some (qe_now e) else qe_time e endDate) of
       (Some a, Some b) \<Rightarrow> Some (a, b + 86400)
     | _ \<Rightarrow> None)"

definition in_window :: "int \<times> int \<Rightarrow> int \<Rightarrow> bool" where
  "in_window w t \<longleftrightarrow> fst w \<le> t \<and> t < snd w"

record summary =
  sm_total :: int
  sm_pass :: int
  sm_fail :: int
  sm_concession :: int
  sm_defects :: int
  sm_rate :: rat

definition summarize :: "inspection list \<Rightarrow> summary" where
  "summarize rows =
    (let total = int (length rows); pass = count_if (\<lambda>r. in_result r = 1) rows in
     \<lparr>sm_total = total, sm_pass = pass, sm_fail = count_if (\<lambda>r. in_result r = 2) rows,
      sm_concession = count_if (\<lambda>r. in_result r = 3) rows, sm_defects = sum_list (map in_defect rows),
      sm_rate = firstPassRate total pass\<rparr>)"

definition category_of :: "defect \<Rightarrow> string" where
  "category_of d = or_else (df_category d) ''uncategorized''"

definition categories :: "defect list \<Rightarrow> (string \<times> int \<times> int) list" where
  "categories rows = rev (sort_key (\<lambda>g. fst (snd g))
    (map (\<lambda>(c, ds). (c, int (length ds), sum_list (map df_quantity ds))) (groups category_of rows)))"

definition daily :: "(int \<Rightarrow> string) \<Rightarrow> inspection list \<Rightarrow> (string \<times> int \<times> int \<times> int) list" where
  "daily day rows =
    map (\<lambda>(d, rs). (d, int (length rs), count_if (\<lambda>r. in_result r = 1) rs, sum_list (map in_defect rs)))
      (sort_key fst (groups (\<lambda>r. day (in_at r)) rows))"

record statistics_data =
  sd_summary :: summary
  sd_categories :: "(string \<times> int \<times> int) list"
  sd_daily :: "(string \<times> int \<times> int \<times> int) list"

definition statistics :: "qc_env \<Rightarrow> string \<Rightarrow> string \<Rightarrow> quality \<Rightarrow> statistics_data reply" where
  "statistics e startDate endDate s =
    (case window e startDate endDate of
       None \<Rightarrow> Refuse 500 ''invalid timestamp''
     | Some w \<Rightarrow>
         if \<not> qe_db e \<or> \<not> qe_db2 e \<or> \<not> qe_db3 e then Refuse 500 ''database error''
         else
           let rows = filter (\<lambda>r. in_window w (in_at r)) (q_inspections s) in
           Answer \<lparr>sd_summary = summarize rows,
             sd_categories = categories (filter (\<lambda>d. in_window w (df_at d)) (q_defects s)),
             sd_daily = daily (qe_day e) rows\<rparr>)"

end
