(* ===== verification/Quality_Props.thy ===== *)
theory Quality_Props
  imports Quality "HOL-Library.Multiset"
begin

text \<open>
  What quality guarantees: an inspection and its defects are stored together or not at all, the tables
  stay consistent in every run, a defect is disposed of once, and the parts of the statistics add up.
\<close>

section \<open>Storing an inspection\<close>

lemma defect_row_Some:
  assumes "defect_row e i wo n d = Some r"
  shows "df_inspection r = i \<and> df_order r = wo \<and> df_disposition r = 0 \<and> df_by r = None \<and> df_disposed_at r = None
    \<and> arrow_text e ''defect_code'' d = Some (df_code r) \<and> df_id r = qe_ids e n"
  using assms by (auto simp: defect_row_def Let_def split: option.splits sum.splits if_splits)

lemma defect_rows_Some:
  assumes "defect_rows e i wo n ds = Some rows"
  shows "map (\<lambda>d. arrow_text e ''defect_code'' d) ds = map (\<lambda>r. Some (df_code r)) rows \<and>
    (\<forall>r\<in>set rows. df_inspection r = i \<and> df_order r = wo \<and> df_disposition r = 0 \<and> df_by r = None \<and> df_disposed_at r = None)"
  using assms
proof (induction ds arbitrary: n rows)
  case (Cons d ds)
  then obtain r rs where r: "defect_row e i wo n d = Some r" "defect_rows e i wo (Suc n) ds = Some rs" "rows = r # rs"
    by (auto split: option.splits)
  from Cons.IH [OF r(2)] defect_row_Some [OF r(1)] r(3) show ?case by simp
qed simp

lemma insert_inspection_Some:
  assumes "insert_inspection e r ds s = Some t"
  obtains rows where "defect_rows e (in_id r) (in_order r) 0 ds = Some rows"
    and "t = s\<lparr>q_inspections := q_inspections s @ [r], q_defects := q_defects s @ rows\<rparr>"
    and "in_id r \<notin> in_id ` set (q_inspections s)" and "in_no r \<notin> in_no ` set (q_inspections s)"
    and "distinct (map df_id (q_defects s @ rows))"
  using assms by (auto simp: insert_inspection_def split: if_splits option.splits)

lemma check_defects_True: "check_defects ds = Inr True \<Longrightarrow> d \<in> set ds \<Longrightarrow>
  \<exists>c n. jstr ''defect_code'' d = Given c \<and> c \<noteq> [] \<and> jstr ''defect_name'' d = Given n \<and> n \<noteq> []"
proof (induction ds)
  case (Cons x ds)
  have x: "jstr k x = Given v" if "field_value [] (jstr k x) = Inr v" "v \<noteq> []" for k v
    using that by (auto simp: field_value_Inr)
  from Cons show ?case
    by (auto split: sum.splits list.splits dest: x)
qed simp

lemma jstr_arrow: "jstr k d = Given v \<Longrightarrow> arrow_text e k d = Some v"
  by (cases d) (auto simp: arrow_text_def split: option.splits json.splits)

text \<open>Everything a success gives.\<close>

lemma store_inspection_Answer:
  assumes "store_inspection e body u itype sample pass def res s = (Answer x, t)"
  obtains r rows where "defect_rows e (in_id r) (in_order r) 0 (given_defects body) = Some rows"
    and "t = s\<lparr>q_inspections := q_inspections s @ [r], q_defects := q_defects s @ rows\<rparr>"
    and "in_id r \<notin> in_id ` set (q_inspections s)" and "in_no r \<notin> in_no ` set (q_inspections s)"
    and "distinct (map df_id (q_defects s @ rows))"
    and "in_id r = qe_id e" "in_type r = itype" "in_result r = res" "in_sample r = sample" "in_pass r = pass" "in_defect r = def"
    and "in_inspector r = u"
proof -
  from assms obtain r where i: "insert_inspection e r (given_defects body) s = Some t"
    and r: "in_id r = qe_id e" "in_type r = itype" "in_result r = res" "in_sample r = sample" "in_pass r = pass"
      "in_defect r = def" "in_inspector r = u"
    unfolding store_inspection_def Let_def
    by (fastforce split: sum.splits option.splits if_splits)
  from i show thesis by (rule insert_inspection_Some) (rule that [OF _ _ _ _ _ r])
qed

lemma store_inspection_other:
  "store_inspection e body u itype sample pass def res s = (rep, t) \<Longrightarrow> (\<And>x. rep \<noteq> Answer x) \<Longrightarrow> t = s"
  by (auto simp: store_inspection_def Let_def split: sum.splits option.splits if_splits)

lemma createInspection_other:
  "createInspection e body u s = (rep, t) \<Longrightarrow> (\<And>x. rep \<noteq> Answer x) \<Longrightarrow> t = s"
  by (auto simp: createInspection_def Let_def split: sum.splits if_splits bool.splits elim!: store_inspection_other)

lemma createInspection_Answer:
  assumes "createInspection e body u s = (Answer x, t)"
  obtains itype sample pass def res where
    "store_inspection e body u itype sample pass def res s = (Answer x, t)"
    and "1 \<le> itype" "itype \<le> 4" "0 \<le> sample" "0 \<le> pass" "0 \<le> def" "0 \<le> res" "res \<le> 3"
    and "check_defects (given_defects body) = Inr True"
    and "jint32 ''result'' body = Absent \<Longrightarrow> res = (if def > 0 then 2 else if sample > 0 then 1 else 0)"
  using assms
  by (auto simp: createInspection_def inferred_result_def Let_def field_value_Inr split: sum.splits if_splits bool.splits)

section \<open>Consistent tables\<close>

definition defect_ok :: "inspection list \<Rightarrow> defect \<Rightarrow> bool" where
  "defect_ok ins d \<longleftrightarrow> (\<exists>r\<in>set ins. in_id r = df_inspection d \<and> in_order r = df_order d)
    \<and> 0 \<le> df_disposition d \<and> df_disposition d \<le> 4
    \<and> (df_disposition d = 0 \<longleftrightarrow> df_by d = None) \<and> (df_disposition d = 0 \<longleftrightarrow> df_disposed_at d = None)"

definition qc_inv :: "quality \<Rightarrow> bool" where
  "qc_inv s \<longleftrightarrow> distinct (map in_id (q_inspections s)) \<and> distinct (map in_no (q_inspections s))
    \<and> distinct (map df_id (q_defects s))
    \<and> (\<forall>r\<in>set (q_inspections s). 1 \<le> in_type r \<and> in_type r \<le> 4 \<and> 0 \<le> in_result r \<and> in_result r \<le> 3
         \<and> 0 \<le> in_sample r \<and> 0 \<le> in_pass r \<and> 0 \<le> in_defect r)
    \<and> (\<forall>d\<in>set (q_defects s). defect_ok (q_inspections s) d)"

datatype qc_event =
    Inspect qc_env json int
  | Dispose qc_env int json int

fun qc_step :: "qc_event \<Rightarrow> quality \<Rightarrow> quality" where
  "qc_step (Inspect e body u) s = snd (createInspection e body u s)"
| "qc_step (Dispose e i body u) s = snd (handleDefect e i body u s)"

lemma defect_ok_more: "defect_ok ins d \<Longrightarrow> defect_ok (ins @ ins2) d"
  by (auto simp: defect_ok_def)

lemma createInspection_inv:
  assumes "qc_inv s"
  shows "qc_inv (snd (createInspection e body u s))"
proof (cases "\<exists>x. fst (createInspection e body u s) = Answer x")
  case False
  then have "snd (createInspection e body u s) = s"
    by (intro createInspection_other [OF prod.collapse [symmetric]]) blast
  with assms show ?thesis by simp
next
  case True
  then obtain x t where c: "createInspection e body u s = (Answer x, t)"
    by (cases "createInspection e body u s") auto
  from c obtain itype sample pass def res where
    st: "store_inspection e body u itype sample pass def res s = (Answer x, t)"
    and rng: "1 \<le> itype" "itype \<le> 4" "0 \<le> sample" "0 \<le> pass" "0 \<le> def" "0 \<le> res" "res \<le> 3"
    by (rule createInspection_Answer)
  from st obtain r rows where
    rows: "defect_rows e (in_id r) (in_order r) 0 (given_defects body) = Some rows"
    and t: "t = s\<lparr>q_inspections := q_inspections s @ [r], q_defects := q_defects s @ rows\<rparr>"
    and new: "in_id r \<notin> in_id ` set (q_inspections s)" "in_no r \<notin> in_no ` set (q_inspections s)"
    and dist: "distinct (map df_id (q_defects s @ rows))"
    and r: "in_type r = itype" "in_result r = res" "in_sample r = sample" "in_pass r = pass" "in_defect r = def"
    by (rule store_inspection_Answer)
  have "\<forall>d\<in>set rows. defect_ok (q_inspections s @ [r]) d"
    using defect_rows_Some [OF rows] by (simp add: defect_ok_def)
  with assms new dist r rng show ?thesis
    by (auto simp: c t qc_inv_def defect_ok_more)
qed

lemma handleDefect_cases:
  "snd (handleDefect e i body u s) = s \<or>
   (\<exists>disp cause action. validDisposition disp \<and>
     snd (handleDefect e i body u s) =
       s\<lparr>q_defects := upd_where (\<lambda>d. df_id d = i \<and> df_disposition d = 0) (disposed disp u (qe_now e) cause action) (q_defects s)\<rparr>)"
  by (auto simp: handleDefect_def split: sum.split)

lemma handleDefect_inv:
  assumes "qc_inv s"
  shows "qc_inv (snd (handleDefect e i body u s))"
proof -
  have "qc_inv (s\<lparr>q_defects := upd_where p (disposed disp u (qe_now e) cause action) (q_defects s)\<rparr>)"
    if "validDisposition disp" for p disp cause action
  proof -
    have ok: "\<forall>d\<in>set (upd_where p (disposed disp u (qe_now e) cause action) (q_defects s)). defect_ok (q_inspections s) d"
      using assms that by (intro upd_where_all) (auto simp: qc_inv_def defect_ok_def disposed_def validDisposition_def)
    have "map df_id (upd_where p (disposed disp u (qe_now e) cause action) (q_defects s)) = map df_id (q_defects s)"
      by (simp add: disposed_def)
    then show ?thesis using assms ok by (simp add: qc_inv_def)
  qed
  then show ?thesis using handleDefect_cases [of e i body u s] assms by fastforce
qed

interpretation qc_machine: step_invariant qc_step qc_inv
proof
  show "qc_inv s \<Longrightarrow> qc_inv (qc_step ev s)" for s ev
    by (cases ev) (simp_all add: createInspection_inv handleDefect_inv)
qed

text \<open>A defect that has been disposed of stays as it is.\<close>

definition settled :: "defect \<Rightarrow> quality \<Rightarrow> bool" where
  "settled d s \<longleftrightarrow> d \<in> set (q_defects s) \<and> df_disposition d \<noteq> 0"

lemma settled_upd:
  "settled d s \<Longrightarrow> settled d (s\<lparr>q_defects := upd_where (\<lambda>d. df_id d = i \<and> df_disposition d = 0) f (q_defects s)\<rparr>)"
  by (auto simp: settled_def set_upd_where intro: rev_image_eqI)

lemma settled_step: "settled d s \<Longrightarrow> settled d (qc_step ev s)"
proof (cases ev)
  case (Inspect e body u)
  show "settled d s \<Longrightarrow> ?thesis"
  proof (cases "\<exists>x. fst (createInspection e body u s) = Answer x")
    case False
    then have "snd (createInspection e body u s) = s"
      by (intro createInspection_other [OF prod.collapse [symmetric]]) blast
    then show "settled d s \<Longrightarrow> ?thesis" by (simp add: Inspect)
  next
    case True
    then obtain x t where c: "createInspection e body u s = (Answer x, t)"
      by (cases "createInspection e body u s") auto
    then have "set (q_defects s) \<subseteq> set (q_defects t)"
      by (auto elim!: createInspection_Answer store_inspection_Answer)
    then show "settled d s \<Longrightarrow> ?thesis" by (auto simp: Inspect c settled_def)
  qed
next
  case (Dispose e i body u)
  then show "settled d s \<Longrightarrow> ?thesis"
    using handleDefect_cases [of e i body u s] by (auto simp: settled_upd)
qed

interpretation settled_machine: step_invariant qc_step "settled d" for d
  by unfold_locales (rule settled_step)

section \<open>Sums over groups\<close>

lemma sum_list_sort: "sum_list (map f (sort_key k xs)) = (sum_list (map f xs) :: int)"
  by (metis mset_map mset_sort sum_mset_sum_list)

lemma sum_daily:
  "sum_list (map (\<lambda>(d, n, p, q). n) (daily day rows)) = int (length rows)"
  "sum_list (map (\<lambda>(d, n, p, q). p) (daily day rows)) = count_if (\<lambda>r. in_result r = 1) rows"
  "sum_list (map (\<lambda>(d, n, p, q). q) (daily day rows)) = sum_list (map in_defect rows)"
  unfolding daily_def map_map comp_def case_prod_beta fst_conv snd_conv sum_list_sort length_sum count_if_sum
  by (simp_all only: sum_groups [of _ "\<lambda>r. day (in_at r)" rows, unfolded case_prod_beta])

lemma sum_categories:
  "sum_list (map (\<lambda>(c, n, q). n) (categories ds)) = int (length ds)"
  "sum_list (map (\<lambda>(c, n, q). q) (categories ds)) = sum_list (map df_quantity ds)"
proof -
  have r: "sum_list (map f (rev xs)) = (sum_list (map f xs) :: int)" for f and xs :: "(string \<times> int \<times> int) list"
    by (metis mset_map mset_rev sum_mset_sum_list)
  show "sum_list (map (\<lambda>(c, n, q). n) (categories ds)) = int (length ds)"
    "sum_list (map (\<lambda>(c, n, q). q) (categories ds)) = sum_list (map df_quantity ds)"
    unfolding categories_def r sum_list_sort map_map comp_def case_prod_beta fst_conv snd_conv length_sum
    by (simp_all only: sum_groups [of _ category_of ds, unfolded case_prod_beta])
qed

section \<open>Properties\<close>

text \<open>C22: an inspection is recorded whole or not at all: without success nothing changes; with success
  there is exactly one more inspection, with a result between 0 and 3 (inferred from the quantities
  when none is given), and exactly one more defect, not disposed of, for every defect given, with its
  code and the inspection's work order.\<close>

theorem inspection_recorded:
  assumes "createInspection e body u s = (rep, t)"
  shows "((\<forall>x. rep \<noteq> Answer x) \<longrightarrow> t = s) \<and>
    (\<forall>x. rep = Answer x \<longrightarrow> (\<exists>r rows.
       q_inspections t = q_inspections s @ [r] \<and> q_defects t = q_defects s @ rows \<and>
       0 \<le> in_result r \<and> in_result r \<le> 3 \<and> in_inspector r = u \<and>
       (jint32 ''result'' body = Absent \<longrightarrow> in_result r = (if in_defect r > 0 then 2 else if in_sample r > 0 then 1 else 0)) \<and>
       map (\<lambda>d. Given (df_code d)) rows = map (jstr ''defect_code'') (given_defects body) \<and>
       (\<forall>d\<in>set rows. df_inspection d = in_id r \<and> df_order d = in_order r \<and> df_disposition d = 0)))"
proof (intro conjI impI allI)
  show "t = s" if "\<forall>x. rep \<noteq> Answer x" using createInspection_other [OF assms] that by blast
next
  fix x assume "rep = Answer x"
  with assms obtain itype sample pass def res where
    st: "store_inspection e body u itype sample pass def res s = (Answer x, t)"
    and rng: "0 \<le> res" "res \<le> 3" and ck: "check_defects (given_defects body) = Inr True"
    and inf: "jint32 ''result'' body = Absent \<Longrightarrow> res = (if def > 0 then 2 else if sample > 0 then 1 else 0)"
    by (auto elim: createInspection_Answer)
  from st obtain r rows where
    rows: "defect_rows e (in_id r) (in_order r) 0 (given_defects body) = Some rows"
    and t: "t = s\<lparr>q_inspections := q_inspections s @ [r], q_defects := q_defects s @ rows\<rparr>"
    and r: "in_result r = res" "in_sample r = sample" "in_defect r = def" "in_inspector r = u"
    by (rule store_inspection_Answer)
  have "arrow_text e ''defect_code'' d = Some c \<longleftrightarrow> jstr ''defect_code'' d = Given c" if "d \<in> set (given_defects body)" for d c
    using check_defects_True [OF ck that] jstr_arrow [of "''defect_code''" d] by fastforce
  then have codes: "map (\<lambda>d. Given (df_code d)) rows = map (jstr ''defect_code'') (given_defects body)"
    using defect_rows_Some [OF rows] by (auto simp: list_eq_iff_nth_eq)
  show "\<exists>r rows.
       q_inspections t = q_inspections s @ [r] \<and> q_defects t = q_defects s @ rows \<and>
       0 \<le> in_result r \<and> in_result r \<le> 3 \<and> in_inspector r = u \<and>
       (jint32 ''result'' body = Absent \<longrightarrow> in_result r = (if in_defect r > 0 then 2 else if in_sample r > 0 then 1 else 0)) \<and>
       map (\<lambda>d. Given (df_code d)) rows = map (jstr ''defect_code'') (given_defects body) \<and>
       (\<forall>d\<in>set rows. df_inspection d = in_id r \<and> df_order d = in_order r \<and> df_disposition d = 0)"
    using t r rng inf codes defect_rows_Some [OF rows] by (intro exI [of _ r] exI [of _ rows]) simp
qed

text \<open>C23: in every run of inspections and dispositions the tables stay consistent (every defect belongs to an
  inspection of the same work order, and has a disposing user and time exactly when it is disposed
  of), and a disposition is final: the row of a defect that has been disposed of never changes again.\<close>

theorem disposition_is_final:
  assumes "qc_inv s" and "d \<in> set (q_defects (fold qc_step evs s))" and "df_disposition d \<noteq> 0"
  shows "qc_inv (fold qc_step evs s) \<and> df_by d \<noteq> None \<and> df_disposed_at d \<noteq> None \<and>
    d \<in> set (q_defects (fold qc_step later (fold qc_step evs s)))"
proof -
  have inv: "qc_inv (fold qc_step evs s)" using assms(1) by (rule qc_machine.run_keeps)
  have "settled d (fold qc_step later (fold qc_step evs s))"
    by (rule settled_machine.run_keeps) (simp add: settled_def assms(2,3))
  with inv assms(2,3) show ?thesis by (auto simp: settled_def qc_inv_def defect_ok_def)
qed

text \<open>The parts of the statistics add up: the days sum to the total, the passed and the defective
  quantity of the summary, the categories to the defects of the window and their quantity, and the
  first pass rate lies between 0 and 100.\<close>

theorem statistics_add_up:
  assumes "statistics e startDate endDate s = Answer d" and "window e startDate endDate = Some w"
  shows "sum_list (map (\<lambda>(day, n, p, q). n) (sd_daily d)) = sm_total (sd_summary d) \<and>
    sum_list (map (\<lambda>(day, n, p, q). p) (sd_daily d)) = sm_pass (sd_summary d) \<and>
    sum_list (map (\<lambda>(day, n, p, q). q) (sd_daily d)) = sm_defects (sd_summary d) \<and>
    sum_list (map (\<lambda>(c, n, q). n) (sd_categories d)) = count_if (\<lambda>x. in_window w (df_at x)) (q_defects s) \<and>
    sm_pass (sd_summary d) + sm_fail (sd_summary d) + sm_concession (sd_summary d) \<le> sm_total (sd_summary d) \<and>
    0 \<le> sm_rate (sd_summary d) \<and> sm_rate (sd_summary d) \<le> 100"
proof -
  let ?rows = "filter (\<lambda>r. in_window w (in_at r)) (q_inspections s)"
  have d: "d = \<lparr>sd_summary = summarize ?rows,
      sd_categories = categories (filter (\<lambda>d. in_window w (df_at d)) (q_defects s)), sd_daily = daily (qe_day e) ?rows\<rparr>"
    using assms by (simp add: statistics_def Let_def split: if_splits)
  have three: "count_if (\<lambda>r. in_result r = 1) rows + count_if (\<lambda>r. in_result r = 2) rows
      + count_if (\<lambda>r. in_result r = 3) rows \<le> int (length rows)" for rows
    by (induction rows) (simp_all add: count_if_def)
  have pos: "0 \<le> count_if p rows \<and> count_if p rows \<le> int (length rows)" for p :: "inspection \<Rightarrow> bool" and rows
    by (simp add: count_if_def)
  show ?thesis
    using three [of ?rows] pos firstPassRate_range [of "count_if (\<lambda>r. in_result r = 1) ?rows" "int (length ?rows)"]
    by (simp add: d summarize_def Let_def sum_daily sum_categories count_if_def)
qed

section \<open>A concrete inspection\<close>

definition demo_quality :: quality where
  "demo_quality = \<lparr>q_standards = [], q_items = [], q_inspections = [], q_defects = [], q_products = [],
     q_orders = [(5, ''WO1'')], q_operations = [], q_users = [(9, ''Ann'')]\<rparr>"

definition demo_qc_env :: qc_env where
  "demo_qc_env = \<lparr>qe_db = True, qe_db2 = True, qe_db3 = True, qe_id = 1, qe_ids = int, qe_now = 1000,
     qe_year = 2024, qe_month = 1, qe_mday = 2, qe_hour = 3, qe_min = 4, qe_sec = 5, qe_rng = 7,
     qe_int = stoll, qe_text = (\<lambda>_. ''3''), qe_time = (\<lambda>_. None), qe_day = (\<lambda>_. ''1970-01-01'')\<rparr>"

definition demo_inspect :: json where
  "demo_inspect = JObj [(''inspection_type'', JInt 2), (''defect_qty'', JInt 3), (''work_order_id'', JInt 5),
     (''defects'', JArr [JObj [(''defect_code'', JStr ''D1''), (''defect_name'', JStr ''scratch''), (''quantity'', JInt 3)]])]"

definition demo_dispose :: json where
  "demo_dispose = JObj [(''disposition'', JInt 3)]"

definition demo_inspected :: quality where
  "demo_inspected = snd (createInspection demo_qc_env demo_inspect 9 demo_quality)"

lemma demo_inspected_facts:
  "createInspection demo_qc_env demo_inspect 9 demo_quality =
     (Answer (JObj [(''id'', JInt 1), (''inspection_no'', JStr ''QC-20240102-030405-007'')]), demo_inspected)"
  unfolding demo_inspected_def prod_eq_iff by (rule conjI, code_simp) simp

theorem inspection_recorded_witness: "map (\<lambda>d. (df_code d, df_disposition d)) (q_defects demo_inspected) = [(''D1'', 0)]"
  using inspection_recorded [OF demo_inspected_facts]
  by (auto simp: demo_quality_def given_defects_def demo_inspect_def)

definition demo_disposed :: defect where
  "demo_disposed = hd (q_defects (snd (handleDefect demo_qc_env 0 demo_dispose 9 demo_inspected)))"

lemma demo_disposed_facts:
  "map df_disposition (q_defects (snd (handleDefect demo_qc_env 0 demo_dispose 9 demo_inspected))) = [3]"
  by code_simp

theorem disposition_is_final_witness:
  "demo_disposed \<in> set (q_defects (snd (handleDefect demo_qc_env 0 demo_dispose 8
     (snd (handleDefect demo_qc_env 0 demo_dispose 9 demo_inspected)))))"
proof -
  let ?evs = "[Inspect demo_qc_env demo_inspect 9, Dispose demo_qc_env 0 demo_dispose 9]"
  have run: "fold qc_step ?evs demo_quality = snd (handleDefect demo_qc_env 0 demo_dispose 9 demo_inspected)"
    by (simp add: demo_inspected_def)
  have i: "qc_inv demo_quality" by (simp add: qc_inv_def demo_quality_def)
  obtain q where q: "q_defects (snd (handleDefect demo_qc_env 0 demo_dispose 9 demo_inspected)) = [q]"
    using demo_disposed_facts by (metis map_eq_Cons_conv map_is_Nil_conv)
  from disposition_is_final [OF i, of q ?evs "[Dispose demo_qc_env 0 demo_dispose 8]"] demo_disposed_facts show ?thesis
    unfolding run by (simp add: demo_disposed_def q)
qed

lemma demo_statistics:
  "(case statistics demo_qc_env [] [] demo_inspected of Answer d \<Rightarrow> sm_total (sd_summary d) = 1 | _ \<Rightarrow> False)"
  by code_simp

theorem statistics_add_up_witness:
  "\<exists>d. statistics demo_qc_env [] [] demo_inspected = Answer d \<and> sum_list (map (\<lambda>(day, n, p, q). n) (sd_daily d)) = 1"
proof -
  obtain d where d: "statistics demo_qc_env [] [] demo_inspected = Answer d" "sm_total (sd_summary d) = 1"
    using demo_statistics by (auto split: reply.splits)
  have w: "window demo_qc_env [] [] = Some (1000 - 2592000, 87400)" by (simp add: window_def demo_qc_env_def)
  from statistics_add_up [OF d(1) w] d show ?thesis by auto
qed

end
