(* ===== verification/Data_Ingest.thy ===== *)
theory Data_Ingest
  imports Request_Data
begin

text \<open>
  The consumer of sensor readings (\<open>mq/DataIngestHandler.cc\<close>): validation, bounded retry of invalid
  messages, threshold alerts with their suppression, batches, and acknowledgements that the database
  callbacks leave for the consumer thread. One turn of the loop is a step; what the broker, the
  database and the clock do in it is in the event. A 64-bit product that overflows is undefined
  behaviour and is the state None. Text of a number and parsing of JSON are parameters.
\<close>

section \<open>Messages\<close>

datatype header = NoRetryHeader | RetryHeader int | OddHeader

record envelope =
  ev_tag :: nat
  ev_body :: string
  ev_header :: header

record reading =
  rd_device :: int
  rd_code :: string
  rd_sensor :: int
  rd_num :: "rat option"
  rd_str :: string
  rd_quality :: int
  rd_ts :: string

definition kMaxRetry :: int where "kMaxRetry = 3"
definition kBatchRows :: nat where "kBatchRows = 500"
definition kFlushWindowMs :: int where "kFlushWindowMs = 100"
definition kAlertSuppressMs :: int where "kAlertSuppressMs = 30000"
definition kSensorCacheMs :: int where "kSensorCacheMs = 60000"

fun is_int :: "json \<Rightarrow> bool" where
  "is_int (JInt i) = True"
| "is_int _ = False"

fun is_str :: "json \<Rightarrow> bool" where
  "is_str (JStr t) = True"
| "is_str _ = False"

fun is_num :: "json \<Rightarrow> bool" where
  "is_num (JInt i) = True"
| "is_num (JReal r) = True"
| "is_num _ = False"

definition has :: "(json \<Rightarrow> bool) \<Rightarrow> string \<Rightarrow> json \<Rightarrow> bool" where
  "has p k j = (case member k j of None \<Rightarrow> False | Some v \<Rightarrow> p v)"

text \<open>None: valid; otherwise the first complaint.\<close>

definition validate :: "json \<Rightarrow> string option" where
  "validate j =
    (case j of
       JObj kvs \<Rightarrow>
         if \<not> has is_str ''version'' j then Some ''version''
         else if \<not> has is_int ''device_id'' j then Some ''device_id''
         else if \<not> has is_str ''device_code'' j then Some ''device_code''
         else if \<not> has is_int ''sensor_id'' j then Some ''sensor_id''
         else if \<not> has (\<lambda>v. is_num v \<or> is_str v) ''value'' j then Some ''value''
         else if \<not> has is_int ''quality'' j then Some ''quality''
         else if \<not> has is_str ''ts'' j then Some ''ts''
         else None
     | _ \<Rightarrow> Some ''no object'')"

definition ts_char :: "char \<Rightarrow> bool" where
  "ts_char c \<longleftrightarrow> digit_of c \<noteq> None \<or> c \<in> set ''-T:.Z''"

definition tsSafe :: "string \<Rightarrow> bool" where
  "tsSafe t \<longleftrightarrow> 19 \<le> length t \<and> length t \<le> 32 \<and> list_all ts_char t"

definition retryCountOf :: "header \<Rightarrow> int option" where
  "retryCountOf h = (case h of NoRetryHeader \<Rightarrow> Some 0 | RetryHeader i \<Rightarrow> Some (to_int32 i) | OddHeader \<Rightarrow> None)"

datatype verdict = DeadLetter | Retry int | HeaderThrows

definition invalid_verdict :: "header \<Rightarrow> verdict" where
  "invalid_verdict h =
    (case retryCountOf h of
       None \<Rightarrow> HeaderThrows
     | Some n \<Rightarrow> if n \<ge> kMaxRetry then DeadLetter else Retry (n + 1))"

definition the_str :: "json option \<Rightarrow> string" where
  "the_str v = (case v of Some (JStr t) \<Rightarrow> t | _ \<Rightarrow> [])"

definition to_int64 :: "int \<Rightarrow> int" where
  "to_int64 i = sint (of_int i :: 64 word)"

definition the_int :: "json option \<Rightarrow> int" where
  "the_int v = (case v of Some (JInt i) \<Rightarrow> i | _ \<Rightarrow> 0)"

text \<open>The row of a valid message.\<close>

definition reading_of :: "json \<Rightarrow> reading" where
  "reading_of j =
    \<lparr>rd_device = to_int64 (the_int (member ''device_id'' j)), rd_code = the_str (member ''device_code'' j),
     rd_sensor = to_int64 (the_int (member ''sensor_id'' j)),
     rd_num = (case member ''value'' j of Some (JInt i) \<Rightarrow> Some (of_int i) | Some (JReal r) \<Rightarrow> Some r | _ \<Rightarrow> None),
     rd_str = take 256 (the_str (member ''value'' j)),
     rd_quality = to_int32 (the_int (member ''quality'' j)), rd_ts = the_str (member ''ts'' j)\<rparr>"

text \<open>What a body is: no reading, or one.\<close>

definition parse_reading :: "(string \<Rightarrow> json option) \<Rightarrow> string \<Rightarrow> reading option" where
  "parse_reading parse body =
    (case parse body of
       None \<Rightarrow> None
     | Some j \<Rightarrow>
         if validate j \<noteq> None then None
         else if \<not> tsSafe (the_str (member ''ts'' j)) then None
         else Some (reading_of j))"

section \<open>Thresholds\<close>

record sensor_cfg =
  sc_low :: "rat option"
  sc_high :: "rat option"
  sc_lowlow :: "rat option"
  sc_highhigh :: "rat option"

text \<open>None: signed overflow.\<close>

definition sensorKey :: "int \<Rightarrow> int \<Rightarrow> int option" where
  "sensorKey d s =
    (if int64_ok (d * 1000000) \<and> int64_ok (d * 1000000 + s) then Some (d * 1000000 + s) else None)"

text \<open>The snapshot of the table: a later row with the same key replaces an earlier one.\<close>

fun load_sensors :: "(int \<times> int \<times> sensor_cfg) list \<Rightarrow> (int \<rightharpoonup> sensor_cfg) \<Rightarrow> (int \<rightharpoonup> sensor_cfg) option" where
  "load_sensors [] m = Some m"
| "load_sensors ((d, s, c) # rows) m =
     (case sensorKey d s of None \<Rightarrow> None | Some k \<Rightarrow> load_sensors rows (m(k \<mapsto> c)))"

definition above :: "rat \<Rightarrow> rat option \<Rightarrow> bool" where
  "above v bnd = (case bnd of None \<Rightarrow> False | Some l \<Rightarrow> v \<ge> l)"

definition below :: "rat \<Rightarrow> rat option \<Rightarrow> bool" where
  "below v bnd = (case bnd of None \<Rightarrow> False | Some l \<Rightarrow> v \<le> l)"

definition limit_of :: "rat option \<Rightarrow> rat" where
  "limit_of bnd = (case bnd of None \<Rightarrow> 0 | Some l \<Rightarrow> l)"

text \<open>Type, threshold and level.\<close>

definition classify :: "sensor_cfg \<Rightarrow> rat \<Rightarrow> (string \<times> rat \<times> int) option" where
  "classify c v =
    (if above v (sc_highhigh c) then Some (''HIGH_HIGH'', limit_of (sc_highhigh c), 3)
     else if above v (sc_high c) then Some (''HIGH'', limit_of (sc_high c), 2)
     else if below v (sc_lowlow c) then Some (''LOW_LOW'', limit_of (sc_lowlow c), 3)
     else if below v (sc_low c) then Some (''LOW'', limit_of (sc_low c), 2)
     else None)"

definition direction :: "string \<Rightarrow> int" where
  "direction ty = (if starts_with ''LOW'' ty then 1 else 0)"

definition dedup_key :: "int \<Rightarrow> string \<Rightarrow> int \<Rightarrow> int option" where
  "dedup_key k ty level =
    (if int64_ok (k * 8) \<and> int64_ok (k * 8 + direction ty * 4 + (level - 2))
     then Some (k * 8 + direction ty * 4 + (level - 2)) else None)"

section \<open>State\<close>

text \<open>
  A delivery: the tag, and the connection it came on. The code's delivery information has no
  connection; no operation reads it here, it tells which connection a tag belongs to. A publication
  carries, likewise for the statements only, the delivery it repeats and the key of its suppression.
\<close>

type_synonym delivery = "nat \<times> nat"

record published =
  pu_conn :: nat
  pu_key :: string
  pu_repeats :: "delivery option"
  pu_dedup :: "int option"
  pu_alert :: "json option"
  pu_body :: string
  pu_header :: header
  pu_at :: int

datatype settlement = Ack | Requeue | Reject

record ingest =
  ig_conn :: nat
  ig_open :: bool
  ig_rows :: "reading list"
  ig_dels :: "delivery list"
  ig_last_flush :: int
  ig_acks :: "(delivery \<times> settlement) list"
  ig_flights :: "(reading list \<times> delivery list) list"
  ig_sensors :: "(int \<rightharpoonup> sensor_cfg) option"
  ig_loaded_at :: int
  ig_loading :: bool
  ig_last_alert :: "int \<rightharpoonup> int"
  ig_stored :: "(reading \<times> delivery) list"
  ig_latest :: "int \<rightharpoonup> reading"
  ig_beats :: "int list list"
  ig_issued :: "(nat \<times> delivery \<times> settlement) list"
  ig_published :: "published list"

datatype received = Nothing | Received envelope | ConsumeFails

text \<open>
  One turn: the connection if one has to be made, the number of acknowledgements after which the
  channel breaks (None: it holds), what is received, whether the channel takes a publication and the
  acknowledgement of an invalid message, and the clock.
\<close>

record turn =
  tn_connect :: bool
  tn_break :: "nat option"
  tn_recv :: received
  tn_publish :: bool
  tn_settle :: bool
  tn_now :: int
  tn_wall :: int

datatype ingest_event =
    Turn turn
  | BatchDone nat bool
  | SensorsLoaded "(int \<times> int \<times> sensor_cfg) list" int
  | SensorsFailed

text \<open>The parameters: the JSON parser, and \<open>std::to_string\<close> of a \<open>double\<close>.\<close>

record ingest_env =
  ie_parse :: "string \<Rightarrow> json option"
  ie_text :: "rat \<Rightarrow> string"

section \<open>One message\<close>

datatype step_end = Proceed ingest | Throw ingest | Undef

definition refreshSensorCache :: "ingest \<Rightarrow> ingest" where
  "refreshSensorCache s = s\<lparr>ig_loading := True\<rparr>"

definition sensorSnapshot :: "int \<Rightarrow> ingest \<Rightarrow> (int \<rightharpoonup> sensor_cfg) option \<times> ingest" where
  "sensorSnapshot now s =
    (if ig_sensors s \<noteq> None \<and> now - ig_loaded_at s < kSensorCacheMs then (ig_sensors s, s)
     else (ig_sensors s, refreshSensorCache s))"

definition publish :: "published \<Rightarrow> ingest \<Rightarrow> ingest" where
  "publish p s = s\<lparr>ig_published := ig_published s @ [p]\<rparr>"

definition alert_message :: "turn \<Rightarrow> nat \<Rightarrow> int \<Rightarrow> int \<Rightarrow> json \<Rightarrow> published" where
  "alert_message w c device dk j =
    \<lparr>pu_conn = c, pu_key = ''alert.'' @ to_string device, pu_repeats = None, pu_dedup = Some dk,
     pu_alert = Some j, pu_body = [], pu_header = NoRetryHeader, pu_at = tn_now w\<rparr>"

definition retry_message :: "turn \<Rightarrow> nat \<Rightarrow> envelope \<Rightarrow> int \<Rightarrow> published" where
  "retry_message w c env n =
    \<lparr>pu_conn = c, pu_key = ''retry.data'', pu_repeats = Some (c, ev_tag env), pu_dedup = None,
     pu_alert = None, pu_body = ev_body env, pu_header = RetryHeader n, pu_at = tn_now w\<rparr>"

definition alert_json :: "ingest_env \<Rightarrow> turn \<Rightarrow> reading \<Rightarrow> string \<Rightarrow> rat \<Rightarrow> int \<Rightarrow> json" where
  "alert_json e w r ty bnd level =
    (let v = (case rd_num r of None \<Rightarrow> 0 | Some x \<Rightarrow> x) in
     JObj [(''version'', JStr ''1.0''), (''device_id'', JInt (rd_device r)), (''device_code'', JStr (rd_code r)),
       (''sensor_id'', JInt (rd_sensor r)), (''alert_type'', JStr ty), (''alert_level'', JInt level),
       (''alert_value'', JReal v), (''threshold'', JReal bnd),
       (''message'', JStr (''sensor '' @ to_string (rd_sensor r) @ '' value '' @ ie_text e v @ '' crossed '' @ ty)),
       (''ts'', JInt (tn_wall w))])"

text \<open>The time of the alert is noted before it is published.\<close>

definition raise_alert :: "ingest_env \<Rightarrow> turn \<Rightarrow> reading \<Rightarrow> int \<Rightarrow> string \<times> rat \<times> int \<Rightarrow> ingest \<Rightarrow> step_end" where
  "raise_alert e w r k a s =
    (case a of
       (ty, bnd, level) \<Rightarrow>
         (case dedup_key k ty level of
            None \<Rightarrow> Undef
          | Some dk \<Rightarrow>
              if (case ig_last_alert s dk of None \<Rightarrow> False | Some t \<Rightarrow> tn_now w - t < kAlertSuppressMs) then Proceed s
              else
                let s1 = s\<lparr>ig_last_alert := (ig_last_alert s)(dk \<mapsto> tn_now w)\<rparr> in
                if tn_publish w
                then Proceed (publish (alert_message w (ig_conn s) (rd_device r) dk (alert_json e w r ty bnd level)) s1)
                else Throw s1))"

definition checkThreshold :: "ingest_env \<Rightarrow> turn \<Rightarrow> reading \<Rightarrow> ingest \<Rightarrow> step_end" where
  "checkThreshold e w r s0 =
    (case sensorSnapshot (tn_now w) s0 of
       (None, s) \<Rightarrow> Proceed s
     | (Some m, s) \<Rightarrow>
         (case sensorKey (rd_device r) (rd_sensor r) of
            None \<Rightarrow> Undef
          | Some k \<Rightarrow>
              (case (m k, rd_num r) of
                 (Some c, Some v) \<Rightarrow> (case classify c v of None \<Rightarrow> Proceed s | Some a \<Rightarrow> raise_alert e w r k a s)
               | _ \<Rightarrow> Proceed s)))"

definition settle :: "delivery \<Rightarrow> settlement \<Rightarrow> ingest \<Rightarrow> ingest" where
  "settle d how s = s\<lparr>ig_issued := ig_issued s @ [(ig_conn s, d, how)]\<rparr>"

definition handleInvalid :: "turn \<Rightarrow> envelope \<Rightarrow> ingest \<Rightarrow> step_end" where
  "handleInvalid w env s =
    (case invalid_verdict (ev_header env) of
       HeaderThrows \<Rightarrow> Throw s
     | DeadLetter \<Rightarrow> if tn_settle w then Proceed (settle (ig_conn s, ev_tag env) Reject s) else Throw s
     | Retry n \<Rightarrow>
         if \<not> tn_publish w then Throw s
         else
           let s1 = publish (retry_message w (ig_conn s) env n) s in
           if tn_settle w then Proceed (settle (ig_conn s, ev_tag env) Ack s1) else Throw s1)"

definition handleMessage :: "ingest_env \<Rightarrow> turn \<Rightarrow> envelope \<Rightarrow> ingest \<Rightarrow> step_end" where
  "handleMessage e w env s =
    (case parse_reading (ie_parse e) (ev_body env) of
       None \<Rightarrow> handleInvalid w env s
     | Some r \<Rightarrow>
         (case checkThreshold e w r s of
            Proceed t \<Rightarrow> Proceed (t\<lparr>ig_rows := ig_rows t @ [r], ig_dels := ig_dels t @ [(ig_conn t, ev_tag env)]\<rparr>)
          | other \<Rightarrow> other))"

section \<open>Batches\<close>

definition flushBatch :: "ingest \<Rightarrow> ingest" where
  "flushBatch s =
    (if ig_rows s = [] then s
     else s\<lparr>ig_flights := ig_flights s @ [(ig_rows s, ig_dels s)], ig_rows := [], ig_dels := []\<rparr>)"

text \<open>The last row of every device in a stored batch.\<close>

definition note_latest :: "reading list \<Rightarrow> (int \<rightharpoonup> reading) \<Rightarrow> (int \<rightharpoonup> reading)" where
  "note_latest rows m = m ++ map_of (rev (map (\<lambda>r. (rd_device r, r)) rows))"

definition enqueueAcks :: "delivery list \<Rightarrow> bool \<Rightarrow> ingest \<Rightarrow> ingest" where
  "enqueueAcks dels good s = s\<lparr>ig_acks := ig_acks s @ map (\<lambda>d. (d, if good then Ack else Requeue)) dels\<rparr>"

definition batch_done :: "nat \<Rightarrow> bool \<Rightarrow> ingest \<Rightarrow> ingest" where
  "batch_done i good s =
    (if i \<ge> length (ig_flights s) then s
     else
       let (rows, dels) = ig_flights s ! i;
           s1 = enqueueAcks dels good (s\<lparr>ig_flights := take i (ig_flights s) @ drop (Suc i) (ig_flights s)\<rparr>) in
       if good
       then s1\<lparr>ig_stored := ig_stored s @ zip rows dels, ig_latest := note_latest rows (ig_latest s),
               ig_beats := ig_beats s @ [remdups (map rd_device rows)]\<rparr>
       else s1)"

section \<open>The loop\<close>

text \<open>
  The queue is swapped out before the first acknowledgement: what follows a break of the channel is
  lost.
\<close>

definition issue_acks :: "nat option \<Rightarrow> ingest \<Rightarrow> ingest \<times> bool" where
  "issue_acks brk s =
    (let acks = (case brk of None \<Rightarrow> ig_acks s | Some n \<Rightarrow> take n (ig_acks s)) in
     (s\<lparr>ig_acks := [], ig_issued := ig_issued s @ map (\<lambda>(d, how). (ig_conn s, d, how)) acks\<rparr>,
      case brk of None \<Rightarrow> True | Some n \<Rightarrow> length (ig_acks s) \<le> n))"

definition flush_due :: "turn \<Rightarrow> bool \<Rightarrow> ingest \<Rightarrow> bool" where
  "flush_due w got s \<longleftrightarrow> ig_rows s \<noteq> [] \<and>
    (length (ig_rows s) \<ge> kBatchRows \<or> (tn_now w - ig_last_flush s \<ge> kFlushWindowMs \<and> \<not> got))"

definition flush_if_due :: "turn \<Rightarrow> bool \<Rightarrow> ingest \<Rightarrow> ingest" where
  "flush_if_due w got s = (if flush_due w got s then (flushBatch s)\<lparr>ig_last_flush := tn_now w\<rparr> else s)"

definition receive :: "ingest_env \<Rightarrow> turn \<Rightarrow> ingest \<Rightarrow> step_end" where
  "receive e w s =
    (case tn_recv w of
       ConsumeFails \<Rightarrow> Throw s
     | Nothing \<Rightarrow> Proceed (flush_if_due w False s)
     | Received env \<Rightarrow>
         (case handleMessage e w env s of
            Proceed t \<Rightarrow> Proceed (flush_if_due w True (t\<lparr>ig_last_flush := tn_now w\<rparr>))
          | other \<Rightarrow> other))"

definition drop_channel :: "ingest \<Rightarrow> ingest" where
  "drop_channel s = s\<lparr>ig_open := False\<rparr>"

definition one_turn :: "ingest_env \<Rightarrow> turn \<Rightarrow> ingest \<Rightarrow> ingest option" where
  "one_turn e w s0 =
    (if \<not> ig_open s0 \<and> \<not> tn_connect w then Some (drop_channel s0)
     else
       let s = (if ig_open s0 then s0 else s0\<lparr>ig_open := True, ig_conn := Suc (ig_conn s0)\<rparr>) in
       case issue_acks (tn_break w) s of
         (s1, False) \<Rightarrow> Some (drop_channel s1)
       | (s1, True) \<Rightarrow>
           (case receive e w s1 of
              Proceed t \<Rightarrow> Some t
            | Throw t \<Rightarrow> Some (drop_channel t)
            | Undef \<Rightarrow> None))"

text \<open>The flag of a refresh under way falls with the answer; without one no answer comes.\<close>

fun ingest_step :: "ingest_env \<Rightarrow> ingest_event \<Rightarrow> ingest \<Rightarrow> ingest option" where
  "ingest_step e (Turn w) s = one_turn e w s"
| "ingest_step e (BatchDone i good) s = Some (batch_done i good s)"
| "ingest_step e (SensorsLoaded rows now) s =
     (if \<not> ig_loading s then Some s
      else case load_sensors rows Map.empty of
        None \<Rightarrow> None
      | Some m \<Rightarrow> Some (s\<lparr>ig_sensors := Some m, ig_loaded_at := now, ig_loading := False\<rparr>))"
| "ingest_step e SensorsFailed s = Some (s\<lparr>ig_loading := False\<rparr>)"

definition ingest0 :: "int \<Rightarrow> ingest" where
  "ingest0 now =
    \<lparr>ig_conn = 0, ig_open = False, ig_rows = [], ig_dels = [], ig_last_flush = now, ig_acks = [],
     ig_flights = [], ig_sensors = None, ig_loaded_at = 0, ig_loading = True, ig_last_alert = Map.empty,
     ig_stored = [], ig_latest = Map.empty, ig_beats = [], ig_issued = [], ig_published = []\<rparr>"

definition ingest_run :: "ingest_env \<Rightarrow> ingest_event list \<Rightarrow> ingest \<Rightarrow> ingest option" where
  "ingest_run e evs s = fold (\<lambda>ev o'. Option.bind o' (ingest_step e ev)) evs (Some s)"

end
