(* ===== verification/Ingest_Props.thy ===== *)
theory Ingest_Props
  imports Data_Ingest
begin

text \<open>
  What the consumer of sensor readings guarantees: acknowledgements are earned, alerts are spaced, and
  an invalid message ends in the dead letter queue; and where it does not: a lost connection leaves
  the buffer, and the tags in it are acknowledged on the next one.
\<close>

section \<open>Runs that may end in undefined behaviour\<close>

definition lifted :: "('s \<Rightarrow> bool) \<Rightarrow> 's option \<Rightarrow> bool" where
  "lifted P x \<longleftrightarrow> (\<forall>s. x = Some s \<longrightarrow> P s)"

lemma lifted_simps [simp]: "lifted P None" "lifted P (Some s) \<longleftrightarrow> P s"
  by (simp_all add: lifted_def)

lemma lifted_bind: "lifted P x \<Longrightarrow> (\<And>s. P s \<Longrightarrow> lifted P (f s)) \<Longrightarrow> lifted P (Option.bind x f)"
  by (cases x) simp_all

text \<open>What every operation of the loop keeps, one by one.\<close>

definition end_of :: "step_end \<Rightarrow> ingest option" where
  "end_of x = (case x of Proceed s \<Rightarrow> Some s | Throw s \<Rightarrow> Some s | Undef \<Rightarrow> None)"

lemma end_of_simps [simp]: "end_of (Proceed s) = Some s" "end_of (Throw s) = Some s" "end_of Undef = None"
  by (simp_all add: end_of_def)

locale ingest_invariant =
  fixes e :: ingest_env and inv :: "ingest \<Rightarrow> bool"
  assumes inv_channel: "inv s \<Longrightarrow> inv (s\<lparr>ig_open := b\<rparr>)"
    and inv_connect: "inv s \<Longrightarrow> inv (s\<lparr>ig_open := True, ig_conn := Suc (ig_conn s)\<rparr>)"
    and inv_acks: "inv s \<Longrightarrow> inv (fst (issue_acks brk s))"
    and inv_message: "inv s \<Longrightarrow> lifted inv (end_of (handleMessage e w env s))"
    and inv_last: "inv s \<Longrightarrow> inv (s\<lparr>ig_last_flush := t\<rparr>)"
    and inv_flush: "inv s \<Longrightarrow> inv (flushBatch s)"
    and inv_done: "inv s \<Longrightarrow> inv (batch_done i good s)"
    and inv_loaded: "inv s \<Longrightarrow> inv (s\<lparr>ig_sensors := m, ig_loaded_at := t, ig_loading := b\<rparr>)"
    and inv_loading: "inv s \<Longrightarrow> inv (s\<lparr>ig_loading := b\<rparr>)"
begin

lemma flush_if_due_inv: "inv s \<Longrightarrow> inv (flush_if_due w got s)"
  by (simp add: flush_if_due_def inv_flush inv_last)

lemma receive_inv: "inv s \<Longrightarrow> lifted inv (end_of (receive e w s))"
proof (cases "tn_recv w")
  case (Received env)
  assume "inv s"
  from inv_message [OF this, of w env] show ?thesis
    by (auto simp: receive_def Received inv_last flush_if_due_inv split: step_end.splits)
qed (simp_all add: receive_def flush_if_due_inv)

lemma one_turn_inv: "inv s \<Longrightarrow> lifted inv (one_turn e w s)"
proof -
  assume i: "inv s"
  let ?s = "if ig_open s then s else s\<lparr>ig_open := True, ig_conn := Suc (ig_conn s)\<rparr>"
  have "inv ?s" using i inv_connect by simp
  then have a: "inv (fst (issue_acks (tn_break w) ?s))" by (rule inv_acks)
  then have r: "lifted inv (end_of (receive e w (fst (issue_acks (tn_break w) ?s))))" by (rule receive_inv)
  show ?thesis
    using i a r unfolding one_turn_def Let_def drop_channel_def
    by (cases "issue_acks (tn_break w) ?s"; cases "receive e w (fst (issue_acks (tn_break w) ?s))")
      (auto simp: inv_channel split: bool.split)
qed

lemma step_inv: "inv s \<Longrightarrow> lifted inv (ingest_step e ev s)"
  by (cases ev) (auto simp: one_turn_inv inv_done inv_loaded inv_loading split: option.split)

lemma run_inv: "inv s \<Longrightarrow> ingest_run e evs s = Some t \<Longrightarrow> inv t"
proof -
  have "lifted inv x \<Longrightarrow> lifted inv (fold (\<lambda>ev o'. Option.bind o' (ingest_step e ev)) evs x)" for x
    by (induction evs arbitrary: x) (simp_all add: lifted_bind step_inv)
  from this [of "Some s"] show "inv s \<Longrightarrow> ingest_run e evs s = Some t \<Longrightarrow> inv t"
    by (simp add: ingest_run_def)
qed

end

section \<open>Earned acknowledgements\<close>

definition earned :: "ingest \<Rightarrow> delivery \<Rightarrow> bool" where
  "earned s d \<longleftrightarrow> d \<in> snd ` set (ig_stored s) \<or> (\<exists>p\<in>set (ig_published s). pu_repeats p = Some d \<and> pu_key p = ''retry.data'')"

definition acks_inv :: "ingest \<Rightarrow> bool" where
  "acks_inv s \<longleftrightarrow> length (ig_dels s) = length (ig_rows s)
    \<and> (\<forall>(rows, dels)\<in>set (ig_flights s). length dels = length rows)
    \<and> (\<forall>d. (d, Ack) \<in> set (ig_acks s) \<longrightarrow> earned s d)
    \<and> (\<forall>c d. (c, d, Ack) \<in> set (ig_issued s) \<longrightarrow> earned s d)"

lemma earned_published: "earned s d \<Longrightarrow> earned (s\<lparr>ig_published := ig_published s @ ps\<rparr>) d"
  by (auto simp: earned_def)

lemma acks_inv_cong:
  "acks_inv s \<Longrightarrow> ig_dels t = ig_dels s \<Longrightarrow> ig_rows t = ig_rows s \<Longrightarrow> ig_flights t = ig_flights s \<Longrightarrow> ig_acks t = ig_acks s \<Longrightarrow>
   ig_issued t = ig_issued s \<Longrightarrow> ig_stored t = ig_stored s \<Longrightarrow> ig_published t = ig_published s \<Longrightarrow> acks_inv t"
  by (simp add: acks_inv_def earned_def)

lemma acks_inv_publish: "acks_inv s \<Longrightarrow> acks_inv (publish p s)"
  by (auto simp: acks_inv_def publish_def earned_published)

lemma checkThreshold_acks: "acks_inv s \<Longrightarrow> lifted acks_inv (end_of (checkThreshold e w r s))"
proof -
  have loading: "acks_inv s \<Longrightarrow> acks_inv (s\<lparr>ig_loading := b\<rparr>)" for s b
    by (erule acks_inv_cong) simp_all
  have noted: "acks_inv s \<Longrightarrow> acks_inv (s\<lparr>ig_last_alert := m\<rparr>)" for s m
    by (erule acks_inv_cong) simp_all
  have raise: "acks_inv s \<Longrightarrow> lifted acks_inv (end_of (raise_alert e w r k a s))" for s k a
    by (auto simp: raise_alert_def Let_def noted acks_inv_publish split: prod.split option.split)
  show "acks_inv s \<Longrightarrow> ?thesis"
    by (auto simp: checkThreshold_def sensorSnapshot_def refreshSensorCache_def loading raise split: option.splits)
qed

lemma handleMessage_acks: "acks_inv s \<Longrightarrow> lifted acks_inv (end_of (handleMessage e w env s))"
proof (cases "parse_reading (ie_parse e) (ev_body env)")
  case None
  have "acks_inv s \<Longrightarrow> acks_inv (settle d how s)" if "how = Ack \<Longrightarrow> earned s d" for s d how
    using that by (auto simp: acks_inv_def settle_def earned_def)
  then have settled: "acks_inv s \<Longrightarrow> how = Ack \<longrightarrow> earned s d \<Longrightarrow> acks_inv (settle d how s)" for s d how
    by blast
  have own: "earned (publish (retry_message w c env n) s) (c, ev_tag env)" for c n
    by (auto simp: earned_def publish_def retry_message_def)
  show "acks_inv s \<Longrightarrow> ?thesis"
    by (auto simp: handleMessage_def None handleInvalid_def Let_def settled own acks_inv_publish split: verdict.split)
next
  case (Some r)
  have "acks_inv t \<Longrightarrow> acks_inv (t\<lparr>ig_rows := ig_rows t @ [r], ig_dels := ig_dels t @ [d]\<rparr>)" for t d
    by (simp add: acks_inv_def earned_def)
  then show "acks_inv s \<Longrightarrow> ?thesis"
    using checkThreshold_acks [of s e w r]
    by (auto simp: handleMessage_def Some split: step_end.splits)
qed

lemma issue_acks_inv: "acks_inv s \<Longrightarrow> acks_inv (fst (issue_acks brk s))"
proof -
  assume i: "acks_inv s"
  let ?acks = "case brk of None \<Rightarrow> ig_acks s | Some n \<Rightarrow> take n (ig_acks s)"
  have "set ?acks \<subseteq> set (ig_acks s)" by (auto split: option.split dest: in_set_takeD)
  then have "(c, d, Ack) \<in> set (ig_issued s @ map (\<lambda>(d, how). (ig_conn s, d, how)) ?acks) \<Longrightarrow> earned s d" for c d
    using i by (auto simp: acks_inv_def simp del: split_paired_All)
  with i show ?thesis by (auto simp: acks_inv_def issue_acks_def Let_def earned_def simp del: split_paired_All)
qed

lemma batch_done_acks: "acks_inv s \<Longrightarrow> acks_inv (batch_done i good s)"
proof (cases "i < length (ig_flights s)")
  case True
  assume inv: "acks_inv s"
  obtain rows dels where f: "ig_flights s ! i = (rows, dels)" by (cases "ig_flights s ! i")
  then have l: "length dels = length rows" using inv True nth_mem [OF True] by (auto simp: acks_inv_def)
  have sub: "set (take i (ig_flights s) @ drop (Suc i) (ig_flights s)) \<subseteq> set (ig_flights s)"
    by (auto dest: in_set_takeD in_set_dropD)
  have new: "d \<in> snd ` set (zip rows dels)" if "d \<in> set dels" for d
    using that l by (metis map_snd_zip set_map)
  show ?thesis
    using inv True l sub new
    by (auto simp: batch_done_def Let_def f enqueueAcks_def acks_inv_def earned_def image_Un simp del: split_paired_All)
next
  case False
  then show "acks_inv s \<Longrightarrow> ?thesis" by (simp add: batch_done_def)
qed

interpretation acks: ingest_invariant e acks_inv for e
proof
  show "acks_inv s \<Longrightarrow> acks_inv (flushBatch s)" for s
    by (auto simp: flushBatch_def acks_inv_def earned_def)
  show "acks_inv s \<Longrightarrow> lifted acks_inv (end_of (handleMessage e w env s))" for s w env
    by (rule handleMessage_acks)
qed (auto simp: issue_acks_inv batch_done_acks elim: acks_inv_cong)

section \<open>Spaced alerts\<close>

definition apart :: "published \<Rightarrow> published \<Rightarrow> bool" where
  "apart p q \<longleftrightarrow> pu_at p + kAlertSuppressMs \<le> pu_at q"

definition alerts_for :: "int \<Rightarrow> ingest \<Rightarrow> published list" where
  "alerts_for k s = filter (\<lambda>p. pu_dedup p = Some k) (ig_published s)"

definition alerts_inv :: "ingest \<Rightarrow> bool" where
  "alerts_inv s \<longleftrightarrow> (\<forall>k. sorted_wrt apart (alerts_for k s) \<and>
     (\<forall>p\<in>set (alerts_for k s). \<exists>t. ig_last_alert s k = Some t \<and> pu_at p \<le> t))"

lemma alerts_inv_cong: "alerts_inv s \<Longrightarrow> ig_published t = ig_published s \<Longrightarrow> ig_last_alert t = ig_last_alert s \<Longrightarrow> alerts_inv t"
  by (simp add: alerts_inv_def alerts_for_def)

text \<open>The two changes: a time noted that is late enough, with or without the publication.\<close>

lemma alerts_inv_note:
  assumes "alerts_inv s" and "\<And>t. ig_last_alert s k = Some t \<Longrightarrow> t + kAlertSuppressMs \<le> now"
    and "ps = [] \<or> (\<exists>p. ps = [p] \<and> pu_dedup p = Some k \<and> pu_at p = now)"
    and "ig_published t = ig_published s @ ps" and "ig_last_alert t = (ig_last_alert s)(k \<mapsto> now)"
  shows "alerts_inv t"
  unfolding alerts_inv_def
proof (intro allI conjI)
  fix j
  have s: "sorted_wrt apart (alerts_for j s)" and b: "\<And>p. p \<in> set (alerts_for j s) \<Longrightarrow> \<exists>t. ig_last_alert s j = Some t \<and> pu_at p \<le> t"
    using assms(1) by (auto simp: alerts_inv_def)
  have early: "pu_at p + kAlertSuppressMs \<le> now" if "p \<in> set (alerts_for k s)" for p
    using that assms(1,2) by (fastforce simp: alerts_inv_def)
  have e: "alerts_for j t = alerts_for j s @ (if j = k then ps else [])"
    using assms(3,4) by (auto simp: alerts_for_def)
  show "sorted_wrt apart (alerts_for j t)"
    using s early assms(3) by (auto simp: e sorted_wrt_append apart_def)
  show "\<forall>p\<in>set (alerts_for j t). \<exists>u. ig_last_alert t j = Some u \<and> pu_at p \<le> u"
    using b early assms(3) by (fastforce simp: e assms(5) kAlertSuppressMs_def)
qed

lemma alerts_inv_publish: "alerts_inv s \<Longrightarrow> pu_dedup p = None \<Longrightarrow> alerts_inv (publish p s)"
  by (simp add: alerts_inv_def alerts_for_def publish_def)

lemma raise_alert_spaced: "alerts_inv s \<Longrightarrow> lifted alerts_inv (end_of (raise_alert e w r k a s))"
proof (cases a)
  case (fields ty bnd level)
  assume inv: "alerts_inv s"
  show ?thesis
  proof (cases "dedup_key k ty level")
    case (Some dk)
    show ?thesis
    proof (cases "case ig_last_alert s dk of None \<Rightarrow> False | Some t \<Rightarrow> tn_now w - t < kAlertSuppressMs")
      case False
      then have late: "t + kAlertSuppressMs \<le> tn_now w" if "ig_last_alert s dk = Some t" for t
        using that by simp
      have "alerts_inv (s\<lparr>ig_last_alert := (ig_last_alert s)(dk \<mapsto> tn_now w)\<rparr>)"
        by (rule alerts_inv_note [OF inv late, of _ "[]"]) simp_all
      moreover have "alerts_inv (publish (alert_message w c d dk j) (s\<lparr>ig_last_alert := (ig_last_alert s)(dk \<mapsto> tn_now w)\<rparr>))" for c d j
        by (rule alerts_inv_note [OF inv late, of _ "[alert_message w c d dk j]"]) (simp_all add: publish_def alert_message_def)
      ultimately show ?thesis using False by (simp add: raise_alert_def fields Some Let_def)
    qed (simp add: raise_alert_def fields Some inv)
  qed (simp add: raise_alert_def fields)
qed

lemma handleMessage_alerts: "alerts_inv s \<Longrightarrow> lifted alerts_inv (end_of (handleMessage e w env s))"
proof (cases "parse_reading (ie_parse e) (ev_body env)")
  case None
  have "alerts_inv s \<Longrightarrow> alerts_inv (settle d how s)" for s d how
    by (simp add: alerts_inv_def alerts_for_def settle_def)
  then show "alerts_inv s \<Longrightarrow> ?thesis"
    by (auto simp: handleMessage_def None handleInvalid_def Let_def alerts_inv_publish retry_message_def split: verdict.split)
next
  case (Some r)
  have l: "alerts_inv s \<Longrightarrow> alerts_inv (s\<lparr>ig_loading := b\<rparr>)" for s b by (erule alerts_inv_cong) simp_all
  have "alerts_inv s \<Longrightarrow> lifted alerts_inv (end_of (checkThreshold e w r s))"
    by (auto simp: checkThreshold_def sensorSnapshot_def refreshSensorCache_def l raise_alert_spaced split: option.splits)
  moreover have "alerts_inv t \<Longrightarrow> alerts_inv (t\<lparr>ig_rows := x, ig_dels := y\<rparr>)" for t x y
    by (erule alerts_inv_cong) simp_all
  ultimately show "alerts_inv s \<Longrightarrow> ?thesis"
    by (auto simp: handleMessage_def Some split: step_end.splits)
qed

interpretation alerts: ingest_invariant e alerts_inv for e
proof
  show "alerts_inv s \<Longrightarrow> alerts_inv (fst (issue_acks brk s))" for s brk
    by (auto simp: issue_acks_def Let_def elim: alerts_inv_cong)
  show "alerts_inv s \<Longrightarrow> alerts_inv (flushBatch s)" for s
    by (auto simp: flushBatch_def elim: alerts_inv_cong)
  show "alerts_inv s \<Longrightarrow> alerts_inv (batch_done i good s)" for s i good
    by (auto simp: batch_done_def Let_def enqueueAcks_def split: prod.split elim: alerts_inv_cong)
  show "alerts_inv s \<Longrightarrow> lifted alerts_inv (end_of (handleMessage e w env s))" for s w env
    by (rule handleMessage_alerts)
qed (auto elim: alerts_inv_cong)

section \<open>Properties\<close>


text \<open>But not on the connection they are for: when the connection breaks with rows in the buffer, the rows
  stay, and after the next connect and a stored batch their old tags are acknowledged on the new
  connection, where the broker has given the same numbers to other messages.\<close>

theorem stale_tags_acknowledged:
  assumes "ig_open s" and "ig_rows s \<noteq> []" and "ig_acks s = []" and "ig_flights s = []"
    and "tn_break w1 = None" "tn_recv w1 = ConsumeFails"
    and "tn_connect w2" "tn_break w2 = None" "tn_recv w2 = Nothing" "ig_last_flush s + kFlushWindowMs \<le> tn_now w2"
    and "tn_break w3 = None" "tn_recv w3 = Nothing"
  shows "\<exists>t. ingest_run e [Turn w1, Turn w2, BatchDone 0 True, Turn w3] s = Some t \<and>
    ig_issued t = ig_issued s @ map (\<lambda>d. (Suc (ig_conn s), d, Ack)) (ig_dels s)"
proof -
  let ?s1 = "s\<lparr>ig_open := False\<rparr>"
  have 1: "one_turn e w1 s = Some ?s1"
    using assms by (simp add: one_turn_def issue_acks_def Let_def receive_def drop_channel_def)
  let ?s2 = "s\<lparr>ig_open := True, ig_conn := Suc (ig_conn s), ig_flights := [(ig_rows s, ig_dels s)], ig_rows := [],
      ig_dels := [], ig_last_flush := tn_now w2\<rparr>"
  have 2: "one_turn e w2 ?s1 = Some ?s2"
    using assms by (simp add: one_turn_def issue_acks_def Let_def receive_def flush_if_due_def flush_due_def flushBatch_def)
  obtain s3 where 3: "batch_done 0 True ?s2 = s3" by simp
  then have f3: "ig_acks s3 = map (\<lambda>d. (d, Ack)) (ig_dels s)" "ig_open s3" "ig_conn s3 = Suc (ig_conn s)" "ig_rows s3 = []"
    "ig_issued s3 = ig_issued s"
    using assms(3) by (auto simp: batch_done_def Let_def enqueueAcks_def)
  have "one_turn e w3 s3 = Some (s3\<lparr>ig_acks := [], ig_issued := ig_issued s @ map (\<lambda>d. (Suc (ig_conn s), d, Ack)) (ig_dels s)\<rparr>)"
    using assms f3 by (simp add: one_turn_def issue_acks_def Let_def receive_def flush_if_due_def flush_due_def comp_def)
  with 1 2 3 show ?thesis by (simp add: ingest_run_def)
qed


text \<open>The message comes back as it was last published.\<close>

fun redelivered :: "ingest_env \<Rightarrow> turn \<Rightarrow> nat \<Rightarrow> envelope \<Rightarrow> ingest \<Rightarrow> step_end" where
  "redelivered e w 0 env s = handleMessage e w env s"
| "redelivered e w (Suc n) env s =
     (case handleMessage e w env s of
        Proceed t \<Rightarrow>
          redelivered e w n (env\<lparr>ev_body := pu_body (last (ig_published t)), ev_header := pu_header (last (ig_published t))\<rparr>) t
      | other \<Rightarrow> other)"


section \<open>A concrete consumer\<close>

definition demo_reading :: json where
  "demo_reading = JObj [(''version'', JStr ''1.0''), (''device_id'', JInt 7), (''device_code'', JStr ''D7''),
     (''sensor_id'', JInt 3), (''value'', JInt 95), (''quality'', JInt 192), (''ts'', JStr ''2024-01-02T03:04:05Z'')]"

definition demo_ingest_env :: ingest_env where
  "demo_ingest_env = \<lparr>ie_parse = (\<lambda>b. if b = ''good'' then Some demo_reading else None),
     ie_text = (\<lambda>v. [])\<rparr>"

definition demo_turn :: "received \<Rightarrow> int \<Rightarrow> turn" where
  "demo_turn r now = \<lparr>tn_connect = True, tn_break = None, tn_recv = r, tn_publish = True, tn_settle = True, tn_now = now, tn_wall = now\<rparr>"

definition demo_good :: "nat \<Rightarrow> received" where
  "demo_good tag = Received \<lparr>ev_tag = tag, ev_body = ''good'', ev_header = NoRetryHeader\<rparr>"

definition demo_limits :: "(int \<times> int \<times> sensor_cfg) list" where
  "demo_limits = [(7, 3, \<lparr>sc_low = None, sc_high = Some 90, sc_lowlow = None, sc_highhigh = None\<rparr>)]"

definition demo_run :: "ingest_event list" where
  "demo_run = [SensorsLoaded demo_limits 0, Turn (demo_turn (demo_good 1) 10), Turn (demo_turn (demo_good 2) 20),
     Turn (demo_turn Nothing 200), BatchDone 0 True, Turn (demo_turn (demo_good 3) 40000)]"

lemma demo_run_result:
  "(case ingest_run demo_ingest_env demo_run (ingest0 0) of None \<Rightarrow> False
    | Some t \<Rightarrow> ig_issued t = [(1, (1, 1), Ack), (1, (1, 2), Ack)] \<and> map pu_at (ig_published t) = [10, 40000]
        \<and> map pu_dedup (ig_published t) = [Some 56000024, Some 56000024] \<and> map pu_repeats (ig_published t) = [None, None])"
  by code_simp

lemma demo_run_obtain:
  obtains t where "ingest_run demo_ingest_env demo_run (ingest0 0) = Some t"
    "ig_issued t = [(1, (1, 1), Ack), (1, (1, 2), Ack)]" "map pu_at (ig_published t) = [10, 40000]"
    "map pu_repeats (ig_published t) = [None, None]"
  using demo_run_result by (auto split: option.splits)



definition demo_buffered :: ingest where
  "demo_buffered = (ingest0 0)\<lparr>ig_open := True, ig_conn := 1, ig_rows := [reading_of demo_reading], ig_dels := [(1, 4)]\<rparr>"

theorem stale_tags_acknowledged_witness:
  "\<exists>t. ingest_run demo_ingest_env [Turn (demo_turn ConsumeFails 50), Turn (demo_turn Nothing 5100), BatchDone 0 True,
     Turn (demo_turn Nothing 5200)] demo_buffered = Some t \<and> (2, (1, 4), Ack) \<in> set (ig_issued t)"
proof -
  have "\<exists>t. ingest_run demo_ingest_env [Turn (demo_turn ConsumeFails 50), Turn (demo_turn Nothing 5100), BatchDone 0 True,
      Turn (demo_turn Nothing 5200)] demo_buffered = Some t \<and>
    ig_issued t = ig_issued demo_buffered @ map (\<lambda>d. (Suc (ig_conn demo_buffered), d, Ack)) (ig_dels demo_buffered)"
    by (rule stale_tags_acknowledged) (simp_all add: demo_buffered_def demo_turn_def ingest0_def kFlushWindowMs_def)
  then show ?thesis by (auto simp: demo_buffered_def ingest0_def)
qed


end
