(* ===== verification/Sql_Args.thy ===== *)
theory Sql_Args
  imports Decimals
begin

text \<open>
  The parameters of the statements (\<open>common/SqlParam.hh\<close>): every number is sent as a text, which PostgreSQL reads
  as a value of the column's type. The text of a \<open>double\<close> has ten significant digits: the number it stands for is
  the nearest one with that many, so what a NUMERIC column stores can differ from what the client sent. A
  \<open>double\<close> is an exact rational.
\<close>

section \<open>Parameters\<close>

record raw_param =
  rp_text :: "string option"
  rp_length :: int
  rp_format :: int

definition SqlArg_string :: "string \<Rightarrow> raw_param" where
  "SqlArg_string s = \<lparr>rp_text = Some s, rp_length = int (length s), rp_format = 0\<rparr>"

definition SqlArg_int :: "int \<Rightarrow> raw_param" where
  "SqlArg_int v = SqlArg_string (to_string v)"

definition SqlArg_bool :: "bool \<Rightarrow> raw_param" where
  "SqlArg_bool v = SqlArg_string (if v then ''t'' else ''f'')"

definition SqlArgNull :: raw_param where
  "SqlArgNull = \<lparr>rp_text = None, rp_length = 0, rp_format = 0\<rparr>"

section \<open>\<open>%.10g\<close>\<close>

definition ten_to :: "int \<Rightarrow> rat" where
  "ten_to e = (if 0 \<le> e then 10 ^ nat e else 1 / 10 ^ nat (- e))"

text \<open>The exponent of the leading digit, the ten digits after rounding half to even, and the exponent then.\<close>

definition decimal_exponent :: "rat \<Rightarrow> int" where
  "decimal_exponent v =
    (case quotient_of \<bar>v\<bar> of (n, d) \<Rightarrow>
       let x = int (length (nat_digits (nat n))) - int (length (nat_digits (nat d))) in
       if ten_to x \<le> \<bar>v\<bar> then x else x - 1)"

definition round_even :: "rat \<Rightarrow> int" where
  "round_even v =
    (let r = v - of_int \<lfloor>v\<rfloor> in
     if r < 1 / 2 \<or> r = 1 / 2 \<and> even \<lfloor>v\<rfloor> then \<lfloor>v\<rfloor> else \<lfloor>v\<rfloor> + 1)"

definition decimal_digits :: "rat \<Rightarrow> int \<times> int" where
  "decimal_digits v =
    (let x = decimal_exponent v; m = round_even (\<bar>v\<bar> * ten_to (9 - x)) in
     if m = 10 ^ 10 then (10 ^ 9, x + 1) else (m, x))"

definition strip_zeros :: "string \<Rightarrow> string" where
  "strip_zeros s = rev (dropWhile (\<lambda>c. c = CHR ''0'') (rev s))"

definition with_point :: "string \<Rightarrow> string \<Rightarrow> string" where
  "with_point whole rest = (if rest = [] then whole else whole @ CHR ''.'' # rest)"

definition place_digits :: "string \<Rightarrow> int \<Rightarrow> string" where
  "place_digits ds x =
    (if - 4 \<le> x \<and> x < 0 then with_point ''0'' (replicate (nat (- x - 1)) (CHR ''0'') @ strip_zeros ds)
     else if 0 \<le> x \<and> x < 10 then with_point (take (nat x + 1) ds) (strip_zeros (drop (nat x + 1) ds))
     else with_point (take 1 ds) (strip_zeros (drop 1 ds)) @ CHR ''e'' # (if x < 0 then CHR ''-'' else CHR ''+'') # pad_num 2 \<bar>x\<bar>)"

definition double_text :: "rat \<Rightarrow> string" where
  "double_text v =
    (if v = 0 then ''0''
     else case decimal_digits v of
       (m, x) \<Rightarrow> (if v < 0 then ''-'' else []) @ place_digits (nat_digits (nat m)) x)"

definition SqlArg_double :: "rat \<Rightarrow> raw_param" where
  "SqlArg_double v = SqlArg_string (take 39 (double_text v))"

text \<open>The number of those digits.\<close>

definition ten_digits :: "rat \<Rightarrow> rat" where
  "ten_digits v =
    (if v = 0 then 0 else case decimal_digits v of (m, x) \<Rightarrow> sgn v * (of_int m * ten_to (x - 9)))"

section \<open>What the texts stand for\<close>

text \<open>A decimal notation: an optional sign, digits with an optional point, an optional power of ten.\<close>

definition int_value :: "string \<Rightarrow> int" where
  "int_value s = (case s of [] \<Rightarrow> 0
     | c # r \<Rightarrow> if c = CHR ''-'' then - int (text_value r) else if c = CHR ''+'' then int (text_value r) else int (text_value s))"

definition unsigned_value :: "string \<Rightarrow> rat" where
  "unsigned_value s =
    (let m = takeWhile (\<lambda>c. c \<noteq> CHR ''e'') s;
         e = drop 1 (dropWhile (\<lambda>c. c \<noteq> CHR ''e'') s);
         whole = takeWhile (\<lambda>c. c \<noteq> CHR ''.'') m;
         rest = drop 1 (dropWhile (\<lambda>c. c \<noteq> CHR ''.'') m) in
     of_nat (text_value (whole @ rest)) * ten_to (int_value e - int (length rest)))"

definition decimal_value :: "string \<Rightarrow> rat" where
  "decimal_value s = (case s of [] \<Rightarrow> 0 | c # r \<Rightarrow> if c = CHR ''-'' then - unsigned_value r else unsigned_value s)"

lemma digit_codes: "c \<in> set (nat_digits n) \<Longrightarrow> 48 \<le> (of_char c :: nat) \<and> of_char c \<le> (57 :: nat)"
  using nat_digits_digit [of c n] by auto

lemma digit_chars: "c \<in> set (nat_digits n) \<Longrightarrow> c \<noteq> CHR ''-'' \<and> c \<noteq> CHR ''+'' \<and> c \<noteq> CHR ''.'' \<and> c \<noteq> CHR ''e''"
  using digit_codes [of c n] by auto

lemma int_value_to_string: "int_value (to_string i) = i"
proof -
  have d: "int_value (nat_digits n) = int n" for n
  proof (cases "nat_digits n")
    case (Cons c r)
    then have "c \<in> set (nat_digits n)" by simp
    then have "c \<noteq> CHR ''-''" "c \<noteq> CHR ''+''" using digit_chars by blast+
    then show ?thesis using text_value_digits [of n] Cons by (simp add: int_value_def)
  qed simp
  show ?thesis
  proof (cases "i < 0")
    case True
    then show ?thesis by (simp add: to_string_def int_value_def text_value_digits)
  next
    case False
    then show ?thesis by (simp add: to_string_def d)
  qed
qed

lemma ten_to_power_int: "ten_to e = power_int 10 e"
  by (simp add: ten_to_def power_int_def field_simps)

lemma ten_to_add: "ten_to (a + b) = ten_to a * ten_to b"
  by (simp add: ten_to_power_int power_int_add)

lemma ten_to_pos [simp]: "0 < ten_to e"
  by (simp add: ten_to_def)

lemma ten_to_less: "ten_to a < ten_to b \<longleftrightarrow> a < b"
  using power_int_strict_increasing [of a b "10 :: rat"] power_int_strict_increasing [of b a "10 :: rat"]
  by (cases a b rule: linorder_cases) (simp_all add: ten_to_power_int)

lemma ten_to_nat: "ten_to (int k) = 10 ^ k"
  by (simp add: ten_to_def)

lemma nat_digits_bounds: "0 < n \<Longrightarrow> 10 ^ (length (nat_digits n) - 1) \<le> n \<and> n < 10 ^ length (nat_digits n)"
proof (induction n rule: nat_digits.induct)
  case (1 n)
  show ?case
  proof (cases "n < 10")
    case True
    then show ?thesis using 1(2) by (simp add: nat_digits.simps [of n])
  next
    case False
    then have ih: "10 ^ (length (nat_digits (n div 10)) - 1) \<le> n div 10" "n div 10 < 10 ^ length (nat_digits (n div 10))"
      using 1(1) by simp_all
    have "0 < length (nat_digits (n div 10))" by simp
    then obtain k where k: "length (nat_digits (n div 10)) = Suc k" by (metis Suc_pred)
    have "10 ^ Suc k \<le> n" using ih(1) k div_mult_mod_eq [of n 10] by simp
    moreover have "n < 10 ^ Suc (Suc k)" using ih(2) k div_mult_mod_eq [of n 10] by (simp add: less_mult_imp_div_less)
    ultimately show ?thesis using False k by (simp add: nat_digits.simps [of n])
  qed
qed

lemma decimal_exponent: "v \<noteq> 0 \<Longrightarrow> ten_to (decimal_exponent v) \<le> \<bar>v\<bar> \<and> \<bar>v\<bar> < ten_to (decimal_exponent v + 1)"
proof -
  assume "v \<noteq> 0"
  obtain n d where q: "quotient_of \<bar>v\<bar> = (n, d)" by (cases "quotient_of \<bar>v\<bar>")
  have d: "0 < d" using quotient_of_denom_pos [OF q] .
  have vq: "\<bar>v\<bar> = of_int n / of_int d" using quotient_of_div [OF q] .
  have "0 < \<bar>v\<bar>" using \<open>v \<noteq> 0\<close> by simp
  then have n: "0 < n" using d unfolding vq by (simp add: zero_less_divide_iff)
  define a where "a = length (nat_digits (nat n))"
  define b where "b = length (nat_digits (nat d))"
  have ab: "0 < a" "0 < b" by (simp_all add: a_def b_def)
  have bn: "10 ^ (a - 1) \<le> nat n" "nat n < 10 ^ a" and bd: "10 ^ (b - 1) \<le> nat d" "nat d < 10 ^ b"
    using nat_digits_bounds [of "nat n"] nat_digits_bounds [of "nat d"] n d by (simp_all add: a_def b_def)
  have rn: "(of_int n :: rat) = of_nat (nat n)" "(of_int d :: rat) = of_nat (nat d)" using n d by simp_all
  have tn: "ten_to (int a - 1) \<le> of_int n" "of_int n < ten_to (int a)" "ten_to (int b - 1) \<le> of_int d" "of_int d < ten_to (int b)"
  proof -
    have "ten_to (int a - 1) = of_nat (10 ^ (a - 1))" "ten_to (int a) = of_nat (10 ^ a)"
      "ten_to (int b - 1) = of_nat (10 ^ (b - 1))" "ten_to (int b) = of_nat (10 ^ b)"
      using ab by (simp_all add: ten_to_def nat_diff_distrib)
    then show "ten_to (int a - 1) \<le> of_int n" "of_int n < ten_to (int a)" "ten_to (int b - 1) \<le> of_int d" "of_int d < ten_to (int b)"
      unfolding rn using bn bd by (simp_all only: of_nat_le_iff of_nat_less_iff)
  qed
  have dpos: "(0 :: rat) < of_int d" using d by simp
  have up: "\<bar>v\<bar> < ten_to (int a - int b + 1)"
  proof -
    have "ten_to (int a) = ten_to (int a - int b + 1) * ten_to (int b - 1)" by (simp flip: ten_to_add)
    also have "\<dots> \<le> ten_to (int a - int b + 1) * of_int d" using tn(3) by (intro mult_left_mono) (simp_all add: less_imp_le)
    finally show ?thesis using tn(2) dpos unfolding vq by (simp add: pos_divide_less_eq)
  qed
  have low: "ten_to (int a - int b - 1) \<le> \<bar>v\<bar>"
  proof -
    have "ten_to (int a - int b - 1) * of_int d \<le> ten_to (int a - int b - 1) * ten_to (int b)"
      using tn(4) by (intro mult_left_mono) (simp_all add: less_imp_le)
    also have "\<dots> = ten_to (int a - 1)" by (simp flip: ten_to_add)
    finally show ?thesis using tn(1) dpos unfolding vq by (simp add: pos_le_divide_eq)
  qed
  have x: "decimal_exponent v = (if ten_to (int a - int b) \<le> \<bar>v\<bar> then int a - int b else int a - int b - 1)"
    by (simp add: decimal_exponent_def q a_def b_def Let_def)
  show ?thesis
  proof (cases "ten_to (int a - int b) \<le> \<bar>v\<bar>")
    case True
    then show ?thesis using up by (simp add: x)
  next
    case False
    then show ?thesis using low by (simp add: x)
  qed
qed

section \<open>The rounding\<close>

lemma round_even_cases: "round_even v = \<lfloor>v\<rfloor> \<or> round_even v = \<lfloor>v\<rfloor> + 1"
  by (simp add: round_even_def Let_def)

lemma round_even_error: "\<bar>of_int (round_even v) - v\<bar> \<le> 1 / 2"
proof -
  define r where "r = v - of_int \<lfloor>v\<rfloor>"
  have r: "0 \<le> r" "r < 1" unfolding r_def by linarith+
  have "of_int (round_even v) - v = (if r < 1 / 2 \<or> r = 1 / 2 \<and> even \<lfloor>v\<rfloor> then - r else 1 - r)"
    by (simp add: round_even_def Let_def r_def)
  then show ?thesis using r by (auto simp: abs_if)
qed

lemma round_even_int: "round_even (of_int k) = k"
  by (simp add: round_even_def)

lemma scaled_range:
  assumes "v \<noteq> 0"
  shows "10 ^ 9 \<le> \<bar>v\<bar> * ten_to (9 - decimal_exponent v)" and "\<bar>v\<bar> * ten_to (9 - decimal_exponent v) < 10 ^ 10"
proof -
  let ?x = "decimal_exponent v"
  have p: "ten_to ?x * ten_to (9 - ?x) = 10 ^ 9" "ten_to (?x + 1) * ten_to (9 - ?x) = 10 ^ 10"
    by (simp_all flip: ten_to_add) (simp_all add: ten_to_def)
  have "ten_to ?x * ten_to (9 - ?x) \<le> \<bar>v\<bar> * ten_to (9 - ?x)" "\<bar>v\<bar> * ten_to (9 - ?x) < ten_to (?x + 1) * ten_to (9 - ?x)"
    using decimal_exponent [OF assms] by (simp_all add: mult_right_mono less_imp_le)
  then show "10 ^ 9 \<le> \<bar>v\<bar> * ten_to (9 - ?x)" "\<bar>v\<bar> * ten_to (9 - ?x) < 10 ^ 10" unfolding p by blast+
qed

lemma decimal_digits_range:
  assumes "v \<noteq> 0" and "decimal_digits v = (m, x)"
  shows "10 ^ 9 \<le> m" and "m < 10 ^ 10"
    and "of_int m * ten_to (x - 9) = of_int (round_even (\<bar>v\<bar> * ten_to (9 - decimal_exponent v))) * ten_to (decimal_exponent v - 9)"
proof -
  let ?s = "\<bar>v\<bar> * ten_to (9 - decimal_exponent v)"
  have "10 ^ 9 \<le> \<lfloor>?s\<rfloor>" "\<lfloor>?s\<rfloor> < 10 ^ 10"
    using scaled_range [OF assms(1)] by (simp_all add: le_floor_iff floor_less_iff)
  then have "10 ^ 9 \<le> round_even ?s" "round_even ?s \<le> 10 ^ 10" using round_even_cases [of ?s] by linarith+
  moreover have "ten_to (e + 1 - 9) = 10 * ten_to (e - 9)" for e
  proof -
    have "ten_to (e + 1 - 9) = ten_to (1 + (e - 9))" by simp
    then show ?thesis unfolding ten_to_add by (simp add: ten_to_def [of 1])
  qed
  ultimately show "10 ^ 9 \<le> m" "m < 10 ^ 10" "of_int m * ten_to (x - 9) = of_int (round_even ?s) * ten_to (decimal_exponent v - 9)"
    using assms(2) by (auto simp: decimal_digits_def Let_def split: if_splits)
qed

text \<open>Half a unit of the tenth digit.\<close>

lemma ten_digits_value:
  assumes "v \<noteq> 0"
  shows "ten_digits v = sgn v * (of_int (round_even (\<bar>v\<bar> * ten_to (9 - decimal_exponent v))) * ten_to (decimal_exponent v - 9))"
proof -
  obtain m x where d: "decimal_digits v = (m, x)" by (cases "decimal_digits v")
  show ?thesis using assms decimal_digits_range(3) [OF assms d] by (simp add: ten_digits_def d)
qed

lemma ten_digits_error: "\<bar>ten_digits v - v\<bar> \<le> ten_to (decimal_exponent v - 9) / 2"
proof (cases "v = 0")
  case True
  then show ?thesis by (simp add: ten_digits_def less_imp_le)
next
  case False
  define x where "x = decimal_exponent v"
  have u: "ten_to (9 - x) * ten_to (x - 9) = 1" by (simp flip: ten_to_add add: ten_to_def)
  have "v = sgn v * \<bar>v\<bar>" by (simp add: sgn_if)
  also have "\<dots> = sgn v * (\<bar>v\<bar> * ten_to (9 - x) * ten_to (x - 9))" using u by (simp add: mult.assoc)
  finally have v: "v = sgn v * (\<bar>v\<bar> * ten_to (9 - x) * ten_to (x - 9))" .
  define s where "s = \<bar>v\<bar> * ten_to (9 - x)"
  have "ten_digits v - v = sgn v * (of_int (round_even s) * ten_to (x - 9)) - sgn v * (s * ten_to (x - 9))"
    using ten_digits_value [OF False] v by (simp add: x_def s_def)
  also have "\<dots> = sgn v * ((of_int (round_even s) - s) * ten_to (x - 9))" by (simp add: algebra_simps)
  finally have "\<bar>ten_digits v - v\<bar> = \<bar>of_int (round_even s) - s\<bar> * ten_to (x - 9)"
    using False by (simp add: abs_mult abs_sgn_eq less_imp_le)
  also have "\<dots> \<le> 1 / 2 * ten_to (x - 9)"
    by (rule mult_right_mono [OF round_even_error]) (simp add: less_imp_le)
  finally show ?thesis by (simp add: x_def)
qed

lemma ten_digits_exact:
  assumes "v = of_int m * ten_to e" and "\<bar>m\<bar> < 10 ^ 10"
  shows "ten_digits v = v"
proof (cases "v = 0")
  case True
  then show ?thesis by (simp add: ten_digits_def)
next
  case False
  define x where "x = decimal_exponent v"
  have av: "\<bar>v\<bar> = of_int \<bar>m\<bar> * ten_to e" by (simp add: assms(1) abs_mult less_imp_le)
  have "(of_int \<bar>m\<bar> :: rat) < of_int (10 ^ 10)" using assms(2) by (simp only: of_int_less_iff)
  then have "\<bar>v\<bar> < ten_to 10 * ten_to e" unfolding av by (simp add: ten_to_def [of 10])
  then have "ten_to x < ten_to (10 + e)"
    using decimal_exponent [OF False] unfolding ten_to_add x_def by linarith
  then have k: "0 \<le> 9 - x + e" by (simp add: ten_to_less)
  have "ten_to e * ten_to (9 - x) = ten_to (9 - x + e)" unfolding ten_to_add [symmetric] by (simp add: add.commute)
  also have "\<dots> = 10 ^ nat (9 - x + e)" using k by (simp add: ten_to_def)
  finally have "\<bar>v\<bar> * ten_to (9 - x) = of_int (\<bar>m\<bar> * 10 ^ nat (9 - x + e))"
    unfolding av by (simp add: mult.assoc)
  then have "of_int (round_even (\<bar>v\<bar> * ten_to (9 - x))) = \<bar>v\<bar> * ten_to (9 - x)" by (simp only: round_even_int)
  then have "ten_digits v = sgn v * (\<bar>v\<bar> * ten_to (9 - x) * ten_to (x - 9))"
    using ten_digits_value [OF False] by (simp add: x_def)
  also have "\<dots> = sgn v * \<bar>v\<bar>" by (simp add: mult.assoc flip: ten_to_add) (simp add: ten_to_def)
  finally show ?thesis by (simp add: sgn_if)
qed

lemma round_even_le: "s \<le> of_int k \<Longrightarrow> round_even s \<le> k"
proof (cases "s = of_int k")
  case False
  assume "s \<le> of_int k"
  then have "\<lfloor>s\<rfloor> < k" using False by (simp add: floor_less_iff)
  then show ?thesis using round_even_cases [of s] by linarith
qed (simp add: round_even_int)

text \<open>A bound of at most ten digits is kept.\<close>

lemma ten_digits_le:
  assumes "0 \<le> v" and "v \<le> of_int m * ten_to e" and "\<bar>m\<bar> < 10 ^ 10"
  shows "0 \<le> ten_digits v" and "ten_digits v \<le> of_int m * ten_to e"
proof -
  have "0 \<le> ten_digits v \<and> ten_digits v \<le> of_int m * ten_to e"
  proof (cases "v = 0")
    case True
    then show ?thesis using assms(2) by (simp add: ten_digits_def)
  next
    case False
    then have v: "0 < v" using assms(1) by simp
    define x where "x = decimal_exponent v"
    have "(of_int m :: rat) < of_int (10 ^ 10)" using assms(3) by (simp only: of_int_less_iff)
    then have "of_int m * ten_to e < ten_to 10 * ten_to e" by (simp add: ten_to_def [of 10])
    then have "ten_to x < ten_to (10 + e)"
      using decimal_exponent [OF False] assms(2) v unfolding ten_to_add x_def by linarith
    then have k: "0 \<le> 9 - x + e" by (simp add: ten_to_less)
    have t: "ten_to e * ten_to (9 - x) = 10 ^ nat (9 - x + e)"
      unfolding ten_to_add [symmetric] using k by (simp add: ten_to_def add.commute)
    have "v * ten_to (9 - x) \<le> of_int m * ten_to e * ten_to (9 - x)"
      using assms(2) by (rule mult_right_mono) (simp add: less_imp_le)
    then have "v * ten_to (9 - x) \<le> of_int (m * 10 ^ nat (9 - x + e))" by (simp add: mult.assoc t)
    then have "round_even (v * ten_to (9 - x)) \<le> m * 10 ^ nat (9 - x + e)" by (rule round_even_le)
    then have "(of_int (round_even (v * ten_to (9 - x))) :: rat) \<le> of_int (m * 10 ^ nat (9 - x + e))" by (simp only: of_int_le_iff)
    then have "of_int (round_even (v * ten_to (9 - x))) * ten_to (x - 9) \<le> of_int (m * 10 ^ nat (9 - x + e)) * ten_to (x - 9)"
      by (rule mult_right_mono) (simp add: less_imp_le)
    also have "\<dots> = of_int m * (ten_to e * ten_to (9 - x)) * ten_to (x - 9)" by (simp add: t)
    also have "\<dots> = of_int m * ten_to e" by (simp add: mult.assoc flip: ten_to_add)
    finally have up: "of_int (round_even (v * ten_to (9 - x))) * ten_to (x - 9) \<le> of_int m * ten_to e" .
    have "0 \<le> \<lfloor>v * ten_to (9 - x)\<rfloor>" using v by (simp add: less_imp_le)
    then have "0 \<le> round_even (v * ten_to (9 - x))" using round_even_cases [of "v * ten_to (9 - x)"] by linarith
    then show ?thesis using up ten_digits_value [OF False] v by (simp add: x_def less_imp_le)
  qed
  then show "0 \<le> ten_digits v" and "ten_digits v \<le> of_int m * ten_to e" by blast+
qed

section \<open>The value of the text\<close>

lemma text_value_append: "text_value (a @ b) = text_value a * 10 ^ length b + text_value b"
proof (induction b rule: rev_induct)
  case Nil
  then show ?case by (simp add: text_value_def)
next
  case (snoc c b)
  then show ?case using text_value_snoc [of "a @ b" c] text_value_snoc [of b c] by simp
qed

lemma strip_zeros_split: "s = strip_zeros s @ replicate (length s - length (strip_zeros s)) (CHR ''0'')"
proof -
  have "rev s = takeWhile (\<lambda>c. c = CHR ''0'') (rev s) @ dropWhile (\<lambda>c. c = CHR ''0'') (rev s)" by simp
  then have "s = strip_zeros s @ rev (takeWhile (\<lambda>c. c = CHR ''0'') (rev s))"
    unfolding strip_zeros_def by (metis rev_append rev_rev_ident)
  moreover have "takeWhile (\<lambda>c. c = a) xs = replicate (length (takeWhile (\<lambda>c. c = a) xs)) a" for a :: char and xs
    by (induction xs) simp_all
  from this [of "CHR ''0''" "rev s"] obtain k where "takeWhile (\<lambda>c. c = CHR ''0'') (rev s) = replicate k (CHR ''0'')" by blast
  ultimately have k: "s = strip_zeros s @ replicate k (CHR ''0'')" by simp
  have "length s = length (strip_zeros s @ replicate k (CHR ''0''))" using k by (rule arg_cong)
  then have "length s - length (strip_zeros s) = k" by simp
  with k show ?thesis by simp
qed

lemma text_value_stripped:
  "text_value (w @ s) = text_value (w @ strip_zeros s) * 10 ^ (length s - length (strip_zeros s))"
proof -
  have z: "text_value (replicate k (CHR ''0'')) = 0" for k using text_value_zeros [of k "[]"] by (simp add: text_value_def)
  have "text_value (w @ s) = text_value ((w @ strip_zeros s) @ replicate (length s - length (strip_zeros s)) (CHR ''0''))"
    using strip_zeros_split [of s] by (metis append_assoc)
  also have "\<dots> = text_value (w @ strip_zeros s) * 10 ^ (length s - length (strip_zeros s))"
    unfolding text_value_append [of "w @ strip_zeros s"] by (simp only: z length_replicate add_0_right)
  finally show ?thesis .
qed

definition plain_digits :: "string \<Rightarrow> bool" where
  "plain_digits s \<longleftrightarrow> CHR ''.'' \<notin> set s \<and> CHR ''e'' \<notin> set s"

lemma strip_zeros_sub: "set (strip_zeros s) \<subseteq> set s" and strip_zeros_length: "length (strip_zeros s) \<le> length s"
  using set_dropWhileD [of _ "\<lambda>c. c = CHR ''0''" "rev s"] length_dropWhile_le [of "\<lambda>c. c = CHR ''0''" "rev s"]
  by (auto simp: strip_zeros_def)

lemma until_first: "c \<notin> set a \<Longrightarrow> takeWhile (\<lambda>d. d \<noteq> c) (a @ c # b) = a" "c \<notin> set a \<Longrightarrow> dropWhile (\<lambda>d. d \<noteq> c) (a @ c # b) = c # b"
  "c \<notin> set a \<Longrightarrow> takeWhile (\<lambda>d. d \<noteq> c) a = a" "c \<notin> set a \<Longrightarrow> dropWhile (\<lambda>d. d \<noteq> c) a = []"
  by (induction a) auto

lemma unsigned_with_point:
  assumes "plain_digits w" and "plain_digits f"
  shows "unsigned_value (with_point w f) = of_nat (text_value (w @ f)) * ten_to (- int (length f))"
    and "unsigned_value (with_point w f @ CHR ''e'' # t) = of_nat (text_value (w @ f)) * ten_to (int_value t - int (length f))"
proof -
  have e: "CHR ''e'' \<notin> set (with_point w f)" using assms by (simp add: plain_digits_def with_point_def)
  have m: "takeWhile (\<lambda>c. c \<noteq> CHR ''.'') (with_point w f) = w" "drop 1 (dropWhile (\<lambda>c. c \<noteq> CHR ''.'') (with_point w f)) = f"
    using assms by (simp_all add: plain_digits_def with_point_def until_first)
  show "unsigned_value (with_point w f) = of_nat (text_value (w @ f)) * ten_to (- int (length f))"
    by (simp only: unsigned_value_def Let_def until_first(3,4) [OF e] m) (simp add: int_value_def)
  show "unsigned_value (with_point w f @ CHR ''e'' # t) = of_nat (text_value (w @ f)) * ten_to (int_value t - int (length f))"
    by (simp only: unsigned_value_def Let_def until_first(1,2) [OF e] m) simp
qed

lemma signed_exponent: "int_value ((if x < 0 then CHR ''-'' else CHR ''+'') # pad_num 2 \<bar>x\<bar>) = x"
  by (simp add: int_value_def pad_num_def to_string_def text_value_zeros text_value_digits)

lemma place_digits_value:
  assumes "length ds = 10" and "plain_digits ds"
  shows "unsigned_value (place_digits ds x) = of_nat (text_value ds) * ten_to (x - 9)"
proof -
  have p: "plain_digits (take n ds)" "plain_digits (strip_zeros (drop n ds))" "plain_digits (replicate k (CHR ''0'') @ strip_zeros ds)"
    "plain_digits ''0''" for n k
    using assms(2) strip_zeros_sub [of "drop n ds"] strip_zeros_sub [of ds] by (auto simp: plain_digits_def dest: in_set_takeD in_set_dropD)
  have tail: "of_nat (text_value ds) * ten_to (y - 9) =
      of_nat (text_value (take n ds @ strip_zeros (drop n ds))) * ten_to (y - (int n - 1) - int (length (strip_zeros (drop n ds))))"
    if "n \<le> 10" for n y
  proof -
    let ?f = "strip_zeros (drop n ds)"
    have l: "length ?f \<le> 10 - n" using strip_zeros_length [of "drop n ds"] assms(1) by simp
    have "text_value ds = text_value (take n ds @ ?f) * 10 ^ (10 - n - length ?f)"
      using text_value_stripped [of "take n ds" "drop n ds"] assms(1) by simp
    then have "of_nat (text_value ds) * ten_to (y - 9) =
        of_nat (text_value (take n ds @ ?f)) * (ten_to (int (10 - n - length ?f)) * ten_to (y - 9))"
      by (simp add: ten_to_nat mult.assoc)
    also have "ten_to (int (10 - n - length ?f)) * ten_to (y - 9) = ten_to (y - (int n - 1) - int (length ?f))"
      using l that by (simp add: algebra_simps flip: ten_to_add)
    finally show ?thesis .
  qed
  show ?thesis
  proof (cases "- 4 \<le> x \<and> x < 0")
    case True
    then have "place_digits ds x = with_point ''0'' (replicate (nat (- x - 1)) (CHR ''0'') @ strip_zeros ds)"
      by (simp add: place_digits_def)
    then have "unsigned_value (place_digits ds x) =
        of_nat (text_value (''0'' @ replicate (nat (- x - 1)) (CHR ''0'') @ strip_zeros ds)) *
        ten_to (- int (length (replicate (nat (- x - 1)) (CHR ''0'') @ strip_zeros ds)))"
      using unsigned_with_point(1) [OF p(4,3)] by simp
    also have "text_value (''0'' @ replicate (nat (- x - 1)) (CHR ''0'') @ strip_zeros ds) = text_value (strip_zeros ds)"
      using text_value_zeros [of "Suc (nat (- x - 1))" "strip_zeros ds"] by simp
    also have "- int (length (replicate (nat (- x - 1)) (CHR ''0'') @ strip_zeros ds)) = x - (int 0 - 1) - int (length (strip_zeros ds))"
      using True by simp
    finally show ?thesis using tail [of 0 x] by simp
  next
    case False
    show ?thesis
    proof (cases "0 \<le> x \<and> x < 10")
      case True
      then have "unsigned_value (place_digits ds x) = of_nat (text_value (take (nat x + 1) ds @ strip_zeros (drop (nat x + 1) ds)))
          * ten_to (- int (length (strip_zeros (drop (nat x + 1) ds))))"
        using unsigned_with_point(1) [OF p(1,2)] by (simp add: place_digits_def)
      moreover have "nat x + 1 \<le> 10" using True by arith
      ultimately show ?thesis using tail [of "nat x + 1" x] True by simp
    next
      case sci: False
      have "place_digits ds x = with_point (take 1 ds) (strip_zeros (drop 1 ds)) @ CHR ''e'' # ((if x < 0 then CHR ''-'' else CHR ''+'') # pad_num 2 \<bar>x\<bar>)"
        unfolding place_digits_def if_not_P [OF False] if_not_P [OF sci] ..
      then have "unsigned_value (place_digits ds x) =
          of_nat (text_value (take 1 ds @ strip_zeros (drop 1 ds))) * ten_to (x - int (length (strip_zeros (drop 1 ds))))"
        using unsigned_with_point(2) [OF p(1,2)] by (simp only: signed_exponent)
      then show ?thesis using tail [of 1 x] by simp
    qed
  qed
qed

lemma place_digits_head:
  assumes "length ds = 10" and "CHR ''-'' \<notin> set ds"
  shows "\<exists>c r. place_digits ds x = c # r \<and> c \<noteq> CHR ''-''"
proof -
  obtain d t where "ds = d # t" using assms(1) by (cases ds) auto
  then show ?thesis using assms(2) by (auto simp: place_digits_def with_point_def)
qed

lemma place_digits_length:
  assumes "length ds = 10" and "\<bar>x\<bar> < 1000"
  shows "length (place_digits ds x) \<le> 16"
proof -
  have s: "length (strip_zeros ds) \<le> 10" "length (strip_zeros (drop n ds)) \<le> 10 - n" for n
    using strip_zeros_length [of ds] strip_zeros_length [of "drop n ds"] assms(1) by simp_all
  have "length (nat_digits (nat \<bar>x\<bar>)) \<le> 3" using nat_digits_length [of "nat \<bar>x\<bar>" 2] assms(2) by (simp add: nat_less_iff)
  then have e: "length (pad_num 2 \<bar>x\<bar>) \<le> 3" by (simp add: pad_num_def to_string_def)
  have w: "length (with_point u f) \<le> length u + 1 + length f" for u f by (simp add: with_point_def)
  consider "- 4 \<le> x" "x < 0" | "0 \<le> x" "x < 10" | "\<not> (- 4 \<le> x \<and> x < 10)" by linarith
  then show ?thesis
  proof cases
    case 1
    then show ?thesis using w [of "''0''" "replicate (nat (- x - 1)) (CHR ''0'') @ strip_zeros ds"] s(1) by (simp add: place_digits_def)
  next
    case 2
    then have "nat x + 1 \<le> 10" by arith
    moreover have "length (place_digits ds x) \<le> nat x + 1 + 1 + length (strip_zeros (drop (nat x + 1) ds))"
      using w [of "take (nat x + 1) ds" "strip_zeros (drop (nat x + 1) ds)"] 2 assms(1) by (simp add: place_digits_def)
    ultimately show ?thesis using s(2) [of "nat x + 1"] by linarith
  next
    case 3
    have "length (place_digits ds x) = length (with_point (take 1 ds) (strip_zeros (drop 1 ds))) + 2 + length (pad_num 2 \<bar>x\<bar>)"
      using 3 by (auto simp: place_digits_def)
    moreover have "length (with_point (take 1 ds) (strip_zeros (drop 1 ds))) \<le> 1 + 1 + 9"
      using w [of "take 1 ds" "strip_zeros (drop 1 ds)"] s(2) [of 1] assms(1) by simp
    ultimately show ?thesis using e by linarith
  qed
qed

lemma ten_digit_text:
  assumes "10 ^ 9 \<le> m" and "m < 10 ^ 10"
  shows "length (nat_digits (nat m)) = 10" and "plain_digits (nat_digits (nat m))" and "CHR ''-'' \<notin> set (nat_digits (nat m))"
proof -
  have "10 ^ 9 \<le> nat m" "nat m < 10 ^ Suc 9" using assms by simp_all
  from nat_digits_fixed [OF this] show "length (nat_digits (nat m)) = 10" by simp
  show "plain_digits (nat_digits (nat m))" "CHR ''-'' \<notin> set (nat_digits (nat m))"
    using digit_chars by (auto simp: plain_digits_def)
qed

lemma double_text_value: "decimal_value (double_text v) = ten_digits v"
proof (cases "v = 0")
  case True
  then show ?thesis by (simp add: ten_digits_def) code_simp
next
  case False
  obtain m x where d: "decimal_digits v = (m, x)" by (cases "decimal_digits v")
  note r = decimal_digits_range [OF False d]
  note t = ten_digit_text [OF r(1,2)]
  let ?p = "place_digits (nat_digits (nat m)) x"
  have "unsigned_value ?p = of_int m * ten_to (x - 9)"
    using place_digits_value [OF t(1,2), of x] r(1) by (simp add: text_value_digits)
  moreover obtain c s where "?p = c # s" "c \<noteq> CHR ''-''" using place_digits_head [OF t(1,3)] by blast
  ultimately show ?thesis using False by (auto simp: double_text_def ten_digits_def d decimal_value_def sgn_if)
qed

lemma exponent_range:
  assumes "v \<noteq> 0" and "ten_to (- 400) \<le> \<bar>v\<bar>" and "\<bar>v\<bar> < ten_to 400"
  shows "\<bar>snd (decimal_digits v)\<bar> < 1000"
proof -
  have "ten_to (- 400) < ten_to (decimal_exponent v + 1)" "ten_to (decimal_exponent v) < ten_to 400"
    using decimal_exponent [OF assms(1)] assms(2,3) by linarith+
  then have "- 400 < decimal_exponent v + 1" "decimal_exponent v < 400" by (simp_all only: ten_to_less)
  then show ?thesis by (auto simp: decimal_digits_def Let_def abs_less_iff)
qed

lemma double_text_length: "v = 0 \<or> ten_to (- 400) \<le> \<bar>v\<bar> \<and> \<bar>v\<bar> < ten_to 400 \<Longrightarrow> length (double_text v) \<le> 17"
proof (cases "v = 0")
  case False
  assume "v = 0 \<or> ten_to (- 400) \<le> \<bar>v\<bar> \<and> \<bar>v\<bar> < ten_to 400"
  then have e: "\<bar>snd (decimal_digits v)\<bar> < 1000" using exponent_range False by blast
  obtain m x where d: "decimal_digits v = (m, x)" by (cases "decimal_digits v")
  note t = ten_digit_text [OF decimal_digits_range(1,2) [OF False d]]
  have "length (place_digits (nat_digits (nat m)) x) \<le> 16" using e by (intro place_digits_length t) (simp add: d)
  then show ?thesis using False by (simp add: double_text_def d)
qed (simp add: double_text_def)

text \<open>C27: what a number parameter says: an integer's text is read back as that integer; the text of a \<open>double\<close>
  (whose magnitude is between 1e-400 and 1e400, or zero) is never cut by the buffer of 40 bytes, and is read as
  the number rounded to ten significant digits: at most half a unit of the tenth digit away, and the number
  itself when ten digits are enough.\<close>

theorem parameter_texts:
  assumes "v = 0 \<or> ten_to (- 400) \<le> \<bar>v\<bar> \<and> \<bar>v\<bar> < ten_to 400"
  shows "map_option int_value (rp_text (SqlArg_int i)) = Some i \<and>
    map_option decimal_value (rp_text (SqlArg_double v)) = Some (ten_digits v) \<and>
    \<bar>ten_digits v - v\<bar> \<le> ten_to (decimal_exponent v - 9) / 2 \<and>
    (\<forall>m e. v = of_int m * ten_to e \<and> \<bar>m\<bar> < 10 ^ 10 \<longrightarrow> ten_digits v = v)"
proof -
  have "take 39 (double_text v) = double_text v" using double_text_length [OF assms] by simp
  then show ?thesis
    using ten_digits_error [of v] ten_digits_exact [of v]
    by (auto simp: SqlArg_int_def SqlArg_double_def SqlArg_string_def int_value_to_string double_text_value)
qed

text \<open>Eleven digits are stored as ten: a limit of 123456789.25 is sent as 123456789.2 (the tie goes to the even
  digit) although the column NUMERIC(12,3) could hold it.\<close>

theorem parameter_texts_witness:
  "rp_text (SqlArg_double (123456789 + 1 / 4)) = Some ''123456789.2'' \<and>
   ten_digits (123456789 + 1 / 4) = 123456789 + 1 / 5 \<and> ten_digits (- 45 / 2) = - 45 / 2 \<and>
   rp_text (SqlArg_double (- 45 / 2)) = Some ''-22.5''"
proof -
  have "- 45 / 2 = of_int (- 225) * ten_to (- 1)" by (simp add: ten_to_def)
  moreover have "(- 45 / 2 :: rat) = 0 \<or> ten_to (- 400) \<le> \<bar>- 45 / 2\<bar> \<and> \<bar>- 45 / 2\<bar> < ten_to 400" by (simp add: ten_to_def)
  ultimately have "ten_digits (- 45 / 2) = - 45 / 2"
    using parameter_texts [of "- 45 / 2", THEN conjunct2, THEN conjunct2, THEN conjunct2, THEN spec [of _ "- 225"], THEN spec [of _ "- 1"]]
    by simp
  moreover have "rp_text (SqlArg_double (123456789 + 1 / 4)) = Some ''123456789.2''" by code_simp
  moreover have "ten_digits (123456789 + 1 / 4) = 123456789 + 1 / 5" by code_simp
  moreover have "rp_text (SqlArg_double (- 45 / 2)) = Some ''-22.5''" by code_simp
  ultimately show ?thesis by blast
qed

end
