(* ===== verification/Iot_Devices.thy ===== *)
theory Iot_Devices
  imports Request_Data Outbox Sql_Args
begin

text \<open>
  Devices, sensors, readings, alerts, commands and collection tasks (\<open>services/IotService.cc\<close>). The
  conversions PostgreSQL makes from text, the answers of the database and of Redis, the identifiers
  and the clock (seconds) are in the environment. A \<open>double\<close> is an exact rational; a column stores the number
  of its ten-digit text (\<open>ten_digits\<close>), rounded to the column's places.
\<close>

section \<open>State and environment\<close>

record device =
  dv_id :: int
  dv_code :: string
  dv_name :: string
  dv_type :: "int option"
  dv_line :: "int option"
  dv_station :: "int option"
  dv_ip :: "string option"
  dv_port :: "int option"
  dv_protocol :: string
  dv_config :: "json option"
  dv_status :: int
  dv_beat :: "int option"
  dv_installed :: "string option"
  dv_deleted :: bool

record sensor =
  sn_id :: int
  sn_device :: int
  sn_code :: string
  sn_name :: string
  sn_dtype :: string
  sn_unit :: "string option"
  sn_register :: "string option"
  sn_scale :: rat
  sn_offset :: rat
  sn_min :: "rat option"
  sn_max :: "rat option"
  sn_low :: "rat option"
  sn_high :: "rat option"
  sn_lowlow :: "rat option"
  sn_highhigh :: "rat option"
  sn_interval :: int
  sn_key :: bool
  sn_status :: int
  sn_deleted :: bool

record raw_row =
  rw_device :: int
  rw_sensor :: int
  rw_num :: "rat option"
  rw_str :: "string option"
  rw_quality :: int
  rw_at :: int

record alert_row =
  al_id :: int
  al_device :: int
  al_sensor :: "int option"
  al_type :: string
  al_level :: int
  al_value :: "rat option"
  al_threshold :: "rat option"
  al_message :: "string option"
  al_status :: int
  al_by :: "int option"
  al_at :: "int option"
  al_resolved :: "int option"

record task =
  tk_id :: int
  tk_code :: string
  tk_name :: string
  tk_protocol :: string
  tk_schedule :: int
  tk_interval :: int
  tk_config :: json
  tk_enabled :: bool

record iot =
  it_devices :: "device list"
  it_sensors :: "sensor list"
  it_raw :: "raw_row list"
  it_alerts :: "alert_row list"
  it_tasks :: "task list"
  it_links :: "(int \<times> int) list"
  it_types :: "(int \<times> string) list"
  it_lines :: "int list"
  it_stations :: "int list"
  it_order_lines :: "(int \<times> int) list"
  it_outbox :: outbox

text \<open>Redis: None when it fails, Some None for nil.\<close>

record iot_env =
  im_db :: bool
  im_db2 :: bool
  im_id :: int
  im_now :: int
  im_inet :: "string \<Rightarrow> bool"
  im_date :: "string \<Rightarrow> bool"
  im_time :: "string \<Rightarrow> int option"
  im_redis :: "string option option"
  im_parse :: "string \<Rightarrow> json option"
  im_iso :: string

section \<open>Columns\<close>

text \<open>NUMERIC(p,s): rounded half away from zero to \<open>s\<close> places; None: too large.\<close>

definition numeric :: "nat \<Rightarrow> nat \<Rightarrow> rat \<Rightarrow> rat option" where
  "numeric p sc v =
    (let m = of_int \<lfloor>\<bar>v\<bar> * 10 ^ sc + 1 / 2\<rfloor> / (10 ^ sc :: rat) in
     if m < 10 ^ (p - sc) then Some (if v < 0 then - m else m) else None)"

text \<open>A \<open>double\<close> parameter in a NUMERIC column.\<close>

definition double_column :: "nat \<Rightarrow> nat \<Rightarrow> rat \<Rightarrow> rat option" where
  "double_column p sc v = numeric p sc (ten_digits v)"

definition double_column_opt :: "nat \<Rightarrow> nat \<Rightarrow> rat option \<Rightarrow> rat option option" where
  "double_column_opt p sc v = (case v of None \<Rightarrow> Some None | Some x \<Rightarrow> map_option Some (double_column p sc x))"

definition positive_or :: "int \<Rightarrow> int option \<Rightarrow> int option" where
  "positive_or i old = (if i > 0 then Some i else old)"

definition text_or :: "string \<Rightarrow> 'a \<Rightarrow> (string \<Rightarrow> 'a) \<Rightarrow> 'a" where
  "text_or t old f = (if t = [] then old else f t)"

definition text_opt :: "string \<Rightarrow> string option" where
  "text_opt t = (if t = [] then None else Some t)"

section \<open>Devices\<close>

record device_view =
  vw_row :: device
  vw_type :: string

definition view_device :: "iot \<Rightarrow> device \<Rightarrow> device_view" where
  "view_device s d = \<lparr>vw_row = d, vw_type = lookup_text (it_types s) (dv_type d)\<rparr>"

definition device_matches :: "string \<Rightarrow> int \<Rightarrow> int \<Rightarrow> device \<Rightarrow> bool" where
  "device_matches keyword status line d \<longleftrightarrow> \<not> dv_deleted d
    \<and> (keyword = [] \<or> contains_keyword keyword (dv_code d) \<or> contains_keyword keyword (dv_name d))
    \<and> (status < 0 \<or> dv_status d = status) \<and> (line \<le> 0 \<or> dv_line d = Some line)"

definition listDevices :: "iot_env \<Rightarrow> int \<Rightarrow> int \<Rightarrow> string \<Rightarrow> int \<Rightarrow> int \<Rightarrow> iot \<Rightarrow> device_view page_result reply" where
  "listDevices e page psize keyword status line s =
    list_page (im_db e) (im_db2 e) page psize
      (map (view_device s) (sort_key dv_id (filter (device_matches keyword status line) (it_devices s))))"

definition live_device :: "iot \<Rightarrow> int \<Rightarrow> device option" where
  "live_device s i = first_row (\<lambda>d. dv_id d = i \<and> \<not> dv_deleted d) (it_devices s)"

definition live_sensors :: "iot \<Rightarrow> int \<Rightarrow> sensor list" where
  "live_sensors s i = sort_key sn_id (filter (\<lambda>n. sn_device n = i \<and> \<not> sn_deleted n) (it_sensors s))"

definition getDevice :: "iot_env \<Rightarrow> int \<Rightarrow> iot \<Rightarrow> (device_view \<times> sensor list) option reply" where
  "getDevice e i s =
    (if im_db e then Answer (map_option (\<lambda>d. (view_device s d, live_sensors s i)) (live_device s i))
     else Refuse 500 ''database error'')"

definition device_refs_ok :: "iot \<Rightarrow> device \<Rightarrow> bool" where
  "device_refs_ok s d \<longleftrightarrow> known_in (map fst (it_types s)) (dv_type d) \<and> known_in (it_lines s) (dv_line d)
    \<and> known_in (it_stations s) (dv_station d)"

definition insert_device :: "iot_env \<Rightarrow> device \<Rightarrow> iot \<Rightarrow> json reply \<times> iot" where
  "insert_device e d s =
    (if \<not> im_db e \<or> \<not> (case dv_ip d of None \<Rightarrow> True | Some t \<Rightarrow> im_inet e t)
        \<or> \<not> (case dv_installed d of None \<Rightarrow> True | Some t \<Rightarrow> im_date e t) \<or> \<not> int16_ok (dv_status d)
        \<or> length (dv_code d) > 64 \<or> length (dv_name d) > 128 \<or> length (dv_protocol d) > 32
     then (Refuse 500 ''database error'', s)
     else if dv_code d \<in> dv_code ` set (it_devices s) then (Refuse 409 ''device code exists'', s)
     else if \<not> device_refs_ok s d \<or> dv_id d \<in> dv_id ` set (it_devices s) then (Refuse 500 ''database error'', s)
     else (Answer (JObj [(''id'', JInt (dv_id d))]), s\<lparr>it_devices := it_devices s @ [d]\<rparr>))"

definition createDevice :: "iot_env \<Rightarrow> json \<Rightarrow> iot \<Rightarrow> json reply \<times> iot" where
  "createDevice e body s =
    (case (field_value [] (jstr ''device_code'' body), field_value [] (jstr ''device_name'' body),
           field_value [] (jstr ''protocol'' body)) of
       (Inr code, Inr name, Inr protocol) \<Rightarrow>
         if code = [] \<or> name = [] \<or> protocol = [] then (Refuse 400 ''device_code, device_name, protocol required'', s)
         else
           (case (field_value [] (jstr ''ip_address'' body), field_value [] (jstr ''installed_at'' body),
                  field_value 0 (jlong ''type_id'' body), field_value 0 (jlong ''line_id'' body),
                  field_value 0 (jlong ''workstation_id'' body), field_value 0 (jint32 ''port'' body),
                  field_value 0 (jint32 ''status'' body)) of
              (Inr ip, Inr installed, Inr ty, Inr line, Inr station, Inr port, Inr status) \<Rightarrow>
                insert_device e
                  \<lparr>dv_id = im_id e, dv_code = code, dv_name = name, dv_type = positive_or ty None,
                   dv_line = positive_or line None, dv_station = positive_or station None, dv_ip = text_opt ip,
                   dv_port = Some port, dv_protocol = protocol,
                   dv_config = Some (or_else (member ''connection_config'' body) (JObj [])), dv_status = status,
                   dv_beat = None, dv_installed = text_opt installed, dv_deleted = False\<rparr> s
            | _ \<Rightarrow> (Thrown, s))
     | _ \<Rightarrow> (Thrown, s))"

definition changed_device :: "string \<Rightarrow> int \<Rightarrow> int \<Rightarrow> string \<Rightarrow> int \<Rightarrow> int \<Rightarrow> json \<Rightarrow> device \<Rightarrow> device" where
  "changed_device name ty line ip port status cfg d =
    d\<lparr>dv_name := text_or name (dv_name d) id, dv_type := positive_or ty (dv_type d),
      dv_line := positive_or line (dv_line d), dv_ip := text_or ip (dv_ip d) Some,
      dv_port := positive_or port (dv_port d), dv_status := (if status \<ge> 0 then status else dv_status d),
      dv_config := (if cfg = JObj [] then dv_config d else Some cfg)\<rparr>"

definition updateDevice :: "iot_env \<Rightarrow> int \<Rightarrow> json \<Rightarrow> iot \<Rightarrow> json reply \<times> iot" where
  "updateDevice e i body s =
    (case (field_value [] (jstr ''device_name'' body), field_value 0 (jlong ''type_id'' body),
           field_value 0 (jlong ''line_id'' body), field_value [] (jstr ''ip_address'' body),
           field_value 0 (jint32 ''port'' body), field_value (-1) (jint32 ''status'' body)) of
       (Inr name, Inr ty, Inr line, Inr ip, Inr port, Inr status) \<Rightarrow>
         (let cfg = or_else (member ''connection_config'' body) (JObj []) in
          if \<not> im_db e then (Refuse 500 ''database error'', s)
          else
            case live_device s i of
              None \<Rightarrow> (Answer JNull, s)
            | Some d \<Rightarrow>
                if length name > 128 \<or> \<not> (ip = [] \<or> im_inet e ip) \<or> (status \<ge> 0 \<and> \<not> int16_ok status)
                   \<or> \<not> device_refs_ok s (changed_device name ty line ip port status cfg d)
                then (Refuse 500 ''database error'', s)
                else (Answer (JObj [(''id'', JInt i)]),
                      s\<lparr>it_devices := upd_where (\<lambda>d. dv_id d = i \<and> \<not> dv_deleted d)
                         (changed_device name ty line ip port status cfg) (it_devices s)\<rparr>))
     | _ \<Rightarrow> (Thrown, s))"

definition deleteDevice :: "iot_env \<Rightarrow> int \<Rightarrow> iot \<Rightarrow> json reply \<times> iot" where
  "deleteDevice e i s =
    (if \<not> im_db e then (Refuse 500 ''database error'', s)
     else if live_device s i = None then (Answer JNull, s)
     else (Answer (JObj [(''id'', JInt i)]),
           s\<lparr>it_devices := upd_where (\<lambda>d. dv_id d = i \<and> \<not> dv_deleted d) (\<lambda>d. d\<lparr>dv_deleted := True\<rparr>) (it_devices s)\<rparr>))"

text \<open>Without Redis the code of the device is left out.\<close>

record device_state =
  vs_status :: int
  vs_online :: bool
  vs_beat :: "int option"
  vs_code :: "string option"
  vs_latest :: json

definition deviceStatus :: "iot_env \<Rightarrow> int \<Rightarrow> iot \<Rightarrow> device_state option reply" where
  "deviceStatus e i s =
    (if \<not> im_db e then Refuse 500 ''database error''
     else
       case live_device s i of
         None \<Rightarrow> Answer None
       | Some d \<Rightarrow>
           let v = \<lparr>vs_status = dv_status d, vs_online = (dv_status d = 1), vs_beat = dv_beat d, vs_code = None, vs_latest = JNull\<rparr> in
           (case im_redis e of
              None \<Rightarrow> Answer (Some v)
            | Some None \<Rightarrow> Answer (Some (v\<lparr>vs_code := Some (dv_code d)\<rparr>))
            | Some (Some t) \<Rightarrow>
                Answer (Some (v\<lparr>vs_code := Some (dv_code d), vs_latest := or_else (im_parse e t) JNull\<rparr>))))"

section \<open>Sensors\<close>

definition listSensors :: "iot_env \<Rightarrow> int \<Rightarrow> iot \<Rightarrow> sensor list reply" where
  "listSensors e i s = (if im_db e then Answer (live_sensors s i) else Refuse 500 ''database error'')"

text \<open>An optional number of the body; Inl is the exception.\<close>

definition given_num :: "string \<Rightarrow> json \<Rightarrow> rat option result" where
  "given_num k body = (case member k body of None \<Rightarrow> Inr None | Some _ \<Rightarrow> map_sum id Some (field_value 0 (jreal k body)))"

fun given_nums :: "string list \<Rightarrow> json \<Rightarrow> rat option list result" where
  "given_nums [] body = Inr []"
| "given_nums (k # ks) body =
     (case given_num k body of
        Inl f \<Rightarrow> Inl f
      | Inr v \<Rightarrow> (case given_nums ks body of Inl f \<Rightarrow> Inl f | Inr vs \<Rightarrow> Inr (v # vs)))"

definition limit_keys :: "string list" where
  "limit_keys = [''min_value'', ''max_value'', ''alarm_low'', ''alarm_high'', ''alarm_low_low'', ''alarm_high_high'']"

definition bool_item :: "json \<Rightarrow> bool option" where
  "bool_item j = (case j of JBool b \<Rightarrow> Some b | _ \<Rightarrow> None)"

definition insert_sensor :: "iot_env \<Rightarrow> sensor \<Rightarrow> iot \<Rightarrow> json reply \<times> iot" where
  "insert_sensor e n s =
    (case (double_column 10 4 (sn_scale n), double_column 10 4 (sn_offset n),
           all_items (double_column_opt 12 3) [sn_min n, sn_max n, sn_low n, sn_high n, sn_lowlow n, sn_highhigh n]) of
       (Some scl, Some off, Some [mn, mx, lo, hi, ll, hh]) \<Rightarrow>
         if \<not> im_db e \<or> length (sn_code n) > 64 \<or> length (sn_name n) > 128 \<or> length (sn_dtype n) > 16
            \<or> length (or_else (sn_unit n) []) > 32 \<or> length (or_else (sn_register n) []) > 64
         then (Refuse 500 ''database error'', s)
         else if (sn_device n, sn_code n) \<in> (\<lambda>q. (sn_device q, sn_code q)) ` set (it_sensors s)
         then (Refuse 409 ''sensor code exists'', s)
         else if sn_device n \<notin> dv_id ` set (it_devices s) \<or> sn_id n \<in> sn_id ` set (it_sensors s)
         then (Refuse 500 ''database error'', s)
         else (Answer (JObj [(''id'', JInt (sn_id n))]),
               s\<lparr>it_sensors := it_sensors s @ [n\<lparr>sn_scale := scl, sn_offset := off, sn_min := mn, sn_max := mx, sn_low := lo,
                  sn_high := hi, sn_lowlow := ll, sn_highhigh := hh\<rparr>]\<rparr>)
     | _ \<Rightarrow> (Refuse 500 ''database error'', s))"

definition addSensor :: "iot_env \<Rightarrow> int \<Rightarrow> json \<Rightarrow> iot \<Rightarrow> json reply \<times> iot" where
  "addSensor e i body s =
    (case (field_value [] (jstr ''sensor_code'' body), field_value [] (jstr ''sensor_name'' body),
           field_value [] (jstr ''data_type'' body)) of
       (Inr code, Inr name, Inr dtype) \<Rightarrow>
         if code = [] \<or> name = [] \<or> dtype = [] then (Refuse 400 ''sensor_code, sensor_name, data_type required'', s)
         else
           (case (field_value [] (jstr ''unit'' body), field_value [] (jstr ''register_addr'' body),
                  field_value 1 (jreal ''scale_factor'' body), field_value 0 (jreal ''addr_offset'' body),
                  given_nums limit_keys body, field_value 1000 (jint32 ''sample_interval'' body),
                  field_value False (field_of bool_item ''is_key_metric'' body)) of
              (Inr un, Inr reg, Inr scl, Inr off, Inr [mn, mx, lo, hi, ll, hh], Inr iv, Inr key) \<Rightarrow>
                insert_sensor e
                  \<lparr>sn_id = im_id e, sn_device = i, sn_code = code, sn_name = name, sn_dtype = dtype, sn_unit = Some un,
                   sn_register = Some reg, sn_scale = scl, sn_offset = off, sn_min = mn, sn_max = mx, sn_low = lo,
                   sn_high = hi, sn_lowlow = ll, sn_highhigh = hh, sn_interval = iv, sn_key = key, sn_status = 1,
                   sn_deleted = False\<rparr> s
            | _ \<Rightarrow> (Thrown, s))
     | _ \<Rightarrow> (Thrown, s))"

definition num_or :: "rat option \<Rightarrow> rat option \<Rightarrow> rat option" where
  "num_or new old = (case new of None \<Rightarrow> old | Some v \<Rightarrow> Some v)"

record sensor_change =
  sg_name :: string
  sg_unit :: string
  sg_register :: string
  sg_scale :: rat
  sg_offset :: "rat option"
  sg_limits :: "rat option list"
  sg_interval :: int
  sg_key :: "bool option"
  sg_status :: int

definition read_change :: "json \<Rightarrow> sensor_change option" where
  "read_change body =
    (case (field_value [] (jstr ''sensor_name'' body), field_value [] (jstr ''unit'' body),
           field_value [] (jstr ''register_addr'' body), field_value 0 (jreal ''scale_factor'' body),
           given_nums (''addr_offset'' # limit_keys) body, field_value 0 (jint32 ''sample_interval'' body),
           (case member ''is_key_metric'' body of None \<Rightarrow> Inr None | Some v \<Rightarrow> (case bool_item v of Some b \<Rightarrow> Inr (Some b) | None \<Rightarrow> Inl ())),
           field_value (-1) (jint32 ''status'' body)) of
       (Inr name, Inr un, Inr reg, Inr scl, Inr (off # lims), Inr iv, Inr key, Inr status) \<Rightarrow>
         Some \<lparr>sg_name = name, sg_unit = un, sg_register = reg, sg_scale = scl, sg_offset = off, sg_limits = lims,
               sg_interval = iv, sg_key = key, sg_status = status\<rparr>
     | _ \<Rightarrow> None)"

definition changed_sensor :: "sensor_change \<Rightarrow> sensor \<Rightarrow> sensor option" where
  "changed_sensor c n =
    (case (numeric 10 4 (if sg_scale c = 0 then sn_scale n else ten_digits (sg_scale c)),
           numeric 10 4 (or_else (map_option ten_digits (sg_offset c)) (sn_offset n)),
           all_items (double_column_opt 12 3) (sg_limits c)) of
       (Some scl, Some off, Some [mn, mx, lo, hi, ll, hh]) \<Rightarrow>
         Some (n\<lparr>sn_name := text_or (sg_name c) (sn_name n) id, sn_unit := text_or (sg_unit c) (sn_unit n) Some,
                 sn_register := text_or (sg_register c) (sn_register n) Some, sn_scale := scl, sn_offset := off,
                 sn_min := num_or mn (sn_min n), sn_max := num_or mx (sn_max n), sn_low := num_or lo (sn_low n),
                 sn_high := num_or hi (sn_high n), sn_lowlow := num_or ll (sn_lowlow n),
                 sn_highhigh := num_or hh (sn_highhigh n),
                 sn_interval := (if sg_interval c > 0 then sg_interval c else sn_interval n),
                 sn_key := or_else (sg_key c) (sn_key n),
                 sn_status := (if sg_status c \<ge> 0 then sg_status c else sn_status n)\<rparr>)
     | _ \<Rightarrow> None)"

definition live_sensor :: "iot \<Rightarrow> int \<Rightarrow> sensor option" where
  "live_sensor s i = first_row (\<lambda>n. sn_id n = i \<and> \<not> sn_deleted n) (it_sensors s)"

definition updateSensor :: "iot_env \<Rightarrow> int \<Rightarrow> json \<Rightarrow> iot \<Rightarrow> json reply \<times> iot" where
  "updateSensor e i body s =
    (case read_change body of
       None \<Rightarrow> (Thrown, s)
     | Some c \<Rightarrow>
         if \<not> im_db e then (Refuse 500 ''database error'', s)
         else
           case live_sensor s i of
             None \<Rightarrow> (Answer JNull, s)
           | Some n \<Rightarrow>
               (case changed_sensor c n of
                  None \<Rightarrow> (Refuse 500 ''database error'', s)
                | Some m \<Rightarrow>
                    if length (sn_name m) > 128 \<or> length (or_else (sn_unit m) []) > 32
                       \<or> length (or_else (sn_register m) []) > 64 \<or> \<not> int16_ok (sn_status m)
                    then (Refuse 500 ''database error'', s)
                    else (Answer (JObj [(''id'', JInt i)]),
                          s\<lparr>it_sensors := upd_where (\<lambda>n. sn_id n = i \<and> \<not> sn_deleted n) (\<lambda>_. m) (it_sensors s)\<rparr>)))"

definition recent_data :: "iot_env \<Rightarrow> int \<Rightarrow> iot \<Rightarrow> bool" where
  "recent_data e i s \<longleftrightarrow> (\<exists>r\<in>set (it_raw s). rw_sensor r = i \<and> im_now e - 86400 < rw_at r)"

definition deleteSensor :: "iot_env \<Rightarrow> int \<Rightarrow> iot \<Rightarrow> json reply \<times> iot" where
  "deleteSensor e i s =
    (if \<not> im_db e then (Refuse 500 ''database error'', s)
     else
       case live_sensor s i of
         None \<Rightarrow> (Answer JNull, s)
       | Some n \<Rightarrow>
           if sn_key n then (Refuse 409 ''key metric'', s)
           else if recent_data e i s then (Refuse 409 ''recent data'', s)
           else if \<not> im_db2 e then (Refuse 500 ''database error'', s)
           else (Answer (JObj [(''id'', JInt i)]),
                 s\<lparr>it_sensors := upd_where (\<lambda>n. sn_id n = i) (\<lambda>n. n\<lparr>sn_deleted := True, sn_status := 0\<rparr>) (it_sensors s)\<rparr>))"

end
