(* ===== verification/Iot_Operations.thy ===== *)
theory Iot_Operations
  imports Iot_Devices
begin

text \<open>
  Readings and their history, alerts, commands and collection tasks (\<open>services/IotService.cc\<close>), and what
  the message side does to the same tables: the heartbeat of a stored batch, the scan for silent devices
  (\<open>mq/DeviceMonitor.cc\<close>), the alert consumer (\<open>mq/AlertHandler.cc\<close>) and the relay of a stop of
  collection to the devices of a line (\<open>mq/StopCollectionHandler.cc\<close>).
\<close>

section \<open>Readings\<close>

definition intervalToSeconds :: "string \<Rightarrow> int option" where
  "intervalToSeconds interval =
    map_of [(''1m'', 60), (''5m'', 300), (''15m'', 900), (''30m'', 1800), (''1h'', 3600), (''6h'', 21600), (''1d'', 86400)] interval"

text \<open>\<open>DISTINCT ON (sensor_id) .. ORDER BY sensor_id, collected_at DESC\<close>: the newest row of every sensor.\<close>

definition newest :: "raw_row list \<Rightarrow> raw_row list" where
  "newest rows = map (\<lambda>g. last (sort_key rw_at (snd g))) (sort_key fst (groups rw_sensor rows))"

definition realtimeData :: "iot_env \<Rightarrow> int \<Rightarrow> iot \<Rightarrow> raw_row list reply" where
  "realtimeData e i s =
    (if im_db e then
       Answer (newest (filter (\<lambda>r. rw_device r = i \<and> im_now e - 86400 < rw_at r
         \<and> (\<exists>n\<in>set (it_sensors s). sn_id n = rw_sensor r \<and> \<not> sn_deleted n)) (it_raw s)))
     else Refuse 500 ''database error'')"

definition rat_avg :: "rat list \<Rightarrow> rat" where
  "rat_avg xs = sum_list xs / of_nat (length xs)"

definition agg_value :: "string \<Rightarrow> rat list \<Rightarrow> rat" where
  "agg_value agg xs =
    (if agg = ''min'' then Min (set xs) else if agg = ''max'' then Max (set xs) else rat_avg xs)"

definition bucketed :: "int \<Rightarrow> string \<Rightarrow> (int \<times> rat) list \<Rightarrow> (int \<times> rat) list" where
  "bucketed step agg rows =
    map (\<lambda>g. (fst g, agg_value agg (map snd (snd g)))) (sort_key fst (groups (\<lambda>r. fst r div step * step) rows))"

record history_stats =
  hs_min :: rat
  hs_max :: rat
  hs_avg :: rat
  hs_count :: int

text \<open>The loop over the points.\<close>

fun stats_loop :: "rat list \<Rightarrow> rat \<Rightarrow> rat \<Rightarrow> rat \<Rightarrow> int \<Rightarrow> rat \<times> rat \<times> rat \<times> int" where
  "stats_loop [] mn mx acc cnt = (mn, mx, acc, cnt)"
| "stats_loop (v # vs) mn mx acc cnt =
     stats_loop vs (if cnt = 0 \<or> v < mn then v else mn) (if cnt = 0 \<or> v > mx then v else mx) (acc + v) (cnt + 1)"

definition stats_of :: "rat list \<Rightarrow> history_stats option" where
  "stats_of vs =
    (case stats_loop vs 0 0 0 0 of
       (mn, mx, acc, cnt) \<Rightarrow>
         if cnt > 0 then Some \<lparr>hs_min = mn, hs_max = mx, hs_avg = acc / of_int cnt, hs_count = cnt\<rparr> else None)"

record history =
  hi_sensor :: int
  hi_name :: string
  hi_unit :: string
  hi_points :: "(int \<times> rat) list"
  hi_stats :: "history_stats option"

definition readings_between :: "iot_env \<Rightarrow> int \<Rightarrow> int \<Rightarrow> int \<Rightarrow> iot \<Rightarrow> (int \<times> rat) list" where
  "readings_between e i a b s =
    [(rw_at r, v). r \<leftarrow> it_raw s, rw_sensor r = i \<and> a \<le> rw_at r \<and> rw_at r < b, v \<leftarrow> (case rw_num r of None \<Rightarrow> [] | Some x \<Rightarrow> [x])]"

definition sensorHistory :: "iot_env \<Rightarrow> int \<Rightarrow> string \<Rightarrow> string \<Rightarrow> string \<Rightarrow> string \<Rightarrow> iot \<Rightarrow> history option reply" where
  "sensorHistory e i startTime endTime interval agg s =
    (case intervalToSeconds interval of
       None \<Rightarrow> Refuse 400 ''interval''
     | Some step \<Rightarrow>
         if \<not> im_db e then Refuse 500 ''database error''
         else
           case live_sensor s i of
             None \<Rightarrow> Answer None
           | Some n \<Rightarrow>
               (case (if startTime = [] then Some (im_now e - 3600) else im_time e startTime,
                      if endTime = [] then Some (im_now e) else im_time e endTime) of
                  (Some a, Some b) \<Rightarrow>
                    if \<not> im_db2 e then Refuse 500 ''database error''
                    else
                      let points = bucketed step agg (readings_between e i a b s) in
                      Answer (Some \<lparr>hi_sensor = i, hi_name = sn_name n, hi_unit = or_else (sn_unit n) [], hi_points = points,
                        hi_stats = stats_of (map snd points)\<rparr>)
                | _ \<Rightarrow> Refuse 500 ''invalid timestamp''))"

section \<open>Alerts\<close>

definition alert_matches :: "int \<Rightarrow> int \<Rightarrow> int \<Rightarrow> alert_row \<Rightarrow> bool" where
  "alert_matches status level i a \<longleftrightarrow>
    (status < 0 \<or> al_status a = status) \<and> (level \<le> 0 \<or> al_level a = level) \<and> (i \<le> 0 \<or> al_device a = i)"

definition listAlerts :: "iot_env \<Rightarrow> int \<Rightarrow> int \<Rightarrow> int \<Rightarrow> int \<Rightarrow> int \<Rightarrow> iot \<Rightarrow> (alert_row \<times> string) page_result reply" where
  "listAlerts e page psize status level i s =
    list_page (im_db e) (im_db2 e) page psize
      (map (\<lambda>a. (a, lookup_text (map (\<lambda>d. (dv_id d, dv_name d)) (it_devices s)) (Some (al_device a))))
        (rev (sort_key al_id (filter (alert_matches status level i) (it_alerts s)))))"

text \<open>The common shape of the three transitions of an alert.\<close>

definition move_alert :: "iot_env \<Rightarrow> int \<Rightarrow> (int \<Rightarrow> bool) \<Rightarrow> (alert_row \<Rightarrow> alert_row) \<Rightarrow> int \<Rightarrow> iot \<Rightarrow> json reply \<times> iot" where
  "move_alert e i from f target s =
    (if \<not> im_db e then (Refuse 500 ''database error'', s)
     else if \<not> (\<exists>a\<in>set (it_alerts s). al_id a = i \<and> from (al_status a)) then (Answer JNull, s)
     else (Answer (JObj [(''id'', JInt i), (''status'', JInt target)]),
           s\<lparr>it_alerts := upd_where (\<lambda>a. al_id a = i \<and> from (al_status a)) f (it_alerts s)\<rparr>))"

definition acknowledged :: "int \<Rightarrow> int \<Rightarrow> alert_row \<Rightarrow> alert_row" where
  "acknowledged userId now a = a\<lparr>al_status := 1, al_by := Some userId, al_at := Some now\<rparr>"

definition acknowledgeAlert :: "iot_env \<Rightarrow> int \<Rightarrow> int \<Rightarrow> iot \<Rightarrow> json reply \<times> iot" where
  "acknowledgeAlert e i userId = move_alert e i (\<lambda>st. st = 0) (acknowledged userId (im_now e)) 1"

definition first_by :: "int \<Rightarrow> int \<Rightarrow> alert_row \<Rightarrow> alert_row" where
  "first_by userId now a = a\<lparr>al_by := Some (or_else (al_by a) userId), al_at := Some (or_else (al_at a) now)\<rparr>"

definition resolveAlert :: "iot_env \<Rightarrow> int \<Rightarrow> int \<Rightarrow> iot \<Rightarrow> json reply \<times> iot" where
  "resolveAlert e i userId =
    move_alert e i (\<lambda>st. st = 1) (\<lambda>a. (first_by userId (im_now e) a)\<lparr>al_status := 2, al_resolved := Some (im_now e)\<rparr>) 2"

definition dismissAlert :: "iot_env \<Rightarrow> int \<Rightarrow> int \<Rightarrow> iot \<Rightarrow> json reply \<times> iot" where
  "dismissAlert e i userId =
    move_alert e i (\<lambda>st. st = 0 \<or> st = 1) (\<lambda>a. (first_by userId (im_now e) a)\<lparr>al_status := 3\<rparr>) 3"

section \<open>Commands\<close>

definition command_message :: "iot_env \<Rightarrow> device \<Rightarrow> string \<Rightarrow> json \<Rightarrow> outbox_msg" where
  "command_message e d command params =
    \<lparr>m_exchange = ''iot.exchange'', m_key = ''cmd.dev.'' @ to_string (dv_id d),
     m_payload = JObj [(''version'', JStr ''1.0''), (''type'', JStr ''device_command''), (''device_id'', JInt (dv_id d)),
       (''device_code'', JStr (dv_code d)), (''command'', JStr command), (''params'', params), (''timestamp'', JStr (im_iso e))]\<rparr>"

definition post :: "iot_env \<Rightarrow> outbox_msg \<Rightarrow> iot \<Rightarrow> iot" where
  "post e m s = s\<lparr>it_outbox := kEnqueueSql (im_now e) m (it_outbox s)\<rparr>"

definition sendCommand :: "iot_env \<Rightarrow> int \<Rightarrow> json \<Rightarrow> iot \<Rightarrow> json reply \<times> iot" where
  "sendCommand e i body s =
    (case field_value [] (jstr ''command'' body) of
       Inl _ \<Rightarrow> (Thrown, s)
     | Inr command \<Rightarrow>
         if command = [] then (Refuse 400 ''command required'', s)
         else if \<not> im_db e then (Refuse 500 ''database error'', s)
         else
           case live_device s i of
             None \<Rightarrow> (Answer JNull, s)
           | Some d \<Rightarrow>
               if im_db2 e
               then (Answer (JObj [(''device_id'', JInt i), (''queued'', JBool True)]),
                     post e (command_message e d command (or_else (member ''params'' body) (JObj []))) s)
               else (Refuse 500 ''database error'', s))"

section \<open>Collection tasks\<close>

definition listTasks :: "iot_env \<Rightarrow> int \<Rightarrow> int \<Rightarrow> iot \<Rightarrow> (task \<times> int list) page_result reply" where
  "listTasks e page psize s =
    list_page (im_db e) (im_db2 e) page psize
      (map (\<lambda>t. (t, map snd (filter (\<lambda>l. fst l = tk_id t) (it_links s)))) (rev (sort_key tk_id (it_tasks s))))"

text \<open>
  The links are statements of their own; the continuation waits for all of them to succeed, and the
  one for errors only writes a log.
\<close>

definition link_device :: "iot_env \<Rightarrow> int \<Rightarrow> int \<Rightarrow> iot \<Rightarrow> bool \<times> iot" where
  "link_device e tid i s =
    (if \<not> im_db2 e then (False, s)
     else if (tid, i) \<in> set (it_links s) then (True, s)
     else if tid \<in> tk_id ` set (it_tasks s) \<and> i \<in> dv_id ` set (it_devices s)
     then (True, s\<lparr>it_links := it_links s @ [(tid, i)]\<rparr>)
     else (False, s))"

fun link_devices :: "iot_env \<Rightarrow> int \<Rightarrow> int list \<Rightarrow> int \<Rightarrow> iot \<Rightarrow> int \<times> iot" where
  "link_devices e tid [] remaining s = (remaining, s)"
| "link_devices e tid (i # ids) remaining s =
     (case link_device e tid i s of (good, t) \<Rightarrow> link_devices e tid ids (if good then remaining - 1 else remaining) t)"

definition device_list :: "json \<Rightarrow> json list" where
  "device_list body = (case member ''device_ids'' body of Some (JArr xs) \<Rightarrow> xs | _ \<Rightarrow> [])"

definition insert_task :: "iot_env \<Rightarrow> task \<Rightarrow> int list \<Rightarrow> iot \<Rightarrow> json reply \<times> iot" where
  "insert_task e t ids s =
    (if \<not> im_db e \<or> length (tk_code t) > 64 \<or> length (tk_name t) > 128 \<or> length (tk_protocol t) > 32
        \<or> \<not> int16_ok (tk_schedule t) then (Refuse 500 ''database error'', s)
     else if tk_code t \<in> tk_code ` set (it_tasks s) then (Refuse 409 ''task code exists'', s)
     else if tk_id t \<in> tk_id ` set (it_tasks s) then (Refuse 500 ''database error'', s)
     else
       let s1 = s\<lparr>it_tasks := it_tasks s @ [t]\<rparr>; ok = Answer (JObj [(''id'', JInt (tk_id t))]) in
       if ids = [] then (ok, s1)
       else
         case link_devices e (tk_id t) ids (int (length ids)) s1 of
           (remaining, s2) \<Rightarrow> (if remaining = 0 then ok else Silent, s2))"

definition createTask :: "iot_env \<Rightarrow> json \<Rightarrow> iot \<Rightarrow> json reply \<times> iot" where
  "createTask e body s =
    (case (field_value [] (jstr ''task_code'' body), field_value [] (jstr ''task_name'' body),
           field_value [] (jstr ''protocol'' body)) of
       (Inr code, Inr name, Inr protocol) \<Rightarrow>
         if code = [] \<or> name = [] \<or> protocol = [] then (Refuse 400 ''task_code, task_name, protocol required'', s)
         else
           (case (all_items int_item (device_list body), field_value 1 (jint32 ''schedule_type'' body),
                  field_value 1000 (jint32 ''interval_ms'' body), field_value True (field_of bool_item ''enabled'' body)) of
              (Some ids, Inr sched, Inr iv, Inr enabled) \<Rightarrow>
                insert_task e
                  \<lparr>tk_id = im_id e, tk_code = code, tk_name = name, tk_protocol = protocol, tk_schedule = sched,
                   tk_interval = iv, tk_config = or_else (member ''config'' body) (JObj []), tk_enabled = enabled\<rparr> ids s
            | _ \<Rightarrow> (Thrown, s))
     | _ \<Rightarrow> (Thrown, s))"

text \<open>A statement on one task; an unknown task is the null answer.\<close>

definition on_task :: "iot_env \<Rightarrow> int \<Rightarrow> json \<Rightarrow> (iot \<Rightarrow> iot) \<Rightarrow> iot \<Rightarrow> json reply \<times> iot" where
  "on_task e i answer f s =
    (if \<not> im_db e then (Refuse 500 ''database error'', s)
     else if i \<notin> tk_id ` set (it_tasks s) then (Answer JNull, s)
     else (Answer answer, f s))"

definition changed_task :: "string \<Rightarrow> int \<Rightarrow> int \<Rightarrow> json \<Rightarrow> task \<Rightarrow> task" where
  "changed_task name sched iv cfg t =
    t\<lparr>tk_name := text_or name (tk_name t) id, tk_schedule := (if sched > 0 then sched else tk_schedule t),
      tk_interval := (if iv > 0 then iv else tk_interval t), tk_config := (if cfg = JObj [] then tk_config t else cfg)\<rparr>"

definition updateTask :: "iot_env \<Rightarrow> int \<Rightarrow> json \<Rightarrow> iot \<Rightarrow> json reply \<times> iot" where
  "updateTask e i body s =
    (case (field_value [] (jstr ''task_name'' body), field_value 0 (jint32 ''schedule_type'' body),
           field_value 0 (jint32 ''interval_ms'' body)) of
       (Inr name, Inr sched, Inr iv) \<Rightarrow>
         (let cfg = or_else (member ''config'' body) (JObj []) in
          if i \<in> tk_id ` set (it_tasks s) \<and> (length name > 128 \<or> sched > 32767) then (Refuse 500 ''database error'', s)
          else on_task e i (JObj [(''id'', JInt i)])
                 (\<lambda>s. s\<lparr>it_tasks := upd_where (\<lambda>t. tk_id t = i) (changed_task name sched iv cfg) (it_tasks s)\<rparr>) s)
     | _ \<Rightarrow> (Thrown, s))"

definition deleteTask :: "iot_env \<Rightarrow> int \<Rightarrow> iot \<Rightarrow> json reply \<times> iot" where
  "deleteTask e i = on_task e i (JObj [(''id'', JInt i)])
    (\<lambda>s. s\<lparr>it_tasks := filter (\<lambda>t. tk_id t \<noteq> i) (it_tasks s), it_links := filter (\<lambda>l. fst l \<noteq> i) (it_links s)\<rparr>)"

definition toggleTask :: "iot_env \<Rightarrow> int \<Rightarrow> bool \<Rightarrow> iot \<Rightarrow> json reply \<times> iot" where
  "toggleTask e i enabled = on_task e i (JObj [(''id'', JInt i), (''enabled'', JBool enabled)])
    (\<lambda>s. s\<lparr>it_tasks := upd_where (\<lambda>t. tk_id t = i) (\<lambda>t. t\<lparr>tk_enabled := enabled\<rparr>) (it_tasks s)\<rparr>)"

section \<open>Heartbeats and silent devices\<close>

text \<open>The statement behind a stored batch of readings.\<close>

definition heartbeat :: "int \<Rightarrow> int list \<Rightarrow> iot \<Rightarrow> iot" where
  "heartbeat now ids s =
    s\<lparr>it_devices := upd_where (\<lambda>d. dv_id d \<in> set ids \<and> \<not> dv_deleted d) (\<lambda>d. d\<lparr>dv_beat := Some now, dv_status := 1\<rparr>) (it_devices s)\<rparr>"

definition kOfflineSec :: int where "kOfflineSec = 60"

text \<open>A device without any heartbeat compares to NULL and is never selected.\<close>

definition silent :: "int \<Rightarrow> device \<Rightarrow> bool" where
  "silent now d \<longleftrightarrow> dv_status d = 1 \<and> \<not> dv_deleted d \<and> (case dv_beat d of None \<Rightarrow> False | Some t \<Rightarrow> t < now - kOfflineSec)"

definition scan :: "int \<Rightarrow> iot \<Rightarrow> (int \<times> string) list" where
  "scan now s = map (\<lambda>d. (dv_id d, dv_code d)) (filter (silent now) (it_devices s))"

definition offline_message :: "int \<Rightarrow> int \<Rightarrow> string \<Rightarrow> outbox_msg" where
  "offline_message ts i code =
    \<lparr>m_exchange = ''iot.exchange'', m_key = ''alert.'' @ to_string i,
     m_payload = JObj [(''version'', JStr ''1.0''), (''device_id'', JInt i), (''device_code'', JStr code), (''sensor_id'', JInt 0),
       (''alert_type'', JStr ''OFFLINE''), (''alert_level'', JInt 2), (''alert_value'', JInt 0), (''threshold'', JInt 0),
       (''message'', JStr (''device '' @ code @ '' heartbeat timeout > '' @ to_string kOfflineSec @ ''s'')), (''ts'', JInt ts)]\<rparr>"

text \<open>The update does not look at the heartbeat again.\<close>

definition markOfflineAndAlert :: "iot_env \<Rightarrow> int \<Rightarrow> int \<times> string \<Rightarrow> iot \<Rightarrow> iot" where
  "markOfflineAndAlert e ts dev s =
    (case dev of
       (i, code) \<Rightarrow>
         if \<not> im_db e then s
         else if \<not> (\<exists>d\<in>set (it_devices s). dv_id d = i \<and> dv_status d = 1 \<and> \<not> dv_deleted d) then s
         else
           let s1 = s\<lparr>it_devices := upd_where (\<lambda>d. dv_id d = i \<and> dv_status d = 1 \<and> \<not> dv_deleted d)
                        (\<lambda>d. d\<lparr>dv_status := 0\<rparr>) (it_devices s)\<rparr> in
           if im_db2 e then post e (offline_message ts i code) s1 else s1)"

section \<open>The alert consumer\<close>

text \<open>
  Whatever happens the message is acknowledged: the result is the table, and the payload published to
  the dashboards when there is one.
\<close>

definition handle_alert :: "iot_env \<Rightarrow> string \<Rightarrow> iot \<Rightarrow> json option \<times> iot" where
  "handle_alert e body s =
    (case im_parse e body of
       None \<Rightarrow> (None, s)
     | Some j \<Rightarrow>
         (case (field_value 0 (jlong ''device_id'' j), field_value 0 (jlong ''sensor_id'' j),
                field_value ''ERROR'' (jstr ''alert_type'' j), field_value 2 (jint32 ''alert_level'' j),
                field_value 0 (jreal ''alert_value'' j), field_value 0 (jreal ''threshold'' j), field_value [] (jstr ''message'' j), j) of
            (Inr dev, Inr sns, Inr ty, Inr level, Inr v, Inr th, Inr msg, JObj kvs) \<Rightarrow>
              let a = \<lparr>al_id = im_id e, al_device = dev, al_sensor = Some sns, al_type = ty, al_level = level, al_value = Some (ten_digits v),
                       al_threshold = Some (ten_digits th), al_message = Some msg, al_status = 0, al_by = None, al_at = None, al_resolved = None\<rparr>;
                  stored = im_db e \<and> length ty \<le> 32 \<and> int16_ok level \<and> length msg \<le> 512 in
              (Some (JObj ((''timestamp'', JStr (im_iso e)) # (''level'', JStr (if level \<ge> 3 then ''critical'' else ''warning''))
                 # filter (\<lambda>kv. fst kv \<noteq> ''level'' \<and> fst kv \<noteq> ''timestamp'') kvs)),
               if stored then s\<lparr>it_alerts := it_alerts s @ [a]\<rparr> else s)
          | _ \<Rightarrow> (None, s)))"

section \<open>The relay of a stop of collection\<close>

definition stop_device_message :: "iot_env \<Rightarrow> int \<Rightarrow> int \<Rightarrow> outbox_msg" where
  "stop_device_message e wo i =
    \<lparr>m_exchange = ''iot.exchange'', m_key = ''cmd.stop.'' @ to_string i,
     m_payload = JObj [(''version'', JStr ''1.0''), (''type'', JStr ''stop_collection''), (''device_id'', JInt i),
       (''work_order_id'', JInt wo), (''timestamp'', JStr (im_iso e))]\<rparr>"

definition line_devices :: "iot \<Rightarrow> int \<Rightarrow> int list" where
  "line_devices s wo =
    [dv_id d. d \<leftarrow> it_devices s, (w, l) \<leftarrow> it_order_lines s, w = wo \<and> dv_line d = Some l \<and> \<not> dv_deleted d]"

text \<open>
  The statements are issued one by one and answered on other threads: an answer may come before the next
  statement is issued. The counter goes up with every statement issued and down with every answer; the
  answer that brings it to zero settles the delivery: a success when none has failed, a failure always.
  \<open>ss_acks\<close> is what is left for the consumer thread: true to acknowledge, false to put back.
\<close>

record stop_state =
  ss_pending :: int
  ss_failed :: bool
  ss_acks :: "bool list"

datatype stop_action = Issue int | Answered int bool

definition stop_start :: stop_state where
  "stop_start = \<lparr>ss_pending = 0, ss_failed = False, ss_acks = []\<rparr>"

fun stop_step :: "iot_env \<Rightarrow> int \<Rightarrow> stop_action \<Rightarrow> stop_state \<times> iot \<Rightarrow> stop_state \<times> iot" where
  "stop_step e wo (Issue i) (q, s) = (q\<lparr>ss_pending := ss_pending q + 1\<rparr>, s)"
| "stop_step e wo (Answered i True) (q, s) =
     (q\<lparr>ss_pending := ss_pending q - 1,
        ss_acks := (if ss_pending q = 1 \<and> \<not> ss_failed q then ss_acks q @ [True] else ss_acks q)\<rparr>,
      post e (stop_device_message e wo i) s)"
| "stop_step e wo (Answered i False) (q, s) =
     (q\<lparr>ss_failed := True, ss_pending := ss_pending q - 1,
        ss_acks := (if ss_pending q = 1 then ss_acks q @ [False] else ss_acks q)\<rparr>, s)"

text \<open>The orders that can happen: the devices in turn, every one answered once, after its statement.\<close>

fun schedule :: "int list \<Rightarrow> int list \<Rightarrow> stop_action list \<Rightarrow> bool" where
  "schedule ids asked [] = (ids = [] \<and> asked = [])"
| "schedule ids asked (Issue i # acts) = (ids \<noteq> [] \<and> i = hd ids \<and> schedule (tl ids) (i # asked) acts)"
| "schedule ids asked (Answered i b # acts) = (i \<in> set asked \<and> schedule ids (remove1 i asked) acts)"

definition stop_order :: "iot_env \<Rightarrow> string \<Rightarrow> int" where
  "stop_order e body =
    (case im_parse e body of
       None \<Rightarrow> 0
     | Some j \<Rightarrow> (case field_value 0 (jlong ''work_order_id'' j) of Inr i \<Rightarrow> i | Inl _ \<Rightarrow> 0))"

text \<open>\<open>acts\<close> is the order of the statements and their answers.\<close>

definition handleStopCollection ::
  "iot_env \<Rightarrow> (int list \<Rightarrow> stop_action list) \<Rightarrow> string \<Rightarrow> string \<Rightarrow> iot \<Rightarrow> bool list \<times> iot" where
  "handleStopCollection e acts key body s =
    (if starts_with ''cmd.stop.'' key then ([True], s)
     else
       let wo = stop_order e body in
       if wo \<le> 0 then ([True], s)
       else if \<not> im_db e then ([False], s)
       else
         let ids = line_devices s wo in
         if ids = [] then ([True], s)
         else case fold (stop_step e wo) (acts ids) (stop_start, s) of (q, t) \<Rightarrow> (ss_acks q, t))"

end
