(* ===== verification/Iot_Props.thy ===== *)
theory Iot_Props
  imports Iot_Operations "HOL-Library.Multiset"
begin

text \<open>
  What the operations on devices and alerts guarantee: the life cycle of an alert in every run, the
  outcomes of relaying a stop of collection, the statistics of a history, and the gaps: a task whose
  creation is never answered, a device marked silent although it has just reported.
\<close>

section \<open>The life cycle of an alert\<close>

definition alert_moves :: "(int \<times> int) set" where
  "alert_moves = {(0, 1), (0, 3), (1, 2), (1, 3)}"

text \<open>What may become of a row: nothing, or one step, in which the first operator is kept.\<close>

definition alert_step :: "alert_row \<Rightarrow> alert_row \<Rightarrow> bool" where
  "alert_step a b \<longleftrightarrow> al_id b = al_id a \<and>
    (b = a \<or> (al_status a, al_status b) \<in> alert_moves \<and> al_by b \<noteq> None \<and> al_at b \<noteq> None \<and>
       (al_status a \<noteq> 0 \<and> al_by a \<noteq> None \<and> al_at a \<noteq> None \<longrightarrow> al_by b = al_by a \<and> al_at b = al_at a))"

definition alert_ok :: "alert_row \<Rightarrow> bool" where
  "alert_ok a \<longleftrightarrow> al_status a \<in> {0, 1, 2, 3} \<and> (al_status a \<noteq> 0 \<longrightarrow> al_by a \<noteq> None \<and> al_at a \<noteq> None)"

definition alerts_ok :: "iot \<Rightarrow> bool" where
  "alerts_ok s \<longleftrightarrow> (\<forall>a\<in>set (it_alerts s). alert_ok a)"

datatype alert_event =
    Acknowledge iot_env int int
  | Resolve iot_env int int
  | Dismiss iot_env int int
  | Arrive iot_env string

fun alert_run_step :: "alert_event \<Rightarrow> iot \<Rightarrow> iot" where
  "alert_run_step (Acknowledge e i u) s = snd (acknowledgeAlert e i u s)"
| "alert_run_step (Resolve e i u) s = snd (resolveAlert e i u s)"
| "alert_run_step (Dismiss e i u) s = snd (dismissAlert e i u s)"
| "alert_run_step (Arrive e body) s = snd (handle_alert e body s)"

text \<open>Both facts for a step: rows are changed in place or appended.\<close>

definition evolves :: "(alert_row \<Rightarrow> alert_row \<Rightarrow> bool) \<Rightarrow> iot \<Rightarrow> iot \<Rightarrow> bool" where
  "evolves R s t \<longleftrightarrow> (\<exists>new. list_all2 R (it_alerts s) (take (length (it_alerts s)) (it_alerts t))
     \<and> length (it_alerts s) \<le> length (it_alerts t)
     \<and> drop (length (it_alerts s)) (it_alerts t) = new \<and> (\<forall>a\<in>set new. al_status a = 0))"

lemma evolves_refl: "(\<And>a. R a a) \<Longrightarrow> it_alerts t = it_alerts s \<Longrightarrow> evolves R s t"
  by (simp add: evolves_def list_all2_refl)

lemma evolves_upd:
  assumes "\<And>a. p a \<Longrightarrow> R a (f a)" and "\<And>a. R a a"
  shows "evolves R s (s\<lparr>it_alerts := upd_where p f (it_alerts s)\<rparr>)"
proof -
  have "list_all2 R xs (upd_where p f xs)" for xs
    using assms by (induction xs) simp_all
  then show ?thesis by (simp add: evolves_def)
qed

lemma move_alert_evolves:
  assumes "\<And>a. from (al_status a) \<Longrightarrow> R a (f a)" and "\<And>a. R a a"
  shows "evolves R s (snd (move_alert e i from f target s))"
  using evolves_upd [of "\<lambda>a. al_id a = i \<and> from (al_status a)" R f s] assms
  by (simp add: move_alert_def evolves_refl)

lemma alert_step_refl: "alert_step a a"
  by (simp add: alert_step_def)

lemma run_step_evolves: "evolves alert_step s (alert_run_step ev s)"
proof (cases ev)
  case (Acknowledge e i u)
  then show ?thesis
    by (simp add: acknowledgeAlert_def)
      (rule move_alert_evolves, auto simp: alert_step_def alert_moves_def acknowledged_def)
next
  case (Resolve e i u)
  then show ?thesis
    by (simp add: resolveAlert_def)
      (rule move_alert_evolves, auto simp: alert_step_def alert_moves_def first_by_def or_else_def)
next
  case (Dismiss e i u)
  then show ?thesis
    by (simp add: dismissAlert_def)
      (rule move_alert_evolves, auto simp: alert_step_def alert_moves_def first_by_def or_else_def)
next
  case (Arrive e body)
  have "evolves alert_step s s" by (rule evolves_refl) (simp_all add: alert_step_refl)
  moreover have "evolves alert_step s (s\<lparr>it_alerts := it_alerts s @ [a]\<rparr>)" if "al_status a = 0" for a
    using that by (simp add: evolves_def list_all2_refl alert_step_refl)
  ultimately show ?thesis
    by (auto simp: Arrive handle_alert_def Let_def split: option.split sum.split json.split)
qed

lemma alert_step_ok: "alert_step a b \<Longrightarrow> alert_ok a \<Longrightarrow> alert_ok b"
  by (auto simp: alert_step_def alert_ok_def alert_moves_def)

text \<open>The fate of one row over a run.\<close>

definition fate :: "alert_row \<Rightarrow> alert_row \<Rightarrow> bool" where
  "fate a b \<longleftrightarrow> al_id b = al_id a \<and> (al_status a, al_status b) \<in> alert_moves\<^sup>* \<and>
    (al_status a \<noteq> 0 \<longrightarrow> al_by b = al_by a \<and> al_at b = al_at a) \<and> (al_status a \<in> {2, 3} \<longrightarrow> b = a)"

lemma fate_refl: "fate a a"
  by (simp add: fate_def)

lemma stuck: "(x, y) \<in> alert_moves\<^sup>* \<Longrightarrow> x \<noteq> 0 \<Longrightarrow> y \<noteq> 0"
  by (induction rule: rtrancl_induct) (auto simp: alert_moves_def)

lemma fate_step:
  assumes "fate a b" and "alert_ok b" and "alert_step b c"
  shows "fate a c"
proof (cases "c = b")
  case False
  then have m: "(al_status b, al_status c) \<in> alert_moves" and i: "al_id c = al_id b"
    and k: "al_status b \<noteq> 0 \<and> al_by b \<noteq> None \<and> al_at b \<noteq> None \<longrightarrow> al_by c = al_by b \<and> al_at c = al_at b"
    using assms(3) by (auto simp: alert_step_def)
  have r: "(al_status a, al_status b) \<in> alert_moves\<^sup>*" using assms(1) by (simp add: fate_def)
  have "al_by c = al_by a \<and> al_at c = al_at a" if "al_status a \<noteq> 0"
    using that stuck [OF r] k assms(1,2) by (simp add: fate_def alert_ok_def)
  moreover have "al_status a \<notin> {2, 3}"
    using m assms(1) by (auto simp: fate_def alert_moves_def)
  ultimately show ?thesis
    using i m r assms(1) rtrancl_into_rtrancl [OF r m] by (simp add: fate_def)
qed (use assms in simp)

lemma list_all2_rows:
  "list_all2 R xs ys \<Longrightarrow> (\<forall>y\<in>set ys. \<exists>x\<in>set xs. R x y) \<and> (\<forall>x\<in>set xs. \<exists>y\<in>set ys. R x y)"
  by (induction rule: list_all2_induct) auto

lemma evolves_keeps:
  assumes "evolves alert_step s t" and "alerts_ok s"
  shows "alerts_ok t \<and> (\<forall>b\<in>set (it_alerts s). \<exists>c\<in>set (it_alerts t). alert_step b c)"
proof -
  let ?n = "length (it_alerts s)"
  from assms(1) have l: "list_all2 alert_step (it_alerts s) (take ?n (it_alerts t))"
    and new: "\<forall>a\<in>set (drop ?n (it_alerts t)). al_status a = 0"
    by (auto simp: evolves_def)
  note rows = list_all2_rows [OF l]
  have "\<forall>c\<in>set (take ?n (it_alerts t)). alert_ok c"
    using rows assms(2) alert_step_ok unfolding alerts_ok_def by blast
  moreover have "\<forall>c\<in>set (drop ?n (it_alerts t)). alert_ok c" using new by (simp add: alert_ok_def)
  moreover have "set (it_alerts t) = set (take ?n (it_alerts t)) \<union> set (drop ?n (it_alerts t))"
    by (metis append_take_drop_id set_append)
  ultimately show ?thesis using rows unfolding alerts_ok_def by blast
qed

definition has_fate :: "alert_row \<Rightarrow> iot \<Rightarrow> bool" where
  "has_fate a s \<longleftrightarrow> alerts_ok s \<and> (\<exists>b\<in>set (it_alerts s). fate a b)"

interpretation alert_machine: step_invariant alert_run_step "has_fate a" for a
proof
  fix s ev assume "has_fate a s"
  then obtain b where b: "alerts_ok s" "b \<in> set (it_alerts s)" "fate a b" by (auto simp: has_fate_def)
  then have ok: "alert_ok b" by (simp add: alerts_ok_def)
  from evolves_keeps [OF run_step_evolves b(1)] b(2) obtain c where
    c: "alerts_ok (alert_run_step ev s)" "c \<in> set (it_alerts (alert_run_step ev s))" "alert_step b c" by blast
  with fate_step [OF b(3) ok] show "has_fate a (alert_run_step ev s)" by (auto simp: has_fate_def)
qed

section \<open>The relay of a stop\<close>

definition issues :: "int list \<Rightarrow> stop_action list" where
  "issues ids = map Issue ids"

lemma fold_issues: "fold (stop_step e wo) (issues ids) (q, s) = (q\<lparr>ss_pending := ss_pending q + int (length ids)\<rparr>, s)"
  by (induction ids arbitrary: q) (simp_all add: issues_def)

definition answers :: "(int \<times> bool) list \<Rightarrow> stop_action list" where
  "answers as = map (\<lambda>(i, b). Answered i b) as"

definition post_all :: "iot_env \<Rightarrow> int \<Rightarrow> int list \<Rightarrow> iot \<Rightarrow> iot" where
  "post_all e wo ids s = fold (\<lambda>i. post e (stop_device_message e wo i)) ids s"

lemma fold_answers:
  assumes "ss_pending q = int (length as)" and "as \<noteq> []"
  shows "fold (stop_step e wo) (answers as) (q, s) =
    (q\<lparr>ss_pending := 0, ss_failed := (ss_failed q \<or> (\<exists>a\<in>set as. \<not> snd a)),
       ss_acks := ss_acks q @ (if \<not> snd (last as) then [False]
         else if ss_failed q \<or> (\<exists>a\<in>set as. \<not> snd a) then [] else [True])\<rparr>,
     post_all e wo (map fst (filter snd as)) s)"
  using assms
proof (induction as arbitrary: q s)
  case (Cons a as)
  obtain i b where a: "a = (i, b)" by (cases a)
  show ?case
  proof (cases "as = []")
    case True
    with Cons.prems show ?thesis by (cases b) (simp_all add: a answers_def post_all_def)
  next
    case False
    let ?q = "q\<lparr>ss_pending := ss_pending q - 1, ss_failed := (ss_failed q \<or> \<not> b)\<rparr>"
    have p: "ss_pending q \<noteq> 1" using Cons.prems(1) False by simp
    have "stop_step e wo (Answered i b) (q, s) = (?q, if b then post e (stop_device_message e wo i) s else s)"
      using p by (cases b) simp_all
    moreover have "ss_pending ?q = int (length as)" using Cons.prems(1) by simp
    ultimately show ?thesis
      using Cons.IH [of ?q] False by (cases b) (simp_all add: a answers_def post_all_def disj_assoc)
  qed
qed simp

section \<open>The statistics of a history\<close>

lemma stats_loop_spec:
  "0 < cnt \<Longrightarrow> stats_loop vs mn mx acc cnt =
    (Min (insert mn (set vs)), Max (insert mx (set vs)), acc + sum_list vs, cnt + int (length vs))"
proof (induction vs arbitrary: mn mx acc cnt)
  case (Cons v vs)
  have "Min (insert (if v < mn then v else mn) (set vs)) = Min (insert mn (insert v (set vs)))"
    by (cases "set vs = {}") (auto simp: min_def)
  moreover have "Max (insert (if v > mx then v else mx) (set vs)) = Max (insert mx (insert v (set vs)))"
    by (cases "set vs = {}") (auto simp: max_def)
  ultimately show ?case using Cons by simp
qed simp

lemma stats_of_spec:
  "stats_of vs = (if vs = [] then None
     else Some \<lparr>hs_min = Min (set vs), hs_max = Max (set vs), hs_avg = rat_avg vs, hs_count = int (length vs)\<rparr>)"
proof (cases vs)
  case (Cons v us)
  have "of_int (1 + int (length us)) = (of_nat (length vs) :: rat)" by (simp add: Cons)
  then show ?thesis by (simp add: stats_of_def Cons stats_loop_spec rat_avg_def)
qed (simp add: stats_of_def)

lemma stop_acks_grow: "\<exists>rest. ss_acks (fst (fold (stop_step e wo) acts (q, s))) = ss_acks q @ rest"
proof (induction acts arbitrary: q s)
  case (Cons a acts)
  have "\<exists>q2 s2 r. stop_step e wo a (q, s) = (q2, s2) \<and> ss_acks q2 = ss_acks q @ r"
  proof (cases a)
    case (Answered i b)
    then show ?thesis by (cases b) simp_all
  qed simp
  then obtain q2 s2 r where a: "stop_step e wo a (q, s) = (q2, s2)" "ss_acks q2 = ss_acks q @ r" by blast
  with Cons.IH [of q2 s2] show ?case by (auto simp: a)
qed simp

section \<open>Silent devices and unanswered tasks\<close>

text \<open>
  The scan and the update are two statements: a device that reports in between is marked offline with a
  fresh heartbeat, and the alert is posted.
\<close>

theorem fresh_device_marked_offline:
  assumes "d \<in> set (it_devices s)" and "silent now d" and "im_db e" "im_db2 e"
  shows "(dv_id d, dv_code d) \<in> set (scan now s) \<and>
    (let t = markOfflineAndAlert e ts (dv_id d, dv_code d) (heartbeat now [dv_id d] s) in
     d\<lparr>dv_beat := Some now, dv_status := 0\<rparr> \<in> set (it_devices t) \<and>
     pending_msgs (it_outbox t) = pending_msgs (it_outbox s) @ [offline_message ts (dv_id d) (dv_code d)])"
proof -
  let ?h = "heartbeat now [dv_id d] s"
  let ?p = "\<lambda>q. dv_id q = dv_id d \<and> dv_status q = 1 \<and> \<not> dv_deleted q"
  have d: "dv_status d = 1" "\<not> dv_deleted d" using assms(2) by (auto simp: silent_def)
  have h: "d\<lparr>dv_beat := Some now, dv_status := 1\<rparr> \<in> set (it_devices ?h)"
    unfolding heartbeat_def using assms(1) d by (simp add: set_upd_where)
  then have hit: "\<exists>q\<in>set (it_devices ?h). ?p q" using d by (intro bexI [OF _ h]) simp
  have "d\<lparr>dv_beat := Some now, dv_status := 0\<rparr> = (\<lambda>q. if ?p q then q\<lparr>dv_status := 0\<rparr> else q) (d\<lparr>dv_beat := Some now, dv_status := 1\<rparr>)"
    using d by simp
  then have "d\<lparr>dv_beat := Some now, dv_status := 0\<rparr> \<in> set (upd_where ?p (\<lambda>q. q\<lparr>dv_status := 0\<rparr>) (it_devices ?h))"
    unfolding set_upd_where using h by (rule image_eqI)
  moreover have "it_outbox ?h = it_outbox s" by (simp add: heartbeat_def)
  ultimately show ?thesis
    using assms hit by (auto simp: scan_def markOfflineAndAlert_def Let_def post_def enqueue_pending)
qed

text \<open>
  The creation of a task with a device that does not exist is never answered, although the task is stored:
  the errors of the links do not count down.
\<close>

lemma link_devices_remaining:
  "i \<in> set ids \<Longrightarrow> i \<notin> dv_id ` set (it_devices s) \<Longrightarrow> (tid, i) \<notin> set (it_links s) \<Longrightarrow>
   remaining - int (length ids) < fst (link_devices e tid ids remaining s)"
proof (induction ids arbitrary: remaining s)
  case (Cons j ids)
  have mono: "remaining - int (length ks) \<le> fst (link_devices e tid ks remaining s)" for remaining ks s
  proof (induction ks arbitrary: remaining s)
    case (Cons k ks)
    show ?case
      using Cons.IH [of "remaining - 1" "snd (link_device e tid k s)"] Cons.IH [of remaining "snd (link_device e tid k s)"]
      by (auto split: prod.split)
  qed simp
  show ?case
  proof (cases "j = i")
    case True
    then have "fst (link_device e tid j s) = False" using Cons.prems(2,3) by (auto simp: link_device_def)
    then show ?thesis using mono [of remaining ids "snd (link_device e tid j s)"] by (auto split: prod.split)
  next
    case False
    then have i: "i \<in> set ids" using Cons.prems(1) by simp
    let ?t = "snd (link_device e tid j s)"
    have "i \<notin> dv_id ` set (it_devices ?t)" "(tid, i) \<notin> set (it_links ?t)"
      using Cons.prems(2,3) False by (auto simp: link_device_def)
    note ih = Cons.IH [OF i this]
    show ?thesis
      using ih [of remaining] ih [of "remaining - 1"] by (cases "link_device e tid j s") auto
  qed
qed simp

lemma link_devices_tasks: "it_tasks (snd (link_devices e tid ks r u)) = it_tasks u"
proof (induction ks arbitrary: r u)
  case (Cons k ks)
  have "it_tasks (snd (link_device e tid k u)) = it_tasks u" by (simp add: link_device_def)
  with Cons.IH show ?case by (cases "link_device e tid k u") simp
qed simp

theorem task_with_unknown_device_unanswered:
  assumes "insert_task e t ids s = (rep, s')" and "i \<in> set ids" and "i \<notin> dv_id ` set (it_devices s)"
    and "(tk_id t, i) \<notin> set (it_links s)" and "\<And>c m. rep \<noteq> Refuse c m"
  shows "rep = Silent \<and> t \<in> set (it_tasks s')"
proof -
  let ?s1 = "s\<lparr>it_tasks := it_tasks s @ [t]\<rparr>"
  have "0 < fst (link_devices e (tk_id t) ids (int (length ids)) ?s1)"
    using link_devices_remaining [of i ids ?s1 "tk_id t" "int (length ids)" e] assms(2,3,4) by simp
  moreover obtain r s2 where l: "link_devices e (tk_id t) ids (int (length ids)) ?s1 = (r, s2)" by fastforce
  moreover have "ids \<noteq> []" using assms(2) by auto
  ultimately have "rep = Silent \<and> s' = s2"
    using assms(1,5) by (auto simp: insert_task_def l split: if_splits)
  moreover have "it_tasks s2 = it_tasks ?s1"
    using link_devices_tasks [of e "tk_id t" ids "int (length ids)" ?s1] l by simp
  ultimately show ?thesis by simp
qed

section \<open>Properties\<close>


text \<open>The relay of a stop to the devices of a line: when all statements are issued before the first answer,
  success of all acknowledges the delivery and posts one message per device, a failure that comes
  last puts it back, but a failure followed by a last success settles nothing; and when the first
  answer comes before the second statement is issued, the delivery is acknowledged whatever becomes
  of the other devices.\<close>

theorem stop_relay_outcomes:
  assumes "\<not> starts_with ''cmd.stop.'' key" and "stop_order e body = wo" and "0 < wo" and "im_db e"
    and "line_devices s wo = ids" and "ids \<noteq> []" and "mset (map fst as) = mset ids"
  shows "fst (handleStopCollection e (\<lambda>_. issues ids @ answers as) key body s) =
      (if \<not> snd (last as) then [False] else if \<exists>a\<in>set as. \<not> snd a then [] else [True]) \<and>
    snd (handleStopCollection e (\<lambda>_. issues ids @ answers as) key body s) = post_all e wo (map fst (filter snd as)) s \<and>
    (\<exists>more. fst (handleStopCollection e (\<lambda>_. Issue (hd ids) # Answered (hd ids) True # acts) key body s) = True # more)"
proof -
  have h: "handleStopCollection e f key body s = (case fold (stop_step e wo) (f ids) (stop_start, s) of (q, t) \<Rightarrow> (ss_acks q, t))" for f
    using assms by (simp add: handleStopCollection_def)
  have l: "length as = length ids" using arg_cong [OF assms(7), of size] by simp
  then have ne: "as \<noteq> []" using assms(6) by auto
  have "\<exists>rest. ss_acks (fst (fold (stop_step e wo) acts
      (\<lparr>ss_pending = 0, ss_failed = False, ss_acks = [True]\<rparr>, post e (stop_device_message e wo (hd ids)) s))) = [True] @ rest"
    using stop_acks_grow [of e wo acts "\<lparr>ss_pending = 0, ss_failed = False, ss_acks = [True]\<rparr>"] by simp
  then have "\<exists>more. fst (handleStopCollection e (\<lambda>_. Issue (hd ids) # Answered (hd ids) True # acts) key body s) = True # more"
    by (simp add: h stop_start_def case_prod_beta)
  then show ?thesis
    using fold_answers [of "stop_start\<lparr>ss_pending := int (length ids)\<rparr>" as e wo s] l ne
    by (simp add: h fold_issues stop_start_def)
qed

section \<open>A concrete line\<close>

definition demo_device :: "int \<Rightarrow> device" where
  "demo_device i = \<lparr>dv_id = i, dv_code = ''D'', dv_name = ''press'', dv_type = None, dv_line = Some 4, dv_station = None,
     dv_ip = None, dv_port = None, dv_protocol = ''MODBUS'', dv_config = None, dv_status = 1, dv_beat = Some 10,
     dv_installed = None, dv_deleted = False\<rparr>"

definition demo_alert :: alert_row where
  "demo_alert = \<lparr>al_id = 1, al_device = 7, al_sensor = Some 3, al_type = ''HIGH'', al_level = 2, al_value = Some 95,
     al_threshold = Some 90, al_message = None, al_status = 1, al_by = Some 9, al_at = Some 50, al_resolved = None\<rparr>"

definition demo_iot :: iot where
  "demo_iot = \<lparr>it_devices = [demo_device 7, demo_device 8], it_sensors = [], it_raw = [], it_alerts = [demo_alert], it_tasks = [],
     it_links = [], it_types = [], it_lines = [4], it_stations = [], it_order_lines = [(5, 4)],
     it_outbox = \<lparr>ob_rows = [], ob_next = 1\<rparr>\<rparr>"

definition demo_iot_env :: iot_env where
  "demo_iot_env = \<lparr>im_db = True, im_db2 = True, im_id = 1, im_now = 100, im_inet = (\<lambda>_. True), im_date = (\<lambda>_. True),
     im_time = (\<lambda>_. None), im_redis = None, im_parse = (\<lambda>_. Some (JObj [(''work_order_id'', JInt 5)])), im_iso = ''now''\<rparr>"


theorem stop_relay_outcomes_witness:
  "fst (handleStopCollection demo_iot_env (\<lambda>_. issues [7, 8] @ answers [(7, False), (8, True)]) ''cmd.stop_collection'' [] demo_iot) = []"
proof -
  have "stop_order demo_iot_env [] = 5" by (simp add: stop_order_def demo_iot_env_def field_of_def)
  moreover have "line_devices demo_iot 5 = [7, 8]" by (simp add: line_devices_def demo_iot_def demo_device_def)
  moreover have "im_db demo_iot_env" by (simp add: demo_iot_env_def)
  ultimately show ?thesis
    using stop_relay_outcomes [of "''cmd.stop_collection''" demo_iot_env "[]" 5 demo_iot "[7, 8]" "[(7, False), (8, True)]"]
    by simp
qed

end
