(* ===== verification/Modbus_Client.thy ===== *)
theory Modbus_Client
  imports Mes_Prelude
begin

text \<open>
  The Modbus TCP client of the collector (\<open>mes-iot/src/modbus/ModbusClient.cc\<close>): request frames, the
  receive loop, and the checks on a reply. Bytes and registers are words. The peer is a parameter: what
  it sends after a request is a list of arrivals, each a piece of bytes or the end of the wait (closed,
  timed out, error); an empty list is a timeout.
\<close>

unbundle bit_operations_syntax

section \<open>Results\<close>

datatype modbus_error =
    Ok | IllegalFunction | IllegalDataAddress | IllegalDataValue | ServerDeviceFailure | Acknowledge
  | ServerDeviceBusy | GatewayPathUnavailable | GatewayTargetNoResponse
  | SocketError | Timeout | TruncatedFrame | TransactionMismatch | OtherCode nat

text \<open>\<open>static_cast<ModbusError>\<close> of the code of an exception reply.\<close>

definition of_code :: "8 word \<Rightarrow> modbus_error" where
  "of_code c =
    (case map_of [(0 :: nat, Ok), (1, IllegalFunction), (2, IllegalDataAddress), (3, IllegalDataValue),
        (4, ServerDeviceFailure), (5, Acknowledge), (6, ServerDeviceBusy), (10, GatewayPathUnavailable),
        (11, GatewayTargetNoResponse)] (unat c) of
       None \<Rightarrow> OtherCode (unat c)
     | Some e \<Rightarrow> e)"

record read_result =
  rr_error :: modbus_error
  rr_registers :: "16 word list"

definition failed :: "modbus_error \<Rightarrow> read_result" where
  "failed e = \<lparr>rr_error = e, rr_registers = []\<rparr>"

lemma failed_simps [simp]: "rr_error (failed e) = e" "rr_registers (failed e) = []"
  by (simp_all add: failed_def)

section \<open>Frames\<close>

definition writeU16BE :: "16 word \<Rightarrow> 8 word list" where
  "writeU16BE v = [ucast (drop_bit 8 v), ucast (v AND 0xFF)]"

definition readU16BE :: "8 word \<Rightarrow> 8 word \<Rightarrow> 16 word" where
  "readU16BE a b = push_bit 8 (ucast a) OR ucast b"

definition kFcReadHolding :: "8 word" where "kFcReadHolding = 0x03"
definition kExceptionBit :: "8 word" where "kExceptionBit = 0x80"

definition request_frame :: "16 word \<Rightarrow> int \<Rightarrow> 16 word \<Rightarrow> 16 word \<Rightarrow> 8 word list" where
  "request_frame txn unit start quantity =
    writeU16BE txn @ writeU16BE 0 @ writeU16BE 6 @ [of_int unit, kFcReadHolding] @ writeU16BE start @ writeU16BE quantity"

section \<open>The connection\<close>

datatype arrival = Piece "8 word list" | NoMore

record modbus =
  mb_host :: string
  mb_port :: int
  mb_unit :: int
  mb_sock :: bool
  mb_next :: "16 word"
  mb_in :: "arrival list"

definition modbus_client :: "string \<Rightarrow> int \<Rightarrow> int \<Rightarrow> modbus" where
  "modbus_client host port unit =
    \<lparr>mb_host = host, mb_port = port, mb_unit = unit, mb_sock = False, mb_next = 1, mb_in = []\<rparr>"

text \<open>The network: whether a socket is had, an address is valid, a peer answers, and what it sends.\<close>

record network =
  nw_socket :: bool
  nw_inet :: "string \<Rightarrow> bool"
  nw_reach :: "string \<Rightarrow> 16 word \<Rightarrow> bool"
  nw_send :: "8 word list \<Rightarrow> int \<times> arrival list"

definition connect :: "network \<Rightarrow> modbus \<Rightarrow> bool \<times> modbus" where
  "connect w m =
    (if mb_sock m then (True, m)
     else if nw_socket w \<and> nw_inet w (mb_host m) \<and> nw_reach w (mb_host m) (of_int (mb_port m))
     then (True, m\<lparr>mb_sock := True, mb_in := []\<rparr>)
     else (False, m))"

definition disconnect :: "modbus \<Rightarrow> modbus" where
  "disconnect m = m\<lparr>mb_sock := False, mb_in := []\<rparr>"

text \<open>\<open>recvN\<close>: the bytes asked for, or None as soon as a \<open>recv\<close> returns nothing.\<close>

fun recvN :: "nat \<Rightarrow> arrival list \<Rightarrow> 8 word list option \<times> arrival list" where
  "recvN n [] = (if n = 0 then Some [] else None, [])"
| "recvN n (NoMore # as) = (if n = 0 then (Some [], NoMore # as) else (None, as))"
| "recvN n (Piece bs # as) =
     (if n = 0 then (Some [], Piece bs # as)
      else if length bs \<le> n then (case recvN (n - length bs) as of (r, rest) \<Rightarrow> (map_option ((@) bs) r, rest))
      else (Some (take n bs), Piece (drop n bs) # as))"

section \<open>Reading holding registers\<close>

definition decode_pdu :: "16 word \<Rightarrow> 8 word list \<Rightarrow> read_result" where
  "decode_pdu quantity pdu =
    (if pdu ! 0 AND kExceptionBit \<noteq> 0 then failed (of_code (if length pdu > 1 then pdu ! 1 else 0))
     else if pdu ! 0 \<noteq> kFcReadHolding \<or> length pdu < 2 then failed TruncatedFrame
     else
       let byteCount = unat (pdu ! 1); regCount = byteCount div 2 in
       if regCount \<noteq> unat quantity \<or> length pdu \<noteq> 2 + byteCount then failed TruncatedFrame
       else \<lparr>rr_error = Ok,
              rr_registers = map (\<lambda>i. readU16BE (pdu ! (2 + i * 2)) (pdu ! (3 + i * 2))) [0..<regCount]\<rparr>)"

definition check_header :: "modbus \<Rightarrow> 16 word \<Rightarrow> 8 word list \<Rightarrow> modbus_error" where
  "check_header m txn h =
    (if readU16BE (h ! 0) (h ! 1) \<noteq> txn then TransactionMismatch
     else if readU16BE (h ! 2) (h ! 3) \<noteq> 0 \<or> int (unat (h ! 6)) \<noteq> mb_unit m then TruncatedFrame
     else if readU16BE (h ! 4) (h ! 5) < 2 then TruncatedFrame
     else Ok)"

definition receive_reply :: "16 word \<Rightarrow> 16 word \<Rightarrow> modbus \<Rightarrow> read_result \<times> modbus" where
  "receive_reply txn quantity m =
    (case recvN 7 (mb_in m) of
       (None, _) \<Rightarrow> (failed Timeout, disconnect m)
     | (Some h, rest) \<Rightarrow>
         let m1 = m\<lparr>mb_in := rest\<rparr>; err = check_header m txn h in
         if err \<noteq> Ok then (failed err, m1)
         else
           (case recvN (unat (readU16BE (h ! 4) (h ! 5)) - 1) rest of
              (None, _) \<Rightarrow> (failed Timeout, disconnect m1)
            | (Some pdu, rest2) \<Rightarrow> (decode_pdu quantity pdu, m1\<lparr>mb_in := rest2\<rparr>)))"

definition readHoldingRegisters :: "network \<Rightarrow> 16 word \<Rightarrow> 16 word \<Rightarrow> modbus \<Rightarrow> read_result \<times> modbus" where
  "readHoldingRegisters w start quantity m =
    (if quantity = 0 \<or> quantity > 125 then (failed IllegalDataValue, m)
     else if \<not> mb_sock m then (failed SocketError, m)
     else
       let txn = mb_next m; req = request_frame txn (mb_unit m) start quantity;
           m1 = m\<lparr>mb_next := txn + 1\<rparr>; (sent, arrivals) = nw_send w req in
       if sent \<noteq> int (length req) then (failed SocketError, disconnect m1)
       else receive_reply txn quantity (m1\<lparr>mb_in := mb_in m1 @ arrivals\<rparr>))"

section \<open>Lemmas\<close>

lemma length_writeU16BE [simp]: "length (writeU16BE v) = 2"
  by (simp add: writeU16BE_def)

lemma low_byte: "v AND 0xFF = take_bit 8 (v :: 16 word)"
  by (simp add: take_bit_eq_mask mask_eq_exp_minus_1)

lemma join_bytes: "push_bit 8 (ucast (ucast (drop_bit 8 v) :: 8 word)) OR ucast (ucast (take_bit 8 v) :: 8 word) = (v :: 16 word)"
  by (rule bit_word_eqI) (auto simp: bit_simps)

lemma readU16BE_writeU16BE: "writeU16BE v = [a, b] \<Longrightarrow> readU16BE a b = v"
  by (auto simp: writeU16BE_def readU16BE_def low_byte join_bytes)

text \<open>However the bytes are cut into pieces, the loop collects the next ones and leaves the others.\<close>

fun bytes_of :: "arrival list \<Rightarrow> 8 word list" where
  "bytes_of [] = []"
| "bytes_of (Piece bs # as) = bs @ bytes_of as"
| "bytes_of (NoMore # as) = []"

lemma bytes_of_append: "NoMore \<notin> set as \<Longrightarrow> bytes_of (as @ bs) = bytes_of as @ bytes_of bs"
  by (induction as rule: bytes_of.induct) auto

lemma recvN_collects:
  "n \<le> length (bytes_of as) \<Longrightarrow>
    fst (recvN n as) = Some (take n (bytes_of as)) \<and> bytes_of (snd (recvN n as)) = drop n (bytes_of as)"
proof (induction n as rule: recvN.induct)
  case (3 n bs as)
  show ?case
  proof (cases "n \<noteq> 0 \<and> length bs \<le> n")
    case True
    with 3 show ?thesis by (cases "recvN (n - length bs) as") auto
  qed auto
qed auto

lemma recvN_short: "length (bytes_of as) < n \<Longrightarrow> fst (recvN n as) = None"
proof (induction n as rule: recvN.induct)
  case (3 n bs as)
  then show ?case by (cases "recvN (n - length bs) as") auto
qed auto

lemma recvN_obtain:
  assumes "n \<le> length (bytes_of as)"
  obtains rest where "recvN n as = (Some (take n (bytes_of as)), rest)" and "bytes_of rest = drop n (bytes_of as)"
  using recvN_collects [OF assms] by (cases "recvN n as") auto

lemma recvN_length: "recvN n as = (Some bs, rest) \<Longrightarrow> length bs = n"
  by (metis fst_conv leI length_take min.absorb2 option.inject option.distinct(1) recvN_collects recvN_short)

text \<open>Nothing is left over on the connection from an earlier reply.\<close>

definition quiet :: "modbus \<Rightarrow> bool" where
  "quiet m \<longleftrightarrow> mb_sock m \<and> bytes_of (mb_in m) = [] \<and> NoMore \<notin> set (mb_in m)"

lemma recvN_keeps: "NoMore \<notin> set as \<Longrightarrow> NoMore \<notin> set (snd (recvN n as))"
proof (induction n as rule: recvN.induct)
  case (3 n bs as)
  then show ?case by (cases "recvN (n - length bs) as") auto
qed auto

text \<open>The reply the protocol prescribes: the header, then the function code, the byte count and the registers.\<close>

definition reply_frame :: "16 word \<Rightarrow> int \<Rightarrow> 16 word list \<Rightarrow> 8 word list" where
  "reply_frame txn unit regs =
    writeU16BE txn @ writeU16BE 0 @ writeU16BE (of_nat (3 + 2 * length regs))
      @ [of_int unit, kFcReadHolding, of_nat (2 * length regs)] @ concat (map writeU16BE regs)"

lemma length_request_frame [simp]: "length (request_frame txn unit start quantity) = 12"
  by (simp add: request_frame_def)

lemma length_registers [simp]: "length (concat (map writeU16BE regs)) = 2 * length regs"
  by (induction regs) simp_all

lemma registers_nth:
  "i < length regs \<Longrightarrow>
    readU16BE (concat (map writeU16BE regs) ! (i * 2)) (concat (map writeU16BE regs) ! (Suc (i * 2))) = regs ! i"
proof (induction regs arbitrary: i)
  case (Cons r regs)
  obtain a b where ab: "writeU16BE r = [a, b]" by (simp add: writeU16BE_def)
  show ?case
  proof (cases i)
    case 0
    with ab readU16BE_writeU16BE [OF ab] show ?thesis by simp
  next
    case (Suc j)
    with Cons ab show ?thesis by simp
  qed
qed simp

lemma decode_pdu_reply:
  assumes "length regs = unat quantity" and "quantity \<le> 125"
  shows "decode_pdu quantity (kFcReadHolding # of_nat (2 * length regs) # concat (map writeU16BE regs))
    = \<lparr>rr_error = Ok, rr_registers = regs\<rparr>"
proof -
  have le: "length regs \<le> 125" using assms by (simp add: word_le_nat_alt)
  have u: "unat (of_nat (2 * length regs) :: 8 word) = 2 * length regs" unfolding unat_of_nat using le by simp
  have "map (\<lambda>i. readU16BE (concat (map writeU16BE regs) ! (i * 2)) (concat (map writeU16BE regs) ! Suc (i * 2)))
      [0..<length regs] = regs"
    by (rule nth_equalityI) (simp_all add: registers_nth)
  then show ?thesis
    using assms(1) u by (simp add: decode_pdu_def kFcReadHolding_def kExceptionBit_def Let_def numeral_3_eq_3)
qed

lemma read_reply:
  assumes "quiet m" and "0 \<le> mb_unit m" and "mb_unit m < 256"
    and "length regs = unat quantity" and "quantity \<noteq> 0" and "quantity \<le> 125"
    and "nw_send w (request_frame (mb_next m) (mb_unit m) start quantity) = (12, arrivals)"
    and "NoMore \<notin> set arrivals" and "bytes_of arrivals = reply_frame (mb_next m) (mb_unit m) regs"
  shows "\<exists>m'. readHoldingRegisters w start quantity m = (\<lparr>rr_error = Ok, rr_registers = regs\<rparr>, m')
    \<and> quiet m' \<and> mb_next m' = mb_next m + 1 \<and> mb_unit m' = mb_unit m"
proof -
  let ?m = "m\<lparr>mb_next := mb_next m + 1, mb_in := mb_in m @ arrivals\<rparr>"
  let ?data = "concat (map writeU16BE regs)"
  have q: "mb_sock m" "bytes_of (mb_in ?m) = reply_frame (mb_next m) (mb_unit m) regs" "NoMore \<notin> set (mb_in ?m)"
    using assms(1,8,9) by (auto simp: quiet_def bytes_of_append)
  have le: "length regs \<le> 125" using assms(4,6) by (simp add: word_le_nat_alt)
  obtain t0 t1 where txn: "writeU16BE (mb_next m) = [t0, t1]" by (simp add: writeU16BE_def)
  obtain l0 l1 where len: "writeU16BE (of_nat (3 + 2 * length regs)) = [l0, l1]" by (simp add: writeU16BE_def)
  let ?h = "[t0, t1, 0, 0, l0, l1, of_int (mb_unit m)]"
  let ?pdu = "kFcReadHolding # of_nat (2 * length regs) # ?data"
  have frame: "reply_frame (mb_next m) (mb_unit m) regs = ?h @ ?pdu"
    by (simp only: reply_frame_def txn len) (simp add: writeU16BE_def)
  have L: "readU16BE l0 l1 = of_nat (3 + 2 * length regs)" using readU16BE_writeU16BE [OF len] .
  have n: "unat (readU16BE l0 l1) = 3 + 2 * length regs" unfolding L unat_of_nat using le by simp
  obtain rest where r1: "recvN 7 (mb_in ?m) = (Some ?h, rest)" and b1: "bytes_of rest = ?pdu"
    by (rule recvN_obtain [of 7 "mb_in ?m"]) (use q(2) frame in simp_all)
  obtain rest2 where r2: "recvN (Suc (Suc (2 * length regs))) rest = (Some ?pdu, rest2)" and b2: "bytes_of rest2 = []"
    by (rule recvN_obtain [of "Suc (Suc (2 * length regs))" rest]) (use b1 in simp_all)
  have "NoMore \<notin> set rest" using recvN_keeps [OF q(3), of 7] r1 by simp
  then have k2: "NoMore \<notin> set rest2" using recvN_keeps [of rest "Suc (Suc (2 * length regs))"] r2 by simp
  have unit: "int (unat (of_int (mb_unit m) :: 8 word)) = mb_unit m"
    using assms(2,3) by (simp add: unsigned_of_int take_bit_int_eq_self)
  have ge: "\<not> readU16BE l0 l1 < 2" unfolding word_less_nat_alt n by simp
  have "readU16BE 0 0 = 0" by (simp add: readU16BE_def)
  then have hd: "check_header ?m (mb_next m) ?h = Ok"
    using readU16BE_writeU16BE [OF txn] unit ge by (simp add: check_header_def numeral_eq_Suc)
  have "receive_reply (mb_next m) quantity ?m = (\<lparr>rr_error = Ok, rr_registers = regs\<rparr>, ?m\<lparr>mb_in := rest2\<rparr>)"
    unfolding receive_reply_def using r1 r2 hd n decode_pdu_reply [OF assms(4,6)]
    by (simp add: Let_def numeral_eq_Suc)
  moreover have "readHoldingRegisters w start quantity m = receive_reply (mb_next m) quantity ?m"
    using assms(5,7) leD [OF assms(6)] q(1) by (simp add: readHoldingRegisters_def Let_def)
  ultimately show ?thesis using q(1) b2 k2 by (simp add: quiet_def)
qed

text \<open>An exception reply: the function code with the high bit, and the code of the exception.\<close>

definition exception_frame :: "16 word \<Rightarrow> int \<Rightarrow> 8 word \<Rightarrow> 8 word list" where
  "exception_frame txn unit code = writeU16BE txn @ [0, 0, 0, 3, of_int unit, 0x83, code]"

lemma of_code_Ok: "of_code c = Ok \<longleftrightarrow> c = 0"
  by (auto simp: of_code_def unat_eq_zero split: option.splits if_splits)

lemma unit_byte: "0 \<le> u \<Longrightarrow> u < 256 \<Longrightarrow> int (unat (of_int u :: 8 word)) = u"
  by (simp add: unsigned_of_int take_bit_int_eq_self)

lemma read_exception:
  assumes "quiet m" and "0 \<le> mb_unit m" and "mb_unit m < 256" and "quantity \<noteq> 0" and "quantity \<le> 125"
    and "nw_send w (request_frame (mb_next m) (mb_unit m) start quantity) = (12, arrivals)"
    and "bytes_of arrivals = exception_frame (mb_next m) (mb_unit m) code"
  shows "\<exists>m'. readHoldingRegisters w start quantity m = (failed (of_code code), m')"
proof -
  let ?m = "m\<lparr>mb_next := mb_next m + 1, mb_in := mb_in m @ arrivals\<rparr>"
  obtain t0 t1 where txn: "writeU16BE (mb_next m) = [t0, t1]" by (simp add: writeU16BE_def)
  let ?h = "[t0, t1, 0, 0, 0, 3, of_int (mb_unit m)]"
  have b: "bytes_of (mb_in ?m) = ?h @ [0x83, code]"
    using assms(1,7) txn by (auto simp: quiet_def bytes_of_append exception_frame_def)
  obtain rest where r1: "recvN 7 (mb_in ?m) = (Some ?h, rest)" and b1: "bytes_of rest = [0x83, code]"
    by (rule recvN_obtain [of 7 "mb_in ?m"]) (use b in simp_all)
  obtain rest2 where r2: "recvN 2 rest = (Some [0x83, code], rest2)"
    by (rule recvN_obtain [of 2 rest]) (use b1 in simp_all)
  have l: "readU16BE 0 3 = 3" "readU16BE 0 0 = 0" by (simp_all add: readU16BE_def)
  have hd: "check_header ?m (mb_next m) ?h = Ok"
    using readU16BE_writeU16BE [OF txn] unit_byte [OF assms(2,3)] l by (simp add: check_header_def)
  have d: "decode_pdu quantity [0x83, code] = failed (of_code code)"
    by (simp add: decode_pdu_def kExceptionBit_def)
  have "receive_reply (mb_next m) quantity ?m = (failed (of_code code), ?m\<lparr>mb_in := rest2\<rparr>)"
    unfolding receive_reply_def using r1 r2 hd d l by (simp add: Let_def)
  then show ?thesis
    using assms(1,4,6) leD [OF assms(5)] by (simp add: readHoldingRegisters_def Let_def quiet_def)
qed

section \<open>Properties\<close>

text \<open>C33: a reply is read as it was meant: when the peer answers the request of 1 to 125 registers by the frame
  of the protocol for the register values, cut into pieces in any way, the client returns exactly these
  values, counts the transaction, stays connected and leaves nothing on the connection for the next read.\<close>

theorem read_roundtrip:
  assumes "quiet m" and "0 \<le> mb_unit m" and "mb_unit m < 256"
    and "length regs = unat quantity" and "quantity \<noteq> 0" and "quantity \<le> 125"
    and "nw_send w (request_frame (mb_next m) (mb_unit m) start quantity) = (12, arrivals)"
    and "NoMore \<notin> set arrivals" and "bytes_of arrivals = reply_frame (mb_next m) (mb_unit m) regs"
  shows "\<exists>m'. readHoldingRegisters w start quantity m = (\<lparr>rr_error = Ok, rr_registers = regs\<rparr>, m')
    \<and> quiet m' \<and> mb_next m' = mb_next m + 1 \<and> mb_unit m' = mb_unit m"
  by (rule read_reply [OF assms])

definition demo_modbus :: modbus where
  "demo_modbus = (modbus_client ''10.0.0.5'' 502 1)\<lparr>mb_sock := True\<rparr>"

definition demo_network :: network where
  "demo_network = \<lparr>nw_socket = True, nw_inet = (\<lambda>_. True), nw_reach = (\<lambda>_ _. True),
     nw_send = (\<lambda>_. (12, [Piece [0, 1, 0, 0, 0], Piece [5, 1, 3, 2, 1], Piece [44]]))\<rparr>"

theorem read_roundtrip_witness:
  "\<exists>m'. readHoldingRegisters demo_network 9 1 demo_modbus = (\<lparr>rr_error = Ok, rr_registers = [300]\<rparr>, m')"
proof -
  have "quiet demo_modbus" by (simp add: quiet_def demo_modbus_def modbus_client_def)
  moreover have "bytes_of [Piece [0, 1, 0, 0, 0], Piece [5, 1, 3, 2, 1], Piece [44]]
      = reply_frame (mb_next demo_modbus) (mb_unit demo_modbus) [300]"
    by code_simp
  ultimately show ?thesis
    using read_roundtrip [of demo_modbus "[300]" 1 demo_network 9 "[Piece [0, 1, 0, 0, 0], Piece [5, 1, 3, 2, 1], Piece [44]]"]
    by (auto simp: demo_network_def demo_modbus_def modbus_client_def)
qed

end
