(* ===== verification/Config_Loader.thy ===== *)
theory Config_Loader
  imports Request_Data
begin

text \<open>
  How the collector loads its configuration (\<open>mes-iot/src/collector/ConfigLoader.cc\<close>): the URL of the
  backend, a log in and a list of devices over plain HTTP, and the checks on devices and sensors. The
  exchange of one request (socket, connection, sending, receiving until the peer closes; the empty text
  when any of it fails), the JSON parser and the JSON printer are parameters.
\<close>

section \<open>Configuration\<close>

record sensor_config =
  sg_id :: int
  sg_code :: string
  sg_name :: string
  sg_type :: string
  sg_unit :: string
  sg_addr :: int
  sg_scale :: rat
  sg_interval :: int

record device_config =
  dg_id :: int
  dg_code :: string
  dg_name :: string
  dg_protocol :: string
  dg_ip :: string
  dg_port :: int
  dg_unit :: int
  dg_poll_ms :: int
  dg_sensors :: "sensor_config list"

text \<open>The result, or the exception that leaves the function.\<close>

datatype config_load = Loaded "device_config list" | LoadError string | Escapes

record loader =
  lo_exchange :: "string \<Rightarrow> int \<Rightarrow> string \<Rightarrow> string"
  lo_parse :: "string \<Rightarrow> json option"
  lo_dump :: "json \<Rightarrow> string"

section \<open>URL and HTTP\<close>

text \<open>\<open>std::stoi\<close>\<close>

definition stoi :: "string \<Rightarrow> int option" where
  "stoi s = (case stoll_raw s of Some i \<Rightarrow> if int32_ok i then Some i else None | None \<Rightarrow> None)"

record url_parts =
  up_host :: string
  up_port :: int
  up_path :: string

definition cut_at :: "char \<Rightarrow> string \<Rightarrow> string \<times> string" where
  "cut_at c s = (case find_char c s of None \<Rightarrow> (s, []) | Some i \<Rightarrow> (take i s, drop i s))"

text \<open>Inl: the exception of \<open>stoi\<close>; None: no URL.\<close>

definition parseUrl :: "string \<Rightarrow> url_parts option result" where
  "parseUrl url =
    (if \<not> starts_with ''http://'' url then Inr None
     else
       let (hostPort, tail) = cut_at (CHR ''/'') (drop 7 url);
           path = (if tail = [] then ''/'' else tail);
           (host, colon) = cut_at (CHR '':'') hostPort in
       case (if colon = [] then Some 80 else stoi (tl colon)) of
         None \<Rightarrow> Inl (StdError ''stoi'')
       | Some port \<Rightarrow> Inr (if host = [] then None else Some \<lparr>up_host = host, up_port = port, up_path = path\<rparr>))"

definition crlf :: string where
  "crlf = [CHR 0x0D, CHR 0x0A]"

definition get_request :: "string \<Rightarrow> string \<Rightarrow> string \<Rightarrow> string" where
  "get_request host path token =
    ''GET '' @ path @ '' HTTP/1.1'' @ crlf @ ''Host: '' @ host @ crlf
      @ (if token = [] then [] else ''Authorization: Bearer '' @ token @ crlf) @ ''Connection: close'' @ crlf @ crlf"

definition post_request :: "string \<Rightarrow> string \<Rightarrow> string \<Rightarrow> string" where
  "post_request host path body =
    ''POST '' @ path @ '' HTTP/1.1'' @ crlf @ ''Host: '' @ host @ crlf @ ''Content-Type: application/json'' @ crlf
      @ ''Content-Length: '' @ to_string (int (length body)) @ crlf @ ''Connection: close'' @ crlf @ crlf @ body"

text \<open>The text after the first empty line; the empty text without one.\<close>

fun body_of :: "string \<Rightarrow> string" where
  "body_of [] = []"
| "body_of (c # cs) = (if starts_with (crlf @ crlf) (c # cs) then drop 3 cs else body_of cs)"

definition httpGet :: "loader \<Rightarrow> string \<Rightarrow> int \<Rightarrow> string \<Rightarrow> string \<Rightarrow> string" where
  "httpGet e host port path token = body_of (lo_exchange e host port (get_request host path token))"

definition httpPost :: "loader \<Rightarrow> string \<Rightarrow> int \<Rightarrow> string \<Rightarrow> string \<Rightarrow> string" where
  "httpPost e host port path body = body_of (lo_exchange e host port (post_request host path body))"

section \<open>Log in\<close>

text \<open>The token, or the error.\<close>

definition read_token :: "loader \<Rightarrow> string \<Rightarrow> string + string" where
  "read_token e resp =
    (case lo_parse e resp of
       None \<Rightarrow> Inl ''login response parse error''
     | Some j \<Rightarrow>
         (case field_value 0 (jint32 ''code'' j) of
            Inl _ \<Rightarrow> Inl ''login response parse error''
          | Inr code \<Rightarrow>
              if code \<noteq> 200
              then (case field_value ''unknown'' (jstr ''message'' j) of
                      Inl _ \<Rightarrow> Inl ''login response parse error''
                    | Inr m \<Rightarrow> Inl (''login failed: '' @ m))
              else
                (case field_value [] (jstr ''access_token'' (or_else (member ''data'' j) JNull)) of
                   Inl _ \<Rightarrow> Inl ''login response parse error''
                 | Inr t \<Rightarrow> if t = [] then Inl ''login returned empty token'' else Inr t)))"

section \<open>Devices and sensors\<close>

text \<open>What becomes of an element of a list: it is kept, skipped, or ends the load.\<close>

datatype 'a item = Keep 'a | Skip | Stop string

definition malformed :: string where
  "malformed = ''devices response parse error''"

definition load_sensor :: "json \<Rightarrow> sensor_config item" where
  "load_sensor s =
    (case (field_value 0 (jlong ''id'' s), field_value [] (jstr ''sensor_code'' s), field_value [] (jstr ''sensor_name'' s),
           field_value ''uint16'' (jstr ''data_type'' s), field_value [] (jstr ''unit'' s),
           field_value 1 (jreal ''scale_factor'' s), field_value 1000 (jint32 ''sample_interval'' s),
           field_value [] (jstr ''register_addr'' s)) of
       (Inr i, Inr code, Inr name, Inr ty, Inr u, Inr sc, Inr iv, Inr addr_text) \<Rightarrow>
         (case (if addr_text = [] then Some 0 else stoi addr_text) of
            None \<Rightarrow> Stop malformed
          | Some addr \<Rightarrow>
              if i \<le> 0 then Stop (''invalid sensor_id for '' @ code)
              else if addr \<le> 0 then Skip
              else Keep \<lparr>sg_id = i, sg_code = code, sg_name = name, sg_type = ty, sg_unit = u, sg_addr = addr,
                         sg_scale = sc, sg_interval = iv\<rparr>)
     | _ \<Rightarrow> Stop malformed)"

fun load_all :: "('j \<Rightarrow> 'a item) \<Rightarrow> 'j list \<Rightarrow> string + 'a list" where
  "load_all f [] = Inr []"
| "load_all f (j # js) =
     (case f j of
        Stop m \<Rightarrow> Inl m
      | Skip \<Rightarrow> load_all f js
      | Keep a \<Rightarrow> (case load_all f js of Inl m \<Rightarrow> Inl m | Inr as \<Rightarrow> Inr (a # as)))"

definition sensor_items :: "json \<Rightarrow> json list" where
  "sensor_items d = (case member ''sensors'' d of Some (JArr xs) \<Rightarrow> xs | _ \<Rightarrow> [])"

text \<open>\<open>unit_id\<close> and \<open>poll_interval_ms\<close>, from \<open>connection_config\<close> when it is an object.\<close>

definition connection_values :: "json \<Rightarrow> (int \<times> int) result" where
  "connection_values d =
    (case member ''connection_config'' d of
       Some (JObj kvs) \<Rightarrow>
         (case (field_value 1 (jint32 ''unit_id'' (JObj kvs)), field_value 1000 (jint32 ''poll_interval_ms'' (JObj kvs))) of
            (Inr u, Inr p) \<Rightarrow> Inr (u, p)
          | _ \<Rightarrow> Inl JsonError)
     | _ \<Rightarrow> Inr (1, 1000))"

definition load_device :: "json \<Rightarrow> device_config item" where
  "load_device d =
    (case (field_value 0 (jlong ''id'' d), field_value [] (jstr ''device_code'' d), field_value [] (jstr ''device_name'' d),
           field_value [] (jstr ''protocol'' d), field_value [] (jstr ''ip_address'' d), field_value 502 (jint32 ''port'' d),
           connection_values d) of
       (Inr i, Inr code, Inr name, Inr protocol, Inr ip, Inr port, Inr (unit_id, poll)) \<Rightarrow>
         if protocol \<noteq> ''modbus_tcp'' then Skip
         else if ip = [] \<or> port = 0 then Skip
         else if i \<le> 0 then Stop (''invalid device_id for '' @ code)
         else
           (case load_all load_sensor (sensor_items d) of
              Inl m \<Rightarrow> Stop m
            | Inr sensors \<Rightarrow>
                if sensors = [] then Skip
                else Keep \<lparr>dg_id = i, dg_code = code, dg_name = name, dg_protocol = protocol, dg_ip = ip,
                           dg_port = port, dg_unit = unit_id, dg_poll_ms = poll, dg_sensors = sensors\<rparr>)
     | _ \<Rightarrow> Stop malformed)"

text \<open>\<open>j["data"]["list"]\<close>: a key that is missing gives null; other values than objects throw.\<close>

definition device_items :: "json \<Rightarrow> string + json list" where
  "device_items j =
    (case or_else (member ''data'' j) JNull of
       JObj kvs \<Rightarrow> (case or_else (map_of kvs ''list'') JNull of JArr xs \<Rightarrow> Inr xs | _ \<Rightarrow> Inl ''devices list not array'')
     | JNull \<Rightarrow> Inl ''devices list not array''
     | _ \<Rightarrow> Inl malformed)"

definition read_devices :: "loader \<Rightarrow> string \<Rightarrow> config_load" where
  "read_devices e resp =
    (case lo_parse e resp of
       None \<Rightarrow> LoadError malformed
     | Some j \<Rightarrow>
         (case field_value 0 (jint32 ''code'' j) of
            Inl _ \<Rightarrow> LoadError malformed
          | Inr code \<Rightarrow>
              if code \<noteq> 200
              then (case field_value ''unknown'' (jstr ''message'' j) of
                      Inl _ \<Rightarrow> LoadError malformed
                    | Inr m \<Rightarrow> LoadError (''devices fetch failed: '' @ m))
              else
                (case device_items j of
                   Inl m \<Rightarrow> LoadError m
                 | Inr ds \<Rightarrow>
                     (case load_all load_device ds of
                        Inl m \<Rightarrow> LoadError m
                      | Inr [] \<Rightarrow> LoadError ''no valid modbus_tcp devices configured''
                      | Inr devices \<Rightarrow> Loaded devices))))"

section \<open>The load\<close>

definition login_path :: string where
  "login_path = ''/api/v1/auth/login''"

definition devices_path :: string where
  "devices_path = ''/api/v1/iot/devices?page=1&page_size=999''"

definition loadConfig :: "loader \<Rightarrow> string \<Rightarrow> string \<Rightarrow> string \<Rightarrow> config_load" where
  "loadConfig e backend username password =
    (case parseUrl backend of
       Inl _ \<Rightarrow> Escapes
     | Inr None \<Rightarrow> LoadError (''invalid backend_url: '' @ backend)
     | Inr (Some u) \<Rightarrow>
         let login = lo_dump e (JObj [(''password'', JStr password), (''username'', JStr username)]);
             resp = httpPost e (up_host u) (up_port u) login_path login in
         if resp = [] then LoadError (''login request failed (backend unreachable at '' @ backend @ '')'')
         else
           (case read_token e resp of
              Inl m \<Rightarrow> LoadError m
            | Inr token \<Rightarrow>
                let devs = httpGet e (up_host u) (up_port u) devices_path token in
                if devs = [] then LoadError ''devices request failed'' else read_devices e devs))"

section \<open>Lemmas\<close>

lemma load_all_keeps:
  assumes "load_all f js = Inr as" and "\<And>j a. f j = Keep a \<Longrightarrow> P a"
  shows "list_all P as"
  using assms(1) by (induction js arbitrary: as) (auto split: item.splits sum.splits dest: assms(2))

lemma load_all_skips: "(\<And>j. j \<in> set js \<Longrightarrow> f j = Skip) \<Longrightarrow> load_all f js = Inr []"
  by (induction js) simp_all

lemma load_all_never_keeps: "(\<And>j a. j \<in> set js \<Longrightarrow> f j \<noteq> Keep a) \<Longrightarrow> load_all f js = Inr as \<Longrightarrow> as = []"
  by (induction js arbitrary: as) (auto split: item.splits sum.splits)

definition sensor_config_ok :: "sensor_config \<Rightarrow> bool" where
  "sensor_config_ok s \<longleftrightarrow> 0 < sg_id s \<and> 0 < sg_addr s \<and> int32_ok (sg_addr s)"

definition device_config_ok :: "device_config \<Rightarrow> bool" where
  "device_config_ok d \<longleftrightarrow> 0 < dg_id d \<and> dg_protocol d = ''modbus_tcp'' \<and> dg_ip d \<noteq> [] \<and> dg_port d \<noteq> 0
    \<and> dg_sensors d \<noteq> [] \<and> list_all sensor_config_ok (dg_sensors d)"

lemma load_sensor_ok: "load_sensor s = Keep c \<Longrightarrow> sensor_config_ok c"
  by (auto simp: load_sensor_def sensor_config_ok_def stoi_def split: sum.splits option.splits if_splits)

lemma load_sensors_ok: "load_all load_sensor js = Inr as \<Longrightarrow> list_all sensor_config_ok as"
  using load_all_keeps [of load_sensor js as sensor_config_ok] load_sensor_ok by blast

lemma load_device_ok: "load_device d = Keep c \<Longrightarrow> device_config_ok c"
  by (auto simp: load_device_def device_config_ok_def split: sum.splits if_splits) (rule load_sensors_ok, assumption)

end
