(* ===== verification/Device_Poller.thy ===== *)
theory Device_Poller
  imports Modbus_Client Config_Loader "HOL-Library.Multiset"
begin

text \<open>
  The poller of one device (\<open>mes-iot/src/collector/DevicePoller.cc\<close>): the frames into which the sensors'
  registers are merged, the decoding of register values, and the polling loop with its pauses and its
  backoff, one iteration at a time. Reading past the end of the registers is undefined behaviour and is
  the value None. The scaled value is an exact rational; a \<open>float\<close> that is infinite or no number is
  \<open>NonFinite\<close>. The clock's text is a parameter.
\<close>

unbundle bit_operations_syntax

section \<open>Frames\<close>

definition kRegisterBase :: int where "kRegisterBase = 40001"
definition kMaxReconnectBackoffSec :: int where "kMaxReconnectBackoffSec = 30"
definition kQualityGood :: int where "kQualityGood = 192"

record read_frame =
  fr_start :: "16 word"
  fr_quantity :: "16 word"
  fr_sensors :: "nat list"

definition reg_count :: "string \<Rightarrow> nat" where
  "reg_count ty = (if ty = ''int32'' \<or> ty = ''uint32'' \<or> ty = ''float32'' then 2 else 1)"

definition modbus_addr :: "int \<Rightarrow> 16 word" where
  "modbus_addr addr = of_int (addr - kRegisterBase)"

definition new_frame :: "sensor_config list \<Rightarrow> nat \<Rightarrow> read_frame" where
  "new_frame ss i =
    \<lparr>fr_start = modbus_addr (sg_addr (ss ! i)), fr_quantity = of_nat (reg_count (sg_type (ss ! i))), fr_sensors = [i]\<rparr>"

definition joins :: "sensor_config list \<Rightarrow> read_frame \<Rightarrow> nat \<Rightarrow> bool" where
  "joins ss cur i \<longleftrightarrow> modbus_addr (sg_addr (ss ! i)) = fr_start cur + fr_quantity cur
    \<and> unat (fr_quantity cur) + reg_count (sg_type (ss ! i)) \<le> 125"

definition extend_frame :: "sensor_config list \<Rightarrow> read_frame \<Rightarrow> nat \<Rightarrow> read_frame" where
  "extend_frame ss cur i =
    cur\<lparr>fr_quantity := fr_quantity cur + of_nat (reg_count (sg_type (ss ! i))), fr_sensors := fr_sensors cur @ [i]\<rparr>"

fun merge_from :: "sensor_config list \<Rightarrow> read_frame \<Rightarrow> nat list \<Rightarrow> read_frame list" where
  "merge_from ss cur [] = [cur]"
| "merge_from ss cur (i # is) =
     (if joins ss cur i then merge_from ss (extend_frame ss cur i) is
      else cur # merge_from ss (new_frame ss i) is)"

text \<open>
  \<open>std::sort\<close> leaves open the order of sensors with the same address: \<open>order\<close> is what it gives.
\<close>

definition by_address :: "sensor_config list \<Rightarrow> nat list \<Rightarrow> bool" where
  "by_address ss order \<longleftrightarrow> mset order = mset [0..<length ss] \<and> sorted (map (\<lambda>i. sg_addr (ss ! i)) order)"

definition mergeFrames :: "sensor_config list \<Rightarrow> nat list \<Rightarrow> read_frame list" where
  "mergeFrames ss order = (case order of [] \<Rightarrow> [] | i # is \<Rightarrow> merge_from ss (new_frame ss i) is)"

section \<open>Values\<close>

datatype number = Num rat | NonFinite

definition float32 :: "32 word \<Rightarrow> number" where
  "float32 w =
    (let e = unat (take_bit 8 (drop_bit 23 w)); f = unat (take_bit 23 w);
         mag = (if e = 0 then of_nat f / 2 ^ 149
                else if e \<ge> 150 then of_nat (2 ^ 23 + f) * 2 ^ (e - 150)
                else of_nat (2 ^ 23 + f) / 2 ^ (150 - e)) in
     if e = 255 then NonFinite else Num (if bit w 31 then - mag else mag))"

definition pair32 :: "16 word \<Rightarrow> 16 word \<Rightarrow> 32 word" where
  "pair32 hi lo = push_bit 16 (ucast hi) OR ucast lo"

definition decode :: "string \<Rightarrow> 16 word \<Rightarrow> 16 word \<Rightarrow> number" where
  "decode ty r0 r1 =
    (if ty = ''uint16'' then Num (of_nat (unat r0))
     else if ty = ''int16'' then Num (of_int (sint r0))
     else if ty = ''uint32'' then Num (of_nat (unat (pair32 r0 r1)))
     else if ty = ''int32'' then Num (of_int (sint (pair32 r0 r1)))
     else if ty = ''float32'' then float32 (pair32 r0 r1)
     else Num (of_nat (unat r0)))"

definition scaled :: "rat \<Rightarrow> number \<Rightarrow> number" where
  "scaled k v = (case v of Num r \<Rightarrow> Num (r * k) | NonFinite \<Rightarrow> NonFinite)"

definition extractValue :: "sensor_config \<Rightarrow> 16 word list \<Rightarrow> nat \<Rightarrow> number option" where
  "extractValue s regs off =
    (if off + reg_count (sg_type s) \<le> length regs
     then Some (scaled (sg_scale s) (decode (sg_type s) (regs ! off) (if reg_count (sg_type s) = 2 then regs ! (off + 1) else 0)))
     else None)"

section \<open>Messages\<close>

definition number_json :: "number \<Rightarrow> json" where
  "number_json v = (case v of Num r \<Rightarrow> JReal r | NonFinite \<Rightarrow> JNull)"

definition reading_message :: "device_config \<Rightarrow> sensor_config \<Rightarrow> string \<Rightarrow> number \<Rightarrow> json" where
  "reading_message c s ts v =
    JObj [(''version'', JStr ''1.0''), (''device_id'', JInt (dg_id c)), (''device_code'', JStr (dg_code c)),
      (''sensor_id'', JInt (sg_id s)), (''value'', number_json v), (''quality'', JInt kQualityGood), (''ts'', JStr ts)]"

fun frame_messages :: "device_config \<Rightarrow> string \<Rightarrow> 16 word list \<Rightarrow> nat \<Rightarrow> nat list \<Rightarrow> json list option" where
  "frame_messages c ts regs off [] = Some []"
| "frame_messages c ts regs off (i # is) =
     (let s = dg_sensors c ! i in
      case extractValue s regs off of
        None \<Rightarrow> None
      | Some v \<Rightarrow>
          map_option ((#) (reading_message c s ts v)) (frame_messages c ts regs (off + reg_count (sg_type s)) is))"

text \<open>The frames in turn: what is published, whether all were read, and the connection.\<close>

fun read_frames :: "network \<Rightarrow> device_config \<Rightarrow> string \<Rightarrow> read_frame list \<Rightarrow> modbus \<Rightarrow> (json list \<times> bool \<times> modbus) option" where
  "read_frames w c ts [] m = Some ([], True, m)"
| "read_frames w c ts (f # fs) m =
     (case readHoldingRegisters w (fr_start f) (fr_quantity f) m of
        (r, m1) \<Rightarrow>
          if rr_error r \<noteq> Ok then Some ([], False, m1)
          else
            (case frame_messages c ts (rr_registers r) 0 (fr_sensors f) of
               None \<Rightarrow> None
             | Some msgs \<Rightarrow>
                 map_option (\<lambda>(more, ok, m2). (msgs @ more, ok, m2)) (read_frames w c ts fs m1)))"

section \<open>The loop\<close>

record poller =
  pl_config :: device_config
  pl_frames :: "read_frame list"
  pl_running :: bool
  pl_paused :: bool
  pl_client :: modbus
  pl_backoff :: int
  pl_sent :: "json list"

definition fresh_client :: "device_config \<Rightarrow> modbus" where
  "fresh_client c = modbus_client (dg_ip c) (dg_port c) (dg_unit c)"

definition device_poller :: "device_config \<Rightarrow> nat list \<Rightarrow> poller" where
  "device_poller c order =
    \<lparr>pl_config = c, pl_frames = mergeFrames (dg_sensors c) order, pl_running = False, pl_paused = False,
     pl_client = fresh_client c, pl_backoff = 1, pl_sent = []\<rparr>"

text \<open>The thread of a started poller begins with a client of its own and a backoff of a second.\<close>

definition start :: "poller \<Rightarrow> poller" where
  "start p = (if pl_running p then p
    else p\<lparr>pl_running := True, pl_client := fresh_client (pl_config p), pl_backoff := 1\<rparr>)"

definition stop :: "poller \<Rightarrow> poller" where
  "stop p = p\<lparr>pl_running := False, pl_client := disconnect (pl_client p)\<rparr>"

definition pause :: "poller \<Rightarrow> poller" where
  "pause p = p\<lparr>pl_paused := True\<rparr>"

definition resume :: "poller \<Rightarrow> poller" where
  "resume p = p\<lparr>pl_paused := False\<rparr>"

definition grow :: "int \<Rightarrow> int" where
  "grow b = min (b * 2) kMaxReconnectBackoffSec"

text \<open>One iteration, with the milliseconds slept at its end; None: undefined behaviour.\<close>

definition poll_connected :: "network \<Rightarrow> string \<Rightarrow> poller \<Rightarrow> (poller \<times> int) option" where
  "poll_connected w ts p =
    (case read_frames w (pl_config p) ts (pl_frames p) (pl_client p) of
       None \<Rightarrow> None
     | Some (msgs, ok, m) \<Rightarrow>
         let p1 = p\<lparr>pl_sent := pl_sent p @ msgs\<rparr> in
         if ok then Some (p1\<lparr>pl_client := m\<rparr>, dg_poll_ms (pl_config p))
         else Some (p1\<lparr>pl_client := disconnect m, pl_backoff := grow (pl_backoff p)\<rparr>, pl_backoff p * 1000))"

definition poll_once :: "network \<Rightarrow> string \<Rightarrow> poller \<Rightarrow> (poller \<times> int) option" where
  "poll_once w ts p =
    (if \<not> pl_running p then Some (p, 0)
     else if pl_paused p then Some (p, 500)
     else if mb_sock (pl_client p) then poll_connected w ts p
     else
       case connect w (pl_client p) of
         (False, m) \<Rightarrow> Some (p\<lparr>pl_client := m, pl_backoff := grow (pl_backoff p)\<rparr>, pl_backoff p * 1000)
       | (True, m) \<Rightarrow> poll_connected w ts (p\<lparr>pl_client := m, pl_backoff := 1\<rparr>))"

text \<open>Iterations, each with the network and the clock of its time.\<close>

fun poll_run :: "(network \<times> string) list \<Rightarrow> poller \<Rightarrow> (poller \<times> int list) option" where
  "poll_run [] p = Some (p, [])"
| "poll_run ((w, ts) # es) p =
     (case poll_once w ts p of
        None \<Rightarrow> None
      | Some (q, ms) \<Rightarrow> map_option (\<lambda>(r, waits). (r, ms # waits)) (poll_run es q))"

end
