(* ===== verification/Collector.thy ===== *)
theory Collector
  imports Device_Poller "HOL-Library.Sublist"
begin

text \<open>
  The rest of the collector: the consumer of commands (\<open>mes-iot/src/cmd/CmdConsumer.cc\<close>), the batch
  publisher and the start of the program (\<open>mes-iot/src/main.cc\<close>). A turn of a loop is a step; what the
  broker does in it (connect, deliver, time out, fail) is in the event.
\<close>

section \<open>Commands\<close>

record consumer =
  cc_running :: bool
  cc_channel :: bool
  cc_pollers :: "int \<rightharpoonup> poller"
  cc_acked :: "nat list"

definition cmd_consumer :: consumer where
  "cmd_consumer = \<lparr>cc_running = False, cc_channel = False, cc_pollers = Map.empty, cc_acked = []\<rparr>"

definition registerPoller :: "poller \<Rightarrow> consumer \<Rightarrow> consumer" where
  "registerPoller p c = c\<lparr>cc_pollers := (cc_pollers c)(dg_id (pl_config p) \<mapsto> p)\<rparr>"

text \<open>One message: the poller of the device is paused or resumed; anything else changes nothing.\<close>

definition handle_command :: "(string \<Rightarrow> json option) \<Rightarrow> string \<Rightarrow> (int \<rightharpoonup> poller) \<Rightarrow> (int \<rightharpoonup> poller)" where
  "handle_command parse body ps =
    (case parse body of
       None \<Rightarrow> ps
     | Some j \<Rightarrow>
         (case (field_value 0 (jlong ''device_id'' j), field_value [] (jstr ''action'' j)) of
            (Inr i, Inr action) \<Rightarrow>
              (case ps i of
                 None \<Rightarrow> ps
               | Some p \<Rightarrow>
                   if action = ''stop'' then ps(i \<mapsto> pause p)
                   else if action = ''resume'' then ps(i \<mapsto> resume p)
                   else ps)
          | _ \<Rightarrow> ps))"

text \<open>
  A turn: without a channel one is made (connection, queue, bindings, consumer); with one a message is
  waited for. Every message that was handled is acknowledged, unless that fails.
\<close>

datatype cmd_event = Connects bool | NoMessage | Cancelled | Fails | Message nat string bool

definition consume_turn :: "(string \<Rightarrow> json option) \<Rightarrow> cmd_event \<Rightarrow> consumer \<Rightarrow> consumer" where
  "consume_turn parse ev c =
    (if \<not> cc_running c then c\<lparr>cc_channel := False\<rparr>
     else if \<not> cc_channel c then (case ev of Connects ok \<Rightarrow> c\<lparr>cc_channel := ok\<rparr> | _ \<Rightarrow> c)
     else
       case ev of
         Message tag body ack \<Rightarrow>
           let c1 = c\<lparr>cc_pollers := handle_command parse body (cc_pollers c)\<rparr> in
           if ack then c1\<lparr>cc_acked := cc_acked c @ [tag]\<rparr> else c1\<lparr>cc_channel := False\<rparr>
       | NoMessage \<Rightarrow> c
       | Connects ok \<Rightarrow> c
       | Cancelled \<Rightarrow> c\<lparr>cc_channel := False\<rparr>
       | Fails \<Rightarrow> c\<lparr>cc_channel := False\<rparr>)"

definition start_consumer :: "consumer \<Rightarrow> consumer" where
  "start_consumer c = (if cc_running c then c else c\<lparr>cc_running := True, cc_channel := False\<rparr>)"

definition stop_consumer :: "consumer \<Rightarrow> consumer" where
  "stop_consumer c = c\<lparr>cc_running := False\<rparr>"

section \<open>The batch publisher\<close>

text \<open>
  \<open>pb_lost\<close> records, for the statements only, the messages that left the queue and were not published.
\<close>

record publisher =
  pb_batch :: int
  pb_running :: bool
  pb_channel :: bool
  pb_queue :: "string list"
  pb_published :: "string list"
  pb_lost :: "string list"

text \<open>
  A turn of the loop: whether a channel can be made, and after how many messages publishing fails
  (None: it does not).
\<close>

datatype publish_event = Submit string | Loop bool "nat option" | Quit

definition publish_batch :: "bool \<Rightarrow> nat option \<Rightarrow> publisher \<Rightarrow> publisher" where
  "publish_batch connects brk p =
    (let batch = take (nat (pb_batch p)) (pb_queue p); p1 = p\<lparr>pb_queue := drop (nat (pb_batch p)) (pb_queue p)\<rparr> in
     if batch = [] then p1
     else if \<not> pb_channel p \<and> \<not> connects then p1\<lparr>pb_channel := False, pb_lost := pb_lost p @ batch\<rparr>
     else
       case brk of
         None \<Rightarrow> p1\<lparr>pb_channel := True, pb_published := pb_published p @ batch\<rparr>
       | Some n \<Rightarrow>
           if n < length batch
           then p1\<lparr>pb_channel := False, pb_published := pb_published p @ take n batch, pb_lost := pb_lost p @ drop n batch\<rparr>
           else p1\<lparr>pb_channel := True, pb_published := pb_published p @ batch\<rparr>)"

fun publisher_step :: "publish_event \<Rightarrow> publisher \<Rightarrow> publisher" where
  "publisher_step (Submit m) p = p\<lparr>pb_queue := pb_queue p @ [m]\<rparr>"
| "publisher_step (Loop connects brk) p = (if pb_running p then publish_batch connects brk p else p)"
| "publisher_step Quit p = p\<lparr>pb_running := False\<rparr>"

definition batch_publisher :: "int \<Rightarrow> publisher" where
  "batch_publisher n = \<lparr>pb_batch = n, pb_running = True, pb_channel = False, pb_queue = [], pb_published = [], pb_lost = []\<rparr>"

section \<open>The start of the program\<close>

text \<open>The pollers the program starts; None: the exception of the configuration ends it.\<close>

definition start_pollers :: "(device_config \<Rightarrow> nat list) \<Rightarrow> device_config list \<Rightarrow> poller list" where
  "start_pollers order ds = map (\<lambda>d. Device_Poller.start (device_poller d (order d))) ds"

definition collector_main :: "loader \<Rightarrow> (device_config \<Rightarrow> nat list) \<Rightarrow> string \<Rightarrow> string \<Rightarrow> string \<Rightarrow> poller list option" where
  "collector_main e order backend username password =
    (if password = [] then Some []
     else
       case loadConfig e backend username password of
         Escapes \<Rightarrow> None
       | LoadError m \<Rightarrow> Some []
       | Loaded ds \<Rightarrow> Some (start_pollers order ds))"

definition registered :: "poller list \<Rightarrow> consumer" where
  "registered ps = start_consumer (fold registerPoller ps cmd_consumer)"

section \<open>Lemmas\<close>

text \<open>What was put into the queue.\<close>

fun enqueued :: "publish_event list \<Rightarrow> string list" where
  "enqueued [] = []"
| "enqueued (Submit m # es) = m # enqueued es"
| "enqueued (e # es) = enqueued es"

definition failing :: "publish_event \<Rightarrow> bool" where
  "failing e = (case e of Loop connects brk \<Rightarrow> \<not> connects \<or> brk \<noteq> None | _ \<Rightarrow> False)"

lemma publish_batch_lost: "length (pb_lost (publish_batch c b p)) \<le> length (pb_lost p) + nat (pb_batch p)"
  by (auto simp: publish_batch_def Let_def split: option.splits)

lemma publish_batch_split:
  "\<exists>out lost. pb_queue p = out @ lost @ pb_queue (publish_batch c b p)
    \<and> pb_published (publish_batch c b p) = pb_published p @ out \<and> pb_lost (publish_batch c b p) = pb_lost p @ lost
    \<and> pb_batch (publish_batch c b p) = pb_batch p \<and> pb_running (publish_batch c b p) = pb_running p
    \<and> (c \<and> b = None \<longrightarrow> lost = [])"
proof -
  let ?n = "nat (pb_batch p)"
  let ?b = "take ?n (pb_queue p)"
  have s: "pb_queue p = ?b @ drop ?n (pb_queue p)" by simp
  have t: "pb_queue p = take k ?b @ drop k ?b @ drop ?n (pb_queue p)" for k
    by (metis append.assoc append_take_drop_id)
  consider "?b = []" | "?b \<noteq> []" "\<not> pb_channel p \<and> \<not> c" | "?b \<noteq> []" "pb_channel p \<or> c" by blast
  then show ?thesis
  proof cases
    case 1
    have "drop ?n (pb_queue p) = pb_queue p" using s unfolding 1 by simp
    then show ?thesis using 1 by (intro exI [of _ "[]"]) (simp add: publish_batch_def Let_def)
  next
    case 2
    then show ?thesis
      by (intro exI [of _ "[]"] exI [of _ ?b]) (simp add: publish_batch_def Let_def)
  next
    case 3
    show ?thesis
    proof (cases "\<exists>k. b = Some k \<and> k < length ?b")
      case True
      then obtain k where k: "b = Some k" "k < length ?b" by blast
      show ?thesis
        by (intro exI [of _ "take k ?b"] exI [of _ "drop k ?b"])
          (use 3 k t [of k] in \<open>auto simp: publish_batch_def Let_def\<close>)
    next
      case False
      show ?thesis
        by (intro exI [of _ ?b] exI [of _ "[]"])
          (use 3 False in \<open>auto simp: publish_batch_def Let_def split: option.splits\<close>)
    qed
  qed
qed

end
