(* ===== verification/Poller_Props.thy ===== *)
theory Poller_Props
  imports Device_Poller
begin

text \<open>
  What the poller publishes: the frames cover the sensors and line up with their registers, so one
  iteration against a device that serves its registers publishes the value of every sensor; the schedule
  of the backoff; and what an exception reply leads to.
\<close>

section \<open>Frames\<close>

abbreviation width :: "sensor_config list \<Rightarrow> nat \<Rightarrow> nat" where
  "width ss i \<equiv> reg_count (sg_type (ss ! i))"

definition offset_of :: "sensor_config list \<Rightarrow> nat \<Rightarrow> nat" where
  "offset_of ss i = nat (sg_addr (ss ! i) - kRegisterBase)"

definition holding_register :: "sensor_config \<Rightarrow> bool" where
  "holding_register s \<longleftrightarrow> kRegisterBase \<le> sg_addr s \<and> sg_addr s - kRegisterBase + int (reg_count (sg_type s)) \<le> 65536"

text \<open>The registers of the sensors follow one another from an offset on.\<close>

fun aligned :: "sensor_config list \<Rightarrow> nat \<Rightarrow> nat list \<Rightarrow> bool" where
  "aligned ss a [] = True"
| "aligned ss a (i # is) \<longleftrightarrow> offset_of ss i = a \<and> aligned ss (a + width ss i) is"

lemma aligned_append: "aligned ss a (is @ js) \<longleftrightarrow> aligned ss a is \<and> aligned ss (a + sum_list (map (width ss) is)) js"
  by (induction "is" arbitrary: a) (auto simp: add.assoc)

definition frame_ok :: "sensor_config list \<Rightarrow> read_frame \<Rightarrow> bool" where
  "frame_ok ss f \<longleftrightarrow> fr_sensors f \<noteq> [] \<and> aligned ss (unat (fr_start f)) (fr_sensors f)
    \<and> unat (fr_quantity f) = sum_list (map (width ss) (fr_sensors f)) \<and> unat (fr_quantity f) \<le> 125
    \<and> unat (fr_start f) + unat (fr_quantity f) \<le> 65536"

lemma reg_count_range: "reg_count ty = 1 \<or> reg_count ty = 2"
  by (simp add: reg_count_def)

lemma reg_count_pos [simp]: "0 < reg_count ty" "reg_count ty \<le> 2"
  using reg_count_range [of ty] by auto

lemma unat_reg_count [simp]: "unat (of_nat (reg_count ty) :: 16 word) = reg_count ty"
  using reg_count_range [of ty] by auto

lemma unat_modbus_addr: "holding_register (ss ! i) \<Longrightarrow> unat (modbus_addr (sg_addr (ss ! i))) = offset_of ss i"
proof -
  assume h: "holding_register (ss ! i)"
  have "0 < reg_count (sg_type (ss ! i))" by simp
  with h have "0 \<le> sg_addr (ss ! i) - kRegisterBase" "sg_addr (ss ! i) - kRegisterBase < 65536"
    unfolding holding_register_def by linarith+
  then have "int (unat (modbus_addr (sg_addr (ss ! i)))) = sg_addr (ss ! i) - kRegisterBase"
    by (simp add: modbus_addr_def unsigned_of_int take_bit_int_eq_self del: of_int_diff)
  then show ?thesis unfolding offset_of_def by linarith
qed

lemma offset_width: "holding_register (ss ! i) \<Longrightarrow> offset_of ss i + width ss i \<le> 65536"
  by (auto simp: holding_register_def offset_of_def)

lemma new_frame_ok: "holding_register (ss ! i) \<Longrightarrow> frame_ok ss (new_frame ss i)"
  using offset_width [of ss i] reg_count_range [of "sg_type (ss ! i)"]
  by (auto simp: frame_ok_def new_frame_def unat_modbus_addr)

lemma unat_add16: "unat a + unat b < 65536 \<Longrightarrow> unat (a + b :: 16 word) = unat a + unat b"
  by (simp add: unat_add_lem [THEN iffD1])

lemma extend_frame_ok:
  assumes "frame_ok ss cur" and "joins ss cur i" and h: "holding_register (ss ! i)"
    and le: "unat (fr_start cur) \<le> offset_of ss i"
  shows "frame_ok ss (extend_frame ss cur i)"
proof -
  have q: "unat (fr_quantity cur) + width ss i \<le> 125" and a: "modbus_addr (sg_addr (ss ! i)) = fr_start cur + fr_quantity cur"
    using assms(2) by (simp_all add: joins_def)
  have top: "unat (fr_start cur) + unat (fr_quantity cur) \<le> 65536" using assms(1) by (simp add: frame_ok_def)
  have "unat (fr_start cur) + unat (fr_quantity cur) \<noteq> 65536"
  proof
    assume e: "unat (fr_start cur) + unat (fr_quantity cur) = 65536"
    have "fr_start cur + fr_quantity cur = of_nat (unat (fr_start cur) + unat (fr_quantity cur))" by simp
    also have "\<dots> = (0 :: 16 word)" unfolding e by simp
    finally have "offset_of ss i = 0" using unat_modbus_addr [OF h] a by simp
    with le e q show False by simp
  qed
  with top have "offset_of ss i = unat (fr_start cur) + unat (fr_quantity cur)"
    using unat_modbus_addr [OF h] a by (simp add: unat_add16)
  moreover have "unat (fr_quantity cur + of_nat (width ss i)) = unat (fr_quantity cur) + width ss i"
    using q by (subst unat_add16) simp_all
  ultimately show ?thesis
    using assms(1) q offset_width [OF h] by (auto simp: frame_ok_def extend_frame_def aligned_append)
qed

lemma extend_frame_start [simp]: "fr_start (extend_frame ss cur i) = fr_start cur"
  by (simp add: extend_frame_def)

lemma merge_from_ok:
  assumes "frame_ok ss cur" and "\<forall>i\<in>set is. holding_register (ss ! i) \<and> unat (fr_start cur) \<le> offset_of ss i"
    and "sorted (map (offset_of ss) is)"
  shows "(\<forall>f\<in>set (merge_from ss cur is). frame_ok ss f) \<and> concat (map fr_sensors (merge_from ss cur is)) = fr_sensors cur @ is"
  using assms
proof (induction ss cur "is" rule: merge_from.induct)
  case (2 ss cur i "is")
  show ?case
  proof (cases "joins ss cur i")
    case True
    have "frame_ok ss (extend_frame ss cur i)" using extend_frame_ok [OF 2(3) True] 2(4) by simp
    with 2(1) [OF True] 2(4,5) True show ?thesis by (simp add: extend_frame_def)
  next
    case False
    have n: "frame_ok ss (new_frame ss i)" using new_frame_ok 2(4) by simp
    have "unat (fr_start (new_frame ss i)) = offset_of ss i" using 2(4) by (simp add: new_frame_def unat_modbus_addr)
    with 2(2) [OF False n] 2(3,4,5) False show ?thesis by (simp add: new_frame_def)
  qed
qed simp

lemma by_address_offsets:
  assumes "by_address ss order" and "\<forall>s\<in>set ss. holding_register s"
  shows "sorted (map (offset_of ss) order)" and "\<forall>i\<in>set order. i < length ss \<and> holding_register (ss ! i)"
proof -
  have "set order = {0..<length ss}" using assms(1) mset_eq_setD [of order "[0..<length ss]"] by (simp add: by_address_def)
  then show "\<forall>i\<in>set order. i < length ss \<and> holding_register (ss ! i)" using assms(2) by simp
  have "sorted_wrt (\<lambda>i j. sg_addr (ss ! i) \<le> sg_addr (ss ! j)) order"
    using assms(1) by (simp add: by_address_def sorted_map)
  then have "sorted_wrt (\<lambda>i j. offset_of ss i \<le> offset_of ss j) order"
    by (rule sorted_wrt_mono_rel [rotated]) (simp add: offset_of_def)
  then show "sorted (map (offset_of ss) order)" by (simp add: sorted_map)
qed

lemma mergeFrames_ok:
  assumes "by_address ss order" and "\<forall>s\<in>set ss. holding_register s"
  shows "(\<forall>f\<in>set (mergeFrames ss order). frame_ok ss f) \<and> concat (map fr_sensors (mergeFrames ss order)) = order"
proof (cases order)
  case (Cons i "is")
  note b = by_address_offsets [OF assms]
  have "frame_ok ss (new_frame ss i)" using b(2) Cons by (simp add: new_frame_ok)
  moreover have "unat (fr_start (new_frame ss i)) = offset_of ss i" using b(2) Cons by (simp add: new_frame_def unat_modbus_addr)
  ultimately show ?thesis using merge_from_ok [of ss "new_frame ss i" "is"] b Cons by (simp add: mergeFrames_def new_frame_def)
qed (simp add: mergeFrames_def)

lemma frame_quantity:
  assumes "frame_ok ss f"
  shows "fr_quantity f \<noteq> 0 \<and> fr_quantity f \<le> 125"
proof -
  obtain i "is" where "fr_sensors f = i # is" using assms by (cases "fr_sensors f") (auto simp: frame_ok_def)
  with assms have "unat (fr_quantity f) > 0"
    using reg_count_pos(1) [of "sg_type (ss ! i)"] by (simp add: frame_ok_def del: reg_count_pos)
  then have "fr_quantity f \<noteq> 0" by auto
  with assms show ?thesis by (simp add: frame_ok_def word_le_nat_alt)
qed

section \<open>A device that serves its registers\<close>

definition serves :: "network \<Rightarrow> (16 word \<Rightarrow> 16 word) \<Rightarrow> int \<Rightarrow> bool" where
  "serves w bank unit \<longleftrightarrow> (\<forall>txn sa quantity. quantity \<noteq> 0 \<and> quantity \<le> 125 \<longrightarrow>
    (\<exists>arrivals. nw_send w (request_frame txn unit sa quantity) = (12, arrivals) \<and> NoMore \<notin> set arrivals
      \<and> bytes_of arrivals = reply_frame txn unit (map (\<lambda>k. bank (sa + of_nat k)) [0..<unat quantity])))"

definition sensor_value :: "(16 word \<Rightarrow> 16 word) \<Rightarrow> sensor_config \<Rightarrow> number" where
  "sensor_value bank s =
    (let a = modbus_addr (sg_addr s) in
     scaled (sg_scale s) (decode (sg_type s) (bank a) (if reg_count (sg_type s) = 2 then bank (a + 1) else 0)))"

lemma read_served:
  assumes "serves w bank (mb_unit m)" and "quiet m" and "0 \<le> mb_unit m" and "mb_unit m < 256"
    and "quantity \<noteq> 0" and "quantity \<le> 125"
  shows "\<exists>m'. readHoldingRegisters w sa quantity m
      = (\<lparr>rr_error = Ok, rr_registers = map (\<lambda>k. bank (sa + of_nat k)) [0..<unat quantity]\<rparr>, m')
    \<and> quiet m' \<and> mb_unit m' = mb_unit m"
proof -
  obtain arrivals where a: "nw_send w (request_frame (mb_next m) (mb_unit m) sa quantity) = (12, arrivals)"
      "NoMore \<notin> set arrivals"
      "bytes_of arrivals = reply_frame (mb_next m) (mb_unit m) (map (\<lambda>k. bank (sa + of_nat k)) [0..<unat quantity])"
    using assms(1,5,6) unfolding serves_def by blast
  from read_reply [OF assms(2,3,4) _ assms(5,6) a] show ?thesis by auto
qed

lemma frame_messages_served:
  assumes "aligned (dg_sensors c) (unat sa + off) is" and "\<forall>i\<in>set is. holding_register (dg_sensors c ! i)"
    and "off + sum_list (map (width (dg_sensors c)) is) \<le> n"
  shows "frame_messages c ts (map (\<lambda>k. bank (sa + of_nat k)) [0..<n]) off is
    = Some (map (\<lambda>i. reading_message c (dg_sensors c ! i) ts (sensor_value bank (dg_sensors c ! i))) is)"
  using assms
proof (induction "is" arbitrary: off)
  case (Cons i "is")
  let ?s = "dg_sensors c ! i"
  have "unat (modbus_addr (sg_addr ?s)) = unat sa + off"
    using Cons.prems(1,2) unat_modbus_addr [of "dg_sensors c" i] by simp
  then have "of_nat (unat (modbus_addr (sg_addr ?s))) = (of_nat (unat sa + off) :: 16 word)" by (rule arg_cong)
  then have a: "modbus_addr (sg_addr ?s) = sa + of_nat off" by simp
  have fits: "off + reg_count (sg_type ?s) \<le> n" using Cons.prems(3) by simp
  then have "off < n" using reg_count_pos(1) [of "sg_type ?s"] by linarith
  with fits have "extractValue ?s (map (\<lambda>k. bank (sa + of_nat k)) [0..<n]) off = Some (sensor_value bank ?s)"
    by (auto simp: extractValue_def sensor_value_def Let_def a ac_simps)
  with Cons.IH [of "off + reg_count (sg_type ?s)"] Cons.prems show ?case by (simp add: add.assoc Let_def)
qed simp

lemma read_frames_served:
  assumes "serves w bank (mb_unit m)" and "quiet m" and "0 \<le> mb_unit m" and "mb_unit m < 256"
    and "\<forall>f\<in>set fs. frame_ok (dg_sensors c) f \<and> (\<forall>i\<in>set (fr_sensors f). holding_register (dg_sensors c ! i))"
  shows "\<exists>m'. read_frames w c ts fs m = Some
      (map (\<lambda>i. reading_message c (dg_sensors c ! i) ts (sensor_value bank (dg_sensors c ! i))) (concat (map fr_sensors fs)), True, m')
    \<and> quiet m' \<and> mb_unit m' = mb_unit m"
  using assms
proof (induction fs arbitrary: m)
  case (Cons f fs)
  have f: "frame_ok (dg_sensors c) f" "\<forall>i\<in>set (fr_sensors f). holding_register (dg_sensors c ! i)" using Cons.prems(5) by simp_all
  have q: "fr_quantity f \<noteq> 0" "fr_quantity f \<le> 125" using frame_quantity [OF f(1)] by blast+
  obtain m1 where r: "readHoldingRegisters w (fr_start f) (fr_quantity f) m
      = (\<lparr>rr_error = Ok, rr_registers = map (\<lambda>k. bank (fr_start f + of_nat k)) [0..<unat (fr_quantity f)]\<rparr>, m1)"
      "quiet m1" "mb_unit m1 = mb_unit m"
    using read_served [OF Cons.prems(1-4) q] by blast
  have "frame_messages c ts (map (\<lambda>k. bank (fr_start f + of_nat k)) [0..<unat (fr_quantity f)]) 0 (fr_sensors f)
      = Some (map (\<lambda>i. reading_message c (dg_sensors c ! i) ts (sensor_value bank (dg_sensors c ! i))) (fr_sensors f))"
    using f by (intro frame_messages_served) (simp_all add: frame_ok_def)
  moreover obtain m2 where "read_frames w c ts fs m1 = Some
      (map (\<lambda>i. reading_message c (dg_sensors c ! i) ts (sensor_value bank (dg_sensors c ! i))) (concat (map fr_sensors fs)), True, m2)"
      "quiet m2" "mb_unit m2 = mb_unit m1"
    using Cons.IH [of m1] Cons.prems r by auto
  ultimately show ?case using r by simp
qed simp

section \<open>The backoff\<close>

definition unreachable :: "network \<Rightarrow> poller \<Rightarrow> bool" where
  "unreachable w p \<longleftrightarrow> \<not> (nw_socket w \<and> nw_inet w (dg_ip (pl_config p)) \<and> nw_reach w (dg_ip (pl_config p)) (of_int (dg_port (pl_config p))))"

definition own_client :: "poller \<Rightarrow> bool" where
  "own_client p \<longleftrightarrow> mb_host (pl_client p) = dg_ip (pl_config p) \<and> mb_port (pl_client p) = dg_port (pl_config p)"

lemma poll_unreachable:
  assumes "unreachable w p" and "own_client p" and "pl_running p" and "\<not> pl_paused p" and "\<not> mb_sock (pl_client p)"
  shows "poll_once w ts p = Some (p\<lparr>pl_backoff := grow (pl_backoff p)\<rparr>, pl_backoff p * 1000)"
proof -
  have "connect w (pl_client p) = (False, pl_client p)"
    using assms(1,2,5) by (auto simp: connect_def unreachable_def own_client_def)
  then show ?thesis using assms(3-5) by (simp add: poll_once_def)
qed

definition waits_from :: "int \<Rightarrow> nat \<Rightarrow> int list" where
  "waits_from b n = map (\<lambda>k. min (b * 2 ^ k) 30 * 1000) [0..<n]"

lemma waits_from_Suc: "b \<le> 30 \<Longrightarrow> waits_from b (Suc n) = b * 1000 # waits_from (grow b) n"
proof -
  assume b: "b \<le> 30"
  have e: "min (b * 2 ^ Suc k) 30 = min (grow b * 2 ^ k) 30" for k
  proof (cases "b * 2 \<le> 30")
    case True
    then show ?thesis by (simp add: grow_def kMaxReconnectBackoffSec_def mult.assoc)
  next
    case False
    have "1 \<le> (2 :: int) ^ k" by simp
    then have "30 \<le> b * 2 * 2 ^ k" and "30 \<le> 30 * (2 :: int) ^ k"
      using False mult_mono [of 30 "b * 2" 1 "2 ^ k"] by simp_all
    with False show ?thesis by (simp add: grow_def kMaxReconnectBackoffSec_def mult.assoc)
  qed
  have "[0..<Suc n] = 0 # map Suc [0..<n]" by (simp add: map_Suc_upt upt_conv_Cons del: upt_Suc)
  then show ?thesis using b by (simp add: waits_from_def e [simplified] comp_def del: upt_Suc)
qed

lemma poll_run_unreachable:
  assumes "\<forall>(w, ts)\<in>set es. unreachable w p" and "own_client p" and "pl_running p" and "\<not> pl_paused p"
    and "\<not> mb_sock (pl_client p)" and "pl_backoff p \<le> 30"
  shows "\<exists>b. poll_run es p = Some (p\<lparr>pl_backoff := b\<rparr>, waits_from (pl_backoff p) (length es))"
  using assms
proof (induction es arbitrary: p)
  case Nil
  then show ?case by (intro exI [of _ "pl_backoff p"]) (simp add: waits_from_def)
next
  case (Cons e es)
  obtain w ts where e: "e = (w, ts)" by (cases e)
  let ?q = "p\<lparr>pl_backoff := grow (pl_backoff p)\<rparr>"
  have "poll_once w ts p = Some (?q, pl_backoff p * 1000)"
    using Cons.prems e by (intro poll_unreachable) auto
  moreover have "\<exists>b. poll_run es ?q = Some (?q\<lparr>pl_backoff := b\<rparr>, waits_from (grow (pl_backoff p)) (length es))"
    using Cons.prems Cons.IH [of ?q] by (simp add: unreachable_def own_client_def grow_def kMaxReconnectBackoffSec_def)
  ultimately show ?case using Cons.prems(6) by (auto simp: e waits_from_Suc)
qed

lemma poll_once_backoff: "poll_once w ts p = Some (q, ms) \<Longrightarrow> 1 \<le> pl_backoff p \<Longrightarrow> pl_backoff p \<le> 30
    \<Longrightarrow> 1 \<le> pl_backoff q \<and> pl_backoff q \<le> 30"
  by (auto simp: poll_once_def poll_connected_def grow_def kMaxReconnectBackoffSec_def Let_def
      split: if_splits prod.splits bool.splits option.splits)

lemma poll_run_backoff: "poll_run es p = Some (q, ws) \<Longrightarrow> 1 \<le> pl_backoff p \<Longrightarrow> pl_backoff p \<le> 30
    \<Longrightarrow> 1 \<le> pl_backoff q \<and> pl_backoff q \<le> 30"
proof (induction es arbitrary: p ws)
  case (Cons e es)
  obtain w ts where e: "e = (w, ts)" by (cases e)
  from Cons.prems(1) obtain p1 ms ws1 where o: "poll_once w ts p = Some (p1, ms)" "poll_run es p1 = Some (q, ws1)"
    by (auto simp: e split: option.splits)
  show ?case using Cons.IH [OF o(2)] poll_once_backoff [OF o(1)] Cons.prems(2,3) by blast
qed simp

section \<open>Properties\<close>

text \<open>C34: one round of polling reads every sensor: when the device serves its registers, the sensors have holding
  registers (from 40001, inside the 65536 of the protocol), whatever order \<open>std::sort\<close> gives to sensors of the
  same address, an iteration publishes for every sensor of the device, in that order, exactly one message with
  the value decoded from the sensor's own registers and scaled, as if it had been read alone, and then
  sleeps for the polling interval with the connection open.\<close>

theorem poll_reads_every_sensor:
  assumes "by_address (dg_sensors c) order" and "\<forall>s\<in>set (dg_sensors c). holding_register s"
    and "0 \<le> dg_unit c" and "dg_unit c < 256"
    and "serves w bank (dg_unit c)" and "\<not> unreachable w (device_poller c order)"
  shows "\<exists>p. poll_once w ts (Device_Poller.start (device_poller c order)) = Some (p, dg_poll_ms c)
    \<and> pl_sent p = map (\<lambda>i. reading_message c (dg_sensors c ! i) ts (sensor_value bank (dg_sensors c ! i))) order
    \<and> mset order = mset [0..<length (dg_sensors c)] \<and> quiet (pl_client p)"
proof -
  let ?p = "Device_Poller.start (device_poller c order)" and ?m = "(fresh_client c)\<lparr>mb_sock := True, mb_in := []\<rparr>"
  note fs = mergeFrames_ok [OF assms(1,2)]
  have con: "connect w (pl_client ?p) = (True, ?m)"
    using assms(6) by (simp add: connect_def unreachable_def start_def device_poller_def fresh_client_def modbus_client_def)
  have m: "quiet ?m" "mb_unit ?m = dg_unit c" by (simp_all add: quiet_def fresh_client_def modbus_client_def)
  have "\<forall>f\<in>set (mergeFrames (dg_sensors c) order). \<forall>i\<in>set (fr_sensors f). i \<in> set order"
    using arg_cong [OF conjunct2 [OF fs], of set] by auto
  then have ok: "\<forall>f\<in>set (mergeFrames (dg_sensors c) order). frame_ok (dg_sensors c) f
      \<and> (\<forall>i\<in>set (fr_sensors f). holding_register (dg_sensors c ! i))"
    using fs by_address_offsets(2) [OF assms(1,2)] by blast
  have srv: "serves w bank (mb_unit ?m)" using m(2) assms(5) by simp
  obtain m' where r: "read_frames w c ts (mergeFrames (dg_sensors c) order) ?m = Some
      (map (\<lambda>i. reading_message c (dg_sensors c ! i) ts (sensor_value bank (dg_sensors c ! i))) order, True, m')" "quiet m'"
    using read_frames_served [OF srv m(1) _ _ ok] assms(3,4) m(2) fs by auto
  have "\<not> mb_sock (pl_client ?p)" "pl_running ?p" "\<not> pl_paused ?p" "pl_config ?p = c"
      "pl_frames ?p = mergeFrames (dg_sensors c) order" "pl_sent ?p = []"
    by (simp_all add: start_def device_poller_def fresh_client_def modbus_client_def)
  with con r have "poll_once w ts ?p = Some (?p\<lparr>pl_client := m', pl_backoff := 1,
      pl_sent := map (\<lambda>i. reading_message c (dg_sensors c ! i) ts (sensor_value bank (dg_sensors c ! i))) order\<rparr>, dg_poll_ms c)"
    by (simp add: poll_once_def poll_connected_def)
  with r(2) assms(1) show ?thesis by (simp add: by_address_def)
qed

text \<open>The reconnection waits: while a device cannot be reached, a started poller sleeps 1, 2, 4, 8, 16 and then
  always 30 seconds, and in every run its backoff stays between 1 and 30 seconds.\<close>

theorem backoff_schedule:
  assumes "\<forall>(w, ts)\<in>set es. unreachable w (device_poller c order)"
  shows "\<exists>p. poll_run es (Device_Poller.start (device_poller c order)) = Some (p, map (\<lambda>k. min (2 ^ k) 30 * 1000) [0..<length es])
    \<and> (\<forall>evs q ws. poll_run evs p = Some (q, ws) \<longrightarrow> 1 \<le> pl_backoff q \<and> pl_backoff q \<le> 30)"
proof -
  let ?p = "Device_Poller.start (device_poller c order)"
  have s: "own_client ?p" "pl_running ?p" "\<not> pl_paused ?p" "\<not> mb_sock (pl_client ?p)" "pl_backoff ?p = 1"
    by (simp_all add: own_client_def start_def device_poller_def fresh_client_def modbus_client_def)
  have "\<forall>(w, ts)\<in>set es. unreachable w ?p" using assms by (simp add: unreachable_def start_def)
  from poll_run_unreachable [OF this s(1-4)] s(5)
  obtain b where r: "poll_run es ?p = Some (?p\<lparr>pl_backoff := b\<rparr>, waits_from 1 (length es))" by auto
  have "1 \<le> b \<and> b \<le> 30" using poll_run_backoff [OF r] s(5) by simp
  then have "1 \<le> pl_backoff q \<and> pl_backoff q \<le> 30" if "poll_run evs (?p\<lparr>pl_backoff := b\<rparr>) = Some (q, ws)" for evs q ws
    using poll_run_backoff [OF that] by simp
  with r show ?thesis by (auto simp: waits_from_def)
qed

text \<open>An exception reply ends the round: for a code other than 0 nothing of the frame is published, the connection
  is closed and the poller waits; the code 0, which the client casts to \<open>Ok\<close>, makes the poller read a
  register of an empty list: undefined behaviour that any peer can cause.\<close>

theorem exception_reply:
  assumes "pl_running p" and "\<not> pl_paused p" and "quiet (pl_client p)"
    and "0 \<le> mb_unit (pl_client p)" and "mb_unit (pl_client p) < 256"
    and "pl_frames p = f # fs" and "frame_ok (dg_sensors (pl_config p)) f"
    and "nw_send w (request_frame (mb_next (pl_client p)) (mb_unit (pl_client p)) (fr_start f) (fr_quantity f)) = (12, arrivals)"
    and "bytes_of arrivals = exception_frame (mb_next (pl_client p)) (mb_unit (pl_client p)) code"
  shows "if code = 0 then poll_once w ts p = None
    else \<exists>q. poll_once w ts p = Some (q, pl_backoff p * 1000) \<and> pl_sent q = pl_sent p \<and> \<not> mb_sock (pl_client q)"
proof -
  have q: "fr_quantity f \<noteq> 0" "fr_quantity f \<le> 125" using assms(7) frame_quantity by blast+
  obtain m' where r: "readHoldingRegisters w (fr_start f) (fr_quantity f) (pl_client p) = (failed (of_code code), m')"
    using read_exception [OF assms(3,4,5) q assms(8,9)] by blast
  obtain i "is" where i: "fr_sensors f = i # is" using assms(7) by (cases "fr_sensors f") (auto simp: frame_ok_def)
  have none: "frame_messages (pl_config p) ts [] 0 (fr_sensors f) = None" for ts
    using reg_count_pos(1) [of "sg_type (dg_sensors (pl_config p) ! i)"]
    by (simp add: i Let_def extractValue_def del: reg_count_pos)
  have "mb_sock (pl_client p)" using assms(3) by (simp add: quiet_def)
  then show ?thesis
    using assms(1,2,6) r none by (simp add: poll_once_def poll_connected_def of_code_Ok disconnect_def)
qed

section \<open>A concrete device\<close>

lemmas read_back = readU16BE_writeU16BE [OF writeU16BE_def]

lemma request_fields:
  "readU16BE (request_frame t u a q ! 0) (request_frame t u a q ! 1) = t"
  "readU16BE (request_frame t u a q ! 8) (request_frame t u a q ! 9) = a"
  "readU16BE (request_frame t u a q ! 10) (request_frame t u a q ! 11) = q"
  by (simp_all add: request_frame_def writeU16BE_def read_back del: One_nat_def)

definition demo_server :: "(16 word \<Rightarrow> 16 word) \<Rightarrow> network" where
  "demo_server bank = \<lparr>nw_socket = True, nw_inet = (\<lambda>_. True), nw_reach = (\<lambda>_ _. True),
     nw_send = (\<lambda>req. (12, [Piece (reply_frame (readU16BE (req ! 0) (req ! 1)) 1
       (map (\<lambda>k. bank (readU16BE (req ! 8) (req ! 9) + of_nat k)) [0..<unat (readU16BE (req ! 10) (req ! 11))]))]))\<rparr>"

lemma demo_server_serves: "serves (demo_server bank) bank 1"
  by (simp add: serves_def demo_server_def request_fields del: One_nat_def)

definition demo_sensor :: "int \<Rightarrow> string \<Rightarrow> int \<Rightarrow> rat \<Rightarrow> sensor_config" where
  "demo_sensor i ty addr sc = \<lparr>sg_id = i, sg_code = ''S'', sg_name = ''sensor'', sg_type = ty, sg_unit = [], sg_addr = addr,
     sg_scale = sc, sg_interval = 1000\<rparr>"

definition demo_config :: device_config where
  "demo_config = \<lparr>dg_id = 1, dg_code = ''D1'', dg_name = ''press'', dg_protocol = ''modbus_tcp'', dg_ip = ''10.0.0.5'',
     dg_port = 502, dg_unit = 1, dg_poll_ms = 1000,
     dg_sensors = [demo_sensor 11 ''float32'' 40003 1, demo_sensor 12 ''int16'' 40001 (1/10), demo_sensor 13 ''uint16'' 40002 2]\<rparr>"

definition demo_bank :: "16 word \<Rightarrow> 16 word" where
  "demo_bank a = (if a = 0 then 0xFFFF else if a = 1 then 7 else if a = 2 then 0x41C8 else 0)"

lemma demo_config_ready:
  "by_address (dg_sensors demo_config) [1, 2, 0]" "\<forall>s\<in>set (dg_sensors demo_config). holding_register s"
  "dg_unit demo_config = 1" "dg_poll_ms demo_config = 1000"
proof -
  have l: "length (dg_sensors demo_config) = 3" by (simp add: demo_config_def)
  have "mset [1, 2, 0] = mset [0..<3 :: nat]" by (simp add: upt_rec)
  moreover have "sorted (map (\<lambda>i. sg_addr (dg_sensors demo_config ! i)) [1, 2, 0])" by (simp add: demo_config_def demo_sensor_def)
  ultimately show "by_address (dg_sensors demo_config) [1, 2, 0]" unfolding by_address_def l by blast
qed (simp_all add: demo_config_def demo_sensor_def holding_register_def kRegisterBase_def reg_count_def)

theorem poll_reads_every_sensor_witness:
  "\<exists>p. poll_once (demo_server demo_bank) ''t'' (Device_Poller.start (device_poller demo_config [1, 2, 0])) = Some (p, 1000)
    \<and> pl_sent p = [reading_message demo_config (demo_sensor 12 ''int16'' 40001 (1/10)) ''t'' (Num (- 1 / 10)),
         reading_message demo_config (demo_sensor 13 ''uint16'' 40002 2) ''t'' (Num 14),
         reading_message demo_config (demo_sensor 11 ''float32'' 40003 1) ''t'' (Num 25)]"
proof -
  have v: "sensor_value demo_bank (demo_sensor 12 ''int16'' 40001 (1/10)) = Num (- 1 / 10)"
    "sensor_value demo_bank (demo_sensor 13 ''uint16'' 40002 2) = Num 14"
    "sensor_value demo_bank (demo_sensor 11 ''float32'' 40003 1) = Num 25"
    by (simp_all add: sensor_value_def demo_sensor_def modbus_addr_def kRegisterBase_def demo_bank_def decode_def pair32_def
        float32_def reg_count_def scaled_def Let_def)
  have u: "\<not> unreachable (demo_server demo_bank) (device_poller demo_config [1, 2, 0])"
    by (simp add: unreachable_def demo_server_def)
  have s: "dg_sensors demo_config ! 1 = demo_sensor 12 ''int16'' 40001 (1/10)" "dg_sensors demo_config ! 2 = demo_sensor 13 ''uint16'' 40002 2"
    "dg_sensors demo_config ! 0 = demo_sensor 11 ''float32'' 40003 1" by (simp_all add: demo_config_def)
  have "serves (demo_server demo_bank) demo_bank (dg_unit demo_config)" using demo_server_serves by (simp add: demo_config_ready)
  from poll_reads_every_sensor [OF demo_config_ready(1,2) _ _ this u, of "''t''"] show ?thesis
    unfolding list.map s v demo_config_ready(3,4) by auto
qed

definition demo_dead :: network where
  "demo_dead = (demo_server demo_bank)\<lparr>nw_reach := \<lambda>_ _. False\<rparr>"

theorem backoff_schedule_witness:
  "\<exists>p. poll_run (replicate 7 (demo_dead, [])) (Device_Poller.start (device_poller demo_config [1, 2, 0]))
    = Some (p, [1000, 2000, 4000, 8000, 16000, 30000, 30000])"
proof -
  have "\<forall>(w, ts)\<in>set (replicate 7 (demo_dead, [])). unreachable w (device_poller demo_config [1, 2, 0])"
    by (simp add: unreachable_def demo_dead_def)
  from backoff_schedule [OF this] show ?thesis by (simp add: upt_rec numeral_eq_Suc) blast
qed

definition demo_connected :: poller where
  "demo_connected = (Device_Poller.start (device_poller demo_config [1, 2, 0]))\<lparr>pl_client := (fresh_client demo_config)\<lparr>mb_sock := True\<rparr>\<rparr>"

theorem exception_reply_witness:
  "poll_once ((demo_server demo_bank)\<lparr>nw_send := \<lambda>_. (12, [Piece (exception_frame 1 1 0)])\<rparr>) ''t'' demo_connected = None"
proof -
  let ?ss = "dg_sensors demo_config"
  obtain f fs where f: "mergeFrames ?ss [1, 2, 0] = f # fs"
    using mergeFrames_ok [OF demo_config_ready(1,2)] by (cases "mergeFrames ?ss [1, 2, 0]") auto
  then have "frame_ok ?ss f" using mergeFrames_ok [OF demo_config_ready(1,2)] by simp
  moreover have "quiet (pl_client demo_connected)" by (simp add: quiet_def demo_connected_def fresh_client_def modbus_client_def)
  moreover have "pl_running demo_connected" "\<not> pl_paused demo_connected" "pl_config demo_connected = demo_config"
    "pl_frames demo_connected = f # fs" "mb_unit (pl_client demo_connected) = 1" "mb_next (pl_client demo_connected) = 1"
    using f by (simp_all add: demo_connected_def start_def device_poller_def fresh_client_def modbus_client_def demo_config_ready)
  ultimately show ?thesis
    using exception_reply [of demo_connected f fs "(demo_server demo_bank)\<lparr>nw_send := \<lambda>_. (12, [Piece (exception_frame 1 1 0)])\<rparr>"
        "[Piece (exception_frame 1 1 0)]" 0 "''t''"]
    by simp
qed

end
