(* ===== verification/Collector_Props.thy ===== *)
theory Collector_Props
  imports Collector Poller_Props Iot_Operations Data_Ingest
begin

text \<open>
  The collector and the backend together: what the collector gets from the device list of the backend
  (\<open>deviceRow\<close>, the response envelope of \<open>common/ApiResponse.hh\<close>), what it makes of the commands the backend
  queues for it, and what the backend makes of its readings.
\<close>

section \<open>The device list as the collector receives it\<close>

text \<open>The text of the two time columns is a parameter.\<close>

definition deviceRow :: "(device \<Rightarrow> string \<times> string) \<Rightarrow> device_view \<Rightarrow> json" where
  "deviceRow tms v =
    (let d = vw_row v in
     JObj [(''id'', JInt (dv_id d)), (''device_code'', JStr (dv_code d)), (''device_name'', JStr (dv_name d)),
       (''type_id'', JInt (or_else (dv_type d) 0)), (''type_name'', JStr (vw_type v)), (''line_id'', JInt (or_else (dv_line d) 0)),
       (''protocol'', JStr (dv_protocol d)), (''ip_address'', JStr (or_else (dv_ip d) [])), (''port'', JInt (or_else (dv_port d) 0)),
       (''status'', JInt (dv_status d)), (''last_heartbeat_at'', JStr (fst (tms d))), (''created_at'', JStr (snd (tms d)))])"

definition page_json :: "('a \<Rightarrow> json) \<Rightarrow> 'a page_result \<Rightarrow> json" where
  "page_json row r = JObj [(''list'', JArr (map row (pg_list r))), (''total'', JInt (pg_total r)), (''page'', JInt (pg_page r)),
     (''page_size'', JInt (pg_size r))]"

definition success_body :: "string \<Rightarrow> string \<Rightarrow> json \<Rightarrow> json" where
  "success_body now trace data = JObj [(''code'', JInt 200), (''message'', JStr ''success''), (''data'', data),
     (''timestamp'', JStr now), (''trace_id'', JStr trace)]"

lemma deviceRow_members [simp]:
  "member ''sensors'' (deviceRow tms v) = None" "member ''connection_config'' (deviceRow tms v) = None"
  by (simp_all add: deviceRow_def Let_def)

lemma load_deviceRow: "load_device (deviceRow tms v) \<noteq> Keep c"
  by (auto simp: load_device_def sensor_items_def connection_values_def split: sum.splits)

lemma device_items_page: "device_items (success_body now trace (page_json row r)) = Inr (map row (pg_list r))"
  by (simp add: device_items_def success_body_def page_json_def or_else_def)

lemma read_devices_page:
  assumes "lo_parse e resp = Some (success_body now trace (page_json (deviceRow tms) r))"
  shows "\<exists>m. read_devices e resp = LoadError m"
proof -
  have code: "field_value 0 (jint32 ''code'' (success_body now trace j)) = Inr 200" for j
    by (simp add: success_body_def field_of_def to_int32_id int32_ok_def)
  show ?thesis
  proof (cases "load_all load_device (map (deviceRow tms) (pg_list r))")
    case (Inl m)
    then show ?thesis using assms by (simp add: read_devices_def code device_items_page)
  next
    case (Inr ds)
    have "ds = []" by (rule load_all_never_keeps [OF _ Inr]) (auto simp: load_deviceRow)
    then show ?thesis using assms Inr by (simp add: read_devices_def code device_items_page)
  qed
qed

section \<open>The queue of readings\<close>

text \<open>What has happened to the messages so far.\<close>

definition accounted :: "string list \<Rightarrow> publisher \<Rightarrow> bool" where
  "accounted ms p \<longleftrightarrow> (\<exists>gone. ms = gone @ pb_queue p \<and> subseq (pb_published p) gone
    \<and> mset gone = mset (pb_published p) + mset (pb_lost p))"

lemma accounted_step: "accounted ms p \<Longrightarrow> accounted (ms @ enqueued [ev]) (publisher_step ev p)"
proof (cases ev)
  case (Loop c b)
  assume a: "accounted ms p"
  then obtain gone where g: "ms = gone @ pb_queue p" "subseq (pb_published p) gone" "mset gone = mset (pb_published p) + mset (pb_lost p)"
    by (auto simp: accounted_def)
  obtain out lost where s: "pb_queue p = out @ lost @ pb_queue (publish_batch c b p)"
      "pb_published (publish_batch c b p) = pb_published p @ out" "pb_lost (publish_batch c b p) = pb_lost p @ lost"
    using publish_batch_split [of p c b] by blast
  have "subseq (pb_published p @ out) (gone @ out @ lost)"
    using g(2) by (intro list_emb_append_mono) (auto intro: list_emb_prefix)
  then have "accounted ms (publish_batch c b p)"
    unfolding accounted_def using g s by (intro exI [of _ "gone @ out @ lost"]) simp
  with Loop a show ?thesis by simp
qed (auto simp: accounted_def)

lemma enqueued_append: "enqueued (es @ [ev]) = enqueued es @ enqueued [ev]"
  by (induction es rule: enqueued.induct) (cases ev, auto)+

lemma accounted_run: "accounted (enqueued es) (fold publisher_step es (batch_publisher n))"
proof (induction es rule: rev_induct)
  case (snoc ev es)
  then show ?case using accounted_step [of "enqueued es" _ ev] by (simp add: enqueued_append)
qed (simp add: accounted_def batch_publisher_def)

lemma no_failure_no_loss: "\<forall>e\<in>set es. \<not> failing e \<Longrightarrow> pb_lost (fold publisher_step es p) = pb_lost p"
proof (induction es arbitrary: p)
  case (Cons e es)
  have "pb_lost (publisher_step e p) = pb_lost p"
  proof (cases e)
    case (Loop c b)
    then have "c \<and> b = None" using Cons.prems by (simp add: failing_def)
    then show ?thesis using Loop publish_batch_split [of p c b] by auto
  qed simp_all
  with Cons show ?case by simp
qed simp

section \<open>Commands\<close>

definition hears :: "consumer \<Rightarrow> bool" where
  "hears c \<longleftrightarrow> cc_running c \<and> cc_channel c"

lemma consume_message:
  "hears c \<Longrightarrow> consume_turn parse (Message tag body True) c =
    c\<lparr>cc_pollers := handle_command parse body (cc_pollers c), cc_acked := cc_acked c @ [tag]\<rparr>"
  by (simp add: consume_turn_def hears_def)

lemma backend_command_no_action:
  "m = stop_device_message e wo i \<or> m = command_message e d command params \<Longrightarrow> parse body = Some (m_payload m)
    \<Longrightarrow> handle_command parse body ps = ps"
  by (auto simp: handle_command_def stop_device_message_def command_message_def split: sum.splits option.splits)

lemma poll_paused: "pl_running p \<Longrightarrow> pl_paused p \<Longrightarrow> poll_once w ts p = Some (p, 500)"
  by (simp add: poll_once_def)

lemma poll_run_paused: "pl_running p \<Longrightarrow> pl_paused p \<Longrightarrow> poll_run es p = Some (p, replicate (length es) 500)"
  by (induction es) (auto simp: poll_paused)

section \<open>Properties\<close>

text \<open>C36: the collector never collects: the configuration request asks for the list of devices, whose rows
  carry neither sensors nor a connection configuration, so against the backend's own answer to that
  request, whatever devices it has, loading ends with an error and the program starts no poller.\<close>

theorem collector_never_configured:
  assumes "parseUrl backend = Inr (Some u)" and "listDevices env 1 999 [] (-1) 0 s = Answer r"
    and "\<And>token. lo_parse e (httpGet e (up_host u) (up_port u) devices_path token) = Some (success_body now trace (page_json (deviceRow tms) r))"
  shows "(\<exists>m. loadConfig e backend username password = LoadError m)
    \<and> collector_main e order backend username password = Some []
    \<and> length (pg_list r) \<le> 20"
proof -
  have "\<exists>m. loadConfig e backend username password = LoadError m"
  proof -
    have "\<exists>m. read_devices e (httpGet e (up_host u) (up_port u) devices_path token) = LoadError m" for token
      using read_devices_page [OF assms(3)] .
    then show ?thesis using assms(1) by (auto simp: loadConfig_def Let_def split: sum.splits)
  qed
  moreover have "length (pg_list r) \<le> 20"
    using assms(2) by (auto simp: listDevices_def list_page_def clampPage_def page_rows_def split: option.splits if_splits)
  ultimately show ?thesis by (auto simp: collector_main_def)
qed

text \<open>C37: the backend's stop reaches no poller: the messages the backend queues for a stop of collection and for a
  device command have no \<open>action\<close>, so the consumer acknowledges them and leaves every poller as it was; a
  message that has the action \<open>stop\<close> pauses the poller of its device however often it comes, the poller then
  publishes nothing, and \<open>resume\<close> undoes it.\<close>

theorem commands_to_pollers:
  assumes "hears c" and "m = stop_device_message e wo i \<or> m = command_message e d command params"
    and "parse body = Some (m_payload m)"
    and "parse stop_body = Some (JObj [(''device_id'', JInt k), (''action'', JStr ''stop'')])"
    and "parse resume_body = Some (JObj [(''device_id'', JInt k), (''action'', JStr ''resume'')])"
    and "cc_pollers c k = Some p" and "pl_running p" and "\<not> pl_paused p"
  shows "cc_pollers (consume_turn parse (Message tag body True) c) = cc_pollers c
    \<and> cc_acked (consume_turn parse (Message tag body True) c) = cc_acked c @ [tag]
    \<and> (\<forall>n es. \<exists>q. cc_pollers (fold (consume_turn parse) (replicate (Suc n) (Message tag stop_body True)) c) k = Some q
        \<and> poll_run es q = Some (q, replicate (length es) 500)
        \<and> cc_pollers (consume_turn parse (Message tag resume_body True)
            (fold (consume_turn parse) (replicate (Suc n) (Message tag stop_body True)) c)) k = Some p)"
proof (intro conjI allI)
  show "cc_pollers (consume_turn parse (Message tag body True) c) = cc_pollers c"
    using assms(1-3) by (simp add: consume_message backend_command_no_action)
  show "cc_acked (consume_turn parse (Message tag body True) c) = cc_acked c @ [tag]"
    using assms(1) by (simp add: consume_message)
  fix n es
  let ?q = "pause p" and ?stop = "consume_turn parse (Message tag stop_body True)"
  have stop: "hears d' \<Longrightarrow> cc_pollers d' k = Some r \<Longrightarrow> hears (?stop d') \<and> cc_pollers (?stop d') k = Some (pause r)" for d' r
    using assms(4) by (simp add: consume_message handle_command_def field_of_def hears_def)
  have twice: "pause ?q = ?q" by (simp add: pause_def)
  have fold: "hears (fold (consume_turn parse) (replicate (Suc j) (Message tag stop_body True)) c)
      \<and> cc_pollers (fold (consume_turn parse) (replicate (Suc j) (Message tag stop_body True)) c) k = Some ?q" for j
  proof (induction j)
    case (Suc j)
    have "replicate (Suc (Suc j)) (Message tag stop_body True) = replicate (Suc j) (Message tag stop_body True) @ [Message tag stop_body True]"
      by (metis replicate_Suc replicate_append_same)
    then show ?case using stop [of _ ?q] Suc twice by (simp del: replicate_Suc)
  qed (use stop [OF assms(1,6)] in simp)
  have "resume ?q = p" using assms(8) by (simp add: pause_def resume_def)
  then have "cc_pollers (consume_turn parse (Message tag resume_body True)
        (fold (consume_turn parse) (replicate (Suc n) (Message tag stop_body True)) c)) k = Some p"
    using fold [of n] assms(5) by (simp add: consume_message handle_command_def field_of_def del: replicate_Suc)
  moreover have "poll_run es ?q = Some (?q, replicate (length es) 500)"
    using assms(7) by (intro poll_run_paused) (simp_all add: pause_def)
  ultimately show "\<exists>q. cc_pollers (fold (consume_turn parse) (replicate (Suc n) (Message tag stop_body True)) c) k = Some q
      \<and> poll_run es q = Some (q, replicate (length es) 500)
      \<and> cc_pollers (consume_turn parse (Message tag resume_body True)
          (fold (consume_turn parse) (replicate (Suc n) (Message tag stop_body True)) c)) k = Some p"
    using fold [of n] by blast
qed

text \<open>C38: the publisher keeps order and duplicates nothing: after any sequence of readings, turns of the loop and
  failures, what was put in is, in order, what has left the queue followed by the queue, and what has left
  was either published, in order and once, or lost with a failed batch; without failures nothing is lost,
  and after the stop nothing that is still queued is published any more.\<close>

theorem publisher_accounts:
  assumes "p = fold publisher_step evs (batch_publisher n)"
  shows "(\<exists>gone. enqueued evs = gone @ pb_queue p \<and> subseq (pb_published p) gone
        \<and> mset gone = mset (pb_published p) + mset (pb_lost p))
    \<and> ((\<forall>e\<in>set evs. \<not> failing e) \<longrightarrow> enqueued evs = pb_published p @ pb_queue p)
    \<and> (\<forall>more. pb_published (fold publisher_step more (publisher_step Quit p)) = pb_published p)"
proof (intro conjI impI allI)
  have acc: "accounted (enqueued evs) p" using accounted_run [of evs n] assms by simp
  then show "\<exists>gone. enqueued evs = gone @ pb_queue p \<and> subseq (pb_published p) gone \<and> mset gone = mset (pb_published p) + mset (pb_lost p)"
    by (simp add: accounted_def)
  show "enqueued evs = pb_published p @ pb_queue p" if "\<forall>e\<in>set evs. \<not> failing e"
  proof -
    have "pb_lost p = []" using no_failure_no_loss [OF that, of "batch_publisher n"] assms by (simp add: batch_publisher_def)
    with acc obtain gone where g: "enqueued evs = gone @ pb_queue p" "subseq (pb_published p) gone" "mset gone = mset (pb_published p)"
      by (auto simp: accounted_def)
    from g(3) have "length gone = length (pb_published p)" by (metis size_mset)
    with g(2) have "pb_published p = gone" using subseq_same_length by metis
    with g(1) show ?thesis by simp
  qed
  have "pb_published (fold publisher_step more q) = pb_published q" if "\<not> pb_running q" for more q
    using that by (induction more arbitrary: q) (simp, case_tac a, auto)
  then show "pb_published (fold publisher_step more (publisher_step Quit p)) = pb_published p" for more by simp
qed

text \<open>The backend accepts the collector's readings: a message of the poller with a finite value and a time
  stamp of safe text is parsed into the reading of that device and sensor with exactly that value, while
  a value that is infinite or no number is sent as null and refused as invalid.\<close>

theorem readings_accepted:
  assumes "parse body = Some (reading_message c s ts v)" and "tsSafe ts" and "int64_ok (dg_id c)" and "int64_ok (sg_id s)"
  shows "parse_reading parse body =
    (case v of
       NonFinite \<Rightarrow> None
     | Num r \<Rightarrow> Some \<lparr>rd_device = dg_id c, rd_code = dg_code c, rd_sensor = sg_id s, rd_num = Some r, rd_str = [],
                   rd_quality = 192, rd_ts = ts\<rparr>)"
proof -
  have i: "to_int64 k = k" if "int64_ok k" for k
    using that unfolding to_int64_def int64_ok_def by (simp add: sint_sbintrunc' signed_take_bit_int_eq_self)
  show ?thesis
    using assms i by (cases v) (simp_all add: parse_reading_def reading_message_def validate_def has_def number_json_def
        reading_of_def the_int_def the_str_def kQualityGood_def to_int32_id int32_ok_def)
qed

section \<open>A concrete collector\<close>

definition demo_row :: device where
  "demo_row = \<lparr>dv_id = 1, dv_code = ''D1'', dv_name = ''press'', dv_type = None, dv_line = Some 4, dv_station = None,
     dv_ip = Some ''10.0.0.5'', dv_port = Some 502, dv_protocol = ''modbus_tcp'', dv_config = None, dv_status = 1, dv_beat = Some 10,
     dv_installed = None, dv_deleted = False\<rparr>"

definition demo_backend :: iot where
  "demo_backend = \<lparr>it_devices = [demo_row], it_sensors = [], it_raw = [], it_alerts = [], it_tasks = [], it_links = [],
     it_types = [], it_lines = [4], it_stations = [], it_order_lines = [], it_outbox = \<lparr>ob_rows = [], ob_next = 1\<rparr>\<rparr>"

definition demo_backend_env :: iot_env where
  "demo_backend_env = \<lparr>im_db = True, im_db2 = True, im_id = 1, im_now = 100, im_inet = (\<lambda>_. True), im_date = (\<lambda>_. True),
     im_time = (\<lambda>_. None), im_redis = None, im_parse = (\<lambda>_. None), im_iso = ''now''\<rparr>"

definition demo_page :: "device_view page_result" where
  "demo_page = \<lparr>pg_list = [\<lparr>vw_row = demo_row, vw_type = []\<rparr>], pg_total = 1, pg_page = 1, pg_size = 20\<rparr>"

definition demo_loader :: loader where
  "demo_loader = \<lparr>lo_exchange = (\<lambda>_ _ req. crlf @ crlf @ (if starts_with ''POST'' req then ''L'' else ''D'')),
     lo_parse = (\<lambda>t. Some (if t = ''L'' then JObj [(''code'', JInt 200), (''data'', JObj [(''access_token'', JStr ''tok'')])]
       else success_body [] [] (page_json (deviceRow (\<lambda>_. ([], []))) demo_page))), lo_dump = (\<lambda>_. ''{}'')\<rparr>"

lemma demo_device_list: "listDevices demo_backend_env 1 999 [] (-1) 0 demo_backend = Answer demo_page"
  by (simp add: listDevices_def list_page_def clampPage_def page_rows_def page_offset_def int32_ok_def demo_backend_def
      demo_backend_env_def device_matches_def demo_row_def view_device_def lookup_text_def demo_page_def)

theorem collector_never_configured_witness:
  "collector_main demo_loader (\<lambda>_. []) ''http://10.0.0.1:8088'' ''admin'' ''secret'' = Some []"
proof -
  have u: "parseUrl ''http://10.0.0.1:8088'' = Inr (Some \<lparr>up_host = ''10.0.0.1'', up_port = 8088, up_path = ''/''\<rparr>)"
    by code_simp
  have g: "httpGet demo_loader h p devices_path token = ''D''" for h p token
    by (simp add: httpGet_def demo_loader_def get_request_def crlf_def)
  have "lo_parse demo_loader ''D'' = Some (success_body [] [] (page_json (deviceRow (\<lambda>_. ([], []))) demo_page))"
    by (simp add: demo_loader_def)
  then show ?thesis
    using collector_never_configured [OF u demo_device_list, of demo_loader "[]" "[]" "\<lambda>_. ([], [])" "''admin''" "''secret''" "\<lambda>_. []"] g
    by simp
qed

definition demo_consumer :: consumer where
  "demo_consumer = \<lparr>cc_running = True, cc_channel = True, cc_pollers = [1 \<mapsto> demo_connected], cc_acked = []\<rparr>"

definition demo_command_text :: "string \<Rightarrow> json option" where
  "demo_command_text t =
    (if t = ''s'' then Some (JObj [(''device_id'', JInt 1), (''action'', JStr ''stop'')])
     else if t = ''r'' then Some (JObj [(''device_id'', JInt 1), (''action'', JStr ''resume'')])
     else Some (m_payload (stop_device_message demo_backend_env 5 1)))"

theorem commands_to_pollers_witness:
  "cc_pollers (consume_turn demo_command_text (Message 1 ''b'' True) demo_consumer) 1 = Some demo_connected"
proof -
  have "hears demo_consumer" "cc_pollers demo_consumer 1 = Some demo_connected" by (simp_all add: hears_def demo_consumer_def)
  moreover have "demo_command_text ''b'' = Some (m_payload (stop_device_message demo_backend_env 5 1))"
    "demo_command_text ''s'' = Some (JObj [(''device_id'', JInt 1), (''action'', JStr ''stop'')])"
    "demo_command_text ''r'' = Some (JObj [(''device_id'', JInt 1), (''action'', JStr ''resume'')])"
    by (simp_all add: demo_command_text_def)
  moreover have "pl_running demo_connected" "\<not> pl_paused demo_connected"
    by (simp_all add: demo_connected_def start_def device_poller_def)
  ultimately show ?thesis
    using commands_to_pollers [of demo_consumer "stop_device_message demo_backend_env 5 1" demo_backend_env 5 1 undefined undefined undefined
        demo_command_text "''b''" "''s''" 1 "''r''" demo_connected 1] by metis
qed

theorem publisher_accounts_witness:
  "pb_published (fold publisher_step [Submit ''a'', Loop True None, Submit ''b'', Loop True (Some 0), Submit ''c''] (batch_publisher 100)) = [''a'']
   \<and> (\<exists>gone. [''a'', ''b'', ''c''] = gone @ [''c''] \<and> subseq [''a''] gone)"
proof -
  let ?evs = "[Submit ''a'', Loop True None, Submit ''b'', Loop True (Some 0), Submit ''c'']"
  have p: "fold publisher_step ?evs (batch_publisher 100) =
      \<lparr>pb_batch = 100, pb_running = True, pb_channel = False, pb_queue = [''c''], pb_published = [''a''], pb_lost = [''b'']\<rparr>"
    by (simp add: publish_batch_def batch_publisher_def)
  from publisher_accounts [of _ ?evs 100, OF refl] show ?thesis unfolding p by auto
qed

theorem readings_accepted_witness:
  "parse_reading (\<lambda>_. Some (reading_message demo_config (demo_sensor 12 ''int16'' 40001 1) ''2026-01-01T00:00:00.000Z'' (Num (5 / 2)))) []
    = Some \<lparr>rd_device = 1, rd_code = ''D1'', rd_sensor = 12, rd_num = Some (5 / 2), rd_str = [], rd_quality = 192,
        rd_ts = ''2026-01-01T00:00:00.000Z''\<rparr>"
proof -
  have "tsSafe ''2026-01-01T00:00:00.000Z''" by code_simp
  with readings_accepted [of "\<lambda>_. Some (reading_message demo_config (demo_sensor 12 ''int16'' 40001 1) ''2026-01-01T00:00:00.000Z'' (Num (5 / 2)))"
      "[]" demo_config "demo_sensor 12 ''int16'' 40001 1" "''2026-01-01T00:00:00.000Z''" "Num (5 / 2)"]
  show ?thesis by (simp add: demo_config_def demo_sensor_def int64_ok_def)
qed

end
