(* ===== verification/Ws_Broadcast.thy ===== *)
theory Ws_Broadcast
  imports Jwt_Tokens "HOL-Library.Sublist"
begin

text \<open>
  The push of live data (\<open>websocket/WsBroadcastManager.cc\<close>, \<open>controllers/WsController.cc\<close>): the
  subscribers of the channels, the buffer that merges what is to be sent, the messages Redis
  distributes, the queries of the orders in progress and the election of the instance that makes them.
  Connections are numbers. The JSON parser and printer, the clock's text, and the order in which an
  unordered map is walked are parameters.
\<close>

section \<open>Channels and subscribers\<close>

definition kRedisPrefix :: string where "kRedisPrefix = ''ws:broadcast:''"
definition kMaxSubsPerChannel :: nat where "kMaxSubsPerChannel = 2000"

definition channelAllowed :: "string \<Rightarrow> bool" where
  "channelAllowed ch \<longleftrightarrow> ch = ''production.realtime'' \<or> ch = ''device.status'' \<or> ch = ''alert'' \<or> ch = ''workorder.event''"

record ws =
  ws_subs :: "string \<Rightarrow> nat list"
  ws_pending :: "string \<rightharpoonup> string"
  ws_sent :: "(nat \<times> string) list"
  ws_user :: "nat \<rightharpoonup> int"
  ws_closing :: "nat set"
  ws_posted :: "(string \<times> string) list"

record ws_env =
  we_parse :: "string \<Rightarrow> json option"
  we_dump :: "json \<Rightarrow> string"
  we_now :: string
  we_connected :: "nat \<Rightarrow> bool"

definition ws0 :: ws where
  "ws0 = \<lparr>ws_subs = (\<lambda>_. []), ws_pending = Map.empty, ws_sent = [], ws_user = Map.empty, ws_closing = {}, ws_posted = []\<rparr>"

definition subscribe :: "string \<Rightarrow> nat \<Rightarrow> ws \<Rightarrow> ws" where
  "subscribe ch c s =
    (let vec = ws_subs s ch in
     if c \<in> set vec then s
     else s\<lparr>ws_subs := (ws_subs s)(ch := (if length vec \<ge> kMaxSubsPerChannel then tl vec else vec) @ [c])\<rparr>)"

definition unsubscribeAll :: "nat \<Rightarrow> ws \<Rightarrow> ws" where
  "unsubscribeAll c s = s\<lparr>ws_subs := (\<lambda>ch. filter (\<lambda>d. d \<noteq> c) (ws_subs s ch))\<rparr>"

definition subscriberCount :: "string \<Rightarrow> ws \<Rightarrow> nat" where
  "subscriberCount ch s = length (ws_subs s ch)"

definition send :: "nat \<Rightarrow> string \<Rightarrow> ws \<Rightarrow> ws" where
  "send c t s = s\<lparr>ws_sent := ws_sent s @ [(c, t)]\<rparr>"

section \<open>Publishing and merging\<close>

definition envelope_json :: "string \<Rightarrow> string \<Rightarrow> json \<Rightarrow> json" where
  "envelope_json now ch payload =
    JObj [(''channel'', JStr ch), (''payload'', payload), (''ts'', JStr now), (''version'', JStr ''1.0'')]"

definition ws_envelope :: "ws_env \<Rightarrow> string \<Rightarrow> json \<Rightarrow> string" where
  "ws_envelope e ch payload = we_dump e (envelope_json (we_now e) ch payload)"

text \<open>\<open>publish\<close> hands the envelope to Redis, \<open>publishLocal\<close> to the buffer.\<close>

definition ws_publish :: "ws_env \<Rightarrow> string \<Rightarrow> json \<Rightarrow> ws \<Rightarrow> ws" where
  "ws_publish e ch payload s = s\<lparr>ws_posted := ws_posted s @ [(kRedisPrefix @ ch, ws_envelope e ch payload)]\<rparr>"

definition put_pending :: "string \<Rightarrow> string \<Rightarrow> ws \<Rightarrow> ws" where
  "put_pending ch text s = s\<lparr>ws_pending := (ws_pending s)(ch \<mapsto> text)\<rparr>"

definition publishLocal :: "ws_env \<Rightarrow> string \<Rightarrow> json \<Rightarrow> ws \<Rightarrow> ws" where
  "publishLocal e ch payload s = put_pending ch (ws_envelope e ch payload) s"

text \<open>Whether a document is an envelope of the channel; None: an accessor throws.\<close>

definition is_envelope :: "string \<Rightarrow> json \<Rightarrow> bool option" where
  "is_envelope ch j =
    (case field_value [] (jstr ''version'' j) of
       Inl _ \<Rightarrow> None
     | Inr v \<Rightarrow>
         if v \<noteq> ''1.0'' then Some False
         else
           (case field_value [] (jstr ''channel'' j) of
              Inl _ \<Rightarrow> None
            | Inr c \<Rightarrow> Some (c = ch \<and> member ''payload'' j \<noteq> None)))"

text \<open>A message of the Redis subscription.\<close>

definition on_redis :: "ws_env \<Rightarrow> string \<Rightarrow> string \<Rightarrow> ws \<Rightarrow> ws" where
  "on_redis e topic body s =
    (if \<not> starts_with kRedisPrefix topic then s
     else
       let ch = drop (length kRedisPrefix) topic in
       case we_parse e body of
         None \<Rightarrow> s
       | Some j \<Rightarrow>
           (case is_envelope ch j of
              None \<Rightarrow> s
            | Some True \<Rightarrow> put_pending ch body s
            | Some False \<Rightarrow> publishLocal e ch j s))"

text \<open>
  The loop of the subscription: without a connection it connects and subscribes to the four channels, or waits
  to try again; with one it takes a reply. A reply that is no message is dropped, an error closes the connection.
\<close>

definition kChannels :: "string list" where
  "kChannels = [''production.realtime'', ''device.status'', ''alert'', ''workorder.event'']"

definition subscribe_command :: string where
  "subscribe_command = ''SUBSCRIBE'' @ concat (map (\<lambda>ch. '' '' @ kRedisPrefix @ ch) kChannels)"

datatype redis_reply = ReplyError | ReplyMessage string string | ReplyOther

fun redisSubscribeLoop :: "ws_env \<Rightarrow> bool \<Rightarrow> (string \<Rightarrow> bool) \<Rightarrow> redis_reply \<Rightarrow> bool \<times> ws \<Rightarrow> bool \<times> ws" where
  "redisSubscribeLoop e connects accepts r (False, s) = (connects \<and> accepts subscribe_command, s)"
| "redisSubscribeLoop e connects accepts ReplyError (True, s) = (False, s)"
| "redisSubscribeLoop e connects accepts (ReplyMessage topic body) (True, s) = (True, on_redis e topic body s)"
| "redisSubscribeLoop e connects accepts ReplyOther (True, s) = (True, s)"

text \<open>The tick: the buffer is emptied and sent. \<open>order\<close> is the walk through the map.\<close>

definition send_channel :: "ws_env \<Rightarrow> (string \<rightharpoonup> string) \<Rightarrow> string \<Rightarrow> ws \<Rightarrow> ws" where
  "send_channel e batch ch s =
    (case batch ch of
       None \<Rightarrow> s
     | Some text \<Rightarrow> fold (\<lambda>c. send c text) (filter (we_connected e) (ws_subs s ch)) s)"

definition drainPending :: "ws_env \<Rightarrow> string list \<Rightarrow> ws \<Rightarrow> ws" where
  "drainPending e order s = fold (send_channel e (ws_pending s)) order (s\<lparr>ws_pending := Map.empty\<rparr>)"

section \<open>Connections\<close>

definition error_text :: "ws_env \<Rightarrow> string \<Rightarrow> string" where
  "error_text e m = we_dump e (JObj [(''message'', JStr m), (''type'', JStr ''error'')])"

definition handleNewConnection :: "ws_env \<Rightarrow> jwt_env \<Rightarrow> int \<Rightarrow> string \<Rightarrow> nat \<Rightarrow> ws \<Rightarrow> ws" where
  "handleNewConnection e J now token c s =
    (case (if token = [] then None else verifyAccessToken J now token) of
       None \<Rightarrow> (send c (error_text e ''token invalid or expired'') s)\<lparr>ws_closing := insert c (ws_closing s)\<rparr>
     | Some p \<Rightarrow>
         send c (we_dump e (JObj [(''type'', JStr ''welcome''), (''user'', JStr (tp_username p))]))
           (s\<lparr>ws_user := (ws_user s)(c \<mapsto> tp_user p)\<rparr>))"

text \<open>The channels a message names, the single one first.\<close>

definition named_channels :: "json \<Rightarrow> string list" where
  "named_channels j =
    (case member ''channel'' j of Some (JStr t) \<Rightarrow> [t] | _ \<Rightarrow> [])
    @ (case member ''channels'' j of Some (JArr xs) \<Rightarrow> concat (map (\<lambda>x. case x of JStr t \<Rightarrow> [t] | _ \<Rightarrow> []) xs) | _ \<Rightarrow> [])"

definition take_channel :: "ws_env \<Rightarrow> nat \<Rightarrow> string \<Rightarrow> ws \<times> string list \<Rightarrow> ws \<times> string list" where
  "take_channel e c ch r =
    (case r of (s, done) \<Rightarrow>
       if channelAllowed ch then (subscribe ch c s, done @ [ch])
       else (send c (error_text e (''channel not allowed: '' @ ch)) s, done))"

text \<open>
  A text message. None: the accessor of \<open>action\<close> throws (the message is no object, or the action no text)
  and nothing catches it.
\<close>

definition handleNewMessage :: "ws_env \<Rightarrow> nat \<Rightarrow> string \<Rightarrow> ws \<Rightarrow> ws option" where
  "handleNewMessage e c message s =
    (case we_parse e message of
       None \<Rightarrow> Some s
     | Some j \<Rightarrow>
         (case field_value [] (jstr ''action'' j) of
            Inl _ \<Rightarrow> None
          | Inr action \<Rightarrow>
              if action \<noteq> ''subscribe'' then Some s
              else
                (case fold (take_channel e c) (named_channels j) (s, []) of
                   (t, done) \<Rightarrow>
                     Some (if done = [] then t
                       else send c (we_dump e (JObj [(''channels'', JArr (map JStr done)), (''type'', JStr ''subscribed'')])) t))))"

definition handleConnectionClosed :: "nat \<Rightarrow> ws \<Rightarrow> ws" where
  "handleConnectionClosed c s = unsubscribeAll c s"

section \<open>Orders in progress\<close>

record realtime_row =
  rt_no :: string
  rt_line :: "int option"
  rt_line_name :: string
  rt_product :: string
  rt_plan :: "int option"
  rt_completed :: "int option"
  rt_good :: "int option"
  rt_defect :: "int option"
  rt_status :: "int option"
  rt_oee :: "rat option list"
  rt_updated :: int

text \<open>The query: the orders in progress, the last changed first, at most 20.\<close>

definition realtime_rows :: "realtime_row list \<Rightarrow> realtime_row list" where
  "realtime_rows rows = take 20 (sort_key (\<lambda>r. - rt_updated r) (filter (\<lambda>r. rt_status r = Some 3) rows))"

definition null_or_real :: "rat option \<Rightarrow> json" where
  "null_or_real v = (case v of None \<Rightarrow> JNull | Some r \<Rightarrow> JReal r)"

definition zero_if_null :: "int option \<Rightarrow> int" where
  "zero_if_null v = (case v of None \<Rightarrow> 0 | Some i \<Rightarrow> i)"

definition nth_real :: "rat option list \<Rightarrow> nat \<Rightarrow> json" where
  "nth_real vs i = (if i < length vs then null_or_real (vs ! i) else JNull)"

definition realtime_payload :: "string \<Rightarrow> realtime_row \<Rightarrow> json" where
  "realtime_payload now r =
    (let plan = zero_if_null (rt_plan r); good = zero_if_null (rt_good r) in
     JObj [(''line_id'', JInt (zero_if_null (rt_line r))), (''line_name'', JStr (rt_line_name r)),
       (''work_order_no'', JStr (rt_no r)), (''product_name'', JStr (rt_product r)), (''target_qty'', JInt plan),
       (''completed_qty'', JInt (zero_if_null (rt_completed r))), (''good_qty'', JInt good),
       (''defect_qty'', JInt (zero_if_null (rt_defect r))),
       (''yield_rate'', JReal (if plan > 0 then of_int good * 100 / of_int plan else 0)),
       (''availability'', nth_real (rt_oee r) 0), (''performance'', nth_real (rt_oee r) 1),
       (''quality'', nth_real (rt_oee r) 2), (''oee'', nth_real (rt_oee r) 3),
       (''status'', JInt (zero_if_null (rt_status r))), (''timestamp'', JStr now)])"

definition queryAndPushRealtime :: "ws_env \<Rightarrow> realtime_row list option \<Rightarrow> ws \<Rightarrow> ws" where
  "queryAndPushRealtime e rows s =
    (case rows of
       None \<Rightarrow> s
     | Some rs \<Rightarrow> fold (\<lambda>r. ws_publish e ''production.realtime'' (realtime_payload (we_now e) r)) (realtime_rows rs) s)"

section \<open>The election\<close>

text \<open>
  The key in Redis, who waits for the answer to \<open>GET\<close> and what it was, and who has pushed. The two
  commands of one instance are two events; the key may expire or be lost in between. The answer to
  \<open>SET .. NX\<close> is a status, which is no text: the instance that wins pushes only after its next tick.
\<close>

record election =
  el_key :: "nat option"
  el_asked :: "nat \<rightharpoonup> bool"
  el_pushed :: "nat list"

datatype election_event = GetLeader nat | SetLeader nat | Expire

definition election0 :: election where
  "election0 = \<lparr>el_key = None, el_asked = Map.empty, el_pushed = []\<rparr>"

fun election_step :: "bool \<Rightarrow> election_event \<Rightarrow> election \<Rightarrow> election" where
  "election_step status_is_text (GetLeader i) s = s\<lparr>el_asked := (el_asked s)(i \<mapsto> el_key s = Some i)\<rparr>"
| "election_step status_is_text (SetLeader i) s =
     (case el_asked s i of
        None \<Rightarrow> s
      | Some mine \<Rightarrow>
          let s1 = s\<lparr>el_asked := (el_asked s)(i := None)\<rparr> in
          if mine then s1\<lparr>el_key := (if el_key s = None then None else Some i), el_pushed := el_pushed s @ [i]\<rparr>
          else if el_key s = None
          then s1\<lparr>el_key := Some i, el_pushed := (if status_is_text then el_pushed s @ [i] else el_pushed s)\<rparr>
          else s1)"
| "election_step status_is_text Expire s = s\<lparr>el_key := None\<rparr>"

end
