(* ===== verification/Ws_Props.thy ===== *)
theory Ws_Props
  imports Ws_Broadcast
begin

text \<open>
  The push of live data: what a tick sends, which subscriptions there are, and who pushes.
\<close>

section \<open>The buffer\<close>

text \<open>What a Redis message puts into the buffer.\<close>

definition contribution :: "ws_env \<Rightarrow> string \<times> string \<Rightarrow> (string \<times> string) list" where
  "contribution e m =
    (case m of (topic, body) \<Rightarrow>
       if \<not> starts_with kRedisPrefix topic then []
       else
         let ch = drop (length kRedisPrefix) topic in
         case we_parse e body of
           None \<Rightarrow> []
         | Some j \<Rightarrow>
             (case is_envelope ch j of
                None \<Rightarrow> []
              | Some b \<Rightarrow> [(ch, if b then body else ws_envelope e ch j)]))"

definition redis_messages :: "ws_env \<Rightarrow> (string \<times> string) list \<Rightarrow> ws \<Rightarrow> ws" where
  "redis_messages e ms s = fold (\<lambda>(topic, body). on_redis e topic body) ms s"

lemma on_redis_contribution: "on_redis e topic body s = fold (\<lambda>(ch, t). put_pending ch t) (contribution e (topic, body)) s"
  by (simp add: on_redis_def contribution_def publishLocal_def Let_def split: option.splits bool.splits)

lemma redis_messages_pending:
  "redis_messages e ms s = s\<lparr>ws_pending := ws_pending s ++ map_of (rev (concat (map (contribution e) ms)))\<rparr>"
proof (induction ms arbitrary: s)
  case (Cons m ms)
  obtain topic body where m: "m = (topic, body)" by (cases m)
  have put: "fold (\<lambda>(ch, t). put_pending ch t) cs s = s\<lparr>ws_pending := ws_pending s ++ map_of (rev cs)\<rparr>" for cs s
    by (induction cs arbitrary: s) (auto simp: put_pending_def map_add_def fun_eq_iff split: option.splits)
  have "redis_messages e (m # ms) s = redis_messages e ms (on_redis e topic body s)" by (simp add: redis_messages_def m)
  then show ?case using Cons by (simp add: on_redis_contribution put m)
qed (simp add: redis_messages_def)

lemma fold_send: "fold (\<lambda>c. send c t) cs s = s\<lparr>ws_sent := ws_sent s @ map (\<lambda>c. (c, t)) cs\<rparr>"
  by (induction cs arbitrary: s) (simp_all add: send_def)

definition deliveries :: "ws_env \<Rightarrow> ws \<Rightarrow> (string \<rightharpoonup> string) \<Rightarrow> string \<Rightarrow> (nat \<times> string) list" where
  "deliveries e s batch ch =
    (case batch ch of None \<Rightarrow> [] | Some t \<Rightarrow> map (\<lambda>c. (c, t)) (filter (we_connected e) (ws_subs s ch)))"

lemma send_channel_deliveries: "send_channel e batch ch s = s\<lparr>ws_sent := ws_sent s @ deliveries e s batch ch\<rparr>"
  by (simp add: send_channel_def deliveries_def fold_send split: option.splits)

lemma drain_deliveries:
  "drainPending e order s = s\<lparr>ws_pending := Map.empty, ws_sent := ws_sent s @ concat (map (deliveries e s (ws_pending s)) order)\<rparr>"
proof -
  have "fold (send_channel e batch) order t = t\<lparr>ws_sent := ws_sent t @ concat (map (deliveries e t batch) order)\<rparr>" for batch t
  proof (induction order arbitrary: t)
    case (Cons ch order)
    have "deliveries e (t\<lparr>ws_sent := x\<rparr>) batch = deliveries e t batch" for x by (simp add: deliveries_def fun_eq_iff split: option.split)
    with Cons show ?case by (simp add: send_channel_deliveries)
  qed simp
  moreover have "deliveries e (s\<lparr>ws_pending := Map.empty\<rparr>) = deliveries e s" by (simp add: deliveries_def fun_eq_iff split: option.split)
  ultimately show ?thesis by (simp add: drainPending_def)
qed

text \<open>What \<open>publish\<close> hands to Redis comes back as an envelope.\<close>

lemma contribution_envelope:
  assumes "we_parse e (ws_envelope e ch p) = Some (envelope_json (we_now e) ch p)"
  shows "contribution e (kRedisPrefix @ ch, ws_envelope e ch p) = [(ch, ws_envelope e ch p)]"
  using assms by (simp add: contribution_def is_envelope_def envelope_json_def)

lemma contributions_all: "\<forall>r\<in>set rs. contribution e (g r) = [h r] \<Longrightarrow> concat (map (contribution e) (map g rs)) = map h rs"
  by (induction rs) auto

lemma distinct_one: "distinct xs \<Longrightarrow> set xs = {x} \<Longrightarrow> xs = [x]"
proof -
  assume d: "distinct xs" and s: "set xs = {x}"
  then have "length xs = 1" using distinct_card [OF d] by simp
  with s show ?thesis by (cases xs) simp_all
qed

lemma push_posted:
  "ws_posted (fold (\<lambda>r. ws_publish e ch (f r)) rs s) = ws_posted s @ map (\<lambda>r. (kRedisPrefix @ ch, ws_envelope e ch (f r))) rs"
  by (induction rs arbitrary: s) (simp_all add: ws_publish_def)

section \<open>Subscriptions\<close>

datatype ws_event = Opened jwt_env int string nat | Said nat string | Closed nat | FromRedis string string | Tick "string list"

fun ws_step :: "ws_env \<Rightarrow> ws_event \<Rightarrow> ws \<Rightarrow> ws" where
  "ws_step e (Opened J now token c) s = handleNewConnection e J now token c s"
| "ws_step e (Said c m) s = (case handleNewMessage e c m s of None \<Rightarrow> s | Some t \<Rightarrow> t)"
| "ws_step e (Closed c) s = handleConnectionClosed c s"
| "ws_step e (FromRedis topic body) s = on_redis e topic body s"
| "ws_step e (Tick order) s = drainPending e order s"

definition subs_ok :: "ws \<Rightarrow> bool" where
  "subs_ok s \<longleftrightarrow> (\<forall>ch. distinct (ws_subs s ch) \<and> length (ws_subs s ch) \<le> 2000 \<and> (\<not> channelAllowed ch \<longrightarrow> ws_subs s ch = []))"

lemma subs_ok_cong: "ws_subs t = ws_subs s \<Longrightarrow> subs_ok s \<Longrightarrow> subs_ok t"
  by (simp add: subs_ok_def)

lemma subs_ok_set:
  "subs_ok s \<Longrightarrow> channelAllowed ch \<Longrightarrow> distinct new \<Longrightarrow> length new \<le> 2000 \<Longrightarrow> subs_ok (s\<lparr>ws_subs := (ws_subs s)(ch := new)\<rparr>)"
  by (auto simp: subs_ok_def)

lemma subscribe_ok: "subs_ok s \<Longrightarrow> channelAllowed ch \<Longrightarrow> subs_ok (subscribe ch c s)"
proof -
  assume s: "subs_ok s" and a: "channelAllowed ch"
  let ?vec = "ws_subs s ch"
  have v: "distinct ?vec" "length ?vec \<le> 2000" using s by (simp_all add: subs_ok_def)
  show ?thesis
  proof (cases "c \<in> set ?vec")
    case True
    then show ?thesis using s by (simp add: subscribe_def)
  next
    case False
    let ?new = "(if length ?vec \<ge> 2000 then tl ?vec else ?vec) @ [c]"
    have "distinct ?new \<and> length ?new \<le> 2000"
      using v False by (auto simp: distinct_tl dest: list.set_sel(2) [rotated])
    moreover have "subscribe ch c s = s\<lparr>ws_subs := (ws_subs s)(ch := ?new)\<rparr>"
      using False by (simp add: subscribe_def kMaxSubsPerChannel_def)
    ultimately show ?thesis using subs_ok_set [OF s a] by metis
  qed
qed

lemma send_subs [simp]: "ws_subs (send c t s) = ws_subs s"
  by (simp add: send_def)

lemma take_channels_ok: "subs_ok s \<Longrightarrow> subs_ok (fst (fold (take_channel e c) chs (s, done)))"
proof (induction chs arbitrary: s "done")
  case (Cons ch chs)
  have "subs_ok (fst (take_channel e c ch (s, done)))"
    using Cons.prems by (simp add: take_channel_def subscribe_ok subs_ok_cong [OF send_subs])
  then show ?case using Cons.IH by (cases "take_channel e c ch (s, done)") simp
qed simp

lemma handleNewMessage_ok: "subs_ok s \<Longrightarrow> handleNewMessage e c m s = Some t \<Longrightarrow> subs_ok t"
proof -
  assume s: "subs_ok s" and t: "handleNewMessage e c m s = Some t"
  have "subs_ok u" if "fold (take_channel e c) chs (s, []) = (u, done)" for chs u "done"
    using take_channels_ok [OF s, of e c chs "[]"] that by simp
  then show ?thesis
    using s t by (auto simp: handleNewMessage_def intro: subs_ok_cong [OF send_subs] split: option.splits sum.splits if_splits prod.splits)
qed

lemma ws_step_ok: "subs_ok s \<Longrightarrow> subs_ok (ws_step e ev s)"
proof (cases ev)
  case (Opened J now token c)
  assume "subs_ok s"
  then show ?thesis using Opened by (auto simp: handleNewConnection_def intro: subs_ok_cong split: option.splits)
next
  case (Said c m)
  assume "subs_ok s"
  then show ?thesis using Said handleNewMessage_ok by (auto split: option.splits)
next
  case (Closed c)
  assume "subs_ok s"
  then show ?thesis using Closed
    by (auto simp: handleConnectionClosed_def unsubscribeAll_def subs_ok_def intro: order_trans [OF length_filter_le])
next
  case (FromRedis topic body)
  assume "subs_ok s"
  moreover have "ws_subs (on_redis e topic body s) = ws_subs s"
    using redis_messages_pending [of e "[(topic, body)]" s] by (simp add: redis_messages_def)
  ultimately show ?thesis using FromRedis by (auto intro: subs_ok_cong)
next
  case (Tick order)
  assume "subs_ok s"
  then show ?thesis using Tick by (auto simp: drain_deliveries intro: subs_ok_cong)
qed

interpretation wsinv: step_invariant "ws_step e" subs_ok
  by unfold_locales (rule ws_step_ok)

section \<open>The election\<close>

datatype turn_event = WholeTick nat | KeyLost

fun turn_events :: "turn_event \<Rightarrow> election_event list" where
  "turn_events (WholeTick i) = [GetLeader i, SetLeader i]"
| "turn_events KeyLost = [Expire]"

definition turn_run :: "turn_event list \<Rightarrow> election" where
  "turn_run es = fold (election_step False) (concat (map turn_events es)) election0"

lemma turn_run_snoc: "turn_run (es @ [e]) = fold (election_step False) (turn_events e) (turn_run es)"
  by (simp add: turn_run_def)

lemma whole_tick:
  "fold (election_step False) (turn_events (WholeTick i)) s =
    s\<lparr>el_asked := (el_asked s)(i := None), el_key := (if el_key s = None then Some i else el_key s),
      el_pushed := (if el_key s = Some i then el_pushed s @ [i] else el_pushed s)\<rparr>"
  by (cases "el_key s") auto

section \<open>Properties\<close>

text \<open>C39: of the orders in progress one is shown: the leader posts up to 20 orders, the last changed first; when Redis
  has delivered them all before the next tick, the tick sends every connected subscriber of
  \<open>production.realtime\<close> exactly one envelope, that of the last one posted, which is the order of the 20 that has
  not changed for the longest time, and the others are lost.\<close>

theorem realtime_push_keeps_one:
  assumes "realtime_rows rows \<noteq> []" and "ws_pending s = Map.empty" and "ws_posted s = []"
    and "\<forall>r\<in>set (realtime_rows rows). we_parse e (ws_envelope e ''production.realtime'' (realtime_payload (we_now e) r))
      = Some (envelope_json (we_now e) ''production.realtime'' (realtime_payload (we_now e) r))"
    and "t = redis_messages e (ws_posted (queryAndPushRealtime e (Some rows) s)) s"
    and "distinct order" and "set order = dom (ws_pending t)"
  shows "ws_sent (drainPending e order t) = ws_sent s
      @ map (\<lambda>c. (c, ws_envelope e ''production.realtime'' (realtime_payload (we_now e) (last (realtime_rows rows)))))
          (filter (we_connected e) (ws_subs s ''production.realtime''))
    \<and> (\<forall>r\<in>set (realtime_rows rows). rt_updated (last (realtime_rows rows)) \<le> rt_updated r)"
proof
  let ?ch = "''production.realtime''" and ?rs = "realtime_rows rows"
  let ?env = "\<lambda>r. ws_envelope e ?ch (realtime_payload (we_now e) r)"
  have posted: "ws_posted (queryAndPushRealtime e (Some rows) s) = map (\<lambda>r. (kRedisPrefix @ ?ch, ?env r)) ?rs"
    by (simp add: queryAndPushRealtime_def push_posted assms(3))
  have "concat (map (contribution e) (map (\<lambda>r. (kRedisPrefix @ ?ch, ?env r)) ?rs)) = map (\<lambda>r. (?ch, ?env r)) ?rs"
    by (rule contributions_all) (use assms(4) contribution_envelope in blast)
  then have t: "t = s\<lparr>ws_pending := map_of (rev (map (\<lambda>r. (?ch, ?env r)) ?rs))\<rparr>"
    unfolding assms(5) redis_messages_pending posted by (simp only: assms(2) empty_map_add)
  have "rev (map (\<lambda>r. (?ch, ?env r)) ?rs) = (?ch, ?env (last ?rs)) # rev (map (\<lambda>r. (?ch, ?env r)) (butlast ?rs))"
    using assms(1) by (cases ?rs rule: rev_cases) simp_all
  moreover have "dom (map_of (rev (map (\<lambda>r. (?ch, ?env r)) ?rs))) = {?ch}"
    using assms(1) by (cases ?rs) (auto simp: dom_map_of_conv_image_fst image_image)
  ultimately have p: "ws_pending t ?ch = Some (?env (last ?rs))" "dom (ws_pending t) = {?ch}" by (simp_all add: t)
  then have "set order = {?ch}" using assms(7) by simp
  then have "order = [?ch]" using assms(6) distinct_one by metis
  then show "ws_sent (drainPending e order t) = ws_sent s @ map (\<lambda>c. (c, ?env (last ?rs))) (filter (we_connected e) (ws_subs s ?ch))"
    using p(1) by (simp add: drain_deliveries deliveries_def t)
  have "sorted (map (\<lambda>r. - rt_updated r) ?rs)"
    unfolding realtime_rows_def take_map [symmetric] by (rule sorted_wrt_take) simp
  then show "\<forall>r\<in>set ?rs. rt_updated (last ?rs) \<le> rt_updated r"
    using assms(1) by (cases ?rs rule: rev_cases) (auto simp: sorted_append)
qed

text \<open>The subscriptions stay well formed: after any sequence of connections, messages of clients, messages of Redis,
  ticks and closings, no channel but the four has a subscriber, none has a connection twice or more than
  2000 of them, and a connection that closes is gone from every channel.\<close>

theorem subscriptions_bounded:
  "(channelAllowed ch \<or> ws_subs (fold (ws_step e) evs ws0) ch = [])
    \<and> distinct (ws_subs (fold (ws_step e) evs ws0) ch)
    \<and> subscriberCount ch (fold (ws_step e) evs ws0) \<le> 2000
    \<and> c \<notin> set (ws_subs (fold (ws_step e) (evs @ [Closed c]) ws0) ch)"
proof -
  have "subs_ok ws0" by (simp add: subs_ok_def ws0_def)
  then have "subs_ok (fold (ws_step e) evs ws0)" by (rule wsinv.run_keeps)
  then show ?thesis by (auto simp: subs_ok_def subscriberCount_def handleConnectionClosed_def unsubscribeAll_def)
qed

text \<open>One instance pushes: as long as the two commands of a tick are not separated, an instance pushes only when
  it held the key before the tick and holds it after it, so between the pushes of two instances the key was
  lost and taken over by a tick that pushed nothing; but when the key is lost between the two commands of one
  instance, a second one becomes the leader, and the first, whose \<open>SET .. XX\<close> asks nothing, pushes as well
  and takes the key back.\<close>

theorem leader_pushes:
  "(el_pushed (turn_run (evs @ [ev])) = el_pushed (turn_run evs)
      \<or> (\<exists>i. ev = WholeTick i \<and> el_key (turn_run evs) = Some i \<and> el_key (turn_run (evs @ [ev])) = Some i
          \<and> el_pushed (turn_run (evs @ [ev])) = el_pushed (turn_run evs) @ [i]))
    \<and> el_pushed (fold (election_step False)
        [GetLeader 1, SetLeader 1, GetLeader 1, Expire, GetLeader 2, SetLeader 2, GetLeader 2, SetLeader 2, SetLeader 1] election0) = [2, 1]
    \<and> el_key (fold (election_step False)
        [GetLeader 1, SetLeader 1, GetLeader 1, Expire, GetLeader 2, SetLeader 2, GetLeader 2, SetLeader 2, SetLeader 1] election0) = Some 1"
proof -
  have "el_pushed (turn_run (evs @ [ev])) = el_pushed (turn_run evs)
      \<or> (\<exists>i. ev = WholeTick i \<and> el_key (turn_run evs) = Some i \<and> el_key (turn_run (evs @ [ev])) = Some i
          \<and> el_pushed (turn_run (evs @ [ev])) = el_pushed (turn_run evs) @ [i])"
  proof (cases ev)
    case (WholeTick i)
    show ?thesis unfolding turn_run_snoc WholeTick whole_tick by auto
  next
    case KeyLost
    show ?thesis unfolding turn_run_snoc KeyLost by simp
  qed
  moreover have "fold (election_step False)
        [GetLeader 1, SetLeader 1, GetLeader 1, Expire, GetLeader 2, SetLeader 2, GetLeader 2, SetLeader 2, SetLeader 1] election0
      = \<lparr>el_key = Some 1, el_asked = (\<lambda>_. None), el_pushed = [2, 1]\<rparr>"
    by (simp add: election0_def fun_eq_iff)
  ultimately show ?thesis by simp
qed

section \<open>A concrete push\<close>

definition demo_order :: "string \<Rightarrow> int \<Rightarrow> realtime_row" where
  "demo_order no tm = \<lparr>rt_no = no, rt_line = Some 4, rt_line_name = ''L4'', rt_product = ''P'', rt_plan = Some 100, rt_completed = Some 50,
     rt_good = Some 48, rt_defect = Some 2, rt_status = Some 3, rt_oee = [], rt_updated = tm\<rparr>"

text \<open>A printer that keeps the order's number, and its parser.\<close>

definition demo_print :: "json \<Rightarrow> string" where
  "demo_print j = (case member ''payload'' j of Some p \<Rightarrow> (case jstr ''work_order_no'' p of Given t \<Rightarrow> t | _ \<Rightarrow> []) | None \<Rightarrow> [])"

definition demo_ws_env :: ws_env where
  "demo_ws_env = \<lparr>we_parse = (\<lambda>t. Some (envelope_json ''now'' ''production.realtime''
       (realtime_payload ''now'' (demo_order t (if t = ''A'' then 1 else 2))))),
     we_dump = demo_print, we_now = ''now'', we_connected = (\<lambda>c. c = 7)\<rparr>"

definition demo_ws :: ws where
  "demo_ws = subscribe ''production.realtime'' 8 (subscribe ''production.realtime'' 7 ws0)"

theorem realtime_push_keeps_one_witness:
  "\<exists>t. ws_sent (drainPending demo_ws_env [''production.realtime''] t) = [(7, ''A'')]"
proof -
  let ?rows = "[demo_order ''A'' 1, demo_order ''B'' 2]" and ?ch = "''production.realtime''"
  let ?t = "redis_messages demo_ws_env (ws_posted (queryAndPushRealtime demo_ws_env (Some ?rows) demo_ws)) demo_ws"
  have rows: "realtime_rows ?rows = [demo_order ''B'' 2, demo_order ''A'' 1]"
    by (simp add: realtime_rows_def demo_order_def)
  have env: "ws_envelope demo_ws_env ?ch (realtime_payload ''now'' (demo_order n k)) = n" for n k
    by (simp add: ws_envelope_def demo_ws_env_def demo_print_def envelope_json_def realtime_payload_def demo_order_def Let_def)
  have now: "we_now demo_ws_env = ''now''" by (simp add: demo_ws_env_def)
  have s: "ws_pending demo_ws = Map.empty" "ws_posted demo_ws = []" "ws_sent demo_ws = []"
      "filter (we_connected demo_ws_env) (ws_subs demo_ws ?ch) = [7]"
    by (simp_all add: demo_ws_def subscribe_def ws0_def kMaxSubsPerChannel_def demo_ws_env_def)
  have p: "\<forall>r\<in>set (realtime_rows ?rows). we_parse demo_ws_env (ws_envelope demo_ws_env ?ch (realtime_payload (we_now demo_ws_env) r))
      = Some (envelope_json (we_now demo_ws_env) ?ch (realtime_payload (we_now demo_ws_env) r))"
    by (simp add: rows now env) (simp add: demo_ws_env_def)
  have c: "contribution demo_ws_env (kRedisPrefix @ ?ch, n) = [(?ch, n)]" for n
    by (simp add: contribution_def is_envelope_def envelope_json_def demo_ws_env_def)
  have "concat (map (contribution demo_ws_env) (ws_posted (queryAndPushRealtime demo_ws_env (Some ?rows) demo_ws))) = [(?ch, ''B''), (?ch, ''A'')]"
    using c by (simp add: queryAndPushRealtime_def ws_publish_def s rows now env)
  then have "set [?ch] = dom (ws_pending ?t)" by (simp add: redis_messages_pending s)
  from realtime_push_keeps_one [OF _ s(1,2) p refl _ this] show ?thesis
    by (simp add: rows s now env) blast
qed

end
