(* ===== verification/Metrics_Registry.thy ===== *)
theory Metrics_Registry
  imports Ws_Broadcast Outbox "HOL-Library.List_Lexorder" "HOL-Library.Char_ord"
begin

text \<open>
  The metrics of the backend (\<open>utils/Metrics.hh\<close>, \<open>metrics/MetricsCollector.cc\<close>): counters, gauges and
  histograms in ordered maps, their text, and what the collector reads. Doubles are exact rationals,
  their printing is a parameter; the 64-bit counts do not wrap.
\<close>

section \<open>Ordered maps\<close>

text \<open>\<open>std::map\<close>: the entries in the order of their keys; \<open>m[k]\<close> adds an entry that is missing.\<close>

fun at_key :: "string \<Rightarrow> ('v option \<Rightarrow> 'v) \<Rightarrow> (string \<times> 'v) list \<Rightarrow> (string \<times> 'v) list" where
  "at_key k f [] = [(k, f None)]"
| "at_key k f ((q, v) # r) =
     (if k = q then (q, f (Some v)) # r else if k < q then (k, f None) # (q, v) # r else (q, v) # at_key k f r)"

lemma map_of_at_key: "sorted_wrt (<) (map fst m) \<Longrightarrow> map_of (at_key k f m) = (map_of m)(k \<mapsto> f (map_of m k))"
proof (induction k f m rule: at_key.induct)
  case (2 k f q v r)
  have "map_of r k = None" if "k < q"
  proof -
    have "k \<notin> fst ` set r" using 2(2) that by (auto dest: less_trans)
    then show ?thesis by (simp add: map_of_eq_None_iff)
  qed
  then show ?case using 2 by (auto simp: fun_eq_iff)
qed auto

lemma set_at_key: "fst ` set (at_key k f m) = insert k (fst ` set m)"
  by (induction k f m rule: at_key.induct) auto

lemma sorted_at_key: "sorted_wrt (<) (map fst m) \<Longrightarrow> sorted_wrt (<) (map fst (at_key k f m))"
proof (induction k f m rule: at_key.induct)
  case (2 k f q v r)
  have "\<forall>x\<in>fst ` set (at_key k f r). q < x" if "\<not> k < q" "k \<noteq> q"
    using 2(2) that by (auto simp: set_at_key)
  with 2 show ?case by (auto dest: less_trans)
qed simp

section \<open>The registry\<close>

definition kBuckets :: "rat list" where
  "kBuckets = [10, 25, 50, 100, 200, 300, 500, 1000, 2000]"

record histogram =
  hg_buckets :: "nat list"
  hg_count :: nat
  hg_sum :: rat

definition histogram0 :: histogram where
  "histogram0 = \<lparr>hg_buckets = map (\<lambda>_. 0) kBuckets, hg_count = 0, hg_sum = 0\<rparr>"

record registry =
  mr_counters :: "(string \<times> nat) list"
  mr_gauges :: "(string \<times> rat) list"
  mr_histograms :: "(string \<times> histogram) list"

definition registry0 :: registry where
  "registry0 = \<lparr>mr_counters = [], mr_gauges = [], mr_histograms = []\<rparr>"

definition value_or :: "'v \<Rightarrow> 'v option \<Rightarrow> 'v" where
  "value_or d v = (case v of None \<Rightarrow> d | Some x \<Rightarrow> x)"

definition counterInc :: "string \<Rightarrow> nat \<Rightarrow> registry \<Rightarrow> registry" where
  "counterInc k delta m = m\<lparr>mr_counters := at_key k (\<lambda>v. value_or 0 v + delta) (mr_counters m)\<rparr>"

definition gaugeSet :: "string \<Rightarrow> rat \<Rightarrow> registry \<Rightarrow> registry" where
  "gaugeSet k x m = m\<lparr>mr_gauges := at_key k (\<lambda>_. x) (mr_gauges m)\<rparr>"

definition observe :: "rat \<Rightarrow> histogram \<Rightarrow> histogram" where
  "observe x h =
    \<lparr>hg_buckets = map2 (\<lambda>b n. if x \<le> b then n + 1 else n) kBuckets (hg_buckets h),
     hg_count = hg_count h + 1, hg_sum = hg_sum h + x\<rparr>"

definition histogramObserve :: "string \<Rightarrow> rat \<Rightarrow> registry \<Rightarrow> registry" where
  "histogramObserve k x m = m\<lparr>mr_histograms := at_key k (\<lambda>v. observe x (value_or histogram0 v)) (mr_histograms m)\<rparr>"

section \<open>The text\<close>

definition newline :: string where
  "newline = [CHR 0x0A]"

definition metric_name :: "string \<Rightarrow> string" where
  "metric_name k = (case find_char (CHR ''{'') k of None \<Rightarrow> k | Some i \<Rightarrow> take i k)"

definition quote :: "string \<Rightarrow> string" where
  "quote t = [CHR 0x22] @ t @ [CHR 0x22]"

text \<open>The lines of counters or gauges; a name that has not come yet gets its \<open>TYPE\<close> line first.\<close>

fun render_values :: "string \<Rightarrow> ('v \<Rightarrow> string) \<Rightarrow> string set \<Rightarrow> (string \<times> 'v) list \<Rightarrow> string" where
  "render_values ty txt seen [] = []"
| "render_values ty txt seen ((k, v) # r) =
     (if metric_name k \<in> seen then [] else ''# TYPE '' @ metric_name k @ '' '' @ ty @ newline)
     @ k @ '' '' @ txt v @ newline @ render_values ty txt (insert (metric_name k) seen) r"

definition render_histogram :: "(rat \<Rightarrow> string) \<Rightarrow> string \<times> histogram \<Rightarrow> string" where
  "render_histogram txt kh =
    (case kh of (k, h) \<Rightarrow>
       ''# TYPE '' @ k @ '' histogram'' @ newline
       @ concat (map2 (\<lambda>b n. k @ ''_bucket{le='' @ quote (txt b) @ ''} '' @ to_string (int n) @ newline) kBuckets (hg_buckets h))
       @ k @ ''_bucket{le='' @ quote ''+Inf'' @ ''} '' @ to_string (int (hg_count h)) @ newline
       @ k @ ''_sum '' @ txt (hg_sum h) @ newline
       @ k @ ''_count '' @ to_string (int (hg_count h)) @ newline)"

definition render :: "(rat \<Rightarrow> string) \<Rightarrow> registry \<Rightarrow> string" where
  "render txt m = render_values ''counter'' (\<lambda>n. to_string (int n)) {} (mr_counters m)
    @ render_values ''gauge'' txt {} (mr_gauges m) @ concat (map (render_histogram txt) (mr_histograms m))"

section \<open>The collector\<close>

text \<open>The answers of the database: None when a query fails.\<close>

definition outbox_waiting :: "outbox_row list \<Rightarrow> nat" where
  "outbox_waiting rows = length (filter (\<lambda>r. ob_status r = 0 \<or> (ob_status r = 2 \<and> ob_retry r < 5)) rows)"

definition collectOutboxPending :: "outbox_row list option \<Rightarrow> registry \<Rightarrow> registry" where
  "collectOutboxPending rows m =
    (case rows of None \<Rightarrow> m | Some rs \<Rightarrow> gaugeSet ''mes_outbox_pending'' (of_nat (outbox_waiting rs)) m)"

definition collectPartitionDaysLeft :: "int option option \<Rightarrow> registry \<Rightarrow> registry" where
  "collectPartitionDaysLeft days m =
    (case days of Some (Some d) \<Rightarrow> gaugeSet (''mes_partition_days_left{table='' @ quote ''iot_raw_data'' @ ''}'') (of_int d) m | _ \<Rightarrow> m)"

definition collectWsSubscribers :: "ws \<Rightarrow> registry \<Rightarrow> registry" where
  "collectWsSubscribers s m =
    gaugeSet ''mes_ws_subscribers''
      (of_nat (sum_list (map (\<lambda>ch. subscriberCount ch s) [''production.realtime'', ''device.status'', ''alert'', ''workorder.event'']))) m"

text \<open>One round of the queue depths; a negative count is a failure.\<close>

definition mqLag :: "(string \<Rightarrow> int) \<Rightarrow> registry \<Rightarrow> registry" where
  "mqLag depth m =
    fold (\<lambda>q m. if depth q \<ge> 0 then gaugeSet (''mes_mq_queue_messages{queue='' @ quote q @ ''}'') (of_int (depth q)) m else m)
      [''iot.data.queue'', ''iot.alert.queue'', ''iot.retry.queue'', ''iot.dlq''] m"

section \<open>Properties\<close>

definition histogram_of :: "rat list \<Rightarrow> histogram" where
  "histogram_of xs = \<lparr>hg_buckets = map (\<lambda>b. length (filter (\<lambda>x. x \<le> b) xs)) kBuckets, hg_count = length xs, hg_sum = sum_list xs\<rparr>"

lemma observe_histogram: "observe x (histogram_of xs) = histogram_of (xs @ [x])"
  by (simp add: observe_def histogram_of_def kBuckets_def)

lemma histogram0_of: "histogram0 = histogram_of []"
  by (simp add: histogram0_def histogram_of_def kBuckets_def)

definition values_of :: "string \<Rightarrow> (string \<times> rat) list \<Rightarrow> rat list" where
  "values_of k obs = map snd (filter (\<lambda>kv. fst kv = k) obs)"

definition histograms_are :: "(string \<times> rat) list \<Rightarrow> registry \<Rightarrow> bool" where
  "histograms_are obs m \<longleftrightarrow> sorted_wrt (<) (map fst (mr_histograms m))
    \<and> (\<forall>k. map_of (mr_histograms m) k = (if values_of k obs = [] then None else Some (histogram_of (values_of k obs))))"

lemma histograms_are_observe: "histograms_are obs m \<Longrightarrow> histograms_are (obs @ [(k, x)]) (histogramObserve k x m)"
  by (auto simp: histograms_are_def histogramObserve_def sorted_at_key map_of_at_key values_of_def value_or_def
      histogram0_of observe_histogram)

lemma outbox_waiting_eligible: "outbox_waiting rows = length (filter eligible rows)"
  unfolding outbox_waiting_def by (rule arg_cong [of _ _ length], rule filter_cong) (simp_all add: eligible_def kMaxRetry_def)

text \<open>The metrics tell the truth: after any sequence of observations every histogram has, for each of its nine
  bounds, the number of its own observations that do not exceed it, their number and their sum, a name
  without observations has none, and the gauge of waiting messages is the number of rows the dispatcher of
  the outbox still sends.\<close>

theorem metrics_faithful:
  "map_of (mr_histograms (fold (\<lambda>(k, x). histogramObserve k x) obs registry0)) k =
      (if values_of k obs = [] then None
       else Some \<lparr>hg_buckets = map (\<lambda>b. length (filter (\<lambda>x. x \<le> b) (values_of k obs))) kBuckets,
              hg_count = length (values_of k obs), hg_sum = sum_list (values_of k obs)\<rparr>)
    \<and> map_of (mr_gauges (collectOutboxPending (Some rows) registry0)) ''mes_outbox_pending'' = Some (of_nat (length (filter eligible rows)))"
proof
  have "histograms_are obs (fold (\<lambda>(k, x). histogramObserve k x) obs registry0)"
  proof (induction obs rule: rev_induct)
    case Nil
    then show ?case by (simp add: histograms_are_def registry0_def values_of_def)
  next
    case (snoc o' obs)
    then show ?case using histograms_are_observe by (cases o') simp
  qed
  then show "map_of (mr_histograms (fold (\<lambda>(k, x). histogramObserve k x) obs registry0)) k =
      (if values_of k obs = [] then None
       else Some \<lparr>hg_buckets = map (\<lambda>b. length (filter (\<lambda>x. x \<le> b) (values_of k obs))) kBuckets,
              hg_count = length (values_of k obs), hg_sum = sum_list (values_of k obs)\<rparr>)"
    by (simp add: histograms_are_def histogram_of_def)
  show "map_of (mr_gauges (collectOutboxPending (Some rows) registry0)) ''mes_outbox_pending'' = Some (of_nat (length (filter eligible rows)))"
    by (simp add: collectOutboxPending_def gaugeSet_def registry0_def outbox_waiting_eligible)
qed

end
