(* ===== verification/Production.thy ===== *)
theory Production
  imports Request_Data
begin

text \<open>
  Master data of production and plans (\<open>services/ProductionService.cc\<close>, the error handler of
  \<open>controllers/ProductionController.cc\<close>): lines, stations, products, processes with their steps, plans. The
  answers of the database by the number of the statement, the conversion of dates, the identifiers and the
  clock are in the environment. Of work orders only what the references need is kept.
\<close>

section \<open>Tables\<close>

record pline =
  ln_id :: int
  ln_code :: string
  ln_name :: string
  ln_workshop :: "string option"
  ln_location :: "string option"
  ln_capacity :: "int option"
  ln_status :: int
  ln_deleted :: bool

record pstation =
  sx_id :: int
  sx_line :: int
  sx_code :: string
  sx_name :: string
  sx_seq :: int
  sx_cycle :: "int option"
  sx_status :: int
  sx_deleted :: bool

record pproduct =
  pp_id :: int
  pp_code :: string
  pp_name :: string
  pp_spec :: "string option"
  pp_unit :: "string option"
  pp_category :: "string option"
  pp_erp :: "string option"
  pp_process :: "int option"
  pp_status :: int
  pp_deleted :: bool

record pprocess =
  pc_id :: int
  pc_code :: string
  pc_name :: string
  pc_product :: "int option"
  pc_version :: string
  pc_total :: int
  pc_status :: int
  pc_published :: int
  pc_creator :: int
  pc_deleted :: bool

record pstep =
  sp_process :: int
  sp_seq :: int
  sp_name :: string
  sp_code :: string
  sp_type :: "string option"
  sp_cycle :: "int option"
  sp_quality :: bool
  sp_key :: bool

record plan =
  pn_id :: int
  pn_no :: string
  pn_date :: int
  pn_line :: int
  pn_shift :: int
  pn_qty :: int
  pn_status :: int
  pn_creator :: int
  pn_created :: int

record order_ref =
  or_id :: int
  or_product :: int
  or_process :: "int option"
  or_line :: "int option"

record production =
  pd_lines :: "pline list"
  pd_stations :: "pstation list"
  pd_products :: "pproduct list"
  pd_processes :: "pprocess list"
  pd_steps :: "pstep list"
  pd_plans :: "plan list"
  pd_links :: "(int \<times> int) list"
  pd_orders :: "order_ref list"
  pd_plan_seq :: int

record prod_env =
  px_db :: "nat \<Rightarrow> bool"
  px_commit :: bool
  px_abandon :: "production \<Rightarrow> production \<Rightarrow> production"
  px_id :: int
  px_now :: int
  px_year :: int
  px_month :: int
  px_day :: int
  px_date :: "string \<Rightarrow> int option"
  px_text :: "int \<Rightarrow> string"

section \<open>Helpers\<close>

abbreviation db_failed :: fault where
  "db_failed \<equiv> SqlError ''database error''"

text \<open>\<open>NULLIF(text, '')\<close>\<close>

definition null_text :: "string \<Rightarrow> string option" where
  "null_text t = (if t = [] then None else Some t)"

definition text_column :: "nat \<Rightarrow> string option \<Rightarrow> bool" where
  "text_column n t = (case t of None \<Rightarrow> True | Some x \<Rightarrow> length x \<le> n)"

definition keep_text :: "string \<Rightarrow> 'a \<Rightarrow> (string \<Rightarrow> 'a) \<Rightarrow> 'a" where
  "keep_text t old f = (if t = [] then old else f t)"

text \<open>\<open>body["k"].get<std::string>()\<close> and the like, of a key that is there.\<close>

definition got :: "'a field \<Rightarrow> 'a result" where
  "got f = (case f of Given v \<Rightarrow> Inr v | _ \<Rightarrow> Inl JsonError)"

fun jbool :: "string \<Rightarrow> json \<Rightarrow> bool field" where
  "jbool k (JObj kvs) = (case map_of kvs k of None \<Rightarrow> Absent | Some (JBool b) \<Rightarrow> Given b | Some _ \<Rightarrow> IllTyped)"
| "jbool k _ = IllTyped"

definition there :: "string \<Rightarrow> json \<Rightarrow> bool" where
  "there k j \<longleftrightarrow> member k j \<noteq> None"

definition genPlanNo :: "prod_env \<Rightarrow> int \<Rightarrow> string" where
  "genPlanNo e sq = take 31 (''PL'' @ pad_num 4 (px_year e) @ pad_num 2 (px_month e) @ pad_num 2 (px_day e) @ pad_num 5 sq)"

text \<open>The answer of the controller to a fault: code and message.\<close>

definition handleError :: "fault \<Rightarrow> int \<times> string" where
  "handleError f = (case f of ApiError c m \<Rightarrow> (c, m) | _ \<Rightarrow> (500, ''internal error''))"

text \<open>A list: the count, then the page.\<close>

definition paged :: "prod_env \<Rightarrow> int \<Rightarrow> int \<Rightarrow> 'a list \<Rightarrow> 'a page_result result" where
  "paged e page psize rows =
    (if \<not> px_db e 0 then Inl db_failed
     else
       case clampPage page psize of
         (p, n) \<Rightarrow>
           (case page_rows p n rows of
              None \<Rightarrow> Inl (Undefined ''signed overflow'')
            | Some xs \<Rightarrow>
                if \<not> px_db e 1 then Inl db_failed
                else Inr \<lparr>pg_list = xs, pg_total = int (length rows), pg_page = p, pg_size = n\<rparr>))"

section \<open>Lines\<close>

definition lineToJson :: "pline \<Rightarrow> json" where
  "lineToJson l = JObj [(''id'', JInt (ln_id l)), (''line_code'', JStr (ln_code l)), (''line_name'', JStr (ln_name l)),
     (''workshop'', JStr (or_else (ln_workshop l) [])), (''location'', JStr (or_else (ln_location l) [])),
     (''capacity_per_hour'', JInt (or_else (ln_capacity l) 0)), (''status'', JInt (ln_status l))]"

definition listLines :: "prod_env \<Rightarrow> int \<Rightarrow> int \<Rightarrow> string \<Rightarrow> production \<Rightarrow> json page_result result" where
  "listLines e page psize keyword s =
    paged e page psize (map lineToJson (sort_key ln_id
      (filter (\<lambda>l. \<not> ln_deleted l \<and> (keyword = [] \<or> contains_keyword keyword (ln_code l @ '' '' @ ln_name l))) (pd_lines s))))"

definition insert_line :: "prod_env \<Rightarrow> pline \<Rightarrow> production \<Rightarrow> json result \<times> production" where
  "insert_line e l s =
    (if \<not> px_db e 0 \<or> length (ln_code l) > 64 \<or> length (ln_name l) > 128 \<or> \<not> text_column 64 (ln_workshop l)
        \<or> \<not> text_column 256 (ln_location l) \<or> ln_code l \<in> ln_code ` set (pd_lines s) \<or> ln_id l \<in> ln_id ` set (pd_lines s)
     then (Inl db_failed, s)
     else (Inr (JObj [(''id'', JInt (ln_id l)), (''created'', JBool True)]), s\<lparr>pd_lines := pd_lines s @ [l]\<rparr>))"

definition createLine :: "prod_env \<Rightarrow> json \<Rightarrow> production \<Rightarrow> json result \<times> production" where
  "createLine e body s =
    (if \<not> there ''line_code'' body \<or> \<not> there ''line_name'' body then (Inl (BadRequest ''line_code/line_name required''), s)
     else
       case (got (jstr ''line_code'' body), got (jstr ''line_name'' body), field_value [] (jstr ''workshop'' body),
             field_value [] (jstr ''location'' body), field_value 0 (jint32 ''capacity_per_hour'' body)) of
         (Inr code, Inr name, Inr shop, Inr loc, Inr cap) \<Rightarrow>
           insert_line e \<lparr>ln_id = px_id e, ln_code = code, ln_name = name, ln_workshop = null_text shop,
             ln_location = null_text loc, ln_capacity = zero_null cap, ln_status = 1, ln_deleted = False\<rparr> s
       | _ \<Rightarrow> (Inl JsonError, s))"

definition changed_line :: "string \<Rightarrow> string \<Rightarrow> string \<Rightarrow> int \<Rightarrow> int \<Rightarrow> pline \<Rightarrow> pline" where
  "changed_line name shop loc cap status l =
    l\<lparr>ln_name := keep_text name (ln_name l) id, ln_workshop := keep_text shop (ln_workshop l) Some,
      ln_location := keep_text loc (ln_location l) Some, ln_capacity := (if cap > 0 then Some cap else ln_capacity l),
      ln_status := (if status \<ge> 0 then status else ln_status l)\<rparr>"

definition live_line :: "production \<Rightarrow> int \<Rightarrow> bool" where
  "live_line s i \<longleftrightarrow> (\<exists>l\<in>set (pd_lines s). ln_id l = i \<and> \<not> ln_deleted l)"

definition updateLine :: "prod_env \<Rightarrow> int \<Rightarrow> json \<Rightarrow> production \<Rightarrow> json result \<times> production" where
  "updateLine e i body s =
    (case (field_value [] (jstr ''line_name'' body), field_value [] (jstr ''workshop'' body),
           field_value [] (jstr ''location'' body), field_value 0 (jint32 ''capacity_per_hour'' body),
           field_value (-1) (jint32 ''status'' body)) of
       (Inr name, Inr shop, Inr loc, Inr cap, Inr status) \<Rightarrow>
         if \<not> px_db e 0 then (Inl db_failed, s)
         else if \<not> live_line s i then (Inl (NotFound ''line not found''), s)
         else if length name > 128 \<or> length shop > 64 \<or> length loc > 256 \<or> status > 32767 then (Inl db_failed, s)
         else (Inr (JObj [(''id'', JInt i), (''updated'', JBool True)]),
               s\<lparr>pd_lines := upd_where (\<lambda>l. ln_id l = i \<and> \<not> ln_deleted l) (changed_line name shop loc cap status) (pd_lines s)\<rparr>)
     | _ \<Rightarrow> (Inl JsonError, s))"

definition line_referenced :: "production \<Rightarrow> int \<Rightarrow> bool" where
  "line_referenced s i \<longleftrightarrow> (\<exists>x\<in>set (pd_stations s). sx_line x = i \<and> \<not> sx_deleted x)
    \<or> (\<exists>w\<in>set (pd_orders s). or_line w = Some i) \<or> (\<exists>p\<in>set (pd_plans s). pn_line p = i)"

text \<open>The check and the deletion are two statements: other requests may come in between.\<close>

definition deleteLine_check :: "prod_env \<Rightarrow> int \<Rightarrow> production \<Rightarrow> unit result" where
  "deleteLine_check e i s =
    (if \<not> px_db e 0 then Inl db_failed
     else if line_referenced s i then Inl (Conflict ''line is referenced'') else Inr ())"

definition deleteLine_delete :: "prod_env \<Rightarrow> int \<Rightarrow> production \<Rightarrow> json result \<times> production" where
  "deleteLine_delete e i s =
    (if \<not> px_db e 1 then (Inl db_failed, s)
     else if \<not> live_line s i then (Inl (NotFound ''line not found''), s)
     else (Inr (JObj [(''id'', JInt i), (''deleted'', JBool True)]),
           s\<lparr>pd_lines := upd_where (\<lambda>l. ln_id l = i \<and> \<not> ln_deleted l) (\<lambda>l. l\<lparr>ln_deleted := True\<rparr>) (pd_lines s)\<rparr>))"

definition deleteLine :: "prod_env \<Rightarrow> int \<Rightarrow> production \<Rightarrow> json result \<times> production" where
  "deleteLine e i s = (case deleteLine_check e i s of Inl f \<Rightarrow> (Inl f, s) | Inr _ \<Rightarrow> deleteLine_delete e i s)"

definition stationToJson :: "pstation \<Rightarrow> json" where
  "stationToJson x = JObj [(''id'', JInt (sx_id x)), (''station_code'', JStr (sx_code x)), (''station_name'', JStr (sx_name x)),
     (''station_seq'', JInt (sx_seq x)), (''std_cycle_time'', JInt (or_else (sx_cycle x) 0)), (''status'', JInt (sx_status x))]"

definition listStations :: "prod_env \<Rightarrow> int \<Rightarrow> production \<Rightarrow> json list result" where
  "listStations e i s =
    (if px_db e 0
     then Inr (map stationToJson (sort_key sx_seq (filter (\<lambda>x. sx_line x = i \<and> \<not> sx_deleted x) (pd_stations s))))
     else Inl db_failed)"

section \<open>Products\<close>

definition productToJson :: "pproduct \<Rightarrow> json" where
  "productToJson p = JObj [(''id'', JInt (pp_id p)), (''product_code'', JStr (pp_code p)), (''product_name'', JStr (pp_name p)),
     (''specification'', JStr (or_else (pp_spec p) [])), (''unit'', JStr (or_else (pp_unit p) [])),
     (''category'', JStr (or_else (pp_category p) [])), (''erp_material_code'', JStr (or_else (pp_erp p) [])),
     (''process_id'', JInt (or_else (pp_process p) 0)), (''status'', JInt (pp_status p))]"

definition listProducts :: "prod_env \<Rightarrow> int \<Rightarrow> int \<Rightarrow> string \<Rightarrow> production \<Rightarrow> json page_result result" where
  "listProducts e page psize keyword s =
    paged e page psize (map productToJson (sort_key pp_id
      (filter (\<lambda>p. \<not> pp_deleted p \<and> (keyword = [] \<or> contains_keyword keyword (pp_code p @ '' '' @ pp_name p))) (pd_products s))))"

definition product_fits :: "production \<Rightarrow> pproduct \<Rightarrow> bool" where
  "product_fits s p \<longleftrightarrow> length (pp_code p) \<le> 64 \<and> length (pp_name p) \<le> 256 \<and> text_column 512 (pp_spec p)
    \<and> text_column 32 (pp_unit p) \<and> text_column 64 (pp_category p) \<and> text_column 64 (pp_erp p)
    \<and> known_in (map pc_id (pd_processes s)) (pp_process p)"

definition insert_product :: "prod_env \<Rightarrow> pproduct \<Rightarrow> production \<Rightarrow> json result \<times> production" where
  "insert_product e p s =
    (if \<not> px_db e 0 \<or> \<not> product_fits s p \<or> pp_code p \<in> pp_code ` set (pd_products s) \<or> pp_id p \<in> pp_id ` set (pd_products s)
     then (Inl db_failed, s)
     else (Inr (JObj [(''id'', JInt (pp_id p)), (''created'', JBool True)]), s\<lparr>pd_products := pd_products s @ [p]\<rparr>))"

definition createProduct :: "prod_env \<Rightarrow> json \<Rightarrow> production \<Rightarrow> json result \<times> production" where
  "createProduct e body s =
    (if \<not> there ''product_code'' body \<or> \<not> there ''product_name'' body
     then (Inl (BadRequest ''product_code/product_name required''), s)
     else
       case (got (jstr ''product_code'' body), got (jstr ''product_name'' body), field_value [] (jstr ''specification'' body),
             field_value [] (jstr ''unit'' body), field_value [] (jstr ''category'' body),
             field_value [] (jstr ''erp_material_code'' body), field_value 0 (jlong ''process_id'' body)) of
         (Inr code, Inr name, Inr spec, Inr u, Inr cat, Inr erp, Inr pr) \<Rightarrow>
           insert_product e \<lparr>pp_id = px_id e, pp_code = code, pp_name = name, pp_spec = null_text spec,
             pp_unit = Some (keep_text u ''PCS'' id), pp_category = null_text cat, pp_erp = null_text erp,
             pp_process = zero_null pr, pp_status = 1, pp_deleted = False\<rparr> s
       | _ \<Rightarrow> (Inl JsonError, s))"

definition changed_product :: "string \<Rightarrow> string \<Rightarrow> string \<Rightarrow> string \<Rightarrow> string \<Rightarrow> int \<Rightarrow> int \<Rightarrow> pproduct \<Rightarrow> pproduct" where
  "changed_product name spec u cat erp pr status p =
    p\<lparr>pp_name := keep_text name (pp_name p) id, pp_spec := keep_text spec (pp_spec p) Some,
      pp_unit := keep_text u (pp_unit p) Some, pp_category := keep_text cat (pp_category p) Some,
      pp_erp := keep_text erp (pp_erp p) Some, pp_process := (if pr > 0 then Some pr else pp_process p),
      pp_status := (if status \<ge> 0 then status else pp_status p)\<rparr>"

definition live_product :: "production \<Rightarrow> int \<Rightarrow> pproduct option" where
  "live_product s i = first_row (\<lambda>p. pp_id p = i \<and> \<not> pp_deleted p) (pd_products s)"

definition updateProduct :: "prod_env \<Rightarrow> int \<Rightarrow> json \<Rightarrow> production \<Rightarrow> json result \<times> production" where
  "updateProduct e i body s =
    (case (field_value [] (jstr ''product_name'' body), field_value [] (jstr ''specification'' body),
           field_value [] (jstr ''unit'' body), field_value [] (jstr ''category'' body),
           field_value [] (jstr ''erp_material_code'' body), field_value 0 (jlong ''process_id'' body),
           field_value (-1) (jint32 ''status'' body)) of
       (Inr name, Inr spec, Inr u, Inr cat, Inr erp, Inr pr, Inr status) \<Rightarrow>
         if \<not> px_db e 0 then (Inl db_failed, s)
         else
           (case live_product s i of
              None \<Rightarrow> (Inl (NotFound ''product not found''), s)
            | Some p \<Rightarrow>
                if status > 32767 \<or> \<not> product_fits s (changed_product name spec u cat erp pr status p) then (Inl db_failed, s)
                else (Inr (JObj [(''id'', JInt i), (''updated'', JBool True)]),
                      s\<lparr>pd_products := upd_where (\<lambda>p. pp_id p = i \<and> \<not> pp_deleted p)
                         (changed_product name spec u cat erp pr status) (pd_products s)\<rparr>))
     | _ \<Rightarrow> (Inl JsonError, s))"

definition product_referenced :: "production \<Rightarrow> int \<Rightarrow> bool" where
  "product_referenced s i \<longleftrightarrow> (\<exists>w\<in>set (pd_orders s). or_product w = i)
    \<or> (\<exists>p\<in>set (pd_processes s). pc_product p = Some i \<and> \<not> pc_deleted p)"

definition deleteProduct :: "prod_env \<Rightarrow> int \<Rightarrow> production \<Rightarrow> json result \<times> production" where
  "deleteProduct e i s =
    (if \<not> px_db e 0 then (Inl db_failed, s)
     else if product_referenced s i then (Inl (Conflict ''product is referenced''), s)
     else if \<not> px_db e 1 then (Inl db_failed, s)
     else if live_product s i = None then (Inl (NotFound ''product not found''), s)
     else (Inr (JObj [(''id'', JInt i), (''deleted'', JBool True)]),
           s\<lparr>pd_products := upd_where (\<lambda>p. pp_id p = i \<and> \<not> pp_deleted p) (\<lambda>p. p\<lparr>pp_deleted := True\<rparr>) (pd_products s)\<rparr>))"

section \<open>Processes\<close>

definition processToJson :: "production \<Rightarrow> pprocess \<Rightarrow> json" where
  "processToJson s p = JObj [(''id'', JInt (pc_id p)), (''process_code'', JStr (pc_code p)), (''process_name'', JStr (pc_name p)),
     (''product_id'', JInt (or_else (pc_product p) 0)),
     (''product_name'', JStr (lookup_text (map (\<lambda>q. (pp_id q, pp_name q)) (pd_products s)) (pc_product p))),
     (''version'', JStr (pc_version p)), (''total_steps'', JInt (pc_total p)), (''status'', JInt (pc_status p))]"

definition listProcesses :: "prod_env \<Rightarrow> int \<Rightarrow> int \<Rightarrow> string \<Rightarrow> production \<Rightarrow> json page_result result" where
  "listProcesses e page psize keyword s =
    paged e page psize (map (processToJson s) (sort_key pc_id
      (filter (\<lambda>p. \<not> pc_deleted p \<and> pc_status p = 1
         \<and> (keyword = [] \<or> contains_keyword keyword (pc_code p) \<or> contains_keyword keyword (pc_name p))) (pd_processes s))))"

definition step_items :: "json \<Rightarrow> json list" where
  "step_items body = (case member ''steps'' body of Some (JArr xs) \<Rightarrow> xs | _ \<Rightarrow> [])"

definition step_named :: "json \<Rightarrow> bool" where
  "step_named x \<longleftrightarrow> there ''step_seq'' x \<and> there ''step_name'' x \<and> there ''step_code'' x"

definition read_step :: "int \<Rightarrow> json \<Rightarrow> pstep result" where
  "read_step pid x =
    (case (got (jint32 ''step_seq'' x), got (jstr ''step_name'' x), got (jstr ''step_code'' x),
           field_value [] (jstr ''workstation_type'' x), field_value 0 (jint32 ''std_cycle_time'' x),
           field_value False (jbool ''quality_check'' x), field_value False (jbool ''is_key_step'' x)) of
       (Inr sq, Inr name, Inr code, Inr ty, Inr cycle, Inr qc, Inr key) \<Rightarrow>
         Inr \<lparr>sp_process = pid, sp_seq = sq, sp_name = name, sp_code = code, sp_type = null_text ty,
              sp_cycle = zero_null cycle, sp_quality = qc, sp_key = key\<rparr>
     | _ \<Rightarrow> Inl JsonError)"

definition insert_step :: "prod_env \<Rightarrow> nat \<Rightarrow> pstep \<Rightarrow> production \<Rightarrow> production option" where
  "insert_step e n x s =
    (if \<not> px_db e n \<or> length (sp_name x) > 128 \<or> length (sp_code x) > 64 \<or> \<not> text_column 64 (sp_type x)
        \<or> sp_process x \<notin> pc_id ` set (pd_processes s)
        \<or> (\<exists>y\<in>set (pd_steps s). sp_process y = sp_process x \<and> sp_seq y = sp_seq x)
     then None else Some (s\<lparr>pd_steps := pd_steps s @ [x]\<rparr>))"

text \<open>The steps in turn, with the number of the statement.\<close>

fun insert_steps :: "prod_env \<Rightarrow> int \<Rightarrow> nat \<Rightarrow> json list \<Rightarrow> production \<Rightarrow> unit result \<times> production" where
  "insert_steps e pid n [] s = (Inr (), s)"
| "insert_steps e pid n (x # xs) s =
     (case read_step pid x of
        Inl f \<Rightarrow> (Inl f, s)
      | Inr st \<Rightarrow>
          (case insert_step e n st s of
             None \<Rightarrow> (Inl db_failed, s)
           | Some s1 \<Rightarrow> insert_steps e pid (Suc n) xs s1))"

definition process_fits :: "production \<Rightarrow> pprocess \<Rightarrow> bool" where
  "process_fits s p \<longleftrightarrow> length (pc_code p) \<le> 64 \<and> length (pc_name p) \<le> 128 \<and> length (pc_version p) \<le> 16
    \<and> known_in (map pp_id (pd_products s)) (pc_product p)"

definition createProcess_body :: "prod_env \<Rightarrow> json \<Rightarrow> int \<Rightarrow> production \<Rightarrow> json result \<times> production" where
  "createProcess_body e body creator s =
    (case (got (jstr ''process_code'' body), got (jstr ''process_name'' body), field_value 0 (jlong ''product_id'' body),
           field_value ''1.0'' (jstr ''version'' body)) of
       (Inr code, Inr name, Inr product, Inr version) \<Rightarrow>
         let xs = step_items body;
             p = \<lparr>pc_id = px_id e, pc_code = code, pc_name = name, pc_product = zero_null product, pc_version = version,
                  pc_total = int (length xs), pc_status = 1, pc_published = px_now e, pc_creator = creator, pc_deleted = False\<rparr> in
         if \<not> px_db e 0 \<or> \<not> process_fits s p \<or> code \<in> pc_code ` set (pd_processes s) \<or> px_id e \<in> pc_id ` set (pd_processes s)
         then (Inl db_failed, s)
         else
           (case insert_steps e (px_id e) 1 xs (s\<lparr>pd_processes := pd_processes s @ [p]\<rparr>) of
              (Inl f, t) \<Rightarrow> (Inl f, t)
            | (Inr _, t) \<Rightarrow> (Inr (JObj [(''id'', JInt (px_id e)), (''steps'', JInt (int (length xs))), (''created'', JBool True)]), t))
     | _ \<Rightarrow> (Inl JsonError, s))"

definition createProcess :: "prod_env \<Rightarrow> json \<Rightarrow> int \<Rightarrow> production \<Rightarrow> json result \<times> production" where
  "createProcess e body creator s =
    (if \<not> there ''process_code'' body \<or> \<not> there ''process_name'' body \<or> step_items body = []
     then (Inl (BadRequest ''process_code/process_name/steps[] required''), s)
     else if \<not> list_all step_named (step_items body)
     then (Inl (BadRequest ''steps[i] needs step_seq/step_name/step_code''), s)
     else transaction (px_abandon e) (px_commit e) ''process transaction failed'' (createProcess_body e body creator) s)"

definition changed_process :: "string \<Rightarrow> int \<Rightarrow> string \<Rightarrow> int \<Rightarrow> pprocess \<Rightarrow> pprocess" where
  "changed_process name product version status p =
    p\<lparr>pc_name := keep_text name (pc_name p) id, pc_product := (if product > 0 then Some product else pc_product p),
      pc_version := keep_text version (pc_version p) id, pc_status := (if status \<ge> 0 then status else pc_status p)\<rparr>"

definition live_process :: "production \<Rightarrow> int \<Rightarrow> pprocess option" where
  "live_process s i = first_row (\<lambda>p. pc_id p = i \<and> \<not> pc_deleted p) (pd_processes s)"

definition updateProcess :: "prod_env \<Rightarrow> int \<Rightarrow> json \<Rightarrow> production \<Rightarrow> json result \<times> production" where
  "updateProcess e i body s =
    (case (field_value [] (jstr ''process_name'' body), field_value 0 (jlong ''product_id'' body),
           field_value [] (jstr ''version'' body), field_value (-1) (jint32 ''status'' body)) of
       (Inr name, Inr product, Inr version, Inr status) \<Rightarrow>
         if \<not> px_db e 0 then (Inl db_failed, s)
         else
           (case live_process s i of
              None \<Rightarrow> (Inl (NotFound ''process not found''), s)
            | Some p \<Rightarrow>
                if status > 32767 \<or> \<not> process_fits s (changed_process name product version status p) then (Inl db_failed, s)
                else (Inr (JObj [(''id'', JInt i), (''updated'', JBool True)]),
                      s\<lparr>pd_processes := upd_where (\<lambda>p. pc_id p = i \<and> \<not> pc_deleted p)
                         (changed_process name product version status) (pd_processes s)\<rparr>))
     | _ \<Rightarrow> (Inl JsonError, s))"

definition process_referenced :: "production \<Rightarrow> int \<Rightarrow> bool" where
  "process_referenced s i \<longleftrightarrow> (\<exists>w\<in>set (pd_orders s). or_process w = Some i)
    \<or> (\<exists>p\<in>set (pd_products s). pp_process p = Some i \<and> \<not> pp_deleted p)"

definition deleteProcess :: "prod_env \<Rightarrow> int \<Rightarrow> production \<Rightarrow> json result \<times> production" where
  "deleteProcess e i s =
    (if \<not> px_db e 0 then (Inl db_failed, s)
     else if process_referenced s i then (Inl (Conflict ''process is referenced''), s)
     else if \<not> px_db e 1 then (Inl db_failed, s)
     else if live_process s i = None then (Inl (NotFound ''process not found''), s)
     else (Inr (JObj [(''id'', JInt i), (''deleted'', JBool True)]),
           s\<lparr>pd_processes := upd_where (\<lambda>p. pc_id p = i \<and> \<not> pc_deleted p)
              (\<lambda>p. p\<lparr>pc_deleted := True, pc_status := 2\<rparr>) (pd_processes s)\<rparr>))"

section \<open>Plans\<close>

definition planToJson :: "prod_env \<Rightarrow> production \<Rightarrow> plan \<Rightarrow> json" where
  "planToJson e s p = JObj [(''id'', JInt (pn_id p)), (''plan_no'', JStr (pn_no p)), (''plan_date'', JStr (px_text e (pn_date p))),
     (''line_id'', JInt (pn_line p)),
     (''line_name'', JStr (lookup_text (map (\<lambda>l. (ln_id l, ln_name l)) (pd_lines s)) (Some (pn_line p)))),
     (''shift'', JInt (pn_shift p)), (''plan_qty'', JInt (pn_qty p)), (''status'', JInt (pn_status p)),
     (''created_at'', JStr (px_text e (pn_created p)))]"

definition listPlans :: "prod_env \<Rightarrow> int \<Rightarrow> int \<Rightarrow> production \<Rightarrow> json page_result result" where
  "listPlans e page psize s =
    paged e page psize (map (planToJson e s) (sort_key (\<lambda>p. - pn_date p) (rev (sort_key pn_id (pd_plans s)))))"

definition link_order :: "prod_env \<Rightarrow> nat \<Rightarrow> int \<Rightarrow> int \<Rightarrow> production \<Rightarrow> production option" where
  "link_order e n pid w s =
    (if \<not> px_db e n then None
     else if (pid, w) \<in> set (pd_links s) then Some s
     else if w \<notin> or_id ` set (pd_orders s) then None
     else Some (s\<lparr>pd_links := pd_links s @ [(pid, w)]\<rparr>))"

fun link_orders :: "prod_env \<Rightarrow> int \<Rightarrow> nat \<Rightarrow> json list \<Rightarrow> production \<Rightarrow> unit result \<times> production" where
  "link_orders e pid n [] s = (Inr (), s)"
| "link_orders e pid n (x # xs) s =
     (case int_item x of
        None \<Rightarrow> (Inl JsonError, s)
      | Some w \<Rightarrow>
          (case link_order e n pid w s of
             None \<Rightarrow> (Inl db_failed, s)
           | Some s1 \<Rightarrow> link_orders e pid (Suc n) xs s1))"

definition order_items :: "json \<Rightarrow> json list" where
  "order_items body = (case member ''work_order_ids'' body of Some (JArr xs) \<Rightarrow> xs | _ \<Rightarrow> [])"

definition insert_plan :: "prod_env \<Rightarrow> plan \<Rightarrow> json list \<Rightarrow> production \<Rightarrow> json result \<times> production" where
  "insert_plan e p ws s =
    (if \<not> px_db e 1 \<or> pn_line p \<notin> ln_id ` set (pd_lines s) \<or> \<not> int16_ok (pn_shift p)
        \<or> pn_no p \<in> pn_no ` set (pd_plans s) \<or> pn_id p \<in> pn_id ` set (pd_plans s)
     then (Inl db_failed, s)
     else
       (case link_orders e (pn_id p) 2 ws (s\<lparr>pd_plans := pd_plans s @ [p]\<rparr>) of
          (Inl f, t) \<Rightarrow> (Inl f, t)
        | (Inr _, t) \<Rightarrow> (Inr (JObj [(''id'', JInt (pn_id p)), (''created'', JBool True)]), t)))"

definition createPlan_body :: "prod_env \<Rightarrow> json \<Rightarrow> int \<Rightarrow> production \<Rightarrow> json result \<times> production" where
  "createPlan_body e body creator s =
    (if \<not> px_db e 0 then (Inl db_failed, s)
     else
       case (got (jstr ''plan_date'' body), got (jlong ''line_id'' body), got (jint32 ''shift'' body), got (jint32 ''plan_qty'' body)) of
         (Inr date, Inr line, Inr shift, Inr qty) \<Rightarrow>
           (case px_date e date of
              None \<Rightarrow> (Inl db_failed, s)
            | Some d \<Rightarrow>
                insert_plan e \<lparr>pn_id = px_id e, pn_no = genPlanNo e (pd_plan_seq s), pn_date = d, pn_line = line, pn_shift = shift,
                  pn_qty = qty, pn_status = 0, pn_creator = creator, pn_created = px_now e\<rparr> (order_items body) s)
       | _ \<Rightarrow> (Inl JsonError, s))"

text \<open>The sequence is not part of the transaction: its number is used up.\<close>

definition createPlan :: "prod_env \<Rightarrow> json \<Rightarrow> int \<Rightarrow> production \<Rightarrow> json result \<times> production" where
  "createPlan e body creator s =
    (if \<not> (there ''plan_date'' body \<and> there ''line_id'' body \<and> there ''shift'' body \<and> there ''plan_qty'' body)
     then (Inl (BadRequest ''plan_date/line_id/shift/plan_qty required''), s)
     else
       case transaction (px_abandon e) (px_commit e) ''plan transaction failed'' (createPlan_body e body creator) s of
         (r, t) \<Rightarrow> (r, if px_db e 0 then t\<lparr>pd_plan_seq := pd_plan_seq s + 1\<rparr> else t))"

section \<open>The requests that change something\<close>

datatype prod_request =
    CreateLine json | UpdateLine int json | DeleteLine int
  | CreateProduct json | UpdateProduct int json | DeleteProduct int
  | CreateProcess json int | UpdateProcess int json | DeleteProcess int
  | CreatePlan json int

fun prod_step :: "prod_env \<times> prod_request \<Rightarrow> production \<Rightarrow> production" where
  "prod_step (e, CreateLine b) s = snd (createLine e b s)"
| "prod_step (e, UpdateLine i b) s = snd (updateLine e i b s)"
| "prod_step (e, DeleteLine i) s = snd (deleteLine e i s)"
| "prod_step (e, CreateProduct b) s = snd (createProduct e b s)"
| "prod_step (e, UpdateProduct i b) s = snd (updateProduct e i b s)"
| "prod_step (e, DeleteProduct i) s = snd (deleteProduct e i s)"
| "prod_step (e, CreateProcess b u) s = snd (createProcess e b u s)"
| "prod_step (e, UpdateProcess i b) s = snd (updateProcess e i b s)"
| "prod_step (e, DeleteProcess i) s = snd (deleteProcess e i s)"
| "prod_step (e, CreatePlan b u) s = snd (createPlan e b u s)"

end
