(* ===== verification/Oee.thy ===== *)
theory Oee
  imports Iot_Devices Production
begin

text \<open>
  The overall equipment effectiveness (\<open>services/OeeService.hh\<close>, \<open>services/OeeService.cc\<close>): the three
  factors, the aggregation in SQL of one day, the stored rows and the consumer that triggers it. Doubles
  are exact rationals. The joins of operations and inspections with their orders are lists of joined
  rows; days and seconds are numbers.
\<close>

section \<open>The factors\<close>

record oee_input =
  oi_run :: rat
  oi_planned :: rat
  oi_report :: rat
  oi_pass :: int
  oi_defect :: int

record oee_result =
  oo_availability :: rat
  oo_performance :: rat
  oo_quality :: rat
  oo_oee :: rat

definition clamp01 :: "rat \<Rightarrow> rat" where
  "clamp01 v = (if v < 0 then 0 else if v > 1 then 1 else v)"

definition computeOee :: "oee_input \<Rightarrow> oee_result" where
  "computeOee i =
    (let a = (if oi_planned i > 0 \<and> oi_run i > 0 then clamp01 (oi_run i / oi_planned i) else 0);
         p = (if oi_run i > 0 \<and> oi_report i > 0 then clamp01 (oi_report i / oi_run i) else 0);
         q = (if oi_pass i + oi_defect i > 0 then clamp01 (of_int (oi_pass i) / of_int (oi_pass i + oi_defect i)) else 1) in
     \<lparr>oo_availability = a, oo_performance = p, oo_quality = q, oo_oee = a * p * q\<rparr>)"

section \<open>One day in SQL\<close>

definition kRecalcIntervalSec :: int where "kRecalcIntervalSec = 30"
definition kRecalcAfterMsgs :: int where "kRecalcAfterMsgs = 200"
definition kMaxGapSec :: int where "kMaxGapSec = 60"

record oee_op =
  oq_line :: "int option"
  oq_updated :: int
  oq_completed :: int
  oq_cycle :: "int option"

record oee_check =
  ok_line :: "int option"
  ok_at :: int
  ok_pass :: "int option"
  ok_defect :: "int option"

record oee_row =
  os_line :: int
  os_day :: int
  os_shift :: int
  os_input :: oee_input
  os_factors :: oee_result

record factory =
  fc_iot :: iot
  fc_production :: production
  fc_ops :: "oee_op list"
  fc_checks :: "oee_check list"
  fc_stats :: "oee_row list"

text \<open>The times at which a device was seen running since the beginning of the day, in order.\<close>

definition is_run_sensor :: "sensor \<Rightarrow> bool" where
  "is_run_sensor n \<longleftrightarrow> sn_key n \<and> sn_code n = ''run_status'' \<and> \<not> sn_deleted n"

definition run_times :: "int \<Rightarrow> iot \<Rightarrow> int \<Rightarrow> int list" where
  "run_times midnight s dev =
    sort [rw_at r. r \<leftarrow> it_raw s, n \<leftarrow> it_sensors s, sn_id n = rw_sensor r \<and> is_run_sensor n
           \<and> rw_device r = dev \<and> midnight \<le> rw_at r \<and> rw_num r = Some 1]"

text \<open>
  \<open>LEAST(gap, 60)\<close>: for the first time there is no gap, and \<open>LEAST\<close> leaves out a NULL.
\<close>

fun gap_sum :: "int list \<Rightarrow> int" where
  "gap_sum [] = 0"
| "gap_sum [t] = 0"
| "gap_sum (t # u # ts) = min (u - t) kMaxGapSec + gap_sum (u # ts)"

definition run_sec :: "int list \<Rightarrow> int option" where
  "run_sec ts = (if ts = [] then None else Some (kMaxGapSec + gap_sum ts))"

definition line_run :: "int \<Rightarrow> iot \<Rightarrow> int \<Rightarrow> int" where
  "line_run midnight s line =
    fold max [x. d \<leftarrow> it_devices s, dv_line d = Some line, Some x \<leftarrow> [run_sec (run_times midnight s (dv_id d))]] 0"

definition confirmed :: "int \<Rightarrow> plan \<Rightarrow> bool" where
  "confirmed day p \<longleftrightarrow> pn_date p = day \<and> (pn_status p = 1 \<or> pn_status p = 2)"

definition planned :: "int \<Rightarrow> production \<Rightarrow> ((int \<times> int) \<times> plan list) list" where
  "planned day s = groups (\<lambda>p. (pn_line p, pn_shift p)) (filter (confirmed day) (pd_plans s))"

definition report_sec :: "int \<Rightarrow> oee_op list \<Rightarrow> int \<Rightarrow> int" where
  "report_sec midnight os line =
    sum_list [oq_completed o' * or_else (oq_cycle o') 0. o' \<leftarrow> os, oq_line o' = Some line \<and> midnight \<le> oq_updated o']"

definition checks_of :: "int \<Rightarrow> oee_check list \<Rightarrow> int \<Rightarrow> oee_check list" where
  "checks_of midnight cs line = filter (\<lambda>c. ok_line c = Some line \<and> midnight \<le> ok_at c) cs"

definition oee_inputs :: "int \<Rightarrow> int \<Rightarrow> factory \<Rightarrow> ((int \<times> int) \<times> oee_input) list" where
  "oee_inputs day midnight s =
    map (\<lambda>((line, shift), ps).
        ((line, shift),
         \<lparr>oi_run = of_int (line_run midnight (fc_iot s) line), oi_planned = of_int (int (length ps) * 28800),
          oi_report = of_int (report_sec midnight (fc_ops s) line),
          oi_pass = sum_list (map (\<lambda>c. or_else (ok_pass c) 0) (checks_of midnight (fc_checks s) line)),
          oi_defect = sum_list (map (\<lambda>c. or_else (ok_defect c) 0) (checks_of midnight (fc_checks s) line))\<rparr>))
      (planned day (fc_production s))"

section \<open>The stored rows\<close>

definition percent :: "rat \<Rightarrow> rat option" where
  "percent v = double_column 6 3 (v * 100)"

text \<open>The row with its columns rounded; None: a value does not fit.\<close>

definition stored_row :: "int \<Rightarrow> int \<Rightarrow> int \<Rightarrow> oee_input \<Rightarrow> oee_row option" where
  "stored_row day line shift i =
    (let r = computeOee i in
     case (double_column 12 2 (oi_run i), double_column 12 2 (oi_planned i), double_column 12 2 (oi_report i), percent (oo_availability r),
           percent (oo_performance r), percent (oo_quality r), percent (oo_oee r)) of
       (Some run, Some pl, Some rep, Some a, Some p, Some q, Some x) \<Rightarrow>
         if int32_ok (oi_pass i) \<and> int32_ok (oi_defect i)
         then Some \<lparr>os_line = line, os_day = day, os_shift = shift,
                os_input = \<lparr>oi_run = run, oi_planned = pl, oi_report = rep, oi_pass = oi_pass i, oi_defect = oi_defect i\<rparr>,
                os_factors = \<lparr>oo_availability = a, oo_performance = p, oo_quality = q, oo_oee = x\<rparr>\<rparr>
         else None
     | _ \<Rightarrow> None)"

definition same_key :: "oee_row \<Rightarrow> oee_row \<Rightarrow> bool" where
  "same_key a b \<longleftrightarrow> os_line a = os_line b \<and> os_day a = os_day b \<and> os_shift a = os_shift b"

definition upsert_row :: "oee_row \<Rightarrow> oee_row list \<Rightarrow> oee_row list" where
  "upsert_row r rows =
    (if \<exists>q\<in>set rows. same_key r q then upd_where (same_key r) (\<lambda>q. r) rows else rows @ [r])"

text \<open>\<open>ok\<close>: whether the aggregation, and the statement for a line and shift, is answered.\<close>

definition recalcAll :: "bool \<Rightarrow> (int \<times> int \<Rightarrow> bool) \<Rightarrow> int \<Rightarrow> int \<Rightarrow> factory \<Rightarrow> factory" where
  "recalcAll ok answered day midnight s =
    (if \<not> ok then s
     else
       s\<lparr>fc_stats :=
         fold (\<lambda>((line, shift), i) rows.
             case stored_row day line shift i of
               Some r \<Rightarrow> if answered (line, shift) \<and> line \<in> ln_id ` set (pd_lines (fc_production s)) \<and> int16_ok shift
                         then upsert_row r rows else rows
             | None \<Rightarrow> rows)
           (oee_inputs day midnight s) (fc_stats s)\<rparr>)"

section \<open>The consumer\<close>

text \<open>
  A turn: the connection if one is to be made, what is received (None: the call fails), and the clock in
  seconds. \<open>oc_calls\<close> are the times of the recalculations, the first at the start.
\<close>

record oee_consumer =
  oc_channel :: bool
  oc_last :: int
  oc_since :: int
  oc_calls :: "int list"

record oee_turn =
  ot_connects :: bool
  ot_got :: "bool option"
  ot_now :: int

definition oee_start :: "int \<Rightarrow> oee_consumer" where
  "oee_start now = \<lparr>oc_channel = False, oc_last = now, oc_since = 0, oc_calls = [now]\<rparr>"

definition oee_loop :: "oee_turn \<Rightarrow> oee_consumer \<Rightarrow> oee_consumer" where
  "oee_loop w c =
    (let late = ot_now w - oc_last c \<ge> kRecalcIntervalSec;
         again = c\<lparr>oc_last := ot_now w, oc_calls := oc_calls c @ [ot_now w]\<rparr> in
     if (\<not> oc_channel c \<and> \<not> ot_connects w) \<or> ot_got w = None
     then (if late then again else c)\<lparr>oc_channel := False\<rparr>
     else
       let got = (ot_got w = Some True); since = (if got then oc_since c + 1 else oc_since c) in
       if late \<or> (got \<and> since \<ge> kRecalcAfterMsgs)
       then again\<lparr>oc_channel := True, oc_since := 0\<rparr>
       else c\<lparr>oc_channel := True, oc_since := since\<rparr>)"

end
