(* ===== verification/Production_Props.thy ===== *)
theory Production_Props
  imports Oee
begin

text \<open>
  Production data: what every request keeps of the tables, what the creation of a process stores, and that
  plans stay drafts.
\<close>

section \<open>What an operation does to the tables\<close>

text \<open>
  A predicate is kept by every request when it is kept by what the statements do, provided an abandoned
  transaction is undone.
\<close>

locale table_law =
  fixes P :: "production \<Rightarrow> bool"
  assumes add_line: "P s \<Longrightarrow> ln_code l \<notin> ln_code ` set (pd_lines s) \<Longrightarrow> ln_id l \<notin> ln_id ` set (pd_lines s)
      \<Longrightarrow> P (s\<lparr>pd_lines := pd_lines s @ [l]\<rparr>)"
    and upd_line: "P s \<Longrightarrow> (\<And>l. ln_id (f l) = ln_id l \<and> ln_code (f l) = ln_code l) \<Longrightarrow> P (s\<lparr>pd_lines := upd_where sel f (pd_lines s)\<rparr>)"
    and add_product: "P s \<Longrightarrow> product_fits s p \<Longrightarrow> pp_code p \<notin> pp_code ` set (pd_products s) \<Longrightarrow> pp_id p \<notin> pp_id ` set (pd_products s)
      \<Longrightarrow> P (s\<lparr>pd_products := pd_products s @ [p]\<rparr>)"
    and upd_product: "P s \<Longrightarrow> (\<And>p. pp_id (g p) = pp_id p \<and> pp_code (g p) = pp_code p)
      \<Longrightarrow> (\<And>p. p \<in> set (pd_products s) \<Longrightarrow> psel p \<Longrightarrow> known_in (map pc_id (pd_processes s)) (pp_process (g p)))
      \<Longrightarrow> P (s\<lparr>pd_products := upd_where psel g (pd_products s)\<rparr>)"
    and add_process: "P s \<Longrightarrow> process_fits s c \<Longrightarrow> pc_code c \<notin> pc_code ` set (pd_processes s)
      \<Longrightarrow> pc_id c \<notin> pc_id ` set (pd_processes s) \<Longrightarrow> pc_total c = int (length xs) \<Longrightarrow> xs \<noteq> []
      \<Longrightarrow> list_all (\<lambda>x. sp_process x = pc_id c) xs \<Longrightarrow> distinct (map sp_seq xs)
      \<Longrightarrow> P (s\<lparr>pd_processes := pd_processes s @ [c], pd_steps := pd_steps s @ xs\<rparr>)"
    and upd_process: "P s \<Longrightarrow> (\<And>c. pc_id (h c) = pc_id c \<and> pc_code (h c) = pc_code c \<and> pc_total (h c) = pc_total c)
      \<Longrightarrow> (\<And>c. c \<in> set (pd_processes s) \<Longrightarrow> csel c \<Longrightarrow> known_in (map pp_id (pd_products s)) (pc_product (h c)))
      \<Longrightarrow> P (s\<lparr>pd_processes := upd_where csel h (pd_processes s)\<rparr>)"
    and add_plan: "P s \<Longrightarrow> pn_line q \<in> ln_id ` set (pd_lines s) \<Longrightarrow> pn_no q \<notin> pn_no ` set (pd_plans s)
      \<Longrightarrow> pn_id q \<notin> pn_id ` set (pd_plans s) \<Longrightarrow> pn_status q = 0 \<Longrightarrow> P (s\<lparr>pd_plans := pd_plans s @ [q]\<rparr>)"
    and add_link: "P s \<Longrightarrow> P (s\<lparr>pd_links := pd_links s @ [k]\<rparr>)"
    and set_seq: "P s \<Longrightarrow> P (s\<lparr>pd_plan_seq := n\<rparr>)"

lemma insert_steps_ok:
  assumes "insert_steps e pid n xs s = (Inr u, t)" and "pid \<in> pc_id ` set (pd_processes s)"
  shows "\<exists>ys. t = s\<lparr>pd_steps := pd_steps s @ ys\<rparr> \<and> length ys = length xs \<and> list_all (\<lambda>y. sp_process y = pid) ys
    \<and> distinct (map sp_seq ys) \<and> (\<forall>y\<in>set ys. \<forall>z\<in>set (pd_steps s). sp_process z = pid \<longrightarrow> sp_seq z \<noteq> sp_seq y)"
  using assms
proof (induction xs arbitrary: n s)
  case (Cons x xs)
  from Cons.prems(1) obtain st s1 where o: "read_step pid x = Inr st" "insert_step e n st s = Some s1"
      "insert_steps e pid (Suc n) xs s1 = (Inr u, t)"
    by (auto split: sum.splits option.splits)
  have p: "sp_process st = pid" using o(1) by (auto simp: read_step_def split: sum.splits)
  have s1: "s1 = s\<lparr>pd_steps := pd_steps s @ [st]\<rparr>"
    and new: "\<forall>z\<in>set (pd_steps s). sp_process z = sp_process st \<longrightarrow> sp_seq z \<noteq> sp_seq st"
    using o(2) by (auto simp: insert_step_def split: if_splits)
  obtain ys where ys: "t = s1\<lparr>pd_steps := pd_steps s1 @ ys\<rparr>" "length ys = length xs" "list_all (\<lambda>y. sp_process y = pid) ys"
      "distinct (map sp_seq ys)" "\<forall>y\<in>set ys. \<forall>z\<in>set (pd_steps s1). sp_process z = pid \<longrightarrow> sp_seq z \<noteq> sp_seq y"
    using Cons.IH [OF o(3)] Cons.prems(2) s1 by auto
  have "sp_seq st \<notin> sp_seq ` set ys" using ys(5) s1 p by auto
  then show ?case using ys new p s1 by (intro exI [of _ "st # ys"]) auto
qed simp

lemma link_orders_links: "\<exists>ls. snd (link_orders e pid n xs s) = s\<lparr>pd_links := pd_links s @ ls\<rparr>"
proof (induction xs arbitrary: n s)
  case (Cons x xs)
  have keep: "\<exists>ls. s = s\<lparr>pd_links := pd_links s @ ls\<rparr>" by (rule exI [of _ "[]"]) simp
  show ?case
  proof (cases "\<exists>w s1. int_item x = Some w \<and> link_order e n pid w s = Some s1")
    case True
    then obtain w s1 where o: "int_item x = Some w" "link_order e n pid w s = Some s1" by blast
    from o(2) obtain ls where s1: "s1 = s\<lparr>pd_links := pd_links s @ ls\<rparr>"
      using keep by (auto simp: link_order_def split: if_splits)
    obtain ls' where "snd (link_orders e pid (Suc n) xs s1) = s1\<lparr>pd_links := pd_links s1 @ ls'\<rparr>" using Cons.IH by blast
    then show ?thesis using o s1 by (intro exI [of _ "ls @ ls'"]) simp
  next
    case False
    then show ?thesis using keep by (auto split: option.splits)
  qed
qed (rule exI [of _ "[]"], simp)

context table_law begin

lemma add_links: "P s \<Longrightarrow> P (s\<lparr>pd_links := pd_links s @ ls\<rparr>)"
proof (induction ls arbitrary: s)
  case (Cons k ls)
  then show ?case using add_link [of s k] Cons.IH [of "s\<lparr>pd_links := pd_links s @ [k]\<rparr>"] by simp
qed simp

lemma insert_plan_keeps: "P s \<Longrightarrow> pn_status q = 0 \<Longrightarrow> P (snd (insert_plan e q ws s))"
proof -
  assume s: "P s" "pn_status q = 0"
  obtain ls where l: "snd (link_orders e (pn_id q) 2 ws (s\<lparr>pd_plans := pd_plans s @ [q]\<rparr>))
      = s\<lparr>pd_plans := pd_plans s @ [q], pd_links := pd_links s @ ls\<rparr>"
    using link_orders_links [of e "pn_id q" 2 ws "s\<lparr>pd_plans := pd_plans s @ [q]\<rparr>"] by auto
  show ?thesis
  proof (cases "\<not> px_db e 1 \<or> pn_line q \<notin> ln_id ` set (pd_lines s) \<or> \<not> int16_ok (pn_shift q)
        \<or> pn_no q \<in> pn_no ` set (pd_plans s) \<or> pn_id q \<in> pn_id ` set (pd_plans s)")
    case True
    then show ?thesis using s by (simp add: insert_plan_def)
  next
    case False
    then have "P (s\<lparr>pd_plans := pd_plans s @ [q]\<rparr>)" using s add_plan by blast
    then have "P (snd (link_orders e (pn_id q) 2 ws (s\<lparr>pd_plans := pd_plans s @ [q]\<rparr>)))"
      unfolding l using add_links [of "s\<lparr>pd_plans := pd_plans s @ [q]\<rparr>" ls] by simp
    moreover have "snd (insert_plan e q ws s) = snd (link_orders e (pn_id q) 2 ws (s\<lparr>pd_plans := pd_plans s @ [q]\<rparr>))"
      using False by (auto simp: insert_plan_def split: prod.splits sum.splits)
    ultimately show ?thesis by simp
  qed
qed

lemma createPlan_body_keeps: "P s \<Longrightarrow> P (snd (createPlan_body e b u s))"
  by (auto simp: createPlan_body_def insert_plan_keeps split: sum.splits option.splits)

lemma undone: "P s \<Longrightarrow> P (snd (body s)) \<Longrightarrow> P (snd (transaction rolls_back c m body s))"
  using transaction_rolls_back_cases [of c m body s] by auto

lemma createPlan_keeps:
  assumes "P s" and "px_abandon e = rolls_back"
  shows "P (snd (createPlan e b u s))"
proof -
  have t: "P (snd (transaction (px_abandon e) c m (createPlan_body e b u) s))" for c m
    unfolding assms(2) by (rule undone [OF assms(1)]) (rule createPlan_body_keeps [OF assms(1)])
  obtain r t' where rt: "transaction (px_abandon e) (px_commit e) ''plan transaction failed'' (createPlan_body e b u) s = (r, t')"
    by (cases "transaction (px_abandon e) (px_commit e) ''plan transaction failed'' (createPlan_body e b u) s")
  with t have "P t'" by (metis snd_conv)
  with assms(1) set_seq [OF \<open>P t'\<close>] rt show ?thesis by (simp add: createPlan_def)
qed

lemma insert_line_keeps: "P s \<Longrightarrow> P (snd (insert_line e l s))"
  by (simp add: insert_line_def add_line)

lemma createLine_keeps: "P s \<Longrightarrow> P (snd (createLine e b s))"
  by (auto simp: createLine_def insert_line_keeps split: sum.splits)

lemma updateLine_keeps:
  assumes "P s"
  shows "P (snd (updateLine e i b s))"
proof -
  have "P (s\<lparr>pd_lines := upd_where sel (changed_line nm shop loc cap st) (pd_lines s)\<rparr>)" for sel nm shop loc cap st
    by (rule upd_line [OF assms]) (simp add: changed_line_def)
  then show ?thesis using assms by (auto simp: updateLine_def split: sum.splits)
qed

lemma deleteLine_keeps:
  assumes "P s"
  shows "P (snd (deleteLine e i s))"
proof -
  have "P (s\<lparr>pd_lines := upd_where sel (\<lambda>l. l\<lparr>ln_deleted := True\<rparr>) (pd_lines s)\<rparr>)" for sel
    by (rule upd_line [OF assms]) simp
  then show ?thesis using assms by (auto simp: deleteLine_def deleteLine_delete_def split: sum.splits)
qed

lemma insert_product_keeps: "P s \<Longrightarrow> P (snd (insert_product e p s))"
  by (simp add: insert_product_def add_product)

lemma createProduct_keeps: "P s \<Longrightarrow> P (snd (createProduct e b s))"
  by (auto simp: createProduct_def insert_product_keeps split: sum.splits)

lemma updateProduct_keeps:
  assumes "P s" and d: "distinct (map pp_id (pd_products s))"
  shows "P (snd (updateProduct e i b s))"
proof -
  let ?sel = "\<lambda>p. pp_id p = i \<and> \<not> pp_deleted p"
  have "P (s\<lparr>pd_products := upd_where ?sel (changed_product nm sp un cat erp pr st) (pd_products s)\<rparr>)"
    if l: "live_product s i = Some p" and f: "product_fits s (changed_product nm sp un cat erp pr st p)" for p nm sp un cat erp pr st
  proof (rule upd_product [OF assms(1)])
    fix q assume q: "q \<in> set (pd_products s)" "?sel q"
    have "p \<in> set (pd_products s)" "pp_id p = i" using first_row_SomeD [OF l [unfolded live_product_def]] by simp_all
    then have "q = p" using q distinct_key_eq [OF d] by metis
    with f show "known_in (map pc_id (pd_processes s)) (pp_process (changed_product nm sp un cat erp pr st q))"
      by (simp add: product_fits_def)
  qed (simp add: changed_product_def)
  then show ?thesis using assms(1) by (auto simp: updateProduct_def split: sum.splits option.splits)
qed

lemma deleteProduct_keeps:
  assumes "P s" and "\<forall>p\<in>set (pd_products s). known_in (map pc_id (pd_processes s)) (pp_process p)"
  shows "P (snd (deleteProduct e i s))"
proof -
  have "P (s\<lparr>pd_products := upd_where sel (\<lambda>p. p\<lparr>pp_deleted := True\<rparr>) (pd_products s)\<rparr>)" for sel
    by (rule upd_product [OF assms(1)]) (use assms(2) in auto)
  then show ?thesis using assms by (auto simp: deleteProduct_def)
qed

lemma createProcess_body_keeps:
  assumes "P s" and "list_all step_named (step_items b)" and ne: "step_items b \<noteq> []"
    and r: "createProcess_body e b u s = (Inr v, t)"
  shows "P t"
proof -
  from r obtain code name product version where g: "got (jstr ''process_code'' b) = Inr code"
      "got (jstr ''process_name'' b) = Inr name" "field_value 0 (jlong ''product_id'' b) = Inr product"
      "field_value ''1.0'' (jstr ''version'' b) = Inr version"
    by (auto simp: createProcess_body_def split: sum.splits)
  define c where "c = \<lparr>pc_id = px_id e, pc_code = code, pc_name = name, pc_product = zero_null product, pc_version = version,
      pc_total = int (length (step_items b)), pc_status = 1, pc_published = px_now e, pc_creator = u, pc_deleted = False\<rparr>"
  have f: "pc_id c = px_id e" "pc_total c = int (length (step_items b))" "pc_code c = code" by (simp_all add: c_def)
  have c: "process_fits s c" "code \<notin> pc_code ` set (pd_processes s)" "px_id e \<notin> pc_id ` set (pd_processes s)"
      "insert_steps e (px_id e) 1 (step_items b) (s\<lparr>pd_processes := pd_processes s @ [c]\<rparr>) = (Inr (), t)"
    using r unfolding createProcess_body_def g Let_def sum.case prod.case c_def [symmetric]
    by (auto split: if_splits prod.splits sum.splits)
  obtain ys where ys: "t = s\<lparr>pd_processes := pd_processes s @ [c], pd_steps := pd_steps s @ ys\<rparr>" "length ys = length (step_items b)"
      "list_all (\<lambda>y. sp_process y = px_id e) ys" "distinct (map sp_seq ys)"
    using insert_steps_ok [OF c(4)] f(1) by auto
  have "ys \<noteq> []" using ys(2) ne by auto
  with ys c f assms(1) add_process [of s c ys] show ?thesis by simp
qed

lemma createProcess_keeps:
  assumes "P s" and "px_abandon e = rolls_back"
  shows "P (snd (createProcess e b u s))"
proof -
  have "P (snd (transaction rolls_back c m (createProcess_body e b u) s))"
    if "list_all step_named (step_items b)" "step_items b \<noteq> []" for c m
    using transaction_rolls_back_cases [of c m "createProcess_body e b u" s] createProcess_body_keeps [OF assms(1) that] assms(1)
    by metis
  then show ?thesis using assms by (auto simp: createProcess_def)
qed

lemma updateProcess_keeps:
  assumes "P s" and d: "distinct (map pc_id (pd_processes s))"
  shows "P (snd (updateProcess e i b s))"
proof -
  let ?sel = "\<lambda>p. pc_id p = i \<and> \<not> pc_deleted p"
  have "P (s\<lparr>pd_processes := upd_where ?sel (changed_process nm pr ver st) (pd_processes s)\<rparr>)"
    if l: "live_process s i = Some p" and f: "process_fits s (changed_process nm pr ver st p)" for p nm pr ver st
  proof (rule upd_process [OF assms(1)])
    fix q assume q: "q \<in> set (pd_processes s)" "?sel q"
    have "p \<in> set (pd_processes s)" "pc_id p = i" using first_row_SomeD [OF l [unfolded live_process_def]] by simp_all
    then have "q = p" using q distinct_key_eq [OF d] by metis
    with f show "known_in (map pp_id (pd_products s)) (pc_product (changed_process nm pr ver st q))"
      by (simp add: process_fits_def)
  qed (simp add: changed_process_def)
  then show ?thesis using assms(1) by (auto simp: updateProcess_def split: sum.splits option.splits)
qed

lemma deleteProcess_keeps:
  assumes "P s" and "\<forall>p\<in>set (pd_processes s). known_in (map pp_id (pd_products s)) (pc_product p)"
  shows "P (snd (deleteProcess e i s))"
proof -
  have "P (s\<lparr>pd_processes := upd_where sel (\<lambda>p. p\<lparr>pc_deleted := True, pc_status := 2\<rparr>) (pd_processes s)\<rparr>)" for sel
    by (rule upd_process [OF assms(1)]) (use assms(2) in auto)
  then show ?thesis using assms by (auto simp: deleteProcess_def)
qed

end

section \<open>Sound tables\<close>

definition refs_ok :: "production \<Rightarrow> bool" where
  "refs_ok s \<longleftrightarrow> (\<forall>q\<in>set (pd_plans s). pn_line q \<in> ln_id ` set (pd_lines s))
    \<and> (\<forall>p\<in>set (pd_products s). known_in (map pc_id (pd_processes s)) (pp_process p))
    \<and> (\<forall>c\<in>set (pd_processes s). known_in (map pp_id (pd_products s)) (pc_product c))
    \<and> (\<forall>x\<in>set (pd_steps s). sp_process x \<in> pc_id ` set (pd_processes s))"

definition keys_ok :: "production \<Rightarrow> bool" where
  "keys_ok s \<longleftrightarrow> distinct (map ln_id (pd_lines s)) \<and> distinct (map ln_code (pd_lines s))
    \<and> distinct (map pp_id (pd_products s)) \<and> distinct (map pp_code (pd_products s))
    \<and> distinct (map pc_id (pd_processes s)) \<and> distinct (map pc_code (pd_processes s))
    \<and> distinct (map pn_id (pd_plans s)) \<and> distinct (map pn_no (pd_plans s))
    \<and> distinct (map (\<lambda>x. (sp_process x, sp_seq x)) (pd_steps s))"

definition steps_of :: "production \<Rightarrow> int \<Rightarrow> pstep list" where
  "steps_of s i = filter (\<lambda>x. sp_process x = i) (pd_steps s)"

definition totals_ok :: "production \<Rightarrow> bool" where
  "totals_ok s \<longleftrightarrow> (\<forall>c\<in>set (pd_processes s). pc_total c = int (length (steps_of s (pc_id c))) \<and> steps_of s (pc_id c) \<noteq> [])"

definition prod_ok :: "production \<Rightarrow> bool" where
  "prod_ok s \<longleftrightarrow> refs_ok s \<and> keys_ok s \<and> totals_ok s"

lemma known_in_mono: "known_in xs i \<Longrightarrow> set xs \<subseteq> set ys \<Longrightarrow> known_in ys i"
  by (auto simp: known_in_def split: option.splits)

lemma map_upd_key: "(\<And>r. k (f r) = k r) \<Longrightarrow> map k (upd_where sel f xs) = map k xs"
  by (rule map_key_upd_where)

lemma prod_ok_add_process:
  assumes "prod_ok s" and "process_fits s c" and "pc_code c \<notin> pc_code ` set (pd_processes s)"
    and id: "pc_id c \<notin> pc_id ` set (pd_processes s)" and "pc_total c = int (length xs)" and "xs \<noteq> []"
    and xs: "list_all (\<lambda>x. sp_process x = pc_id c) xs" and "distinct (map sp_seq xs)"
  shows "prod_ok (s\<lparr>pd_processes := pd_processes s @ [c], pd_steps := pd_steps s @ xs\<rparr>)"
proof -
  let ?t = "s\<lparr>pd_processes := pd_processes s @ [c], pd_steps := pd_steps s @ xs\<rparr>"
  have r: "refs_ok s" and k: "keys_ok s" and n: "totals_ok s" using assms(1) by (simp_all add: prod_ok_def)
  have old: "\<forall>x\<in>set (pd_steps s). sp_process x \<noteq> pc_id c" using r id unfolding refs_ok_def by metis
  have new: "\<forall>x\<in>set xs. sp_process x = pc_id c" using xs by (simp add: list_all_iff)
  have own: "steps_of ?t (pc_id c) = xs"
    using old new by (auto simp: steps_of_def filter_empty_conv)
  have others: "steps_of ?t (pc_id d) = steps_of s (pc_id d)" if "d \<in> set (pd_processes s)" for d
  proof -
    have "pc_id d \<noteq> pc_id c" using id that by (metis imageI)
    then show ?thesis using new by (auto simp: steps_of_def filter_empty_conv)
  qed
  have "refs_ok ?t" using r new assms(2) by (auto simp: refs_ok_def process_fits_def intro: known_in_mono)
  moreover have "keys_ok ?t"
  proof -
    have "distinct (map (\<lambda>x. (sp_process x, sp_seq x)) xs)" using assms(8) by (auto simp: distinct_map inj_on_def)
    with k id assms(3) old new show ?thesis by (auto simp: keys_ok_def)
  qed
  moreover have "totals_ok ?t" using n own others assms(5,6) by (simp add: totals_ok_def)
  ultimately show ?thesis by (simp add: prod_ok_def)
qed

lemma totals_cong: "totals_ok s \<Longrightarrow> pd_processes t = pd_processes s \<Longrightarrow> pd_steps t = pd_steps s \<Longrightarrow> totals_ok t"
  by (simp add: totals_ok_def steps_of_def)

lemma prod_ok_upd_process:
  assumes "prod_ok s" and h: "\<And>c. pc_id (h c) = pc_id c \<and> pc_code (h c) = pc_code c \<and> pc_total (h c) = pc_total c"
    and f: "\<And>c. c \<in> set (pd_processes s) \<Longrightarrow> csel c \<Longrightarrow> known_in (map pp_id (pd_products s)) (pc_product (h c))"
  shows "prod_ok (s\<lparr>pd_processes := upd_where csel h (pd_processes s)\<rparr>)"
proof -
  have ids: "map pc_id (upd_where csel h (pd_processes s)) = map pc_id (pd_processes s)"
    and codes: "map pc_code (upd_where csel h (pd_processes s)) = map pc_code (pd_processes s)"
    using h by (simp_all add: map_upd_key)
  then have img: "pc_id ` set (upd_where csel h (pd_processes s)) = pc_id ` set (pd_processes s)"
    by (metis list.set_map)
  show ?thesis
    using assms(1) h f unfolding prod_ok_def refs_ok_def keys_ok_def totals_ok_def steps_of_def
    by (simp add: ids codes img) (auto simp: set_upd_where)
qed

lemma prod_ok_upd_product:
  assumes "prod_ok s" and g: "\<And>p. pp_id (g p) = pp_id p \<and> pp_code (g p) = pp_code p"
    and f: "\<And>p. p \<in> set (pd_products s) \<Longrightarrow> psel p \<Longrightarrow> known_in (map pc_id (pd_processes s)) (pp_process (g p))"
  shows "prod_ok (s\<lparr>pd_products := upd_where psel g (pd_products s)\<rparr>)"
proof -
  have ids: "map pp_id (upd_where psel g (pd_products s)) = map pp_id (pd_products s)"
    and codes: "map pp_code (upd_where psel g (pd_products s)) = map pp_code (pd_products s)"
    using g by (simp_all add: map_upd_key)
  show ?thesis
    using assms(1) f unfolding prod_ok_def refs_ok_def keys_ok_def totals_ok_def steps_of_def
    by (simp add: ids codes) (auto simp: set_upd_where)
qed

lemma prod_ok_upd_line:
  assumes "prod_ok s" and f: "\<And>l. ln_id (f l) = ln_id l \<and> ln_code (f l) = ln_code l"
  shows "prod_ok (s\<lparr>pd_lines := upd_where sel f (pd_lines s)\<rparr>)"
proof -
  have ids: "map ln_id (upd_where sel f (pd_lines s)) = map ln_id (pd_lines s)"
    and codes: "map ln_code (upd_where sel f (pd_lines s)) = map ln_code (pd_lines s)"
    using f by (simp_all add: map_upd_key)
  then have img: "ln_id ` set (upd_where sel f (pd_lines s)) = ln_id ` set (pd_lines s)" by (metis list.set_map)
  show ?thesis using assms(1) unfolding prod_ok_def refs_ok_def keys_ok_def totals_ok_def steps_of_def
    by (simp add: ids codes img)
qed

interpretation sound: table_law prod_ok
proof (unfold_locales, goal_cases)
  case (1 s l)
  then show ?case by (auto simp: prod_ok_def refs_ok_def keys_ok_def totals_ok_def steps_of_def)
next
  case (2 s f sel)
  then show ?case by (intro prod_ok_upd_line) simp_all
next
  case (3 s p)
  then show ?case by (auto simp: prod_ok_def refs_ok_def keys_ok_def totals_ok_def steps_of_def product_fits_def intro: known_in_mono)
next
  case (4 s g psel)
  then show ?case by (intro prod_ok_upd_product) simp_all
next
  case (5 s c xs)
  then show ?case by (intro prod_ok_add_process) simp_all
next
  case (6 s h csel)
  then show ?case by (intro prod_ok_upd_process) simp_all
next
  case (7 s q)
  then show ?case by (auto simp: prod_ok_def refs_ok_def keys_ok_def totals_ok_def steps_of_def)
next
  case (8 s k)
  then show ?case by (simp add: prod_ok_def refs_ok_def keys_ok_def totals_ok_def steps_of_def)
next
  case (9 s n)
  then show ?case by (simp add: prod_ok_def refs_ok_def keys_ok_def totals_ok_def steps_of_def)
qed

lemma prod_step_ok: "prod_ok s \<Longrightarrow> px_abandon e = rolls_back \<Longrightarrow> prod_ok (prod_step (e, r) s)"
proof -
  assume s: "prod_ok s" and e: "px_abandon e = rolls_back"
  have d: "distinct (map pp_id (pd_products s))" "distinct (map pc_id (pd_processes s))"
    "\<forall>p\<in>set (pd_products s). known_in (map pc_id (pd_processes s)) (pp_process p)"
    "\<forall>c\<in>set (pd_processes s). known_in (map pp_id (pd_products s)) (pc_product c)"
    using s by (simp_all add: prod_ok_def keys_ok_def refs_ok_def)
  show ?thesis
    by (cases r) (simp_all add: sound.createLine_keeps sound.updateLine_keeps sound.deleteLine_keeps sound.createProduct_keeps
        sound.updateProduct_keeps sound.deleteProduct_keeps sound.createProcess_keeps sound.updateProcess_keeps
        sound.deleteProcess_keeps sound.createPlan_keeps s e d)
qed

lemma prod_run_ok: "prod_ok s \<Longrightarrow> \<forall>(e, r)\<in>set evs. px_abandon e = rolls_back \<Longrightarrow> prod_ok (fold prod_step evs s)"
  by (induction evs arbitrary: s) (auto intro: prod_step_ok)

section \<open>Plans stay drafts\<close>

definition drafts :: "production \<Rightarrow> bool" where
  "drafts s \<longleftrightarrow> (\<forall>p\<in>set (pd_plans s). pn_status p = 0)"

definition settles :: "prod_env \<Rightarrow> bool" where
  "settles e \<longleftrightarrow> px_abandon e = rolls_back \<or> px_abandon e = commits_on_destruction"

lemma transaction_either:
  "settles e \<Longrightarrow> snd (transaction (px_abandon e) c m body s) = s \<or> snd (transaction (px_abandon e) c m body s) = snd (body s)"
  by (cases "body s") (auto simp: transaction_def settles_def rolls_back_def commits_on_destruction_def split: sum.splits fault.splits)

lemma insert_steps_plans: "pd_plans (snd (insert_steps e pid n xs s)) = pd_plans s"
  by (induction xs arbitrary: n s) (auto simp: insert_step_def split: sum.splits option.splits if_splits)

lemma createProcess_body_plans: "pd_plans (snd (createProcess_body e b u s)) = pd_plans s"
proof -
  have "pd_plans t = pd_plans s" if "insert_steps e pid n xs (s\<lparr>pd_processes := cs\<rparr>) = (r, t)" for pid n xs cs r t
    using insert_steps_plans [of e pid n xs "s\<lparr>pd_processes := cs\<rparr>"] that by simp
  then show ?thesis by (auto simp: createProcess_body_def Let_def split: sum.splits prod.splits)
qed

lemma createProcess_plans: "settles e \<Longrightarrow> pd_plans (snd (createProcess e b u s)) = pd_plans s"
  using transaction_either [of e _ _ "createProcess_body e b u" s] createProcess_body_plans [of e b u s]
  by (simp add: createProcess_def) metis

lemma createPlan_body_drafts: "drafts s \<Longrightarrow> drafts (snd (createPlan_body e b u s))"
proof -
  assume s: "drafts s"
  have "drafts (snd (insert_plan e q ws s))" if "pn_status q = 0" for q ws
  proof -
    obtain ls where l: "snd (link_orders e (pn_id q) 2 ws (s\<lparr>pd_plans := pd_plans s @ [q]\<rparr>))
        = s\<lparr>pd_plans := pd_plans s @ [q], pd_links := pd_links s @ ls\<rparr>"
      using link_orders_links [of e "pn_id q" 2 ws "s\<lparr>pd_plans := pd_plans s @ [q]\<rparr>"] by auto
    have "snd (insert_plan e q ws s) = s \<or> snd (insert_plan e q ws s) = s\<lparr>pd_plans := pd_plans s @ [q], pd_links := pd_links s @ ls\<rparr>"
      unfolding l [symmetric] by (auto simp: insert_plan_def split: prod.splits sum.splits)
    with s that show ?thesis by (auto simp: drafts_def)
  qed
  with s show ?thesis by (auto simp: createPlan_body_def split: sum.splits option.splits)
qed

lemma createPlan_drafts: "drafts s \<Longrightarrow> settles e \<Longrightarrow> drafts (snd (createPlan e b u s))"
proof -
  assume s: "drafts s" and e: "settles e"
  obtain r t where rt: "transaction (px_abandon e) (px_commit e) ''plan transaction failed'' (createPlan_body e b u) s = (r, t)"
    by (cases "transaction (px_abandon e) (px_commit e) ''plan transaction failed'' (createPlan_body e b u) s")
  then have "t = s \<or> t = snd (createPlan_body e b u s)"
    using transaction_either [OF e, of "px_commit e" "''plan transaction failed''" "createPlan_body e b u" s] by simp
  with s createPlan_body_drafts [OF s] have "drafts t" by metis
  then show ?thesis using s rt by (simp add: createPlan_def drafts_def)
qed

lemma other_requests_plans:
  "pd_plans (snd (createLine e b s)) = pd_plans s" "pd_plans (snd (updateLine e i b s)) = pd_plans s"
  "pd_plans (snd (deleteLine e i s)) = pd_plans s" "pd_plans (snd (createProduct e b s)) = pd_plans s"
  "pd_plans (snd (updateProduct e i b s)) = pd_plans s" "pd_plans (snd (deleteProduct e i s)) = pd_plans s"
  "pd_plans (snd (updateProcess e i b s)) = pd_plans s" "pd_plans (snd (deleteProcess e i s)) = pd_plans s"
  by (simp_all add: createLine_def insert_line_def updateLine_def deleteLine_def deleteLine_delete_def createProduct_def
      insert_product_def updateProduct_def deleteProduct_def updateProcess_def deleteProcess_def split: sum.splits option.splits)

lemma drafts_cong: "drafts s \<Longrightarrow> pd_plans t = pd_plans s \<Longrightarrow> drafts t"
  by (simp add: drafts_def)

lemma drafts_step: "drafts s \<Longrightarrow> settles e \<Longrightarrow> drafts (prod_step (e, r) s)"
  by (cases r) (auto intro: drafts_cong createPlan_drafts simp: other_requests_plans createProcess_plans)

lemma drafts_run: "drafts s \<Longrightarrow> \<forall>(e, r)\<in>set evs. settles e \<Longrightarrow> drafts (fold prod_step evs s)"
  by (induction evs arbitrary: s) (auto intro: drafts_step)


section \<open>What the creation of a process stores\<close>

lemma insert_steps_stored:
  assumes "insert_steps e pid n xs s = (r, t)"
  shows "\<exists>ys. t = s\<lparr>pd_steps := pd_steps s @ ys\<rparr>
    \<and> list_all2 (\<lambda>x y. read_step pid x = Inr y) (take (length ys) xs) ys
    \<and> (if is_ok r then length ys = length xs else length ys < length xs)"
  using assms
proof (induction xs arbitrary: n s)
  case Nil
  then show ?case by (intro exI [of _ "[]"]) auto
next
  case (Cons x xs)
  have stop: "?case" if "t = s" "\<not> is_ok r" using that by (intro exI [of _ "[]"]) simp
  show ?case
  proof (cases "read_step pid x")
    case (Inl f)
    then show ?thesis using Cons.prems by (intro stop) auto
  next
    case (Inr st)
    show ?thesis
    proof (cases "insert_step e n st s")
      case None
      then show ?thesis using Cons.prems Inr by (intro stop) auto
    next
      case (Some s1)
      then have s1: "s1 = s\<lparr>pd_steps := pd_steps s @ [st]\<rparr>" by (auto simp: insert_step_def split: if_splits)
      have "insert_steps e pid (Suc n) xs s1 = (r, t)" using Cons.prems Inr Some by simp
      from Cons.IH [OF this] obtain ys where "t = s1\<lparr>pd_steps := pd_steps s1 @ ys\<rparr>"
          "list_all2 (\<lambda>x y. read_step pid x = Inr y) (take (length ys) xs) ys"
          "if is_ok r then length ys = length xs else length ys < length xs" by blast
      then show ?thesis using s1 Inr by (intro exI [of _ "st # ys"]) auto
    qed
  qed
qed

text \<open>The row and the steps of a process that a request describes.\<close>

definition described :: "prod_env \<Rightarrow> json \<Rightarrow> int \<Rightarrow> pprocess \<Rightarrow> pstep list \<Rightarrow> bool" where
  "described e body u c xs \<longleftrightarrow> pc_id c = px_id e \<and> jstr ''process_code'' body = Given (pc_code c)
    \<and> jstr ''process_name'' body = Given (pc_name c) \<and> pc_total c = int (length (step_items body)) \<and> pc_status c = 1
    \<and> pc_creator c = u \<and> \<not> pc_deleted c
    \<and> list_all2 (\<lambda>x y. read_step (px_id e) x = Inr y) (take (length xs) (step_items body)) xs"

definition with_process :: "pprocess \<Rightarrow> pstep list \<Rightarrow> production \<Rightarrow> production" where
  "with_process c xs s = s\<lparr>pd_processes := pd_processes s @ [c], pd_steps := pd_steps s @ xs\<rparr>"

definition process_reply :: "prod_env \<Rightarrow> json \<Rightarrow> json" where
  "process_reply e body = JObj [(''id'', JInt (px_id e)), (''steps'', JInt (int (length (step_items body)))), (''created'', JBool True)]"

lemma got_Inr: "got f = Inr v \<longleftrightarrow> f = Given v"
  by (cases f) (simp_all add: got_def)

lemma got_Inl: "got f = Inl x \<Longrightarrow> x = JsonError"
  by (cases f) (simp_all add: got_def)

lemma createProcess_body_stored:
  assumes "createProcess_body e body u s = (r, t)"
  shows "\<not> is_ok r \<and> t = s
    \<or> (\<exists>c xs. t = with_process c xs s \<and> described e body u c xs
        \<and> (if is_ok r then length xs = length (step_items body) \<and> r = Inr (process_reply e body) else length xs < length (step_items body)))"
proof -
  have 1: "?thesis" if "t = s" "\<not> is_ok r" using that by blast
  show ?thesis
  proof (cases "\<exists>code name product version. got (jstr ''process_code'' body) = Inr code \<and> got (jstr ''process_name'' body) = Inr name
      \<and> field_value 0 (jlong ''product_id'' body) = Inr product \<and> field_value ''1.0'' (jstr ''version'' body) = Inr version")
    case False
    then show ?thesis using assms 1 by (auto simp: createProcess_body_def split: sum.splits)
  next
    case True
    then obtain code name product version where g: "got (jstr ''process_code'' body) = Inr code" "got (jstr ''process_name'' body) = Inr name"
      "field_value 0 (jlong ''product_id'' body) = Inr product" "field_value ''1.0'' (jstr ''version'' body) = Inr version" by blast
    let ?c = "\<lparr>pc_id = px_id e, pc_code = code, pc_name = name, pc_product = zero_null product, pc_version = version,
      pc_total = int (length (step_items body)), pc_status = 1, pc_published = px_now e, pc_creator = u, pc_deleted = False\<rparr>"
    obtain q v where i: "insert_steps e (px_id e) 1 (step_items body) (s\<lparr>pd_processes := pd_processes s @ [?c]\<rparr>) = (q, v)"
      by (cases "insert_steps e (px_id e) 1 (step_items body) (s\<lparr>pd_processes := pd_processes s @ [?c]\<rparr>)")
    obtain xs where xs: "v = with_process ?c xs s" "list_all2 (\<lambda>x y. read_step (px_id e) x = Inr y) (take (length xs) (step_items body)) xs"
        "if is_ok q then length xs = length (step_items body) else length xs < length (step_items body)"
      using insert_steps_stored [OF i] by (auto simp: with_process_def)
    then have d: "described e body u ?c xs" using g by (simp add: described_def got_Inr)
    show ?thesis
      using assms g i d xs 1 by (auto simp: createProcess_body_def Let_def process_reply_def split: if_splits sum.splits)
  qed
qed




section \<open>Instances\<close>

definition empty_production :: production where
  "empty_production = \<lparr>pd_lines = [], pd_stations = [], pd_products = [], pd_processes = [], pd_steps = [], pd_plans = [],
    pd_links = [], pd_orders = [], pd_plan_seq = 1\<rparr>"

definition demo_prod_env :: "(production \<Rightarrow> production \<Rightarrow> production) \<Rightarrow> int \<Rightarrow> prod_env" where
  "demo_prod_env abandon i = \<lparr>px_db = \<lambda>_. True, px_commit = True, px_abandon = abandon, px_id = i, px_now = 0,
    px_year = 2026, px_month = 1, px_day = 1, px_date = \<lambda>_. Some 20454, px_text = \<lambda>_. []\<rparr>"

definition demo_step :: "json \<Rightarrow> json" where
  "demo_step q = JObj [(''step_seq'', q), (''step_name'', JStr ''cut''), (''step_code'', JStr ''C'')]"

definition demo_process :: "json \<Rightarrow> json" where
  "demo_process q = JObj [(''process_code'', JStr ''P1''), (''process_name'', JStr ''case''),
    (''steps'', JArr [demo_step (JInt 1), demo_step q])]"


lemma demo_created:
  "is_ok (fst (createProcess (demo_prod_env commits_on_destruction 1) (demo_process (JInt 2)) 9 empty_production))"
  "\<not> is_ok (fst (createProcess (demo_prod_env commits_on_destruction 1) (demo_process (JStr ''2'')) 9 empty_production))"
  "length (pd_steps (snd (createProcess (demo_prod_env commits_on_destruction 1) (demo_process (JStr ''2'')) 9 empty_production))) = 1"
  "length (step_items (demo_process (JInt 2))) = 2"
  by code_simp+


end
