(* ===== verification/Oee_Props.thy ===== *)
theory Oee_Props
  imports Production_Props
begin

text \<open>
  Effectiveness: the range of the factors and what counts as running time, that a recalculation can be
  repeated, and that no plan the service makes ever counts.
\<close>

section \<open>The factors\<close>

lemma clamp01_range: "0 \<le> clamp01 v" "clamp01 v \<le> 1"
  by (simp_all add: clamp01_def)

lemma computeOee_range:
  "0 \<le> oo_availability (computeOee i)" "oo_availability (computeOee i) \<le> 1"
  "0 \<le> oo_performance (computeOee i)" "oo_performance (computeOee i) \<le> 1"
  "0 \<le> oo_quality (computeOee i)" "oo_quality (computeOee i) \<le> 1"
  by (simp_all add: computeOee_def Let_def clamp01_range)

lemma computeOee_product:
  "oo_oee (computeOee i) = oo_availability (computeOee i) * oo_performance (computeOee i) * oo_quality (computeOee i)"
  by (simp add: computeOee_def Let_def)

lemma product_range:
  fixes a b :: rat
  assumes "0 \<le> a" "a \<le> 1" "0 \<le> b" "b \<le> 1"
  shows "0 \<le> a * b" "a * b \<le> 1"
  using assms by (simp_all add: mult_le_one)

lemma oee_range: "0 \<le> oo_oee (computeOee i)" "oo_oee (computeOee i) \<le> 1"
  using computeOee_range [of i] unfolding computeOee_product by (intro product_range; simp)+

lemma percent_fits: "0 \<le> v \<Longrightarrow> v \<le> 1 \<Longrightarrow> \<exists>p. percent v = Some p \<and> 0 \<le> p \<and> p \<le> 100"
proof -
  assume v: "0 \<le> v" "v \<le> 1"
  define w where "w = ten_digits (v * 100)"
  have "v * 100 \<le> of_int 1 * ten_to 2" using v(2) by (simp add: ten_to_def)
  from ten_digits_le [OF _ this] have w: "0 \<le> w" "w \<le> 100" using v(1) by (simp_all add: w_def ten_to_def)
  let ?n = "\<lfloor>w * 10 ^ 3 + 1 / 2\<rfloor>"
  have "w * 10 ^ 3 + 1 / 2 < 100001" using w by simp
  then have "?n < 100001" by (simp add: floor_less_iff)
  then have n: "?n \<le> 100000" "0 \<le> ?n" using w by simp_all
  then have "(of_int ?n :: rat) \<le> 100000" by (metis of_int_le_iff of_int_numeral)
  then have m: "(of_int ?n / 10 ^ 3 :: rat) \<le> 100" "0 \<le> (of_int ?n / 10 ^ 3 :: rat)" using n by simp_all
  have "percent v = Some (of_int ?n / 10 ^ 3)"
    using m w by (simp add: percent_def double_column_def numeric_def Let_def w_def)
  with m show ?thesis by blast
qed

lemma gap_sum_range: "sorted ts \<Longrightarrow> 0 \<le> gap_sum ts \<and> gap_sum ts \<le> kMaxGapSec * int (length ts - 1)"
  by (induction ts rule: gap_sum.induct) (auto simp: kMaxGapSec_def)

lemma concat_map_Nil: "concat (map (\<lambda>n. []) xs) = []"
  by (induction xs) simp_all

lemma run_times_other: "rw_num r \<noteq> Some 1 \<Longrightarrow> run_times m (s\<lparr>it_raw := it_raw s @ [r]\<rparr>) d = run_times m s d"
  by (simp add: run_times_def concat_map_Nil)

lemma run_sec_range: "run_sec (run_times m s d) = Some x \<Longrightarrow> 60 \<le> x \<and> x \<le> 60 * int (length (run_times m s d))"
proof -
  assume x: "run_sec (run_times m s d) = Some x"
  have s: "sorted (run_times m s d)" by (simp add: run_times_def)
  have "length (run_times m s d) \<noteq> 0" and e: "x = kMaxGapSec + gap_sum (run_times m s d)"
    using x by (auto simp: run_sec_def split: if_splits)
  then have l: "int (length (run_times m s d) - 1) = int (length (run_times m s d)) - 1" by (simp add: of_nat_diff Suc_leI)
  show ?thesis using gap_sum_range [OF s] e unfolding l by (simp add: kMaxGapSec_def algebra_simps)
qed

section \<open>The stored rows\<close>

definition row_key :: "oee_row \<Rightarrow> int \<times> int \<times> int" where
  "row_key r = (os_line r, os_day r, os_shift r)"

lemma same_key_iff: "same_key r q \<longleftrightarrow> row_key q = row_key r"
  by (auto simp: same_key_def row_key_def)

definition current :: "oee_row \<Rightarrow> oee_row list \<Rightarrow> bool" where
  "current r rows \<longleftrightarrow> row_key r \<in> row_key ` set rows \<and> (\<forall>q\<in>set rows. row_key q = row_key r \<longrightarrow> q = r)"

lemma upsert_row_set: "set (upsert_row r rows) = insert r {q \<in> set rows. row_key q \<noteq> row_key r}"
  by (auto simp: upsert_row_def same_key_iff upd_where_def)

lemma upsert_row_keys: "distinct (map row_key rows) \<Longrightarrow> distinct (map row_key (upsert_row r rows))"
proof -
  assume d: "distinct (map row_key rows)"
  have "map row_key (upd_where (same_key r) (\<lambda>q. r) rows) = map row_key rows"
    by (auto simp: upd_where_def same_key_iff)
  with d show ?thesis by (auto simp: upsert_row_def same_key_iff)
qed

lemma current_upsert: "current r (upsert_row r rows)"
  by (auto simp: current_def upsert_row_set)

lemma current_kept: "current r rows \<Longrightarrow> row_key p \<noteq> row_key r \<Longrightarrow> current r (upsert_row p rows)"
  by (auto simp: current_def upsert_row_set image_iff)

lemma upsert_current: "current r rows \<Longrightarrow> upsert_row r rows = rows"
proof -
  assume c: "current r rows"
  have "upd_where (same_key r) (\<lambda>q. r) rows = rows"
    unfolding upd_where_def by (rule map_idI) (use c in \<open>auto simp: current_def same_key_iff\<close>)
  with c show ?thesis by (auto simp: upsert_row_def current_def same_key_iff image_iff)
qed

lemma fold_upsert_keys: "distinct (map row_key rows) \<Longrightarrow> distinct (map row_key (fold upsert_row rs rows))"
  by (induction rs arbitrary: rows) (simp_all add: upsert_row_keys)

lemma fold_upsert_kept: "current r rows \<Longrightarrow> row_key r \<notin> row_key ` set rs \<Longrightarrow> current r (fold upsert_row rs rows)"
  by (induction rs arbitrary: rows) (auto simp: current_kept neq_commute)

lemma fold_upsert_current: "distinct (map row_key rs) \<Longrightarrow> \<forall>r\<in>set rs. current r (fold upsert_row rs rows)"
  by (induction rs arbitrary: rows) (auto intro: fold_upsert_kept current_upsert)

lemma fold_upsert_set: "q \<in> set (fold upsert_row rs rows) \<Longrightarrow> q \<in> set rows \<or> q \<in> set rs"
  by (induction rs arbitrary: rows) (fastforce simp: upsert_row_set)+

lemma fold_upsert_again: "\<forall>r\<in>set rs. current r rows \<Longrightarrow> fold upsert_row rs rows = rows"
  by (induction rs) (simp_all add: upsert_current)

text \<open>The rows one recalculation writes.\<close>

definition new_rows :: "(int \<times> int \<Rightarrow> bool) \<Rightarrow> int \<Rightarrow> int \<Rightarrow> factory \<Rightarrow> oee_row list" where
  "new_rows answered day midnight f =
    concat (map (\<lambda>((line, shift), i). case stored_row day line shift i of
        Some r \<Rightarrow> if answered (line, shift) \<and> line \<in> ln_id ` set (pd_lines (fc_production f)) \<and> int16_ok shift then [r] else []
      | None \<Rightarrow> []) (oee_inputs day midnight f))"

lemma recalcAll_new_rows:
  "recalcAll ok answered day midnight f = (if ok then f\<lparr>fc_stats := fold upsert_row (new_rows answered day midnight f) (fc_stats f)\<rparr> else f)"
proof -
  let ?put = "\<lambda>((line, shift), i) rows. case stored_row day line shift i of
      Some r \<Rightarrow> if answered (line, shift) \<and> line \<in> ln_id ` set (pd_lines (fc_production f)) \<and> int16_ok shift then upsert_row r rows else rows
    | None \<Rightarrow> rows"
  have "fold ?put xs rows = fold upsert_row (concat (map (\<lambda>((line, shift), i). case stored_row day line shift i of
        Some r \<Rightarrow> if answered (line, shift) \<and> line \<in> ln_id ` set (pd_lines (fc_production f)) \<and> int16_ok shift then [r] else []
      | None \<Rightarrow> []) xs)) rows" for xs rows
    by (induction xs arbitrary: rows) (auto split: option.split)
  then show ?thesis by (simp add: recalcAll_def new_rows_def)
qed

lemma stored_row_key: "stored_row day line shift i = Some r \<Longrightarrow> row_key r = (line, day, shift)"
  by (auto simp: stored_row_def row_key_def Let_def split: option.splits if_splits)

lemma oee_inputs_keys: "distinct (map fst (oee_inputs day midnight f))"
proof -
  have "map fst (oee_inputs day midnight f) = map fst (planned day (fc_production f))"
    unfolding oee_inputs_def map_map by (rule map_cong) auto
  then show ?thesis by (simp add: planned_def groups_def comp_def)
qed

definition rows_of :: "(int \<Rightarrow> int \<Rightarrow> bool) \<Rightarrow> int \<Rightarrow> ((int \<times> int) \<times> oee_input) list \<Rightarrow> oee_row list" where
  "rows_of P day xs = concat (map (\<lambda>((line, shift), i). case stored_row day line shift i of
      Some r \<Rightarrow> if P line shift then [r] else [] | None \<Rightarrow> []) xs)"

lemma new_rows_of:
  "new_rows answered day midnight f
    = rows_of (\<lambda>line shift. answered (line, shift) \<and> line \<in> ln_id ` set (pd_lines (fc_production f)) \<and> int16_ok shift) day
        (oee_inputs day midnight f)"
  by (simp add: new_rows_def rows_of_def)

lemma rows_of_origin:
  "r \<in> set (rows_of P day xs) \<longleftrightarrow>
    (\<exists>line shift i. ((line, shift), i) \<in> set xs \<and> stored_row day line shift i = Some r \<and> P line shift)"
proof (induction xs)
  case (Cons x xs)
  obtain line shift i where x: "x = ((line, shift), i)" by (metis prod.exhaust)
  show ?case
  proof (cases "\<exists>q. stored_row day line shift i = Some q \<and> P line shift \<and> r = q")
    case True
    then show ?thesis unfolding x by (auto simp: rows_of_def)
  next
    case False
    then have "r \<in> set (rows_of P day (x # xs)) \<longleftrightarrow> r \<in> set (rows_of P day xs)"
      unfolding x by (auto simp: rows_of_def split: option.split)
    with Cons.IH False show ?thesis unfolding x by auto
  qed
qed (simp add: rows_of_def)

lemma rows_of_keys: "distinct (map fst xs) \<Longrightarrow> distinct (map row_key (rows_of P day xs))"
proof (induction xs)
  case (Cons x xs)
  obtain line shift i where x: "x = ((line, shift), i)" by (metis prod.exhaust)
  have "row_key r \<noteq> (line, day, shift)" if r: "r \<in> set (rows_of P day xs)" for r
  proof
    assume k: "row_key r = (line, day, shift)"
    obtain l h j where "((l, h), j) \<in> set xs" "stored_row day l h j = Some r" using r unfolding rows_of_origin by blast
    then have "(line, shift) \<in> fst ` set xs" using k by (auto simp: stored_row_key image_iff intro!: bexI)
    with Cons.prems x show False by simp
  qed
  then have "(line, day, shift) \<notin> row_key ` set (rows_of P day xs)" by (metis imageE)
  moreover have "rows_of P day (x # xs) = (case stored_row day line shift i of Some r \<Rightarrow> if P line shift then [r] else [] | None \<Rightarrow> []) @ rows_of P day xs"
    by (simp add: rows_of_def x)
  ultimately show ?case using Cons by (auto split: option.split dest: stored_row_key)
qed (simp add: rows_of_def)

lemma new_rows_keys: "distinct (map row_key (new_rows answered day midnight f))"
  unfolding new_rows_of by (rule rows_of_keys) (rule oee_inputs_keys)

lemma new_rows_origin:
  "r \<in> set (new_rows answered day midnight f) \<longleftrightarrow>
    (\<exists>line shift i. ((line, shift), i) \<in> set (oee_inputs day midnight f) \<and> stored_row day line shift i = Some r
      \<and> answered (line, shift) \<and> line \<in> ln_id ` set (pd_lines (fc_production f)) \<and> int16_ok shift)"
  unfolding new_rows_of rows_of_origin ..

lemma new_rows_stats: "new_rows answered day midnight (f\<lparr>fc_stats := rows\<rparr>) = new_rows answered day midnight f"
proof -
  have "oee_inputs day midnight (f\<lparr>fc_stats := rows\<rparr>) = oee_inputs day midnight f" by (simp add: oee_inputs_def)
  then show ?thesis by (simp add: new_rows_of)
qed


text \<open>C26: the factors are fractions: for every input availability, performance, quality and their product are
  between 0 and 1, so their percentages fit the columns; the running time of a device that was seen running
  is at least 60 seconds and at most 60 for each sample, a single sample counts 60 seconds, two samples less
  than a minute apart count the time between them and 60 more, and a sample that says the device has
  stopped, at whatever time, changes nothing.\<close>

theorem effectiveness_bounds:
  assumes "run_sec (run_times midnight s d) = Some x"
  shows "60 \<le> x \<and> x \<le> 60 * int (length (run_times midnight s d))
    \<and> (\<forall>t. run_times midnight s d = [t] \<longrightarrow> x = 60)
    \<and> (\<forall>t u. run_times midnight s d = [t, u] \<and> u - t \<le> 60 \<longrightarrow> x = (u - t) + 60)
    \<and> (\<forall>r. rw_num r \<noteq> Some 1 \<longrightarrow> run_sec (run_times midnight (s\<lparr>it_raw := it_raw s @ [r]\<rparr>) d) = Some x)
    \<and> (\<forall>i. list_all (\<lambda>v. 0 \<le> v \<and> v \<le> 1 \<and> (\<exists>p. percent v = Some p \<and> 0 \<le> p \<and> p \<le> 100))
          [oo_availability (computeOee i), oo_performance (computeOee i), oo_quality (computeOee i), oo_oee (computeOee i)])"
proof -
  have "list_all (\<lambda>v. 0 \<le> v \<and> v \<le> 1 \<and> (\<exists>p. percent v = Some p \<and> 0 \<le> p \<and> p \<le> 100))
      [oo_availability (computeOee i), oo_performance (computeOee i), oo_quality (computeOee i), oo_oee (computeOee i)]" for i
    by (simp add: computeOee_range oee_range percent_fits)
  then show ?thesis
    using run_sec_range [OF assms] assms by (auto simp: run_times_other run_sec_def kMaxGapSec_def)
qed

text \<open>A recalculation can be repeated: it keeps one row for each line, day and shift, every row it leaves is an
  old one or the rounded result for a line and shift with a confirmed plan of the day, each of those that is
  answered, storable and of a known line has exactly that row afterwards, and a second recalculation of the
  same data with the same answers changes nothing.\<close>

theorem recalculation_repeats:
  assumes "distinct (map row_key (fc_stats f))"
  shows "let g = recalcAll ok answered day midnight f in
    recalcAll ok answered day midnight g = g \<and> distinct (map row_key (fc_stats g))
    \<and> (\<forall>r\<in>set (fc_stats g). r \<in> set (fc_stats f) \<or> r \<in> set (new_rows answered day midnight f))
    \<and> (ok \<longrightarrow> set (new_rows answered day midnight f) \<subseteq> set (fc_stats g))
    \<and> (\<forall>r. r \<in> set (new_rows answered day midnight f) \<longleftrightarrow>
        (\<exists>line shift i. ((line, shift), i) \<in> set (oee_inputs day midnight f) \<and> stored_row day line shift i = Some r
          \<and> answered (line, shift) \<and> line \<in> ln_id ` set (pd_lines (fc_production f)) \<and> int16_ok shift))"
proof (cases ok)
  case True
  let ?rs = "new_rows answered day midnight f" and ?rows = "fold upsert_row (new_rows answered day midnight f) (fc_stats f)"
  have c: "\<forall>r\<in>set ?rs. current r ?rows" by (rule fold_upsert_current) (rule new_rows_keys)
  have "fold upsert_row ?rs ?rows = ?rows" by (rule fold_upsert_again [OF c])
  moreover have "distinct (map row_key ?rows)" by (rule fold_upsert_keys [OF assms])
  moreover have "set ?rs \<subseteq> set ?rows"
  proof
    fix r assume "r \<in> set ?rs"
    with c have "row_key r \<in> row_key ` set ?rows" "\<forall>q\<in>set ?rows. row_key q = row_key r \<longrightarrow> q = r"
      by (simp_all add: current_def)
    then show "r \<in> set ?rows" by (metis imageE)
  qed
  moreover have "\<forall>r\<in>set ?rows. r \<in> set (fc_stats f) \<or> r \<in> set ?rs" by (blast dest: fold_upsert_set)
  ultimately show ?thesis using True by (simp add: recalcAll_new_rows new_rows_stats new_rows_origin)
next
  case False
  then show ?thesis using assms by (simp add: recalcAll_new_rows new_rows_origin)
qed

text \<open>Effectiveness is never computed: plans are created as drafts and no request confirms one, so from tables
  whose plans are all drafts, after any sequence of requests, whether the driver rolls back or commits an
  abandoned transaction, no plan counts and a recalculation of any day leaves the stored rows as they were.\<close>

theorem oee_never_computed:
  assumes "drafts (fc_production f)" and "\<forall>(e, r)\<in>set evs. settles e"
  shows "recalcAll ok answered day midnight (f\<lparr>fc_production := fold prod_step evs (fc_production f)\<rparr>)
    = f\<lparr>fc_production := fold prod_step evs (fc_production f)\<rparr>"
proof -
  have d: "drafts (fold prod_step evs (fc_production f))" by (rule drafts_run [OF assms])
  have "filter (confirmed day) (pd_plans (fold prod_step evs (fc_production f))) = []"
    using d by (auto simp: drafts_def confirmed_def filter_empty_conv)
  then have "planned day (fold prod_step evs (fc_production f)) = []"
    by (simp add: planned_def groups_def)
  then show ?thesis by (simp add: recalcAll_def oee_inputs_def)
qed


section \<open>Instances\<close>

definition demo_run_sensor :: sensor where
  "demo_run_sensor = \<lparr>sn_id = 5, sn_device = 7, sn_code = ''run_status'', sn_name = [], sn_dtype = ''bool'', sn_unit = None,
    sn_register = None, sn_scale = 1, sn_offset = 0, sn_min = None, sn_max = None, sn_low = None, sn_high = None,
    sn_lowlow = None, sn_highhigh = None, sn_interval = 1000, sn_key = True, sn_status = 1, sn_deleted = False\<rparr>"

definition demo_sample :: "int \<Rightarrow> rat \<Rightarrow> raw_row" where
  "demo_sample t v = \<lparr>rw_device = 7, rw_sensor = 5, rw_num = Some v, rw_str = None, rw_quality = 192, rw_at = t\<rparr>"

definition demo_running_iot :: iot where
  "demo_running_iot = \<lparr>it_devices = [], it_sensors = [demo_run_sensor], it_raw = [demo_sample 1000 1, demo_sample 1030 1],
    it_alerts = [], it_tasks = [], it_links = [], it_types = [], it_lines = [], it_stations = [], it_order_lines = [],
    it_outbox = \<lparr>ob_rows = [], ob_next = 1\<rparr>\<rparr>"

lemma demo_run_times: "run_times 0 demo_running_iot 7 = [1000, 1030]"
  by (simp add: run_times_def demo_running_iot_def demo_sample_def demo_run_sensor_def is_run_sensor_def)

theorem effectiveness_bounds_witness:
  "run_sec (run_times 0 (demo_running_iot\<lparr>it_raw := it_raw demo_running_iot @ [demo_sample 1001 0]\<rparr>) 7) = Some 90"
proof -
  have "run_sec (run_times 0 demo_running_iot 7) = Some 90"
    unfolding demo_run_times by (simp add: run_sec_def kMaxGapSec_def)
  moreover have "rw_num (demo_sample 1001 0) \<noteq> Some 1" by (simp add: demo_sample_def)
  ultimately show ?thesis using effectiveness_bounds by blast
qed

definition demo_plan :: "int \<Rightarrow> plan" where
  "demo_plan status = \<lparr>pn_id = 1, pn_no = ''PL1'', pn_date = 20454, pn_line = 3, pn_shift = 1, pn_qty = 10, pn_status = status,
    pn_creator = 9, pn_created = 0\<rparr>"

definition demo_line :: pline where
  "demo_line = \<lparr>ln_id = 3, ln_code = ''L3'', ln_name = [], ln_workshop = None, ln_location = None, ln_capacity = None,
    ln_status = 1, ln_deleted = False\<rparr>"

definition demo_factory :: "int \<Rightarrow> factory" where
  "demo_factory status = \<lparr>fc_iot = demo_running_iot, fc_production = empty_production\<lparr>pd_lines := [demo_line], pd_plans := [demo_plan status]\<rparr>,
    fc_ops = [], fc_checks = [], fc_stats = []\<rparr>"

lemma demo_new_row: "new_rows (\<lambda>_. True) 20454 0 (demo_factory 1) \<noteq> []"
proof -
  have i: "oee_inputs 20454 0 (demo_factory 1) = [((3, 1), \<lparr>oi_run = 0, oi_planned = 28800, oi_report = 0, oi_pass = 0, oi_defect = 0\<rparr>)]"
    by (simp add: oee_inputs_def planned_def groups_def demo_factory_def demo_plan_def confirmed_def line_run_def demo_running_iot_def
        report_sec_def checks_of_def)
  have "stored_row 20454 3 1 \<lparr>oi_run = 0, oi_planned = 28800, oi_report = 0, oi_pass = 0, oi_defect = 0\<rparr> \<noteq> None"
    by code_simp
  then obtain r where r: "stored_row 20454 3 1 \<lparr>oi_run = 0, oi_planned = 28800, oi_report = 0, oi_pass = 0, oi_defect = 0\<rparr> = Some r" by blast
  have "3 \<in> ln_id ` set (pd_lines (fc_production (demo_factory 1)))" by (simp add: demo_factory_def demo_line_def)
  with r have "r \<in> set (new_rows (\<lambda>_. True) 20454 0 (demo_factory 1))"
    unfolding new_rows_origin i by (simp add: int16_ok_def)
  then show ?thesis by auto
qed

theorem recalculation_repeats_witness:
  "recalcAll True (\<lambda>_. True) 20454 0 (recalcAll True (\<lambda>_. True) 20454 0 (demo_factory 1)) = recalcAll True (\<lambda>_. True) 20454 0 (demo_factory 1)
   \<and> fc_stats (recalcAll True (\<lambda>_. True) 20454 0 (demo_factory 1)) \<noteq> []"
proof -
  have "distinct (map row_key (fc_stats (demo_factory 1)))" by (simp add: demo_factory_def)
  from recalculation_repeats [OF this, of True "\<lambda>_. True" 20454 0] demo_new_row show ?thesis by (auto simp: Let_def)
qed

theorem oee_never_computed_witness:
  "fc_stats (recalcAll True (\<lambda>_. True) 20454 0 ((demo_factory 0)\<lparr>fc_production :=
      fold prod_step [(demo_prod_env commits_on_destruction 1, CreateProcess (demo_process (JInt 2)) 9)] (fc_production (demo_factory 0))\<rparr>)) = []"
proof -
  have "drafts (fc_production (demo_factory 0))" by (simp add: drafts_def demo_factory_def demo_plan_def)
  moreover have "\<forall>(e, r)\<in>set [(demo_prod_env commits_on_destruction 1, CreateProcess (demo_process (JInt 2)) 9)]. settles e"
    by (simp add: settles_def demo_prod_env_def)
  ultimately show ?thesis
    by (subst oee_never_computed) (auto simp: demo_factory_def)
qed

end
