(* ===== verification/Api_Common.thy ===== *)
theory Api_Common
  imports Work_Orders Production Jwt_Tokens
begin

text \<open>
  What all handlers share (\<open>controllers/Common.hh\<close>): the reading of the body, of the query parameters and of
  the attributes the token check has left, and the mapping of a service's answer to a response. A service
  with callbacks answers through \<open>okCb\<close> or \<open>notNullCb\<close>, a coroutine through \<open>handleError\<close> of its controller.
  The path parameters are converted by the framework and are arguments of the handlers.
\<close>

section \<open>Requests\<close>

text \<open>\<open>ar_param\<close> is \<open>getParameter\<close>: empty for a parameter that is missing. \<open>ar_user\<close>: the attributes, if any.\<close>

record api_request =
  ar_param :: "string \<Rightarrow> string"
  ar_body :: string
  ar_peer :: string
  ar_user :: "token_payload option"

definition bodyJson :: "(string \<Rightarrow> json option) \<Rightarrow> api_request \<Rightarrow> json" where
  "bodyJson parse r = (case parse (ar_body r) of None \<Rightarrow> JNull | Some j \<Rightarrow> j)"

text \<open>The defaults of \<open>UserCtx\<close> when nothing was left in the attributes.\<close>

definition userCtxOf :: "api_request \<Rightarrow> user_ctx" where
  "userCtxOf r =
    (case ar_user r of
       None \<Rightarrow> \<lparr>c_user = 0, c_dept = 0, c_scope = 1, c_custom = []\<rparr>
     | Some p \<Rightarrow> \<lparr>c_user = tp_user p, c_dept = tp_dept p, c_scope = tp_scope p, c_custom = tp_custom p\<rparr>)"

definition caller :: "api_request \<Rightarrow> int" where
  "caller r = c_user (userCtxOf r)"

text \<open>\<open>std::atoi\<close> and \<open>std::atoll\<close> of the C library: no digits give 0, the range of \<open>long\<close> is not left, and an \<open>int\<close>
  is cut out of it.\<close>

definition atoll :: "string \<Rightarrow> int" where
  "atoll t = (case stoll_raw t of None \<Rightarrow> 0 | Some v \<Rightarrow> max (- (2 ^ 63)) (min (2 ^ 63 - 1) v))"

definition atoi :: "string \<Rightarrow> int" where
  "atoi t = to_int32 (atoll t)"

definition paramInt :: "api_request \<Rightarrow> string \<Rightarrow> int \<Rightarrow> int" where
  "paramInt r k d = (if ar_param r k = [] then d else atoi (ar_param r k))"

definition paramInt64 :: "api_request \<Rightarrow> string \<Rightarrow> int \<Rightarrow> int" where
  "paramInt64 r k d = (if ar_param r k = [] then d else atoll (ar_param r k))"

definition paramStr :: "api_request \<Rightarrow> string \<Rightarrow> string" where
  "paramStr r k = ar_param r k"

section \<open>Responses\<close>

text \<open>
  A response with data, an error with its code, an exception that leaves the handler (the framework's
  exception handler answers it), no response, or undefined behaviour.
\<close>

datatype 'a response = Respond 'a | RespondError int string | Escaped | Pending | Unspecified

fun okCb :: "'a reply \<Rightarrow> 'a response" where
  "okCb (Answer x) = Respond x"
| "okCb (Refuse c m) = RespondError c m"
| "okCb Thrown = Escaped"
| "okCb Silent = Pending"
| "okCb Undetermined = Unspecified"

fun notNullCb :: "json reply \<Rightarrow> json response" where
  "notNullCb (Answer j) =
     (if j = JNull then RespondError 404 ''no such resource''
      else if member ''conflict'' j \<noteq> None then RespondError 409 ''children or data refer to it''
      else Respond j)"
| "notNullCb r = okCb r"

text \<open>The same for a service whose data have a type of their own; None is the null document.\<close>

fun foundCb :: "'a option reply \<Rightarrow> 'a response" where
  "foundCb (Answer None) = RespondError 404 ''no such resource''"
| "foundCb (Answer (Some x)) = Respond x"
| "foundCb (Refuse c m) = RespondError c m"
| "foundCb Thrown = Escaped"
| "foundCb Silent = Pending"
| "foundCb Undetermined = Unspecified"

definition needs_json :: "'a response" where
  "needs_json = RespondError 400 ''the body must be JSON''"

text \<open>A coroutine: the fault becomes a response; undefined behaviour stays what it is.\<close>

definition respond :: "'a result \<Rightarrow> 'a response" where
  "respond x =
    (case x of
       Inr v \<Rightarrow> Respond v
     | Inl (Undefined m) \<Rightarrow> Unspecified
     | Inl f \<Rightarrow> RespondError (fst (handleError f)) (snd (handleError f)))"

definition respond_state :: "'a result \<times> 's \<Rightarrow> 'a response \<times> 's" where
  "respond_state x = (respond (fst x), snd x)"

definition ok_state :: "'a reply \<times> 's \<Rightarrow> 'a response \<times> 's" where
  "ok_state x = (okCb (fst x), snd x)"

definition not_null_state :: "json reply \<times> 's \<Rightarrow> json response \<times> 's" where
  "not_null_state x = (notNullCb (fst x), snd x)"

text \<open>A handler that needs a body.\<close>

definition with_body :: "(string \<Rightarrow> json option) \<Rightarrow> api_request \<Rightarrow> (json \<Rightarrow> 's \<Rightarrow> 'a response \<times> 's) \<Rightarrow> 's \<Rightarrow> 'a response \<times> 's" where
  "with_body parse r h s =
    (if bodyJson parse r = JNull then (needs_json, s) else h (bodyJson parse r) s)"

lemma with_body_null: "bodyJson parse r = JNull \<Longrightarrow> with_body parse r h s = (needs_json, s)"
  by (simp add: with_body_def)

lemma with_body_some: "bodyJson parse r \<noteq> JNull \<Longrightarrow> with_body parse r h s = h (bodyJson parse r) s"
  by (simp add: with_body_def)

lemma atoi_range: "int32_ok (atoi t)"
  by (simp add: atoi_def to_int32_ok)

lemma paramInt_range: "int32_ok d \<Longrightarrow> int32_ok (paramInt r k d)"
  by (simp add: paramInt_def atoi_range)

lemma respond_code: "respond x = RespondError c m \<Longrightarrow> (\<exists>f. x = Inl f \<and> handleError f = (c, m))"
  by (auto simp: respond_def handleError_def split: sum.splits fault.splits)

end
