(* ===== verification/Api_Iot.thy ===== *)
theory Api_Iot
  imports Api_Common Iot_Operations Quality
begin

text \<open>
  The handlers of \<open>controllers/IotController.cc\<close> and \<open>controllers/QualityController.cc\<close>, one definition for each,
  and the routes they are registered for.
\<close>

section \<open>Devices\<close>

definition iot_routes :: "(string \<times> string \<times> string) list" where
  "iot_routes =
    [(''IotController::listDevices'', ''/api/v1/iot/devices'', ''GET''),
     (''IotController::getDevice'', ''/api/v1/iot/devices/{1}'', ''GET''),
     (''IotController::createDevice'', ''/api/v1/iot/devices'', ''POST''),
     (''IotController::updateDevice'', ''/api/v1/iot/devices/{1}'', ''PUT''),
     (''IotController::deleteDevice'', ''/api/v1/iot/devices/{1}'', ''DELETE''),
     (''IotController::deviceStatus'', ''/api/v1/iot/devices/{1}/status'', ''GET''),
     (''IotController::sendCommand'', ''/api/v1/iot/devices/{1}/command'', ''POST''),
     (''IotController::listSensors'', ''/api/v1/iot/devices/{1}/sensors'', ''GET''),
     (''IotController::addSensor'', ''/api/v1/iot/devices/{1}/sensors'', ''POST''),
     (''IotController::updateSensor'', ''/api/v1/iot/sensors/{1}'', ''PUT''),
     (''IotController::deleteSensor'', ''/api/v1/iot/sensors/{1}'', ''DELETE''),
     (''IotController::realtimeData'', ''/api/v1/iot/devices/{1}/realtime-data'', ''GET''),
     (''IotController::sensorHistory'', ''/api/v1/iot/sensors/{1}/history'', ''GET''),
     (''IotController::listAlerts'', ''/api/v1/iot/alerts'', ''GET''),
     (''IotController::ackAlert'', ''/api/v1/iot/alerts/{1}/acknowledge'', ''PUT''),
     (''IotController::resolveAlert'', ''/api/v1/iot/alerts/{1}/resolve'', ''PUT''),
     (''IotController::dismissAlert'', ''/api/v1/iot/alerts/{1}/dismiss'', ''PUT''),
     (''IotController::listTasks'', ''/api/v1/iot/tasks'', ''GET''),
     (''IotController::createTask'', ''/api/v1/iot/tasks'', ''POST''),
     (''IotController::updateTask'', ''/api/v1/iot/tasks/{1}'', ''PUT''),
     (''IotController::deleteTask'', ''/api/v1/iot/tasks/{1}'', ''DELETE''),
     (''IotController::toggleTask'', ''/api/v1/iot/tasks/{1}/toggle'', ''PUT'')]"

definition iot_listDevices :: "iot_env \<Rightarrow> api_request \<Rightarrow> iot \<Rightarrow> device_view page_result response" where
  "iot_listDevices e r s = okCb (listDevices e (paramInt r ''page'' 1) (paramInt r ''page_size'' 20) (paramStr r ''keyword'')
      (paramInt r ''status'' (- 1)) (paramInt64 r ''line_id'' 0) s)"

definition iot_getDevice :: "iot_env \<Rightarrow> api_request \<Rightarrow> int \<Rightarrow> iot \<Rightarrow> (device_view \<times> sensor list) response" where
  "iot_getDevice e r i s = foundCb (getDevice e i s)"

definition iot_createDevice :: "iot_env \<Rightarrow> (string \<Rightarrow> json option) \<Rightarrow> api_request \<Rightarrow> iot \<Rightarrow> json response \<times> iot" where
  "iot_createDevice e parse r = with_body parse r (\<lambda>b s. ok_state (createDevice e b s))"

definition iot_updateDevice :: "iot_env \<Rightarrow> (string \<Rightarrow> json option) \<Rightarrow> api_request \<Rightarrow> int \<Rightarrow> iot \<Rightarrow> json response \<times> iot" where
  "iot_updateDevice e parse r i = with_body parse r (\<lambda>b s. not_null_state (updateDevice e i b s))"

definition iot_deleteDevice :: "iot_env \<Rightarrow> api_request \<Rightarrow> int \<Rightarrow> iot \<Rightarrow> json response \<times> iot" where
  "iot_deleteDevice e r i s = not_null_state (deleteDevice e i s)"

definition iot_deviceStatus :: "iot_env \<Rightarrow> api_request \<Rightarrow> int \<Rightarrow> iot \<Rightarrow> device_state response" where
  "iot_deviceStatus e r i s = foundCb (deviceStatus e i s)"

definition iot_sendCommand :: "iot_env \<Rightarrow> (string \<Rightarrow> json option) \<Rightarrow> api_request \<Rightarrow> int \<Rightarrow> iot \<Rightarrow> json response \<times> iot" where
  "iot_sendCommand e parse r i = with_body parse r (\<lambda>b s. not_null_state (sendCommand e i b s))"

definition iot_listSensors :: "iot_env \<Rightarrow> api_request \<Rightarrow> int \<Rightarrow> iot \<Rightarrow> sensor list response" where
  "iot_listSensors e r i s = okCb (listSensors e i s)"

definition iot_addSensor :: "iot_env \<Rightarrow> (string \<Rightarrow> json option) \<Rightarrow> api_request \<Rightarrow> int \<Rightarrow> iot \<Rightarrow> json response \<times> iot" where
  "iot_addSensor e parse r i = with_body parse r (\<lambda>b s. ok_state (addSensor e i b s))"

definition iot_realtimeData :: "iot_env \<Rightarrow> api_request \<Rightarrow> int \<Rightarrow> iot \<Rightarrow> raw_row list response" where
  "iot_realtimeData e r i s = okCb (realtimeData e i s)"

definition iot_sensorHistory :: "iot_env \<Rightarrow> api_request \<Rightarrow> int \<Rightarrow> iot \<Rightarrow> history response" where
  "iot_sensorHistory e r i s = foundCb (sensorHistory e i (paramStr r ''start_time'') (paramStr r ''end_time'')
      (if paramStr r ''interval'' = [] then ''5m'' else paramStr r ''interval'') (paramStr r ''agg'') s)"

definition iot_listAlerts :: "iot_env \<Rightarrow> api_request \<Rightarrow> iot \<Rightarrow> (alert_row \<times> string) page_result response" where
  "iot_listAlerts e r s = okCb (listAlerts e (paramInt r ''page'' 1) (paramInt r ''page_size'' 20) (paramInt r ''status'' (- 1))
      (paramInt r ''level'' 0) (paramInt64 r ''device_id'' 0) s)"

definition iot_ackAlert :: "iot_env \<Rightarrow> api_request \<Rightarrow> int \<Rightarrow> iot \<Rightarrow> json response \<times> iot" where
  "iot_ackAlert e r i s = not_null_state (acknowledgeAlert e i (caller r) s)"

definition iot_resolveAlert :: "iot_env \<Rightarrow> api_request \<Rightarrow> int \<Rightarrow> iot \<Rightarrow> json response \<times> iot" where
  "iot_resolveAlert e r i s = not_null_state (resolveAlert e i (caller r) s)"

definition iot_dismissAlert :: "iot_env \<Rightarrow> api_request \<Rightarrow> int \<Rightarrow> iot \<Rightarrow> json response \<times> iot" where
  "iot_dismissAlert e r i s = not_null_state (dismissAlert e i (caller r) s)"

definition iot_updateSensor :: "iot_env \<Rightarrow> (string \<Rightarrow> json option) \<Rightarrow> api_request \<Rightarrow> int \<Rightarrow> iot \<Rightarrow> json response \<times> iot" where
  "iot_updateSensor e parse r i = with_body parse r (\<lambda>b s. not_null_state (updateSensor e i b s))"

definition iot_deleteSensor :: "iot_env \<Rightarrow> api_request \<Rightarrow> int \<Rightarrow> iot \<Rightarrow> json response \<times> iot" where
  "iot_deleteSensor e r i s = not_null_state (deleteSensor e i s)"

definition iot_listTasks :: "iot_env \<Rightarrow> api_request \<Rightarrow> iot \<Rightarrow> (task \<times> int list) page_result response" where
  "iot_listTasks e r s = okCb (listTasks e (paramInt r ''page'' 1) (paramInt r ''page_size'' 20) s)"

definition iot_createTask :: "iot_env \<Rightarrow> (string \<Rightarrow> json option) \<Rightarrow> api_request \<Rightarrow> iot \<Rightarrow> json response \<times> iot" where
  "iot_createTask e parse r = with_body parse r (\<lambda>b s. ok_state (createTask e b s))"

definition iot_updateTask :: "iot_env \<Rightarrow> (string \<Rightarrow> json option) \<Rightarrow> api_request \<Rightarrow> int \<Rightarrow> iot \<Rightarrow> json response \<times> iot" where
  "iot_updateTask e parse r i = with_body parse r (\<lambda>b s. not_null_state (updateTask e i b s))"

definition iot_deleteTask :: "iot_env \<Rightarrow> api_request \<Rightarrow> int \<Rightarrow> iot \<Rightarrow> json response \<times> iot" where
  "iot_deleteTask e r i s = not_null_state (deleteTask e i s)"

definition iot_toggleTask :: "iot_env \<Rightarrow> (string \<Rightarrow> json option) \<Rightarrow> api_request \<Rightarrow> int \<Rightarrow> iot \<Rightarrow> json response \<times> iot" where
  "iot_toggleTask e parse r i s =
    (case member ''enabled'' (bodyJson parse r) of
       None \<Rightarrow> (RespondError 400 ''enabled is required'', s)
     | Some (JBool b) \<Rightarrow> not_null_state (toggleTask e i b s)
     | Some _ \<Rightarrow> (Escaped, s))"

section \<open>Quality\<close>

definition quality_routes :: "(string \<times> string \<times> string) list" where
  "quality_routes =
    [(''QualityController::listStandards'', ''/api/v1/quality/standards'', ''GET''),
     (''QualityController::createInspection'', ''/api/v1/quality/inspections'', ''POST''),
     (''QualityController::listInspections'', ''/api/v1/quality/inspections'', ''GET''),
     (''QualityController::getInspection'', ''/api/v1/quality/inspections/{1}'', ''GET''),
     (''QualityController::listDefects'', ''/api/v1/quality/defects'', ''GET''),
     (''QualityController::handleDefect'', ''/api/v1/quality/defects/{1}/disposition'', ''PUT''),
     (''QualityController::statistics'', ''/api/v1/quality/statistics'', ''GET'')]"

definition qc_listStandards :: "qc_env \<Rightarrow> api_request \<Rightarrow> quality \<Rightarrow> standard_view page_result response" where
  "qc_listStandards e r s = okCb (listStandards e (paramInt r ''page'' 1) (paramInt r ''page_size'' 20) (paramStr r ''keyword'')
      (paramInt64 r ''product_id'' 0) s)"

definition qc_createInspection :: "qc_env \<Rightarrow> (string \<Rightarrow> json option) \<Rightarrow> api_request \<Rightarrow> quality \<Rightarrow> json response \<times> quality" where
  "qc_createInspection e parse r = with_body parse r (\<lambda>b s. ok_state (createInspection e b (caller r) s))"

definition qc_listInspections :: "qc_env \<Rightarrow> api_request \<Rightarrow> quality \<Rightarrow> inspection_view page_result response" where
  "qc_listInspections e r s = okCb (listInspections e (paramInt r ''page'' 1) (paramInt r ''page_size'' 20) (paramInt64 r ''work_order_id'' 0)
      (paramInt r ''result'' (- 1)) s)"

definition qc_getInspection :: "qc_env \<Rightarrow> api_request \<Rightarrow> int \<Rightarrow> quality \<Rightarrow> (inspection \<times> defect list) response" where
  "qc_getInspection e r i s = foundCb (getInspection e i s)"

definition qc_listDefects :: "qc_env \<Rightarrow> api_request \<Rightarrow> quality \<Rightarrow> defect page_result response" where
  "qc_listDefects e r s = okCb (listDefects e (paramInt r ''page'' 1) (paramInt r ''page_size'' 20) (paramInt64 r ''work_order_id'' 0)
      (paramInt r ''disposition'' (- 1)) (paramStr r ''category'') s)"

definition qc_handleDefect :: "qc_env \<Rightarrow> (string \<Rightarrow> json option) \<Rightarrow> api_request \<Rightarrow> int \<Rightarrow> quality \<Rightarrow> json response \<times> quality" where
  "qc_handleDefect e parse r i = with_body parse r (\<lambda>b s. not_null_state (handleDefect e i b (caller r) s))"

definition qc_statistics :: "qc_env \<Rightarrow> api_request \<Rightarrow> quality \<Rightarrow> statistics_data response" where
  "qc_statistics e r s = okCb (statistics e (paramStr r ''start_date'') (paramStr r ''end_date'') s)"

end
