(* ===== verification/Api_System.thy ===== *)
theory Api_System
  imports Api_Common Org_Roles Metrics_Registry
begin

text \<open>
  The handlers of users, roles, departments, the audit trail and the configuration (\<open>controllers/UserController.cc\<close>,
  \<open>RoleController.cc\<close>, \<open>DeptController.cc\<close>), of authentication (\<open>AuthController.cc\<close>) and the two probes, with the
  routes they are registered for. The response of the metrics is plain text.
\<close>

section \<open>Users\<close>

definition user_routes :: "(string \<times> string \<times> string) list" where
  "user_routes =
    [(''UserController::list'', ''/api/v1/system/users'', ''GET''),
     (''UserController::create'', ''/api/v1/system/users'', ''POST''),
     (''UserController::get'', ''/api/v1/system/users/{id}'', ''GET''),
     (''UserController::update'', ''/api/v1/system/users/{id}'', ''PUT''),
     (''UserController::remove'', ''/api/v1/system/users/{id}'', ''DELETE''),
     (''UserController::resetPassword'', ''/api/v1/system/users/{id}/reset-password'', ''PUT''),
     (''UserController::setStatus'', ''/api/v1/system/users/{id}/status'', ''PUT''),
     (''UserController::assignRoles'', ''/api/v1/system/users/{id}/roles'', ''PUT'')]"

definition user_list :: "org_env \<Rightarrow> api_request \<Rightarrow> auth \<Rightarrow> user_view page_result response" where
  "user_list e r s = okCb (listUsers e (paramInt r ''page'' 1) (paramInt r ''page_size'' 20) (paramStr r ''keyword'')
      (paramInt r ''status'' (- 1)) s)"

definition user_get :: "org_env \<Rightarrow> api_request \<Rightarrow> int \<Rightarrow> auth \<Rightarrow> (user_view \<times> int list option) response" where
  "user_get e r i s = foundCb (getUser e i s)"

definition user_create :: "crypto \<Rightarrow> org_env \<Rightarrow> (string \<Rightarrow> json option) \<Rightarrow> api_request \<Rightarrow> auth \<Rightarrow> json response \<times> auth" where
  "user_create C e parse r = with_body parse r (\<lambda>b s. ok_state (createUser C e b s))"

definition user_update :: "org_env \<Rightarrow> (string \<Rightarrow> json option) \<Rightarrow> api_request \<Rightarrow> int \<Rightarrow> auth \<Rightarrow> json response \<times> auth" where
  "user_update e parse r i = with_body parse r (\<lambda>b s. ok_state (updateUser e i b s))"

definition user_remove :: "org_env \<Rightarrow> api_request \<Rightarrow> int \<Rightarrow> auth \<Rightarrow> json response \<times> auth" where
  "user_remove e r i s = not_null_state (deleteUser e i s)"

definition user_resetPassword :: "crypto \<Rightarrow> org_env \<Rightarrow> (string \<Rightarrow> json option) \<Rightarrow> api_request \<Rightarrow> int \<Rightarrow> auth \<Rightarrow> json response \<times> auth" where
  "user_resetPassword C e parse r i s = not_null_state (resetPassword_handler C e i (bodyJson parse r) s)"

definition user_setStatus :: "org_env \<Rightarrow> (string \<Rightarrow> json option) \<Rightarrow> api_request \<Rightarrow> int \<Rightarrow> auth \<Rightarrow> json response \<times> auth" where
  "user_setStatus e parse r i s =
    (case member ''status'' (bodyJson parse r) of
       None \<Rightarrow> (RespondError 400 ''status is required'', s)
     | Some v \<Rightarrow>
         (case int32_item v of
            None \<Rightarrow> (Escaped, s)
          | Some st \<Rightarrow> not_null_state (setUserStatus e i st s)))"

definition user_assignRoles :: "org_env \<Rightarrow> (string \<Rightarrow> json option) \<Rightarrow> api_request \<Rightarrow> int \<Rightarrow> auth \<Rightarrow> json response \<times> auth" where
  "user_assignRoles e parse r i s =
    (case member ''role_ids'' (bodyJson parse r) of
       Some (JArr xs) \<Rightarrow>
         (case all_items int_item xs of
            None \<Rightarrow> (Escaped, s)
          | Some ids \<Rightarrow> ok_state (assignRoles e i ids s))
     | _ \<Rightarrow> (RespondError 400 ''role_ids must be an array'', s))"

section \<open>Roles\<close>

definition role_routes :: "(string \<times> string \<times> string) list" where
  "role_routes =
    [(''RoleController::list'', ''/api/v1/system/roles'', ''GET''),
     (''RoleController::create'', ''/api/v1/system/roles'', ''POST''),
     (''RoleController::get'', ''/api/v1/system/roles/{id}'', ''GET''),
     (''RoleController::update'', ''/api/v1/system/roles/{id}'', ''PUT''),
     (''RoleController::remove'', ''/api/v1/system/roles/{id}'', ''DELETE''),
     (''RoleController::assignPermissions'', ''/api/v1/system/roles/{id}/permissions'', ''PUT''),
     (''RoleController::updateDataScope'', ''/api/v1/system/roles/{id}/data-scope'', ''PUT''),
     (''RoleController::permTree'', ''/api/v1/system/permissions/tree'', ''GET'')]"

definition role_list :: "org_env \<Rightarrow> api_request \<Rightarrow> auth \<Rightarrow> role_row list response" where
  "role_list e r s = okCb (listRoles e s)"

definition role_get :: "org_env \<Rightarrow> api_request \<Rightarrow> int \<Rightarrow> auth \<Rightarrow> (role_row \<times> int list option) response" where
  "role_get e r i s = foundCb (getRole e i s)"

definition role_create :: "org_env \<Rightarrow> (string \<Rightarrow> json option) \<Rightarrow> api_request \<Rightarrow> auth \<Rightarrow> json response \<times> auth" where
  "role_create e parse r = with_body parse r (\<lambda>b s. ok_state (createRole e b s))"

definition role_update :: "org_env \<Rightarrow> (string \<Rightarrow> json option) \<Rightarrow> api_request \<Rightarrow> int \<Rightarrow> auth \<Rightarrow> json response \<times> auth" where
  "role_update e parse r i = with_body parse r (\<lambda>b s. ok_state (updateRole e i b s))"

definition role_remove :: "org_env \<Rightarrow> api_request \<Rightarrow> int \<Rightarrow> auth \<Rightarrow> json response \<times> auth" where
  "role_remove e r i s = not_null_state (deleteRole e i s)"

definition role_assignPermissions :: "org_env \<Rightarrow> (string \<Rightarrow> json option) \<Rightarrow> api_request \<Rightarrow> int \<Rightarrow> auth \<Rightarrow> json response \<times> auth" where
  "role_assignPermissions e parse r i s =
    (case member ''permission_ids'' (bodyJson parse r) of
       Some (JArr xs) \<Rightarrow>
         (case all_items int_item xs of
            None \<Rightarrow> (Escaped, s)
          | Some ids \<Rightarrow> ok_state (assignPermissions e i ids s))
     | _ \<Rightarrow> (RespondError 400 ''permission_ids must be an array'', s))"

definition role_updateDataScope :: "org_env \<Rightarrow> (string \<Rightarrow> json option) \<Rightarrow> api_request \<Rightarrow> int \<Rightarrow> auth \<Rightarrow> json response \<times> auth" where
  "role_updateDataScope e parse r i s =
    (let b = bodyJson parse r in
     case member ''data_scope'' b of
       None \<Rightarrow> (RespondError 400 ''data_scope is required'', s)
     | Some v \<Rightarrow>
         (case ((case member ''dept_ids'' b of Some (JArr xs) \<Rightarrow> all_items int_item xs | _ \<Rightarrow> Some []), int32_item v) of
            (Some ids, Some scope) \<Rightarrow> ok_state (updateDataScope e i scope ids s)
          | _ \<Rightarrow> (Escaped, s)))"

definition role_permTree :: "org_env \<Rightarrow> api_request \<Rightarrow> auth \<Rightarrow> perm_row node list response" where
  "role_permTree e r s = okCb (permissionTree (oe_db e) s)"

section \<open>Departments, audit trail, configuration\<close>

definition dept_routes :: "(string \<times> string \<times> string) list" where
  "dept_routes =
    [(''DeptController::tree'', ''/api/v1/system/departments/tree'', ''GET''),
     (''DeptController::create'', ''/api/v1/system/departments'', ''POST''),
     (''DeptController::update'', ''/api/v1/system/departments/{id}'', ''PUT''),
     (''DeptController::remove'', ''/api/v1/system/departments/{id}'', ''DELETE'')]"

definition dept_tree_h :: "org_env \<Rightarrow> api_request \<Rightarrow> auth \<Rightarrow> department node list response" where
  "dept_tree_h e r s = okCb (deptTree (oe_db e) s)"

definition dept_create :: "org_env \<Rightarrow> (string \<Rightarrow> json option) \<Rightarrow> api_request \<Rightarrow> auth \<Rightarrow> json response \<times> auth" where
  "dept_create e parse r = with_body parse r (\<lambda>b s. ok_state (createDept e b s))"

definition dept_update :: "org_env \<Rightarrow> (string \<Rightarrow> json option) \<Rightarrow> api_request \<Rightarrow> int \<Rightarrow> auth \<Rightarrow> json response \<times> auth" where
  "dept_update e parse r i = with_body parse r (\<lambda>b s. ok_state (updateDept e i b s))"

definition dept_remove :: "org_env \<Rightarrow> api_request \<Rightarrow> int \<Rightarrow> auth \<Rightarrow> json response \<times> auth" where
  "dept_remove e r i s = not_null_state (deleteDept e i s)"

definition audit_routes :: "(string \<times> string \<times> string) list" where
  "audit_routes =
    [(''AuditLogController::list'', ''/api/v1/system/audit-logs'', ''GET''),
     (''AuditLogController::get'', ''/api/v1/system/audit-logs/{id}'', ''GET'')]"

definition log_filter_of :: "api_request \<Rightarrow> log_filter" where
  "log_filter_of r = \<lparr>lf_user = paramInt64 r ''user_id'' 0, lf_module = paramStr r ''module'', lf_operation = paramStr r ''operation'',
     lf_code = paramInt r ''response_code'' (- 1), lf_ip = paramStr r ''ip'', lf_start = paramStr r ''start_time'',
     lf_end = paramStr r ''end_time''\<rparr>"

definition audit_list :: "(string \<Rightarrow> int option) \<Rightarrow> org_env \<Rightarrow> api_request \<Rightarrow> org \<Rightarrow> log_row page_result response" where
  "audit_list ts e r g = okCb (listAuditLogs ts e (paramInt r ''page'' 1) (paramInt r ''page_size'' 20) (log_filter_of r) g)"

definition audit_get :: "org_env \<Rightarrow> api_request \<Rightarrow> int \<Rightarrow> org \<Rightarrow> log_row response" where
  "audit_get e r i s = foundCb (getAuditLog e i s)"

definition config_routes :: "(string \<times> string \<times> string) list" where
  "config_routes =
    [(''ConfigController::list'', ''/api/v1/system/configs'', ''GET''),
     (''ConfigController::update'', ''/api/v1/system/configs/{key}'', ''PUT'')]"

definition config_list :: "org_env \<Rightarrow> api_request \<Rightarrow> org \<Rightarrow> config_row list response" where
  "config_list e r s = okCb (listConfigs e s)"

definition config_update :: "org_env \<Rightarrow> (string \<Rightarrow> json option) \<Rightarrow> api_request \<Rightarrow> string \<Rightarrow> org \<Rightarrow> json response \<times> org" where
  "config_update e parse r key g =
    (case member ''config_value'' (bodyJson parse r) of
       None \<Rightarrow> (RespondError 400 ''config_value is required'', g)
     | Some (JStr v) \<Rightarrow> not_null_state (updateConfig e key v g)
     | Some _ \<Rightarrow> (Escaped, g))"

section \<open>Authentication\<close>

definition auth_routes :: "(string \<times> string \<times> string) list" where
  "auth_routes =
    [(''AuthController::login'', ''/api/v1/auth/login'', ''POST''),
     (''AuthController::captcha'', ''/api/v1/auth/captcha'', ''GET''),
     (''AuthController::refresh'', ''/api/v1/auth/refresh'', ''POST''),
     (''AuthController::logout'', ''/api/v1/auth/logout'', ''POST''),
     (''AuthController::profile'', ''/api/v1/auth/profile'', ''GET''),
     (''AuthController::changePassword'', ''/api/v1/auth/password'', ''PUT'')]"

definition auth_login :: "jwt_env \<Rightarrow> crypto \<Rightarrow> auth_env \<Rightarrow> (string \<Rightarrow> json option) \<Rightarrow> api_request \<Rightarrow> auth \<Rightarrow> login_data response \<times> auth" where
  "auth_login J C e parse r = with_body parse r (\<lambda>b s. ok_state (login J C e b s))"

definition auth_captcha :: "auth_env \<Rightarrow> auth \<Rightarrow> string response \<times> auth" where
  "auth_captcha e s = ok_state (captcha e s)"

definition auth_refresh :: "jwt_env \<Rightarrow> auth_env \<Rightarrow> (string \<Rightarrow> json option) \<Rightarrow> api_request \<Rightarrow> auth \<Rightarrow> login_data response \<times> auth" where
  "auth_refresh J e parse r = with_body parse r (\<lambda>b s. ok_state (refresh J e b s))"

definition auth_logout :: "auth_env \<Rightarrow> api_request \<Rightarrow> auth \<Rightarrow> json response \<times> auth" where
  "auth_logout e r s =
    (let sid = (case ar_user r of None \<Rightarrow> [] | Some p \<Rightarrow> tp_session p) in
     if sid = [] then (RespondError 401 ''no such session'', s) else ok_state (logout e sid (7 * 24 * 3600) s))"

definition auth_profile :: "auth_env \<Rightarrow> api_request \<Rightarrow> auth \<Rightarrow> profile_data response \<times> auth" where
  "auth_profile e r s = ok_state (profile e (caller r) s)"

definition auth_changePassword :: "crypto \<Rightarrow> auth_env \<Rightarrow> (string \<Rightarrow> json option) \<Rightarrow> api_request \<Rightarrow> auth \<Rightarrow> json response \<times> auth" where
  "auth_changePassword C e parse r = with_body parse r (\<lambda>b s. ok_state (changePassword C e (caller r) b s))"

section \<open>Probes\<close>

definition health_routes :: "(string \<times> string \<times> string) list" where
  "health_routes =
    [(''HealthController::check'', ''/healthz'', ''GET'')]"

definition health_check :: "json response" where
  "health_check = Respond (JObj [(''status'', JStr ''ok''), (''service'', JStr ''mes-backend'')])"

definition metrics_routes :: "(string \<times> string \<times> string) list" where
  "metrics_routes =
    [(''MetricsController::render'', ''/metrics'', ''GET'')]"

definition metrics_render :: "(rat \<Rightarrow> string) \<Rightarrow> registry \<Rightarrow> string" where
  "metrics_render txt m = render txt m"

end
