(* ===== verification/Api_Production.thy ===== *)
theory Api_Production
  imports Api_Common Integration
begin

text \<open>
  The handlers of work orders, master data, plans and integration (\<open>controllers/WorkOrderController.cc\<close>,
  \<open>ProductionController.cc\<close>, \<open>IntegrationController.cc\<close>), with the routes they are registered for. They are
  coroutines: a fault of the service becomes a response in the handler.
\<close>

section \<open>Work orders\<close>

definition work_order_routes :: "(string \<times> string \<times> string) list" where
  "work_order_routes =
    [(''WorkOrderController::list'', ''/api/v1/production/work-orders'', ''GET''),
     (''WorkOrderController::create'', ''/api/v1/production/work-orders'', ''POST''),
     (''WorkOrderController::detail'', ''/api/v1/production/work-orders/{1}'', ''GET''),
     (''WorkOrderController::update'', ''/api/v1/production/work-orders/{1}'', ''PUT''),
     (''WorkOrderController::schedule'', ''/api/v1/production/work-orders/{1}/schedule'', ''PUT''),
     (''WorkOrderController::release'', ''/api/v1/production/work-orders/{1}/release'', ''PUT''),
     (''WorkOrderController::start'', ''/api/v1/production/work-orders/{1}/start'', ''PUT''),
     (''WorkOrderController::pause'', ''/api/v1/production/work-orders/{1}/pause'', ''PUT''),
     (''WorkOrderController::complete'', ''/api/v1/production/work-orders/{1}/complete'', ''PUT''),
     (''WorkOrderController::close'', ''/api/v1/production/work-orders/{1}/close'', ''PUT''),
     (''WorkOrderController::cancel'', ''/api/v1/production/work-orders/{1}/cancel'', ''PUT''),
     (''WorkOrderController::report'', ''/api/v1/production/work-orders/{1}/report'', ''POST'')]"

text \<open>The fields the service reads from the body; \<open>contains\<close> is false on anything but an object.\<close>

definition create_body_of :: "json \<Rightarrow> create_body" where
  "create_body_of j = \<lparr>cb_product = jlong ''product_id'' j, cb_plan = jint32 ''plan_qty'' j, cb_process = jlong ''process_id'' j,
     cb_line = jlong ''line_id'' j, cb_priority = jint32 ''priority'' j, cb_remark = jstr ''remark'' j\<rparr>"

definition if_there :: "json \<Rightarrow> 'a field \<Rightarrow> 'a field" where
  "if_there j f = (case j of JObj kvs \<Rightarrow> f | _ \<Rightarrow> Absent)"

definition update_body_of :: "json \<Rightarrow> update_body" where
  "update_body_of j = \<lparr>ub_plan = if_there j (jint32 ''plan_qty'' j), ub_priority = if_there j (jint32 ''priority'' j),
     ub_line = if_there j (jlong ''line_id'' j)\<rparr>"

definition report_body_of :: "json \<Rightarrow> report_body" where
  "report_body_of j = \<lparr>rb_step = jint32 ''step_seq'' j, rb_good = jint32 ''good_qty'' j, rb_defect = jint32 ''defect_qty'' j,
     rb_scrap = jint32 ''scrap_qty'' j\<rparr>"

definition order_list :: "api_request \<Rightarrow> wo_db \<Rightarrow> wo_page response" where
  "order_list r db = respond (list_orders (paramInt r ''page'' 1) (paramInt r ''page_size'' 20) (paramInt r ''status'' (- 1))
      (paramInt64 r ''line_id'' 0) (userCtxOf r) db)"

definition order_detail :: "api_request \<Rightarrow> int \<Rightarrow> wo_db \<Rightarrow> (json \<times> json list) response" where
  "order_detail r i db = respond (detail i (userCtxOf r) db)"

definition order_create :: "(wo_db \<Rightarrow> wo_db \<Rightarrow> wo_db) \<Rightarrow> wo_env \<Rightarrow> (string \<Rightarrow> json option) \<Rightarrow> api_request \<Rightarrow> wo_db \<Rightarrow> (int \<times> string) response \<times> wo_db" where
  "order_create ab e parse r = with_body parse r (\<lambda>b db. respond_state (create ab e (userCtxOf r) (create_body_of b) db))"

definition order_update :: "(wo_db \<Rightarrow> wo_db \<Rightarrow> wo_db) \<Rightarrow> wo_env \<Rightarrow> (string \<Rightarrow> json option) \<Rightarrow> api_request \<Rightarrow> int \<Rightarrow> wo_db \<Rightarrow> int response \<times> wo_db" where
  "order_update ab e parse r i = with_body parse r (\<lambda>b db. respond_state (update ab e i (update_body_of b) db))"

definition order_report :: "(wo_db \<Rightarrow> wo_db \<Rightarrow> wo_db) \<Rightarrow> wo_env \<Rightarrow> (string \<Rightarrow> json option) \<Rightarrow> api_request \<Rightarrow> int \<Rightarrow> wo_db \<Rightarrow> (quantities \<times> bool) response \<times> wo_db" where
  "order_report ab e parse r i = with_body parse r (\<lambda>b db. respond_state (report ab e (userCtxOf r) i (report_body_of b) db))"

definition transitImpl :: "(wo_db \<Rightarrow> wo_db \<Rightarrow> wo_db) \<Rightarrow> wo_env \<Rightarrow> api_request \<Rightarrow> int \<Rightarrow> string \<Rightarrow> wo_db \<Rightarrow> int response \<times> wo_db" where
  "transitImpl ab e r i action db = respond_state (transit ab e i action db)"

definition order_schedule :: "(wo_db \<Rightarrow> wo_db \<Rightarrow> wo_db) \<Rightarrow> wo_env \<Rightarrow> api_request \<Rightarrow> int \<Rightarrow> wo_db \<Rightarrow> int response \<times> wo_db" where
  "order_schedule ab e r i = transitImpl ab e r i ''schedule''"

definition order_release :: "(wo_db \<Rightarrow> wo_db \<Rightarrow> wo_db) \<Rightarrow> wo_env \<Rightarrow> api_request \<Rightarrow> int \<Rightarrow> wo_db \<Rightarrow> int response \<times> wo_db" where
  "order_release ab e r i = transitImpl ab e r i ''release''"

definition order_start :: "(wo_db \<Rightarrow> wo_db \<Rightarrow> wo_db) \<Rightarrow> wo_env \<Rightarrow> api_request \<Rightarrow> int \<Rightarrow> wo_db \<Rightarrow> int response \<times> wo_db" where
  "order_start ab e r i = transitImpl ab e r i ''start''"

definition order_pause :: "(wo_db \<Rightarrow> wo_db \<Rightarrow> wo_db) \<Rightarrow> wo_env \<Rightarrow> api_request \<Rightarrow> int \<Rightarrow> wo_db \<Rightarrow> int response \<times> wo_db" where
  "order_pause ab e r i = transitImpl ab e r i ''pause''"

definition order_complete :: "(wo_db \<Rightarrow> wo_db \<Rightarrow> wo_db) \<Rightarrow> wo_env \<Rightarrow> api_request \<Rightarrow> int \<Rightarrow> wo_db \<Rightarrow> int response \<times> wo_db" where
  "order_complete ab e r i = transitImpl ab e r i ''complete''"

definition order_close :: "(wo_db \<Rightarrow> wo_db \<Rightarrow> wo_db) \<Rightarrow> wo_env \<Rightarrow> api_request \<Rightarrow> int \<Rightarrow> wo_db \<Rightarrow> int response \<times> wo_db" where
  "order_close ab e r i = transitImpl ab e r i ''close''"

definition order_cancel :: "(wo_db \<Rightarrow> wo_db \<Rightarrow> wo_db) \<Rightarrow> wo_env \<Rightarrow> api_request \<Rightarrow> int \<Rightarrow> wo_db \<Rightarrow> int response \<times> wo_db" where
  "order_cancel ab e r i = transitImpl ab e r i ''cancel''"

section \<open>Master data and plans\<close>

definition production_routes :: "(string \<times> string \<times> string) list" where
  "production_routes =
    [(''ProductionController::lines'', ''/api/v1/production/lines'', ''GET''),
     (''ProductionController::createLine'', ''/api/v1/production/lines'', ''POST''),
     (''ProductionController::updateLine'', ''/api/v1/production/lines/{1}'', ''PUT''),
     (''ProductionController::deleteLine'', ''/api/v1/production/lines/{1}'', ''DELETE''),
     (''ProductionController::stations'', ''/api/v1/production/lines/{1}/stations'', ''GET''),
     (''ProductionController::processes'', ''/api/v1/production/processes'', ''GET''),
     (''ProductionController::createProcess'', ''/api/v1/production/processes'', ''POST''),
     (''ProductionController::updateProcess'', ''/api/v1/production/processes/{1}'', ''PUT''),
     (''ProductionController::deleteProcess'', ''/api/v1/production/processes/{1}'', ''DELETE''),
     (''ProductionController::products'', ''/api/v1/production/products'', ''GET''),
     (''ProductionController::createProduct'', ''/api/v1/production/products'', ''POST''),
     (''ProductionController::updateProduct'', ''/api/v1/production/products/{1}'', ''PUT''),
     (''ProductionController::deleteProduct'', ''/api/v1/production/products/{1}'', ''DELETE''),
     (''ProductionController::plans'', ''/api/v1/production/plans'', ''GET''),
     (''ProductionController::createPlan'', ''/api/v1/production/plans'', ''POST'')]"

definition prod_lines :: "prod_env \<Rightarrow> api_request \<Rightarrow> production \<Rightarrow> json page_result response" where
  "prod_lines e r s = respond (listLines e (paramInt r ''page'' 1) (paramInt r ''page_size'' 20) (paramStr r ''keyword'') s)"

definition prod_createLine :: "prod_env \<Rightarrow> (string \<Rightarrow> json option) \<Rightarrow> api_request \<Rightarrow> production \<Rightarrow> json response \<times> production" where
  "prod_createLine e parse r = with_body parse r (\<lambda>b s. respond_state (createLine e b s))"

definition prod_updateLine :: "prod_env \<Rightarrow> (string \<Rightarrow> json option) \<Rightarrow> api_request \<Rightarrow> int \<Rightarrow> production \<Rightarrow> json response \<times> production" where
  "prod_updateLine e parse r i = with_body parse r (\<lambda>b s. respond_state (updateLine e i b s))"

definition prod_deleteLine :: "prod_env \<Rightarrow> api_request \<Rightarrow> int \<Rightarrow> production \<Rightarrow> json response \<times> production" where
  "prod_deleteLine e r i s = respond_state (deleteLine e i s)"

definition prod_stations :: "prod_env \<Rightarrow> api_request \<Rightarrow> int \<Rightarrow> production \<Rightarrow> json list response" where
  "prod_stations e r i s = respond (listStations e i s)"

definition prod_processes :: "prod_env \<Rightarrow> api_request \<Rightarrow> production \<Rightarrow> json page_result response" where
  "prod_processes e r s = respond (listProcesses e (paramInt r ''page'' 1) (paramInt r ''page_size'' 20) (paramStr r ''keyword'') s)"

definition prod_createProcess :: "prod_env \<Rightarrow> (string \<Rightarrow> json option) \<Rightarrow> api_request \<Rightarrow> production \<Rightarrow> json response \<times> production" where
  "prod_createProcess e parse r = with_body parse r (\<lambda>b s. respond_state (createProcess e b (caller r) s))"

definition prod_updateProcess :: "prod_env \<Rightarrow> (string \<Rightarrow> json option) \<Rightarrow> api_request \<Rightarrow> int \<Rightarrow> production \<Rightarrow> json response \<times> production" where
  "prod_updateProcess e parse r i = with_body parse r (\<lambda>b s. respond_state (updateProcess e i b s))"

definition prod_deleteProcess :: "prod_env \<Rightarrow> api_request \<Rightarrow> int \<Rightarrow> production \<Rightarrow> json response \<times> production" where
  "prod_deleteProcess e r i s = respond_state (deleteProcess e i s)"

definition prod_products :: "prod_env \<Rightarrow> api_request \<Rightarrow> production \<Rightarrow> json page_result response" where
  "prod_products e r s = respond (listProducts e (paramInt r ''page'' 1) (paramInt r ''page_size'' 20) (paramStr r ''keyword'') s)"

definition prod_createProduct :: "prod_env \<Rightarrow> (string \<Rightarrow> json option) \<Rightarrow> api_request \<Rightarrow> production \<Rightarrow> json response \<times> production" where
  "prod_createProduct e parse r = with_body parse r (\<lambda>b s. respond_state (createProduct e b s))"

definition prod_updateProduct :: "prod_env \<Rightarrow> (string \<Rightarrow> json option) \<Rightarrow> api_request \<Rightarrow> int \<Rightarrow> production \<Rightarrow> json response \<times> production" where
  "prod_updateProduct e parse r i = with_body parse r (\<lambda>b s. respond_state (updateProduct e i b s))"

definition prod_deleteProduct :: "prod_env \<Rightarrow> api_request \<Rightarrow> int \<Rightarrow> production \<Rightarrow> json response \<times> production" where
  "prod_deleteProduct e r i s = respond_state (deleteProduct e i s)"

definition prod_plans :: "prod_env \<Rightarrow> api_request \<Rightarrow> production \<Rightarrow> json page_result response" where
  "prod_plans e r s = respond (listPlans e (paramInt r ''page'' 1) (paramInt r ''page_size'' 20) s)"

definition prod_createPlan :: "prod_env \<Rightarrow> (string \<Rightarrow> json option) \<Rightarrow> api_request \<Rightarrow> production \<Rightarrow> json response \<times> production" where
  "prod_createPlan e parse r = with_body parse r (\<lambda>b s. respond_state (createPlan e b (caller r) s))"

section \<open>Integration\<close>

definition integration_routes :: "(string \<times> string \<times> string) list" where
  "integration_routes =
    [(''IntegrationController::syncOrders'', ''/api/v1/integration/erp/sync-orders'', ''POST''),
     (''IntegrationController::convertOrder'', ''/api/v1/integration/erp/{1}/convert'', ''POST''),
     (''IntegrationController::reportErp'', ''/api/v1/integration/erp/report'', ''POST''),
     (''IntegrationController::pickRequest'', ''/api/v1/integration/wms/pick-request'', ''POST''),
     (''IntegrationController::stockIn'', ''/api/v1/integration/wms/stock-in'', ''POST''),
     (''IntegrationController::listLogs'', ''/api/v1/integration/logs'', ''GET''),
     (''IntegrationController::retryLog'', ''/api/v1/integration/logs/{1}/retry'', ''POST'')]"

definition integ_syncOrders :: "integ_env \<Rightarrow> (string \<Rightarrow> json option) \<Rightarrow> api_request \<Rightarrow> integ \<Rightarrow> (sync_counts \<times> int) response \<times> integ" where
  "integ_syncOrders e parse r = with_body parse r (\<lambda>b s. respond_state (syncErpOrders e b s))"

definition integ_convertOrder :: "(wo_db \<Rightarrow> wo_db \<Rightarrow> wo_db) \<Rightarrow> integ_env \<Rightarrow> api_request \<Rightarrow> int \<Rightarrow> integ \<Rightarrow> (string \<times> int \<times> string) response \<times> integ" where
  "integ_convertOrder ab e r i s = respond_state (convertErpOrder ab e i (userCtxOf r) s)"

text \<open>The identifier is read outside the \<open>try\<close> block.\<close>

definition integ_reportErp :: "(wo_db \<Rightarrow> wo_db \<Rightarrow> wo_db) \<Rightarrow> integ_env \<Rightarrow> (string \<Rightarrow> json option) \<Rightarrow> api_request \<Rightarrow> integ \<Rightarrow> int response \<times> integ" where
  "integ_reportErp ab e parse r =
    with_body parse r (\<lambda>b s.
      case field_value 0 (jlong ''work_order_id'' b) of
        Inl _ \<Rightarrow> (Escaped, s)
      | Inr i \<Rightarrow>
          if i \<le> 0 then (RespondError 400 ''work_order_id must be positive'', s)
          else respond_state (reportCompletionSaga ab e i s))"

definition integ_pickRequest :: "integ_env \<Rightarrow> (string \<Rightarrow> json option) \<Rightarrow> api_request \<Rightarrow> integ \<Rightarrow> (int \<times> int) response \<times> integ" where
  "integ_pickRequest e parse r = with_body parse r (\<lambda>b s. respond_state (wmsPickRequest e b s))"

definition integ_stockIn :: "integ_env \<Rightarrow> (string \<Rightarrow> json option) \<Rightarrow> api_request \<Rightarrow> integ \<Rightarrow> (int \<times> int) response \<times> integ" where
  "integ_stockIn e parse r = with_body parse r (\<lambda>b s. respond_state (wmsStockIn e b s))"

definition integ_listLogs :: "api_request \<Rightarrow> integ \<Rightarrow> (int \<times> sync_log list) response" where
  "integ_listLogs r s = Respond (listLogs (paramInt r ''page'' 1) (paramInt r ''page_size'' 20) (paramStr r ''system_type'')
      (paramInt r ''status'' (- 1)) s)"

definition integ_retryLog :: "integ_env \<Rightarrow> api_request \<Rightarrow> int \<Rightarrow> integ \<Rightarrow> int response \<times> integ" where
  "integ_retryLog e r i s = respond_state (retryLog e i s)"

end
