(* ===== verification/Api_Props.thy ===== *)
theory Api_Props
  imports Api_Iot Api_System Api_Production Access_Control Work_Order_Props
begin

text \<open>
  The interface as a whole: the routes of the handlers against the table of permissions, and a request on
  work orders from the advice chain to the tables.
\<close>

section \<open>Routes and permissions\<close>

definition all_routes :: "(string \<times> string \<times> string) list" where
  "all_routes = auth_routes @ user_routes @ role_routes @ dept_routes @ audit_routes @ config_routes @ work_order_routes
    @ production_routes @ iot_routes @ quality_routes @ integration_routes @ health_routes @ metrics_routes"

definition shapes :: "(ritem list option \<times> string) list" where
  "shapes = map (\<lambda>(h, p, v). (toRegex p, v)) all_routes"

definition guarded_shapes :: "(ritem list option \<times> string) list" where
  "guarded_shapes = map (\<lambda>(p, v, perm). (toRegex p, v)) route_table"

definition public_shapes :: "(ritem list option \<times> string) list" where
  "public_shapes = map (\<lambda>(p, v). (toRegex p, v)) public_paths"

text \<open>Where in the two tables the entry of each registered handler is.\<close>

definition route_index :: "nat list" where
  "route_index =
    [93, 94, 0, 1, 2, 3, 4, 6, 5, 7, 8, 9, 10, 11, 12, 14, 13, 15, 16, 17, 18, 19, 20, 21, 22, 23, 24, 25, 26, 27,
     28, 30, 29, 31, 32, 33, 34, 35, 36, 37, 38, 39, 40, 41, 42, 43, 44, 45, 46, 47, 48, 49, 50, 51, 52, 53, 54,
     55, 56, 57, 58, 59, 60, 71, 61, 62, 63, 64, 65, 66, 67, 68, 69, 70, 72, 73, 74, 75, 76, 77, 78, 79, 80, 81,
     82, 83, 84, 85, 86, 87, 88, 89, 90, 91, 92]"

lemma shapes_at_index: "shapes = map (nth (guarded_shapes @ public_shapes)) route_index"
  by code_simp

lemma index_covers: "list_all (\<lambda>k. k < 97) route_index \<and> list_all (\<lambda>k. k \<in> set route_index) [0..<91]"
  by code_simp

lemma table_lengths: "length guarded_shapes = 91" "length public_shapes = 6"
  by (simp_all add: guarded_shapes_def public_shapes_def route_table_def public_paths_def)

lemma shapes_known: "x \<in> set shapes \<Longrightarrow> x \<in> set guarded_shapes \<or> x \<in> set public_shapes"
proof -
  assume "x \<in> set shapes"
  then obtain k where k: "k \<in> set route_index" "x = (guarded_shapes @ public_shapes) ! k"
    unfolding shapes_at_index by auto
  then have "k < length (guarded_shapes @ public_shapes)"
    using index_covers by (auto simp: table_lengths list_all_iff)
  then have "x \<in> set (guarded_shapes @ public_shapes)" unfolding k(2) by (rule nth_mem)
  then show ?thesis by simp
qed

lemma shapes_complete: "x \<in> set guarded_shapes \<Longrightarrow> x \<in> set shapes"
proof -
  assume "x \<in> set guarded_shapes"
  then obtain k where k: "k < 91" "x = guarded_shapes ! k" by (auto simp: in_set_conv_nth table_lengths)
  then have "k \<in> set route_index" using index_covers by (auto simp: list_all_iff)
  then show ?thesis using k unfolding shapes_at_index by (auto simp: nth_append table_lengths intro!: image_eqI)
qed

lemma add_routes_set:
  "set (fold (\<lambda>(p, m, perm). add_route p m perm) rs acc) = set acc \<union> {(r, m, perm). \<exists>p. (p, m, perm) \<in> set rs \<and> toRegex p = Some r}"
  by (induction rs arbitrary: acc) (auto simp: add_route_def split: option.splits)

lemma g_routes_entry: "(r, m, perm) \<in> set g_routes \<longleftrightarrow> (\<exists>p. (p, m, perm) \<in> set route_table \<and> toRegex p = Some r)"
  by (simp add: g_routes_def add_routes_set)

lemma add_publics_set:
  "set (fold (\<lambda>(p, m). addPublic p m) ps acc) = set acc \<union> {(r, m). \<exists>p. (p, m) \<in> set ps \<and> toRegex p = Some r}"
  by (induction ps arbitrary: acc) (auto simp: addPublic_def split: option.splits)

lemma g_public_entry: "(r, m) \<in> set g_public \<longleftrightarrow> (\<exists>p. (p, m) \<in> set public_paths \<and> toRegex p = Some r)"
  by (simp add: g_public_def add_publics_set)

lemma route_guarded:
  assumes "(h, p, v) \<in> set all_routes" and "toRegex p = Some r"
  shows "(\<exists>perm. (r, v, perm) \<in> set g_routes) \<or> (r, v) \<in> set g_public"
proof -
  have "(Some r, v) \<in> set shapes" using assms by (force simp: shapes_def)
  then have "(Some r, v) \<in> set guarded_shapes \<or> (Some r, v) \<in> set public_shapes" by (rule shapes_known)
  then show ?thesis by (fastforce simp: guarded_shapes_def public_shapes_def g_routes_entry g_public_entry)
qed

lemma permission_of_match: "(r, v, perm) \<in> set g_routes \<Longrightarrow> re_match r path \<Longrightarrow> getPermission path v = perm \<and> perm \<noteq> []"
  using scan_separate [OF routes_separate] routes_named by (fastforce simp: getPermission_def list_all_iff)

lemma public_no_permission: "isPublicPath path v \<Longrightarrow> (r, v, perm) \<in> set g_routes \<Longrightarrow> \<not> re_match r path"
  using public_apart by (fastforce simp: isPublicPath_def list_all_iff dest: match_compat)

text \<open>C9: no handler is left open, and no permission is left over: every path that fits the pattern a handler is
  registered for, with its method, is public or asks for a permission, whatever name its parameters have
  in the two places; and every entry of the permission table belongs to a registered handler.\<close>

theorem routes_guarded:
  "(\<forall>h p v r path. (h, p, v) \<in> set all_routes \<and> toRegex p = Some r \<and> re_match r path \<longrightarrow>
      (isPublicPath path v \<and> (r, v) \<in> set g_public)
      \<or> (getPermission path v \<noteq> [] \<and> (\<exists>q. (q, v, getPermission path v) \<in> set route_table \<and> toRegex q = Some r)))
   \<and> (\<forall>q v perm. (q, v, perm) \<in> set route_table \<longrightarrow> (\<exists>h p. (h, p, v) \<in> set all_routes \<and> toRegex p = toRegex q))"
proof (intro conjI allI impI)
  fix h p v r path assume a: "(h, p, v) \<in> set all_routes \<and> toRegex p = Some r \<and> re_match r path"
  then consider (perm) perm where "(r, v, perm) \<in> set g_routes" | (public) "(r, v) \<in> set g_public"
    using route_guarded by blast
  then show "(isPublicPath path v \<and> (r, v) \<in> set g_public)
      \<or> (getPermission path v \<noteq> [] \<and> (\<exists>q. (q, v, getPermission path v) \<in> set route_table \<and> toRegex q = Some r))"
  proof cases
    case perm
    then show ?thesis using permission_of_match [OF perm] a by (auto simp: g_routes_entry)
  next
    case public
    then show ?thesis using a by (auto simp: isPublicPath_def)
  qed
next
  fix q v perm assume "(q, v, perm) \<in> set route_table"
  then have "(toRegex q, v) \<in> set guarded_shapes" by (force simp: guarded_shapes_def)
  then have "(toRegex q, v) \<in> set shapes" by (rule shapes_complete)
  then show "\<exists>h p. (h, p, v) \<in> set all_routes \<and> toRegex p = toRegex q" by (fastforce simp: shapes_def)
qed

theorem routes_guarded_witness: "getPermission ''/api/v1/iot/devices/7/command'' ''POST'' \<noteq> []"
proof -
  have "(''IotController::sendCommand'', ''/api/v1/iot/devices/{1}/command'', ''POST'') \<in> set all_routes"
    by (simp add: all_routes_def iot_routes_def)
  moreover have "\<exists>r. toRegex ''/api/v1/iot/devices/{1}/command'' = Some r \<and> re_match r ''/api/v1/iot/devices/7/command''"
  proof -
    have "(case toRegex ''/api/v1/iot/devices/{1}/command'' of None \<Rightarrow> False | Some r \<Rightarrow> re_match r ''/api/v1/iot/devices/7/command'')"
      by code_simp
    then show ?thesis by (auto split: option.splits)
  qed
  moreover have "\<not> isPublicPath ''/api/v1/iot/devices/7/command'' ''POST''" by code_simp
  ultimately show ?thesis using routes_guarded by blast
qed


section \<open>A request on work orders\<close>

text \<open>
  What a handler leaves of the tables, by its name; the handlers that only read are not listed. The
  framework's router is a parameter: it gives the handler and the identifier in the path.
\<close>

definition order_effect :: "(wo_db \<Rightarrow> wo_db \<Rightarrow> wo_db) \<Rightarrow> wo_env \<Rightarrow> (string \<Rightarrow> json option) \<Rightarrow> api_request \<Rightarrow> string \<Rightarrow> int \<Rightarrow> wo_db \<Rightarrow> wo_db" where
  "order_effect ab e parse r h i db =
    (case map_of
       [(''WorkOrderController::create'', snd (order_create ab e parse r db)),
        (''WorkOrderController::update'', snd (order_update ab e parse r i db)),
        (''WorkOrderController::schedule'', snd (order_schedule ab e r i db)),
        (''WorkOrderController::release'', snd (order_release ab e r i db)),
        (''WorkOrderController::start'', snd (order_start ab e r i db)),
        (''WorkOrderController::pause'', snd (order_pause ab e r i db)),
        (''WorkOrderController::complete'', snd (order_complete ab e r i db)),
        (''WorkOrderController::close'', snd (order_close ab e r i db)),
        (''WorkOrderController::cancel'', snd (order_cancel ab e r i db)),
        (''WorkOrderController::report'', snd (order_report ab e parse r i db))] h of
       None \<Rightarrow> db
     | Some db' \<Rightarrow> db')"

definition order_permissions :: "(string \<times> string) list" where
  "order_permissions =
    [(''WorkOrderController::create'', ''prod:wo:add''), (''WorkOrderController::update'', ''prod:wo:update''),
     (''WorkOrderController::schedule'', ''prod:wo:schedule''), (''WorkOrderController::release'', ''prod:wo:release''),
     (''WorkOrderController::start'', ''prod:wo:start''), (''WorkOrderController::pause'', ''prod:wo:pause''),
     (''WorkOrderController::complete'', ''prod:wo:complete''), (''WorkOrderController::close'', ''prod:wo:close''),
     (''WorkOrderController::cancel'', ''prod:wo:cancel''), (''WorkOrderController::report'', ''prod:wo:report'')]"

definition serve_order ::
  "jwt_env \<Rightarrow> bool \<Rightarrow> rbac_env \<Rightarrow> (string \<Rightarrow> string \<Rightarrow> (string \<times> int) option) \<Rightarrow> (wo_db \<Rightarrow> wo_db \<Rightarrow> wo_db) \<Rightarrow> wo_env \<Rightarrow> (string \<Rightarrow> json option)
    \<Rightarrow> http_request \<Rightarrow> api_request \<Rightarrow> auth \<times> wo_db \<Rightarrow> auth \<times> wo_db" where
  "serve_order J up re router ab e parse req r s =
    (case admit J up re (fst s) req of
       (Admit ctx, a) \<Rightarrow>
         (case router (rq_path req) (rq_method req) of
            None \<Rightarrow> (a, snd s)
          | Some (h, i) \<Rightarrow> (a, order_effect ab e parse (r\<lparr>ar_user := ctx\<rparr>) h i (snd s)))
     | (v, a) \<Rightarrow> (a, snd s))"

text \<open>The documented behaviour of the router: a handler is called for paths that fit its pattern.\<close>

definition routed :: "(string \<Rightarrow> string \<Rightarrow> (string \<times> int) option) \<Rightarrow> bool" where
  "routed router \<longleftrightarrow> (\<forall>path v h i. router path v = Some (h, i) \<longrightarrow>
    (\<exists>p r. (h, p, v) \<in> set all_routes \<and> toRegex p = Some r \<and> re_match r path))"

lemma order_effect_unlisted: "map_of order_permissions h = None \<Longrightarrow> order_effect ab e parse r h i db = db"
  by (simp add: order_effect_def order_permissions_def split: if_splits)

text \<open>The entry of each of these handlers in the permission table, by the position of the two entries.\<close>

definition order_index :: "(nat \<times> nat) list" where
  "order_index = map (\<lambda>k. (k, route_index ! k)) [0..<95]"

lemma order_entries:
  "list_all (\<lambda>(k, n). case (all_routes ! k, route_table ! n) of ((h, p, v), (q, w, perm)) \<Rightarrow>
     (case map_of order_permissions h of None \<Rightarrow> True | Some pm \<Rightarrow> pm = perm \<and> w = v \<and> toRegex q = toRegex p))
   (filter (\<lambda>(k, n). n < 91) order_index)"
  by code_simp

lemma order_entries_public:
  "list_all (\<lambda>(k, n). map_of order_permissions (fst (all_routes ! k)) = None) (filter (\<lambda>(k, n). 91 \<le> n) order_index)"
  by code_simp


lemma all_routes_length: "length all_routes = 95" "length route_table = 91"
  by (simp_all add: all_routes_def auth_routes_def user_routes_def role_routes_def dept_routes_def audit_routes_def
      config_routes_def work_order_routes_def production_routes_def iot_routes_def quality_routes_def integration_routes_def
      health_routes_def metrics_routes_def route_table_def)

lemma order_entry:
  assumes "(h, p, v) \<in> set all_routes" and "map_of order_permissions h = Some pm"
  shows "\<exists>q. (q, v, pm) \<in> set route_table \<and> toRegex q = toRegex p"
proof -
  obtain k where k: "k < 95" "all_routes ! k = (h, p, v)"
    using assms(1) by (auto simp: in_set_conv_nth all_routes_length)
  let ?n = "route_index ! k"
  have mem: "(k, ?n) \<in> set order_index" using k(1) by (simp add: order_index_def)
  show ?thesis
  proof (cases "?n < 91")
    case True
    then have "case route_table ! ?n of (q, w, perm) \<Rightarrow> pm = perm \<and> w = v \<and> toRegex q = toRegex p"
      using order_entries mem k assms(2) by (fastforce simp: list_all_iff)
    then show ?thesis using nth_mem [of ?n route_table] True
      by (cases "route_table ! ?n") (auto simp: all_routes_length)
  next
    case False
    then have "map_of order_permissions (fst (all_routes ! k)) = None"
      using order_entries_public mem by (fastforce simp: list_all_iff)
    then show ?thesis using k assms(2) by simp
  qed
qed

lemma order_route_permission:
  assumes "routed router" and "router path v = Some (h, i)" and "map_of order_permissions h = Some pm"
  shows "getPermission path v = pm" and "pm \<noteq> []" and "\<not> isPublicPath path v"
proof -
  obtain p r where p: "(h, p, v) \<in> set all_routes" "toRegex p = Some r" "re_match r path"
    using assms(1,2) unfolding routed_def by metis
  from order_entry [OF p(1) assms(3)] p(2) have g: "(r, v, pm) \<in> set g_routes" by (auto simp: g_routes_entry)
  show "getPermission path v = pm" "pm \<noteq> []" using permission_of_match [OF g p(3)] by auto
  show "\<not> isPublicPath path v" using public_no_permission [OF _ g] p(3) by blast
qed

lemma refresh_is_no_order: "''auth:bearer'' \<notin> snd ` set order_permissions"
  by (simp add: order_permissions_def)



definition demo_path :: string where "demo_path = ''/api/v1/production/work-orders/1/report''"

definition demo_router :: "string \<Rightarrow> string \<Rightarrow> (string \<times> int) option" where
  "demo_router path v = (if path = demo_path \<and> v = ''POST'' then Some (''WorkOrderController::report'', 1) else None)"

definition demo_http :: http_request where
  "demo_http = \<lparr>rq_path = demo_path, rq_method = ''POST'', rq_authorization = ''Bearer A''\<rparr>"

definition demo_api :: api_request where
  "demo_api = \<lparr>ar_param = \<lambda>_. [], ar_body = ''B'', ar_peer = [], ar_user = None\<rparr>"

definition demo_body :: "string \<Rightarrow> json option" where
  "demo_body t = Some (JObj [(''step_seq'', JInt 1), (''good_qty'', JInt 5)])"

definition demo_served :: "auth \<times> wo_db" where
  "demo_served = serve_order demo_access True \<lparr>re_redis = True, re_db = True, re_db2 = True\<rparr> demo_router rolls_back demo_env demo_body
     demo_http demo_api (demo_auth, demo_running)"

lemma demo_routed: "routed demo_router"
proof -
  have "(case toRegex ''/api/v1/production/work-orders/{1}/report'' of None \<Rightarrow> False | Some r \<Rightarrow> re_match r demo_path)"
    by code_simp
  then obtain r where r: "toRegex ''/api/v1/production/work-orders/{1}/report'' = Some r" "re_match r demo_path"
    by (auto split: option.splits)
  have "(''WorkOrderController::report'', ''/api/v1/production/work-orders/{1}/report'', ''POST'') \<in> set all_routes"
    by (simp add: all_routes_def work_order_routes_def)
  with r show ?thesis by (auto simp: routed_def demo_router_def split: if_splits)
qed

lemma demo_served_orders:
  "map wo_completed (orders demo_running) = [0]" "map wo_completed (orders (snd demo_served)) = [5]"
  by code_simp+


end
