(* ===== verification/Consumers.thy ===== *)
theory Consumers
  imports Iot_Props
begin

text \<open>
  The loops of two consumers of the broker. \<open>mq/StopCollectionHandler.cc\<close>: a turn connects when there is no
  channel, issues the acknowledgements the callbacks of the database have left, and takes one message; the
  queries behind a message are answered between the turns. \<open>mq/AlertHandler.cc\<close>: a turn takes one alert and
  acknowledges it at once. What the broker does is an argument of each turn.
\<close>

section \<open>The consumer of stop messages\<close>

text \<open>
  A delivery is the connection it came on and its tag. The connection is ghost state: an acknowledgement is
  issued by the tag on the channel of the moment.
\<close>

type_synonym tagged = "nat \<times> nat"

text \<open>The query of the devices, or the statements: those to be issued, those not yet answered, the shared counter.\<close>

datatype stop_flight = Asking int | Relaying int "int list" "int list" stop_state

record stop_consumer =
  sc_open :: bool
  sc_conn :: nat
  sc_acks :: "(tagged \<times> bool) list"
  sc_flights :: "(tagged \<times> stop_flight) list"
  sc_issued :: "(nat \<times> tagged \<times> bool) list"
  sc_taken :: "tagged list"
  sc_iot :: iot

definition enqueueAck :: "tagged \<Rightarrow> bool \<Rightarrow> stop_consumer \<Rightarrow> stop_consumer" where
  "enqueueAck d ok c = c\<lparr>sc_acks := sc_acks c @ [(d, ok)]\<rparr>"

text \<open>What the handler does before it returns: it settles the delivery, or has asked for the devices.\<close>

definition accept_stop :: "iot_env \<Rightarrow> tagged \<Rightarrow> string \<Rightarrow> string \<Rightarrow> stop_consumer \<Rightarrow> stop_consumer" where
  "accept_stop e d key body c =
    (if starts_with ''cmd.stop.'' key then enqueueAck d True c
     else if stop_order e body \<le> 0 then enqueueAck d True c
     else c\<lparr>sc_flights := sc_flights c @ [(d, Asking (stop_order e body))]\<rparr>)"

text \<open>The answer of the query of the devices.\<close>

definition devices_answered :: "nat \<Rightarrow> bool \<Rightarrow> stop_consumer \<Rightarrow> stop_consumer" where
  "devices_answered k ok c =
    (if k \<ge> length (sc_flights c) then c
     else case sc_flights c ! k of
       (d, Asking wo) \<Rightarrow>
         (let ids = line_devices (sc_iot c) wo;
              done = c\<lparr>sc_flights := (sc_flights c)[k := (d, Relaying wo [] [] stop_start)]\<rparr> in
          if \<not> ok then enqueueAck d False done
          else if ids = [] then enqueueAck d True done
          else c\<lparr>sc_flights := (sc_flights c)[k := (d, Relaying wo ids [] stop_start)]\<rparr>)
     | _ \<Rightarrow> c)"

text \<open>One statement issued or answered; what \<open>stop_step\<close> adds to the acknowledgements goes to the queue.\<close>

definition relay_event :: "iot_env \<Rightarrow> nat \<Rightarrow> stop_action \<Rightarrow> stop_consumer \<Rightarrow> stop_consumer" where
  "relay_event e k act c =
    (if k \<ge> length (sc_flights c) then c
     else case sc_flights c ! k of
       (d, Relaying wo ids asked q) \<Rightarrow>
         (let (q', s') = stop_step e wo act (q, sc_iot c);
              new = map (Pair d) (drop (length (ss_acks q)) (ss_acks q')) in
          case act of
            Issue i \<Rightarrow>
              if ids \<noteq> [] \<and> i = hd ids
              then c\<lparr>sc_flights := (sc_flights c)[k := (d, Relaying wo (tl ids) (i # asked) q')]\<rparr> else c
          | Answered i b \<Rightarrow>
              if i \<in> set asked
              then c\<lparr>sc_flights := (sc_flights c)[k := (d, Relaying wo ids (remove1 i asked) q')],
                     sc_acks := sc_acks c @ new, sc_iot := s'\<rparr> else c)
     | _ \<Rightarrow> c)"

datatype stop_recv = RecvFails | RecvNothing | RecvMessage nat string string

record stop_turn =
  sw_connect :: bool
  sw_break :: "nat option"
  sw_recv :: stop_recv

text \<open>The queue of acknowledgements is swapped out first; those behind a break of the channel are lost.\<close>

definition issue_stop_acks :: "nat option \<Rightarrow> stop_consumer \<Rightarrow> stop_consumer \<times> bool" where
  "issue_stop_acks brk c =
    (let acks = (case brk of None \<Rightarrow> sc_acks c | Some n \<Rightarrow> take n (sc_acks c)) in
     (c\<lparr>sc_acks := [], sc_issued := sc_issued c @ map (Pair (sc_conn c)) acks\<rparr>,
      case brk of None \<Rightarrow> True | Some n \<Rightarrow> length (sc_acks c) \<le> n))"

definition stop_channel :: "stop_consumer \<Rightarrow> stop_consumer" where
  "stop_channel c = (if sc_open c then c else c\<lparr>sc_open := True, sc_conn := Suc (sc_conn c)\<rparr>)"

definition receive_stop :: "iot_env \<Rightarrow> stop_recv \<Rightarrow> stop_consumer \<Rightarrow> stop_consumer" where
  "receive_stop e r c =
    (case r of
       RecvFails \<Rightarrow> c\<lparr>sc_open := False\<rparr>
     | RecvNothing \<Rightarrow> c
     | RecvMessage tag key body \<Rightarrow>
         accept_stop e (sc_conn c, tag) key body (c\<lparr>sc_taken := sc_taken c @ [(sc_conn c, tag)]\<rparr>))"

definition consume_stop_turn :: "iot_env \<Rightarrow> stop_turn \<Rightarrow> stop_consumer \<Rightarrow> stop_consumer" where
  "consume_stop_turn e w c0 =
    (if \<not> sc_open c0 \<and> \<not> sw_connect w then c0
     else case issue_stop_acks (sw_break w) (stop_channel c0) of
       (c, False) \<Rightarrow> c\<lparr>sc_open := False\<rparr>
     | (c, True) \<Rightarrow> receive_stop e (sw_recv w) c)"

datatype stop_event = StopTurn stop_turn | DevicesAnswered nat bool | RelayEvent nat stop_action

fun stop_consumer_step :: "iot_env \<Rightarrow> stop_event \<Rightarrow> stop_consumer \<Rightarrow> stop_consumer" where
  "stop_consumer_step e (StopTurn w) c = consume_stop_turn e w c"
| "stop_consumer_step e (DevicesAnswered k ok) c = devices_answered k ok c"
| "stop_consumer_step e (RelayEvent k act) c = relay_event e k act c"

abbreviation stop_run :: "iot_env \<Rightarrow> stop_event list \<Rightarrow> stop_consumer \<Rightarrow> stop_consumer" where
  "stop_run e evs c \<equiv> fold (stop_consumer_step e) evs c"

definition stop_consumer0 :: "iot \<Rightarrow> stop_consumer" where
  "stop_consumer0 s = \<lparr>sc_open = False, sc_conn = 0, sc_acks = [], sc_flights = [], sc_issued = [], sc_taken = [], sc_iot = s\<rparr>"

section \<open>The broker's side of the prefetch\<close>

text \<open>
  With a prefetch of 1 the broker hands out no message while one of the connection is neither acknowledged nor
  rejected. \<open>undisturbed\<close>: a turn in which the channel does not break.
\<close>

definition outstanding :: "stop_consumer \<Rightarrow> bool" where
  "outstanding c \<longleftrightarrow> (\<exists>d\<in>set (sc_taken c). fst d = sc_conn c \<and> d \<notin> (\<lambda>(k, d, b). d) ` set (filter (\<lambda>i. fst i = sc_conn c) (sc_issued c)))"

fun prefetch_kept :: "iot_env \<Rightarrow> stop_event list \<Rightarrow> stop_consumer \<Rightarrow> bool" where
  "prefetch_kept e [] c = True"
| "prefetch_kept e (ev # evs) c \<longleftrightarrow>
     (case ev of
        StopTurn w \<Rightarrow> (case sw_recv w of
            RecvMessage tag key body \<Rightarrow> \<not> outstanding (fst (issue_stop_acks (sw_break w) (stop_channel c)))
          | _ \<Rightarrow> True)
      | _ \<Rightarrow> True) \<and> prefetch_kept e evs (stop_consumer_step e ev c)"

fun undisturbed :: "stop_event \<Rightarrow> bool" where
  "undisturbed (StopTurn w) \<longleftrightarrow> sw_break w = None \<and> sw_recv w \<noteq> RecvFails"
| "undisturbed _ = True"

section \<open>A relay from the message to its last answer\<close>

text \<open>The events of one message: it is taken, the devices are found, every statement is issued, every answer comes.\<close>

definition relay_events :: "stop_turn \<Rightarrow> int list \<Rightarrow> (int \<times> bool) list \<Rightarrow> stop_event list" where
  "relay_events w ids as =
    StopTurn w # DevicesAnswered 0 True # map (RelayEvent 0) (issues ids) @ map (RelayEvent 0) (answers as)"

lemma relay_issues:
  assumes "sc_flights c = [(d, Relaying wo ids asked q)]"
  shows "stop_run e (map (RelayEvent 0) (issues ids)) c =
    c\<lparr>sc_flights := [(d, Relaying wo [] (rev ids @ asked) (q\<lparr>ss_pending := ss_pending q + int (length ids)\<rparr>))]\<rparr>"
  using assms
proof (induction ids arbitrary: c asked q)
  case (Cons i ids)
  let ?c = "c\<lparr>sc_flights := [(d, Relaying wo ids (i # asked) (q\<lparr>ss_pending := ss_pending q + 1\<rparr>))]\<rparr>"
  have "relay_event e 0 (Issue i) c = ?c"
    using Cons.prems by (simp add: relay_event_def)
  with Cons.IH [of ?c "i # asked" "q\<lparr>ss_pending := ss_pending q + 1\<rparr>"] show ?case
    by (simp add: issues_def add.assoc)
qed (simp add: issues_def)

lemma relay_answers:
  assumes "sc_flights c = [(d, Relaying wo [] asked q)]" and "mset (map fst as) = mset asked"
  shows "stop_run e (map (RelayEvent 0) (answers as)) c =
    (case fold (stop_step e wo) (answers as) (q, sc_iot c) of
       (q', s') \<Rightarrow> c\<lparr>sc_flights := [(d, Relaying wo [] [] q')],
                    sc_acks := sc_acks c @ map (Pair d) (drop (length (ss_acks q)) (ss_acks q')), sc_iot := s'\<rparr>)"
  using assms
proof (induction as arbitrary: c asked q)
  case Nil
  then show ?case by (simp add: answers_def)
next
  case (Cons a as)
  obtain i b where a: "a = (i, b)" by (cases a)
  obtain q1 s1 where st: "stop_step e wo (Answered i b) (q, sc_iot c) = (q1, s1)" by fastforce
  have i: "i \<in> set asked" using Cons.prems(2) a by (metis fst_conv list.set_intros(1) list.simps(9) mset_eq_setD)
  let ?c = "c\<lparr>sc_flights := [(d, Relaying wo [] (remove1 i asked) q1)],
       sc_acks := sc_acks c @ map (Pair d) (drop (length (ss_acks q)) (ss_acks q1)), sc_iot := s1\<rparr>"
  have one: "relay_event e 0 (Answered i b) c = ?c"
    using Cons.prems(1) i st by (simp add: relay_event_def)
  have m: "mset (map fst as) = mset (remove1 i asked)"
    using arg_cong [OF Cons.prems(2), of "\<lambda>m. m - {#i#}"] by (simp add: a)
  obtain r where r: "ss_acks q1 = ss_acks q @ r"
    using stop_acks_grow [of e wo "[Answered i b]" q "sc_iot c"] st by auto
  obtain q2 s2 where f: "fold (stop_step e wo) (answers as) (q1, s1) = (q2, s2)" by fastforce
  obtain r2 where r2: "ss_acks q2 = ss_acks q1 @ r2"
    using stop_acks_grow [of e wo "answers as" q1 s1] f by auto
  show ?case
    using Cons.IH [of ?c "remove1 i asked" q1] m one st f r r2
    by (simp add: answers_def a)
qed

section \<open>A consumer that waits for ever\<close>

text \<open>Nothing is under way for the one delivery the broker waits for, and nothing is left to settle it.\<close>

definition stalled :: "stop_consumer \<Rightarrow> bool" where
  "stalled c \<longleftrightarrow> sc_open c \<and> sc_acks c = [] \<and> outstanding c
    \<and> (\<exists>d wo q. sc_flights c = [(d, Relaying wo [] [] q)])"

lemma issue_no_acks: "sc_acks c = [] \<Longrightarrow> issue_stop_acks None c = (c, True)"
  by (simp add: issue_stop_acks_def)

lemma stalled_step:
  assumes "stalled c" and "undisturbed ev" and "prefetch_kept e (ev # evs) c"
  shows "stop_consumer_step e ev c = c"
proof (cases ev)
  case (StopTurn w)
  have "sw_break w = None" "sw_recv w \<noteq> RecvFails" using assms(2) StopTurn by auto
  moreover have "sc_open c" "sc_acks c = []" "outstanding c" using assms(1) by (auto simp: stalled_def)
  moreover from this have "sw_recv w \<noteq> RecvMessage t k b" for t k b
    using assms(3) StopTurn \<open>sw_break w = None\<close> by (auto simp: stop_channel_def issue_no_acks)
  ultimately show ?thesis
    by (cases "sw_recv w") (auto simp: StopTurn consume_stop_turn_def stop_channel_def issue_no_acks receive_stop_def)
next
  case (DevicesAnswered k ok)
  then show ?thesis using assms(1) by (cases k) (auto simp: stalled_def devices_answered_def)
next
  case (RelayEvent k act)
  then show ?thesis using assms(1)
    by (cases k) (auto simp: stalled_def relay_event_def split: prod.split stop_action.split)
qed

lemma stalled_run: "stalled c \<Longrightarrow> \<forall>ev\<in>set evs. undisturbed ev \<Longrightarrow> prefetch_kept e evs c \<Longrightarrow> stop_run e evs c = c"
proof (induction evs)
  case (Cons ev evs)
  have "stop_consumer_step e ev c = c" using Cons.prems by (intro stalled_step [of c ev e evs]) simp_all
  with Cons show ?case by simp
qed simp

text \<open>The state behind a whole relay.\<close>

lemma relay_end:
  assumes "sc_open c" and "sc_acks c = []" and "sc_flights c = []"
    and "sw_break w = None" and "sw_recv w = RecvMessage tag key body"
    and "\<not> starts_with ''cmd.stop.'' key" and "stop_order e body = wo" and "0 < wo"
    and "line_devices (sc_iot c) wo = ids" and "ids \<noteq> []" and "mset (map fst as) = mset ids"
  shows "\<exists>q. stop_run e (relay_events w ids as) c =
    c\<lparr>sc_taken := sc_taken c @ [(sc_conn c, tag)], sc_flights := [((sc_conn c, tag), Relaying wo [] [] q)],
      sc_acks := (if \<not> snd (last as) then [((sc_conn c, tag), False)]
        else if \<exists>a\<in>set as. \<not> snd a then [] else [((sc_conn c, tag), True)]),
      sc_iot := post_all e wo (map fst (filter snd as)) (sc_iot c)\<rparr>"
proof -
  let ?d = "(sc_conn c, tag)"
  let ?c1 = "c\<lparr>sc_taken := sc_taken c @ [?d], sc_flights := [(?d, Asking wo)]\<rparr>"
  let ?c2 = "c\<lparr>sc_taken := sc_taken c @ [?d], sc_flights := [(?d, Relaying wo ids [] stop_start)]\<rparr>"
  let ?q = "stop_start\<lparr>ss_pending := int (length ids)\<rparr>"
  let ?c3 = "c\<lparr>sc_taken := sc_taken c @ [?d], sc_flights := [(?d, Relaying wo [] (rev ids) ?q)]\<rparr>"
  have turn: "consume_stop_turn e w c = ?c1"
    using assms(1-8) by (simp add: consume_stop_turn_def stop_channel_def issue_no_acks receive_stop_def accept_stop_def)
  have dev: "devices_answered 0 True ?c1 = ?c2" using assms(9,10) by (simp add: devices_answered_def)
  have iss: "stop_run e (map (RelayEvent 0) (issues ids)) ?c2 = ?c3"
    using relay_issues [of ?c2 ?d wo ids "[]" stop_start e] by (simp add: stop_start_def)
  have l: "length as = length ids" using arg_cong [OF assms(11), of size] by simp
  then have ne: "as \<noteq> []" using assms(10) by auto
  note fa = fold_answers [of ?q as e wo "sc_iot c"]
  have ans: "stop_run e (map (RelayEvent 0) (answers as)) ?c3 =
      (case fold (stop_step e wo) (answers as) (?q, sc_iot c) of
       (q', s') \<Rightarrow> ?c3\<lparr>sc_flights := [(?d, Relaying wo [] [] q')],
                    sc_acks := map (Pair ?d) (ss_acks q'), sc_iot := s'\<rparr>)"
    using relay_answers [of ?c3 ?d wo "rev ids" ?q as e] assms(2,11) by (simp add: stop_start_def)
  have "stop_run e (relay_events w ids as) c = stop_run e (map (RelayEvent 0) (answers as)) ?c3"
    by (simp only: relay_events_def fold_simps comp_apply fold_append stop_consumer_step.simps turn dev iss)
  moreover have "ss_acks ?q = []" "\<not> ss_failed ?q" "ss_pending ?q = int (length as)"
    using l by (simp_all add: stop_start_def)
  ultimately show ?thesis
    using fa ne
    by (intro exI [of _ "fst (fold (stop_step e wo) (answers as) (?q, sc_iot c))"]) (simp only: ans, simp)
qed

section \<open>The consumer of alerts\<close>

text \<open>
  \<open>ac_handled\<close>: the alerts handed to the handler, \<open>ac_done\<close> those acknowledged, \<open>ac_pushed\<close> the payloads sent to the
  dashboards. An acknowledgement that throws drops the channel.
\<close>

record alert_consumer =
  ac_open :: bool
  ac_handled :: "string list"
  ac_done :: "string list"
  ac_pushed :: "json list"
  ac_iot :: iot

datatype alert_recv = AlertFails | AlertNone | AlertBody string bool

definition alert_turn :: "iot_env \<Rightarrow> bool \<Rightarrow> alert_recv \<Rightarrow> alert_consumer \<Rightarrow> alert_consumer" where
  "alert_turn e connects r c =
    (if \<not> ac_open c \<and> \<not> connects then c
     else
       let c = c\<lparr>ac_open := True\<rparr> in
       case r of
         AlertFails \<Rightarrow> c\<lparr>ac_open := False\<rparr>
       | AlertNone \<Rightarrow> c
       | AlertBody body acked \<Rightarrow>
           (let (p, s) = handle_alert e body (ac_iot c);
                c1 = c\<lparr>ac_handled := ac_handled c @ [body], ac_iot := s,
                  ac_pushed := ac_pushed c @ (case p of None \<Rightarrow> [] | Some j \<Rightarrow> [j])\<rparr> in
            if acked then c1\<lparr>ac_done := ac_done c1 @ [body]\<rparr> else c1\<lparr>ac_open := False\<rparr>))"

text \<open>An alert the database refuses is acknowledged all the same and shown on the dashboards.\<close>

lemma alert_lost:
  assumes "ac_open c" and "\<not> im_db e"
  shows "ac_done (alert_turn e con (AlertBody body True) c) = ac_done c @ [body]
    \<and> it_alerts (ac_iot (alert_turn e con (AlertBody body True) c)) = it_alerts (ac_iot c)"
  using assms by (auto simp: alert_turn_def Let_def handle_alert_def split: option.splits sum.splits field.splits json.splits)


section \<open>A concrete consumer\<close>

definition demo_stop_consumer :: stop_consumer where
  "demo_stop_consumer = (stop_consumer0 demo_iot)\<lparr>sc_open := True, sc_conn := 1\<rparr>"

definition demo_stop_turn :: "stop_recv \<Rightarrow> stop_turn" where
  "demo_stop_turn r = \<lparr>sw_connect = True, sw_break = None, sw_recv = r\<rparr>"


end
