(* ===== verification/Web_Pipeline.thy ===== *)
theory Web_Pipeline
  imports Api_System Audit_Trail
begin

text \<open>
  What surrounds every handler: the response envelope (\<open>common/ApiResponse.hh\<close>), the error handlers of
  \<open>main.cc\<close>, and the advices \<open>installCrossCutting\<close> registers (\<open>middlewares/CrossCutting.cc\<close>): the trace id before
  the checks, the audit behind the handler, the metrics and the header before a response is sent. The
  framework is a parameter: whether it finds a route, and whether it runs the advices behind a handler
  for the response of the exception handler.
\<close>

section \<open>The envelope\<close>

text \<open>\<open>hr_trace\<close> is the header \<open>X-Trace-Id\<close>; \<open>addHeader\<close> replaces it.\<close>

record http_response =
  hr_status :: int
  hr_type :: string
  hr_body :: string
  hr_trace :: "string option"

text \<open>
  \<open>we_dump\<close> is None for a document that is no UTF-8; \<open>we_replace\<close> prints any. \<open>we_random\<close>: two draws of the 64-bit
  generator. Times are microseconds of the steady clock.
\<close>

record web_env =
  we_iso :: string
  we_dump :: "json \<Rightarrow> string option"
  we_replace :: "json \<Rightarrow> string"
  we_random :: "64 word \<times> 64 word"
  we_start_us :: int
  we_end_us :: int
  we_audits_exceptions :: bool

text \<open>The keys of the document are in their order; \<open>data\<close> is there only when it is given.\<close>

definition envelope_body :: "int \<Rightarrow> string \<Rightarrow> json option \<Rightarrow> string \<Rightarrow> string \<Rightarrow> json" where
  "envelope_body code msg data now trace =
    JObj ((''code'', JInt code) # (case data of None \<Rightarrow> [] | Some d \<Rightarrow> [(''data'', d)])
      @ [(''message'', JStr msg), (''timestamp'', JStr now), (''trace_id'', JStr trace)])"

definition dumped :: "web_env \<Rightarrow> json \<Rightarrow> string" where
  "dumped e j = (case we_dump e j of Some t \<Rightarrow> t | None \<Rightarrow> we_replace e j)"

definition build :: "web_env \<Rightarrow> int \<Rightarrow> string \<Rightarrow> json option \<Rightarrow> string \<Rightarrow> http_response" where
  "build e code msg data trace =
    (let body = envelope_body code msg data (we_iso e) trace in
     \<lparr>hr_status = (if code \<noteq> 200 then code else 200), hr_type = ''application/json; charset=utf-8'',
      hr_body = dumped e body,
      hr_trace = (if trace = [] then None else Some trace)\<rparr>)"

definition success :: "web_env \<Rightarrow> json \<Rightarrow> string \<Rightarrow> http_response" where
  "success e data trace = build e 200 ''success'' (Some data) trace"

definition error :: "web_env \<Rightarrow> int \<Rightarrow> string \<Rightarrow> string \<Rightarrow> http_response" where
  "error e code msg trace = build e code msg None trace"

section \<open>Attributes and error handlers\<close>

text \<open>The attributes the trace advice leaves.\<close>

record attributes =
  at_trace :: "string option"
  at_start_us :: "int option"

definition no_attributes :: attributes where
  "no_attributes = \<lparr>at_trace = None, at_start_us = None\<rparr>"

definition traceIdOf :: "attributes \<Rightarrow> string" where
  "traceIdOf ats = (case at_trace ats of None \<Rightarrow> [] | Some t \<Rightarrow> t)"

text \<open>An exception that left a handler; undefined behaviour has no response.\<close>

definition exceptionHandler :: "web_env \<Rightarrow> attributes \<Rightarrow> fault \<Rightarrow> http_response" where
  "exceptionHandler e ats f =
    (case f of ApiError c m \<Rightarrow> error e c m (traceIdOf ats) | _ \<Rightarrow> error e 500 ''internal error'' (traceIdOf ats))"

definition customErrorHandler :: "web_env \<Rightarrow> attributes \<Rightarrow> int \<Rightarrow> http_response" where
  "customErrorHandler e ats code =
    error e code (if code = 404 then ''no such resource'' else if code = 405 then ''method not allowed'' else ''bad request'')
      (traceIdOf ats)"

section \<open>Trace ids\<close>

definition hex_digit :: "nat \<Rightarrow> char" where
  "hex_digit n = char_of (if n < 10 then 48 + n else 87 + n)"

fun hex_digits :: "nat \<Rightarrow> string" where
  "hex_digits n = (if n < 16 then [hex_digit n] else hex_digits (n div 16) @ [hex_digit (n mod 16)])"

declare hex_digits.simps [simp del]

definition genTraceId :: "web_env \<Rightarrow> string" where
  "genTraceId e = take 24 (hex_digits (unat (fst (we_random e))) @ hex_digits (unat (snd (we_random e))))"

definition trace_advice :: "web_env \<Rightarrow> string \<Rightarrow> attributes" where
  "trace_advice e header =
    \<lparr>at_trace = Some (if header = [] then genTraceId e else header), at_start_us = Some (we_start_us e)\<rparr>"

section \<open>Metrics and the header before sending\<close>

definition requests_key :: "string \<Rightarrow> int \<Rightarrow> string" where
  "requests_key mth status =
    ''mes_http_requests_total{method='' @ quote mth @ '',status='' @ quote (to_string status) @ ''}''"

definition recordHttpMetrics :: "web_env \<Rightarrow> attributes \<Rightarrow> string \<Rightarrow> int \<Rightarrow> registry \<Rightarrow> registry" where
  "recordHttpMetrics e ats mth status m =
    (let m1 = counterInc (requests_key mth status) 1 m in
     case at_start_us ats of
       None \<Rightarrow> m1
     | Some t0 \<Rightarrow> histogramObserve ''mes_http_request_duration_ms'' (of_int (we_end_us e - t0) / 1000) m1)"

definition presend_header :: "attributes \<Rightarrow> http_response \<Rightarrow> http_response" where
  "presend_header ats r = (case at_trace ats of None \<Rightarrow> r | Some t \<Rightarrow> r\<lparr>hr_trace := Some t\<rparr>)"

section \<open>A whole request\<close>

text \<open>\<open>wq_missing\<close>: the code of the framework's own error when there is no handler for the request.\<close>

record web_request =
  wq_http :: http_request
  wq_trace :: string
  wq_query :: string
  wq_body :: string
  wq_addr :: string
  wq_agent :: string
  wq_missing :: "int option"

record web =
  wb_auth :: auth
  wb_trail :: trail
  wb_metrics :: registry

definition send :: "web_env \<Rightarrow> attributes \<Rightarrow> web_request \<Rightarrow> http_response \<Rightarrow> web \<Rightarrow> http_response option \<times> web" where
  "send e ats rq r w =
    (Some (presend_header ats r),
     w\<lparr>wb_metrics := recordHttpMetrics e ats (rq_method (wq_http rq)) (hr_status r) (wb_metrics w)\<rparr>)"

definition handled_of :: "web_env \<Rightarrow> attributes \<Rightarrow> token_payload option \<Rightarrow> web_request \<Rightarrow> http_response \<Rightarrow> handled" where
  "handled_of e ats ctx rq r =
    \<lparr>hd_req = wq_http rq, hd_ctx = ctx, hd_query = wq_query rq, hd_body = wq_body rq, hd_addr = wq_addr rq,
     hd_agent = wq_agent rq, hd_start_us = at_start_us ats, hd_now_us = we_end_us e, hd_status = Some (hr_status r)\<rparr>"

definition audited :: "(string \<Rightarrow> json option) \<Rightarrow> (json \<Rightarrow> string) \<Rightarrow> handled \<Rightarrow> web \<Rightarrow> web" where
  "audited parse dump h w = w\<lparr>wb_trail := recordAudit parse dump h (wb_trail w)\<rparr>"

text \<open>The response of a handler, if it makes one; \<open>Escaped\<close> is a standard exception.\<close>

fun handler_response :: "web_env \<Rightarrow> attributes \<Rightarrow> json response \<Rightarrow> http_response option" where
  "handler_response e ats (Respond d) = Some (success e d (traceIdOf ats))"
| "handler_response e ats (RespondError c m) = Some (error e c m (traceIdOf ats))"
| "handler_response e ats Escaped = Some (exceptionHandler e ats (StdError []))"
| "handler_response e ats Pending = None"
| "handler_response e ats Unspecified = None"

definition web_serve ::
  "web_env \<Rightarrow> (string \<Rightarrow> json option) \<Rightarrow> (json \<Rightarrow> string) \<Rightarrow> jwt_env \<Rightarrow> bool \<Rightarrow> rbac_env \<Rightarrow> (token_payload option \<Rightarrow> json response) \<Rightarrow>
   web_request \<Rightarrow> web \<Rightarrow> http_response option \<times> web" where
  "web_serve e parse dump J up re handler rq w =
    (case wq_missing rq of
       Some code \<Rightarrow> send e no_attributes rq (customErrorHandler e no_attributes code) w
     | None \<Rightarrow>
         (let ats = trace_advice e (wq_trace rq) in
          case admit J up re (wb_auth w) (wq_http rq) of
            (Unanswered, a) \<Rightarrow> (None, w\<lparr>wb_auth := a\<rparr>)
          | (Deny c m, a) \<Rightarrow> send e ats rq (error e c m (traceIdOf ats)) (w\<lparr>wb_auth := a\<rparr>)
          | (Admit ctx, a) \<Rightarrow>
              (case handler_response e ats (handler ctx) of
                 None \<Rightarrow> (None, w\<lparr>wb_auth := a\<rparr>)
               | Some r \<Rightarrow>
                   send e ats rq r
                     (if handler ctx = Escaped \<and> \<not> we_audits_exceptions e then w\<lparr>wb_auth := a\<rparr>
                      else audited parse dump (handled_of e ats ctx rq r) (w\<lparr>wb_auth := a\<rparr>)))))"

section \<open>Properties\<close>

lemma hex_digits_nonempty [simp]: "hex_digits n \<noteq> []"
  by (subst hex_digits.simps) simp

lemma genTraceId_size: "genTraceId e \<noteq> []" "length (genTraceId e) \<le> 24"
  by (simp_all add: genTraceId_def)

lemma trace_advice_id: "traceIdOf (trace_advice e h) = (if h = [] then genTraceId e else h)"
  by (simp add: traceIdOf_def trace_advice_def)

lemma trace_advice_nonempty: "traceIdOf (trace_advice e h) \<noteq> []"
  by (simp add: trace_advice_id genTraceId_size)

lemma build_status [simp]: "hr_status (build e code msg data trace) = code"
  by (simp add: build_def Let_def)

lemma presend_trace [simp]: "presend_header (trace_advice e h) r = r\<lparr>hr_trace := Some (traceIdOf (trace_advice e h))\<rparr>"
  by (simp add: presend_header_def trace_advice_def traceIdOf_def)

text \<open>The envelope behind a response: its code is the status, it carries data when the handler gave some.\<close>

definition enveloped :: "web_env \<Rightarrow> string \<Rightarrow> json option \<Rightarrow> http_response \<Rightarrow> bool" where
  "enveloped e trace data r \<longleftrightarrow> (\<exists>msg. hr_body r = dumped e (envelope_body (hr_status r) msg data (we_iso e) trace))"

lemma enveloped_build: "enveloped e trace data (build e code msg data trace)"
  by (auto simp: enveloped_def build_def Let_def)

lemma enveloped_header: "enveloped e trace data (r\<lparr>hr_trace := h\<rparr>) \<longleftrightarrow> enveloped e trace data r"
  by (simp add: enveloped_def)

definition response_data :: "json response \<Rightarrow> json option" where
  "response_data x = (case x of Respond d \<Rightarrow> Some d | _ \<Rightarrow> None)"

lemma handler_response_enveloped:
  "handler_response e ats x = Some r \<Longrightarrow> enveloped e (traceIdOf ats) (response_data x) r
    \<and> (\<forall>d. x = Respond d \<longrightarrow> hr_status r = 200) \<and> (\<forall>c m. x = RespondError c m \<longrightarrow> hr_status r = c) \<and> (x = Escaped \<longrightarrow> hr_status r = 500)"
  by (cases x) (auto simp: success_def error_def exceptionHandler_def enveloped_build response_data_def)

lemma metrics_count:
  assumes "sorted_wrt (<) (map fst (mr_counters m))"
  shows "map_of (mr_counters (recordHttpMetrics e ats mth status m)) =
    (map_of (mr_counters m))(requests_key mth status \<mapsto> value_or 0 (map_of (mr_counters m) (requests_key mth status)) + 1)"
  using assms by (simp add: recordHttpMetrics_def counterInc_def histogramObserve_def Let_def map_of_at_key split: option.split)

lemma deny_codes: "admit J up re s req = (Deny c m, a) \<Longrightarrow> c \<in> {401, 403, 500}"
  by (auto simp: admit_def jwtCheck_def rbacCheck_def Let_def split: verdict.splits if_splits option.splits prod.splits perm_outcome.splits)

lemma entry_code: "hd_status h = Some c \<Longrightarrow> au_code (entry_of parse dump h) = c"
  by (simp add: entry_of_def Let_def)

lemma audited_buffer:
  "tr_buffer (wb_trail (audited parse dump h w)) =
     tr_buffer (wb_trail w) @ (if auditable (rq_path (hd_req h)) (rq_method (hd_req h)) then [entry_of parse dump h] else [])"
  "tr_rows (wb_trail (audited parse dump h w)) = tr_rows (wb_trail w)"
  by (simp_all add: audited_def recordAudit_def enqueue_def)

text \<open>What a request that has a handler leaves behind, in terms of the decision of the checks.\<close>

lemma serve_denied:
  assumes "wq_missing rq = None" and "admit J up re (wb_auth w) (wq_http rq) = (Deny c m, a)"
  shows "web_serve e parse dump J up re handler rq w =
    send e (trace_advice e (wq_trace rq)) rq (error e c m (traceIdOf (trace_advice e (wq_trace rq)))) (w\<lparr>wb_auth := a\<rparr>)"
  using assms by (simp add: web_serve_def Let_def)

lemma serve_admitted:
  assumes "wq_missing rq = None" and "admit J up re (wb_auth w) (wq_http rq) = (Admit ctx, a)"
    and "handler_response e (trace_advice e (wq_trace rq)) (handler ctx) = Some r"
  shows "web_serve e parse dump J up re handler rq w =
    send e (trace_advice e (wq_trace rq)) rq r
      (if handler ctx = Escaped \<and> \<not> we_audits_exceptions e then w\<lparr>wb_auth := a\<rparr>
       else audited parse dump (handled_of e (trace_advice e (wq_trace rq)) ctx rq r) (w\<lparr>wb_auth := a\<rparr>))"
  using assms by (simp add: web_serve_def Let_def)


section \<open>A concrete request\<close>

definition demo_web_env :: web_env where
  "demo_web_env = \<lparr>we_iso = ''T'', we_dump = (\<lambda>_. Some ''{}''), we_replace = (\<lambda>_. []), we_random = (255, 16), we_start_us = 1000,
     we_end_us = 4000, we_audits_exceptions = True\<rparr>"

definition demo_web :: web where
  "demo_web = \<lparr>wb_auth = demo_auth, wb_trail = \<lparr>tr_buffer = [], tr_rows = []\<rparr>, wb_metrics = registry0\<rparr>"

definition demo_web_request :: web_request where
  "demo_web_request = \<lparr>wq_http = \<lparr>rq_path = ''/api/v1/auth/login'', rq_method = ''POST'', rq_authorization = []\<rparr>, wq_trace = [], wq_query = [],
     wq_body = [], wq_addr = [], wq_agent = [], wq_missing = None\<rparr>"

lemma demo_trace: "genTraceId demo_web_env = ''ff10''"
  by code_simp


end
