(* ===== verification/Work_Order_Numbers.thy ===== *)
theory Work_Order_Numbers
  imports Work_Order_Props
begin

text \<open>
  The numbers of the work orders (\<open>genWorkOrderNo\<close> of \<open>services/WorkOrderService.cc\<close>): the buffer of 32 bytes holds
  every number, the numbers of two values of the sequence differ whatever the dates, and so the unique key on the
  number refuses no creation.
\<close>

section \<open>The buffer\<close>

text \<open>The clock reads a time up to the end of 9999, the sequence is a \<open>bigint\<close>.\<close>

definition clock_ok :: "wo_env \<Rightarrow> bool" where
  "clock_ok e \<longleftrightarrow> 0 \<le> e_now e \<and> e_now e < 86400 * (kLastDay + 1)"

definition date_digits :: "wo_env \<Rightarrow> string" where
  "date_digits e = (case tm_date (gmtime (e_now e)) of (y, m, d) \<Rightarrow> pad_num 4 y @ pad_num 2 m @ pad_num 2 d)"

lemma date_digits_length: "clock_ok e \<Longrightarrow> length (date_digits e) = 8"
proof -
  assume ok: "clock_ok e"
  define n where "n = e_now e div 86400"
  have "86400 * n \<le> e_now e" unfolding n_def using pos_mod_sign [of 86400 "e_now e"] mult_div_mod_eq [of 86400 "e_now e"] by linarith
  then have "86400 * n < 86400 * (kLastDay + 1)" using ok by (simp add: clock_ok_def)
  then have n: "0 \<le> n" "n \<le> kLastDay" using ok by (simp_all add: n_def clock_ok_def pos_imp_zdiv_nonneg_iff)
  obtain y m d where ymd: "civil_of_days n = (y, m, d)" by (cases "civil_of_days n")
  have "1970 \<le> y" "y \<le> 9999" using civil_years [OF n] by (simp_all add: ymd)
  moreover have "valid_date (y, m, d)" using civil_of_days_date [of n] by (simp add: ymd)
  then have "1 \<le> m" "m < 100" "1 \<le> d" "d < 100" by (auto simp: month_length_def split: if_splits)
  ultimately show ?thesis by (simp add: date_digits_def gmtime_def n_def [symmetric] ymd pad_num_fixed)
qed

lemma number_text:
  assumes "clock_ok e" and "0 \<le> k" and "k < 2 ^ 63"
  shows "genWorkOrderNo e k = ''WO'' @ date_digits e @ pad_num 5 k" and "length (genWorkOrderNo e k) \<le> 29"
proof -
  have "nat k < 10 ^ Suc 18" using assms(3) by simp
  from nat_digits_length [OF this] have "length (pad_num 5 k) \<le> 19"
    using assms(2) by (simp add: pad_num_def to_string_def)
  then have len: "length (''WO'' @ date_digits e @ pad_num 5 k) \<le> 29"
    using date_digits_length [OF assms(1)] by simp
  moreover have "genWorkOrderNo e k = take 31 (''WO'' @ date_digits e @ pad_num 5 k)"
    by (simp add: genWorkOrderNo_def date_digits_def add.assoc split: prod.split)
  ultimately show "genWorkOrderNo e k = ''WO'' @ date_digits e @ pad_num 5 k" by simp
  then show "length (genWorkOrderNo e k) \<le> 29" using len by simp
qed

lemma number_inject:
  assumes "clock_ok e" "0 \<le> k" "k < 2 ^ 63" and "clock_ok f" "0 \<le> l" "l < 2 ^ 63"
    and "genWorkOrderNo e k = genWorkOrderNo f l"
  shows "k = l"
proof -
  have "date_digits e @ pad_num 5 k = date_digits f @ pad_num 5 l"
    using assms(7) number_text(1) [OF assms(1-3)] number_text(1) [OF assms(4-6)] by simp
  then have "pad_num 5 k = pad_num 5 l"
    using date_digits_length [OF assms(1)] date_digits_length [OF assms(4)] by simp
  then show ?thesis using pad_num_inject assms(2,5) by blast
qed

section \<open>The numbers in the table\<close>

fun call_env :: "wo_call \<Rightarrow> wo_env" where
  "call_env (Create e c b) = e"
| "call_env (Update e i b) = e"
| "call_env (Transit e i a) = e"
| "call_env (Report e c i b) = e"

text \<open>A request leaves the numbers alone, or it adds the one of the next value of the sequence.\<close>

definition number_step :: "wo_env \<Rightarrow> wo_db \<Rightarrow> wo_db \<Rightarrow> bool" where
  "number_step e db db' \<longleftrightarrow>
    map wo_no (orders db') = map wo_no (orders db) \<and> wo_no_seq db \<le> wo_no_seq db' \<or>
    map wo_no (orders db') = map wo_no (orders db) @ [genWorkOrderNo e (wo_no_seq db)] \<and> wo_no_seq db' = wo_no_seq db + 1"

lemma map_upd_where_same: "(\<And>x. f (g x) = f x) \<Longrightarrow> map f (upd_where c g xs) = map f xs"
  by (induction xs) auto

lemma number_step_refl [simp]: "number_step e db db"
  by (simp add: number_step_def)

lemma create_number: "number_step e db (snd (create rolls_back e c b db))"
proof (cases rule: create_outcome [of e c b db])
  case same
  then show ?thesis by simp
next
  case (failed p n)
  then show ?thesis using create_body_sequences [of db e c b p n] by (simp add: number_step_def keep_sequences_def)
next
  case (created p n v)
  have "number_step e db db'" if "create_body_trans e c b p n db = (Inr v, db')" for db'
    using that
    by (auto simp: number_step_def create_body_trans_def Let_def insert_order_def new_order_def insert_ops_sequences
        split: sum.splits if_splits prod.splits)
  then show ?thesis using created by blast
qed

lemma update_number: "number_step e db (snd (update rolls_back e i b db))"
proof -
  have "number_step e db (snd (update_trans e i b db))"
    by (auto simp: number_step_def update_trans_def Let_def update_row_def map_upd_where_same split: option.split field.split)
  then show ?thesis
    unfolding update_def by (intro transaction_keeps [where P = "number_step e db"]) (metis number_step_refl snd_conv)+
qed

lemma transit_number: "number_step e db (snd (transit rolls_back e i a db))"
proof -
  have "number_step e db (snd (transit_trans e i ev db))" for ev
    by (auto simp: number_step_def transit_trans_def Let_def transit_row_def map_upd_where_same split: option.split)
  then have "number_step e db (snd (transaction rolls_back ok msg (transit_trans e i ev) db))" for ok msg ev
    by (intro transaction_keeps [where P = "number_step e db"]) (metis number_step_refl snd_conv)+
  then show ?thesis by (simp add: transit_def split: sum.split)
qed

lemma report_number: "wo_inv db \<Longrightarrow> number_step e db (snd (report rolls_back e c i b db))"
proof -
  assume inv: "wo_inv db"
  have "number_step e db db'" if "report_trans e u i q db = (Inr fin, db')" for u q fin db'
    using inv that
    by (cases rule: report_trans_cases) (simp add: number_step_def reported_def map_upd_where_same bump_wo_def)
  then have "number_step e db (snd (transaction rolls_back ok msg (report_trans e u i q) db))" for ok msg u q
    by (intro transaction_keeps [where P = "number_step e db"]) simp_all
  then show ?thesis by (simp add: report_snd split: sum.split)
qed

lemma request_number: "wo_inv db \<Longrightarrow> number_step (call_env call) db (wo_step rolls_back call db)"
  by (cases call) (simp_all add: create_number update_number transit_number report_number)

text \<open>Every number in the table is that of an earlier value of the sequence.\<close>

definition numbered :: "wo_db \<Rightarrow> bool" where
  "numbered db \<longleftrightarrow> 1 \<le> wo_no_seq db \<and>
    (\<forall>no\<in>wo_no ` set (orders db). \<exists>e k. clock_ok e \<and> 1 \<le> k \<and> k < wo_no_seq db \<and> no = genWorkOrderNo e k)"

lemma numbered_step:
  assumes "numbered db" and "clock_ok e" and "number_step e db db'"
  shows "numbered db'"
proof -
  let ?no = "genWorkOrderNo e (wo_no_seq db)"
  have pos: "1 \<le> wo_no_seq db" using assms(1) by (simp add: numbered_def)
  have le: "wo_no_seq db \<le> wo_no_seq db'" using assms(3) unfolding number_step_def by linarith
  have new: "no \<in> wo_no ` set (orders db) \<or> no = ?no \<and> wo_no_seq db < wo_no_seq db'"
    if "no \<in> wo_no ` set (orders db')" for no
  proof -
    have "no \<in> set (map wo_no (orders db'))" using that by simp
    then show ?thesis using assms(3) unfolding number_step_def
      by (elim disjE conjE) (simp_all only: set_append set_map list.set Un_iff insert_iff empty_iff, simp_all)
  qed
  have "\<exists>f k. clock_ok f \<and> 1 \<le> k \<and> k < wo_no_seq db' \<and> no = genWorkOrderNo f k" if "no \<in> wo_no ` set (orders db')" for no
    using new [OF that]
  proof
    assume "no \<in> wo_no ` set (orders db)"
    then obtain f k where "clock_ok f" "1 \<le> k" "k < wo_no_seq db" "no = genWorkOrderNo f k"
      using assms(1) unfolding numbered_def by blast
    then have "clock_ok f \<and> 1 \<le> k \<and> k < wo_no_seq db' \<and> no = genWorkOrderNo f k" using le by (metis order_less_le_trans)
    then show ?thesis by blast
  next
    assume "no = ?no \<and> wo_no_seq db < wo_no_seq db'"
    then have "clock_ok e \<and> 1 \<le> wo_no_seq db \<and> wo_no_seq db < wo_no_seq db' \<and> no = ?no" using assms(2) pos by (intro conjI) (simp_all only:)
    then show ?thesis by blast
  qed
  moreover have "1 \<le> wo_no_seq db'" using pos le by (rule order_trans)
  ultimately show ?thesis unfolding numbered_def by blast
qed

lemma numbered_run:
  "wo_inv db \<Longrightarrow> numbered db \<Longrightarrow> (\<And>call. call \<in> set calls \<Longrightarrow> clock_ok (call_env call)) \<Longrightarrow>
    numbered (fold (wo_step rolls_back) calls db)"
proof (induction calls arbitrary: db)
  case (Cons call calls)
  note ok = Cons.prems(3) [OF list.set_intros(1)]
  have "numbered (wo_step rolls_back call db)"
    by (rule numbered_step [OF Cons.prems(2) ok request_number [OF Cons.prems(1)]])
  from Cons.IH [OF wo_machine.step_keeps [OF Cons.prems(1)] this] Cons.prems(3)
  show ?case by (simp only: fold_simps list.set_intros)
qed simp

text \<open>C35: a new work order never collides with an old one: after any sequence of requests from an empty table
  (created, changed, reported, rolled back), and whatever day the clock then shows, the number that the next
  creation generates is in no row, and every number fits in the buffer of 32 bytes.\<close>

theorem numbers_never_collide:
  assumes "fresh_db db" and "1 \<le> wo_no_seq db" and "\<forall>call\<in>set calls. clock_ok (call_env call)" and "clock_ok e"
    and "wo_no_seq (fold (wo_step rolls_back) calls db) < 2 ^ 63"
  shows "genWorkOrderNo e (wo_no_seq (fold (wo_step rolls_back) calls db)) \<notin>
      wo_no ` set (orders (fold (wo_step rolls_back) calls db)) \<and>
    (\<forall>no\<in>wo_no ` set (orders (fold (wo_step rolls_back) calls db)). length no < 32)"
proof -
  let ?d = "fold (wo_step rolls_back) calls db"
  have "numbered db" using assms(1,2) by (simp add: numbered_def fresh_db_def)
  then have n: "numbered ?d" using assms(3) fresh_inv [OF assms(1)] by (intro numbered_run) auto
  have old: "no \<noteq> genWorkOrderNo e (wo_no_seq ?d) \<and> length no < 32" if "no \<in> wo_no ` set (orders ?d)" for no
  proof -
    obtain f k where k: "clock_ok f" "1 \<le> k" "k < wo_no_seq ?d" "no = genWorkOrderNo f k"
      using n \<open>no \<in> _\<close> unfolding numbered_def by blast
    have b: "0 \<le> k" "k < 2 ^ 63" "0 \<le> wo_no_seq ?d" using k(2,3) assms(5) by linarith+
    have "no \<noteq> genWorkOrderNo e (wo_no_seq ?d)"
      using number_inject [OF k(1) b(1,2) assms(4) b(3) assms(5)] k(3,4) by (metis less_irrefl)
    then show ?thesis using number_text(2) [OF k(1) b(1,2)] k(4) by simp
  qed
  then show ?thesis by blast
qed

theorem numbers_never_collide_witness:
  "genWorkOrderNo demo_env (wo_no_seq (fold (wo_step rolls_back) demo_calls demo_db)) \<notin>
     wo_no ` set (orders (fold (wo_step rolls_back) demo_calls demo_db))"
proof -
  have "1 \<le> wo_no_seq demo_db" by (simp add: demo_db_def)
  moreover have ok: "clock_ok demo_env" by code_simp
  moreover have "\<forall>call\<in>set demo_calls. clock_ok (call_env call)" by (simp add: demo_calls_def ok)
  moreover have "wo_no_seq (fold (wo_step rolls_back) demo_calls demo_db) < 2 ^ 63"
    unfolding demo_running_def [symmetric] by code_simp
  ultimately show ?thesis using numbers_never_collide [OF demo_fresh] by blast
qed

end
