(* ===== verification/Cpu_Pool.thy ===== *)
theory Cpu_Pool
  imports Mes_Prelude "HOL-Library.Multiset"
begin

text \<open>
  The pool for long computations (\<open>utils/CpuOffload.hh\<close>): a queue of jobs, a fixed number of workers that never
  end, and the callbacks that are queued in the event loop of the application. The computation of a job is a
  parameter, None when it throws: nothing catches the exception in the worker's thread, which ends the process.
  A job carries the loop of the request it belongs to.
\<close>

section \<open>The pool\<close>

record 'a job =
  jb_id :: nat
  jb_loop :: nat
  jb_result :: "'a option"

record 'a pool =
  pl_queue :: "'a job list"
  pl_workers :: "'a job option list"
  pl_loop :: "'a job list"
  pl_called :: "('a job \<times> nat) list"
  pl_crashed :: bool

definition kMainLoop :: nat where
  "kMainLoop = 0"

text \<open>The number of workers, from the number of processors (0: unknown).\<close>

definition pool_size :: "nat \<Rightarrow> nat" where
  "pool_size processors = max 2 processors"

definition new_pool :: "nat \<Rightarrow> 'a pool" where
  "new_pool processors =
    \<lparr>pl_queue = [], pl_workers = replicate (pool_size processors) None, pl_loop = [], pl_called = [], pl_crashed = False\<rparr>"

definition submitCpuJob :: "'a job \<Rightarrow> 'a pool \<Rightarrow> 'a pool" where
  "submitCpuJob j p = p\<lparr>pl_queue := pl_queue p @ [j]\<rparr>"

text \<open>A worker that waits takes the first job; one with a job runs it and queues the callback; the loop calls back.\<close>

definition worker_take :: "nat \<Rightarrow> 'a pool \<Rightarrow> 'a pool option" where
  "worker_take i p =
    (case pl_queue p of
       [] \<Rightarrow> None
     | j # q \<Rightarrow> if i < length (pl_workers p) \<and> pl_workers p ! i = None
         then Some (p\<lparr>pl_queue := q, pl_workers := (pl_workers p)[i := Some j]\<rparr>) else None)"

definition worker_run :: "nat \<Rightarrow> 'a pool \<Rightarrow> 'a pool option" where
  "worker_run i p =
    (if i < length (pl_workers p)
     then case pl_workers p ! i of
         None \<Rightarrow> None
       | Some j \<Rightarrow> (case jb_result j of
             None \<Rightarrow> Some (p\<lparr>pl_crashed := True\<rparr>)
           | Some r \<Rightarrow> Some (p\<lparr>pl_workers := (pl_workers p)[i := None], pl_loop := pl_loop p @ [j]\<rparr>))
     else None)"

definition loop_call :: "'a pool \<Rightarrow> 'a pool option" where
  "loop_call p = (case pl_loop p of [] \<Rightarrow> None | j # l \<Rightarrow> Some (p\<lparr>pl_loop := l, pl_called := pl_called p @ [(j, kMainLoop)]\<rparr>))"

inductive pool_move :: "'a pool \<Rightarrow> 'a pool \<Rightarrow> bool" where
  take_job: "\<not> pl_crashed p \<Longrightarrow> worker_take i p = Some q \<Longrightarrow> pool_move p q"
| run_job: "\<not> pl_crashed p \<Longrightarrow> worker_run i p = Some q \<Longrightarrow> pool_move p q"
| call_back: "\<not> pl_crashed p \<Longrightarrow> loop_call p = Some q \<Longrightarrow> pool_move p q"

inductive_cases pool_moveE: "pool_move p q"

inductive pool_step :: "'a pool \<Rightarrow> 'a job list \<Rightarrow> 'a pool \<Rightarrow> bool" where
  nothing: "pool_step p [] p"
| submit: "pool_step p js q \<Longrightarrow> \<not> pl_crashed q \<Longrightarrow> pool_step p (js @ [j]) (submitCpuJob j q)"
| move: "pool_step p js q \<Longrightarrow> pool_move q r \<Longrightarrow> pool_step p js r"

section \<open>No job is lost\<close>

primrec held :: "'a option list \<Rightarrow> 'a multiset" where
  "held [] = {#}"
| "held (w # ws) = (case w of None \<Rightarrow> {#} | Some j \<Rightarrow> {#j#}) + held ws"

definition running :: "'a pool \<Rightarrow> 'a job multiset" where
  "running p = held (pl_workers p)"

definition jobs_of :: "'a pool \<Rightarrow> 'a job multiset" where
  "jobs_of p = mset (pl_queue p) + running p + mset (pl_loop p) + mset (map fst (pl_called p))"

lemma held_update:
  "i < length ws \<Longrightarrow> held (ws[i := w]) + (case ws ! i of None \<Rightarrow> {#} | Some j \<Rightarrow> {#j#}) =
    held ws + (case w of None \<Rightarrow> {#} | Some j \<Rightarrow> {#j#})"
proof (induction ws arbitrary: i)
  case (Cons v vs)
  then show ?case by (cases i) (auto simp: ac_simps)
qed simp

lemma held_none: "held ws = {#} \<longleftrightarrow> (\<forall>w\<in>set ws. w = None)"
  by (induction ws) (auto split: option.splits)

lemma held_idle [simp]: "held (replicate k None) = {#}"
  by (simp add: held_none)

definition left_to_do :: "'a pool \<Rightarrow> nat" where
  "left_to_do p = 3 * length (pl_queue p) + 2 * size (running p) + length (pl_loop p)"

text \<open>A move keeps the jobs and the workers, and leaves less to do, unless a computation throws.\<close>

lemma take_effect:
  assumes "worker_take i p = Some q"
  shows "jobs_of q = jobs_of p \<and> length (pl_workers q) = length (pl_workers p) \<and> pl_crashed q = pl_crashed p \<and>
    left_to_do q < left_to_do p \<and> pl_called q = pl_called p"
proof -
  obtain j l where c: "pl_queue p = j # l" "i < length (pl_workers p)" "pl_workers p ! i = None"
    "q = p\<lparr>pl_queue := l, pl_workers := (pl_workers p)[i := Some j]\<rparr>"
    using assms by (auto simp: worker_take_def split: list.splits if_splits)
  have "running q = running p + {#j#}"
    using held_update [OF c(2), of "Some j"] c(3,4) by (simp add: running_def)
  then show ?thesis using c by (simp add: jobs_of_def left_to_do_def)
qed

lemma run_effect:
  assumes "worker_run i p = Some q"
  shows "jobs_of q = jobs_of p \<and> length (pl_workers q) = length (pl_workers p) \<and> pl_called q = pl_called p \<and>
    (pl_crashed q = pl_crashed p \<and> left_to_do q < left_to_do p \<or> pl_crashed q \<and> (\<exists>j\<in>#jobs_of p. jb_result j = None))"
proof -
  obtain j where c: "i < length (pl_workers p)" "pl_workers p ! i = Some j"
    "q = (case jb_result j of None \<Rightarrow> p\<lparr>pl_crashed := True\<rparr>
        | Some r \<Rightarrow> p\<lparr>pl_workers := (pl_workers p)[i := None], pl_loop := pl_loop p @ [j]\<rparr>)"
    using assms by (auto simp: worker_run_def split: option.splits if_splits)
  have h: "held ((pl_workers p)[i := None]) + {#j#} = running p"
    using held_update [OF c(1), of None] c(2) by (simp add: running_def)
  show ?thesis
  proof (cases "jb_result j")
    case None
    have "j \<in># running p" using h by (metis union_iff union_single_eq_member)
    then show ?thesis using c(3) None by (auto simp: jobs_of_def running_def)
  next
    case (Some r)
    then have q: "q = p\<lparr>pl_workers := (pl_workers p)[i := None], pl_loop := pl_loop p @ [j]\<rparr>" using c(3) by simp
    have r: "running q + {#j#} = running p" using h by (simp add: q running_def)
    then have "size (running p) = Suc (size (running q))" by (metis size_add_mset union_mset_add_mset_right add.right_neutral)
    then show ?thesis using r by (simp add: q jobs_of_def left_to_do_def running_def ac_simps)
  qed
qed

lemma call_effect:
  assumes "loop_call p = Some q"
  shows "jobs_of q = jobs_of p \<and> length (pl_workers q) = length (pl_workers p) \<and> pl_crashed q = pl_crashed p \<and>
    left_to_do q < left_to_do p \<and> (\<exists>j. pl_called q = pl_called p @ [(j, kMainLoop)])"
  using assms by (auto simp: loop_call_def jobs_of_def left_to_do_def running_def split: list.splits)

lemmas move_effects = take_effect run_effect call_effect

lemma move_effect:
  assumes "pool_move p q"
  shows "jobs_of q = jobs_of p \<and> length (pl_workers q) = length (pl_workers p) \<and>
    (pl_crashed q \<and> (\<exists>j\<in>#jobs_of p. jb_result j = None) \<or> \<not> pl_crashed q \<and> left_to_do q < left_to_do p)"
  using assms by (cases rule: pool_moveE) (use move_effects in blast)+

text \<open>While something is left to do, a move is possible.\<close>

lemma move_possible:
  assumes "\<not> pl_crashed p" and "pl_workers p \<noteq> []" and "0 < left_to_do p"
  shows "\<exists>q. pool_move p q"
proof (cases "\<exists>i<length (pl_workers p). pl_workers p ! i \<noteq> None")
  case True
  then obtain i j where "i < length (pl_workers p)" "pl_workers p ! i = Some j" by blast
  then have "worker_run i p \<noteq> None" by (simp add: worker_run_def split: option.split)
  then show ?thesis using run_job [OF assms(1)] by blast
next
  case False
  then have idle: "\<forall>w\<in>set (pl_workers p). w = None" by (metis in_set_conv_nth)
  show ?thesis
  proof (cases "pl_loop p")
    case (Cons j l)
    then have "loop_call p \<noteq> None" by (simp add: loop_call_def)
    then show ?thesis using call_back [OF assms(1)] by blast
  next
    case Nil
    have "running p = {#}" using idle by (simp only: running_def held_none)
    then have "pl_queue p \<noteq> []" using assms(3) Nil by (simp add: left_to_do_def)
    moreover have "pl_workers p ! 0 = None" "0 < length (pl_workers p)" using False assms(2) by auto
    ultimately have "worker_take 0 p \<noteq> None" by (auto simp: worker_take_def neq_Nil_conv)
    then show ?thesis using take_job [OF assms(1)] by blast
  qed
qed

lemma step_jobs: "pool_step p js q \<Longrightarrow> jobs_of q = jobs_of p + mset js \<and> length (pl_workers q) = length (pl_workers p)"
proof (induction rule: pool_step.induct)
  case (submit p js q j)
  then show ?case by (simp add: submitCpuJob_def jobs_of_def running_def)
next
  case (move p js q r)
  then show ?case using move_effect [OF move.hyps(2)] by simp
qed simp

lemma step_crash:
  "pool_step p js q \<Longrightarrow> pl_crashed q \<Longrightarrow> pl_crashed p \<or> (\<exists>d\<in>#jobs_of q. jb_result d = None)"
proof (induction rule: pool_step.induct)
  case (submit p js q j)
  then show ?case by (simp add: submitCpuJob_def)
next
  case (move p js q r)
  then show ?case using move_effect [OF move.hyps(2)] by metis
qed simp

lemma move_called: "pool_move q r \<Longrightarrow> c \<in> set (pl_called r) \<Longrightarrow> c \<in> set (pl_called q) \<or> snd c = kMainLoop"
  by (erule pool_moveE) (use move_effects in fastforce)+

lemma step_called: "pool_step p js q \<Longrightarrow> c \<in> set (pl_called q) \<Longrightarrow> c \<in> set (pl_called p) \<or> snd c = kMainLoop"
proof (induction rule: pool_step.induct)
  case (submit p js q j)
  then show ?case by (simp add: submitCpuJob_def)
next
  case (move p js q r)
  then show ?case using move_called by blast
qed simp

text \<open>No computation is lost and none is done twice: from the empty pool, whatever is submitted and in
  whatever order the workers and the loop move, the jobs submitted are exactly those waiting, running, queued in
  the loop and called back; a pool of at least two workers never grows; every callback runs in the application's
  loop, whichever loop the request came from; and the process ends only when a computation throws.\<close>

theorem pool_keeps_every_job:
  assumes "pool_step (new_pool n) js p"
  shows "mset js = mset (pl_queue p) + running p + mset (pl_loop p) + mset (map fst (pl_called p)) \<and>
    length (pl_workers p) = pool_size n \<and> 2 \<le> length (pl_workers p) \<and>
    (\<forall>c\<in>set (pl_called p). snd c = kMainLoop) \<and>
    (pl_crashed p \<longrightarrow> (\<exists>j\<in>set js. jb_result j = None))"
proof -
  have "jobs_of (new_pool n) = ({#} :: 'a job multiset)" by (simp add: new_pool_def jobs_of_def running_def)
  then have j: "jobs_of p = mset js" "length (pl_workers p) = pool_size n"
    using step_jobs [OF assms] by (simp_all add: new_pool_def)
  have "\<forall>c\<in>set (pl_called p). snd c = kMainLoop" using step_called [OF assms] by (auto simp: new_pool_def)
  moreover have "pl_crashed p \<longrightarrow> (\<exists>j\<in>set js. jb_result j = None)" using step_crash [OF assms] j(1) by (auto simp: new_pool_def)
  ultimately show ?thesis using j by (simp add: jobs_of_def pool_size_def)
qed

definition demo_job :: "nat \<Rightarrow> nat \<Rightarrow> bool job" where
  "demo_job i l = \<lparr>jb_id = i, jb_loop = l, jb_result = Some True\<rparr>"

definition demo_pool :: "bool pool" where
  "demo_pool = \<lparr>pl_queue = [], pl_workers = [Some (demo_job 1 3), None], pl_loop = [], pl_called = [(demo_job 2 4, 0)], pl_crashed = False\<rparr>"

text \<open>Two jobs on two workers, and the second is called back first.\<close>

lemma demo_pool_reached: "pool_step (new_pool 1) [demo_job 1 3, demo_job 2 4] demo_pool"
proof -
  let ?p2 = "submitCpuJob (demo_job 2 4) (submitCpuJob (demo_job 1 3) (new_pool 1))"
  have s: "pool_step (new_pool 1) ([] @ [demo_job 1 3] @ [demo_job 2 4]) ?p2"
    unfolding append_assoc [symmetric] by (intro pool_step.intros) (simp_all add: new_pool_def submitCpuJob_def)
  have t: "pool_step (new_pool 1) [demo_job 1 3, demo_job 2 4] r" if "pool_step (new_pool 1) [demo_job 1 3, demo_job 2 4] q" "pool_move q r" for q r
    using that by (rule pool_step.move)
  let ?p3 = "the (worker_take 0 ?p2)"
  let ?p4 = "the (worker_take 1 ?p3)"
  let ?p5 = "the (worker_run 1 ?p4)"
  note defs = new_pool_def submitCpuJob_def pool_size_def worker_take_def worker_run_def loop_call_def demo_job_def eval_nat_numeral
  have m: "pool_move ?p2 ?p3" "pool_move ?p3 ?p4"
    by (rule take_job [where i = 0]; simp add: defs) (rule take_job [where i = 1]; simp add: defs)
  have n: "pool_move ?p4 ?p5" by (rule run_job [where i = 1]; simp add: defs)
  have "pool_move ?p5 demo_pool" by (rule call_back; simp add: defs demo_pool_def kMainLoop_def)
  then show ?thesis using s m n t by (metis append_Cons append_Nil)
qed

theorem pool_keeps_every_job_witness:
  "mset [demo_job 1 3, demo_job 2 4] = running demo_pool + mset (map fst (pl_called demo_pool)) \<and>
   (\<forall>c\<in>set [(demo_job 2 4, 0)]. snd c = kMainLoop)"
  using pool_keeps_every_job [OF demo_pool_reached] by (simp add: demo_pool_def)

text \<open>C40: the pool drains: when no computation throws, every sequence of moves from a reachable state is finite,
  with at most three moves for each job, and where it stops every job submitted has been called back.\<close>

theorem pool_drains:
  assumes "pool_step (new_pool n) js p" and "\<forall>j\<in>set js. jb_result j \<noteq> None"
  shows "left_to_do p \<le> 3 * length js \<and>
    (\<forall>q. pool_move p q \<longrightarrow> left_to_do q < left_to_do p) \<and>
    ((\<nexists>q. pool_move p q) \<longrightarrow> mset (map fst (pl_called p)) = mset js)"
proof -
  have j: "jobs_of p = mset js" and w: "pl_workers p \<noteq> []"
    using step_jobs [OF assms(1)] by (auto simp: new_pool_def jobs_of_def running_def pool_size_def simp flip: length_greater_0_conv)
  have ok: "\<forall>d\<in>#jobs_of p. jb_result d \<noteq> None" using assms(2) j by simp
  have "\<not> pl_crashed (new_pool n)" by (simp add: new_pool_def)
  then have c: "\<not> pl_crashed p" using step_crash [OF assms(1)] ok by blast
  have "size (jobs_of p) = length js" using j by simp
  then have "left_to_do p \<le> 3 * length js" by (simp add: jobs_of_def left_to_do_def)
  moreover have "left_to_do q < left_to_do p" if "pool_move p q" for q using move_effect [OF that] ok by blast
  moreover have "mset (map fst (pl_called p)) = mset js" if "\<nexists>q. pool_move p q"
  proof -
    have "left_to_do p = 0" using move_possible [OF c w] that by blast
    then show ?thesis using j by (simp add: left_to_do_def jobs_of_def)
  qed
  ultimately show ?thesis by blast
qed

theorem pool_drains_witness:
  "left_to_do demo_pool \<le> 6 \<and> (\<forall>q. pool_move demo_pool q = (pool_move demo_pool q \<and> left_to_do q < left_to_do demo_pool))"
  using pool_drains [OF demo_pool_reached] by (simp add: demo_job_def) blast

end
