(* ===== verification/Captcha_Svg.thy ===== *)
theory Captcha_Svg
  imports Captcha Sql_Args
begin

text \<open>
  The picture of a captcha (\<open>renderSvg\<close> and \<open>svgDataUri\<close> of \<open>utils/Captcha.hh\<close>): three lines, a text element for
  each character and forty dots, each written into a buffer of its own with \<open>snprintf\<close> and appended as a C string.
  The random numbers drawn are parameters, with the ranges of their distributions as a predicate.
\<close>

section \<open>The elements\<close>

text \<open>\<open>%.1f\<close> and \<open>%02d\<close>; what \<open>snprintf\<close> leaves in a buffer; what \<open>operator+=\<close> appends of it.\<close>

definition one_decimal :: "rat \<Rightarrow> string" where
  "one_decimal v =
    (let t = round_even (\<bar>v\<bar> * 10) in
     (if v < 0 then ''-'' else []) @ to_string (t div 10) @ ''.'' @ to_string (t mod 10))"

definition in_buffer :: "nat \<Rightarrow> string \<Rightarrow> string" where
  "in_buffer n s = take (n - 1) s"

definition c_string :: "string \<Rightarrow> string" where
  "c_string s = takeWhile (\<lambda>c. c \<noteq> CHR 0x00) s"

record svg_line =
  ln_x1 :: rat
  ln_y1 :: rat
  ln_x2 :: rat
  ln_y2 :: rat
  ln_alpha :: int

record svg_char =
  ch_x :: rat
  ch_y :: rat
  ch_rot :: rat
  ch_size :: int
  ch_color :: nat

record svg_dot =
  dt_x :: rat
  dt_y :: rat
  dt_noise :: int

definition quoted :: "string \<Rightarrow> string" where
  "quoted s = CHR 0x22 # s @ [CHR 0x22]"

definition attr :: "string \<Rightarrow> string \<Rightarrow> string" where
  "attr k v = k @ ''='' @ quoted v"

definition svg_colors :: "string list" where
  "svg_colors = [''#2c5f8a'', ''#8a4b2c'', ''#2c8a4b'', ''#6b2c8a'', ''#8a2c4b'', ''#3a6b8a'']"

definition line_element :: "svg_line \<Rightarrow> string" where
  "line_element l =
    ''<line '' @ attr ''x1'' (one_decimal (ln_x1 l)) @ '' '' @ attr ''y1'' (one_decimal (ln_y1 l)) @ '' '' @
    attr ''x2'' (one_decimal (ln_x2 l)) @ '' '' @ attr ''y2'' (one_decimal (ln_y2 l)) @ '' '' @ attr ''stroke'' ''#9aa4b0'' @ '' '' @
    attr ''stroke-opacity'' (''0.'' @ pad_num 2 (ln_alpha l)) @ '' '' @ attr ''stroke-width'' ''1'' @ ''/>''"

definition char_element :: "nat \<Rightarrow> char \<Rightarrow> svg_char \<Rightarrow> string" where
  "char_element i c d =
    ''<text '' @ attr ''x'' (one_decimal (ch_x d + of_nat (i * 26))) @ '' '' @ attr ''y'' (one_decimal (ch_y d)) @ '' '' @
    attr ''transform'' (''rotate('' @ one_decimal (ch_rot d) @ '' '' @ to_string (20 + int (i * 26)) @ '' 20)'') @ '' '' @
    attr ''font-family'' ''monospace'' @ '' '' @ attr ''font-size'' (to_string (ch_size d)) @ '' '' @
    attr ''font-weight'' ''bold'' @ '' '' @ attr ''fill'' (svg_colors ! (ch_color d mod 6)) @ ''>'' @ [c] @ ''</text>''"

definition dot_element :: "svg_dot \<Rightarrow> string" where
  "dot_element d =
    ''<circle '' @ attr ''cx'' (one_decimal (dt_x d)) @ '' '' @ attr ''cy'' (one_decimal (dt_y d)) @ '' '' @ attr ''r'' ''0.8'' @ '' '' @
    attr ''fill'' ''#6b7280'' @ '' '' @ attr ''fill-opacity'' (''0.'' @ pad_num 2 (dt_noise d mod 90 + 5)) @ ''/>''"

definition svg_head :: string where
  "svg_head =
    ''<svg '' @ attr ''xmlns'' ''http://www.w3.org/2000/svg'' @ '' '' @ attr ''width'' ''120'' @ '' '' @ attr ''height'' ''40'' @ '' '' @
    attr ''viewBox'' ''0 0 120 40'' @ ''>'' @
    ''<rect '' @ attr ''width'' ''120'' @ '' '' @ attr ''height'' ''40'' @ '' '' @ attr ''fill'' ''#f5f6f8'' @ '' '' @ attr ''rx'' ''4'' @ ''/>''"

record svg_draws =
  dw_lines :: "svg_line list"
  dw_chars :: "nat \<Rightarrow> svg_char"
  dw_dots :: "svg_dot list"

definition renderSvg :: "svg_draws \<Rightarrow> string \<Rightarrow> string" where
  "renderSvg w code =
    svg_head @ concat (map (\<lambda>l. c_string (in_buffer 160 (line_element l))) (dw_lines w)) @
    concat (map (\<lambda>(i, c). c_string (in_buffer 200 (char_element i c (dw_chars w i)))) (enumerate 0 code)) @
    concat (map (\<lambda>d. c_string (in_buffer 80 (dot_element d))) (dw_dots w)) @ ''</svg>''"

definition svgDataUri :: "svg_draws \<Rightarrow> string \<Rightarrow> string" where
  "svgDataUri w code = ''data:image/svg+xml;base64,'' @ base64Encode (renderSvg w code)"

text \<open>The ranges of the distributions.\<close>

definition between :: "rat \<Rightarrow> rat \<Rightarrow> rat \<Rightarrow> bool" where
  "between a b v \<longleftrightarrow> a \<le> v \<and> v \<le> b"

definition draws_ok :: "svg_draws \<Rightarrow> bool" where
  "draws_ok w \<longleftrightarrow>
    length (dw_lines w) = 3 \<and> length (dw_dots w) = 40 \<and>
    (\<forall>l\<in>set (dw_lines w). between 0 30 (ln_x1 l) \<and> between 0 40 (ln_y1 l) \<and> between 90 120 (ln_x2 l) \<and> between 0 40 (ln_y2 l) \<and>
       40 \<le> ln_alpha l \<and> ln_alpha l \<le> 120) \<and>
    (\<forall>i. between 8 22 (ch_x (dw_chars w i)) \<and> between 26 34 (ch_y (dw_chars w i)) \<and> between (- 18) 18 (ch_rot (dw_chars w i)) \<and>
       20 \<le> ch_size (dw_chars w i) \<and> ch_size (dw_chars w i) \<le> 24 \<and> ch_color (dw_chars w i) \<le> 5) \<and>
    (\<forall>d\<in>set (dw_dots w). between 0 120 (dt_x d) \<and> between 0 40 (dt_y d) \<and> 0 \<le> dt_noise d \<and> dt_noise d \<le> 255)"

section \<open>The buffers are large enough\<close>

lemma round_even_range:
  assumes "0 \<le> v" and "v \<le> of_int k"
  shows "0 \<le> round_even v" and "round_even v \<le> k"
proof -
  have "0 \<le> \<lfloor>v\<rfloor>" using assms(1) by simp
  then show "0 \<le> round_even v" using round_even_cases [of v] by linarith
  show "round_even v \<le> k" using assms(2) by (rule round_even_le)
qed

lemma to_string_length: "0 \<le> i \<Longrightarrow> i < 10 ^ Suc k \<Longrightarrow> length (to_string i) \<le> Suc k"
  using nat_digits_length [of "nat i" k] by (simp add: to_string_def nat_less_iff)

lemma to_string_plain: "CHR 0x00 \<notin> set (to_string i)"
  using digit_codes [of "CHR 0x00"] by (auto simp: to_string_def)

lemma pad_num_plain: "CHR 0x00 \<notin> set (pad_num w i)"
  using to_string_plain by (simp add: pad_num_def)

lemma pad_num_length: "0 \<le> i \<Longrightarrow> i < 10 ^ Suc k \<Longrightarrow> length (pad_num w i) \<le> max w (Suc k)"
  using to_string_length [of i k] by (simp add: pad_num_def)

lemma one_decimal_plain: "CHR 0x00 \<notin> set (one_decimal v)"
  using to_string_plain by (simp add: one_decimal_def Let_def)

lemma one_decimal_length: "\<bar>v\<bar> \<le> 120 \<Longrightarrow> length (one_decimal v) \<le> (if v < 0 then 6 else 5)"
proof -
  assume v: "\<bar>v\<bar> \<le> 120"
  define t where "t = round_even (\<bar>v\<bar> * 10)"
  have t: "0 \<le> t" "t \<le> 1200" using round_even_range [of "\<bar>v\<bar> * 10" 1200] v by (simp_all add: t_def)
  have "t div 10 \<le> 1200 div 10" using t(2) by (rule zdiv_mono1) simp
  then have "length (to_string (t div 10)) \<le> Suc 2" using t(1) by (intro to_string_length) (simp_all add: pos_imp_zdiv_nonneg_iff)
  moreover have "length (to_string (t mod 10)) \<le> Suc 0" by (rule to_string_length) simp_all
  ultimately show ?thesis by (simp add: one_decimal_def t_def [symmetric])
qed

lemma attr_length: "length (attr k v) = length k + length v + 3"
  by (simp add: attr_def quoted_def)

lemma attr_plain: "CHR 0x00 \<notin> set k \<Longrightarrow> CHR 0x00 \<notin> set v \<Longrightarrow> CHR 0x00 \<notin> set (attr k v)"
  by (simp add: attr_def quoted_def)

lemma kept_whole: "length s < n \<Longrightarrow> CHR 0x00 \<notin> set s \<Longrightarrow> c_string (in_buffer n s) = s"
  by (auto simp: c_string_def in_buffer_def takeWhile_eq_all_conv)

lemma colors_plain: "CHR 0x00 \<notin> set (svg_colors ! (k mod 6))" and colors_length: "length (svg_colors ! (k mod 6)) = 7"
proof -
  have "k mod 6 < length svg_colors" by (simp add: svg_colors_def)
  then have "svg_colors ! (k mod 6) \<in> set svg_colors" by (rule nth_mem)
  moreover have "\<forall>s\<in>set svg_colors. CHR 0x00 \<notin> set s \<and> length s = 7" by (simp add: svg_colors_def)
  ultimately show "CHR 0x00 \<notin> set (svg_colors ! (k mod 6))" "length (svg_colors ! (k mod 6)) = 7" by blast+
qed

lemmas plain_elements = one_decimal_plain pad_num_plain to_string_plain colors_plain

lemma line_whole:
  assumes "draws_ok w" and "l \<in> set (dw_lines w)"
  shows "c_string (in_buffer 160 (line_element l)) = line_element l"
proof (rule kept_whole)
  have r: "between 0 30 (ln_x1 l)" "between 0 40 (ln_y1 l)" "between 90 120 (ln_x2 l)" "between 0 40 (ln_y2 l)"
    "40 \<le> ln_alpha l" "ln_alpha l \<le> 120" using assms by (auto simp: draws_ok_def)
  have "length (one_decimal (ln_x1 l)) \<le> 5" "length (one_decimal (ln_y1 l)) \<le> 5"
    "length (one_decimal (ln_x2 l)) \<le> 5" "length (one_decimal (ln_y2 l)) \<le> 5"
    using r one_decimal_length [of "ln_x1 l"] one_decimal_length [of "ln_y1 l"] one_decimal_length [of "ln_x2 l"]
      one_decimal_length [of "ln_y2 l"] by (simp_all add: between_def)
  moreover have "length (pad_num 2 (ln_alpha l)) \<le> max 2 (Suc 2)" using r by (intro pad_num_length) simp_all
  ultimately show "length (line_element l) < 160" by (simp add: line_element_def attr_length)
  show "CHR 0x00 \<notin> set (line_element l)" by (simp add: line_element_def attr_plain plain_elements)
qed

lemma dot_whole:
  assumes "draws_ok w" and "d \<in> set (dw_dots w)"
  shows "c_string (in_buffer 80 (dot_element d)) = dot_element d"
proof (rule kept_whole)
  have r: "between 0 120 (dt_x d)" "between 0 40 (dt_y d)" using assms by (auto simp: draws_ok_def)
  have "length (one_decimal (dt_x d)) \<le> 5" "length (one_decimal (dt_y d)) \<le> 5"
    using r one_decimal_length [of "dt_x d"] one_decimal_length [of "dt_y d"] by (simp_all add: between_def)
  moreover have "length (pad_num 2 (dt_noise d mod 90 + 5)) \<le> max 2 (Suc 1)"
  proof (rule pad_num_length)
    have "dt_noise d mod 90 < 90" by simp
    then have "dt_noise d mod 90 + 5 < 100" by linarith
    then show "dt_noise d mod 90 + 5 < 10 ^ Suc 1" by simp
    have "0 \<le> dt_noise d mod 90" by simp
    then show "0 \<le> dt_noise d mod 90 + 5" by linarith
  qed
  ultimately show "length (dot_element d) < 80" by (simp add: dot_element_def attr_length)
  show "CHR 0x00 \<notin> set (dot_element d)" by (simp add: dot_element_def attr_plain plain_elements)
qed

definition char_start :: "nat \<Rightarrow> svg_char \<Rightarrow> string" where
  "char_start i d =
    ''<text '' @ attr ''x'' (one_decimal (ch_x d + of_nat (i * 26))) @ '' '' @ attr ''y'' (one_decimal (ch_y d)) @ '' '' @
    attr ''transform'' (''rotate('' @ one_decimal (ch_rot d) @ '' '' @ to_string (20 + int (i * 26)) @ '' 20)'') @ '' '' @
    attr ''font-family'' ''monospace'' @ '' '' @ attr ''font-size'' (to_string (ch_size d)) @ '' '' @
    attr ''font-weight'' ''bold'' @ '' '' @ attr ''fill'' (svg_colors ! (ch_color d mod 6)) @ ''>''"

lemma char_parts: "char_element i c d = char_start i d @ c # ''</text>''"
  by (simp add: char_element_def char_start_def)

lemma char_start_facts:
  assumes "draws_ok w" and "i < 4"
  shows "length (char_start i (dw_chars w i)) \<le> 180" and "CHR 0x00 \<notin> set (char_start i (dw_chars w i))"
proof -
  let ?d = "dw_chars w i"
  have r: "between 8 22 (ch_x ?d)" "between 26 34 (ch_y ?d)" "between (- 18) 18 (ch_rot ?d)" "20 \<le> ch_size ?d" "ch_size ?d \<le> 24"
    using assms(1) by (auto simp: draws_ok_def)
  have "i * 26 \<le> 78" using assms(2) by simp
  then have "(of_nat (i * 26) :: rat) \<le> of_nat 78" by (simp only: of_nat_le_iff)
  then have "\<bar>ch_x ?d + of_nat (i * 26)\<bar> \<le> 120" using r(1) by (simp add: between_def)
  from one_decimal_length [OF this] have "length (one_decimal (ch_x ?d + of_nat (i * 26))) \<le> 6" by (simp split: if_splits)
  moreover have "\<bar>ch_y ?d\<bar> \<le> 120" "\<bar>ch_rot ?d\<bar> \<le> 120" using r by (auto simp: between_def abs_le_iff)
  then have "length (one_decimal (ch_y ?d)) \<le> 6" "length (one_decimal (ch_rot ?d)) \<le> 6"
    using one_decimal_length [of "ch_y ?d"] one_decimal_length [of "ch_rot ?d"] by (simp_all split: if_splits)
  moreover have "length (to_string (20 + int (i * 26))) \<le> Suc 2" "length (to_string (ch_size ?d)) \<le> Suc 1"
    using assms(2) r by (intro to_string_length; simp)+
  ultimately show "length (char_start i ?d) \<le> 180" by (simp add: char_start_def attr_length colors_length)
  show "CHR 0x00 \<notin> set (char_start i ?d)" by (simp add: char_start_def attr_plain plain_elements)
qed

text \<open>A character of the code is drawn whole; the NUL leaves its text element without an end.\<close>

lemma char_drawn:
  assumes "draws_ok w" and "i < 4"
  shows "c_string (in_buffer 200 (char_element i c (dw_chars w i))) =
    (if c = CHR 0x00 then char_start i (dw_chars w i) else char_element i c (dw_chars w i))"
proof -
  have "length (char_element i c (dw_chars w i)) < 200" using char_start_facts(1) [OF assms] by (simp add: char_parts)
  then have "c_string (in_buffer 200 (char_element i c (dw_chars w i))) = c_string (char_element i c (dw_chars w i))"
    by (simp add: in_buffer_def)
  also have "\<dots> = char_start i (dw_chars w i) @ takeWhile (\<lambda>c. c \<noteq> CHR 0x00) (c # ''</text>'')"
    unfolding c_string_def char_parts using char_start_facts(2) [OF assms] by (intro takeWhile_append2) auto
  finally show ?thesis by (simp add: char_parts)
qed

lemma map_enumerate_cong: "(\<And>i c. i < n + length cs \<Longrightarrow> f i c = g i c) \<Longrightarrow> map (\<lambda>(i, c). f i c) (enumerate n cs) = map (\<lambda>(i, c). g i c) (enumerate n cs)"
  by (auto simp: in_set_enumerate_eq)

text \<open>The picture of a captcha: for every outcome of the random draws none of its 47 elements is cut by its
  buffer, so for a code of four letters the picture is the head, the three lines, the four characters, the forty
  dots and the end, and the data URI decodes to it; but a NUL in the code (see \<open>captcha_can_contain_nul\<close>) drops
  the end of its text element, and the document is not well formed.\<close>

theorem picture_drawn:
  assumes "draws_ok w" and "length code \<le> 4"
  shows "renderSvg w code =
      svg_head @ concat (map line_element (dw_lines w)) @
      concat (map (\<lambda>(i, c). if c = CHR 0x00 then char_start i (dw_chars w i) else char_start i (dw_chars w i) @ c # ''</text>'')
        (enumerate 0 code)) @
      concat (map dot_element (dw_dots w)) @ ''</svg>'' \<and>
    base64Decode (drop 26 (svgDataUri w code)) = renderSvg w code"
proof -
  have l: "map (\<lambda>l. c_string (in_buffer 160 (line_element l))) (dw_lines w) = map line_element (dw_lines w)"
    by (rule map_cong) (simp_all add: line_whole [OF assms(1)])
  have d: "map (\<lambda>d. c_string (in_buffer 80 (dot_element d))) (dw_dots w) = map dot_element (dw_dots w)"
    by (rule map_cong) (simp_all add: dot_whole [OF assms(1)])
  have c: "map (\<lambda>(i, c). c_string (in_buffer 200 (char_element i c (dw_chars w i)))) (enumerate 0 code) =
      map (\<lambda>(i, c). if c = CHR 0x00 then char_start i (dw_chars w i) else char_start i (dw_chars w i) @ c # ''</text>'') (enumerate 0 code)"
    by (rule map_enumerate_cong) (use assms(2) char_drawn [OF assms(1)] in \<open>simp add: char_parts\<close>)
  have "drop 26 (svgDataUri w code) = base64Encode (renderSvg w code)"
    by (simp add: svgDataUri_def)
  then show ?thesis unfolding renderSvg_def l c d by (simp add: base64_roundtrip)
qed

definition demo_draws :: svg_draws where
  "demo_draws =
    \<lparr>dw_lines = replicate 3 \<lparr>ln_x1 = 1 / 3, ln_y1 = 40, ln_x2 = 120, ln_y2 = 0, ln_alpha = 120\<rparr>,
     dw_chars = (\<lambda>i. \<lparr>ch_x = 8, ch_y = 30, ch_rot = - 18, ch_size = 22, ch_color = 5\<rparr>),
     dw_dots = replicate 40 \<lparr>dt_x = 120, dt_y = 40, dt_noise = 89\<rparr>\<rparr>"

text \<open>The opacity is written after ''0.'', so a drawn value of 100 or more makes a line fainter, not denser: 120 is
  written as 0.120.\<close>

theorem picture_drawn_witness:
  "base64Decode (drop 26 (svgDataUri demo_draws ''AB2'')) = renderSvg demo_draws ''AB2'' \<and>
   ''0.'' @ pad_num 2 (ln_alpha (hd (dw_lines demo_draws))) = ''0.120''"
proof -
  have "draws_ok demo_draws" by (simp add: draws_ok_def demo_draws_def between_def)
  moreover have "length ''AB2'' \<le> 4" by simp
  moreover have "''0.'' @ pad_num 2 (ln_alpha (hd (dw_lines demo_draws))) = ''0.120''" by code_simp
  ultimately show ?thesis using picture_drawn by blast
qed

end
