(* ===== verification/Row_Views.thy ===== *)
theory Row_Views
  imports Config_Loader Iot_Devices Quality Integration
begin

text \<open>
  What the clients see of the stored rows: the JSON of a sensor (\<open>sensorRow\<close> of \<open>services/IotService.cc\<close>), of a
  defect (\<open>defectRow\<close> of \<open>services/QcService.cc\<close>) and of a synchronisation log (\<open>logArr\<close> of
  \<open>services/IntegrationService.cc\<close>), and what the collector would make of a sensor. The text of a time is a
  parameter.
\<close>

definition optStr :: "string option \<Rightarrow> json" where
  "optStr v = JStr (or_else v [])"

definition optReal :: "rat option \<Rightarrow> json" where
  "optReal v = (case v of None \<Rightarrow> JNull | Some x \<Rightarrow> JReal x)"

definition sensorRow :: "sensor \<Rightarrow> json" where
  "sensorRow n =
    JObj [(''id'', JInt (sn_id n)), (''device_id'', JInt (sn_device n)), (''sensor_code'', JStr (sn_code n)),
      (''sensor_name'', JStr (sn_name n)), (''data_type'', JStr (sn_dtype n)), (''unit'', optStr (sn_unit n)),
      (''register_addr'', optStr (sn_register n)), (''min_value'', optReal (sn_min n)), (''max_value'', optReal (sn_max n)),
      (''alarm_low'', optReal (sn_low n)), (''alarm_high'', optReal (sn_high n)), (''sample_interval'', JInt (sn_interval n)),
      (''is_key_metric'', JBool (sn_key n)), (''status'', JInt (sn_status n))]"

definition defectRow :: "(int \<Rightarrow> string) \<Rightarrow> defect \<Rightarrow> json" where
  "defectRow text d =
    JObj [(''id'', JInt (df_id d)), (''inspection_id'', JInt (df_inspection d)), (''work_order_id'', JInt (or_else (df_order d) 0)),
      (''defect_code'', JStr (df_code d)), (''defect_name'', JStr (df_name d)), (''defect_category'', optStr (df_category d)),
      (''quantity'', JInt (df_quantity d)), (''severity'', JInt (df_severity d)), (''disposition'', JInt (df_disposition d)),
      (''root_cause'', optStr (df_root d)), (''corrective_action'', optStr (df_action d)), (''created_at'', JStr (text (df_at d)))]"

definition logRow :: "(sync_log \<Rightarrow> string) \<Rightarrow> sync_log \<Rightarrow> json" where
  "logRow text l =
    JObj [(''id'', JInt (sl_id l)), (''system_type'', JStr (sl_system l)), (''sync_direction'', JInt (sl_direction l)),
      (''sync_type'', JStr (sl_type l)), (''business_id'', JInt (sl_business l)), (''request_url'', JStr (sl_url l)),
      (''http_status'', JInt (sl_http l)), (''duration_ms'', JInt (sl_duration l)), (''status'', JInt (sl_status l)),
      (''retry_count'', JInt (sl_retry l)), (''error_msg'', JStr (sl_error l)), (''created_at'', JStr (text l))]"

definition logArr :: "(sync_log \<Rightarrow> string) \<Rightarrow> sync_log list \<Rightarrow> json" where
  "logArr text ls = JArr (map (logRow text) ls)"

text \<open>A disposed defect differs from an open one in what a client reads; the two limits behind the limits, the
  scale and the offset of a sensor, which a client can set, are in no answer.\<close>

lemma hidden_settings: "sensorRow (n\<lparr>sn_scale := a, sn_offset := b, sn_lowlow := c, sn_highhigh := d\<rparr>) = sensorRow n"
  by (simp add: sensorRow_def)

lemma row_members:
  "member ''id'' (sensorRow n) = Some (JInt (sn_id n))" "member ''scale_factor'' (sensorRow n) = None"
  "member ''id'' (defectRow t d) = Some (JInt (df_id d))" "member ''disposition'' (defectRow t d) = Some (JInt (df_disposition d))"
  by (simp_all add: sensorRow_def defectRow_def)

text \<open>A sensor between the two programs: whatever scale, offset and limits are stored for a sensor (its interval in an INT column), a collector
  that accepts the sensor of the backend's answer takes its identifier, code, name, type, unit and interval, and
  reads it with the scale 1: the stored scale is not in the answer and the collector falls back to its default.\<close>

theorem collector_reads_scale_one:
  assumes "load_sensor (sensorRow n) = Keep s" and "int32_ok (sn_interval n)"
  shows "sg_id s = sn_id n \<and> sg_code s = sn_code n \<and> sensor_config.sg_name s = sn_name n \<and> sg_type s = sn_dtype n \<and>
    sensor_config.sg_unit s = or_else (sn_unit n) [] \<and> sensor_config.sg_interval s = sn_interval n \<and>
    stoi (or_else (sn_register n) []) = Some (sg_addr s) \<and> 0 < sg_id s \<and> 0 < sg_addr s \<and>
    sensor_config.sg_scale s = 1"
  using assms
  by (auto simp: load_sensor_def sensorRow_def optStr_def field_of_def to_int32_id split: option.splits if_splits)

definition demo_scaled :: sensor where
  "demo_scaled = \<lparr>sn_id = 3, sn_device = 7, sn_code = ''T1'', sn_name = ''temp'', sn_dtype = ''int16'', sn_unit = None,
    sn_register = Some ''40001'', sn_scale = 1 / 10, sn_offset = 0, sn_min = None, sn_max = None, sn_low = None, sn_high = Some 90,
    sn_lowlow = None, sn_highhigh = None, sn_interval = 500, sn_key = False, sn_status = 1, sn_deleted = False\<rparr>"

theorem collector_reads_scale_one_witness:
  "\<exists>s. load_sensor (sensorRow demo_scaled) = Keep s \<and> sg_addr s = 40001 \<and> sensor_config.sg_scale s = 1 \<and> sn_scale demo_scaled = 1 / 10"
proof -
  have "load_sensor (sensorRow demo_scaled) = Keep \<lparr>sg_id = 3, sg_code = ''T1'', sg_name = ''temp'', sg_type = ''int16'', sg_unit = [],
      sg_addr = 40001, sg_scale = 1, sg_interval = 500\<rparr>"
    by code_simp
  moreover have "int32_ok (sn_interval demo_scaled)" by (simp add: demo_scaled_def int32_ok_def)
  ultimately have "sensor_config.sg_scale \<lparr>sg_id = 3, sg_code = ''T1'', sg_name = ''temp'', sg_type = ''int16'', sg_unit = [],
      sg_addr = 40001, sg_scale = 1, sg_interval = 500\<rparr> = 1"
    using collector_reads_scale_one by blast
  then show ?thesis using \<open>load_sensor (sensorRow demo_scaled) = _\<close> by (simp add: demo_scaled_def)
qed

end
