(* ===== verification/Ingest_Batch.thy ===== *)
theory Ingest_Batch
  imports Ingest_Props Sql_Args
begin

text \<open>
  The batches of the ingestion (\<open>flushBatch\<close> and the loop of \<open>mq/DataIngestHandler.cc\<close>): the statement and the
  parameters of a batch, and what the broker's prefetch makes of the size of the batches.
\<close>

section \<open>The statement of a batch\<close>

text \<open>The numbers of the parameters of one row, from the row's index.\<close>

definition row_numbers :: "nat \<Rightarrow> nat list" where
  "row_numbers i = (let base = i * 6 + 1 in [base, base + 1, base + 2, base + 3, base + 4, base + 5])"

fun placeholders :: "nat list \<Rightarrow> string" where
  "placeholders [] = []"
| "placeholders [k] = ''$'' @ to_string (int k)"
| "placeholders (k # ks) = ''$'' @ to_string (int k) @ '','' @ placeholders ks"

definition row_values :: "nat \<Rightarrow> string" where
  "row_values i = ''('' @ placeholders (row_numbers i) @ '')''"

fun comma_list :: "string list \<Rightarrow> string" where
  "comma_list [] = []"
| "comma_list [s] = s"
| "comma_list (s # ss) = s @ '','' @ comma_list ss"

definition batch_sql :: "nat \<Rightarrow> string" where
  "batch_sql count =
    ''INSERT INTO iot_raw_data (device_id, sensor_id, value_num, value_str, quality, collected_at) VALUES '' @
    comma_list (map row_values [0..<count])"

definition row_params :: "reading \<Rightarrow> raw_param list" where
  "row_params r =
    [SqlArg_int (rd_device r), SqlArg_int (rd_sensor r)] @
    (case rd_num r of Some v \<Rightarrow> [SqlArg_double v, SqlArgNull] | None \<Rightarrow> [SqlArgNull, SqlArg_string (rd_str r)]) @
    [SqlArg_int (rd_quality r), SqlArg_string (rd_ts r)]"

definition batch_params :: "reading list \<Rightarrow> raw_param list" where
  "batch_params rows = concat (map row_params rows)"

lemma row_params_length [simp]: "length (row_params r) = 6"
  by (simp add: row_params_def split: option.split)

lemma batch_params_length: "length (batch_params rows) = 6 * length rows"
  by (induction rows) (simp_all add: batch_params_def)

lemma batch_numbers: "concat (map row_numbers [0..<n]) = [1..<6 * n + 1]"
proof (induction n)
  case (Suc n)
  have "[1..<6 * Suc n + 1] = [1..<6 * n + 1] @ [6 * n + 1..<6 * n + 1 + 6]"
    using upt_add_eq_append [of 1 "6 * n + 1" 6] by (simp add: algebra_simps)
  moreover have "[6 * n + 1..<6 * n + 1 + 6] = row_numbers n"
    by (simp add: row_numbers_def Let_def upt_rec [of "6 * n + 1"] upt_rec [of "Suc (Suc (6 * n))"] numeral_eq_Suc)
  ultimately show ?case using Suc by simp
qed simp

text \<open>The parameter of number \<open>6 i + k + 1\<close> is the \<open>k\<close>-th of row \<open>i\<close>.\<close>

lemma batch_param_nth:
  "i < length rows \<Longrightarrow> k < 6 \<Longrightarrow> batch_params rows ! (6 * i + k) = row_params (rows ! i) ! k"
proof (induction rows arbitrary: i)
  case (Cons r rows)
  then show ?case by (cases i) (simp_all add: batch_params_def nth_append)
qed simp

section \<open>The prefetch\<close>

text \<open>
  The deliveries that the consumer has got and whose acknowledgement it has not even queued: the broker hands out
  no more than its prefetch of them on one connection.
\<close>

definition outstanding :: "ingest \<Rightarrow> nat" where
  "outstanding s = length (ig_dels s) + sum_list (map (\<lambda>f. length (snd f)) (ig_flights s))"

definition receives :: "ingest_event \<Rightarrow> bool" where
  "receives ev = (case ev of Turn w \<Rightarrow> (case tn_recv w of Received env \<Rightarrow> True | _ \<Rightarrow> False) | _ \<Rightarrow> False)"

fun prefetch_holds :: "nat \<Rightarrow> ingest_env \<Rightarrow> ingest_event list \<Rightarrow> ingest \<Rightarrow> bool" where
  "prefetch_holds n e [] s = True"
| "prefetch_holds n e (ev # evs) s =
     ((receives ev \<longrightarrow> outstanding s < n) \<and>
      (case ingest_step e ev s of None \<Rightarrow> True | Some t \<Rightarrow> prefetch_holds n e evs t))"

text \<open>A message adds one row at most and sends no batch.\<close>

definition grows :: "ingest \<Rightarrow> ingest \<Rightarrow> bool" where
  "grows s t \<longleftrightarrow> length (ig_dels t) \<le> Suc (length (ig_dels s)) \<and> length (ig_rows t) \<le> Suc (length (ig_rows s)) \<and> ig_flights t = ig_flights s"

definition same_batch :: "ingest \<Rightarrow> ingest \<Rightarrow> bool" where
  "same_batch s t \<longleftrightarrow> ig_dels t = ig_dels s \<and> ig_rows t = ig_rows s \<and> ig_flights t = ig_flights s"

lemma checkThreshold_batch: "lifted (same_batch s) (end_of (checkThreshold e w r s))"
  by (auto simp: checkThreshold_def sensorSnapshot_def refreshSensorCache_def raise_alert_def publish_def same_batch_def Let_def
      split: option.split prod.split)

lemma handleMessage_grows: "lifted (grows s) (end_of (handleMessage e w env s))"
proof (cases "parse_reading (ie_parse e) (ev_body env)")
  case None
  then show ?thesis
    by (auto simp: handleMessage_def handleInvalid_def publish_def settle_def grows_def Let_def split: verdict.split)
next
  case (Some r)
  then show ?thesis
    using checkThreshold_batch [of s e w r]
    by (auto simp: handleMessage_def grows_def same_batch_def split: step_end.splits)
qed

text \<open>What a step does to the buffer and the batches under way.\<close>

definition in_bounds :: "nat \<Rightarrow> ingest \<Rightarrow> bool" where
  "in_bounds n s \<longleftrightarrow> length (ig_dels s) \<le> n \<and> (\<forall>f\<in>set (ig_flights s). length (snd f) \<le> n)"

lemma flush_bounds: "in_bounds n s \<Longrightarrow> in_bounds n (flush_if_due w got s)"
  by (auto simp: in_bounds_def flush_if_due_def flushBatch_def)

lemma issue_frame: "ig_dels (fst (issue_acks brk s)) = ig_dels s" "ig_rows (fst (issue_acks brk s)) = ig_rows s"
  "ig_flights (fst (issue_acks brk s)) = ig_flights s"
  by (simp_all add: issue_acks_def Let_def)

lemma grown_bounds: "in_bounds n s \<Longrightarrow> length (ig_dels s) < n \<Longrightarrow> grows s t \<Longrightarrow> in_bounds n t"
  by (simp add: in_bounds_def grows_def)

lemma receive_bounds:
  assumes "in_bounds n s" and "receives (Turn w) \<Longrightarrow> length (ig_dels s) < n"
  shows "lifted (in_bounds n) (end_of (receive e w s))"
proof (cases "tn_recv w")
  case (Received env)
  then have room: "length (ig_dels s) < n" using assms(2) by (simp add: receives_def)
  have last: "in_bounds n (t\<lparr>ig_last_flush := k\<rparr>) = in_bounds n t" for t k by (simp add: in_bounds_def)
  show ?thesis
    using handleMessage_grows [of s e w env] grown_bounds [OF assms(1) room]
    by (auto simp: receive_def Received last flush_bounds split: step_end.splits)
qed (use assms(1) in \<open>simp_all add: receive_def flush_bounds\<close>)

lemma turn_bounds:
  assumes "in_bounds n s" and "receives (Turn w) \<Longrightarrow> length (ig_dels s) < n"
  shows "lifted (in_bounds n) (one_turn e w s)"
proof -
  let ?s = "if ig_open s then s else s\<lparr>ig_open := True, ig_conn := Suc (ig_conn s)\<rparr>"
  let ?i = "fst (issue_acks (tn_break w) ?s)"
  have i: "in_bounds n ?i" "ig_dels ?i = ig_dels s" using assms(1) by (simp_all add: in_bounds_def issue_frame)
  have r: "lifted (in_bounds n) (end_of (receive e w ?i))" using receive_bounds [OF i(1)] assms(2) i(2) by simp
  have d: "in_bounds n (drop_channel t) = in_bounds n t" for t by (simp add: in_bounds_def drop_channel_def)
  show ?thesis
    using assms(1) i(1) r unfolding one_turn_def Let_def
    by (cases "issue_acks (tn_break w) ?s"; cases "receive e w ?i") (auto simp: d split: bool.split)
qed

lemma step_bounds:
  assumes "in_bounds n s" and "receives ev \<Longrightarrow> outstanding s < n"
  shows "lifted (in_bounds n) (ingest_step e ev s)"
proof (cases ev)
  case (Turn w)
  have "receives (Turn w) \<Longrightarrow> length (ig_dels s) < n" using assms(2) by (simp add: Turn outstanding_def)
  then show ?thesis using turn_bounds [OF assms(1)] by (simp add: Turn)
next
  case (BatchDone i good)
  then show ?thesis
    using assms(1) by (auto simp: in_bounds_def batch_done_def enqueueAcks_def Let_def dest: in_set_takeD in_set_dropD split: prod.split)
qed (use assms(1) in \<open>auto simp: in_bounds_def split: option.split\<close>)

lemma ingest_run_Cons: "ingest_run e (ev # evs) s = Option.bind (ingest_step e ev s) (ingest_run e evs)"
proof -
  have "fold (\<lambda>ev o'. Option.bind o' (ingest_step e ev)) evs None = None" by (induction evs) simp_all
  then show ?thesis by (cases "ingest_step e ev s") (simp_all add: ingest_run_def)
qed

lemma run_bounds:
  "in_bounds n s \<Longrightarrow> prefetch_holds n e evs s \<Longrightarrow> ingest_run e evs s = Some t \<Longrightarrow> in_bounds n t"
proof (induction evs arbitrary: s)
  case (Cons ev evs)
  then obtain u where u: "ingest_step e ev s = Some u" "ingest_run e evs u = Some t"
    by (auto simp: ingest_run_Cons bind_eq_Some_conv)
  then have "in_bounds n u" using step_bounds [OF Cons.prems(1), of ev e] Cons.prems(2) by simp
  then show ?case using Cons.IH u Cons.prems(2) by simp
qed (simp add: ingest_run_def)

text \<open>A turn that receives a message sends a batch only when the buffer has reached the size of a batch.\<close>

lemma busy_turn:
  assumes "one_turn e w s = Some t" and "receives (Turn w)" and "Suc (length (ig_rows s)) < kBatchRows"
  shows "ig_flights t = ig_flights s"
proof -
  obtain env where env: "tn_recv w = Received env" using assms(2) by (auto simp: receives_def split: received.splits)
  let ?s = "if ig_open s then s else s\<lparr>ig_open := True, ig_conn := Suc (ig_conn s)\<rparr>"
  let ?i = "fst (issue_acks (tn_break w) ?s)"
  have i: "ig_rows ?i = ig_rows s" "ig_flights ?i = ig_flights s" by (simp_all add: issue_frame)
  have f: "ig_flights (flush_if_due w True (u\<lparr>ig_last_flush := k\<rparr>)) = ig_flights u" if "grows ?i u" for u k
  proof -
    have "length (ig_rows u) < kBatchRows" using that assms(3) i(1) by (simp add: grows_def)
    then show ?thesis by (simp add: flush_if_due_def flush_due_def)
  qed
  have r: "ig_flights u = ig_flights s" if "end_of (receive e w ?i) = Some u" for u
    using that handleMessage_grows [of ?i e w env] f i(2)
    by (auto simp: receive_def env grows_def split: step_end.splits)
  show ?thesis
    using assms(1) r i(2) unfolding one_turn_def Let_def
    by (cases "issue_acks (tn_break w) ?s"; cases "receive e w ?i") (auto simp: drop_channel_def split: if_splits bool.splits)
qed

text \<open>The prefetch bounds the batches: in every run in which the broker keeps its prefetch of \<open>n\<close> unsettled
  deliveries, no batch has more than \<open>n\<close> rows, its statement has one placeholder for each of its six parameters
  a row, numbered from one without a gap, and with a prefetch below the batch size of 500 (the configuration has
  200, the default is 50) a turn that receives a message never sends a batch: the size that the code gives to a
  batch is never reached, and a batch always waits for 100 ms without a message.\<close>

theorem prefetch_bounds_batches:
  assumes "ingest_run e evs (ingest0 now) = Some s" and "prefetch_holds n e evs (ingest0 now)"
  shows "length (ig_rows s) \<le> n \<and>
    list_all (\<lambda>(rows, dels). length rows \<le> n \<and>
      concat (map row_numbers [0..<length rows]) = [1..<length (batch_params rows) + 1]) (ig_flights s) \<and>
    (\<forall>w t. one_turn e w s = Some t \<and> receives (Turn w) \<and> outstanding s < n \<and> n < kBatchRows \<longrightarrow> ig_flights t = ig_flights s)"
proof -
  have b: "in_bounds n s" using run_bounds [OF _ assms(2,1)] by (simp add: in_bounds_def ingest0_def)
  have "acks_inv (ingest0 now)" by (simp add: acks_inv_def ingest0_def)
  then have a: "acks_inv s" using acks.run_inv assms(1) by blast
  then have l: "length (ig_rows s) = length (ig_dels s)" "\<forall>(rows, dels)\<in>set (ig_flights s). length dels = length rows"
    by (simp_all add: acks_inv_def)
  have "list_all (\<lambda>(rows, dels). length rows \<le> n \<and>
      concat (map row_numbers [0..<length rows]) = [1..<length (batch_params rows) + 1]) (ig_flights s)"
    using b l(2) by (fastforce simp: list_all_iff in_bounds_def batch_numbers batch_params_length)
  moreover have "ig_flights t = ig_flights s"
    if "one_turn e w s = Some t" "receives (Turn w)" "outstanding s < n" "n < kBatchRows" for w t
    using that by (intro busy_turn) (simp_all add: l(1) outstanding_def)
  moreover have "length (ig_rows s) \<le> n" using b l(1) by (simp add: in_bounds_def)
  ultimately show ?thesis by blast
qed

theorem prefetch_bounds_batches_witness:
  "\<exists>s. ingest_run demo_ingest_env demo_run (ingest0 0) = Some s \<and> length (ig_rows s) \<le> 2"
proof -
  have "prefetch_holds 2 demo_ingest_env demo_run (ingest0 0)" by code_simp
  moreover obtain s where s: "ingest_run demo_ingest_env demo_run (ingest0 0) = Some s" by (rule demo_run_obtain)
  ultimately have "length (ig_rows s) \<le> 2" using prefetch_bounds_batches by blast
  then show ?thesis using s by blast
qed

text \<open>A reading with more than ten digits is stored rounded.\<close>

lemma stored_reading:
  assumes "rd_num r = Some v" and "v = 0 \<or> ten_to (- 400) \<le> \<bar>v\<bar> \<and> \<bar>v\<bar> < ten_to 400"
  shows "map_option decimal_value (rp_text (row_params r ! 2)) = Some (ten_digits v) \<and> rp_text (row_params r ! 3) = None"
  using double_text_length [OF assms(2)] assms(1)
  by (simp add: row_params_def SqlArg_double_def SqlArg_string_def SqlArgNull_def double_text_value)

end
