(* ===== verification/Spec2Isabelle.thy ===== *)
theory Spec2Isabelle
  imports Work_Order_Props Integration_Props Perm_Routes Rbac Captcha Auth_Props Audit_Trail Org_Trees Session_Props Quality_Props Ingest_Props Iot_Props
    Collector_Props Ws_Props Metrics_Registry Oee_Props Api_Props Consumers Web_Pipeline Work_Order_Numbers Cpu_Pool Captcha_Svg Collector_Process Row_Views Backend_Process Ingest_Batch
begin

text \<open>
  A manufacturing execution system in C++: a backend on the Drogon framework (\<open>src/mes-backend\<close>, PostgreSQL,
  Redis and RabbitMQ behind it) and a collector that reads machines over Modbus TCP (\<open>src/mes-iot\<close>). This
  library models the services, the message handlers and the collector as HOL functions on records that hold
  their tables, queues and connections, and proves what makes each of them correct, or where it is not.

  \<^bold>\<open>How the parts work together.\<close> A request passes the advice chain of \<open>CrossCutting.cc\<close>: the token is
  checked (\<open>JwtUtils.cc\<close>, blacklist in Redis), the route is looked up in \<open>perm_routes.cc\<close> and the permissions of
  the user are compared (\<open>RbacService.cc\<close>); afterwards it is written to the audit trail. The handler calls a
  service. Services change tables in a transaction and leave messages in the outbox table of the same
  transaction; the dispatcher (\<open>OutboxDispatcher.cc\<close>) publishes them with bounded retries. A completed work
  order queues a stop of collection, which \<open>StopCollectionHandler.cc\<close> relays to the devices of the line; the
  collector's command consumer receives it. Readings go from the pollers over the batch publisher and the
  broker to \<open>DataIngestHandler.cc\<close>, which stores them in batches and raises alerts; alerts are stored by
  \<open>AlertHandler.cc\<close> and pushed to the dashboards over Redis and WebSockets. \<open>OeeService.cc\<close> computes the
  effectiveness of lines from readings, plans, reports and inspections.

  \<^bold>\<open>Conventions.\<close> \<open>Mes_Prelude\<close> holds them. A service function returns \<open>fault + value\<close>, or for the services with
  callbacks a \<open>reply\<close>, whose values say that the success or the error callback was called, that an exception
  left the function, or that nobody was answered. Tables are lists of rows in the order of insertion;
  \<open>UPDATE .. WHERE\<close> is \<open>upd_where\<close>, and the constraints of the migrations (keys, foreign keys, lengths, ranges,
  CHECKs) are conditions of the statement. \<open>transaction\<close> runs a body: an SQL error undoes it, a commit may fail, and
  what happens to a transaction that is only destroyed is a parameter with two readings, \<open>rolls_back\<close> and
  \<open>commits_on_destruction\<close>, because the sources contradict each other. 32-bit arithmetic is int with its range
  (\<open>int32_ok\<close>; a signed overflow is a fault of its own), registers, bytes and hashes are words. Doubles are exact
  rationals, with a value for the ones that are not finite where the code can produce it. Whatever the database,
  Redis, the broker, the clock, the random source, the JSON parser, bcrypt, SHA-256 and the JWT library answer
  is a field of the environment record a step takes, so every theorem holds for all answers unless a
  hypothesis names the documented behaviour it uses.

  \<^bold>\<open>The theories.\<close>

  Work orders (\<open>models/WorkOrderStateMachine.hh\<close>, \<open>utils/ReportRules.hh\<close>, \<open>utils/QcRules.hh\<close>, \<open>utils/IntegRules.hh\<close>,
  \<open>services/WorkOrderService.cc\<close>): \<open>Work_Order_SM\<close> is the table of the eight states and its refinement of the
  intended life cycle; \<open>Business_Rules\<close> the header-only rules; \<open>Work_Orders\<close> the six operations; \<open>Work_Order_Inv\<close> the
  invariant of the tables and its preservation; \<open>Work_Order_Props\<close> the conservation of quantities, the refinement
  of the state machine by whole requests, the branches of the report and the data scopes; \<open>Work_Order_Numbers\<close> that the
  number of a new order is never in the table, in every run. The recursive
  query over departments runs one level for each department, which is enough because a level without a new
  department ends it.

  Foundations (\<open>utils/TimeUtils.hh\<close>, \<open>common/SqlParam.hh\<close>, \<open>utils/CpuOffload.hh\<close>): \<open>Decimals\<close> has decimal texts and their
  order; \<open>Clock\<close> the calendar behind \<open>gmtime\<close>, stated once by division and once by the following day, and the time
  stamps, which sort like the instants; \<open>Sql_Args\<close> the text of every statement parameter, with the ten digits of a
  double, its error and when it is exact; \<open>Cpu_Pool\<close> the pool for bcrypt as a step relation over queue, workers and event
  loop: no job is lost, and the pool drains.

  Messages (\<open>mq/OutboxPolicy.hh\<close>, \<open>mq/OutboxDispatcher.cc\<close>, \<open>mq/MqProducer.cc\<close>): \<open>Outbox\<close> has the table, the retry
  policy and a round of the dispatcher, as a queue contract, a state machine with its invariant, and a
  liveness theorem: the rounds needed are bounded by the retries the rows have left.

  Integration (\<open>utils/CircuitBreaker.hh\<close>, \<open>services/IntegrationService.cc\<close>): \<open>Circuit_Breaker\<close> states the contract of a
  breaker and interprets it on the code's; \<open>Integration\<close> and \<open>Integration_Props\<close> have the outgoing call with its
  attempts, the completion saga with its compensation, the conversion of orders and the replay of logs.

  Access (\<open>middlewares/perm_routes.cc\<close>, \<open>services/RbacService.cc\<close>, \<open>utils/JwtUtils.cc\<close>, \<open>utils/Captcha.hh\<close>,
  \<open>services/AuthService.cc\<close>, \<open>middlewares/CrossCutting.cc\<close>, \<open>utils/AuditMask.hh\<close>): \<open>Path_Patterns\<close> is \<open>toRegex\<close> with a
  small matcher for the expressions it produces; \<open>Perm_Routes\<close> the table; \<open>Rbac\<close> permissions, scopes, caches and the
  single flight of loads; \<open>Jwt_Tokens\<close>, \<open>Captcha\<close>, \<open>Captcha_Svg\<close> (the picture, element by element in its buffers), \<open>Auth\<close>, \<open>Auth_Props\<close> tokens, login, refresh and lock-out in every
  run; \<open>Access_Control\<close> the chain; \<open>Audit_Trail\<close> the audit buffer and the masking. The loop of \<open>toRegex\<close> takes the
  length of the pattern as its bound; a pattern on which the code does not end is None.

  Organisation (\<open>services/SystemService.cc\<close>, \<open>controllers/UserController.cc\<close>): \<open>Org_Trees\<close>, \<open>Org_Admin\<close>, \<open>Org_Roles\<close> the
  operations on users, roles, departments and permissions; \<open>Org_Props\<close> the well-formedness of the tables in every
  run together with the logins, and the races; \<open>Session_Props\<close> what a removed user can still do.

  Quality (\<open>services/QcService.cc\<close>): \<open>Quality\<close>, \<open>Quality_Props\<close>: inspections with defects, disposition, statistics.

  Production and effectiveness (\<open>services/ProductionService.cc\<close>, \<open>services/OeeService.cc\<close>): \<open>Production\<close> the master data
  and plans, \<open>Oee\<close> the factors, the aggregation and the stored rows; \<open>Production_Props\<close> states as a locale what a
  statement does to the tables and proves once that every request keeps what the statements keep;
  \<open>Oee_Props\<close> the range of the factors, the repetition of a recalculation, and that no plan the service can make
  is ever counted.

  Devices (\<open>services/IotService.cc\<close>, \<open>mq/DataIngestHandler.cc\<close>, \<open>mq/AlertHandler.cc\<close>, \<open>mq/DeviceMonitor.cc\<close>,
  \<open>mq/StopCollectionHandler.cc\<close>): \<open>Request_Data\<close> the conversions and paging the services share; \<open>Data_Ingest\<close> and
  \<open>Ingest_Props\<close> the consumer turn by turn, with two invariants over one locale; \<open>Ingest_Batch\<close> the statement of
  a batch and the bound that the broker's prefetch puts on its size; \<open>Iot_Devices\<close>, \<open>Iot_Operations\<close>,
  \<open>Iot_Props\<close> devices, history, alerts, tasks, commands, the monitor and the relay as interleavings of answers;
  \<open>Consumers\<close> the loops of the consumers of stop messages and of alerts, turn by turn, with the broker's
  prefetch as a hypothesis on a run.

  Live data and metrics (\<open>websocket/WsBroadcastManager.cc\<close>, \<open>controllers/WsController.cc\<close>, \<open>utils/Metrics.hh\<close>,
  \<open>metrics/MetricsCollector.cc\<close>): \<open>Ws_Broadcast\<close>, \<open>Ws_Props\<close> subscriptions, the pending buffer, Redis and the election
  as a step relation over two instances and more; \<open>Metrics_Registry\<close> the registry against a direct count.

  Collector (\<open>mes-iot/src\<close>): \<open>Modbus_Client\<close> requests and replies byte by byte over pieces of a stream;
  \<open>Config_Loader\<close>, \<open>Device_Poller\<close>, \<open>Poller_Props\<close> the configuration, the merged frames, the values and the
  reconnection; \<open>Collector\<close>, \<open>Collector_Props\<close> commands, the publisher, the start, and the collector against the
  backend of this repository; \<open>Collector_Process\<close> the settings, the health probe and the shutdown of the process;
  \<open>Row_Views\<close> the rows the clients read, and what the collector would make of a sensor. A run of a poller is a fold over its iterations, so no fuel is needed.

  Requests (\<open>controllers/*.cc\<close>, \<open>controllers/Common.hh\<close>): \<open>Api_Common\<close> has the readers of parameters and bodies, the
  caller and the responses; \<open>Api_Iot\<close>, \<open>Api_System\<close>, \<open>Api_Production\<close> one definition for each handler, which is what
  the handler passes to its service or answers itself, and the lists of routes; \<open>Api_Props\<close> compares the routes
  with the permission table and follows a request on work orders from the token to the tables. The router of
  the framework is a parameter, \<open>routed\<close> its documented behaviour. \<open>Web_Pipeline\<close> is what surrounds a handler
  (\<open>common/ApiResponse.hh\<close>, the error handlers of \<open>main.cc\<close>, the advices of \<open>CrossCutting.cc\<close>): the envelope,
  trace ids, audit and metrics of a whole request. \<open>Backend_Process\<close> is the start of the backend: what every part
  reads of the broker's file, the order of the parts, their timers and queues.

  \<^bold>\<open>Kinds of lemma.\<close> For each component: what an operation returns and changes on every branch; an invariant and
  its preservation by each operation, lifted to all runs by the locale \<open>step_invariant\<close> (or \<open>step_monotone\<close> for
  what only grows); refinement or equivalence with a reference definition where there is one; bounds; and
  concrete instances that evaluate the definitions.

  \<^bold>\<open>Not modelled.\<close> The serialisation of JSON (a parsed document is a \<open>json\<close> value, a text is what the parser or
  the printer parameter gives), log output and CORS headers: pure output. The instants at which timers fire and
  the scheduling of threads: a run is any sequence of steps. The binary rounding of doubles: a quantity is exact
  until it is sent as a parameter. Time stamp columns are kept only where the code reads them back. The bcrypt
  sources are third-party code. The web clients, the migrations and the scripts are in other languages. The
  Chinese messages are ASCII glosses.
\<close>

end
